(* ===== verification/Prelude.thy ===== *)
theory Prelude
  imports Main "HOL-Library.Word" "HOL-Library.Char_ord" "HOL-Library.List_Lexorder"
    "HOL-Library.Product_Lexorder" "HOL-Library.Multiset"
begin

text \<open>
  Shared vocabulary of the development: errors as sums with a bind that follows the source's
  question-mark operator, machine-integer widths, the string helpers of the Rust standard library
  that the sources call (\<open>strip_prefix\<close>, \<open>split\<close>, \<open>trim\<close>, ASCII character classes), and relational
  tables as lists of rows with the three SQL statements the repository uses (keyed lookup, guarded
  update, counting).  Strings are byte strings: every predicate of the sources that is modelled
  here works on \<open>str::bytes\<close> or on ASCII separators.
\<close>

named_theorems table_simps
named_theorems result_simps

section \<open>Machine integers\<close>

type_synonym u16 = "16 word"
type_synonym u32 = "32 word"
type_synonym u64 = "64 word"

text \<open>Instants and durations are integral numbers of microseconds, the resolution of TIMESTAMPTZ.\<close>

type_synonym instant = int
type_synonym duration = int

section \<open>Results\<close>

definition bind_result :: "'e + 'a \<Rightarrow> ('a \<Rightarrow> 'e + 'b) \<Rightarrow> 'e + 'b" where
  "bind_result r f = (case r of Inl e \<Rightarrow> Inl e | Inr x \<Rightarrow> f x)"

definition is_ok :: "'e + 'a \<Rightarrow> bool" where
  "is_ok r = (case r of Inl _ \<Rightarrow> False | Inr _ \<Rightarrow> True)"

definition ok_or :: "'a option \<Rightarrow> 'e \<Rightarrow> 'e + 'a" where
  "ok_or v e = (case v of None \<Rightarrow> Inl e | Some x \<Rightarrow> Inr x)"

definition ensure :: "bool \<Rightarrow> 'e \<Rightarrow> 'e + unit" where
  "ensure b e = (if b then Inr () else Inl e)"

lemma bind_result_Inl [simp, result_simps]: "bind_result (Inl e) f = Inl e"
  by (simp add: bind_result_def)

lemma bind_result_Inr [simp, result_simps]: "bind_result (Inr x) f = f x"
  by (simp add: bind_result_def)

lemma bind_result_eq_Inr: "bind_result r f = Inr y \<longleftrightarrow> (\<exists>x. r = Inr x \<and> f x = Inr y)"
  by (cases r) auto

lemma bind_result_eq_Inl:
  "bind_result r f = Inl e \<longleftrightarrow> r = Inl e \<or> (\<exists>x. r = Inr x \<and> f x = Inl e)"
  by (cases r) auto

lemma is_ok_simps [simp]: "is_ok (Inr x)" "\<not> is_ok (Inl e)"
  by (simp_all add: is_ok_def)

lemma is_ok_iff: "is_ok r \<longleftrightarrow> (\<exists>x. r = Inr x)"
  by (cases r) auto

lemma ok_or_simps [simp]: "ok_or None e = Inl e" "ok_or (Some x) e = Inr x"
  by (simp_all add: ok_or_def)

lemma ok_or_eq_Inr [simp]: "ok_or v e = Inr x \<longleftrightarrow> v = Some x"
  by (cases v) auto

lemma ensure_eq_Inr [simp]: "ensure b e = Inr u \<longleftrightarrow> b"
  by (simp add: ensure_def)

lemma ensure_simps [simp]: "b \<Longrightarrow> ensure b e = Inr ()" "\<not> b \<Longrightarrow> ensure b e = Inl e"
  by (simp_all add: ensure_def)

lemmas result_inv = bind_result_eq_Inr ok_or_eq_Inr ensure_eq_Inr

section \<open>Strings\<close>

definition strip_prefix :: "string \<Rightarrow> string \<Rightarrow> string option" where
  "strip_prefix p s = (if take (length p) s = p then Some (drop (length p) s) else None)"

lemma strip_prefix_append [simp]: "strip_prefix p (p @ s) = Some s"
  by (simp add: strip_prefix_def)

lemma strip_prefix_SomeD: "strip_prefix p s = Some t \<Longrightarrow> s = p @ t"
  by (metis append_take_drop_id option.discI option.inject strip_prefix_def)

lemma strip_prefix_eq_Some: "strip_prefix p s = Some t \<longleftrightarrow> s = p @ t"
  using strip_prefix_SomeD by auto

fun split_char :: "char \<Rightarrow> string \<Rightarrow> string list" where
  "split_char c [] = [[]]"
| "split_char c (x # xs) =
     (if x = c then [] # split_char c xs
      else (case split_char c xs of [] \<Rightarrow> [[x]] | t # ts \<Rightarrow> (x # t) # ts))"

lemma split_char_not_Nil [simp]: "split_char c s \<noteq> []"
  by (induction s) (auto split: list.splits)

lemma split_char_free: "c \<notin> set t \<Longrightarrow> split_char c t = [t]"
  by (induction t) auto

lemma split_char_append:
  "c \<notin> set t \<Longrightarrow> split_char c (t @ c # s) = t # split_char c s"
  by (induction t) auto

fun join_char :: "char \<Rightarrow> string list \<Rightarrow> string" where
  "join_char c [] = []"
| "join_char c [t] = t"
| "join_char c (t # ts) = t @ c # join_char c ts"

lemma join_char_split [simp]: "join_char c (split_char c s) = s"
proof (induction s)
  case Nil
  then show ?case by simp
next
  case (Cons x xs)
  then show ?case
    by (cases "split_char c xs"; cases "tl (split_char c xs)") (auto split: list.splits)
qed

lemma split_char_tokens_free: "t \<in> set (split_char c s) \<Longrightarrow> c \<notin> set t"
  by (induction s arbitrary: t) (auto split: list.splits if_splits)

definition ascii_code :: "char \<Rightarrow> nat" where
  "ascii_code c = of_char c"

definition is_ascii_digit :: "char \<Rightarrow> bool" where
  "is_ascii_digit c \<longleftrightarrow> 48 \<le> ascii_code c \<and> ascii_code c \<le> 57"

definition is_ascii_alphanumeric :: "char \<Rightarrow> bool" where
  "is_ascii_alphanumeric c \<longleftrightarrow> is_ascii_digit c
     \<or> (65 \<le> ascii_code c \<and> ascii_code c \<le> 90) \<or> (97 \<le> ascii_code c \<and> ascii_code c \<le> 122)"

definition is_ascii_control :: "char \<Rightarrow> bool" where
  "is_ascii_control c \<longleftrightarrow> ascii_code c \<le> 31 \<or> ascii_code c = 127"

text \<open>\<open>u8::is_ascii_whitespace\<close>: space, tab, line feed, form feed and carriage return.\<close>

definition is_ascii_whitespace :: "char \<Rightarrow> bool" where
  "is_ascii_whitespace c \<longleftrightarrow> ascii_code c \<in> {32, 9, 10, 12, 13}"

text \<open>
  \<open>str::trim\<close> removes Unicode white space; on the ASCII range that is the space and the control
  characters 9 to 13.
\<close>

definition is_trimmed_char :: "char \<Rightarrow> bool" where
  "is_trimmed_char c \<longleftrightarrow> ascii_code c = 32 \<or> (9 \<le> ascii_code c \<and> ascii_code c \<le> 13)"

definition is_blank :: "string \<Rightarrow> bool" where
  "is_blank s \<longleftrightarrow> list_all is_trimmed_char s"

text \<open>Decimal rendering of unsigned integers, as \<open>Display\<close> prints them.\<close>

fun show_nat :: "nat \<Rightarrow> string" where
  "show_nat n = (if n < 10 then [char_of (48 + n)] else show_nat (n div 10) @ [char_of (48 + n mod 10)])"

declare show_nat.simps [simp del]

lemma show_nat_not_Nil [simp]: "show_nat n \<noteq> []"
  by (subst show_nat.simps) simp

lemma digit_char_inj: "a < 10 \<Longrightarrow> b < 10 \<Longrightarrow> (char_of (48 + a) = (char_of (48 + b) :: char)) = (a = b)"
  for a b :: nat
  by (simp add: char_of_eq_iff of_char_of take_bit_eq_mod)

lemma show_nat_digits: "c \<in> set (show_nat n) \<Longrightarrow> is_ascii_digit c"
proof (induction n rule: show_nat.induct)
  case (1 n)
  then show ?case
    by (cases "n < 10")
      (auto simp: show_nat.simps [of n] is_ascii_digit_def ascii_code_def of_char_of)
qed

lemma show_nat_inj: "show_nat m = show_nat n \<Longrightarrow> m = n"
proof (induction m arbitrary: n rule: show_nat.induct)
  case (1 m)
  have len1: "length (show_nat k) = 1 \<longleftrightarrow> k < 10" for k
    by (subst show_nat.simps) auto
  show ?case
  proof (cases "m < 10")
    case True
    with len1 [of m] len1 [of n] "1.prems" have n: "n < 10" by simp
    with True "1.prems" show ?thesis
      by (simp add: show_nat.simps [of m] show_nat.simps [of n] digit_char_inj)
  next
    case False
    with len1 [of m] len1 [of n] "1.prems" have n: "\<not> n < 10" by simp
    with False "1.prems" have eq: "show_nat (m div 10) = show_nat (n div 10)"
      and d: "m mod 10 = n mod 10"
      by (auto simp: show_nat.simps [of m] show_nat.simps [of n] digit_char_inj)
    from "1.IH" [OF False eq] d show ?thesis by (metis div_mult_mod_eq)
  qed
qed

section \<open>Tables\<close>

text \<open>
  A relational table is the list of its rows.  \<open>select_one\<close> is a SELECT with at most one expected
  row, \<open>update_rows\<close> an UPDATE with a WHERE clause, \<open>count_rows\<close> a \<open>count(*)\<close>.
\<close>

definition select_one :: "('r \<Rightarrow> bool) \<Rightarrow> 'r list \<Rightarrow> 'r option" where
  "select_one p rs = find p rs"

definition fetch_optional :: "'r list \<Rightarrow> 'r option" where
  "fetch_optional rs = (case rs of [] \<Rightarrow> None | r # _ \<Rightarrow> Some r)"

definition update_rows :: "('r \<Rightarrow> bool) \<Rightarrow> ('r \<Rightarrow> 'r) \<Rightarrow> 'r list \<Rightarrow> 'r list" where
  "update_rows p f rs = map (\<lambda>r. if p r then f r else r) rs"

definition count_rows :: "('r \<Rightarrow> bool) \<Rightarrow> 'r list \<Rightarrow> nat" where
  "count_rows p rs = length (filter p rs)"

lemma select_one_SomeD: "select_one p rs = Some r \<Longrightarrow> r \<in> set rs \<and> p r"
  by (auto simp: select_one_def find_Some_iff)

lemma select_one_NoneD: "select_one p rs = None \<Longrightarrow> r \<in> set rs \<Longrightarrow> \<not> p r"
  by (auto simp: select_one_def find_None_iff)

lemma select_one_None_iff: "select_one p rs = None \<longleftrightarrow> (\<forall>r \<in> set rs. \<not> p r)"
  by (auto simp: select_one_def find_None_iff)

lemma select_one_Cons [simp]:
  "select_one p (r # rs) = (if p r then Some r else select_one p rs)"
  by (simp add: select_one_def)

lemma select_one_Nil [simp]: "select_one p [] = None"
  by (simp add: select_one_def)

lemma update_rows_simps [simp]:
  "update_rows p f [] = []"
  "update_rows p f (r # rs) = (if p r then f r else r) # update_rows p f rs"
  by (simp_all add: update_rows_def)

lemma set_update_rows: "set (update_rows p f rs) = {if p r then f r else r |r. r \<in> set rs}"
  by (auto simp: update_rows_def)

lemma in_update_rowsE:
  assumes "r' \<in> set (update_rows p f rs)"
  obtains (same) "r' \<in> set rs" "\<not> p r'" | (changed) r where "r \<in> set rs" "p r" "r' = f r"
  using assms by (auto simp: set_update_rows split: if_splits)

lemma map_update_rows:
  "(\<And>r. k (f r) = k r) \<Longrightarrow> map k (update_rows p f rs) = map k rs"
  by (simp add: update_rows_def)

lemma count_rows_simps [simp]:
  "count_rows p [] = 0"
  "count_rows p (r # rs) = (if p r then Suc (count_rows p rs) else count_rows p rs)"
  by (simp_all add: count_rows_def)

lemma count_rows_append [simp]: "count_rows p (rs @ ss) = count_rows p rs + count_rows p ss"
  by (simp add: count_rows_def)

lemma count_rows_zero: "(\<And>r. r \<in> set rs \<Longrightarrow> \<not> p r) \<Longrightarrow> count_rows p rs = 0"
  by (simp add: count_rows_def)

lemma count_rows_le: "(\<And>r. r \<in> set rs \<Longrightarrow> p r \<Longrightarrow> q r) \<Longrightarrow> count_rows p rs \<le> count_rows q rs"
  by (induction rs) auto

lemma count_rows_update_frame:
  "(\<And>r. r \<in> set rs \<Longrightarrow> p r \<Longrightarrow> q (f r) = q r) \<Longrightarrow> count_rows q (update_rows p f rs) = count_rows q rs"
  by (induction rs) auto

text \<open>Rows are identified by a key; a lookup by key finds the only row that has it.\<close>

lemma select_one_key:
  assumes "distinct (map k rs)" and "r \<in> set rs"
  shows "select_one (\<lambda>x. k x = k r) rs = Some r"
  using assms by (induction rs) (auto simp: rev_image_eqI)

lemma distinct_key_eq:
  "distinct (map k rs) \<Longrightarrow> r \<in> set rs \<Longrightarrow> s \<in> set rs \<Longrightarrow> k r = k s \<Longrightarrow> r = s"
  by (induction rs) (auto simp: rev_image_eqI)

text \<open>An update of the one row a key selects changes a count by what that row contributes.\<close>

lemma count_rows_update_key:
  assumes "distinct (map k rs)" and "r \<in> set rs" and "p r"
    and "\<And>x. x \<in> set rs \<Longrightarrow> p x \<Longrightarrow> k x = k r"
  shows "count_rows q (update_rows p f rs) + (if q r then 1 else 0)
       = count_rows q rs + (if q (f r) then 1 else 0)"
  using assms
proof (induction rs)
  case Nil
  then show ?case by simp
next
  case (Cons a rs)
  show ?case
  proof (cases "a = r")
    case True
    have "\<not> p x" if "x \<in> set rs" for x
    proof
      assume "p x"
      with Cons.prems(4) that have "k x = k r" by simp
      with that True Cons.prems(1) show False by (auto simp: rev_image_eqI)
    qed
    then have "count_rows q (update_rows p f rs) = count_rows q rs"
      by (intro count_rows_update_frame) auto
    with True Cons.prems(3) show ?thesis by auto
  next
    case False
    with Cons.prems have r: "r \<in> set rs" by auto
    have a: "\<not> p a"
      using Cons.prems(1,4) r by (auto simp: rev_image_eqI)
    have ih: "count_rows q (update_rows p f rs) + (if q r then 1 else 0)
        = count_rows q rs + (if q (f r) then 1 else 0)"
    proof (rule Cons.IH)
      show "distinct (map k rs)" using Cons.prems(1) by simp
      show "k x = k r" if "x \<in> set rs" "p x" for x using Cons.prems(4) [of x] that by simp
    qed (use r Cons.prems(3) in simp_all)
    have "count_rows q (update_rows p f (a # rs)) = (if q a then 1 else 0) + count_rows q (update_rows p f rs)"
      and "count_rows q (a # rs) = (if q a then 1 else 0) + count_rows q rs"
      using a by simp_all
    with ih show ?thesis by linarith
  qed
qed

lemma select_one_update_key:
  assumes "\<And>r. k (f r) = k r"
  shows "select_one (\<lambda>x. k x = v) (update_rows p f rs)
       = map_option (\<lambda>r. if p r then f r else r) (select_one (\<lambda>x. k x = v) rs)"
  using assms by (induction rs) auto

lemmas table_inv = select_one_SomeD select_one_NoneD

end
