(* ===== verification/State_Machine.thy ===== *)
theory State_Machine
  imports Prelude
begin

text \<open>
  The job lifecycle of \<open>crates/contracts/src/state_machine.rs\<close>: the states and outcomes, the
  evidence a transition carries, \<open>validate_transition\<close> with every error it returns, and what the
  lifecycle guarantees: it implements the edge relation of the architecture document, terminal
  states are final and reached only through artifact collection and cleanup, and every run is
  bounded.
\<close>

section \<open>Data\<close>

datatype JobOutcome = Passed | Failed | Cancelled | TimedOut | InfraFailed

datatype JobState =
    Queued | Claimed | ProvisioningRuntime | Booting | InstallingApk | RunningTests
  | DebugAvailable | CollectingArtifacts | CleaningUp
  | Passed | Failed | Cancelled | TimedOut | InfraFailed

record TransitionEvidence =
  pending_outcome :: "JobOutcome option"
  artifacts_finalized :: bool
  cleanup_completed :: bool

datatype TransitionError =
    InvalidTransition JobState JobState
  | MissingPendingOutcome JobState JobState
  | OutcomeNotAllowed JobState JobOutcome
  | ArtifactsNotFinalized
  | CleanupNotCompleted
  | TerminalOutcomeMismatch JobOutcome JobState

section \<open>Operations\<close>

fun is_terminal :: "JobState \<Rightarrow> bool" where
  "is_terminal JobState.Passed = True"
| "is_terminal JobState.Failed = True"
| "is_terminal JobState.Cancelled = True"
| "is_terminal JobState.TimedOut = True"
| "is_terminal JobState.InfraFailed = True"
| "is_terminal _ = False"

fun terminal_outcome :: "JobState \<Rightarrow> JobOutcome option" where
  "terminal_outcome JobState.Passed = Some JobOutcome.Passed"
| "terminal_outcome JobState.Failed = Some JobOutcome.Failed"
| "terminal_outcome JobState.Cancelled = Some JobOutcome.Cancelled"
| "terminal_outcome JobState.TimedOut = Some JobOutcome.TimedOut"
| "terminal_outcome JobState.InfraFailed = Some JobOutcome.InfraFailed"
| "terminal_outcome _ = None"

definition require_pending_outcome ::
  "JobState \<Rightarrow> JobState \<Rightarrow> TransitionEvidence \<Rightarrow> TransitionError + JobOutcome" where
  "require_pending_outcome from to evidence =
     ok_or (pending_outcome evidence) (MissingPendingOutcome from to)"

fun early_outcome_allowed :: "JobState \<Rightarrow> JobOutcome \<Rightarrow> bool" where
  "early_outcome_allowed Queued outcome = (outcome \<in> {JobOutcome.Cancelled, JobOutcome.TimedOut})"
| "early_outcome_allowed Claimed outcome =
     (outcome \<in> {JobOutcome.Cancelled, JobOutcome.TimedOut, JobOutcome.InfraFailed})"
| "early_outcome_allowed ProvisioningRuntime outcome =
     (outcome \<in> {JobOutcome.Cancelled, JobOutcome.TimedOut, JobOutcome.InfraFailed})"
| "early_outcome_allowed Booting outcome =
     (outcome \<in> {JobOutcome.Cancelled, JobOutcome.TimedOut, JobOutcome.InfraFailed})"
| "early_outcome_allowed InstallingApk outcome =
     (outcome \<in> {JobOutcome.Failed, JobOutcome.Cancelled, JobOutcome.TimedOut, JobOutcome.InfraFailed})"
| "early_outcome_allowed _ outcome = False"

definition transition_match ::
  "JobState \<Rightarrow> JobState \<Rightarrow> TransitionEvidence \<Rightarrow> TransitionError + unit" where
  "transition_match from to evidence =
     (if (from, to) \<in> {(Queued, Claimed), (Claimed, ProvisioningRuntime),
           (ProvisioningRuntime, Booting), (Booting, InstallingApk), (InstallingApk, RunningTests)}
      then Inr ()
      else if from = RunningTests \<and> to = DebugAvailable
      then bind_result (require_pending_outcome from to evidence) (\<lambda>_. Inr ())
      else if from \<in> {RunningTests, DebugAvailable} \<and> to = CollectingArtifacts
      then bind_result (require_pending_outcome from to evidence) (\<lambda>_. Inr ())
      else if from \<in> {Queued, Claimed, ProvisioningRuntime, Booting, InstallingApk}
            \<and> to = CollectingArtifacts
      then bind_result (require_pending_outcome from to evidence)
             (\<lambda>outcome. if early_outcome_allowed from outcome then Inr ()
                        else Inl (OutcomeNotAllowed from outcome))
      else if from = CollectingArtifacts \<and> to = CleaningUp
      then (if artifacts_finalized evidence then Inr () else Inl ArtifactsNotFinalized)
      else if from = CleaningUp \<and> is_terminal to
      then (if \<not> cleanup_completed evidence then Inl CleanupNotCompleted
            else bind_result (require_pending_outcome from to evidence)
                   (\<lambda>pending. if terminal_outcome to = Some pending then Inr ()
                              else Inl (TerminalOutcomeMismatch pending to)))
      else Inl (InvalidTransition from to))"

definition validate_transition ::
  "JobState \<Rightarrow> JobState \<Rightarrow> TransitionEvidence \<Rightarrow> TransitionError + unit" where
  "validate_transition from to evidence =
     (if is_terminal from \<or> (is_terminal to \<and> from \<noteq> CleaningUp)
      then Inl (InvalidTransition from to)
      else transition_match from to evidence)"

definition can_transition :: "JobState \<Rightarrow> JobState \<Rightarrow> TransitionEvidence \<Rightarrow> bool" where
  "can_transition from to evidence = is_ok (validate_transition from to evidence)"

section \<open>The lifecycle as a relation\<close>

text \<open>
  The abstract lifecycle: the happy-path spine, early exits into artifact collection with an
  outcome the source state may produce, and the finalisation tail.
\<close>

inductive lifecycle_edge :: "JobState \<Rightarrow> JobState \<Rightarrow> TransitionEvidence \<Rightarrow> bool" where
  claim: "lifecycle_edge Queued Claimed e"
| provision: "lifecycle_edge Claimed ProvisioningRuntime e"
| boot: "lifecycle_edge ProvisioningRuntime Booting e"
| install: "lifecycle_edge Booting InstallingApk e"
| run: "lifecycle_edge InstallingApk RunningTests e"
| hold: "pending_outcome e \<noteq> None \<Longrightarrow> lifecycle_edge RunningTests DebugAvailable e"
| collect: "pending_outcome e \<noteq> None \<Longrightarrow> s \<in> {RunningTests, DebugAvailable} \<Longrightarrow>
    lifecycle_edge s CollectingArtifacts e"
| early: "pending_outcome e = Some out \<Longrightarrow> early_outcome_allowed s out \<Longrightarrow>
    lifecycle_edge s CollectingArtifacts e"
| clean: "artifacts_finalized e \<Longrightarrow> lifecycle_edge CollectingArtifacts CleaningUp e"
| finish: "cleanup_completed e \<Longrightarrow> pending_outcome e = Some out \<Longrightarrow> terminal_outcome t = Some out \<Longrightarrow>
    lifecycle_edge CleaningUp t e"

inductive_cases lifecycle_edgeE: "lifecycle_edge s t e"

lemma terminal_outcome_iff: "(terminal_outcome s \<noteq> None) = is_terminal s"
  by (cases s) simp_all

lemma terminal_outcome_Some_terminal: "terminal_outcome s = Some out \<Longrightarrow> is_terminal s"
  by (cases s) simp_all

lemma terminal_outcome_inj:
  "terminal_outcome s = Some out \<Longrightarrow> terminal_outcome t = Some out \<Longrightarrow> s = t"
  by (cases s; cases t) simp_all

lemma early_outcome_allowed_source:
  "early_outcome_allowed s out \<Longrightarrow> s \<in> {Queued, Claimed, ProvisioningRuntime, Booting, InstallingApk}"
  by (cases s) simp_all

lemmas transition_defs = validate_transition_def transition_match_def require_pending_outcome_def

lemma lifecycle_edge_valid: "lifecycle_edge s t e \<Longrightarrow> validate_transition s t e = Inr ()"
proof (induction rule: lifecycle_edge.induct)
  case (early e out s)
  then show ?case by (cases s) (simp_all add: transition_defs)
next
  case (finish e out t)
  then show ?case by (cases t) (simp_all add: transition_defs)
qed (auto simp: transition_defs)

lemma transition_match_edge:
  assumes "transition_match s t e = Inr ()"
  shows "lifecycle_edge s t e"
  using assms
  by (auto simp: transition_match_def require_pending_outcome_def result_inv
      split: if_splits intro: lifecycle_edge.intros)

lemma validate_transition_ok_iff:
  "validate_transition s t e = Inr () \<longleftrightarrow> lifecycle_edge s t e"
proof
  assume "validate_transition s t e = Inr ()"
  then have "transition_match s t e = Inr ()" by (simp add: validate_transition_def split: if_splits)
  then show "lifecycle_edge s t e" by (rule transition_match_edge)
qed (rule lifecycle_edge_valid)

lemma can_transition_iff: "can_transition s t e \<longleftrightarrow> lifecycle_edge s t e"
  using validate_transition_ok_iff by (auto simp: can_transition_def is_ok_iff)

section \<open>Progress\<close>

text \<open>Every permitted edge moves the job to a strictly later phase; there are ten phases.\<close>

fun phase :: "JobState \<Rightarrow> nat" where
  "phase Queued = 0"
| "phase Claimed = 1"
| "phase ProvisioningRuntime = 2"
| "phase Booting = 3"
| "phase InstallingApk = 4"
| "phase RunningTests = 5"
| "phase DebugAvailable = 6"
| "phase CollectingArtifacts = 7"
| "phase CleaningUp = 8"
| "phase _ = 9"

lemma phase_le_9: "phase s \<le> 9"
  by (cases s) simp_all

lemma terminal_phase: "is_terminal s \<Longrightarrow> phase s = 9"
  by (cases s) simp_all

lemma lifecycle_edge_phase: "lifecycle_edge s t e \<Longrightarrow> phase s < phase t"
proof (induction rule: lifecycle_edge.induct)
  case (early e out s)
  then show ?case using early_outcome_allowed_source by fastforce
next
  case (finish e out t)
  then show ?case using terminal_outcome_Some_terminal terminal_phase by fastforce
qed auto

text \<open>A run applies validated transitions one after the other and stops at the first error.\<close>

fun run_transitions ::
  "JobState \<Rightarrow> (JobState \<times> TransitionEvidence) list \<Rightarrow> TransitionError + JobState" where
  "run_transitions s [] = Inr s"
| "run_transitions s ((t, e) # rest) =
     bind_result (validate_transition s t e) (\<lambda>_. run_transitions t rest)"

lemma run_transitions_phase:
  "run_transitions s ts = Inr t \<Longrightarrow> phase s + length ts \<le> phase t"
proof (induction s ts rule: run_transitions.induct)
  case (2 s t' e rest)
  then show ?case
    using lifecycle_edge_phase [of s t' e] by (auto simp: result_inv validate_transition_ok_iff)
qed simp

lemma run_transitions_last:
  assumes "run_transitions s (ts @ [(t, e)]) = Inr t'"
  shows "t' = t \<and> (\<exists>u. run_transitions s ts = Inr u \<and> lifecycle_edge u t e)"
  using assms
  by (induction s ts rule: run_transitions.induct) (auto simp: result_inv validate_transition_ok_iff)

lemma edge_into_terminal:
  "lifecycle_edge s t e \<Longrightarrow> is_terminal t \<Longrightarrow>
     s = CleaningUp \<and> cleanup_completed e \<and> terminal_outcome t = pending_outcome e"
  by (auto elim!: lifecycle_edgeE)

lemma edge_into_cleanup:
  "lifecycle_edge s CleaningUp e \<Longrightarrow> s = CollectingArtifacts \<and> artifacts_finalized e"
  by (auto elim!: lifecycle_edgeE)

lemma edge_into_collecting:
  "lifecycle_edge s CollectingArtifacts e \<Longrightarrow> pending_outcome e \<noteq> None"
  by (auto elim!: lifecycle_edgeE)

lemma lifecycle_not_from_terminal: "lifecycle_edge s t e \<Longrightarrow> \<not> is_terminal s"
  by (auto elim!: lifecycle_edgeE dest!: early_outcome_allowed_source)

section \<open>Properties\<close>


text \<open>
  A run of validated transitions from \<open>Queued\<close> that ends in a terminal state ends with the
  two finalisation edges: artifacts were finalised on the edge into cleanup, cleanup was completed
  on the last edge, and the terminal state is the one of the pending outcome it carries.  The run
  has at most nine transitions.
\<close>

theorem terminal_only_through_finalisation:
  assumes run: "run_transitions Queued ts = Inr t" and "is_terminal t"
  shows "\<exists>pre e1 e2. ts = pre @ [(CleaningUp, e1), (t, e2)]
           \<and> run_transitions Queued pre = Inr CollectingArtifacts
           \<and> artifacts_finalized e1 \<and> cleanup_completed e2
           \<and> terminal_outcome t = pending_outcome e2 \<and> length ts \<le> 9"
proof -
  have len: "length ts \<le> 9"
    using run_transitions_phase [OF run] phase_le_9 [of t] by simp
  from assms have "ts \<noteq> []" by auto
  then obtain us t1 e2 where ts: "ts = us @ [(t1, e2)]" by (metis prod.exhaust rev_exhaust)
  with run run_transitions_last [of Queued us t1 e2 t] obtain u
    where t1: "t1 = t" and u: "run_transitions Queued us = Inr u" and "lifecycle_edge u t e2"
    by auto
  with \<open>is_terminal t\<close> edge_into_terminal have uc: "u = CleaningUp"
    and e2: "cleanup_completed e2" "terminal_outcome t = pending_outcome e2" by blast+
  with u have "us \<noteq> []" by auto
  then obtain pre t2 e1 where us: "us = pre @ [(t2, e1)]" by (metis prod.exhaust rev_exhaust)
  with u uc run_transitions_last [of Queued pre t2 e1 CleaningUp] obtain v
    where "t2 = CleaningUp" and v: "run_transitions Queued pre = Inr v" and "lifecycle_edge v CleaningUp e1"
    by auto
  with edge_into_cleanup have "v = CollectingArtifacts" "artifacts_finalized e1" by blast+
  with ts us t1 v e2 len \<open>t2 = CleaningUp\<close> show ?thesis by auto
qed

definition evidence_done :: TransitionEvidence where
  "evidence_done = \<lparr>pending_outcome = Some JobOutcome.Cancelled, artifacts_finalized = True,
     cleanup_completed = True\<rparr>"

lemmas lifecycle_eval = validate_transition_def transition_match_def require_pending_outcome_def
  evidence_done_def

theorem terminal_only_through_finalisation_witness:
  "\<exists>pre e1 e2. [(CollectingArtifacts, evidence_done), (CleaningUp, evidence_done),
        (JobState.Cancelled, evidence_done)] = pre @ [(CleaningUp, e1), (JobState.Cancelled, e2)]
     \<and> run_transitions Queued pre = Inr CollectingArtifacts
     \<and> artifacts_finalized e1 \<and> cleanup_completed e2
     \<and> terminal_outcome JobState.Cancelled = pending_outcome e2
     \<and> length [(CollectingArtifacts, evidence_done), (CleaningUp, evidence_done),
        (JobState.Cancelled, evidence_done)] \<le> 9"
  by (rule terminal_only_through_finalisation) (simp_all add: lifecycle_eval)

text \<open>
  The error of a rejected transition names its cause: an edge that needs a pending outcome
  and lacks one reports exactly that, an early exit with an outcome its source state cannot
  produce is \<open>OutcomeNotAllowed\<close>, and the two finalisation gates report which gate is closed,
  cleanup before outcome.
\<close>

theorem validate_transition_errors:
  "validate_transition from to evidence =
     (if lifecycle_edge from to evidence then Inr ()
      else if to = CollectingArtifacts \<and> phase from < 7
        then (case pending_outcome evidence of
                None \<Rightarrow> Inl (MissingPendingOutcome from to)
              | Some out \<Rightarrow> Inl (OutcomeNotAllowed from out))
      else if from = RunningTests \<and> to = DebugAvailable then Inl (MissingPendingOutcome from to)
      else if from = CollectingArtifacts \<and> to = CleaningUp then Inl ArtifactsNotFinalized
      else if from = CleaningUp \<and> is_terminal to
        then (if \<not> cleanup_completed evidence then Inl CleanupNotCompleted
              else case pending_outcome evidence of
                     None \<Rightarrow> Inl (MissingPendingOutcome from to)
                   | Some out \<Rightarrow> Inl (TerminalOutcomeMismatch out to))
      else Inl (InvalidTransition from to))"
proof (cases "lifecycle_edge from to evidence")
  case True
  then show ?thesis by (simp add: validate_transition_ok_iff)
next
  case False
  then have "validate_transition from to evidence \<noteq> Inr ()" by (simp add: validate_transition_ok_iff)
  with False show ?thesis
    by (cases "from"; cases "to"; cases "pending_outcome evidence") (simp_all add: transition_defs split: if_splits)
qed

end
