(* ===== verification/Primitives.thy ===== *)
theory Primitives
  imports Prelude
begin

text \<open>
  Validated wire primitives of \<open>crates/contracts/src/primitives.rs\<close>.  Each newtype is represented
  by the value it wraps, and its only constructor \<open>new\<close> (which \<open>FromStr\<close> and \<open>Deserialize\<close> also go
  through) is the function \<open><type>_new\<close>.  The lemmas show which characters an identifier can
  contain; the subject and outbox-key theories rely on the absence of their separators.
\<close>

section \<open>Identifiers\<close>

datatype PrimitiveValidationError = PrimitiveValidationError string

definition identifier_byte :: "char \<Rightarrow> bool" where
  "identifier_byte b \<longleftrightarrow> is_ascii_alphanumeric b \<or> b = CHR ''_'' \<or> b = CHR ''-''"

definition validate_identifier :: "string \<Rightarrow> string \<Rightarrow> PrimitiveValidationError + unit" where
  "validate_identifier value prefix =
     (case strip_prefix prefix value of
        None \<Rightarrow> Inl (PrimitiveValidationError ''identifier has an unexpected prefix'')
      | Some suffix \<Rightarrow>
          if suffix = [] \<or> \<not> list_all identifier_byte suffix
          then Inl (PrimitiveValidationError
            ''identifier suffix must contain only ASCII letters, digits, underscores, or hyphens'')
          else Inr ())"

text \<open>The body of the \<open>identifier!\<close> macro, and its instances.\<close>

definition identifier_new :: "string \<Rightarrow> string \<Rightarrow> PrimitiveValidationError + string" where
  "identifier_new prefix value = bind_result (validate_identifier value prefix) (\<lambda>_. Inr value)"

type_synonym ProjectId = string
type_synonym UploadId = string
type_synonym RuntimeProfileId = string
type_synonym JobId = string
type_synonym JobEventId = string
type_synonym ArtifactId = string
type_synonym WorkerId = string
type_synonym DebugSessionId = string
type_synonym WebhookId = string
type_synonym LeaseId = string

definition ProjectId_new :: "string \<Rightarrow> PrimitiveValidationError + ProjectId" where
  "ProjectId_new = identifier_new ''proj_''"

definition JobId_new :: "string \<Rightarrow> PrimitiveValidationError + JobId" where
  "JobId_new = identifier_new ''job_''"

definition WorkerId_new :: "string \<Rightarrow> PrimitiveValidationError + WorkerId" where
  "WorkerId_new = identifier_new ''wrk_''"

definition LeaseId_new :: "string \<Rightarrow> PrimitiveValidationError + LeaseId" where
  "LeaseId_new = identifier_new ''lease_''"

section \<open>Digests, references and durations\<close>

definition sha256_byte :: "char \<Rightarrow> bool" where
  "sha256_byte b \<longleftrightarrow> is_ascii_digit b \<or> (97 \<le> ascii_code b \<and> ascii_code b \<le> 102)"

definition Sha256_new :: "string \<Rightarrow> PrimitiveValidationError + string" where
  "Sha256_new value =
     (if length value \<noteq> 64 \<or> \<not> list_all sha256_byte value
      then Inl (PrimitiveValidationError ''SHA-256 must be 64 lowercase hexadecimal characters'')
      else Inr value)"

definition validated_string :: "(string \<Rightarrow> bool) \<Rightarrow> string \<Rightarrow> string \<Rightarrow> PrimitiveValidationError + string" where
  "validated_string validator message value =
     (if \<not> validator value then Inl (PrimitiveValidationError message) else Inr value)"

fun find_char :: "char \<Rightarrow> string \<Rightarrow> nat option" where
  "find_char c [] = None"
| "find_char c (x # xs) = (if x = c then Some 0 else map_option Suc (find_char c xs))"

definition uri_scheme_byte :: "char \<Rightarrow> bool" where
  "uri_scheme_byte b \<longleftrightarrow> is_ascii_alphanumeric b \<or> b \<in> {CHR ''+'', CHR ''-'', CHR ''.''}"

definition valid_uri :: "string \<Rightarrow> bool" where
  "valid_uri value =
     (case find_char (CHR '':'') value of
        None \<Rightarrow> False
      | Some colon \<Rightarrow> 0 < colon \<and> list_all uri_scheme_byte (take colon value)
          \<and> \<not> list_ex (\<lambda>b. is_ascii_whitespace b \<or> is_ascii_control b) value)"

definition valid_reference :: "string \<Rightarrow> bool" where
  "valid_reference value \<longleftrightarrow> value \<noteq> [] \<and> \<not> list_ex is_ascii_control value"

definition Uri_new :: "string \<Rightarrow> PrimitiveValidationError + string" where
  "Uri_new = validated_string valid_uri
     ''URI must have a scheme and contain no whitespace or control characters''"

definition ScriptRef_new :: "string \<Rightarrow> PrimitiveValidationError + string" where
  "ScriptRef_new = validated_string valid_reference
     ''script reference must be non-empty and contain no control characters''"

type_synonym DurationSeconds = u64

definition DurationSeconds_new :: "u64 \<Rightarrow> PrimitiveValidationError + DurationSeconds" where
  "DurationSeconds_new value =
     (if value = 0 then Inl (PrimitiveValidationError ''duration must be at least one second'')
      else Inr value)"

section \<open>Lemmas\<close>

text \<open>The regular language the schemas publish, \<open>^<prefix>[A-Za-z0-9_-]+$\<close>.\<close>

definition identifier_lang :: "string \<Rightarrow> string set" where
  "identifier_lang prefix = {prefix @ s |s. s \<noteq> [] \<and> (\<forall>b \<in> set s. identifier_byte b)}"

lemma identifier_new_iff:
  "identifier_new prefix value = Inr v \<longleftrightarrow> v = value \<and> value \<in> identifier_lang prefix"
  by (auto simp: identifier_new_def validate_identifier_def identifier_lang_def list_all_iff
      strip_prefix_eq_Some split: option.splits if_splits)

lemma identifier_byte_code:
  "identifier_byte b \<Longrightarrow> ascii_code b \<in> {45, 95} \<union> {48..57} \<union> {65..90} \<union> {97..122}"
  by (auto simp: identifier_byte_def is_ascii_alphanumeric_def is_ascii_digit_def ascii_code_def)

lemma identifier_byte_not_separator [simp]:
  "\<not> identifier_byte (CHR ''.'')" "\<not> identifier_byte (CHR '':'')"
  "\<not> identifier_byte (CHR ''*'')" "\<not> identifier_byte (CHR ''>'')" "\<not> identifier_byte (CHR '' '')"
  by (simp_all add: identifier_byte_def is_ascii_alphanumeric_def is_ascii_digit_def ascii_code_def)

lemma identifier_prefix_bytes:
  "\<forall>b \<in> set ''proj_''. identifier_byte b" "\<forall>b \<in> set ''job_''. identifier_byte b"
  "\<forall>b \<in> set ''wrk_''. identifier_byte b" "\<forall>b \<in> set ''lease_''. identifier_byte b"
  by (simp_all add: identifier_byte_def is_ascii_alphanumeric_def is_ascii_digit_def ascii_code_def)

lemma identifier_lang_bytes:
  "v \<in> identifier_lang prefix \<Longrightarrow> \<forall>b \<in> set prefix. identifier_byte b \<Longrightarrow> b \<in> set v \<Longrightarrow> identifier_byte b"
  by (auto simp: identifier_lang_def)

definition valid_worker_id :: "string \<Rightarrow> bool" where
  "valid_worker_id w \<longleftrightarrow> WorkerId_new w = Inr w"

definition valid_job_id :: "string \<Rightarrow> bool" where
  "valid_job_id j \<longleftrightarrow> JobId_new j = Inr j"

lemma valid_worker_id_bytes: "valid_worker_id w \<Longrightarrow> b \<in> set w \<Longrightarrow> identifier_byte b"
  by (rule identifier_lang_bytes [OF _ identifier_prefix_bytes(3)])
    (simp_all add: valid_worker_id_def WorkerId_new_def identifier_new_iff)

lemma valid_job_id_bytes: "valid_job_id j \<Longrightarrow> b \<in> set j \<Longrightarrow> identifier_byte b"
  by (rule identifier_lang_bytes [OF _ identifier_prefix_bytes(2)])
    (simp_all add: valid_job_id_def JobId_new_def identifier_new_iff)

lemma valid_job_id_prefix: "valid_job_id j \<Longrightarrow> \<exists>s. j = ''job_'' @ s \<and> s \<noteq> []"
  by (auto simp: valid_job_id_def JobId_new_def identifier_new_iff identifier_lang_def)

section \<open>Properties\<close>



end
