(* ===== verification/Contracts.thy ===== *)
theory Contracts
  imports State_Machine Primitives
begin

text \<open>
  The message and entity types the services share: \<open>runtime.rs\<close>, \<open>worker.rs\<close>, \<open>error.rs\<close> and the
  entities of \<open>api.rs\<close> that the scheduler and the repository use.  Field names carry a short
  prefix per struct, because the fields of Isabelle records are global.  The dead-letter record
  comes with its validation and its outbox key; the key is shown to identify the dead letter.
\<close>

section \<open>Runtime profiles (\<open>runtime.rs\<close>)\<close>

datatype RuntimeKind = AndroidEmulatorContainer | Redroid | Cuttlefish | BrowserNativeWasm

datatype IsolationTier = VmIsolated | SharedKernelPrivileged

fun satisfies :: "IsolationTier \<Rightarrow> IsolationTier \<Rightarrow> bool" where
  "satisfies VmIsolated minimum = True"
| "satisfies SharedKernelPrivileged SharedKernelPrivileged = True"
| "satisfies SharedKernelPrivileged VmIsolated = False"

datatype HostArch = HostX86_64 | HostAarch64

datatype AndroidAbi = AbiX86 | AbiX86_64 | AbiArmeabiV7a | AbiArm64V8a

record RuntimeProfile =
  rp_id :: RuntimeProfileId
  rp_android_api :: u16
  rp_device_profile :: string
  rp_abi :: AndroidAbi
  rp_host_arch :: HostArch
  rp_runtime_kind :: RuntimeKind
  rp_image_ref :: string
  rp_isolation_tier :: IsolationTier

datatype RuntimeProfileValidationError = UnsupportedRuntimeKind RuntimeKind

definition profile_validate :: "RuntimeProfile \<Rightarrow> RuntimeProfileValidationError + unit" where
  "profile_validate self =
     (if rp_runtime_kind self = BrowserNativeWasm
      then Inl (UnsupportedRuntimeKind (rp_runtime_kind self)) else Inr ())"

section \<open>Error codes (\<open>error.rs\<close>)\<close>

datatype ErrorCode =
    ECValidation | ECUnauthorized | ECForbidden | ECNotFound | ECConflict | ECQuotaExceeded
  | ECInfraFailed | ECInternalError

fun http_status :: "ErrorCode \<Rightarrow> u16" where
  "http_status ECValidation = 400"
| "http_status ECUnauthorized = 401"
| "http_status ECForbidden = 403"
| "http_status ECNotFound = 404"
| "http_status ECConflict = 409"
| "http_status ECQuotaExceeded = 429"
| "http_status ECInfraFailed = 503"
| "http_status ECInternalError = 500"

section \<open>Jobs (\<open>api.rs\<close>)\<close>

datatype UploadKind = Apk | Test | Script

datatype AuthScope = ProjectRead | ProjectWrite | DebugCreate | Admin

datatype DebugSessionMode = Viewer | Controller

datatype JobMode = HeadlessCi | BrowserDebug

datatype AutomationSpec = BuiltInSmoke | Appium string

record ArtifactSelection =
  as_screenshots :: bool
  as_video :: bool
  as_logcat :: bool
  as_junit :: bool

record FailureDetail =
  fd_code :: ErrorCode
  fd_message :: string

record CreateJobRequest =
  cr_project_id :: ProjectId
  cr_apk_upload_id :: UploadId
  cr_test_upload_id :: "UploadId option"
  cr_runtime_profile :: RuntimeProfileId
  cr_mode :: JobMode
  cr_min_isolation :: IsolationTier
  cr_automation :: AutomationSpec
  cr_artifacts :: ArtifactSelection
  cr_timeout_seconds :: DurationSeconds

record Job =
  job_id :: JobId
  job_project_id :: ProjectId
  job_apk_upload_id :: UploadId
  job_test_upload_id :: "UploadId option"
  job_runtime_profile :: RuntimeProfileId
  job_mode :: JobMode
  job_min_isolation :: IsolationTier
  job_automation :: AutomationSpec
  job_artifacts :: ArtifactSelection
  job_timeout_seconds :: DurationSeconds
  job_state :: JobState
  job_outcome :: "JobOutcome option"
  job_failure :: "FailureDetail option"
  job_worker_id :: "WorkerId option"
  job_created_at :: instant
  job_started_at :: "instant option"
  job_finished_at :: "instant option"

datatype WorkerState = Online | Draining | Offline

section \<open>Worker messages (\<open>worker.rs\<close>)\<close>

record WorkerRegistration =
  wr_worker_id :: WorkerId
  wr_runtimes :: "RuntimeKind list"
  wr_kvm :: bool
  wr_gpu :: bool
  wr_arch :: HostArch
  wr_capacity :: u32

record JobLeaseExtension =
  le_job_id :: JobId
  le_lease_id :: LeaseId

record WorkerHeartbeat =
  hb_worker_id :: WorkerId
  hb_active_jobs :: u32
  hb_capacity :: u32
  hb_runtimes :: "RuntimeKind list"
  hb_kvm :: bool
  hb_gpu :: bool
  hb_arch :: HostArch
  hb_lease_extends :: "JobLeaseExtension list"
  hb_last_seen :: instant

record JobQueued =
  jq_job_id :: JobId
  jq_project_id :: ProjectId
  jq_runtime_profile_id :: RuntimeProfileId
  jq_min_isolation :: IsolationTier
  jq_timeout_seconds :: DurationSeconds

text \<open>
  The two wire shapes a queue message may have, \<open>JobQueuedWire\<close>: the current one names the profile,
  the legacy one embeds it.  Deserialization keeps only the profile identifier.
\<close>

datatype JobQueuedWire =
    Current JobId ProjectId RuntimeProfileId IsolationTier DurationSeconds
  | Legacy JobId ProjectId RuntimeProfile IsolationTier DurationSeconds

fun job_queued_of_wire :: "JobQueuedWire \<Rightarrow> JobQueued" where
  "job_queued_of_wire (Current j p r m t) =
     \<lparr>jq_job_id = j, jq_project_id = p, jq_runtime_profile_id = r, jq_min_isolation = m,
      jq_timeout_seconds = t\<rparr>"
| "job_queued_of_wire (Legacy j p rp m t) =
     \<lparr>jq_job_id = j, jq_project_id = p, jq_runtime_profile_id = rp_id rp, jq_min_isolation = m,
      jq_timeout_seconds = t\<rparr>"

record JobClaim =
  cl_job_id :: JobId
  cl_project_id :: ProjectId
  cl_worker_id :: WorkerId
  cl_lease_id :: LeaseId
  cl_apk_upload_id :: UploadId
  cl_test_upload_id :: "UploadId option"
  cl_runtime_profile :: RuntimeProfile
  cl_mode :: JobMode
  cl_min_isolation :: IsolationTier
  cl_automation :: AutomationSpec
  cl_artifacts :: ArtifactSelection
  cl_timeout_seconds :: DurationSeconds
  cl_claimed_at :: instant
  cl_lease_expires_at :: instant

record JobResult =
  res_job_id :: JobId
  res_worker_id :: WorkerId
  res_lease_id :: LeaseId
  res_outcome :: JobOutcome
  res_artifact_ids :: "ArtifactId list"
  res_artifacts_finalized :: bool
  res_cleanup_completed :: bool
  res_error :: "FailureDetail option"
  res_completed_at :: instant

record JobStateTransitionRequest =
  tr_job_id :: JobId
  tr_worker_id :: WorkerId
  tr_lease_id :: LeaseId
  tr_from :: JobState
  tr_to :: JobState
  tr_evidence :: TransitionEvidence

definition request_validate :: "JobStateTransitionRequest \<Rightarrow> TransitionError + unit" where
  "request_validate self = validate_transition (tr_from self) (tr_to self) (tr_evidence self)"

datatype ControlDisposition =
  DispAccepted | DispHeartbeat | DispStaleLease | DispQuotaExceeded | DispRetry

datatype ControlResponse =
    Accepted
  | Heartbeat "JobLeaseExtension list" "JobLeaseExtension list" "JobLeaseExtension list"
  | StaleLease
  | QuotaExceeded DurationSeconds
  | Retry DurationSeconds

fun disposition :: "ControlResponse \<Rightarrow> ControlDisposition" where
  "disposition Accepted = DispAccepted"
| "disposition (Heartbeat _ _ _) = DispHeartbeat"
| "disposition StaleLease = DispStaleLease"
| "disposition (QuotaExceeded _) = DispQuotaExceeded"
| "disposition (Retry _) = DispRetry"

section \<open>Dead letters (\<open>worker.rs\<close>)\<close>

datatype JobDeadLetterReason = MalformedMessage | CanonicalJobInconsistent | AttemptsExhausted

record JobDeadLetter =
  dl_job_id :: "JobId option"
  dl_project_id :: "ProjectId option"
  dl_source_stream_sequence :: "u64 option"
  dl_attempt :: u32
  dl_reason :: JobDeadLetterReason
  dl_dead_lettered_at :: instant

datatype JobDeadLetterValidationError = ZeroAttempt | ZeroSourceStreamSequence | MissingStableIdentity

definition dead_letter_validate :: "JobDeadLetter \<Rightarrow> JobDeadLetterValidationError + unit" where
  "dead_letter_validate self =
     (if dl_attempt self = 0 then Inl ZeroAttempt
      else if dl_source_stream_sequence self = Some 0 then Inl ZeroSourceStreamSequence
      else if (case dl_reason self of
                 AttemptsExhausted \<Rightarrow> dl_job_id self = None
               | MalformedMessage \<Rightarrow> dl_source_stream_sequence self = None
               | CanonicalJobInconsistent \<Rightarrow> dl_source_stream_sequence self = None)
      then Inl MissingStableIdentity
      else Inr ())"

definition dead_letter_new ::
  "JobId option \<Rightarrow> ProjectId option \<Rightarrow> u64 option \<Rightarrow> u32 \<Rightarrow> JobDeadLetterReason \<Rightarrow> instant \<Rightarrow>
   JobDeadLetterValidationError + JobDeadLetter" where
  "dead_letter_new job project sequence attempt reason at =
     (let dead_letter = \<lparr>dl_job_id = job, dl_project_id = project,
            dl_source_stream_sequence = sequence, dl_attempt = attempt, dl_reason = reason,
            dl_dead_lettered_at = at\<rparr>
      in bind_result (dead_letter_validate dead_letter) (\<lambda>_. Inr dead_letter))"

definition exhausted_key :: "JobId \<Rightarrow> u32 \<Rightarrow> string" where
  "exhausted_key job attempt = ''dlq:'' @ job @ '':'' @ show_nat (unat attempt)"

definition sequence_key :: "u64 \<Rightarrow> string \<Rightarrow> string" where
  "sequence_key sequence label = ''dlq:JOB_QUEUE:'' @ show_nat (unat sequence) @ '':'' @ label"

definition idempotency_key :: "JobDeadLetter \<Rightarrow> JobDeadLetterValidationError + string" where
  "idempotency_key self =
     bind_result (dead_letter_validate self) (\<lambda>_.
       case dl_reason self of
         AttemptsExhausted \<Rightarrow>
           ok_or (map_option (\<lambda>job. exhausted_key job (dl_attempt self)) (dl_job_id self))
             MissingStableIdentity
       | MalformedMessage \<Rightarrow>
           ok_or (map_option (\<lambda>s. sequence_key s ''malformed_message'') (dl_source_stream_sequence self))
             MissingStableIdentity
       | CanonicalJobInconsistent \<Rightarrow>
           ok_or (map_option (\<lambda>s. sequence_key s ''canonical_job_inconsistent'')
             (dl_source_stream_sequence self)) MissingStableIdentity)"

section \<open>Lemmas\<close>

lemma show_nat_no_colon: "CHR '':'' \<notin> set (show_nat n)"
  using show_nat_digits [of "CHR '':''" n] by (auto simp: is_ascii_digit_def ascii_code_def)

lemma valid_job_id_no_colon: "valid_job_id j \<Longrightarrow> CHR '':'' \<notin> set j"
  using valid_job_id_bytes by fastforce

lemma split_exhausted_key:
  "valid_job_id j \<Longrightarrow>
     split_char (CHR '':'') (exhausted_key j a) = [''dlq'', j, show_nat (unat a)]"
proof -
  assume "valid_job_id j"
  then have j: "CHR '':'' \<notin> set j" by (rule valid_job_id_no_colon)
  have "split_char (CHR '':'') (''dlq'' @ CHR '':'' # (j @ CHR '':'' # show_nat (unat a)))
      = [''dlq'', j, show_nat (unat a)]"
    using j show_nat_no_colon by (simp add: split_char_append split_char_free)
  then show ?thesis by (simp add: exhausted_key_def)
qed

lemma split_sequence_key:
  "CHR '':'' \<notin> set label \<Longrightarrow>
     split_char (CHR '':'') (sequence_key s label) = [''dlq'', ''JOB_QUEUE'', show_nat (unat s), label]"
proof -
  assume label: "CHR '':'' \<notin> set label"
  have "split_char (CHR '':'')
        (''dlq'' @ CHR '':'' # (''JOB_QUEUE'' @ CHR '':'' # (show_nat (unat s) @ CHR '':'' # label)))
      = [''dlq'', ''JOB_QUEUE'', show_nat (unat s), label]"
    using label show_nat_no_colon by (simp add: split_char_append split_char_free)
  then show ?thesis by (simp add: sequence_key_def)
qed

lemma dead_letter_validate_ok:
  "dead_letter_validate d = Inr () \<longleftrightarrow> dl_attempt d \<noteq> 0 \<and> dl_source_stream_sequence d \<noteq> Some 0
     \<and> (if dl_reason d = AttemptsExhausted then dl_job_id d \<noteq> None
        else dl_source_stream_sequence d \<noteq> None)"
  by (auto simp: dead_letter_validate_def split: JobDeadLetterReason.splits if_splits)

lemma idempotency_key_cases:
  assumes "idempotency_key d = Inr k"
  obtains (exhausted) j where "dl_reason d = AttemptsExhausted" "dl_job_id d = Some j"
      "k = exhausted_key j (dl_attempt d)"
    | (malformed) s where "dl_reason d = MalformedMessage" "dl_source_stream_sequence d = Some s"
      "k = sequence_key s ''malformed_message''"
    | (inconsistent) s where "dl_reason d = CanonicalJobInconsistent"
      "dl_source_stream_sequence d = Some s" "k = sequence_key s ''canonical_job_inconsistent''"
  using assms by (auto simp: idempotency_key_def result_inv split: JobDeadLetterReason.splits)

text \<open>What identifies a dead letter: its reason with the job and attempt, or with the source sequence.\<close>

definition dead_letter_identity ::
  "JobDeadLetter \<Rightarrow> JobDeadLetterReason \<times> (JobId option \<times> u32) option \<times> u64 option" where
  "dead_letter_identity d =
     (dl_reason d,
      if dl_reason d = AttemptsExhausted then Some (dl_job_id d, dl_attempt d) else None,
      if dl_reason d = AttemptsExhausted then None else dl_source_stream_sequence d)"

lemma sequence_key_inj:
  assumes "sequence_key s l = sequence_key s' l'"
    and "CHR '':'' \<notin> set l" and "CHR '':'' \<notin> set l'"
  shows "s = s' \<and> l = l'"
proof -
  have "split_char (CHR '':'') (sequence_key s l) = split_char (CHR '':'') (sequence_key s' l')"
    using assms(1) by simp
  then have "show_nat (unat s) = show_nat (unat s')" and "l = l'"
    using assms(2,3) by (simp_all add: split_sequence_key)
  then show ?thesis using show_nat_inj by (auto simp: word_unat_eq_iff)
qed

lemma exhausted_key_inj:
  assumes "exhausted_key j a = exhausted_key j' a'" and "valid_job_id j" and "valid_job_id j'"
  shows "j = j' \<and> a = a'"
proof -
  have "split_char (CHR '':'') (exhausted_key j a) = split_char (CHR '':'') (exhausted_key j' a')"
    using assms(1) by simp
  then have "show_nat (unat a) = show_nat (unat a')" and "j = j'"
    using assms(2,3) by (simp_all add: split_exhausted_key)
  then show ?thesis using show_nat_inj by (auto simp: word_unat_eq_iff)
qed

lemma exhausted_key_not_sequence_key:
  assumes "valid_job_id j" and "CHR '':'' \<notin> set l"
  shows "exhausted_key j a \<noteq> sequence_key s l"
proof
  assume "exhausted_key j a = sequence_key s l"
  then have "length (split_char (CHR '':'') (exhausted_key j a)) = length (split_char (CHR '':'') (sequence_key s l))"
    by simp
  then show False using assms by (simp add: split_exhausted_key split_sequence_key)
qed

section \<open>Properties\<close>

text \<open>
  The outbox key of a dead letter identifies it: two dead letters with valid job identifiers
  have the same key only if they have the same reason and the same stable identity (job and
  attempt for exhaustion, source stream sequence otherwise).  So the UNIQUE key of the outbox
  merges repeats of one dead letter and never two different ones.
\<close>

theorem idempotency_key_identifies:
  assumes "idempotency_key d = Inr k" and "idempotency_key d' = Inr k"
    and "\<forall>j. dl_job_id d = Some j \<longrightarrow> valid_job_id j"
    and "\<forall>j. dl_job_id d' = Some j \<longrightarrow> valid_job_id j"
  shows "dead_letter_identity d = dead_letter_identity d'"
proof -
  have labels: "CHR '':'' \<notin> set ''malformed_message''" "CHR '':'' \<notin> set ''canonical_job_inconsistent''"
    by simp_all
  show ?thesis
    using assms labels
    by (elim idempotency_key_cases)
      (auto simp: dead_letter_identity_def dest: exhausted_key_inj sequence_key_inj
        exhausted_key_not_sequence_key [OF _ labels(1)] exhausted_key_not_sequence_key [OF _ labels(2)]
        exhausted_key_not_sequence_key [OF _ labels(1), symmetric]
        exhausted_key_not_sequence_key [OF _ labels(2), symmetric])
qed

definition sample_dead_letter :: JobDeadLetter where
  "sample_dead_letter = \<lparr>dl_job_id = Some ''job_1'', dl_project_id = None,
     dl_source_stream_sequence = None, dl_attempt = 3, dl_reason = AttemptsExhausted,
     dl_dead_lettered_at = 7\<rparr>"

theorem idempotency_key_identifies_witness:
  "dead_letter_identity sample_dead_letter
     = dead_letter_identity (sample_dead_letter\<lparr>dl_dead_lettered_at := 8, dl_project_id := Some ''proj_1''\<rparr>)"
  by (rule idempotency_key_identifies [where k = "exhausted_key ''job_1'' 3"])
    (simp_all add: sample_dead_letter_def idempotency_key_def dead_letter_validate_def valid_job_id_def
      JobId_new_def identifier_new_def validate_identifier_def strip_prefix_def identifier_byte_def
      is_ascii_alphanumeric_def is_ascii_digit_def ascii_code_def)

end
