(* ===== verification/Ordered_Map.thy ===== *)
theory Ordered_Map
  imports Prelude
begin

text \<open>
  The two standard-library structures the fairness buffer is built from: \<open>BTreeMap\<close>, as a list of
  pairs in strictly increasing key order (so that iteration visits the keys in order, as the source
  relies on), and \<open>slice::binary_search_by\<close>, as the loop the library runs.  The binary search is
  shown to compute the insertion point of a sorted list.
\<close>

section \<open>Ordered maps\<close>

type_synonym ('k, 'v) btree = "('k \<times> 'v) list"

definition bt_get :: "'k \<Rightarrow> ('k, 'v) btree \<Rightarrow> 'v option" where
  "bt_get k m = map_of m k"

fun bt_put :: "'k::linorder \<Rightarrow> 'v \<Rightarrow> ('k, 'v) btree \<Rightarrow> ('k, 'v) btree" where
  "bt_put k v [] = [(k, v)]"
| "bt_put k v ((a, b) # m) =
     (if k < a then (k, v) # (a, b) # m
      else if k = a then (k, v) # m
      else (a, b) # bt_put k v m)"

definition bt_del :: "'k \<Rightarrow> ('k, 'v) btree \<Rightarrow> ('k, 'v) btree" where
  "bt_del k m = filter (\<lambda>(a, b). a \<noteq> k) m"

definition bt_keys :: "('k, 'v) btree \<Rightarrow> 'k list" where
  "bt_keys m = map fst m"

definition bt_inv :: "('k::linorder, 'v) btree \<Rightarrow> bool" where
  "bt_inv m \<longleftrightarrow> sorted_wrt (<) (bt_keys m)"

text \<open>The elements of all buckets, in iteration order.\<close>

definition bt_concat :: "('k, 'v list) btree \<Rightarrow> 'v list" where
  "bt_concat m = concat (map snd m)"

lemma bt_inv_simps [simp]:
  "bt_inv []" "bt_inv ((a, b) # m) \<longleftrightarrow> (\<forall>k \<in> set (bt_keys m). a < k) \<and> bt_inv m"
  by (simp_all add: bt_inv_def bt_keys_def)

lemma bt_keys_simps [simp]: "bt_keys [] = []" "bt_keys ((a, b) # m) = a # bt_keys m"
  by (simp_all add: bt_keys_def)

lemma bt_get_simps [simp]:
  "bt_get k [] = None" "bt_get k ((a, b) # m) = (if a = k then Some b else bt_get k m)"
  by (simp_all add: bt_get_def)

lemma bt_del_simps [simp]:
  "bt_del k [] = []" "bt_del k ((a, b) # m) = (if a = k then bt_del k m else (a, b) # bt_del k m)"
  by (simp_all add: bt_del_def)

lemma bt_concat_simps [simp]:
  "bt_concat [] = []" "bt_concat ((a, b) # m) = b @ bt_concat m"
  by (simp_all add: bt_concat_def)

lemma bt_get_None_iff: "bt_get k m = None \<longleftrightarrow> k \<notin> set (bt_keys m)"
  by (induction m) (auto split: if_splits)

lemma bt_get_Some_key: "bt_get k m = Some b \<Longrightarrow> k \<in> set (bt_keys m)"
  using bt_get_None_iff [of k m] by auto

lemma bt_get_in: "bt_get k m = Some b \<Longrightarrow> (k, b) \<in> set m"
  by (simp add: bt_get_def map_of_SomeD)

lemma in_bt_get: "bt_inv m \<Longrightarrow> (k, b) \<in> set m \<Longrightarrow> bt_get k m = Some b"
proof (induction m)
  case (Cons ab m)
  obtain a c where ab: "ab = (a, c)" by (cases ab)
  have "k \<in> set (bt_keys m)" if "(k, b) \<in> set m" using that by (force simp: bt_keys_def)
  with Cons show ?case by (auto simp: ab)
qed simp

lemma set_bt_keys_put [simp]: "set (bt_keys (bt_put k v m)) = insert k (set (bt_keys m))"
  by (induction m) (auto split: if_splits)

lemma set_bt_keys_del [simp]: "set (bt_keys (bt_del k m)) = set (bt_keys m) - {k}"
  by (force simp: bt_keys_def bt_del_def)

lemma bt_inv_put: "bt_inv m \<Longrightarrow> bt_inv (bt_put k v m)"
proof (induction m)
  case (Cons ab m)
  obtain a b where ab: "ab = (a, b)" by (cases ab)
  then show ?case
    using Cons by (cases k a rule: linorder_cases) (auto intro: less_trans)
qed simp

lemma bt_inv_del: "bt_inv m \<Longrightarrow> bt_inv (bt_del k m)"
  by (induction m) auto

lemma bt_get_put_any: "bt_get x (bt_put k v m) = (if x = k then Some v else bt_get x m)"
  by (induction m) auto

lemma bt_get_put: "bt_inv m \<Longrightarrow> bt_get x (bt_put k v m) = (if x = k then Some v else bt_get x m)"
  by (induction m) (auto simp: bt_get_None_iff)

lemma bt_get_del: "bt_get x (bt_del k m) = (if x = k then None else bt_get x m)"
  by (induction m) auto

lemma bt_in_iff: "bt_inv m \<Longrightarrow> (k, b) \<in> set m \<longleftrightarrow> bt_get k m = Some b"
  using bt_get_in in_bt_get by fastforce

lemma bt_put_set: "bt_inv m \<Longrightarrow> (x, b) \<in> set (bt_put k v m) \<longleftrightarrow> (if x = k then b = v else (x, b) \<in> set m)"
  by (auto simp: bt_in_iff bt_inv_put bt_get_put)

lemma bt_del_set: "(x, b) \<in> set (bt_del k m) \<longleftrightarrow> x \<noteq> k \<and> (x, b) \<in> set m"
  by (auto simp: bt_del_def)

lemma mset_bt_concat_put:
  "bt_inv m \<Longrightarrow>
     mset (bt_concat (bt_put k v m)) + mset (case bt_get k m of None \<Rightarrow> [] | Some b \<Rightarrow> b)
     = mset (bt_concat m) + mset v"
proof (induction m)
  case (Cons ab m)
  obtain a b where ab: "ab = (a, b)" by (cases ab)
  have absent: "bt_get k m = None" if "k \<le> a"
    using Cons.prems that by (auto simp: ab bt_get_None_iff)
  from Cons show ?case
    by (cases k a rule: linorder_cases) (auto simp: ab absent add.left_commute add.commute)
qed simp

lemma bt_del_absent: "k \<notin> set (bt_keys m) \<Longrightarrow> bt_del k m = m"
  by (induction m) auto

lemma mset_bt_concat_del:
  "bt_inv m \<Longrightarrow> bt_get k m = Some b \<Longrightarrow>
     mset (bt_concat m) = mset b + mset (bt_concat (bt_del k m))"
proof (induction m)
  case (Cons ab m)
  then show ?case by (cases ab) (auto simp: bt_del_absent)
qed simp

lemma set_bt_concat: "x \<in> set (bt_concat m) \<longleftrightarrow> (\<exists>k b. (k, b) \<in> set m \<and> x \<in> set b)"
  by (force simp: bt_concat_def)

section \<open>Binary search\<close>

text \<open>
  \<open>binary_search_by\<close> on a slice of keys: the loop halves \<open>sz\<close> (the source's \<open>size\<close>) and keeps \<open>base\<close> at the last
  element known not to be greater than the sought key.  \<open>Inr\<close> is \<open>Ok\<close>, \<open>Inl\<close> is \<open>Err\<close>.
\<close>

function bs_loop :: "'k::linorder list \<Rightarrow> 'k \<Rightarrow> nat \<Rightarrow> nat \<Rightarrow> nat" where
  "bs_loop xs k base sz =
     (if sz \<le> 1 then base
      else let half = sz div 2; mid = base + half
           in bs_loop xs k (if k < xs ! mid then base else mid) (sz - half))"
  by pat_completeness auto
termination
  by (relation "measure (\<lambda>(xs, k, base, sz). sz)") auto

declare bs_loop.simps [simp del]

definition binary_search :: "'k::linorder list \<Rightarrow> 'k \<Rightarrow> nat + nat" where
  "binary_search xs k =
     (if xs = [] then Inl 0
      else let base = bs_loop xs k 0 (length xs)
           in if xs ! base = k then Inr base
              else Inl (base + (if xs ! base < k then 1 else 0)))"

definition search_position :: "'k::linorder list \<Rightarrow> 'k \<Rightarrow> nat" where
  "search_position xs k = (case binary_search xs k of Inl p \<Rightarrow> p | Inr p \<Rightarrow> p)"

definition insert_at :: "nat \<Rightarrow> 'a \<Rightarrow> 'a list \<Rightarrow> 'a list" where
  "insert_at i x xs = take i xs @ x # drop i xs"

lemma mset_insert_at [simp]: "mset (insert_at i x xs) = add_mset x (mset xs)"
proof -
  have "mset xs = mset (take i xs) + mset (drop i xs)" by (metis append_take_drop_id mset_append)
  then show ?thesis by (simp add: insert_at_def)
qed

lemma set_insert_at [simp]: "set (insert_at i x xs) = insert x (set xs)"
  by (metis mset_insert_at set_mset_add_mset_insert set_mset_mset)

lemma bs_loop_spec:
  assumes "sorted xs" and "0 < sz" and "base + sz \<le> length xs"
    and "base = 0 \<or> xs ! base \<le> k"
    and "\<forall>i. base + sz \<le> i \<and> i < length xs \<longrightarrow> k < xs ! i"
  shows "bs_loop xs k base sz < length xs
       \<and> (bs_loop xs k base sz = 0 \<or> xs ! bs_loop xs k base sz \<le> k)
       \<and> (\<forall>i. bs_loop xs k base sz < i \<and> i < length xs \<longrightarrow> k < xs ! i)"
  using assms
proof (induction xs k base sz rule: bs_loop.induct)
  case (1 xs k base sz)
  show ?case
  proof (cases "sz \<le> 1")
    case True
    with "1.prems" have sz: "sz = 1" by simp
    with True have "bs_loop xs k base sz = base" by (subst bs_loop.simps) simp
    with "1.prems" sz show ?thesis by simp
  next
    case False
    define half where "half = sz div 2"
    define mid where "mid = base + half"
    have half: "0 < half" "half < sz" using False by (auto simp: half_def)
    have unfold: "bs_loop xs k base sz = bs_loop xs k (if k < xs ! mid then base else mid) (sz - half)"
      using False by (subst bs_loop.simps) (simp add: half_def mid_def Let_def)
    have mid: "mid < length xs" using half "1.prems"(3) by (simp add: mid_def)
    have upper: "k < xs ! i" if "k < xs ! mid" "mid \<le> i" "i < length xs" for i
      using sorted_nth_mono [OF "1.prems"(1) that(2,3)] that(1) by simp
    show ?thesis
      unfolding unfold
    proof (rule "1.IH" [OF False half_def mid_def])
      show "(if k < xs ! mid then base else mid) + (sz - half) \<le> length xs"
        using "1.prems"(3) half by (auto simp: mid_def)
      show "(if k < xs ! mid then base else mid) = 0 \<or> xs ! (if k < xs ! mid then base else mid) \<le> k"
        using "1.prems"(4) by auto
      show "\<forall>i. (if k < xs ! mid then base else mid) + (sz - half) \<le> i \<and> i < length xs \<longrightarrow> k < xs ! i"
      proof (intro allI impI)
        fix i
        assume i: "(if k < xs ! mid then base else mid) + (sz - half) \<le> i \<and> i < length xs"
        show "k < xs ! i"
        proof (cases "k < xs ! mid")
          case True
          have "half \<le> sz - half" by (simp add: half_def)
          moreover have "base + (sz - half) \<le> i" using i True by simp
          ultimately have "mid \<le> i" unfolding mid_def by linarith
          with i show ?thesis by (blast intro: upper [OF True])
        next
          case False
          with i have "mid + (sz - half) \<le> i" "i < length xs" by simp_all
          moreover have "mid + (sz - half) = base + sz" using half by (simp add: mid_def)
          ultimately show ?thesis using "1.prems"(5) by simp
        qed
      qed
    qed (use "1.prems" half in auto)
  qed
qed

lemma search_position_spec:
  assumes "sorted xs" and "k \<notin> set xs"
  shows "search_position xs k \<le> length xs
       \<and> (\<forall>i < search_position xs k. xs ! i < k)
       \<and> (\<forall>i. search_position xs k \<le> i \<and> i < length xs \<longrightarrow> k < xs ! i)"
proof (cases "xs = []")
  case True
  then show ?thesis by (simp add: search_position_def binary_search_def)
next
  case False
  define b where "b = bs_loop xs k 0 (length xs)"
  have b: "b < length xs" "b = 0 \<or> xs ! b \<le> k" "\<forall>i. b < i \<and> i < length xs \<longrightarrow> k < xs ! i"
  proof -
    have "0 < length xs" "0 + length xs \<le> length xs" "0 = (0 :: nat) \<or> xs ! 0 \<le> k"
      "\<forall>i. 0 + length xs \<le> i \<and> i < length xs \<longrightarrow> k < xs ! i"
      using False by auto
    note r = bs_loop_spec [OF assms(1) this, folded b_def]
    from r show "b < length xs" by (rule conjunct1)
    from r show "b = 0 \<or> xs ! b \<le> k" by (rule conjunct2 [THEN conjunct1])
    from r show "\<forall>i. b < i \<and> i < length xs \<longrightarrow> k < xs ! i" by (rule conjunct2 [THEN conjunct2])
  qed
  have ne: "xs ! b \<noteq> k" using assms(2) b(1) by auto
  have pos: "search_position xs k = b + (if xs ! b < k then 1 else 0)"
    using False ne by (simp add: search_position_def binary_search_def b_def Let_def)
  have below: "xs ! i < k" if "i \<le> b" "xs ! b < k" for i
    using sorted_nth_mono [OF assms(1) that(1) b(1)] that(2) by simp
  show ?thesis
  proof (cases "xs ! b < k")
    case True
    then show ?thesis using b pos below by auto
  next
    case False
    with ne b(2) have "b = 0" and "k < xs ! b" by auto
    then have "k < xs ! i" if "i < length xs" for i using b(3) that by (cases i) auto
    with \<open>b = 0\<close> pos False show ?thesis by simp
  qed
qed

lemma sorted_insert_at_position:
  assumes "sorted (map key xs)" and "key x \<notin> key ` set xs"
  shows "sorted (map key (insert_at (search_position (map key xs) (key x)) x xs))"
proof -
  define p where "p = search_position (map key xs) (key x)"
  have spec: "p \<le> length xs" "\<forall>i < p. key (xs ! i) < key x"
    "\<forall>i. p \<le> i \<and> i < length xs \<longrightarrow> key x < key (xs ! i)"
    using search_position_spec [OF assms(1), of "key x"] assms(2) by (auto simp: p_def)
  have low: "y \<in> set (take p xs) \<Longrightarrow> key y < key x" for y
    using spec by (auto simp: in_set_conv_nth)
  have high: "y \<in> set (drop p xs) \<Longrightarrow> key x < key y" for y
    using spec by (auto simp: in_set_conv_nth)
  have "sorted (map key (take p xs))" "sorted (map key (drop p xs))"
    using assms(1) by (simp_all add: take_map [symmetric] drop_map [symmetric] sorted_wrt_take sorted_wrt_drop)
  with low high show ?thesis
    unfolding p_def [symmetric] insert_at_def
    by (auto simp: sorted_append intro: less_imp_le less_trans order.strict_implies_order)
qed

end
