(* ===== verification/Fairness.thy ===== *)
theory Fairness
  imports Contracts Ordered_Map
begin

text \<open>
  The bounded fairness buffer of \<open>crates/scheduler/src/fairness.rs\<close>: two priority lanes served by
  weighted round robin with batch aging, each lane a round robin over projects, each project a
  queue ordered by creation time and job identifier.  Counters of type \<open>usize\<close> are natural numbers;
  the invariant bounds them by the capacity, so they neither overflow nor underflow.  Panics
  (\<open>expect\<close>, an index out of range, \<open>Vec::remove(0)\<close> on an empty bucket) are the \<open>Inl\<close> results of
  the pop operations, and the invariant excludes them.
\<close>

section \<open>Data\<close>

datatype PriorityLane = Interactive | Batch

fun lane_of_mode :: "JobMode \<Rightarrow> PriorityLane" where
  "lane_of_mode BrowserDebug = Interactive"
| "lane_of_mode HeadlessCi = Batch"

record FairQueueConfig =
  fc_capacity :: nat
  fc_interactive_weight :: nat
  fc_batch_weight :: nat
  fc_batch_aging :: duration

definition default_fair_config :: FairQueueConfig where
  "default_fair_config = \<lparr>fc_capacity = 1024, fc_interactive_weight = 3, fc_batch_weight = 1,
     fc_batch_aging = 5 * 60 * 1000000\<rparr>"

datatype FairQueueConfigError = EmptyCapacity | EmptyWeight | ExcessiveWeight | EmptyBatchAging

record 'p FairEntry =
  fe_job_id :: JobId
  fe_project_id :: ProjectId
  fe_lane :: PriorityLane
  fe_created_at :: instant
  fe_enqueued_at :: instant
  fe_payload :: 'p

datatype 'p FairQueueError = Full "'p FairEntry" | Duplicate "'p FairEntry"

record 'p LaneQueue =
  lq_projects :: "(ProjectId, 'p FairEntry list) btree"
  lq_project_ring :: "ProjectId list"
  lq_len :: nat

record 'p FairQueue =
  fq_capacity :: nat
  fq_batch_aging :: duration
  fq_schedule :: "PriorityLane list"
  fq_cursor :: nat
  fq_interactive :: "'p LaneQueue"
  fq_batch :: "'p LaneQueue"
  fq_job_ids :: "JobId set"
  fq_len :: nat
  fq_last_pop_forced_aged_batch :: bool

section \<open>One lane\<close>

definition lane_default :: "'p LaneQueue" where
  "lane_default = \<lparr>lq_projects = [], lq_project_ring = [], lq_len = 0\<rparr>"

definition entry_key :: "'p FairEntry \<Rightarrow> instant \<times> JobId" where
  "entry_key e = (fe_created_at e, fe_job_id e)"

definition lane_push :: "'p FairEntry \<Rightarrow> 'p LaneQueue \<Rightarrow> 'p LaneQueue" where
  "lane_push entry l =
     (let project = fe_project_id entry;
          (bucket, ring) = (case bt_get project (lq_projects l) of
              Some b \<Rightarrow> (b, lq_project_ring l)
            | None \<Rightarrow> ([], lq_project_ring l @ [project]));
          position = search_position (map entry_key bucket) (entry_key entry)
      in l\<lparr>lq_projects := bt_put project (insert_at position entry bucket) (lq_projects l),
           lq_project_ring := ring,
           lq_len := lq_len l + 1\<rparr>)"

definition lane_pop :: "'p LaneQueue \<Rightarrow> string + ('p FairEntry option \<times> 'p LaneQueue)" where
  "lane_pop l =
     (case lq_project_ring l of
        [] \<Rightarrow> Inr (None, l)
      | project # ring \<Rightarrow>
          (case bt_get project (lq_projects l) of
             None \<Rightarrow> Inl ''project ring and buckets stay synchronized''
           | Some [] \<Rightarrow> Inl ''removal index (is 0) should be < len (is 0)''
           | Some (entry # bucket) \<Rightarrow>
               Inr (Some entry,
                 if bucket \<noteq> []
                 then l\<lparr>lq_projects := bt_put project bucket (lq_projects l),
                        lq_project_ring := ring @ [project], lq_len := lq_len l - 1\<rparr>
                 else l\<lparr>lq_projects := bt_del project (lq_projects l),
                        lq_project_ring := ring, lq_len := lq_len l - 1\<rparr>)))"

fun find_index :: "('a \<Rightarrow> bool) \<Rightarrow> 'a list \<Rightarrow> nat option" where
  "find_index p [] = None"
| "find_index p (x # xs) = (if p x then Some 0 else map_option Suc (find_index p xs))"

definition remove_at :: "nat \<Rightarrow> 'a list \<Rightarrow> 'a list" where
  "remove_at i xs = take i xs @ drop (Suc i) xs"

definition lane_remove :: "JobId \<Rightarrow> 'p LaneQueue \<Rightarrow> 'p FairEntry option \<times> 'p LaneQueue" where
  "lane_remove job l =
     (case find (\<lambda>(p, entries). \<exists>e \<in> set entries. fe_job_id e = job) (lq_projects l) of
        None \<Rightarrow> (None, l)
      | Some (project, _) \<Rightarrow>
          (case bt_get project (lq_projects l) of
             None \<Rightarrow> (None, l)
           | Some bucket \<Rightarrow>
               (case find_index (\<lambda>e. fe_job_id e = job) bucket of
                  None \<Rightarrow> (None, l)
                | Some position \<Rightarrow>
                    let rest = remove_at position bucket
                    in (Some (bucket ! position),
                        if rest = []
                        then l\<lparr>lq_projects := bt_del project (lq_projects l),
                               lq_project_ring := filter (\<lambda>c. c \<noteq> project) (lq_project_ring l),
                               lq_len := lq_len l - 1\<rparr>
                        else l\<lparr>lq_projects := bt_put project rest (lq_projects l),
                               lq_len := lq_len l - 1\<rparr>))))"

definition lane_entries :: "'p LaneQueue \<Rightarrow> 'p FairEntry list" where
  "lane_entries l = bt_concat (lq_projects l)"

definition lane_get :: "JobId \<Rightarrow> 'p LaneQueue \<Rightarrow> 'p FairEntry option" where
  "lane_get job l = find (\<lambda>e. fe_job_id e = job) (lane_entries l)"

definition oldest_enqueued_at :: "'p LaneQueue \<Rightarrow> instant option" where
  "oldest_enqueued_at l =
     (case map fe_enqueued_at (lane_entries l) of [] \<Rightarrow> None | t # ts \<Rightarrow> Some (fold min ts t))"

section \<open>The buffer\<close>

text \<open>
  \<open>from_std\<close> converts a standard duration to a chrono duration and fails on values chrono cannot
  represent; it belongs to the chrono crate and is a parameter.
\<close>

definition fair_new ::
  "(duration \<Rightarrow> duration option) \<Rightarrow> FairQueueConfig \<Rightarrow> FairQueueConfigError + 'p FairQueue" where
  "fair_new from_std config =
     (if fc_capacity config = 0 then Inl EmptyCapacity
      else if fc_interactive_weight config = 0 \<or> fc_batch_weight config = 0 then Inl EmptyWeight
      else if 2 ^ 64 \<le> fc_interactive_weight config + fc_batch_weight config then Inl ExcessiveWeight
      else if 1024 < fc_interactive_weight config + fc_batch_weight config then Inl ExcessiveWeight
      else if fc_batch_aging config = 0 then Inl EmptyBatchAging
      else bind_result (ok_or (from_std (fc_batch_aging config)) EmptyBatchAging) (\<lambda>batch_aging.
        Inr \<lparr>fq_capacity = fc_capacity config, fq_batch_aging = batch_aging,
             fq_schedule = replicate (fc_interactive_weight config) Interactive
               @ replicate (fc_batch_weight config) Batch,
             fq_cursor = 0, fq_interactive = lane_default, fq_batch = lane_default,
             fq_job_ids = {}, fq_len = 0, fq_last_pop_forced_aged_batch = False\<rparr>))"

fun fair_lane :: "PriorityLane \<Rightarrow> 'p FairQueue \<Rightarrow> 'p LaneQueue" where
  "fair_lane Interactive q = fq_interactive q"
| "fair_lane Batch q = fq_batch q"

fun set_lane :: "PriorityLane \<Rightarrow> 'p LaneQueue \<Rightarrow> 'p FairQueue \<Rightarrow> 'p FairQueue" where
  "set_lane Interactive l q = q\<lparr>fq_interactive := l\<rparr>"
| "set_lane Batch l q = q\<lparr>fq_batch := l\<rparr>"

definition fair_is_empty :: "'p FairQueue \<Rightarrow> bool" where
  "fair_is_empty q \<longleftrightarrow> fq_len q = 0"

definition lane_len :: "PriorityLane \<Rightarrow> 'p FairQueue \<Rightarrow> nat" where
  "lane_len lane q = lq_len (fair_lane lane q)"

definition fair_contains :: "JobId \<Rightarrow> 'p FairQueue \<Rightarrow> bool" where
  "fair_contains job q \<longleftrightarrow> job \<in> fq_job_ids q"

definition fair_get :: "JobId \<Rightarrow> 'p FairQueue \<Rightarrow> 'p FairEntry option" where
  "fair_get job q =
     (case lane_get job (fq_interactive q) of Some e \<Rightarrow> Some e | None \<Rightarrow> lane_get job (fq_batch q))"

definition fair_push :: "'p FairEntry \<Rightarrow> 'p FairQueue \<Rightarrow> 'p FairQueueError + 'p FairQueue" where
  "fair_push entry q =
     (if fe_job_id entry \<in> fq_job_ids q then Inl (Duplicate entry)
      else if fq_len q = fq_capacity q then Inl (Full entry)
      else let q1 = q\<lparr>fq_job_ids := insert (fe_job_id entry) (fq_job_ids q)\<rparr>;
               q2 = set_lane (fe_lane entry) (lane_push entry (fair_lane (fe_lane entry) q1)) q1
           in Inr (q2\<lparr>fq_len := fq_len q2 + 1\<rparr>))"

definition pop_lane ::
  "PriorityLane \<Rightarrow> 'p FairQueue \<Rightarrow> string + ('p FairEntry option \<times> 'p FairQueue)" where
  "pop_lane lane q =
     bind_result (lane_pop (fair_lane lane q)) (\<lambda>(popped, l).
       case popped of
         None \<Rightarrow> Inr (None, set_lane lane l q)
       | Some entry \<Rightarrow>
           let q1 = set_lane lane l q
           in Inr (Some entry, q1\<lparr>fq_job_ids := fq_job_ids q1 - {fe_job_id entry}, fq_len := fq_len q1 - 1\<rparr>))"

fun pop_schedule :: "nat \<Rightarrow> 'p FairQueue \<Rightarrow> string + ('p FairEntry option \<times> 'p FairQueue)" where
  "pop_schedule 0 q = Inr (None, q)"
| "pop_schedule (Suc n) q =
     (if length (fq_schedule q) \<le> fq_cursor q then Inl ''index out of bounds''
      else let lane = fq_schedule q ! fq_cursor q;
               q1 = q\<lparr>fq_cursor := (fq_cursor q + 1) mod length (fq_schedule q)\<rparr>
           in bind_result (pop_lane lane q1) (\<lambda>(popped, q2).
                case popped of Some entry \<Rightarrow> Inr (Some entry, q2) | None \<Rightarrow> pop_schedule n q2))"

definition aged_batch :: "instant \<Rightarrow> 'p FairQueue \<Rightarrow> bool" where
  "aged_batch now q =
     (case oldest_enqueued_at (fq_batch q) of
        None \<Rightarrow> False
      | Some enqueued_at \<Rightarrow> fq_batch_aging q \<le> now - enqueued_at)"

definition fair_pop :: "instant \<Rightarrow> 'p FairQueue \<Rightarrow> string + ('p FairEntry option \<times> 'p FairQueue)" where
  "fair_pop now q =
     (if aged_batch now q \<and> \<not> fq_last_pop_forced_aged_batch q
      then pop_lane Batch (q\<lparr>fq_last_pop_forced_aged_batch := True\<rparr>)
      else let q1 = q\<lparr>fq_last_pop_forced_aged_batch := False\<rparr>
           in pop_schedule (length (fq_schedule q1)) q1)"

definition fair_remove :: "JobId \<Rightarrow> 'p FairQueue \<Rightarrow> 'p FairEntry option \<times> 'p FairQueue" where
  "fair_remove job q =
     (let (removed, q1) =
        (case lane_remove job (fq_interactive q) of
           (Some e, l) \<Rightarrow> (Some e, q\<lparr>fq_interactive := l\<rparr>)
         | (None, l) \<Rightarrow>
             (case lane_remove job (fq_batch q) of (r, lb) \<Rightarrow> (r, q\<lparr>fq_interactive := l, fq_batch := lb\<rparr>)))
      in if removed \<noteq> None
         then (removed, q1\<lparr>fq_job_ids := fq_job_ids q1 - {job}, fq_len := fq_len q1 - 1\<rparr>)
         else (removed, q1))"

section \<open>Invariants\<close>

definition bucket_inv :: "PriorityLane \<Rightarrow> ProjectId \<Rightarrow> 'p FairEntry list \<Rightarrow> bool" where
  "bucket_inv lane project bucket \<longleftrightarrow> bucket \<noteq> [] \<and> sorted (map entry_key bucket)
     \<and> (\<forall>e \<in> set bucket. fe_project_id e = project \<and> fe_lane e = lane)"

definition lane_inv :: "PriorityLane \<Rightarrow> 'p LaneQueue \<Rightarrow> bool" where
  "lane_inv lane l \<longleftrightarrow> bt_inv (lq_projects l)
     \<and> (\<forall>(p, b) \<in> set (lq_projects l). bucket_inv lane p b)
     \<and> distinct (lq_project_ring l) \<and> set (lq_project_ring l) = set (bt_keys (lq_projects l))
     \<and> lq_len l = length (lane_entries l)
     \<and> distinct (map fe_job_id (lane_entries l))"

definition fair_entries :: "'p FairQueue \<Rightarrow> 'p FairEntry list" where
  "fair_entries q = lane_entries (fq_interactive q) @ lane_entries (fq_batch q)"

definition fair_inv :: "'p FairQueue \<Rightarrow> bool" where
  "fair_inv q \<longleftrightarrow> lane_inv Interactive (fq_interactive q) \<and> lane_inv Batch (fq_batch q)
     \<and> distinct (map fe_job_id (fair_entries q))
     \<and> fq_job_ids q = fe_job_id ` set (fair_entries q)
     \<and> fq_len q = length (fair_entries q) \<and> fq_len q \<le> fq_capacity q
     \<and> fq_cursor q < length (fq_schedule q)
     \<and> Interactive \<in> set (fq_schedule q) \<and> Batch \<in> set (fq_schedule q)"

section \<open>Lemmas on one lane\<close>

lemma mset_distinct_map: "mset xs = mset ys \<Longrightarrow> distinct (map f xs) \<longleftrightarrow> distinct (map f ys)"
  by (metis mset_eq_imp_distinct_iff mset_map)

lemma insert_at_not_Nil: "insert_at i x xs \<noteq> []"
  by (simp add: insert_at_def)

lemma lane_inv_default [simp]: "lane_inv lane lane_default" "lane_entries lane_default = []"
  by (simp_all add: lane_inv_def lane_default_def lane_entries_def)

lemma lane_invD:
  assumes "lane_inv lane l"
  shows "bt_inv (lq_projects l)" and "distinct (lq_project_ring l)"
    and "set (lq_project_ring l) = set (bt_keys (lq_projects l))"
    and "lq_len l = length (lane_entries l)" and "distinct (map fe_job_id (lane_entries l))"
  using assms by (simp_all add: lane_inv_def)

lemma lane_inv_bucket:
  "lane_inv lane l \<Longrightarrow> bt_get p (lq_projects l) = Some b \<Longrightarrow> bucket_inv lane p b"
  by (auto simp: lane_inv_def dest: bt_get_in)

lemma lane_inv_bucket_entries:
  "lane_inv lane l \<Longrightarrow> bt_get p (lq_projects l) = Some b \<Longrightarrow> set b \<subseteq> set (lane_entries l)"
  unfolding lane_entries_def by (blast intro: set_bt_concat [THEN iffD2] dest: bt_get_in)

text \<open>
  Every lane operation rewrites one bucket; the invariant is kept when the new bucket is well
  formed, the ring still lists the keys, and the counter follows the contents.
\<close>

lemma lane_inv_put:
  assumes "lane_inv lane l" and "bucket_inv lane p b"
    and "distinct ring" and "set ring = insert p (set (bt_keys (lq_projects l)))"
    and "distinct (map fe_job_id (bt_concat (bt_put p b (lq_projects l))))"
    and "n = length (bt_concat (bt_put p b (lq_projects l)))"
  shows "lane_inv lane (l\<lparr>lq_projects := bt_put p b (lq_projects l), lq_project_ring := ring, lq_len := n\<rparr>)"
  using assms by (auto simp: lane_inv_def lane_entries_def bt_inv_put bt_put_set split: if_splits)

lemma lane_inv_del:
  assumes "lane_inv lane l"
    and "distinct ring" and "set ring = set (bt_keys (lq_projects l)) - {p}"
    and "distinct (map fe_job_id (bt_concat (bt_del p (lq_projects l))))"
    and "n = length (bt_concat (bt_del p (lq_projects l)))"
  shows "lane_inv lane (l\<lparr>lq_projects := bt_del p (lq_projects l), lq_project_ring := ring, lq_len := n\<rparr>)"
  using assms by (auto simp: lane_inv_def lane_entries_def bt_inv_del bt_del_set)

lemma lane_push_facts:
  assumes inv: "lane_inv lane l" and "fe_lane e = lane"
    and fresh: "fe_job_id e \<notin> fe_job_id ` set (lane_entries l)"
  shows "lane_inv lane (lane_push e l)"
    and "mset (lane_entries (lane_push e l)) = add_mset e (mset (lane_entries l))"
proof -
  define p where "p = fe_project_id e"
  define old where "old = (case bt_get p (lq_projects l) of None \<Rightarrow> [] | Some b \<Rightarrow> b)"
  define ring where "ring = (case bt_get p (lq_projects l) of
      Some b \<Rightarrow> lq_project_ring l | None \<Rightarrow> lq_project_ring l @ [p])"
  define new where "new = insert_at (search_position (map entry_key old) (entry_key e)) e old"
  have push: "lane_push e l = l\<lparr>lq_projects := bt_put p new (lq_projects l), lq_project_ring := ring,
      lq_len := lq_len l + 1\<rparr>"
    by (auto simp: lane_push_def Let_def p_def old_def ring_def new_def split: option.splits)
  have old_sub: "set old \<subseteq> set (lane_entries l)"
    using lane_inv_bucket_entries [OF inv, of p]
    by (cases "bt_get p (lq_projects l)") (auto simp: old_def)
  have old_inv: "sorted (map entry_key old)" "\<forall>x \<in> set old. fe_project_id x = p \<and> fe_lane x = lane"
    using lane_inv_bucket [OF inv, of p]
    by (cases "bt_get p (lq_projects l)"; auto simp: old_def bucket_inv_def)+
  have "entry_key e \<notin> entry_key ` set old"
    using fresh old_sub by (auto simp: entry_key_def)
  then have new_inv: "bucket_inv lane p new"
    using old_inv \<open>fe_lane e = lane\<close> sorted_insert_at_position [OF old_inv(1), of e]
    by (simp add: bucket_inv_def new_def p_def insert_at_not_Nil)
  have "mset (bt_concat (bt_put p new (lq_projects l))) + mset old
      = mset (bt_concat (lq_projects l)) + mset new"
    using mset_bt_concat_put [OF lane_invD(1) [OF inv], of p new] by (simp add: old_def)
  then have cont: "mset (bt_concat (bt_put p new (lq_projects l))) = add_mset e (mset (lane_entries l))"
    by (simp add: new_def lane_entries_def)
  then show "mset (lane_entries (lane_push e l)) = add_mset e (mset (lane_entries l))"
    by (simp add: push lane_entries_def)
  have m: "mset (bt_concat (bt_put p new (lq_projects l))) = mset (e # lane_entries l)"
    using cont by simp
  have d: "distinct (map fe_job_id (bt_concat (bt_put p new (lq_projects l))))"
    using mset_distinct_map [OF m, of fe_job_id] fresh lane_invD(5) [OF inv] by simp
  have n: "lq_len l + 1 = length (bt_concat (bt_put p new (lq_projects l)))"
    using mset_eq_length [OF m] lane_invD(4) [OF inv] by simp
  have r: "distinct ring" "set ring = insert p (set (bt_keys (lq_projects l)))"
    using lane_invD(2,3) [OF inv]
    by (auto simp: ring_def bt_get_None_iff dest: bt_get_Some_key split: option.splits)
  show "lane_inv lane (lane_push e l)"
    unfolding push by (rule lane_inv_put [OF inv new_inv r d n])
qed

lemma lane_pop_facts:
  assumes inv: "lane_inv lane l"
  shows "(lq_project_ring l = [] \<and> lane_entries l = [] \<and> lane_pop l = Inr (None, l))
    \<or> (\<exists>p ring e b l'. lq_project_ring l = p # ring \<and> bt_get p (lq_projects l) = Some (e # b)
        \<and> lane_pop l = Inr (Some e, l') \<and> lane_inv lane l'
        \<and> mset (lane_entries l) = add_mset e (mset (lane_entries l'))
        \<and> lq_project_ring l' = ring @ (if b = [] then [] else [p])
        \<and> (\<forall>x. x \<noteq> p \<longrightarrow> bt_get x (lq_projects l') = bt_get x (lq_projects l))
        \<and> bt_get p (lq_projects l') = (if b = [] then None else Some b))"
proof (cases "lq_project_ring l")
  case Nil
  then have "lq_projects l = []"
    using lane_invD(3) [OF inv] by (cases "lq_projects l") (auto simp: bt_keys_def)
  then show ?thesis by (simp add: Nil lane_pop_def lane_entries_def)
next
  case (Cons p ring)
  then have "p \<in> set (bt_keys (lq_projects l))" using lane_invD(3) [OF inv] by auto
  then obtain bk where bk: "bt_get p (lq_projects l) = Some bk"
    using bt_get_None_iff [of p "lq_projects l"] by auto
  then have binv: "bucket_inv lane p bk" by (rule lane_inv_bucket [OF inv])
  then obtain e b where eb: "bk = e # b" by (cases bk) (auto simp: bucket_inv_def)
  note get = bk [unfolded eb]
  have keys: "p \<notin> set ring" "distinct ring" "insert p (set ring) = set (bt_keys (lq_projects l))"
    using lane_invD(2,3) [OF inv] Cons by auto
  have bt: "bt_inv (lq_projects l)" by (rule lane_invD(1) [OF inv])
  show ?thesis
  proof (cases "b = []")
    case True
    have "mset (lane_entries l) = mset (e # bt_concat (bt_del p (lq_projects l)))"
      using mset_bt_concat_del [OF bt get] by (simp add: lane_entries_def True)
    note m = this
    have "distinct (map fe_job_id (bt_concat (bt_del p (lq_projects l))))"
      "lq_len l - 1 = length (bt_concat (bt_del p (lq_projects l)))"
      using mset_distinct_map [OF m, of fe_job_id] mset_eq_length [OF m] lane_invD(4,5) [OF inv] by simp_all
    then have "lane_inv lane (l\<lparr>lq_projects := bt_del p (lq_projects l), lq_project_ring := ring, lq_len := lq_len l - 1\<rparr>)"
      using keys by (intro lane_inv_del [OF inv]) auto
    with m get True Cons show ?thesis
      by (simp add: lane_pop_def lane_entries_def bt_get_del)
  next
    case False
    have "mset (bt_concat (bt_put p b (lq_projects l))) + mset (e # b) = mset (lane_entries l) + mset b"
      using mset_bt_concat_put [OF bt, of p b] get by (simp add: lane_entries_def)
    then have m: "mset (lane_entries l) = mset (e # bt_concat (bt_put p b (lq_projects l)))"
      by simp
    have d: "distinct (map fe_job_id (bt_concat (bt_put p b (lq_projects l))))"
      "lq_len l - 1 = length (bt_concat (bt_put p b (lq_projects l)))"
      using mset_distinct_map [OF m, of fe_job_id] mset_eq_length [OF m] lane_invD(4,5) [OF inv] by simp_all
    have bb: "bucket_inv lane p b"
      using binv False by (simp add: bucket_inv_def eb)
    have "lane_inv lane (l\<lparr>lq_projects := bt_put p b (lq_projects l), lq_project_ring := ring @ [p], lq_len := lq_len l - 1\<rparr>)"
      using keys d by (intro lane_inv_put [OF inv bb]) auto
    with m get False Cons bt show ?thesis
      by (simp add: lane_pop_def lane_entries_def bt_get_put)
  qed
qed

lemma find_index_SomeD: "find_index p xs = Some i \<Longrightarrow> i < length xs \<and> p (xs ! i)"
  by (induction xs arbitrary: i) (auto split: if_splits)

lemma find_index_None_iff: "find_index p xs = None \<longleftrightarrow> (\<forall>x \<in> set xs. \<not> p x)"
  by (induction xs) auto

lemma mset_remove_at: "i < length xs \<Longrightarrow> mset xs = add_mset (xs ! i) (mset (remove_at i xs))"
proof -
  assume "i < length xs"
  then have "xs = take i xs @ xs ! i # drop (Suc i) xs" by (rule id_take_nth_drop)
  then have "mset xs = mset (take i xs @ xs ! i # drop (Suc i) xs)" by simp
  then show ?thesis by (simp add: remove_at_def)
qed

lemma sorted_remove_at: "sorted (map f xs) \<Longrightarrow> sorted (map f (remove_at i xs))"
proof (cases "i < length xs")
  case True
  assume "sorted (map f xs)"
  moreover have "map f xs = map f (take i xs) @ f (xs ! i) # map f (drop (Suc i) xs)"
    using id_take_nth_drop [OF True] by (metis list.simps(9) map_append)
  ultimately show ?thesis by (auto simp: remove_at_def sorted_append)
qed (simp add: remove_at_def)

lemma set_remove_at_subset: "set (remove_at i xs) \<subseteq> set xs"
  using set_take_subset set_drop_subset by (fastforce simp: remove_at_def)

lemma lane_remove_facts:
  assumes inv: "lane_inv lane l"
  shows "(job \<notin> fe_job_id ` set (lane_entries l) \<and> lane_remove job l = (None, l))
    \<or> (\<exists>e l'. lane_remove job l = (Some e, l') \<and> fe_job_id e = job \<and> lane_inv lane l'
        \<and> mset (lane_entries l) = add_mset e (mset (lane_entries l')))"
proof (cases "find (\<lambda>(p, entries). \<exists>e \<in> set entries. fe_job_id e = job) (lq_projects l)")
  case None
  then have "job \<notin> fe_job_id ` set (lane_entries l)"
    by (force simp: find_None_iff lane_entries_def set_bt_concat)
  with None show ?thesis by (simp add: lane_remove_def)
next
  case (Some pb)
  then obtain p b where pb: "pb = (p, b)" and mem: "(p, b) \<in> set (lq_projects l)"
    and ex: "\<exists>e \<in> set b. fe_job_id e = job"
    using select_one_SomeD [unfolded select_one_def, OF Some] by (cases pb) auto
  have bt: "bt_inv (lq_projects l)" by (rule lane_invD(1) [OF inv])
  have get: "bt_get p (lq_projects l) = Some b" by (rule in_bt_get [OF bt mem])
  obtain i where i: "find_index (\<lambda>e. fe_job_id e = job) b = Some i"
    using ex find_index_None_iff [of "\<lambda>e. fe_job_id e = job" b]
    by (cases "find_index (\<lambda>e. fe_job_id e = job) b") auto
  note ib = find_index_SomeD [OF i]
  define rest where "rest = remove_at i b"
  have bm: "mset b = add_mset (b ! i) (mset rest)" unfolding rest_def by (rule mset_remove_at) (use ib in simp)
  have binv: "bucket_inv lane p b" by (rule lane_inv_bucket [OF inv get])
  have pk: "p \<in> set (bt_keys (lq_projects l))" by (rule bt_get_Some_key [OF get])
  show ?thesis
  proof (cases "rest = []")
    case True
    have m: "mset (lane_entries l) = mset (b ! i # bt_concat (bt_del p (lq_projects l)))"
      using mset_bt_concat_del [OF bt get] bm by (simp add: lane_entries_def True)
    have d: "distinct (map fe_job_id (bt_concat (bt_del p (lq_projects l))))"
      "lq_len l - 1 = length (bt_concat (bt_del p (lq_projects l)))"
      using mset_distinct_map [OF m, of fe_job_id] mset_eq_length [OF m] lane_invD(4,5) [OF inv] by simp_all
    have "lane_inv lane (l\<lparr>lq_projects := bt_del p (lq_projects l),
        lq_project_ring := filter (\<lambda>c. c \<noteq> p) (lq_project_ring l), lq_len := lq_len l - 1\<rparr>)"
      using d lane_invD(2,3) [OF inv] by (intro lane_inv_del [OF inv]) auto
    moreover have "lane_remove job l = (Some (b ! i), l\<lparr>lq_projects := bt_del p (lq_projects l),
        lq_project_ring := filter (\<lambda>c. c \<noteq> p) (lq_project_ring l), lq_len := lq_len l - 1\<rparr>)"
      using Some pb get i True by (simp add: lane_remove_def rest_def)
    ultimately show ?thesis using ib m by (auto simp: lane_entries_def)
  next
    case False
    have "mset (bt_concat (bt_put p rest (lq_projects l))) + mset b = mset (lane_entries l) + mset rest"
      using mset_bt_concat_put [OF bt, of p rest] get by (simp add: lane_entries_def)
    then have m: "mset (lane_entries l) = mset (b ! i # bt_concat (bt_put p rest (lq_projects l)))"
      using bm by simp
    have d: "distinct (map fe_job_id (bt_concat (bt_put p rest (lq_projects l))))"
      "lq_len l - 1 = length (bt_concat (bt_put p rest (lq_projects l)))"
      using mset_distinct_map [OF m, of fe_job_id] mset_eq_length [OF m] lane_invD(4,5) [OF inv] by simp_all
    have bb: "bucket_inv lane p rest"
      using binv False set_remove_at_subset [of i b] sorted_remove_at [of entry_key b i]
      by (auto simp: bucket_inv_def rest_def)
    have "lane_inv lane (l\<lparr>lq_projects := bt_put p rest (lq_projects l),
        lq_project_ring := lq_project_ring l, lq_len := lq_len l - 1\<rparr>)"
      using d pk lane_invD(2,3) [OF inv] by (intro lane_inv_put [OF inv bb]) auto
    moreover have "lane_remove job l = (Some (b ! i), l\<lparr>lq_projects := bt_put p rest (lq_projects l), lq_len := lq_len l - 1\<rparr>)"
      using Some pb get i False by (simp add: lane_remove_def rest_def Let_def)
    ultimately show ?thesis using ib m by (auto simp: lane_entries_def)
  qed
qed

section \<open>Lemmas on the buffer\<close>

lemma lane_inv_lane: "lane_inv lane l \<Longrightarrow> e \<in> set (lane_entries l) \<Longrightarrow> fe_lane e = lane"
  by (fastforce simp: lane_inv_def lane_entries_def set_bt_concat bucket_inv_def)

lemma fair_invD:
  assumes "fair_inv q"
  shows "lane_inv lane (fair_lane lane q)" and "distinct (map fe_job_id (fair_entries q))"
    and "fq_job_ids q = fe_job_id ` set (fair_entries q)" and "fq_len q = length (fair_entries q)"
    and "fq_len q \<le> fq_capacity q" and "fq_cursor q < length (fq_schedule q)"
  using assms by (cases lane; simp add: fair_inv_def)+

lemma fair_entries_mset:
  "mset (fair_entries q) = mset (lane_entries (fq_interactive q)) + mset (lane_entries (fq_batch q))"
  by (simp add: fair_entries_def)

lemma set_lane_simps [simp]:
  "fair_lane lane (set_lane lane l q) = l"
  "fq_job_ids (set_lane lane l q) = fq_job_ids q" "fq_len (set_lane lane l q) = fq_len q"
  "fq_capacity (set_lane lane l q) = fq_capacity q" "fq_schedule (set_lane lane l q) = fq_schedule q"
  "fq_cursor (set_lane lane l q) = fq_cursor q" "fq_batch_aging (set_lane lane l q) = fq_batch_aging q"
  "fq_last_pop_forced_aged_batch (set_lane lane l q) = fq_last_pop_forced_aged_batch q"
  by (cases lane; simp)+

lemma fair_lane_other: "other \<noteq> lane \<Longrightarrow> fair_lane other (set_lane lane l q) = fair_lane other q"
  by (cases lane; cases other) simp_all

lemma fair_entries_set_lane:
  "mset (fair_entries (set_lane lane l q)) + mset (lane_entries (fair_lane lane q))
     = mset (fair_entries q) + mset (lane_entries l)"
  by (cases lane) (simp_all add: fair_entries_mset)

lemma fair_inv_replace_lane:
  assumes "fair_inv q" and "lane_inv lane l"
    and "mset (fair_entries (set_lane lane l q)) = mset xs"
    and "distinct (map fe_job_id xs)"
    and "ids = fe_job_id ` set xs" and "n = length xs" and "n \<le> fq_capacity q"
  shows "fair_inv ((set_lane lane l q)\<lparr>fq_job_ids := ids, fq_len := n\<rparr>)"
proof -
  let ?q = "set_lane lane l q"
  have e: "fair_entries (?q\<lparr>fq_job_ids := ids, fq_len := n\<rparr>) = fair_entries ?q"
    by (simp add: fair_entries_def)
  have d: "distinct (map fe_job_id (fair_entries ?q))"
    using mset_distinct_map [OF assms(3), of fe_job_id] assms(4) by simp
  have s: "set (fair_entries ?q) = set xs" "length (fair_entries ?q) = length xs"
    using mset_eq_setD [OF assms(3)] mset_eq_length [OF assms(3)] by simp_all
  have l: "lane_inv Interactive (fq_interactive ?q)" "lane_inv Batch (fq_batch ?q)"
    using assms(1,2) by (cases lane; simp add: fair_inv_def)+
  show ?thesis
    using assms(1,5,6,7) d s l unfolding fair_inv_def e by simp
qed

lemma lane_entries_subset: "set (lane_entries (fair_lane lane q)) \<subseteq> set (fair_entries q)"
  by (cases lane) (auto simp: fair_entries_def)

lemma fair_push_ok:
  assumes inv: "fair_inv q" and fresh: "fe_job_id e \<notin> fq_job_ids q" and room: "fq_len q \<noteq> fq_capacity q"
  shows "\<exists>q'. fair_push e q = Inr q' \<and> fair_inv q'
    \<and> mset (fair_entries q') = add_mset e (mset (fair_entries q))"
proof -
  let ?lane = "fe_lane e"
  let ?l = "lane_push e (fair_lane ?lane q)"
  have "fe_job_id e \<notin> fe_job_id ` set (lane_entries (fair_lane ?lane q))"
    using fresh fair_invD(3) [OF inv] lane_entries_subset [of ?lane q] by auto
  note push = lane_push_facts [OF fair_invD(1) [OF inv] refl this]
  have m: "mset (fair_entries (set_lane ?lane ?l q)) = mset (e # fair_entries q)"
    using fair_entries_set_lane [of ?lane ?l q] push(2) by simp
  have lane1: "fair_lane ?lane (q\<lparr>fq_job_ids := ids\<rparr>) = fair_lane ?lane q" for ids
    by (cases ?lane) simp_all
  have set1: "set_lane ?lane l (q\<lparr>fq_job_ids := ids\<rparr>) = (set_lane ?lane l q)\<lparr>fq_job_ids := ids\<rparr>" for ids l
    by (cases ?lane) simp_all
  have eq: "fair_push e q = Inr ((set_lane ?lane ?l q)
      \<lparr>fq_job_ids := insert (fe_job_id e) (fq_job_ids q), fq_len := fq_len q + 1\<rparr>)"
    using fresh room by (simp add: fair_push_def lane1 set1)
  have "fair_inv ((set_lane ?lane ?l q)
      \<lparr>fq_job_ids := insert (fe_job_id e) (fq_job_ids q), fq_len := fq_len q + 1\<rparr>)"
  proof (rule fair_inv_replace_lane [OF inv push(1) m])
    show "distinct (map fe_job_id (e # fair_entries q))"
      using fair_invD(2,3) [OF inv] fresh by simp
    show "insert (fe_job_id e) (fq_job_ids q) = fe_job_id ` set (e # fair_entries q)"
      using fair_invD(3) [OF inv] by simp
    show "fq_len q + 1 = length (e # fair_entries q)" using fair_invD(4) [OF inv] by simp
    show "fq_len q + 1 \<le> fq_capacity q" using fair_invD(5) [OF inv] room by simp
  qed
  moreover have "fair_entries ((set_lane ?lane ?l q)
      \<lparr>fq_job_ids := insert (fe_job_id e) (fq_job_ids q), fq_len := fq_len q + 1\<rparr>)
    = fair_entries (set_lane ?lane ?l q)"
    by (simp add: fair_entries_def)
  ultimately show ?thesis using eq m by simp
qed

lemma pop_lane_facts:
  assumes inv: "fair_inv q"
  shows "(lane_entries (fair_lane lane q) = [] \<and> pop_lane lane q = Inr (None, q))
    \<or> (\<exists>e q' l'. lane_entries (fair_lane lane q) \<noteq> [] \<and> pop_lane lane q = Inr (Some e, q') \<and> fair_inv q' \<and> fe_lane e = lane
        \<and> lane_pop (fair_lane lane q) = Inr (Some e, l') \<and> fair_lane lane q' = l'
        \<and> (\<forall>other. other \<noteq> lane \<longrightarrow> fair_lane other q' = fair_lane other q)
        \<and> mset (fair_entries q) = add_mset e (mset (fair_entries q'))
        \<and> fq_schedule q' = fq_schedule q \<and> fq_cursor q' = fq_cursor q \<and> fq_batch_aging q' = fq_batch_aging q
        \<and> fq_last_pop_forced_aged_batch q' = fq_last_pop_forced_aged_batch q)"
proof -
  let ?l = "fair_lane lane q"
  have linv: "lane_inv lane ?l" by (rule fair_invD(1) [OF inv])
  have same: "set_lane lane ?l q = q" by (cases lane) simp_all
  from lane_pop_facts [OF linv] show ?thesis
  proof (elim disjE exE conjE)
    assume "lane_entries ?l = []" "lane_pop ?l = Inr (None, ?l)"
    then show ?thesis by (simp add: pop_lane_def same)
  next
    fix p ring e b l'
    assume pop: "lane_pop ?l = Inr (Some e, l')" and l': "lane_inv lane l'"
      and ml: "mset (lane_entries ?l) = add_mset e (mset (lane_entries l'))"
    let ?q' = "(set_lane lane l' q)\<lparr>fq_job_ids := fq_job_ids q - {fe_job_id e}, fq_len := fq_len q - 1\<rparr>"
    have eq: "pop_lane lane q = Inr (Some e, ?q')" by (simp add: pop_lane_def pop)
    have ein: "e \<in> set (lane_entries ?l)"
      using ml by (metis set_mset_mset union_single_eq_member)
    then have "e \<in> set (fair_entries q)" using lane_entries_subset by auto
    have m': "mset (fair_entries q) = add_mset e (mset (fair_entries (set_lane lane l' q)))"
      using fair_entries_set_lane [of lane l' q] ml by simp
    have m: "mset (fair_entries (set_lane lane l' q)) = mset (remove1 e (fair_entries q))"
      using m' by simp
    have mm: "mset (fair_entries q) = mset (e # remove1 e (fair_entries q))"
      using m m' by simp
    have d: "distinct (fe_job_id e # map fe_job_id (remove1 e (fair_entries q)))"
      using mset_distinct_map [OF mm, of fe_job_id] fair_invD(2) [OF inv] by simp
    have "fair_inv ?q'"
    proof (rule fair_inv_replace_lane [OF inv l' m])
      show "distinct (map fe_job_id (remove1 e (fair_entries q)))" using d by simp
      show "fq_job_ids q - {fe_job_id e} = fe_job_id ` set (remove1 e (fair_entries q))"
        using d fair_invD(3) [OF inv] mset_eq_setD [OF mm] by auto
      show "fq_len q - 1 = length (remove1 e (fair_entries q))"
        using mset_eq_length [OF mm] fair_invD(4) [OF inv] by simp
      show "fq_len q - 1 \<le> fq_capacity q" using fair_invD(5) [OF inv] by simp
    qed
    moreover have "fe_lane e = lane" by (rule lane_inv_lane [OF linv ein])
    moreover have "fair_entries ?q' = fair_entries (set_lane lane l' q)" by (simp add: fair_entries_def)
    moreover have "fair_lane other ?q' = fair_lane other (set_lane lane l' q)" for other
      by (cases other) simp_all
    ultimately show ?thesis using eq m' pop ein by (auto simp: fair_lane_other)
  qed
qed

subsection \<open>Serving and removing\<close>

lemma fair_inv_flags [simp]:
  "fair_inv (q\<lparr>fq_last_pop_forced_aged_batch := b\<rparr>) = fair_inv q"
  "c < length (fq_schedule q) \<Longrightarrow> fair_inv q \<Longrightarrow> fair_inv (q\<lparr>fq_cursor := c\<rparr>)"
  by (simp_all add: fair_inv_def fair_entries_def)

lemma fair_entries_flags [simp]:
  "fair_entries (q\<lparr>fq_last_pop_forced_aged_batch := b\<rparr>) = fair_entries q"
  "fair_entries (q\<lparr>fq_cursor := c\<rparr>) = fair_entries q"
  "fair_lane lane (q\<lparr>fq_last_pop_forced_aged_batch := b\<rparr>) = fair_lane lane q"
  "fair_lane lane (q\<lparr>fq_cursor := c\<rparr>) = fair_lane lane q"
  by (simp_all add: fair_entries_def) (cases lane; simp)+

lemma fair_cursor_self [simp]: "q\<lparr>fq_cursor := fq_cursor q\<rparr> = q"
  by simp

lemma next_cursor_less: "fair_inv q \<Longrightarrow> (fq_cursor q + 1) mod length (fq_schedule q) < length (fq_schedule q)"
  by (metis fair_invD(6) gr_implies_not0 mod_less_divisor neq0_conv)

text \<open>
  The rotation through the schedule serves the first lane, in schedule order from the cursor, that
  has an entry, and leaves the cursor just behind the slot it served.
\<close>

lemma pop_schedule_step:
  assumes inv: "fair_inv q"
  shows "pop_schedule (Suc n) q =
    (let lane = fq_schedule q ! fq_cursor q;
         q1 = q\<lparr>fq_cursor := (fq_cursor q + 1) mod length (fq_schedule q)\<rparr>
     in if lane_entries (fair_lane lane q) = [] then pop_schedule n q1 else pop_lane lane q1)"
proof -
  let ?lane = "fq_schedule q ! fq_cursor q"
  let ?q1 = "q\<lparr>fq_cursor := (fq_cursor q + 1) mod length (fq_schedule q)\<rparr>"
  have inv1: "fair_inv ?q1" by (rule fair_inv_flags(2) [OF next_cursor_less [OF inv] inv])
  from pop_lane_facts [OF inv1, of ?lane] fair_invD(6) [OF inv] show ?thesis
    by (auto simp: Let_def)
qed

lemma pop_schedule_None:
  assumes "fair_inv q" and "lane_entries (fq_interactive q) = []" and "lane_entries (fq_batch q) = []"
  shows "\<exists>c < length (fq_schedule q). pop_schedule n q = Inr (None, q\<lparr>fq_cursor := c\<rparr>)"
  using assms
proof (induction n arbitrary: q)
  case 0
  then show ?case using fair_invD(6) by force
next
  case (Suc n)
  let ?c = "(fq_cursor q + 1) mod length (fq_schedule q)"
  have inv1: "fair_inv (q\<lparr>fq_cursor := ?c\<rparr>)" by (rule fair_inv_flags(2) [OF next_cursor_less [OF Suc.prems(1)] Suc.prems(1)])
  have "lane_entries (fair_lane lane q) = []" for lane using Suc.prems by (cases lane) simp_all
  then have eq: "pop_schedule (Suc n) q = pop_schedule n (q\<lparr>fq_cursor := ?c\<rparr>)"
    by (simp add: pop_schedule_step [OF Suc.prems(1)] del: pop_schedule.simps)
  obtain c where "c < length (fq_schedule q)" "pop_schedule n (q\<lparr>fq_cursor := ?c\<rparr>) = Inr (None, q\<lparr>fq_cursor := ?c\<rparr>\<lparr>fq_cursor := c\<rparr>)"
    using Suc.IH [OF inv1] Suc.prems(2,3) by auto
  then show ?case using eq by auto
qed

lemma pop_schedule_serves:
  assumes "fair_inv q" and "d < n"
    and "lane_entries (fair_lane (fq_schedule q ! ((fq_cursor q + d) mod length (fq_schedule q))) q) \<noteq> []"
    and "\<forall>i < d. lane_entries (fair_lane (fq_schedule q ! ((fq_cursor q + i) mod length (fq_schedule q))) q) = []"
  shows "pop_schedule n q = pop_lane (fq_schedule q ! ((fq_cursor q + d) mod length (fq_schedule q)))
    (q\<lparr>fq_cursor := (fq_cursor q + d + 1) mod length (fq_schedule q)\<rparr>)"
  using assms
proof (induction d arbitrary: q n)
  case 0
  then obtain m where n: "n = Suc m" by (cases n) auto
  have c: "fq_cursor q mod length (fq_schedule q) = fq_cursor q" using fair_invD(6) [OF 0(1)] by simp
  show ?case using 0(3) unfolding n pop_schedule_step [OF 0(1)] by (simp add: c Let_def)
next
  case (Suc d)
  then obtain m where n: "n = Suc m" and dm: "d < m" by (cases n) auto
  let ?L = "length (fq_schedule q)"
  let ?q1 = "q\<lparr>fq_cursor := (fq_cursor q + 1) mod ?L\<rparr>"
  have c: "fq_cursor q mod ?L = fq_cursor q" using fair_invD(6) [OF Suc(2)] by simp
  have inv1: "fair_inv ?q1" by (rule fair_inv_flags(2) [OF next_cursor_less [OF Suc.prems(1)] Suc.prems(1)])
  have empty: "lane_entries (fair_lane (fq_schedule q ! fq_cursor q) q) = []"
    using Suc.prems(4) [rule_format, of 0] c by simp
  have shift: "((fq_cursor q + 1) mod ?L + i) mod ?L = (fq_cursor q + Suc i) mod ?L" for i
    by (simp add: mod_add_left_eq)
  have "pop_schedule m ?q1 = pop_lane (fq_schedule ?q1 ! ((fq_cursor ?q1 + d) mod length (fq_schedule ?q1)))
    (?q1\<lparr>fq_cursor := (fq_cursor ?q1 + d + 1) mod length (fq_schedule ?q1)\<rparr>)"
  proof (rule Suc.IH [OF inv1 dm])
    show "lane_entries (fair_lane (fq_schedule ?q1 ! ((fq_cursor ?q1 + d) mod length (fq_schedule ?q1))) ?q1) \<noteq> []"
      using Suc.prems(3) shift [of d] by simp
    show "\<forall>i<d. lane_entries (fair_lane (fq_schedule ?q1 ! ((fq_cursor ?q1 + i) mod length (fq_schedule ?q1))) ?q1) = []"
      using Suc.prems(4) by (auto simp: shift [simplified])
  qed
  then show ?case
    unfolding n pop_schedule_step [OF Suc.prems(1)] using empty shift [of d] shift [of "Suc d"]
    by (simp add: Let_def)
qed

lemma schedule_reaches_lane:
  assumes inv: "fair_inv q" and "lane_entries (fair_lane lane q) \<noteq> []"
  shows "\<exists>d < length (fq_schedule q).
      lane_entries (fair_lane (fq_schedule q ! ((fq_cursor q + d) mod length (fq_schedule q))) q) \<noteq> []
    \<and> (\<forall>i < d. lane_entries (fair_lane (fq_schedule q ! ((fq_cursor q + i) mod length (fq_schedule q))) q) = [])"
proof -
  let ?L = "length (fq_schedule q)"
  let ?P = "\<lambda>d. lane_entries (fair_lane (fq_schedule q ! ((fq_cursor q + d) mod ?L)) q) \<noteq> []"
  have "lane \<in> set (fq_schedule q)" using inv by (cases lane) (simp_all add: fair_inv_def)
  then obtain k where k: "k < ?L" "fq_schedule q ! k = lane" by (auto simp: in_set_conv_nth)
  let ?d = "(k + ?L - fq_cursor q) mod ?L"
  have c: "fq_cursor q < ?L" by (rule fair_invD(6) [OF inv])
  have "(fq_cursor q + ?d) mod ?L = (fq_cursor q + (k + ?L - fq_cursor q)) mod ?L" by (simp add: mod_add_right_eq)
  also have "\<dots> = k" using c k(1) by simp
  finally have P: "?P ?d" using k(2) assms(2) by simp
  have less: "?d < ?L" using c by (intro mod_less_divisor) linarith
  have "(LEAST d. ?P d) \<le> ?d" by (rule Least_le [of ?P, OF P])
  moreover have "?P (LEAST d. ?P d)" by (rule LeastI [of ?P, OF P])
  moreover have "\<forall>i < (LEAST d. ?P d). \<not> ?P i" using not_less_Least by blast
  ultimately show ?thesis using less by (intro exI [of _ "LEAST d. ?P d"]) auto
qed

text \<open>What a pop does to the queue, whichever way it chose the lane.\<close>

definition pop_effect :: "'p FairQueue \<Rightarrow> string + ('p FairEntry option \<times> 'p FairQueue) \<Rightarrow> bool" where
  "pop_effect q r \<longleftrightarrow> (\<exists>popped q'. r = Inr (popped, q') \<and> fair_inv q'
     \<and> fq_schedule q' = fq_schedule q \<and> fq_batch_aging q' = fq_batch_aging q
     \<and> (popped = None \<longleftrightarrow> fair_entries q = [])
     \<and> mset (fair_entries q) = mset (fair_entries q') + (case popped of None \<Rightarrow> {#} | Some e \<Rightarrow> {#e#}))"

lemma pop_lane_effect:
  assumes "fair_inv q" and "lane_entries (fair_lane lane q) \<noteq> []"
  shows "pop_effect q (pop_lane lane q)"
  using pop_lane_facts [OF assms(1), of lane] assms(2) lane_entries_subset [of lane q]
  by (auto simp: pop_effect_def)

lemma pop_effect_flags [simp]:
  "pop_effect (q\<lparr>fq_cursor := c\<rparr>) r = pop_effect q r"
  "pop_effect (q\<lparr>fq_last_pop_forced_aged_batch := b\<rparr>) r = pop_effect q r"
  by (simp_all add: pop_effect_def)

lemma pop_schedule_effect:
  assumes inv: "fair_inv q"
  shows "pop_effect q (pop_schedule (length (fq_schedule q)) q)"
proof (cases "fair_entries q = []")
  case True
  then show ?thesis
    using pop_schedule_None [OF inv, of "length (fq_schedule q)"] inv
    by (auto simp: pop_effect_def fair_entries_def)
next
  case False
  let ?L = "length (fq_schedule q)"
  from False obtain lane where "lane_entries (fair_lane lane q) \<noteq> []"
    by (metis append_Nil fair_entries_def fair_lane.simps(1,2))
  from schedule_reaches_lane [OF inv this] obtain d where d: "d < ?L"
    "lane_entries (fair_lane (fq_schedule q ! ((fq_cursor q + d) mod ?L)) q) \<noteq> []"
    "\<forall>i<d. lane_entries (fair_lane (fq_schedule q ! ((fq_cursor q + i) mod ?L)) q) = []" by blast
  have c: "(fq_cursor q + d + 1) mod ?L < ?L" using d(1) by (intro mod_less_divisor) linarith
  show ?thesis
    unfolding pop_schedule_serves [OF inv d]
    using pop_lane_effect [OF fair_inv_flags(2) [OF c inv]] d(2) by simp
qed

lemma oldest_None: "oldest_enqueued_at l = None \<longleftrightarrow> lane_entries l = []"
  by (cases "lane_entries l") (simp_all add: oldest_enqueued_at_def)

lemma aged_batch_nonempty: "aged_batch now q \<Longrightarrow> lane_entries (fq_batch q) \<noteq> []"
  by (auto simp: aged_batch_def oldest_None [symmetric] split: option.splits)

lemma fair_pop_effect:
  assumes inv: "fair_inv q"
  shows "pop_effect q (fair_pop now q)"
proof (cases "aged_batch now q \<and> \<not> fq_last_pop_forced_aged_batch q")
  case True
  have "pop_effect (q\<lparr>fq_last_pop_forced_aged_batch := True\<rparr>) (pop_lane Batch (q\<lparr>fq_last_pop_forced_aged_batch := True\<rparr>))"
    by (rule pop_lane_effect) (use inv True aged_batch_nonempty in auto)
  with True show ?thesis by (simp add: fair_pop_def)
next
  case False
  have "pop_effect (q\<lparr>fq_last_pop_forced_aged_batch := False\<rparr>)
      (pop_schedule (length (fq_schedule q)) (q\<lparr>fq_last_pop_forced_aged_batch := False\<rparr>))"
    using pop_schedule_effect [of "q\<lparr>fq_last_pop_forced_aged_batch := False\<rparr>"] inv by simp
  with False show ?thesis by (auto simp: fair_pop_def)
qed

lemma fair_new_inv:
  assumes "fair_new from_std config = Inr q"
  shows "fair_inv q" and "fair_entries q = []"
    and "fq_schedule q = replicate (fc_interactive_weight config) Interactive @ replicate (fc_batch_weight config) Batch"
    and "fq_cursor q = 0" and "\<not> fq_last_pop_forced_aged_batch q"
  using assms by (auto simp: fair_new_def fair_inv_def fair_entries_def result_inv split: if_splits)

lemma fair_remove_facts:
  assumes inv: "fair_inv q"
  shows "(job \<notin> fq_job_ids q \<and> fair_remove job q = (None, q))
    \<or> (\<exists>e q'. fair_remove job q = (Some e, q') \<and> fe_job_id e = job \<and> fair_inv q'
        \<and> mset (fair_entries q) = add_mset e (mset (fair_entries q')))"
proof -
  have same: "set_lane Interactive (fq_interactive q) q = q" "set_lane Batch (fq_batch q) q = q" by simp_all
  have hit: "fair_inv q' \<and> mset (fair_entries q) = add_mset e (mset (fair_entries q'))"
    if l': "lane_inv lane l'" and ml: "mset (lane_entries (fair_lane lane q)) = add_mset e (mset (lane_entries l'))"
      and e: "fe_job_id e = job"
      and q': "q' = (set_lane lane l' q)\<lparr>fq_job_ids := fq_job_ids q - {job}, fq_len := fq_len q - 1\<rparr>"
    for lane l' e q'
  proof -
    have m': "mset (fair_entries q) = add_mset e (mset (fair_entries (set_lane lane l' q)))"
      using fair_entries_set_lane [of lane l' q] ml by simp
    then have mm: "mset (fair_entries q) = mset (e # fair_entries (set_lane lane l' q))" by simp
    have d: "distinct (fe_job_id e # map fe_job_id (fair_entries (set_lane lane l' q)))"
      using mset_distinct_map [OF mm, of fe_job_id] fair_invD(2) [OF inv] by simp
    have "fair_inv q'" unfolding q'
    proof (rule fair_inv_replace_lane [OF inv l' refl])
      show "distinct (map fe_job_id (fair_entries (set_lane lane l' q)))" using d by simp
      show "fq_job_ids q - {job} = fe_job_id ` set (fair_entries (set_lane lane l' q))"
        using d e fair_invD(3) [OF inv] mset_eq_setD [OF mm] by auto
      show "fq_len q - 1 = length (fair_entries (set_lane lane l' q))"
        using mset_eq_length [OF mm] fair_invD(4) [OF inv] by simp
      show "fq_len q - 1 \<le> fq_capacity q" using fair_invD(5) [OF inv] by simp
    qed
    moreover have "fair_entries q' = fair_entries (set_lane lane l' q)" by (simp add: q' fair_entries_def)
    ultimately show ?thesis using m' by simp
  qed
  have li: "lane_inv Interactive (fq_interactive q)" "lane_inv Batch (fq_batch q)"
    using fair_invD(1) [OF inv, of Interactive] fair_invD(1) [OF inv, of Batch] by simp_all
  from lane_remove_facts [OF li(1), of job] show ?thesis
  proof (elim disjE exE conjE)
    fix e l' assume r: "lane_remove job (fq_interactive q) = (Some e, l')" "fe_job_id e = job"
      "lane_inv Interactive l'" "mset (lane_entries (fq_interactive q)) = add_mset e (mset (lane_entries l'))"
    show ?thesis
      using hit [of Interactive l' e, OF r(3) _ r(2) refl] r(1,2,4) by (simp add: fair_remove_def)
  next
    assume i: "job \<notin> fe_job_id ` set (lane_entries (fq_interactive q))"
      "lane_remove job (fq_interactive q) = (None, fq_interactive q)"
    from lane_remove_facts [OF li(2), of job] show ?thesis
    proof (elim disjE exE conjE)
      fix e l' assume r: "lane_remove job (fq_batch q) = (Some e, l')" "fe_job_id e = job"
        "lane_inv Batch l'" "mset (lane_entries (fq_batch q)) = add_mset e (mset (lane_entries l'))"
      show ?thesis
        using hit [of Batch l' e, OF r(3) _ r(2) refl] r(1,2,4) i by (simp add: fair_remove_def)
    next
      assume "job \<notin> fe_job_id ` set (lane_entries (fq_batch q))"
        "lane_remove job (fq_batch q) = (None, fq_batch q)"
      with i show ?thesis
        using fair_invD(3) [OF inv] by (auto simp: fair_remove_def fair_entries_def)
    qed
  qed
qed

section \<open>The queue contract\<close>

text \<open>
  Both the lanes and the whole buffer promise a multiset queue: a successful push adds exactly its
  argument, a pop removes exactly what it returns, never panics, and returns nothing only when the
  queue is empty.  \<open>drain\<close> and \<open>push_all\<close> are the client loops.
\<close>

fun push_all :: "('a \<Rightarrow> 'q \<Rightarrow> 'e + 'q) \<Rightarrow> 'a list \<Rightarrow> 'q \<Rightarrow> 'e + 'q" where
  "push_all push [] q = Inr q"
| "push_all push (x # xs) q = bind_result (push x q) (push_all push xs)"

fun drain :: "('t \<Rightarrow> 'q \<Rightarrow> 'e + ('a option \<times> 'q)) \<Rightarrow> 't list \<Rightarrow> 'q \<Rightarrow> 'e + ('a list \<times> 'q)" where
  "drain pop [] q = Inr ([], q)"
| "drain pop (t # ts) q = bind_result (pop t q) (\<lambda>(popped, q1).
     case popped of
       None \<Rightarrow> Inr ([], q1)
     | Some x \<Rightarrow> bind_result (drain pop ts q1) (\<lambda>(xs, q2). Inr (x # xs, q2)))"

locale multiset_queue =
  fixes invar :: "'q \<Rightarrow> bool" and content :: "'q \<Rightarrow> 'a multiset"
    and admits :: "'a \<Rightarrow> 'q \<Rightarrow> bool"
    and push :: "'a \<Rightarrow> 'q \<Rightarrow> 'e + 'q" and pop :: "'t \<Rightarrow> 'q \<Rightarrow> 'f + ('a option \<times> 'q)"
  assumes push_adds: "invar q \<Longrightarrow> admits x q \<Longrightarrow> push x q = Inr q' \<Longrightarrow>
      invar q' \<and> content q' = add_mset x (content q)"
    and pop_empty: "invar q \<Longrightarrow> content q = {#} \<Longrightarrow> \<exists>q'. pop t q = Inr (None, q')"
    and pop_removes: "invar q \<Longrightarrow> content q \<noteq> {#} \<Longrightarrow>
      \<exists>x q'. pop t q = Inr (Some x, q') \<and> invar q' \<and> content q = add_mset x (content q')"
begin

lemma push_all_adds:
  assumes "\<And>x q. x \<in> set xs \<Longrightarrow> admits x q" and "invar q" and "push_all push xs q = Inr q'"
  shows "invar q' \<and> content q' = mset xs + content q"
  using assms
proof (induction xs arbitrary: q)
  case (Cons x xs)
  from Cons.prems(3) obtain q1 where p: "push x q = Inr q1" and r: "push_all push xs q1 = Inr q'"
    by (auto simp: result_inv)
  have 1: "invar q1" "content q1 = add_mset x (content q)"
    using push_adds [OF Cons.prems(2) Cons.prems(1) p] by simp_all
  from Cons.IH [OF Cons.prems(1) 1(1) r] 1(2) show ?case by simp
qed simp

lemma drain_serves:
  assumes "invar q" and "length ts \<le> size (content q)"
  shows "\<exists>xs q'. drain pop ts q = Inr (xs, q') \<and> length xs = length ts \<and> invar q'
    \<and> content q = mset xs + content q'"
  using assms
proof (induction ts arbitrary: q)
  case (Cons t ts)
  then have "content q \<noteq> {#}" by auto
  from pop_removes [OF Cons.prems(1) this, of t] obtain x q1 where p: "pop t q = Inr (Some x, q1)"
    and i: "invar q1" and c: "content q = add_mset x (content q1)" by blast
  have "length ts \<le> size (content q1)" using Cons.prems(2) c by simp
  from Cons.IH [OF i this] p c show ?case by auto
qed simp

lemma drain_all:
  assumes "invar q" and "length ts = size (content q)"
  shows "\<exists>xs q'. drain pop ts q = Inr (xs, q') \<and> mset xs = content q \<and> invar q' \<and> content q' = {#}"
proof -
  from drain_serves [OF assms(1) eq_imp_le [OF assms(2)]] obtain xs q' where d: "drain pop ts q = Inr (xs, q')"
    "length xs = length ts" "invar q'" "content q = mset xs + content q'" by blast
  have "size (content q') = 0" using d(2,4) assms(2) by (metis add_eq_self_zero size_mset size_union)
  with d show ?thesis by auto
qed

end

interpretation lane_queue: multiset_queue "lane_inv lane" "\<lambda>l. mset (lane_entries l)"
  "\<lambda>e l. fe_lane e = lane \<and> fe_job_id e \<notin> fe_job_id ` set (lane_entries l)"
  "\<lambda>e l. Inr (lane_push e l)" "\<lambda>_. lane_pop"
proof (unfold_locales, goal_cases)
  case (1 q x q')
  then show ?case using lane_push_facts [of lane q x] by auto
next
  case (2 q t)
  then show ?case using lane_pop_facts [OF 2(1)] by auto
next
  case (3 q t)
  then show ?case using lane_pop_facts [OF 3(1)] by auto
qed

interpretation fair_queue: multiset_queue fair_inv "\<lambda>q. mset (fair_entries q)" "\<lambda>_ _. True" fair_push fair_pop
proof (unfold_locales, goal_cases)
  case (1 q x q')
  then show ?case using fair_push_ok [OF 1(1), of x] by (auto simp: fair_push_def split: if_splits)
next
  case (2 q t)
  then show ?case using fair_pop_effect [OF 2(1), of t] by (auto simp: pop_effect_def)
next
  case (3 q t)
  then show ?case using fair_pop_effect [OF 3(1), of t] by (auto simp: pop_effect_def split: option.splits)
qed

section \<open>Fairness\<close>

lemma lane_bucket_least:
  assumes "lane_inv lane l" and "bt_get p (lq_projects l) = Some (e # b)"
    and "x \<in> set (lane_entries l)" and "fe_project_id x = p"
  shows "entry_key e \<le> entry_key x"
proof -
  obtain p' b' where m: "(p', b') \<in> set (lq_projects l)" and x: "x \<in> set b'"
    using assms(3) by (auto simp: lane_entries_def set_bt_concat)
  have g: "bt_get p' (lq_projects l) = Some b'" by (rule in_bt_get [OF lane_invD(1) [OF assms(1)] m])
  have "p' = p" using lane_inv_bucket [OF assms(1) g] x assms(4) by (auto simp: bucket_inv_def)
  with g assms(2) x have "x \<in> set (e # b)" by simp
  moreover have "sorted (map entry_key (e # b))"
    using lane_inv_bucket [OF assms(1,2)] by (simp add: bucket_inv_def)
  ultimately show ?thesis by auto
qed

lemma lane_pop_round:
  assumes "lane_inv lane l" and "lq_project_ring l = ps @ rest"
  shows "\<exists>es l'. drain (\<lambda>_. lane_pop) (replicate (length ps) ()) l = Inr (es, l') \<and> map fe_project_id es = ps
    \<and> (\<forall>e \<in> set es. \<forall>x \<in> set (lane_entries l). fe_project_id x = fe_project_id e \<longrightarrow> entry_key e \<le> entry_key x)"
  using assms
proof (induction ps arbitrary: l rest)
  case (Cons p ps)
  from lane_pop_facts [OF Cons.prems(1)] Cons.prems(2) obtain e b l' where
    get: "bt_get p (lq_projects l) = Some (e # b)" and pop: "lane_pop l = Inr (Some e, l')" and inv': "lane_inv lane l'"
    and m: "mset (lane_entries l) = add_mset e (mset (lane_entries l'))"
    and ring: "lq_project_ring l' = ps @ rest @ (if b = [] then [] else [p])" by auto
  from Cons.IH [OF inv' ring] obtain es l'' where
    d: "drain (\<lambda>_. lane_pop) (replicate (length ps) ()) l' = Inr (es, l'')" and ps: "map fe_project_id es = ps"
    and least: "\<forall>e \<in> set es. \<forall>x \<in> set (lane_entries l'). fe_project_id x = fe_project_id e \<longrightarrow> entry_key e \<le> entry_key x"
    by blast
  have pe: "fe_project_id e = p" using lane_inv_bucket [OF Cons.prems(1) get] by (simp add: bucket_inv_def)
  have np: "p \<notin> set ps" using lane_invD(2) [OF Cons.prems(1)] Cons.prems(2) by simp
  have mem: "x = e \<or> x \<in> set (lane_entries l')" if "x \<in> set (lane_entries l)" for x
    using that m by (metis add_mset_remove_trivial_eq insert_iff set_mset_add_mset_insert set_mset_mset)
  have "\<forall>f \<in> set (e # es). \<forall>x \<in> set (lane_entries l). fe_project_id x = fe_project_id f \<longrightarrow> entry_key f \<le> entry_key x"
  proof (intro ballI impI)
    fix f x assume f: "f \<in> set (e # es)" and x: "x \<in> set (lane_entries l)" "fe_project_id x = fe_project_id f"
    show "entry_key f \<le> entry_key x"
    proof (cases "f = e")
      case True
      then show ?thesis using lane_bucket_least [OF Cons.prems(1) get x(1)] x(2) pe by simp
    next
      case False
      then have fes: "f \<in> set es" using f by simp
      then have "fe_project_id f \<noteq> p" using ps np by auto
      then have "x \<noteq> e" using x(2) pe by auto
      then show ?thesis using mem [OF x(1)] least fes x(2) by blast
    qed
  qed
  then show ?case using pop d ps pe by (intro exI [of _ "e # es"] exI [of _ l'']) simp
qed simp

text \<open>While no batch entry has reached the aging limit, pops follow the schedule slot by slot.\<close>

definition not_aged :: "instant \<Rightarrow> 'p FairQueue \<Rightarrow> bool" where
  "not_aged t q \<longleftrightarrow> (\<forall>e \<in> set (lane_entries (fq_batch q)). t - fe_enqueued_at e < fq_batch_aging q)"

definition lane_count :: "PriorityLane \<Rightarrow> PriorityLane list \<Rightarrow> nat" where
  "lane_count lane xs = length (filter (\<lambda>x. x = lane) xs)"

definition slots :: "nat \<Rightarrow> 'p FairQueue \<Rightarrow> PriorityLane list" where
  "slots n q = map (\<lambda>i. fq_schedule q ! ((fq_cursor q + i) mod length (fq_schedule q))) [0..<n]"

lemma fold_min_mem: "fold min ts t \<in> set (t # ts)" for ts :: "int list"
  by (induction ts arbitrary: t) (auto simp: min_def)

lemma not_aged_batch: "not_aged t q \<Longrightarrow> \<not> aged_batch t q"
proof
  assume na: "not_aged t q" and "aged_batch t q"
  then obtain s where s: "oldest_enqueued_at (fq_batch q) = Some s" "fq_batch_aging q \<le> t - s"
    by (auto simp: aged_batch_def split: option.splits)
  then have "s \<in> set (map fe_enqueued_at (lane_entries (fq_batch q)))"
    using fold_min_mem by (fastforce simp: oldest_enqueued_at_def split: list.splits)
  with na s(2) show False by (auto simp: not_aged_def)
qed

lemma slots_Suc: "slots (Suc n) q = fq_schedule q ! (fq_cursor q mod length (fq_schedule q))
    # slots n (q\<lparr>fq_cursor := (fq_cursor q + 1) mod length (fq_schedule q)\<rparr>)"
proof -
  have "[0..<Suc n] = 0 # map Suc [0..<n]" by (simp add: map_Suc_upt upt_conv_Cons)
  then show ?thesis by (simp add: slots_def mod_add_left_eq)
qed

lemma fair_pop_slot:
  assumes inv: "fair_inv q" and na: "not_aged t q"
    and ne: "lane_entries (fair_lane (fq_schedule q ! fq_cursor q) q) \<noteq> []"
  shows "\<exists>e q'. fair_pop t q = Inr (Some e, q') \<and> fair_inv q' \<and> fe_lane e = fq_schedule q ! fq_cursor q
    \<and> fq_cursor q' = (fq_cursor q + 1) mod length (fq_schedule q) \<and> fq_schedule q' = fq_schedule q
    \<and> fq_batch_aging q' = fq_batch_aging q
    \<and> (\<forall>lane. mset (lane_entries (fair_lane lane q))
         = mset (lane_entries (fair_lane lane q')) + (if lane = fe_lane e then {#e#} else {#}))"
proof -
  let ?L = "length (fq_schedule q)" and ?lane = "fq_schedule q ! fq_cursor q"
  let ?q1 = "q\<lparr>fq_last_pop_forced_aged_batch := False\<rparr>"
  let ?q2 = "?q1\<lparr>fq_cursor := (fq_cursor q + 1) mod ?L\<rparr>"
  have inv1: "fair_inv ?q1" using inv by simp
  have inv2: "fair_inv ?q2" by (rule fair_inv_flags(2) [OF _ inv1]) (use next_cursor_less [OF inv] in simp)
  have L: "0 < ?L" using fair_invD(6) [OF inv] by linarith
  have "fair_pop t q = pop_schedule (Suc (?L - 1)) ?q1"
    using not_aged_batch [OF na] L by (simp add: fair_pop_def)
  also have "\<dots> = pop_lane ?lane ?q2" using ne by (simp only: pop_schedule_step [OF inv1]) (simp add: Let_def)
  finally have pop: "fair_pop t q = pop_lane ?lane ?q2" .
  from pop_lane_facts [OF inv2, of ?lane] ne obtain e q' l' where
    f: "pop_lane ?lane ?q2 = Inr (Some e, q')" "fair_inv q'" "fe_lane e = ?lane"
      "lane_pop (fair_lane ?lane q) = Inr (Some e, l')" "fair_lane ?lane q' = l'"
      "\<forall>other. other \<noteq> ?lane \<longrightarrow> fair_lane other q' = fair_lane other q"
      "fq_schedule q' = fq_schedule q" "fq_cursor q' = (fq_cursor q + 1) mod ?L" "fq_batch_aging q' = fq_batch_aging q"
    by auto
  have "mset (lane_entries (fair_lane ?lane q)) = add_mset e (mset (lane_entries l'))"
    using lane_pop_facts [OF fair_invD(1) [OF inv], of ?lane] f(4) by auto
  then have "mset (lane_entries (fair_lane lane q))
      = mset (lane_entries (fair_lane lane q')) + (if lane = fe_lane e then {#e#} else {#})" for lane
    using f(3,5,6) by (cases "lane = ?lane") auto
  with f pop show ?thesis by auto
qed

lemma fair_pops_follow_slots:
  assumes "fair_inv q" and "\<forall>t \<in> set ts. not_aged t q"
    and "\<forall>lane. lane_count lane (slots (length ts) q) \<le> lane_len lane q"
  shows "\<exists>es q'. drain fair_pop ts q = Inr (es, q') \<and> map fe_lane es = slots (length ts) q"
  using assms
proof (induction ts arbitrary: q)
  case Nil
  then show ?case by (simp add: slots_def)
next
  case (Cons t ts)
  let ?q1 = "q\<lparr>fq_cursor := (fq_cursor q + 1) mod length (fq_schedule q)\<rparr>"
  let ?lane = "fq_schedule q ! fq_cursor q"
  have cur: "fq_cursor q mod length (fq_schedule q) = fq_cursor q" using fair_invD(6) [OF Cons.prems(1)] by simp
  have sl: "slots (length (t # ts)) q = ?lane # slots (length ts) ?q1"
    using slots_Suc [of "length ts" q] cur by simp
  have len: "lane_len lane q = length (lane_entries (fair_lane lane q))" for lane
    using lane_invD(4) [OF fair_invD(1) [OF Cons.prems(1)]] by (simp add: lane_len_def)
  have "0 < lane_len ?lane q"
    using Cons.prems(3) [rule_format, of ?lane] unfolding sl by (simp add: lane_count_def)
  then have "lane_entries (fair_lane ?lane q) \<noteq> []" by (simp add: len)
  from fair_pop_slot [OF Cons.prems(1) _ this, of t] Cons.prems(2) obtain e q' where
    pop: "fair_pop t q = Inr (Some e, q')" "fair_inv q'" "fe_lane e = ?lane"
      "fq_cursor q' = (fq_cursor q + 1) mod length (fq_schedule q)" "fq_schedule q' = fq_schedule q"
      "fq_batch_aging q' = fq_batch_aging q"
    and ms: "\<And>lane. mset (lane_entries (fair_lane lane q))
         = mset (lane_entries (fair_lane lane q')) + (if lane = fe_lane e then {#e#} else {#})" by auto
  have sl': "slots (length ts) q' = slots (length ts) ?q1" using pop(4,5) by (simp add: slots_def)
  have sub: "set (lane_entries (fq_batch q')) \<subseteq> set (lane_entries (fq_batch q))"
    using ms [of Batch] by (metis fair_lane.simps(2) mset_subset_eq_add_left set_mset_mono set_mset_mset)
  have na: "\<forall>s \<in> set ts. not_aged s q'"
    using Cons.prems(2) sub pop(6) by (fastforce simp: not_aged_def)
  have len': "lane_len lane q = lane_len lane q' + (if lane = ?lane then 1 else 0)" for lane
  proof -
    have "lane_len lane q' = length (lane_entries (fair_lane lane q'))"
      using lane_invD(4) [OF fair_invD(1) [OF pop(2)]] by (simp add: lane_len_def)
    then show ?thesis using arg_cong [OF ms [of lane], of size] pop(3) len [of lane] by (auto split: if_splits)
  qed
  have "lane_count lane (slots (length ts) q') \<le> lane_len lane q'" for lane
    using Cons.prems(3) [rule_format, of lane] len' [of lane]
    unfolding sl by (auto simp: sl' lane_count_def split: if_splits)
  then obtain es q'' where "drain fair_pop ts q' = Inr (es, q'')" "map fe_lane es = slots (length ts) q'"
    using Cons.IH [OF pop(2) na] by blast
  then show ?case using pop(1,3) sl' unfolding sl by simp
qed

lemma slots_full_round: "fq_cursor q = 0 \<Longrightarrow> slots (length (fq_schedule q)) q = fq_schedule q"
  by (rule nth_equalityI) (simp_all add: slots_def)

section \<open>Properties of the buffer\<close>

text \<open>
  Push has exactly three outcomes.  An entry whose job is already buffered is handed back as a
  duplicate, an entry for a new job is handed back as full exactly when the buffer holds its
  capacity, and otherwise the entry is added, nothing else changes in the contents, and the buffer
  stays well formed.
\<close>

theorem fair_push_outcomes:
  assumes "fair_inv q"
  shows "case fair_push e q of
      Inl (Duplicate e') \<Rightarrow> e' = e \<and> (\<exists>x \<in> set (fair_entries q). fe_job_id x = fe_job_id e)
    | Inl (Full e') \<Rightarrow> e' = e \<and> length (fair_entries q) = fq_capacity q
        \<and> (\<forall>x \<in> set (fair_entries q). fe_job_id x \<noteq> fe_job_id e)
    | Inr q' \<Rightarrow> fair_inv q' \<and> mset (fair_entries q') = add_mset e (mset (fair_entries q))
        \<and> length (fair_entries q) < fq_capacity q
        \<and> (\<forall>x \<in> set (fair_entries q). fe_job_id x \<noteq> fe_job_id e)"
proof (cases "fe_job_id e \<in> fq_job_ids q")
  case True
  then obtain x where "x \<in> set (fair_entries q)" "fe_job_id x = fe_job_id e"
    using fair_invD(3) [OF assms] by (metis imageE)
  then show ?thesis using True unfolding fair_push_def by (simp, blast)
next
  case False
  then have new: "\<forall>x \<in> set (fair_entries q). fe_job_id x \<noteq> fe_job_id e"
    using fair_invD(3) [OF assms] by (metis image_eqI)
  show ?thesis
  proof (cases "fq_len q = fq_capacity q")
    case True
    with False new show ?thesis using fair_invD(4) [OF assms] by (simp add: fair_push_def)
  next
    case room: False
    with fair_invD(4,5) [OF assms] have "length (fair_entries q) < fq_capacity q" by simp
    with fair_push_ok [OF assms False room] new show ?thesis by auto
  qed
qed

definition sample_entry :: "string \<Rightarrow> string \<Rightarrow> PriorityLane \<Rightarrow> int \<Rightarrow> unit FairEntry" where
  "sample_entry job project lane t = \<lparr>fe_job_id = job, fe_project_id = project, fe_lane = lane,
     fe_created_at = t, fe_enqueued_at = t, fe_payload = ()\<rparr>"

definition sample_lane :: "PriorityLane \<Rightarrow> string \<Rightarrow> unit LaneQueue" where
  "sample_lane lane p = \<lparr>lq_projects =
     [(''a'', [sample_entry (p @ ''1'') ''a'' lane 1, sample_entry (p @ ''3'') ''a'' lane 3]),
      (''b'', [sample_entry (p @ ''2'') ''b'' lane 2])],
     lq_project_ring = [''a'', ''b''], lq_len = 3\<rparr>"

definition sample_queue :: "unit FairQueue" where
  "sample_queue = \<lparr>fq_capacity = 8, fq_batch_aging = 300, fq_schedule = [Interactive, Interactive, Batch],
     fq_cursor = 0, fq_interactive = sample_lane Interactive ''i'', fq_batch = sample_lane Batch ''b'',
     fq_job_ids = {''i1'', ''i2'', ''i3'', ''b1'', ''b2'', ''b3''}, fq_len = 6,
     fq_last_pop_forced_aged_batch = False\<rparr>"

lemma sample_lane_entries: "lane_entries (sample_lane lane p) =
   [sample_entry (p @ ''1'') ''a'' lane 1, sample_entry (p @ ''3'') ''a'' lane 3,
    sample_entry (p @ ''2'') ''b'' lane 2]"
  by (simp add: lane_entries_def sample_lane_def bt_concat_def)

lemma sample_lane_inv: "lane_inv lane (sample_lane lane p)"
  unfolding lane_inv_def sample_lane_entries
  by (simp add: bucket_inv_def bt_inv_def bt_keys_def sample_entry_def entry_key_def sample_lane_def less_char_def)

lemma sample_queue_inv: "fair_inv sample_queue"
  by (simp add: fair_inv_def sample_queue_def fair_entries_def sample_lane_inv sample_lane_entries
      sample_entry_def insert_commute)

theorem fair_push_outcomes_witness:
  "\<exists>q'. fair_push (sample_entry ''n1'' ''prj_c'' Batch 9) sample_queue = Inr q' \<and> fair_inv q'"
  using fair_push_outcomes [OF sample_queue_inv, of "sample_entry ''n1'' ''prj_c'' Batch 9"]
  by (auto simp: fair_push_def sample_queue_def sample_entry_def)

text \<open>
  C29. Nothing is lost, invented or duplicated: from a freshly built buffer, after any sequence of
  successful pushes, popping as many times as there were pushes, at any instants, never panics and
  returns exactly the pushed entries in some order; the next pop then returns nothing.
\<close>

theorem fair_queue_drains_what_was_pushed:
  assumes "fair_new from_std config = Inr q0" and "push_all fair_push es q0 = Inr q1"
    and "length ts = length es"
  shows "\<exists>out q2 q3. drain fair_pop ts q1 = Inr (out, q2) \<and> mset out = mset es
     \<and> fair_pop now q2 = Inr (None, q3)"
proof -
  have 1: "fair_inv q1" "mset (fair_entries q1) = mset es"
    using fair_queue.push_all_adds [OF TrueI fair_new_inv(1) [OF assms(1)] assms(2)]
      fair_new_inv(2) [OF assms(1)] by simp_all
  have "length ts = size (mset (fair_entries q1))" using 1(2) assms(3) by simp
  from fair_queue.drain_all [OF 1(1) this] 1(2) obtain out q2 where
    "drain fair_pop ts q1 = Inr (out, q2)" "mset out = mset es" "fair_inv q2" "mset (fair_entries q2) = {#}"
    by auto
  with fair_queue.pop_empty [of q2 now] show ?thesis by blast
qed

definition sample_config :: FairQueueConfig where
  "sample_config = \<lparr>fc_capacity = 2, fc_interactive_weight = 1, fc_batch_weight = 1, fc_batch_aging = 10\<rparr>"

theorem fair_queue_drains_what_was_pushed_witness:
  "\<exists>q0 q1 out q2. fair_new Some sample_config = Inr q0
     \<and> push_all fair_push [sample_entry ''j1'' ''p'' Batch 1, sample_entry ''j2'' ''p'' Interactive 2] q0 = Inr q1
     \<and> drain fair_pop [3, 4] q1 = Inr (out, q2)
     \<and> mset out = {#sample_entry ''j1'' ''p'' Batch 1, sample_entry ''j2'' ''p'' Interactive 2#}"
proof -
  obtain q0 :: "unit FairQueue" where q0: "fair_new Some sample_config = Inr q0"
    by (simp add: fair_new_def sample_config_def)
  obtain q1 where q1: "push_all fair_push [sample_entry ''j1'' ''p'' Batch 1, sample_entry ''j2'' ''p'' Interactive 2] q0 = Inr q1"
    using q0 by (auto simp: fair_new_def sample_config_def fair_push_def sample_entry_def Let_def)
  show ?thesis using fair_queue_drains_what_was_pushed [OF q0 q1, of "[3, 4]" 5] q0 q1 by auto
qed

text \<open>
  C33. Batch aging is bounded on both sides.  While the batch lane holds an aged entry, at least one
  of any two successive pops serves the batch lane; and the aging override never fires twice in a
  row, so the pop after an override is decided by the weighted schedule.
\<close>

theorem batch_aging_alternates:
  assumes "fair_inv q" and "aged_batch now q" and "fair_pop now q = Inr (Some e, q1)"
    and "aged_batch now' q1" and "fair_pop now' q1 = Inr (Some e', q2)"
  shows "(fe_lane e = Batch \<or> fe_lane e' = Batch)
    \<and> (fq_last_pop_forced_aged_batch q1 \<longrightarrow>
         fair_pop now' q1 = pop_schedule (length (fq_schedule q1)) (q1\<lparr>fq_last_pop_forced_aged_batch := False\<rparr>)
         \<and> \<not> fq_last_pop_forced_aged_batch q2)"
proof -
  have forced: "fe_lane x = Batch" if "fair_inv p" "aged_batch t p" "\<not> fq_last_pop_forced_aged_batch p"
    "fair_pop t p = Inr (Some x, p')" for p t x p'
    using that pop_lane_facts [of "p\<lparr>fq_last_pop_forced_aged_batch := True\<rparr>" Batch]
    by (auto simp: fair_pop_def)
  have sched_flag: "\<not> fq_last_pop_forced_aged_batch p'"
    if "pop_schedule n p = Inr (r, p')" "fair_inv p" "\<not> fq_last_pop_forced_aged_batch p" for n p r p'
    using that
  proof (induction n arbitrary: p)
    case (Suc n)
    let ?p1 = "p\<lparr>fq_cursor := (fq_cursor p + 1) mod length (fq_schedule p)\<rparr>"
    have "fair_inv ?p1" by (rule fair_inv_flags(2) [OF next_cursor_less [OF Suc.prems(2)] Suc.prems(2)])
    with Suc pop_lane_facts [OF this, of "fq_schedule p ! fq_cursor p"] show ?case
      unfolding pop_schedule_step [OF Suc.prems(2)] by (auto simp: Let_def split: if_splits)
  qed simp
  have inv1: "fair_inv q1" using fair_pop_effect [OF assms(1), of now] assms(3) by (auto simp: pop_effect_def)
  have "fe_lane e = Batch \<or> \<not> fq_last_pop_forced_aged_batch q1"
  proof (cases "fq_last_pop_forced_aged_batch q")
    case True
    then show ?thesis
      using assms(1,3) sched_flag [of "length (fq_schedule q)" "q\<lparr>fq_last_pop_forced_aged_batch := False\<rparr>" "Some e" q1]
      by (simp add: fair_pop_def)
  next
    case False
    then show ?thesis using forced [OF assms(1,2) _ assms(3)] by simp
  qed
  then have "fe_lane e = Batch \<or> fe_lane e' = Batch" using forced [OF inv1 assms(4) _ assms(5)] by blast
  moreover have "\<not> fq_last_pop_forced_aged_batch q2" if "fq_last_pop_forced_aged_batch q1"
    using that assms(5) inv1
      sched_flag [of "length (fq_schedule q1)" "q1\<lparr>fq_last_pop_forced_aged_batch := False\<rparr>" "Some e'" q2]
    by (simp add: fair_pop_def)
  ultimately show ?thesis by (simp add: fair_pop_def)
qed

theorem batch_aging_alternates_witness:
  "\<exists>e q1 e' q2. aged_batch 1000 sample_queue \<and> fair_pop 1000 sample_queue = Inr (Some e, q1)
     \<and> aged_batch 1001 q1 \<and> fair_pop 1001 q1 = Inr (Some e', q2) \<and> (fe_lane e = Batch \<or> fe_lane e' = Batch)"
proof -
  have a: "aged_batch 1000 sample_queue"
    by (simp add: aged_batch_def oldest_enqueued_at_def sample_queue_def sample_lane_entries sample_entry_def)
  obtain e q1 where p: "fair_pop 1000 sample_queue = Inr (Some e, q1)"
    and b: "lane_entries (fq_batch q1) = [sample_entry ''b3'' ''a'' Batch 3, sample_entry ''b2'' ''b'' Batch 2]"
    and g: "fq_batch_aging q1 = 300" and i: "fair_inv q1"
    using a fair_pop_effect [OF sample_queue_inv, of 1000]
    by (auto simp: fair_pop_def pop_lane_def lane_pop_def bt_get_def sample_lane_def sample_queue_def
        lane_entries_def bt_concat_def pop_effect_def)
  have a1: "aged_batch 1001 q1"
    by (simp add: aged_batch_def oldest_enqueued_at_def b g sample_entry_def)
  have "fair_entries q1 \<noteq> []" by (simp add: fair_entries_def b)
  then obtain e' q2 where p1: "fair_pop 1001 q1 = Inr (Some e', q2)"
    using fair_pop_effect [OF i, of 1001] by (auto simp: pop_effect_def)
  show ?thesis using batch_aging_alternates [OF sample_queue_inv a p a1 p1] a p a1 p1 by blast
qed

text \<open>
  Weighted round robin: at the start of a schedule round, when no batch entry ages during the
  round and each lane holds at least its weight, the next pops serve exactly
  the schedule, the interactive weight first and then the batch weight.
\<close>

theorem weighted_round_robin:
  assumes "fair_inv q" and "fq_cursor q = 0" and "length ts = length (fq_schedule q)"
    and "\<forall>t \<in> set ts. not_aged t q"
    and "\<forall>lane. lane_count lane (fq_schedule q) \<le> lane_len lane q"
  shows "\<exists>es q'. drain fair_pop ts q = Inr (es, q') \<and> map fe_lane es = fq_schedule q"
  using fair_pops_follow_slots [OF assms(1,4)] assms(3,5) slots_full_round [OF assms(2)] by simp

theorem weighted_round_robin_witness:
  "\<exists>es q'. drain fair_pop [4, 5, 6] sample_queue = Inr (es, q')
     \<and> map fe_lane es = [Interactive, Interactive, Batch]"
proof -
  have na: "\<forall>t \<in> set [4, 5, 6]. not_aged t sample_queue"
    by (simp add: not_aged_def sample_queue_def sample_lane_entries sample_entry_def)
  have "lane_count lane (fq_schedule sample_queue) \<le> lane_len lane sample_queue" for lane
    by (cases lane) (simp_all add: lane_count_def lane_len_def sample_queue_def sample_lane_def)
  then show ?thesis
    using weighted_round_robin [OF sample_queue_inv _ _ na] by (simp add: sample_queue_def)
qed

text \<open>
  Projects take turns: one pop per project of the ring serves the projects in ring order, and
  each serves its oldest entry, by creation time and then job identifier.
\<close>

theorem project_round_robin:
  assumes "lane_inv lane l"
  shows "\<exists>es l'. drain (\<lambda>_. lane_pop) (replicate (length (lq_project_ring l)) ()) l = Inr (es, l')
    \<and> map fe_project_id es = lq_project_ring l
    \<and> (\<forall>e \<in> set es. \<forall>x \<in> set (lane_entries l). fe_project_id x = fe_project_id e \<longrightarrow> entry_key e \<le> entry_key x)"
  by (rule lane_pop_round [OF assms, of _ "[]"]) simp

theorem project_round_robin_witness:
  "\<exists>es l'. drain (\<lambda>_. lane_pop) [(), ()] (sample_lane Batch ''b'') = Inr (es, l')
    \<and> map fe_project_id es = [''a'', ''b'']"
  using project_round_robin [OF sample_lane_inv, of Batch "''b''"] by (auto simp: sample_lane_def numeral_2_eq_2)

text \<open>
  Removing a job takes exactly its entry out of whichever lane and project holds it, keeps the
  buffer well formed, and changes nothing when the job is not buffered.
\<close>

theorem fair_remove_exact:
  assumes "fair_inv q"
  shows "case fair_remove job q of
      (None, q') \<Rightarrow> q' = q \<and> \<not> fair_contains job q
    | (Some e, q') \<Rightarrow> fe_job_id e = job \<and> fair_inv q' \<and> \<not> fair_contains job q'
        \<and> mset (fair_entries q) = add_mset e (mset (fair_entries q'))"
  using fair_remove_facts [OF assms, of job]
proof (elim disjE exE conjE)
  fix e q' assume r: "fair_remove job q = (Some e, q')" "fe_job_id e = job" "fair_inv q'"
    "mset (fair_entries q) = add_mset e (mset (fair_entries q'))"
  have "mset (fair_entries q) = mset (e # fair_entries q')" using r(4) by simp
  from mset_distinct_map [OF this, of fe_job_id] fair_invD(2) [OF assms]
  have "job \<notin> fe_job_id ` set (fair_entries q')" using r(2) by auto
  with r show ?thesis using fair_invD(3) [OF r(3)] by (simp add: fair_contains_def)
qed (simp add: fair_contains_def)

theorem fair_remove_exact_witness:
  "\<exists>e q'. fair_remove ''b2'' sample_queue = (Some e, q') \<and> fe_job_id e = ''b2'' \<and> fair_inv q'"
proof -
  have "fair_contains ''b2'' sample_queue" by (simp add: fair_contains_def sample_queue_def)
  then show ?thesis
    using fair_remove_exact [OF sample_queue_inv, of "''b2''"] by (cases "fair_remove ''b2'' sample_queue") (auto split: option.splits)
qed

end
