(* ===== verification/Database.thy ===== *)
theory Database
  imports Complex_Main Contracts
begin

text \<open>
  The relational store behind \<open>crates/repository\<close>: the row types of \<open>rows.rs\<close>, the errors of
  \<open>error.rs\<close>, the integer conversions of \<open>codec.rs\<close>, and the tables of \<open>migrations/\<close> with their
  CHECK and UNIQUE constraints.

  A column whose CHECK constraint admits exactly the wire names of an enum is given that enum's
  type, so \<open>decode_enum\<close> is the identity on it; a JSON column is given the type it encodes.  BIGINT
  columns are integers with their range written out.  A statement that breaks a constraint fails
  with its SQLSTATE and the transaction rolls back.  The texts of \<open>Decode\<close> errors are dropped, only
  the field is kept.  The three clocks of PostgreSQL and freshly drawn identifiers are arguments of
  the operations.
\<close>

section \<open>Errors (\<open>error.rs\<close>)\<close>

datatype ProjectQuota = OutstandingJobs | ConcurrentJobs

datatype RepositoryError =
    Validation string
  | NotFound string string
  | Conflict string
  | QuotaExceededError string ProjectQuota u32 u32
  | InvalidTransition TransitionError
  | CompareAndSwapLost string string
  | Decode string
  | Sqlx string

fun classify_write :: "RepositoryError \<Rightarrow> string \<Rightarrow> RepositoryError" where
  "classify_write (Sqlx code) conflict = (if code = ''23505'' then Conflict conflict else Sqlx code)"
| "classify_write e conflict = e"

definition map_err :: "('e \<Rightarrow> 'f) \<Rightarrow> 'e + 'a \<Rightarrow> 'f + 'a" where
  "map_err f r = (case r of Inl e \<Rightarrow> Inl (f e) | Inr x \<Rightarrow> Inr x)"

lemma map_err_eq_Inr [simp]: "map_err f r = Inr x \<longleftrightarrow> r = Inr x"
  by (cases r) (simp_all add: map_err_def)

lemma map_err_Inr [simp]: "map_err f (Inr x) = Inr x" "map_err f (Inl e) = Inl (f e)"
  by (simp_all add: map_err_def)

section \<open>Integer conversions (\<open>codec.rs\<close>)\<close>

definition to_u64 :: "string \<Rightarrow> int \<Rightarrow> RepositoryError + u64" where
  "to_u64 field v = (if 0 \<le> v \<and> v < 2 ^ 64 then Inr (word_of_int v) else Inl (Decode field))"

definition to_u32 :: "string \<Rightarrow> int \<Rightarrow> RepositoryError + u32" where
  "to_u32 field v = (if 0 \<le> v \<and> v < 2 ^ 32 then Inr (word_of_int v) else Inl (Decode field))"

definition to_u16 :: "string \<Rightarrow> int \<Rightarrow> RepositoryError + u16" where
  "to_u16 field v = (if 0 \<le> v \<and> v < 2 ^ 16 then Inr (word_of_int v) else Inl (Decode field))"

definition checked_i64 :: "string \<Rightarrow> u64 \<Rightarrow> RepositoryError + int" where
  "checked_i64 field v =
     (if uint v < 2 ^ 63 then Inr (uint v) else Inl (Validation (field @ '' exceeds PostgreSQL BIGINT'')))"

definition in_bigint :: "int \<Rightarrow> bool" where
  "in_bigint v \<longleftrightarrow> - (2 ^ 63) \<le> v \<and> v < 2 ^ 63"

lemma to_u32_eq_Inr: "to_u32 field v = Inr w \<longleftrightarrow> 0 \<le> v \<and> v < 2 ^ 32 \<and> w = word_of_int v"
  by (auto simp: to_u32_def)

lemma to_u32_uint: "to_u32 field v = Inr w \<Longrightarrow> uint w = v"
  by (auto simp: to_u32_eq_Inr uint_word_of_int take_bit_eq_mod)

lemma checked_i64_eq_Inr: "checked_i64 field v = Inr i \<longleftrightarrow> uint v < 2 ^ 63 \<and> i = uint v"
  by (auto simp: checked_i64_def)

section \<open>Wire names (\<open>codec.rs\<close>)\<close>

text \<open>\<open>encode_enum\<close> at the two enums whose wire name is used as text, and \<open>decode_enum\<close>, its inverse.\<close>

fun encode_state :: "JobState \<Rightarrow> string" where
  "encode_state Queued = ''queued''"
| "encode_state Claimed = ''claimed''"
| "encode_state ProvisioningRuntime = ''provisioning_runtime''"
| "encode_state Booting = ''booting''"
| "encode_state InstallingApk = ''installing_apk''"
| "encode_state RunningTests = ''running_tests''"
| "encode_state DebugAvailable = ''debug_available''"
| "encode_state CollectingArtifacts = ''collecting_artifacts''"
| "encode_state CleaningUp = ''cleaning_up''"
| "encode_state JobState.Passed = ''passed''"
| "encode_state JobState.Failed = ''failed''"
| "encode_state JobState.Cancelled = ''cancelled''"
| "encode_state JobState.TimedOut = ''timed_out''"
| "encode_state JobState.InfraFailed = ''infra_failed''"

definition all_states :: "JobState list" where
  "all_states = [Queued, Claimed, ProvisioningRuntime, Booting, InstallingApk, RunningTests,
     DebugAvailable, CollectingArtifacts, CleaningUp, JobState.Passed, JobState.Failed,
     JobState.Cancelled, JobState.TimedOut, JobState.InfraFailed]"

definition decode_state :: "string \<Rightarrow> string \<Rightarrow> RepositoryError + JobState" where
  "decode_state field s = ok_or (find (\<lambda>x. encode_state x = s) all_states) (Decode field)"

section \<open>Rows (\<open>rows.rs\<close>)\<close>

record ProjectRow =
  pr_id :: string
  pr_name :: string
  pr_owner :: string
  pr_max_concurrent_jobs :: int
  pr_max_outstanding_jobs :: int
  pr_created_at :: instant

record UploadRow =
  ul_id :: string
  ul_project_id :: string
  ul_kind :: UploadKind
  ul_s3_key :: string
  ul_sha256 :: string
  ul_size_bytes :: int
  ul_created_at :: instant

record RuntimeProfileRow =
  rr_id :: string
  rr_android_api :: int
  rr_device_profile :: string
  rr_abi :: AndroidAbi
  rr_host_arch :: HostArch
  rr_runtime_kind :: RuntimeKind
  rr_image_ref :: string
  rr_isolation_tier :: IsolationTier

record JobRow =
  jr_id :: string
  jr_project_id :: string
  jr_apk_upload_id :: string
  jr_test_upload_id :: "string option"
  jr_runtime_profile_id :: string
  jr_worker_id :: "string option"
  jr_mode :: JobMode
  jr_min_isolation :: IsolationTier
  jr_automation :: AutomationSpec
  jr_requested_artifacts :: ArtifactSelection
  jr_timeout_seconds :: int
  jr_idempotency_key :: string
  jr_state :: JobState
  jr_pending_outcome :: "JobOutcome option"
  jr_outcome :: "JobOutcome option"
  jr_failure :: "FailureDetail option"
  jr_artifacts_finalized :: bool
  jr_cleanup_completed :: bool
  jr_lease_id :: "string option"
  jr_lease_expires_at :: "instant option"
  jr_last_lease_extended_at :: "instant option"
  jr_delivery_attempts :: int
  jr_created_at :: instant
  jr_started_at :: "instant option"
  jr_finished_at :: "instant option"

text \<open>
  The value an event payload holds under a name, before it is encoded as JSON; the last constructor
  is JSON text supplied by a caller.
\<close>

datatype EventValue =
    EvState JobState | EvOutcome JobOutcome | EvText string | EvTexts "string list" | EvTime instant
  | EvBool bool | EvNumber u32 | EvJson string

type_synonym EventPayload = "(string \<times> EventValue) list"

record JobEventRow =
  er_id :: string
  er_sequence :: int
  er_job_id :: string
  er_timestamp :: instant
  er_event_type :: string
  er_state :: "JobState option"
  er_payload :: EventPayload

record JobEvent =
  ev_id :: JobEventId
  ev_job_id :: JobId
  ev_sequence :: u64
  ev_timestamp :: instant
  ev_event_type :: string
  ev_state :: "JobState option"
  ev_payload :: EventPayload

datatype ArtifactKind =
    ApkMetadata | InstallLog | Logcat | Screenshot | Video | AppiumLog | Junit | CrashTrace
  | RuntimeMetrics | DebugSessionAudit

record ArtifactRow =
  ar_id :: string
  ar_job_id :: string
  ar_kind :: ArtifactKind
  ar_s3_key :: string
  ar_file_name :: "string option"
  ar_size_bytes :: int
  ar_sha256 :: string
  ar_created_at :: instant

record WorkerRow =
  wk_id :: string
  wk_runtimes :: "RuntimeKind list"
  wk_kvm :: bool
  wk_gpu :: bool
  wk_arch :: HostArch
  wk_capacity :: int
  wk_active_jobs :: int
  wk_state :: WorkerState
  wk_last_heartbeat_at :: instant
  wk_reported_last_seen_at :: "instant option"
  wk_registered_at :: instant
  wk_updated_at :: instant

datatype WebhookEvent = JobStateChanged

record WebhookRow =
  wh_id :: string
  wh_project_id :: string
  wh_url :: string
  wh_events :: "WebhookEvent list"
  wh_active :: bool
  wh_created_at :: instant

datatype OutboxPayload =
    QueuedPayload JobQueued
  | DeadLetterPayload JobDeadLetter
  | WebhookPayload WebhookId string JobEvent

record ApiKeyRow =
  ak_id :: string
  ak_project_id :: string
  ak_key_hash :: string
  ak_scopes :: "AuthScope list"
  ak_created_at :: instant
  ak_last_used_at :: "instant option"
  ak_revoked_at :: "instant option"

record DebugSessionRow =
  ds_id :: string
  ds_job_id :: string
  ds_jti :: string
  ds_created_by :: string
  ds_mode :: DebugSessionMode
  ds_created_at :: instant
  ds_expires_at :: instant
  ds_ended_at :: "instant option"

record AuditRow =
  au_id :: int
  au_actor :: string
  au_action :: string
  au_subject :: string
  au_timestamp :: instant
  au_payload :: EventPayload

record OutboxRow =
  ob_id :: int
  ob_event_key :: string
  ob_subject :: string
  ob_payload :: OutboxPayload
  ob_trace_headers :: "(string \<times> string) list"
  ob_available_at :: instant
  ob_attempts :: int
  ob_locked_by :: "string option"
  ob_locked_at :: "instant option"
  ob_published_at :: "instant option"
  ob_last_error :: "string option"
  ob_created_at :: instant

text \<open>The tables, and the last value each identity column has handed out.\<close>

record db =
  db_projects :: "ProjectRow list"
  db_uploads :: "UploadRow list"
  db_runtime_profiles :: "RuntimeProfileRow list"
  db_workers :: "WorkerRow list"
  db_jobs :: "JobRow list"
  db_job_events :: "JobEventRow list"
  db_event_sequence :: int
  db_artifacts :: "ArtifactRow list"
  db_webhooks :: "WebhookRow list"
  db_outbox :: "OutboxRow list"
  db_outbox_sequence :: int
  db_api_keys :: "ApiKeyRow list"
  db_debug_sessions :: "DebugSessionRow list"
  db_audit_log :: "AuditRow list"
  db_audit_sequence :: int

text \<open>
  The clocks of one statement: \<open>now()\<close> is the start of the transaction, \<open>statement_timestamp()\<close>
  the start of the statement, \<open>clock_timestamp()\<close> the time of the call.
\<close>

record TxClock =
  tx_now :: instant
  tx_statement :: instant
  tx_clock :: instant

section \<open>Decoding rows\<close>

definition decode_id :: "string \<Rightarrow> string \<Rightarrow> string \<Rightarrow> RepositoryError + string" where
  "decode_id field prefix s = map_err (\<lambda>_. Decode field) (identifier_new prefix s)"

definition decode_id_opt :: "string \<Rightarrow> string \<Rightarrow> string option \<Rightarrow> RepositoryError + string option" where
  "decode_id_opt field prefix s =
     (case s of None \<Rightarrow> Inr None | Some v \<Rightarrow> bind_result (decode_id field prefix v) (\<lambda>x. Inr (Some x)))"

definition decode_timeout :: "int \<Rightarrow> RepositoryError + DurationSeconds" where
  "decode_timeout v = bind_result (to_u64 ''jobs.timeout_seconds'' v) (\<lambda>w.
     map_err (\<lambda>_. Decode ''jobs.timeout_seconds'') (DurationSeconds_new w))"

definition profile_of_row :: "RuntimeProfileRow \<Rightarrow> RepositoryError + RuntimeProfile" where
  "profile_of_row row =
     bind_result (decode_id ''runtime_profiles.id'' ''rtp_'' (rr_id row)) (\<lambda>i.
     bind_result (to_u16 ''runtime_profiles.android_api'' (rr_android_api row)) (\<lambda>api.
       let profile = \<lparr>rp_id = i, rp_android_api = api, rp_device_profile = rr_device_profile row,
             rp_abi = rr_abi row, rp_host_arch = rr_host_arch row, rp_runtime_kind = rr_runtime_kind row,
             rp_image_ref = rr_image_ref row, rp_isolation_tier = rr_isolation_tier row\<rparr>
       in bind_result (map_err (\<lambda>_. Decode ''runtime_profiles'') (profile_validate profile)) (\<lambda>_.
            Inr profile)))"

definition into_job :: "JobRow \<Rightarrow> RepositoryError + Job" where
  "into_job row =
     bind_result (decode_id ''jobs.id'' ''job_'' (jr_id row)) (\<lambda>i.
     bind_result (decode_id ''jobs.project_id'' ''proj_'' (jr_project_id row)) (\<lambda>project.
     bind_result (decode_id ''jobs.apk_upload_id'' ''upl_'' (jr_apk_upload_id row)) (\<lambda>apk.
     bind_result (decode_id_opt ''jobs.test_upload_id'' ''upl_'' (jr_test_upload_id row)) (\<lambda>test.
     bind_result (decode_id ''jobs.runtime_profile_id'' ''rtp_'' (jr_runtime_profile_id row)) (\<lambda>profile.
     bind_result (decode_timeout (jr_timeout_seconds row)) (\<lambda>timeout.
     bind_result (decode_id_opt ''jobs.worker_id'' ''wrk_'' (jr_worker_id row)) (\<lambda>worker.
       Inr \<lparr>job_id = i, job_project_id = project, job_apk_upload_id = apk, job_test_upload_id = test,
         job_runtime_profile = profile, job_mode = jr_mode row, job_min_isolation = jr_min_isolation row,
         job_automation = jr_automation row, job_artifacts = jr_requested_artifacts row,
         job_timeout_seconds = timeout, job_state = jr_state row, job_outcome = jr_outcome row,
         job_failure = jr_failure row, job_worker_id = worker, job_created_at = jr_created_at row,
         job_started_at = jr_started_at row, job_finished_at = jr_finished_at row\<rparr>)))))))"

definition event_of_row :: "JobEventRow \<Rightarrow> RepositoryError + JobEvent" where
  "event_of_row row =
     bind_result (decode_id ''job_events.id'' ''evt_'' (er_id row)) (\<lambda>i.
     bind_result (decode_id ''job_events.job_id'' ''job_'' (er_job_id row)) (\<lambda>job.
     bind_result (to_u64 ''job_events.sequence'' (er_sequence row)) (\<lambda>s.
       Inr \<lparr>ev_id = i, ev_job_id = job, ev_sequence = s, ev_timestamp = er_timestamp row,
         ev_event_type = er_event_type row, ev_state = er_state row, ev_payload = er_payload row\<rparr>)))"

section \<open>Constraints (\<open>migrations/\<close>)\<close>

text \<open>\<open>btrim(s) <> ''\<close>: PostgreSQL trims spaces only.\<close>

definition btrim_nonempty :: "string \<Rightarrow> bool" where
  "btrim_nonempty s \<longleftrightarrow> list_ex (\<lambda>c. c \<noteq> CHR '' '') s"

definition id_format :: "string \<Rightarrow> string \<Rightarrow> bool" where
  "id_format prefix s \<longleftrightarrow> is_ok (identifier_new prefix s)"

fun jobs_automation_valid :: "AutomationSpec \<Rightarrow> bool" where
  "jobs_automation_valid BuiltInSmoke = True"
| "jobs_automation_valid (Appium r) = (btrim_nonempty r \<and> \<not> list_ex is_ascii_control r)"

definition jobs_lease_consistent :: "JobRow \<Rightarrow> bool" where
  "jobs_lease_consistent r =
     (case (jr_lease_id r, jr_lease_expires_at r, jr_last_lease_extended_at r) of
        (None, None, None) \<Rightarrow> True
      | (Some l, Some expires, Some extended) \<Rightarrow>
          id_format ''lease_'' l \<and> jr_worker_id r \<noteq> None \<and> extended < expires
      | _ \<Rightarrow> False)"

definition jobs_terminal_state_consistent :: "JobRow \<Rightarrow> bool" where
  "jobs_terminal_state_consistent r =
     (case terminal_outcome (jr_state r) of
        Some oc \<Rightarrow> jr_pending_outcome r = Some oc \<and> jr_outcome r = Some oc
      | None \<Rightarrow> jr_outcome r = None \<and> jr_finished_at r = None)"

definition jobs_terminal_evidence_complete :: "JobRow \<Rightarrow> bool" where
  "jobs_terminal_evidence_complete r \<longleftrightarrow> (is_terminal (jr_state r) \<longrightarrow>
     jr_artifacts_finalized r \<and> jr_cleanup_completed r \<and> jr_finished_at r \<noteq> None)"

definition jobs_check :: "JobRow \<Rightarrow> bool" where
  "jobs_check r \<longleftrightarrow> id_format ''job_'' (jr_id r) \<and> jobs_automation_valid (jr_automation r)
     \<and> 0 < jr_timeout_seconds r \<and> btrim_nonempty (jr_idempotency_key r)
     \<and> (case jr_failure r of None \<Rightarrow> True | Some f \<Rightarrow> btrim_nonempty (fd_message f))
     \<and> 0 \<le> jr_delivery_attempts r
     \<and> (case jr_test_upload_id r of None \<Rightarrow> True | Some t \<Rightarrow> t \<noteq> jr_apk_upload_id r)
     \<and> jobs_lease_consistent r
     \<and> (jr_lease_id r = None \<or> jr_worker_id r \<noteq> None)
     \<and> (jr_state r \<noteq> Queued \<or> jr_worker_id r = None \<and> jr_lease_id r = None)
     \<and> (\<not> jr_cleanup_completed r \<or> jr_artifacts_finalized r)
     \<and> jobs_terminal_state_consistent r \<and> jobs_terminal_evidence_complete r
     \<and> (case jr_started_at r of None \<Rightarrow> True | Some t \<Rightarrow> jr_created_at r \<le> t)
     \<and> (case jr_finished_at r of None \<Rightarrow> True | Some t \<Rightarrow> jr_created_at r \<le> t)"

definition jobs_violation :: "JobRow \<Rightarrow> string option" where
  "jobs_violation r = (if \<not> in_bigint (jr_timeout_seconds r) \<or> \<not> in_bigint (jr_delivery_attempts r)
     then Some ''22003'' else if jobs_check r then None else Some ''23514'')"

definition workers_check :: "WorkerRow \<Rightarrow> bool" where
  "workers_check r \<longleftrightarrow> id_format ''wrk_'' (wk_id r) \<and> wk_runtimes r \<noteq> []
     \<and> 0 \<le> wk_capacity r \<and> wk_capacity r \<le> 4294967295
     \<and> 0 \<le> wk_active_jobs r \<and> wk_active_jobs r \<le> 4294967295
     \<and> wk_active_jobs r \<le> wk_capacity r \<and> wk_registered_at r \<le> wk_updated_at r"

definition workers_violation :: "WorkerRow \<Rightarrow> string option" where
  "workers_violation r = (if \<not> in_bigint (wk_capacity r) \<or> \<not> in_bigint (wk_active_jobs r)
     then Some ''22003'' else if workers_check r then None else Some ''23514'')"

definition job_events_violation :: "JobEventRow \<Rightarrow> string option" where
  "job_events_violation r = (if \<not> in_bigint (er_sequence r) then Some ''2200H''
     else if id_format ''evt_'' (er_id r) \<and> btrim_nonempty (er_event_type r) then None else Some ''23514'')"

definition outbox_violation :: "OutboxRow \<Rightarrow> string option" where
  "outbox_violation r = (if \<not> in_bigint (ob_id r) then Some ''2200H''
     else if \<not> in_bigint (ob_attempts r) then Some ''22003''
     else if btrim_nonempty (ob_event_key r) \<and> btrim_nonempty (ob_subject r) \<and> 0 \<le> ob_attempts r
       \<and> (case (ob_locked_by r, ob_locked_at r) of
            (None, None) \<Rightarrow> True | (Some b, Some _) \<Rightarrow> btrim_nonempty b | _ \<Rightarrow> False)
       \<and> (case ob_last_error r of None \<Rightarrow> True | Some e \<Rightarrow> btrim_nonempty e)
       \<and> (case ob_published_at r of None \<Rightarrow> True | Some t \<Rightarrow> ob_created_at r \<le> t)
     then None else Some ''23514'')"

definition artifacts_violation :: "ArtifactRow \<Rightarrow> string option" where
  "artifacts_violation r = (if id_format ''art_'' (ar_id r) \<and> btrim_nonempty (ar_s3_key r)
       \<and> (case ar_file_name r of None \<Rightarrow> True | Some f \<Rightarrow> btrim_nonempty f)
       \<and> 0 \<le> ar_size_bytes r \<and> is_ok (Sha256_new (ar_sha256 r))
     then None else Some ''23514'')"

definition projects_violation :: "ProjectRow \<Rightarrow> string option" where
  "projects_violation r = (if \<not> in_bigint (pr_max_concurrent_jobs r) \<or> \<not> in_bigint (pr_max_outstanding_jobs r)
     then Some ''22003''
     else if id_format ''proj_'' (pr_id r) \<and> btrim_nonempty (pr_name r) \<and> btrim_nonempty (pr_owner r)
       \<and> 1 \<le> pr_max_concurrent_jobs r \<and> pr_max_concurrent_jobs r \<le> 4294967295
       \<and> 1 \<le> pr_max_outstanding_jobs r \<and> pr_max_outstanding_jobs r \<le> 4294967295
       \<and> pr_max_concurrent_jobs r \<le> pr_max_outstanding_jobs r
     then None else Some ''23514'')"

definition uploads_violation :: "UploadRow \<Rightarrow> string option" where
  "uploads_violation r = (if \<not> in_bigint (ul_size_bytes r) then Some ''22003''
     else if id_format ''upl_'' (ul_id r) \<and> btrim_nonempty (ul_s3_key r) \<and> is_ok (Sha256_new (ul_sha256 r))
       \<and> 0 \<le> ul_size_bytes r
     then None else Some ''23514'')"

definition not_before :: "instant \<Rightarrow> instant option \<Rightarrow> bool" where
  "not_before created occurred = (case occurred of None \<Rightarrow> True | Some t \<Rightarrow> created \<le> t)"

definition api_keys_violation :: "ApiKeyRow \<Rightarrow> string option" where
  "api_keys_violation r = (if id_format ''key_'' (ak_id r) \<and> length (ak_key_hash r) = 32 \<and> ak_scopes r \<noteq> []
       \<and> not_before (ak_created_at r) (ak_last_used_at r) \<and> not_before (ak_created_at r) (ak_revoked_at r)
     then None else Some ''23514'')"

definition debug_sessions_violation :: "DebugSessionRow \<Rightarrow> string option" where
  "debug_sessions_violation r = (if id_format ''dbg_'' (ds_id r) \<and> btrim_nonempty (ds_jti r)
       \<and> btrim_nonempty (ds_created_by r) \<and> ds_created_at r < ds_expires_at r
       \<and> not_before (ds_created_at r) (ds_ended_at r)
     then None else Some ''23514'')"

definition audit_log_violation :: "AuditRow \<Rightarrow> string option" where
  "audit_log_violation r = (if \<not> in_bigint (au_id r) then Some ''2200H''
     else if btrim_nonempty (au_actor r) \<and> btrim_nonempty (au_action r) \<and> btrim_nonempty (au_subject r)
     then None else Some ''23514'')"

text \<open>On ASCII text the URL pattern of the column is the scheme and character test of \<open>Uri\<close>.\<close>

definition webhooks_violation :: "WebhookRow \<Rightarrow> string option" where
  "webhooks_violation r = (if id_format ''wh_'' (wh_id r) \<and> valid_uri (wh_url r) \<and> length (wh_events r) = 1
     then None else Some ''23514'')"

section \<open>Statements\<close>

text \<open>
  UPDATE ... WHERE ... RETURNING: every selected row must satisfy the constraints after the change,
  otherwise the statement fails.  The result is the changed rows and the table.
\<close>

definition sql_update ::
  "('r \<Rightarrow> string option) \<Rightarrow> ('r \<Rightarrow> bool) \<Rightarrow> ('r \<Rightarrow> 'r) \<Rightarrow> 'r list \<Rightarrow>
   RepositoryError + ('r list \<times> 'r list)" where
  "sql_update violation p f rs =
     (case List.map_filter violation (map f (filter p rs)) of
        code # _ \<Rightarrow> Inl (Sqlx code)
      | [] \<Rightarrow> Inr (map f (filter p rs), update_rows p f rs))"

text \<open>INSERT: the constraints of the row first, then the unique indexes.\<close>

definition sql_insert ::
  "('r \<Rightarrow> string option) \<Rightarrow> ('r \<Rightarrow> 'r \<Rightarrow> bool) \<Rightarrow> 'r \<Rightarrow> 'r list \<Rightarrow> RepositoryError + 'r list" where
  "sql_insert violation clash r rs =
     (case violation r of
        Some code \<Rightarrow> Inl (Sqlx code)
      | None \<Rightarrow> if list_ex (clash r) rs then Inl (Sqlx ''23505'') else Inr (rs @ [r]))"

text \<open>\<open>Transaction::commit\<close> and the conversions after it: an error before the commit rolls back, an
  error after it is reported on the changed database.\<close>

definition commit_then ::
  "(RepositoryError + 'b \<times> db) \<Rightarrow> ('b \<Rightarrow> RepositoryError + 'a) \<Rightarrow> db \<Rightarrow> (RepositoryError + 'a) \<times> db" where
  "commit_then body post d =
     (case body of Inl e \<Rightarrow> (Inl e, d) | Inr (x, d') \<Rightarrow> (post x, d'))"

lemma sql_update_eq_Inr:
  "sql_update violation p f rs = Inr (changed, rs') \<longleftrightarrow>
     (\<forall>r \<in> set rs. p r \<longrightarrow> violation (f r) = None) \<and> changed = map f (filter p rs) \<and> rs' = update_rows p f rs"
proof -
  have "List.map_filter violation (map f (filter p rs)) = [] \<longleftrightarrow> (\<forall>r \<in> set rs. p r \<longrightarrow> violation (f r) = None)"
    by (induction rs) (auto simp: List.map_filter_def)
  then show ?thesis by (auto simp: sql_update_def split: list.splits)
qed

lemma sql_insert_eq_Inr:
  "sql_insert violation clash r rs = Inr rs' \<longleftrightarrow>
     violation r = None \<and> (\<forall>x \<in> set rs. \<not> clash r x) \<and> rs' = rs @ [r]"
  by (auto simp: sql_insert_def list_ex_iff split: option.splits)

lemma decode_id_eq_Inr: "decode_id field prefix s = Inr v \<longleftrightarrow> v = s \<and> s \<in> identifier_lang prefix"
  by (simp add: decode_id_def identifier_new_iff)

lemma id_format_iff: "id_format prefix s \<longleftrightarrow> s \<in> identifier_lang prefix"
  by (auto simp: id_format_def is_ok_iff identifier_new_iff)

lemmas statement_inv = result_inv sql_update_eq_Inr sql_insert_eq_Inr map_err_eq_Inr decode_id_eq_Inr

lemma jobs_violation_None: "jobs_violation r = None \<Longrightarrow> jobs_check r"
  by (simp add: jobs_violation_def split: if_splits)

lemma workers_violation_None: "workers_violation r = None \<Longrightarrow> workers_check r"
  by (simp add: workers_violation_def split: if_splits)

lemma decode_encode_state: "decode_state field (encode_state s) = Inr s"
  by (cases s) (simp_all add: decode_state_def all_states_def)

end
