(* ===== verification/Repo_Outbox.thy ===== *)
theory Repo_Outbox
  imports Database
begin

text \<open>
  The durable outbox of \<open>crates/repository/src/outbox.rs\<close>: idempotent insertion, leasing by
  dispatchers, publication and retry, and the insertions other modules make into it
  (\<open>insert_job_queued_outbox\<close> and \<open>insert_webhook_event_outbox\<close> of \<open>jobs.rs\<close>).  A statement of
  \<open>FOR UPDATE SKIP LOCKED\<close> is modelled without concurrent lockers: it sees every candidate.
  Identity values that a rolled-back or ignored insertion burns are not counted.
\<close>

section \<open>Insertion\<close>

definition outbox_row ::
  "TxClock \<Rightarrow> string \<Rightarrow> string \<Rightarrow> OutboxPayload \<Rightarrow> (string \<times> string) list \<Rightarrow> db \<Rightarrow> OutboxRow" where
  "outbox_row t event_key subject payload trace_headers d =
     \<lparr>ob_id = db_outbox_sequence d + 1, ob_event_key = event_key, ob_subject = subject,
      ob_payload = payload, ob_trace_headers = trace_headers, ob_available_at = tx_now t,
      ob_attempts = 0, ob_locked_by = None, ob_locked_at = None, ob_published_at = None,
      ob_last_error = None, ob_created_at = tx_now t\<rparr>"

definition same_key :: "OutboxRow \<Rightarrow> OutboxRow \<Rightarrow> bool" where
  "same_key a b \<longleftrightarrow> ob_event_key a = ob_event_key b"

definition insert_outbox :: "OutboxRow \<Rightarrow> db \<Rightarrow> RepositoryError + db" where
  "insert_outbox row d =
     bind_result (sql_insert outbox_violation (\<lambda>a b. same_key a b \<or> ob_id a = ob_id b) row (db_outbox d))
       (\<lambda>rows. Inr (d\<lparr>db_outbox := rows, db_outbox_sequence := ob_id row\<rparr>))"

text \<open>INSERT ... ON CONFLICT (event_key) DO NOTHING RETURNING.\<close>

definition insert_outbox_ignore :: "OutboxRow \<Rightarrow> db \<Rightarrow> RepositoryError + (OutboxRow option \<times> db)" where
  "insert_outbox_ignore row d =
     (case outbox_violation row of
        Some code \<Rightarrow> Inl (Sqlx code)
      | None \<Rightarrow>
          if list_ex (same_key row) (db_outbox d) then Inr (None, d)
          else bind_result (insert_outbox row d) (\<lambda>d1. Inr (Some row, d1)))"

definition blank_header :: "(string \<times> string) list \<Rightarrow> bool" where
  "blank_header trace_headers \<longleftrightarrow> list_ex (\<lambda>(key, _). is_blank key) trace_headers"

definition validate_trace_headers :: "(string \<times> string) list \<Rightarrow> RepositoryError + unit" where
  "validate_trace_headers trace_headers =
     ensure (\<not> blank_header trace_headers) (Validation ''outbox trace header names must not be blank'')"

definition validate_dispatcher_id :: "string \<Rightarrow> RepositoryError + unit" where
  "validate_dispatcher_id dispatcher =
     ensure (\<not> is_blank dispatcher) (Validation ''outbox dispatcher ID must not be blank'')"

definition validate_subject :: "string \<Rightarrow> RepositoryError + unit" where
  "validate_subject subject =
     ensure (\<not> is_blank subject) (Validation ''outbox subject must not be blank'')"

definition insert_job_queued_outbox ::
  "TxClock \<Rightarrow> JobQueued \<Rightarrow> (string \<times> string) list \<Rightarrow> db \<Rightarrow> RepositoryError + db" where
  "insert_job_queued_outbox t queued trace_headers d =
     bind_result (ensure (\<not> blank_header trace_headers)
       (Validation ''outbox trace header names must not be blank'')) (\<lambda>_.
     map_err (\<lambda>e. classify_write e ''job already has a queued outbox message'')
       (insert_outbox (outbox_row t (jq_job_id queued) ''jobs.queued'' (QueuedPayload queued) trace_headers d) d))"

text \<open>The text of a dead-letter validation error, as its \<open>Display\<close> prints it.\<close>

fun dead_letter_message :: "JobDeadLetterValidationError \<Rightarrow> string" where
  "dead_letter_message ZeroAttempt = ''dead-letter attempt must be at least one''"
| "dead_letter_message ZeroSourceStreamSequence = ''dead-letter source stream sequence must be at least one''"
| "dead_letter_message MissingStableIdentity = ''dead letter must identify either a job or a source stream sequence''"

definition outbox_of_row :: "OutboxRow \<Rightarrow> RepositoryError + OutboxRow" where
  "outbox_of_row row = bind_result (to_u32 ''outbox_messages.attempts'' (ob_attempts row)) (\<lambda>_. Inr row)"

definition insert_job_dead_letter_outbox ::
  "TxClock \<Rightarrow> JobDeadLetter \<Rightarrow> (string \<times> string) list \<Rightarrow> db \<Rightarrow> RepositoryError + (OutboxRow \<times> db)" where
  "insert_job_dead_letter_outbox t dead_letter trace_headers d =
     bind_result (map_err (\<lambda>e. Validation (dead_letter_message e)) (dead_letter_validate dead_letter)) (\<lambda>_.
     bind_result (validate_trace_headers trace_headers) (\<lambda>_.
     bind_result (map_err (\<lambda>e. Validation (dead_letter_message e)) (idempotency_key dead_letter)) (\<lambda>event_key.
     bind_result (insert_outbox_ignore
       (outbox_row t event_key ''jobs.dead'' (DeadLetterPayload dead_letter) trace_headers d) d) (\<lambda>(inserted, d1).
       case inserted of
         Some row \<Rightarrow> bind_result (outbox_of_row row) (\<lambda>message. Inr (message, d1))
       | None \<Rightarrow>
           bind_result (ok_or (select_one (\<lambda>r. ob_event_key r = event_key) (db_outbox d1))
             (Conflict ''dead-letter outbox winner was not visible after conflict'')) (\<lambda>row.
           bind_result (ensure (ob_subject row = ''jobs.dead'')
             (Conflict (''outbox key `'' @ event_key @ ''` is already used by subject `'' @ ob_subject row @ ''`''))) (\<lambda>_.
           bind_result (outbox_of_row row) (\<lambda>message. Inr (message, d1))))))))"

definition enqueue_job_dead_letter ::
  "TxClock \<Rightarrow> JobDeadLetter \<Rightarrow> (string \<times> string) list \<Rightarrow> db \<Rightarrow> (RepositoryError + OutboxRow) \<times> db" where
  "enqueue_job_dead_letter t dead_letter trace_headers d =
     commit_then (insert_job_dead_letter_outbox t dead_letter trace_headers d) Inr d"

section \<open>Webhook fan-out (\<open>insert_webhook_event_outbox\<close>)\<close>

definition webhook_key :: "JobEventId \<Rightarrow> WebhookId \<Rightarrow> string" where
  "webhook_key event webhook = ''webhook:'' @ event @ '':'' @ webhook"

definition webhook_recipients :: "JobId \<Rightarrow> db \<Rightarrow> WebhookRow list" where
  "webhook_recipients job d =
     sort_key wh_id (filter (\<lambda>w. wh_active w \<and> JobStateChanged \<in> set (wh_events w)
       \<and> list_ex (\<lambda>j. jr_project_id j = wh_project_id w \<and> jr_id j = job) (db_jobs d)) (db_webhooks d))"

fun insert_webhook_rows :: "TxClock \<Rightarrow> JobEvent \<Rightarrow> WebhookRow list \<Rightarrow> db \<Rightarrow> RepositoryError + db" where
  "insert_webhook_rows t event [] d = Inr d"
| "insert_webhook_rows t event (row # rows) d =
     bind_result (decode_id ''webhooks.id'' ''wh_'' (wh_id row)) (\<lambda>webhook.
     bind_result (decode_id ''webhooks.project_id'' ''proj_'' (wh_project_id row)) (\<lambda>_.
     bind_result (map_err (\<lambda>_. Decode ''webhooks.url'') (Uri_new (wh_url row))) (\<lambda>url.
     bind_result (insert_outbox_ignore (outbox_row t (webhook_key (ev_id event) webhook)
         ''webhooks.job_state_changed'' (WebhookPayload webhook url event) [] d) d) (\<lambda>(_, d1).
       insert_webhook_rows t event rows d1))))"

definition insert_webhook_event_outbox :: "TxClock \<Rightarrow> JobEvent \<Rightarrow> db \<Rightarrow> RepositoryError + db" where
  "insert_webhook_event_outbox t event d = insert_webhook_rows t event (webhook_recipients (ev_job_id event) d) d"

section \<open>Leasing and publication\<close>

definition JobListQuery_MAX_LIMIT :: u32 where
  "JobListQuery_MAX_LIMIT = 200"

definition checked_limit :: "u32 \<Rightarrow> RepositoryError + int" where
  "checked_limit limit = (if limit = 0 \<or> JobListQuery_MAX_LIMIT < limit
     then Inl (Validation ''limit must be between 1 and 200'') else Inr (uint limit))"

definition milliseconds :: "duration \<Rightarrow> int" where
  "milliseconds d = (if 0 \<le> d then d div 1000 else - ((- d) div 1000))"

text \<open>
  Candidates in lease order.  \<open>subject\<close> is absent in \<open>lease_outbox_messages\<close>; \<open>lease_timeout\<close> has
  millisecond resolution.
\<close>

definition outbox_candidate :: "instant \<Rightarrow> string option \<Rightarrow> duration \<Rightarrow> OutboxRow \<Rightarrow> bool" where
  "outbox_candidate clock subject lease_timeout r \<longleftrightarrow> ob_published_at r = None
     \<and> (case subject of None \<Rightarrow> True | Some s \<Rightarrow> ob_subject r = s)
     \<and> ob_available_at r \<le> clock
     \<and> (case ob_locked_at r of None \<Rightarrow> True | Some l \<Rightarrow> l \<le> clock - 1000 * milliseconds lease_timeout)"

definition outbox_order :: "OutboxRow \<Rightarrow> instant \<times> int" where
  "outbox_order r = (ob_available_at r, ob_id r)"

definition lease_rows ::
  "TxClock \<Rightarrow> string \<Rightarrow> string option \<Rightarrow> duration \<Rightarrow> int \<Rightarrow> db \<Rightarrow> RepositoryError + (OutboxRow list \<times> db)" where
  "lease_rows t dispatcher subject lease_timeout limit d =
     (let candidates = map ob_id (take (nat limit)
            (sort_key outbox_order (filter (outbox_candidate (tx_clock t) subject lease_timeout) (db_outbox d))))
      in bind_result (sql_update outbox_violation (\<lambda>r. ob_id r \<in> set candidates)
           (\<lambda>r. r\<lparr>ob_locked_by := Some dispatcher, ob_locked_at := Some (tx_clock t), ob_attempts := ob_attempts r + 1\<rparr>)
           (db_outbox d)) (\<lambda>(changed, rows). Inr (changed, d\<lparr>db_outbox := rows\<rparr>)))"

fun collect_results :: "('a \<Rightarrow> 'e + 'b) \<Rightarrow> 'a list \<Rightarrow> 'e + 'b list" where
  "collect_results f [] = Inr []"
| "collect_results f (x # xs) = bind_result (f x) (\<lambda>y. bind_result (collect_results f xs) (\<lambda>ys. Inr (y # ys)))"

definition lease_with_subject ::
  "TxClock \<Rightarrow> string \<Rightarrow> string option \<Rightarrow> duration \<Rightarrow> u32 \<Rightarrow> db \<Rightarrow> (RepositoryError + OutboxRow list) \<times> db" where
  "lease_with_subject t dispatcher subject lease_timeout limit d =
     commit_then
       (bind_result (ensure (0 < milliseconds lease_timeout) (Validation ''outbox lease timeout must be positive'')) (\<lambda>_.
        bind_result (checked_limit limit) (\<lambda>limit. lease_rows t dispatcher subject lease_timeout limit d)))
       (\<lambda>rows. bind_result (collect_results outbox_of_row rows) (\<lambda>messages. Inr (sort_key outbox_order messages))) d"

definition lease_outbox_messages ::
  "TxClock \<Rightarrow> string \<Rightarrow> duration \<Rightarrow> u32 \<Rightarrow> db \<Rightarrow> (RepositoryError + OutboxRow list) \<times> db" where
  "lease_outbox_messages t dispatcher lease_timeout limit d =
     (case validate_dispatcher_id dispatcher of
        Inl e \<Rightarrow> (Inl e, d)
      | Inr _ \<Rightarrow> lease_with_subject t dispatcher None lease_timeout limit d)"

definition lease_outbox_messages_for_subject ::
  "TxClock \<Rightarrow> string \<Rightarrow> string \<Rightarrow> duration \<Rightarrow> u32 \<Rightarrow> db \<Rightarrow> (RepositoryError + OutboxRow list) \<times> db" where
  "lease_outbox_messages_for_subject t dispatcher subject lease_timeout limit d =
     (case bind_result (validate_dispatcher_id dispatcher) (\<lambda>_. validate_subject subject) of
        Inl e \<Rightarrow> (Inl e, d)
      | Inr _ \<Rightarrow> lease_with_subject t dispatcher (Some subject) lease_timeout limit d)"

text \<open>The one row an UPDATE by primary key changed, or the error of a lost compare-and-swap.\<close>

definition update_outbox_row ::
  "(OutboxRow \<Rightarrow> bool) \<Rightarrow> (OutboxRow \<Rightarrow> OutboxRow) \<Rightarrow> RepositoryError \<Rightarrow> db \<Rightarrow> RepositoryError + (OutboxRow \<times> db)" where
  "update_outbox_row p f lost d =
     bind_result (sql_update outbox_violation p f (db_outbox d)) (\<lambda>(changed, rows).
       case changed of [] \<Rightarrow> Inl lost | row # _ \<Rightarrow> Inr (row, d\<lparr>db_outbox := rows\<rparr>))"

definition show_int :: "int \<Rightarrow> string" where
  "show_int i = (if i < 0 then ''-'' @ show_nat (nat (- i)) else show_nat (nat i))"

definition holds_outbox_lease :: "int \<Rightarrow> string \<Rightarrow> OutboxRow \<Rightarrow> bool" where
  "holds_outbox_lease message dispatcher r \<longleftrightarrow>
     ob_id r = message \<and> ob_published_at r = None \<and> ob_locked_by r = Some dispatcher"

definition mark_outbox_published ::
  "TxClock \<Rightarrow> int \<Rightarrow> string \<Rightarrow> db \<Rightarrow> (RepositoryError + OutboxRow) \<times> db" where
  "mark_outbox_published t message dispatcher d =
     commit_then
       (bind_result (validate_dispatcher_id dispatcher) (\<lambda>_.
        update_outbox_row (holds_outbox_lease message dispatcher)
          (\<lambda>r. r\<lparr>ob_published_at := Some (tx_clock t), ob_locked_by := None, ob_locked_at := None, ob_last_error := None\<rparr>)
          (CompareAndSwapLost ''outbox message lease'' (show_int message)) d))
       outbox_of_row d"

definition retry_outbox_message ::
  "TxClock \<Rightarrow> int \<Rightarrow> string \<Rightarrow> instant \<Rightarrow> string \<Rightarrow> db \<Rightarrow> (RepositoryError + OutboxRow) \<times> db" where
  "retry_outbox_message t message dispatcher available_at last_error d =
     commit_then
       (bind_result (validate_dispatcher_id dispatcher) (\<lambda>_.
        bind_result (ensure (\<not> is_blank last_error) (Validation ''outbox retry error must not be blank'')) (\<lambda>_.
        update_outbox_row (holds_outbox_lease message dispatcher)
          (\<lambda>r. r\<lparr>ob_available_at := available_at, ob_last_error := Some last_error, ob_locked_by := None, ob_locked_at := None\<rparr>)
          (CompareAndSwapLost ''outbox message lease'' (show_int message)) d)))
       outbox_of_row d"

definition get_outbox_message :: "string \<Rightarrow> db \<Rightarrow> RepositoryError + OutboxRow option" where
  "get_outbox_message event_key d =
     (case select_one (\<lambda>r. ob_event_key r = event_key) (db_outbox d) of
        None \<Rightarrow> Inr None
      | Some row \<Rightarrow> bind_result (outbox_of_row row) (\<lambda>m. Inr (Some m)))"

definition pending_outbox_count :: "db \<Rightarrow> RepositoryError + u64" where
  "pending_outbox_count d =
     to_u64 ''outbox pending count'' (int (count_rows (\<lambda>r. ob_published_at r = None) (db_outbox d)))"

definition pending_outbox_count_for_subject :: "string \<Rightarrow> db \<Rightarrow> RepositoryError + u64" where
  "pending_outbox_count_for_subject subject d =
     bind_result (validate_subject subject) (\<lambda>_.
       to_u64 ''outbox pending count''
         (int (count_rows (\<lambda>r. ob_published_at r = None \<and> ob_subject r = subject) (db_outbox d))))"

end
