(* ===== verification/Repo_Jobs.thy ===== *)
theory Repo_Jobs
  imports Repo_Outbox
begin

text \<open>
  The job transactions of \<open>crates/repository/src/jobs.rs\<close>: creation with its outbox message,
  cancellation, claiming under quota and capacity, state transitions fenced by the lease, results,
  detection and recovery of stale leases, events and artifacts.  Each operation is one transaction
  on the whole database; row locks (\<open>FOR UPDATE\<close>, the advisory lock) make them serial, so an
  operation is a function of the state it starts in.  Arguments \<open>evt\<close>, \<open>new_job\<close> and \<open>new_artifact\<close>
  are the identifiers \<open>new_id\<close> draws.
\<close>

section \<open>Rows and locks\<close>

definition lock_job :: "string \<Rightarrow> db \<Rightarrow> JobRow option" where
  "lock_job job d = select_one (\<lambda>r. jr_id r = job) (db_jobs d)"

definition lock_worker :: "string \<Rightarrow> db \<Rightarrow> WorkerRow option" where
  "lock_worker worker d = select_one (\<lambda>r. wk_id r = worker) (db_workers d)"

definition select_project :: "string \<Rightarrow> db \<Rightarrow> ProjectRow option" where
  "select_project project d = select_one (\<lambda>r. pr_id r = project) (db_projects d)"

definition load_profile :: "string \<Rightarrow> db \<Rightarrow> RepositoryError + RuntimeProfile option" where
  "load_profile profile d =
     (case select_one (\<lambda>r. rr_id r = profile) (db_runtime_profiles d) of
        None \<Rightarrow> Inr None
      | Some row \<Rightarrow> bind_result (profile_of_row row) (\<lambda>p. Inr (Some p)))"

definition outstanding_jobs :: "string \<Rightarrow> db \<Rightarrow> nat" where
  "outstanding_jobs project d =
     count_rows (\<lambda>r. jr_project_id r = project \<and> \<not> is_terminal (jr_state r)) (db_jobs d)"

definition active_project_jobs :: "string \<Rightarrow> db \<Rightarrow> nat" where
  "active_project_jobs project d =
     count_rows (\<lambda>r. jr_project_id r = project \<and> jr_lease_id r \<noteq> None \<and> \<not> is_terminal (jr_state r)) (db_jobs d)"

text \<open>UPDATE jobs ... RETURNING with at most one row; no row is the lost compare-and-swap.\<close>

definition update_job ::
  "(JobRow \<Rightarrow> bool) \<Rightarrow> (JobRow \<Rightarrow> JobRow) \<Rightarrow> db \<Rightarrow> RepositoryError + (JobRow option \<times> db)" where
  "update_job p f d =
     bind_result (sql_update jobs_violation p f (db_jobs d)) (\<lambda>(changed, rows).
       Inr (case changed of [] \<Rightarrow> None | row # _ \<Rightarrow> Some row, d\<lparr>db_jobs := rows\<rparr>))"

definition update_workers ::
  "(WorkerRow \<Rightarrow> bool) \<Rightarrow> (WorkerRow \<Rightarrow> WorkerRow) \<Rightarrow> db \<Rightarrow> RepositoryError + (WorkerRow list \<times> db)" where
  "update_workers p f d =
     bind_result (sql_update workers_violation p f (db_workers d)) (\<lambda>(changed, rows).
       Inr (changed, d\<lparr>db_workers := rows\<rparr>))"

section \<open>Events\<close>

definition append_event ::
  "TxClock \<Rightarrow> JobEventId \<Rightarrow> string \<Rightarrow> string \<Rightarrow> JobState option \<Rightarrow> bool \<Rightarrow> EventPayload \<Rightarrow> db \<Rightarrow>
   RepositoryError + (JobEvent \<times> db)" where
  "append_event t evt job event_type state state_changed payload d =
     bind_result (ensure (\<not> is_blank event_type) (Validation ''job event type must not be blank'')) (\<lambda>_.
     bind_result (ensure (lock_job job d \<noteq> None) (NotFound ''job'' job)) (\<lambda>_.
     bind_result (ensure (\<not> (state_changed \<and> state = None))
       (Validation ''a state-transition event must include its resulting state'')) (\<lambda>_.
     let row = \<lparr>er_id = evt, er_sequence = db_event_sequence d + 1, er_job_id = job,
           er_timestamp = tx_now t, er_event_type = event_type, er_state = state, er_payload = payload\<rparr>
     in bind_result (sql_insert job_events_violation (\<lambda>a b. er_id a = er_id b \<or> er_sequence a = er_sequence b)
          row (db_job_events d)) (\<lambda>events.
        bind_result (event_of_row row) (\<lambda>event.
        let d1 = d\<lparr>db_job_events := events, db_event_sequence := er_sequence row\<rparr>
        in if state_changed
           then bind_result (insert_webhook_event_outbox t event d1) (\<lambda>d2. Inr (event, d2))
           else Inr (event, d1))))))"

definition append_job_event ::
  "TxClock \<Rightarrow> JobEventId \<Rightarrow> JobId \<Rightarrow> string \<Rightarrow> JobState option \<Rightarrow> EventPayload \<Rightarrow> db \<Rightarrow>
   (RepositoryError + JobEvent) \<times> db" where
  "append_job_event t evt job event_type state payload d =
     commit_then (append_event t evt job event_type state False payload d) Inr d"

definition list_job_events_after ::
  "JobId \<Rightarrow> u64 \<Rightarrow> u32 \<Rightarrow> db \<Rightarrow> RepositoryError + JobEvent list" where
  "list_job_events_after job after_sequence limit d =
     bind_result (checked_i64 ''after_sequence'' after_sequence) (\<lambda>after_sequence.
     bind_result (checked_limit limit) (\<lambda>limit.
       collect_results event_of_row (take (nat limit) (sort_key er_sequence
         (filter (\<lambda>r. er_job_id r = job \<and> after_sequence < er_sequence r) (db_job_events d))))))"

section \<open>Creation\<close>

definition validate_idempotency_key :: "string \<Rightarrow> RepositoryError + unit" where
  "validate_idempotency_key key =
     (if key = [] \<or> 255 < length key \<or> \<not> list_all (\<lambda>b. 0x21 \<le> ascii_code b \<and> ascii_code b \<le> 0x7e) key
      then Inl (Validation ''idempotency key must be 1..=255 visible ASCII bytes'') else Inr ())"

fun show_upload_kind :: "UploadKind \<Rightarrow> string" where
  "show_upload_kind Apk = ''Apk''"
| "show_upload_kind Test = ''Test''"
| "show_upload_kind Script = ''Script''"

definition require_upload_kind :: "string \<Rightarrow> string \<Rightarrow> UploadKind \<Rightarrow> db \<Rightarrow> RepositoryError + unit" where
  "require_upload_kind project upload expected d =
     bind_result (ok_or (select_one (\<lambda>r. ul_project_id r = project \<and> ul_id r = upload) (db_uploads d))
       (Validation (''upload '' @ upload @ '' does not belong to project '' @ project))) (\<lambda>row.
     ensure (ul_kind row = expected)
       (Validation (''upload '' @ upload @ '' must be '' @ show_upload_kind expected
          @ '', found '' @ show_upload_kind (ul_kind row))))"

fun show_isolation :: "IsolationTier \<Rightarrow> string" where
  "show_isolation VmIsolated = ''VmIsolated''"
| "show_isolation SharedKernelPrivileged = ''SharedKernelPrivileged''"

definition job_by_key :: "ProjectId \<Rightarrow> string \<Rightarrow> db \<Rightarrow> JobRow option" where
  "job_by_key project key d =
     select_one (\<lambda>r. jr_project_id r = project \<and> jr_idempotency_key r = key) (db_jobs d)"

definition find_job_by_idempotency_key :: "ProjectId \<Rightarrow> string \<Rightarrow> db \<Rightarrow> RepositoryError + Job option" where
  "find_job_by_idempotency_key project key d =
     bind_result (validate_idempotency_key key) (\<lambda>_.
       case job_by_key project key d of
         None \<Rightarrow> Inr None
       | Some row \<Rightarrow> bind_result (into_job row) (\<lambda>job. Inr (Some job)))"

definition get_job :: "JobId \<Rightarrow> db \<Rightarrow> RepositoryError + Job option" where
  "get_job job d =
     (case lock_job job d of None \<Rightarrow> Inr None | Some row \<Rightarrow> bind_result (into_job row) (\<lambda>j. Inr (Some j)))"

record CreatedJob =
  created_job :: Job
  was_created :: bool
  queued_event :: "JobEvent option"

definition check_outstanding_quota :: "ProjectId \<Rightarrow> db \<Rightarrow> RepositoryError + unit" where
  "check_outstanding_quota project d =
     bind_result (ok_or (select_project project d) (NotFound ''project'' project)) (\<lambda>p.
       if pr_max_outstanding_jobs p \<le> int (outstanding_jobs project d)
       then bind_result (to_u32 ''project outstanding jobs'' (int (outstanding_jobs project d))) (\<lambda>current.
            bind_result (to_u32 ''projects.max_outstanding_jobs'' (pr_max_outstanding_jobs p)) (\<lambda>limit.
              Inl (QuotaExceededError project OutstandingJobs current limit)))
       else Inr ())"

definition new_job_row :: "TxClock \<Rightarrow> string \<Rightarrow> CreateJobRequest \<Rightarrow> string \<Rightarrow> int \<Rightarrow> JobRow" where
  "new_job_row t new_job request key timeout =
     \<lparr>jr_id = new_job, jr_project_id = cr_project_id request, jr_apk_upload_id = cr_apk_upload_id request,
      jr_test_upload_id = cr_test_upload_id request, jr_runtime_profile_id = cr_runtime_profile request,
      jr_worker_id = None, jr_mode = cr_mode request, jr_min_isolation = cr_min_isolation request,
      jr_automation = cr_automation request, jr_requested_artifacts = cr_artifacts request,
      jr_timeout_seconds = timeout, jr_idempotency_key = key, jr_state = Queued,
      jr_pending_outcome = None, jr_outcome = None, jr_failure = None, jr_artifacts_finalized = False,
      jr_cleanup_completed = False, jr_lease_id = None, jr_lease_expires_at = None,
      jr_last_lease_extended_at = None, jr_delivery_attempts = 0, jr_created_at = tx_now t,
      jr_started_at = None, jr_finished_at = None\<rparr>"

text \<open>INSERT INTO jobs ... ON CONFLICT (project_id, idempotency_key) DO NOTHING RETURNING.\<close>

definition insert_job_ignore :: "JobRow \<Rightarrow> db \<Rightarrow> RepositoryError + (JobRow option \<times> db)" where
  "insert_job_ignore row d =
     (case jobs_violation row of
        Some code \<Rightarrow> Inl (Sqlx code)
      | None \<Rightarrow>
          if job_by_key (jr_project_id row) (jr_idempotency_key row) d \<noteq> None then Inr (None, d)
          else bind_result (sql_insert jobs_violation (\<lambda>a b. jr_id a = jr_id b) row (db_jobs d)) (\<lambda>rows.
                 Inr (Some row, d\<lparr>db_jobs := rows\<rparr>)))"

definition validate_create_request :: "CreateJobRequest \<Rightarrow> db \<Rightarrow> RepositoryError + RuntimeProfile" where
  "validate_create_request request d =
     bind_result (ensure (cr_test_upload_id request \<noteq> Some (cr_apk_upload_id request))
       (Validation ''APK and test uploads must be different'')) (\<lambda>_.
     bind_result (require_upload_kind (cr_project_id request) (cr_apk_upload_id request) Apk d) (\<lambda>_.
     bind_result (case cr_test_upload_id request of
         None \<Rightarrow> Inr ()
       | Some test \<Rightarrow> require_upload_kind (cr_project_id request) test Test d) (\<lambda>_.
     bind_result (load_profile (cr_runtime_profile request) d) (\<lambda>found.
     bind_result (ok_or found (NotFound ''runtime profile'' (cr_runtime_profile request))) (\<lambda>profile.
     bind_result (ensure (satisfies (rp_isolation_tier profile) (cr_min_isolation request))
       (Validation (''runtime profile '' @ rp_id profile @ '' does not satisfy ''
          @ show_isolation (cr_min_isolation request) @ '' isolation''))) (\<lambda>_.
       Inr profile))))))"

definition create_body ::
  "TxClock \<Rightarrow> string \<Rightarrow> JobEventId \<Rightarrow> CreateJobRequest \<Rightarrow> string \<Rightarrow> (string \<times> string) list \<Rightarrow> db \<Rightarrow>
   RepositoryError + ((JobRow \<times> bool \<times> JobEvent option) \<times> db)" where
  "create_body t new_job evt request key trace_headers d =
     bind_result (validate_idempotency_key key) (\<lambda>_.
     case job_by_key (cr_project_id request) key d of
       Some row \<Rightarrow> Inr ((row, False, None), d)
     | None \<Rightarrow>
       bind_result (check_outstanding_quota (cr_project_id request) d) (\<lambda>_.
       bind_result (validate_create_request request d) (\<lambda>profile.
       bind_result (checked_i64 ''timeout_seconds'' (cr_timeout_seconds request)) (\<lambda>timeout.
       bind_result (insert_job_ignore (new_job_row t new_job request key timeout) d) (\<lambda>(inserted, d1).
         case inserted of
           Some row \<Rightarrow>
             bind_result (append_event t evt (jr_id row) ''job.queued'' (Some Queued) True [] d1) (\<lambda>(event, d2).
             bind_result (decode_id ''jobs.id'' ''job_'' (jr_id row)) (\<lambda>job.
             bind_result (insert_job_queued_outbox t \<lparr>jq_job_id = job, jq_project_id = cr_project_id request,
                 jq_runtime_profile_id = rp_id profile, jq_min_isolation = cr_min_isolation request,
                 jq_timeout_seconds = cr_timeout_seconds request\<rparr> trace_headers d2) (\<lambda>d3.
               Inr ((row, True, Some event), d3))))
         | None \<Rightarrow>
             bind_result (ok_or (job_by_key (cr_project_id request) key d1)
               (Conflict ''idempotent job winner was not visible after conflict'')) (\<lambda>row.
               Inr ((row, False, None), d1)))))))"

definition create_job_with_outbox ::
  "TxClock \<Rightarrow> string \<Rightarrow> JobEventId \<Rightarrow> CreateJobRequest \<Rightarrow> string \<Rightarrow> (string \<times> string) list \<Rightarrow> db \<Rightarrow>
   (RepositoryError + CreatedJob) \<times> db" where
  "create_job_with_outbox t new_job evt request key trace_headers d =
     commit_then (create_body t new_job evt request key trace_headers d) (\<lambda>(row, created, event).
       bind_result (into_job row) (\<lambda>job.
         Inr \<lparr>created_job = job, was_created = created, queued_event = event\<rparr>)) d"

section \<open>The scheduling snapshot\<close>

record LeaseGuard =
  lg_worker_id :: WorkerId
  lg_lease_id :: LeaseId

record JobSchedulingSnapshot =
  sn_job :: Job
  sn_queued :: JobQueued
  sn_runtime_profile :: RuntimeProfile
  sn_lease :: "LeaseGuard option"
  sn_lease_expires_at :: "instant option"
  sn_last_lease_extended_at :: "instant option"
  sn_delivery_attempts :: u32
  sn_pending_outcome :: "JobOutcome option"
  sn_artifacts_finalized :: bool
  sn_cleanup_completed :: bool

definition snapshot_lease :: "JobRow \<Rightarrow> RepositoryError + LeaseGuard option" where
  "snapshot_lease row =
     (case (jr_worker_id row, jr_lease_id row) of
        (Some w, Some l) \<Rightarrow>
          bind_result (decode_id ''jobs.worker_id'' ''wrk_'' w) (\<lambda>w.
          bind_result (decode_id ''jobs.lease_id'' ''lease_'' l) (\<lambda>l.
            Inr (Some \<lparr>lg_worker_id = w, lg_lease_id = l\<rparr>)))
      | (None, Some _) \<Rightarrow> Inl (Decode ''jobs.lease_id'')
      | _ \<Rightarrow> Inr None)"

definition get_job_scheduling_snapshot :: "JobId \<Rightarrow> db \<Rightarrow> RepositoryError + JobSchedulingSnapshot option" where
  "get_job_scheduling_snapshot job d =
     (case lock_job job d of
        None \<Rightarrow> Inr None
      | Some row \<Rightarrow>
          bind_result (load_profile (jr_runtime_profile_id row) d) (\<lambda>found.
          bind_result (ok_or found (NotFound ''runtime profile'' (jr_runtime_profile_id row))) (\<lambda>profile.
          bind_result (snapshot_lease row) (\<lambda>lease.
          bind_result (decode_id ''jobs.id'' ''job_'' (jr_id row)) (\<lambda>i.
          bind_result (decode_id ''jobs.project_id'' ''proj_'' (jr_project_id row)) (\<lambda>project.
          bind_result (decode_timeout (jr_timeout_seconds row)) (\<lambda>timeout.
          bind_result (to_u32 ''jobs.delivery_attempts'' (jr_delivery_attempts row)) (\<lambda>attempts.
          bind_result (into_job row) (\<lambda>j.
            Inr (Some \<lparr>sn_job = j,
              sn_queued = \<lparr>jq_job_id = i, jq_project_id = project, jq_runtime_profile_id = rp_id profile,
                 jq_min_isolation = jr_min_isolation row, jq_timeout_seconds = timeout\<rparr>,
              sn_runtime_profile = profile, sn_lease = lease, sn_lease_expires_at = jr_lease_expires_at row,
              sn_last_lease_extended_at = jr_last_lease_extended_at row, sn_delivery_attempts = attempts,
              sn_pending_outcome = jr_pending_outcome row,
              sn_artifacts_finalized = jr_artifacts_finalized row,
              sn_cleanup_completed = jr_cleanup_completed row\<rparr>))))))))))"

end
