(* ===== verification/Repo_Lifecycle.thy ===== *)
theory Repo_Lifecycle
  imports Repo_Jobs
begin

text \<open>
  The transactions of \<open>crates/repository/src/jobs.rs\<close> that move a job through its life: cancellation,
  claim, fenced transition, result, stale-lease detection and recovery, and artifact registration.
  The chrono function \<open>checked_sub_signed\<close> is a parameter of the claim.
\<close>

section \<open>Cancellation\<close>

record JobMutation =
  mutated_job :: Job
  was_changed :: bool
  mutation_event :: "JobEvent option"

fun show_outcome :: "JobOutcome \<Rightarrow> string" where
  "show_outcome JobOutcome.Passed = ''Passed''"
| "show_outcome JobOutcome.Failed = ''Failed''"
| "show_outcome JobOutcome.Cancelled = ''Cancelled''"
| "show_outcome JobOutcome.TimedOut = ''TimedOut''"
| "show_outcome JobOutcome.InfraFailed = ''InfraFailed''"

definition pending_conflict :: "JobOutcome \<Rightarrow> RepositoryError" where
  "pending_conflict pending = Conflict (''job already has pending outcome '' @ show_outcome pending)"

definition cancel_update :: "JobRow \<Rightarrow> JobRow" where
  "cancel_update r = r\<lparr>jr_state := CollectingArtifacts, jr_pending_outcome := Some JobOutcome.Cancelled\<rparr>"

definition cancel_body ::
  "TxClock \<Rightarrow> JobEventId \<Rightarrow> JobId \<Rightarrow> db \<Rightarrow> RepositoryError + ((JobRow \<times> bool \<times> JobEvent option) \<times> db)" where
  "cancel_body t evt job d =
     bind_result (ok_or (lock_job job d) (NotFound ''job'' job)) (\<lambda>current.
     bind_result (ensure (\<not> is_terminal (jr_state current)) (Conflict ''cannot cancel a terminal job'')) (\<lambda>_.
     case jr_pending_outcome current of
       Some pending \<Rightarrow>
         if pending = JobOutcome.Cancelled then Inr ((current, False, None), d)
         else Inl (pending_conflict pending)
     | None \<Rightarrow>
         bind_result (update_job (\<lambda>r. jr_id r = job \<and> jr_state r = jr_state current \<and> jr_pending_outcome r = None)
           cancel_update d) (\<lambda>(updated, d1).
         bind_result (ok_or updated (CompareAndSwapLost ''job cancellation'' job)) (\<lambda>row.
         bind_result (append_event t evt job ''job.cancellation_requested'' (Some CollectingArtifacts)
           (jr_state current \<noteq> CollectingArtifacts) [(''previous_state'', EvState (jr_state current))] d1) (\<lambda>(event, d2).
           Inr ((row, True, Some event), d2))))))"

definition request_job_cancellation ::
  "TxClock \<Rightarrow> JobEventId \<Rightarrow> JobId \<Rightarrow> db \<Rightarrow> (RepositoryError + JobMutation) \<times> db" where
  "request_job_cancellation t evt job d =
     commit_then (cancel_body t evt job d) (\<lambda>(row, changed, event).
       bind_result (into_job row) (\<lambda>j.
         Inr \<lparr>mutated_job = j, was_changed = changed, mutation_event = event\<rparr>)) d"

section \<open>Claiming\<close>

fun abi_supported :: "AndroidAbi \<Rightarrow> HostArch \<Rightarrow> bool" where
  "abi_supported AbiX86 HostX86_64 = True"
| "abi_supported AbiX86_64 HostX86_64 = True"
| "abi_supported AbiArmeabiV7a HostAarch64 = True"
| "abi_supported AbiArm64V8a HostAarch64 = True"
| "abi_supported _ _ = False"

definition needs_kvm :: "RuntimeProfile \<Rightarrow> bool" where
  "needs_kvm profile \<longleftrightarrow> rp_isolation_tier profile = VmIsolated
     \<or> rp_runtime_kind profile \<in> {AndroidEmulatorContainer, Cuttlefish}"

definition validate_worker_match ::
  "(instant \<Rightarrow> duration \<Rightarrow> instant option) \<Rightarrow> WorkerRow \<Rightarrow> RuntimeProfile \<Rightarrow> IsolationTier \<Rightarrow> instant \<Rightarrow>
   duration \<Rightarrow> RepositoryError + unit" where
  "validate_worker_match checked_sub worker profile minimum database_now worker_stale_after =
     bind_result (ensure (wk_state worker = Online) (Conflict ''worker is not online'')) (\<lambda>_.
     bind_result (ensure (wk_active_jobs worker < wk_capacity worker) (Conflict ''worker has no spare capacity'')) (\<lambda>_.
     bind_result (ok_or (checked_sub database_now worker_stale_after)
       (Validation ''worker freshness duration is too large'')) (\<lambda>heartbeat_cutoff.
     bind_result (ensure (heartbeat_cutoff \<le> wk_last_heartbeat_at worker) (Conflict ''worker heartbeat is stale'')) (\<lambda>_.
     bind_result (ensure (rp_runtime_kind profile \<in> set (wk_runtimes worker))
       (Conflict ''worker does not support the runtime'')) (\<lambda>_.
     bind_result (ensure (wk_arch worker = rp_host_arch profile \<and> abi_supported (rp_abi profile) (wk_arch worker))
       (Conflict ''worker architecture is incompatible with the runtime profile'')) (\<lambda>_.
     bind_result (ensure (\<not> (needs_kvm profile \<and> \<not> wk_kvm worker))
       (Conflict ''worker lacks KVM required by the runtime'')) (\<lambda>_.
       ensure (satisfies (rp_isolation_tier profile) minimum)
         (Conflict ''runtime isolation does not satisfy the job minimum''))))))))"

definition check_concurrent_quota :: "string \<Rightarrow> db \<Rightarrow> RepositoryError + unit" where
  "check_concurrent_quota project d =
     bind_result (ok_or (select_project project d) (NotFound ''project'' project)) (\<lambda>p.
       if pr_max_concurrent_jobs p \<le> int (active_project_jobs project d)
       then bind_result (to_u32 ''project active jobs'' (int (active_project_jobs project d))) (\<lambda>current.
            bind_result (to_u32 ''projects.max_concurrent_jobs'' (pr_max_concurrent_jobs p)) (\<lambda>limit.
              Inl (QuotaExceededError project ConcurrentJobs current limit)))
       else Inr ())"

definition claim_update :: "WorkerId \<Rightarrow> LeaseId \<Rightarrow> instant \<Rightarrow> instant \<Rightarrow> JobRow \<Rightarrow> JobRow" where
  "claim_update worker lease lease_expires_at claimed_at r =
     r\<lparr>jr_state := Claimed, jr_worker_id := Some worker, jr_lease_id := Some lease,
       jr_lease_expires_at := Some lease_expires_at, jr_last_lease_extended_at := Some claimed_at,
       jr_delivery_attempts := jr_delivery_attempts r + 1,
       jr_started_at := (case jr_started_at r of None \<Rightarrow> Some claimed_at | Some s \<Rightarrow> Some s)\<rparr>"

definition reserve_update :: "TxClock \<Rightarrow> WorkerRow \<Rightarrow> WorkerRow" where
  "reserve_update t r = r\<lparr>wk_active_jobs := wk_active_jobs r + 1, wk_updated_at := tx_now t\<rparr>"

definition claim_body ::
  "(instant \<Rightarrow> duration \<Rightarrow> instant option) \<Rightarrow> TxClock \<Rightarrow> JobEventId \<Rightarrow> JobId \<Rightarrow> WorkerId \<Rightarrow> LeaseId \<Rightarrow>
   instant \<Rightarrow> duration \<Rightarrow> db \<Rightarrow> RepositoryError + ((JobRow \<times> RuntimeProfile) \<times> db)" where
  "claim_body checked_sub t evt job worker lease lease_expires_at worker_stale_after d =
     bind_result (ensure (0 < worker_stale_after) (Validation ''worker freshness duration must be positive'')) (\<lambda>_.
     bind_result (ok_or (lock_job job d) (NotFound ''job'' job)) (\<lambda>row.
     bind_result (ensure (jr_state row = Queued \<and> jr_lease_id row = None \<and> jr_worker_id row = None)
       (CompareAndSwapLost ''job'' job)) (\<lambda>_.
     bind_result (check_concurrent_quota (jr_project_id row) d) (\<lambda>_.
     bind_result (ok_or (lock_worker worker d) (NotFound ''worker'' worker)) (\<lambda>w.
     bind_result (load_profile (jr_runtime_profile_id row) d) (\<lambda>found.
     bind_result (ok_or found (NotFound ''runtime profile'' (jr_runtime_profile_id row))) (\<lambda>profile.
     bind_result (ensure (tx_clock t < lease_expires_at)
       (Validation ''lease expiry must be later than database time'')) (\<lambda>_.
     bind_result (validate_worker_match checked_sub w profile (jr_min_isolation row) (tx_clock t) worker_stale_after) (\<lambda>_.
     bind_result (update_workers (\<lambda>r. wk_id r = worker \<and> wk_state r = Online \<and> wk_active_jobs r < wk_capacity r)
       (reserve_update t) d) (\<lambda>(reserved, d1).
     bind_result (ensure (length reserved = 1) (CompareAndSwapLost ''worker capacity'' worker)) (\<lambda>_.
     bind_result (update_job (\<lambda>r. jr_id r = job \<and> jr_state r = Queued \<and> jr_worker_id r = None \<and> jr_lease_id r = None)
       (claim_update worker lease lease_expires_at (tx_clock t)) d1) (\<lambda>(updated, d2).
     bind_result (ok_or updated (CompareAndSwapLost ''job'' job)) (\<lambda>claimed.
     bind_result (append_event t evt job ''job.claimed'' (Some Claimed) True
       [(''lease_id'', EvText lease), (''worker_id'', EvText worker)] d2) (\<lambda>(_, d3).
       Inr ((claimed, profile), d3)))))))))))))))"

definition claim_job_with_options ::
  "(instant \<Rightarrow> duration \<Rightarrow> instant option) \<Rightarrow> TxClock \<Rightarrow> JobEventId \<Rightarrow> JobId \<Rightarrow> WorkerId \<Rightarrow> LeaseId \<Rightarrow>
   instant \<Rightarrow> duration \<Rightarrow> db \<Rightarrow> (RepositoryError + JobClaim) \<times> db" where
  "claim_job_with_options checked_sub t evt job worker lease lease_expires_at worker_stale_after d =
     commit_then (claim_body checked_sub t evt job worker lease lease_expires_at worker_stale_after d)
       (\<lambda>(claimed, profile). bind_result (into_job claimed) (\<lambda>j.
          Inr \<lparr>cl_job_id = job_id j, cl_project_id = job_project_id j, cl_worker_id = worker,
            cl_lease_id = lease, cl_apk_upload_id = job_apk_upload_id j,
            cl_test_upload_id = job_test_upload_id j, cl_runtime_profile = profile, cl_mode = job_mode j,
            cl_min_isolation = job_min_isolation j, cl_automation = job_automation j,
            cl_artifacts = job_artifacts j, cl_timeout_seconds = job_timeout_seconds j,
            cl_claimed_at = tx_clock t, cl_lease_expires_at = lease_expires_at\<rparr>)) d"

text \<open>\<open>claim_job\<close> with \<open>ClaimJobOptions::default()\<close>: 45 seconds.\<close>

definition claim_job ::
  "(instant \<Rightarrow> duration \<Rightarrow> instant option) \<Rightarrow> TxClock \<Rightarrow> JobEventId \<Rightarrow> JobId \<Rightarrow> WorkerId \<Rightarrow> LeaseId \<Rightarrow>
   instant \<Rightarrow> db \<Rightarrow> (RepositoryError + JobClaim) \<times> db" where
  "claim_job checked_sub t evt job worker lease lease_expires_at d =
     claim_job_with_options checked_sub t evt job worker lease lease_expires_at (45 * 1000000) d"

section \<open>Transitions\<close>

definition release_update :: "TxClock \<Rightarrow> WorkerRow \<Rightarrow> WorkerRow" where
  "release_update t r = r\<lparr>wk_active_jobs := max (wk_active_jobs r - 1) 0, wk_updated_at := tx_now t\<rparr>"

definition release_worker_capacity :: "TxClock \<Rightarrow> string \<Rightarrow> db \<Rightarrow> RepositoryError + db" where
  "release_worker_capacity t worker d =
     bind_result (update_workers (\<lambda>r. wk_id r = worker) (release_update t) d) (\<lambda>(_, d1). Inr d1)"

definition lease_guard_holds :: "TxClock \<Rightarrow> LeaseGuard option \<Rightarrow> JobRow \<Rightarrow> bool" where
  "lease_guard_holds t lease r =
     (case lease of
        None \<Rightarrow> True
      | Some g \<Rightarrow> jr_worker_id r = Some (lg_worker_id g) \<and> jr_lease_id r = Some (lg_lease_id g)
          \<and> (case jr_lease_expires_at r of None \<Rightarrow> False | Some e \<Rightarrow> tx_statement t < e))"

definition transition_where ::
  "TxClock \<Rightarrow> JobId \<Rightarrow> JobState \<Rightarrow> JobOutcome option \<Rightarrow> LeaseGuard option \<Rightarrow> JobRow \<Rightarrow> bool" where
  "transition_where t job expected_from pending lease r \<longleftrightarrow>
     jr_id r = job \<and> jr_state r = expected_from
     \<and> (pending = None \<or> jr_pending_outcome r = None \<or> jr_pending_outcome r = pending)
     \<and> lease_guard_holds t lease r"

definition transition_update :: "TxClock \<Rightarrow> JobState \<Rightarrow> TransitionEvidence \<Rightarrow> JobRow \<Rightarrow> JobRow" where
  "transition_update t target evidence r =
     (let terminal = terminal_outcome target
      in r\<lparr>jr_state := target,
           jr_pending_outcome := (case pending_outcome evidence of Some p \<Rightarrow> Some p | None \<Rightarrow> jr_pending_outcome r),
           jr_artifacts_finalized := (jr_artifacts_finalized r \<or> artifacts_finalized evidence),
           jr_cleanup_completed := (jr_cleanup_completed r \<or> cleanup_completed evidence),
           jr_outcome := terminal,
           jr_finished_at := (if terminal \<noteq> None then Some (tx_now t) else jr_finished_at r),
           jr_lease_id := (if terminal \<noteq> None then None else jr_lease_id r),
           jr_lease_expires_at := (if terminal \<noteq> None then None else jr_lease_expires_at r),
           jr_last_lease_extended_at := (if terminal \<noteq> None then None else jr_last_lease_extended_at r)\<rparr>)"

definition transition_body ::
  "TxClock \<Rightarrow> JobEventId \<Rightarrow> JobId \<Rightarrow> JobState \<Rightarrow> JobState \<Rightarrow> TransitionEvidence \<Rightarrow> LeaseGuard option \<Rightarrow>
   EventPayload \<Rightarrow> db \<Rightarrow> RepositoryError + (JobRow \<times> db)" where
  "transition_body t evt job expected_from target evidence lease payload d =
     bind_result (map_err InvalidTransition (validate_transition expected_from target evidence)) (\<lambda>_.
     bind_result (update_job (transition_where t job expected_from (pending_outcome evidence) lease)
       (transition_update t target evidence) d) (\<lambda>(updated, d1).
     bind_result (ok_or updated (CompareAndSwapLost ''job'' job)) (\<lambda>row.
     bind_result (if is_terminal target
         then (case jr_worker_id row of Some w \<Rightarrow> release_worker_capacity t w d1 | None \<Rightarrow> Inr d1)
         else Inr d1) (\<lambda>d2.
     bind_result (append_event t evt job (''job.'' @ encode_state target) (Some target)
       (expected_from \<noteq> target) payload d2) (\<lambda>(_, d3).
       Inr (row, d3))))))"

definition transition_job_state ::
  "TxClock \<Rightarrow> JobEventId \<Rightarrow> JobId \<Rightarrow> JobState \<Rightarrow> JobState \<Rightarrow> TransitionEvidence \<Rightarrow> LeaseGuard option \<Rightarrow>
   EventPayload \<Rightarrow> db \<Rightarrow> (RepositoryError + Job) \<times> db" where
  "transition_job_state t evt job expected_from target evidence lease payload d =
     commit_then (transition_body t evt job expected_from target evidence lease payload d) into_job d"

section \<open>Results\<close>

definition verify_artifact_ids :: "JobId \<Rightarrow> ArtifactId list \<Rightarrow> db \<Rightarrow> RepositoryError + unit" where
  "verify_artifact_ids job ids d =
     (if ids = [] then Inr ()
      else ensure (count_rows (\<lambda>a. ar_job_id a = job \<and> ar_id a \<in> set ids) (db_artifacts d) = length ids)
        (Validation ''one or more result artifact IDs do not belong to the job''))"

definition result_where :: "TxClock \<Rightarrow> JobResult \<Rightarrow> JobRow \<Rightarrow> bool" where
  "result_where t result r \<longleftrightarrow> jr_id r = res_job_id result \<and> jr_worker_id r = Some (res_worker_id result)
     \<and> jr_lease_id r = Some (res_lease_id result)
     \<and> (case jr_lease_expires_at r of None \<Rightarrow> False | Some e \<Rightarrow> tx_statement t < e)
     \<and> (jr_pending_outcome r = None \<or> jr_pending_outcome r = Some (res_outcome result))
     \<and> \<not> is_terminal (jr_state r)"

definition result_update :: "JobResult \<Rightarrow> JobRow \<Rightarrow> JobRow" where
  "result_update result r =
     r\<lparr>jr_pending_outcome := Some (res_outcome result),
       jr_failure := (case res_error result of Some f \<Rightarrow> Some f | None \<Rightarrow> jr_failure r),
       jr_artifacts_finalized := (jr_artifacts_finalized r \<or> res_artifacts_finalized result),
       jr_cleanup_completed := (jr_cleanup_completed r \<or> res_cleanup_completed result)\<rparr>"

definition result_body :: "TxClock \<Rightarrow> JobEventId \<Rightarrow> JobResult \<Rightarrow> db \<Rightarrow> RepositoryError + (JobRow \<times> db)" where
  "result_body t evt result d =
     bind_result (ensure (\<not> (res_cleanup_completed result \<and> \<not> res_artifacts_finalized result))
       (Validation ''cleanup completion requires finalized artifacts'')) (\<lambda>_.
     bind_result (ensure (\<not> (res_outcome result = JobOutcome.Passed \<and> res_error result \<noteq> None))
       (Validation ''a passed result cannot include an error'')) (\<lambda>_.
     bind_result (ok_or (lock_job (res_job_id result) d) (NotFound ''job'' (res_job_id result))) (\<lambda>current.
     bind_result (ensure (jr_worker_id current = Some (res_worker_id result) \<and> jr_lease_id current = Some (res_lease_id result))
       (CompareAndSwapLost ''job lease'' (res_job_id result))) (\<lambda>_.
     bind_result (ensure (\<not> is_terminal (jr_state current)) (Conflict ''cannot record a result for a terminal job'')) (\<lambda>_.
     bind_result (ensure (\<not> (res_cleanup_completed result \<and> \<not> (jr_artifacts_finalized current \<or> res_artifacts_finalized result)))
       (Validation ''cleanup completion requires finalized artifacts'')) (\<lambda>_.
     bind_result (case jr_pending_outcome current of
         None \<Rightarrow> Inr ()
       | Some existing \<Rightarrow> ensure (existing = res_outcome result) (pending_conflict existing)) (\<lambda>_.
     bind_result (verify_artifact_ids (res_job_id result) (res_artifact_ids result) d) (\<lambda>_.
     bind_result (update_job (result_where t result) (result_update result) d) (\<lambda>(updated, d1).
     bind_result (ok_or updated (CompareAndSwapLost ''job result'' (res_job_id result))) (\<lambda>row.
     bind_result (append_event t evt (res_job_id result) ''job.result_recorded'' (Some (jr_state current)) False
       [(''artifact_ids'', EvTexts (res_artifact_ids result)), (''completed_at'', EvTime (res_completed_at result)),
        (''outcome'', EvOutcome (res_outcome result))] d1) (\<lambda>(_, d2).
       Inr (row, d2))))))))))))"

definition record_job_result :: "TxClock \<Rightarrow> JobEventId \<Rightarrow> JobResult \<Rightarrow> db \<Rightarrow> (RepositoryError + Job) \<times> db" where
  "record_job_result t evt result d = commit_then (result_body t evt result d) into_job d"

section \<open>Stale leases\<close>

record StaleJobCriteria =
  sc_lease_expired_before :: instant
  sc_worker_heartbeat_before :: instant
  sc_limit :: u32

record StaleJob =
  st_job_id :: JobId
  st_worker_id :: WorkerId
  st_lease_id :: LeaseId
  st_state :: JobState
  st_delivery_attempts :: u32
  st_lease_expires_at :: instant
  st_worker_last_heartbeat_at :: instant
  st_lease_expired_before :: instant
  st_worker_heartbeat_before :: instant

text \<open>The rows of the join of leased jobs with their workers, with the columns the query names.\<close>

definition stale_candidate :: "StaleJobCriteria \<Rightarrow> JobRow \<Rightarrow> WorkerRow \<Rightarrow> bool" where
  "stale_candidate criteria j w \<longleftrightarrow> Some (wk_id w) = jr_worker_id j \<and> jr_lease_id j \<noteq> None
     \<and> jr_state j \<noteq> Queued \<and> \<not> is_terminal (jr_state j)
     \<and> ((case jr_lease_expires_at j of None \<Rightarrow> False | Some e \<Rightarrow> e \<le> sc_lease_expired_before criteria)
        \<or> wk_last_heartbeat_at w \<le> sc_worker_heartbeat_before criteria)"

definition stale_pairs :: "StaleJobCriteria \<Rightarrow> db \<Rightarrow> (JobRow \<times> WorkerRow) list" where
  "stale_pairs criteria d =
     sort_key (\<lambda>(j, w). (case jr_lease_expires_at j of None \<Rightarrow> wk_last_heartbeat_at w
                          | Some e \<Rightarrow> min e (wk_last_heartbeat_at w), jr_id j))
       (filter (\<lambda>(j, w). stale_candidate criteria j w) (List.product (db_jobs d) (db_workers d)))"

definition stale_of_row :: "StaleJobCriteria \<Rightarrow> JobRow \<times> WorkerRow \<Rightarrow> RepositoryError + StaleJob" where
  "stale_of_row criteria jw = (case jw of (j, w) \<Rightarrow>
     bind_result (decode_id ''jobs.id'' ''job_'' (jr_id j)) (\<lambda>i.
     bind_result (ok_or (jr_worker_id j) (Sqlx ''ColumnDecode'')) (\<lambda>worker.
     bind_result (ok_or (jr_lease_id j) (Sqlx ''ColumnDecode'')) (\<lambda>lease.
     bind_result (ok_or (jr_lease_expires_at j) (Sqlx ''ColumnDecode'')) (\<lambda>expires.
     bind_result (decode_id ''jobs.worker_id'' ''wrk_'' worker) (\<lambda>worker.
     bind_result (decode_id ''jobs.lease_id'' ''lease_'' lease) (\<lambda>lease.
     bind_result (to_u32 ''jobs.delivery_attempts'' (jr_delivery_attempts j)) (\<lambda>attempts.
       Inr \<lparr>st_job_id = i, st_worker_id = worker, st_lease_id = lease, st_state = jr_state j,
         st_delivery_attempts = attempts, st_lease_expires_at = expires,
         st_worker_last_heartbeat_at = wk_last_heartbeat_at w,
         st_lease_expired_before = sc_lease_expired_before criteria,
         st_worker_heartbeat_before = sc_worker_heartbeat_before criteria\<rparr>))))))))"

definition find_stale_jobs :: "StaleJobCriteria \<Rightarrow> db \<Rightarrow> RepositoryError + StaleJob list" where
  "find_stale_jobs criteria d =
     bind_result (checked_limit (sc_limit criteria)) (\<lambda>limit.
       collect_results (stale_of_row criteria) (take (nat limit) (stale_pairs criteria d)))"

datatype RecoveryDisposition = Requeued Job | Cancelling Job | Finalizing Job | LostRace

datatype RecoveryKind = RkRequeue | RkCancelling | RkExhausted

definition snapshot_matches :: "StaleJob \<Rightarrow> JobRow \<Rightarrow> RepositoryError + bool" where
  "snapshot_matches stale current =
     (if \<not> (jr_worker_id current = Some (st_worker_id stale) \<and> jr_lease_id current = Some (st_lease_id stale)
         \<and> jr_state current = st_state stale) then Inr False
      else bind_result (to_u32 ''jobs.delivery_attempts'' (jr_delivery_attempts current)) (\<lambda>attempts.
        Inr (attempts = st_delivery_attempts stale
          \<and> jr_lease_expires_at current = Some (st_lease_expires_at stale))))"

definition recovery_kind :: "StaleJob \<Rightarrow> u32 \<Rightarrow> JobRow \<Rightarrow> RecoveryKind" where
  "recovery_kind stale max_deliver current =
     (if jr_pending_outcome current = Some JobOutcome.Cancelled then RkCancelling
      else if st_delivery_attempts stale < max_deliver then RkRequeue else RkExhausted)"

definition exhausted_failure :: FailureDetail where
  "exhausted_failure = \<lparr>fd_code = ECInfraFailed,
     fd_message = ''job lease was abandoned after maximum delivery attempts''\<rparr>"

definition release_lease :: "JobRow \<Rightarrow> JobRow" where
  "release_lease r = r\<lparr>jr_worker_id := None, jr_lease_id := None, jr_lease_expires_at := None,
     jr_last_lease_extended_at := None, jr_outcome := None\<rparr>"

definition finalize_update :: "JobOutcome \<Rightarrow> FailureDetail option \<Rightarrow> JobRow \<Rightarrow> JobRow" where
  "finalize_update pending failure r =
     (release_lease r)\<lparr>jr_state := (if jr_state r = CleaningUp then CleaningUp else CollectingArtifacts),
       jr_pending_outcome := Some pending, jr_failure := failure,
       jr_artifacts_finalized := (jr_state r = CleaningUp \<and> jr_artifacts_finalized r),
       jr_cleanup_completed := (jr_state r = CleaningUp \<and> jr_cleanup_completed r)\<rparr>"

fun recovery_update :: "RecoveryKind \<Rightarrow> JobRow \<Rightarrow> JobRow" where
  "recovery_update RkRequeue r =
     (release_lease r)\<lparr>jr_state := Queued, jr_pending_outcome := None, jr_failure := None,
       jr_artifacts_finalized := False, jr_cleanup_completed := False\<rparr>"
| "recovery_update RkCancelling r = finalize_update JobOutcome.Cancelled None r"
| "recovery_update RkExhausted r = finalize_update JobOutcome.InfraFailed (Some exhausted_failure) r"

definition recovery_where :: "StaleJob \<Rightarrow> JobRow \<Rightarrow> bool" where
  "recovery_where stale r \<longleftrightarrow> jr_id r = st_job_id stale \<and> jr_worker_id r = Some (st_worker_id stale)
     \<and> jr_lease_id r = Some (st_lease_id stale) \<and> jr_lease_expires_at r = Some (st_lease_expires_at stale)
     \<and> jr_state r = st_state stale \<and> jr_delivery_attempts r = uint (st_delivery_attempts stale)"

fun recovery_event :: "RecoveryKind \<Rightarrow> string" where
  "recovery_event RkRequeue = ''job.recovered_requeued''"
| "recovery_event RkCancelling = ''job.recovery_cancelled''"
| "recovery_event RkExhausted = ''job.recovery_exhausted''"

definition recovery_state :: "RecoveryKind \<Rightarrow> StaleJob \<Rightarrow> JobState" where
  "recovery_state kind stale =
     (if kind = RkRequeue then Queued
      else if st_state stale = CleaningUp then CleaningUp else CollectingArtifacts)"

definition enqueue_exhausted :: "TxClock \<Rightarrow> StaleJob \<Rightarrow> JobRow \<Rightarrow> db \<Rightarrow> RepositoryError + db" where
  "enqueue_exhausted t stale current d =
     bind_result (decode_id ''jobs.project_id'' ''proj_'' (jr_project_id current)) (\<lambda>project.
     bind_result (map_err (\<lambda>e. Validation (dead_letter_message e))
       (dead_letter_new (Some (st_job_id stale)) (Some project) None (st_delivery_attempts stale)
          AttemptsExhausted (tx_clock t))) (\<lambda>dead_letter.
     bind_result (insert_job_dead_letter_outbox t dead_letter [] d) (\<lambda>(_, d1). Inr d1)))"

text \<open>\<open>Inr (None, d)\<close> is the lost race: the transaction is rolled back and nothing changes.\<close>

definition recover_body ::
  "TxClock \<Rightarrow> JobEventId \<Rightarrow> StaleJob \<Rightarrow> u32 \<Rightarrow> db \<Rightarrow> RepositoryError + ((RecoveryKind \<times> JobRow) option \<times> db)" where
  "recover_body t evt stale max_deliver d =
     bind_result (ensure (max_deliver \<noteq> 0) (Validation ''max_deliver must be positive'')) (\<lambda>_.
     case lock_job (st_job_id stale) d of
       None \<Rightarrow> Inr (None, d)
     | Some current \<Rightarrow>
       bind_result (snapshot_matches stale current) (\<lambda>matches.
       if \<not> matches \<or> jr_state current = Queued \<or> is_terminal (jr_state current) then Inr (None, d)
       else case lock_worker (st_worker_id stale) d of
         None \<Rightarrow> Inr (None, d)
       | Some worker \<Rightarrow>
         let lease_expired = (st_lease_expires_at stale \<le> st_lease_expired_before stale);
             worker_stale = (wk_last_heartbeat_at worker \<le> st_worker_heartbeat_before stale)
         in if \<not> lease_expired \<and> \<not> worker_stale then Inr (None, d)
            else
              let kind = recovery_kind stale max_deliver current; new_state = recovery_state kind stale
              in bind_result (update_job (recovery_where stale) (recovery_update kind) d) (\<lambda>(updated, d1).
                 case updated of
                   None \<Rightarrow> Inr (None, d)
                 | Some row \<Rightarrow>
                   bind_result (release_worker_capacity t (st_worker_id stale) d1) (\<lambda>d2.
                   bind_result (append_event t evt (st_job_id stale) (recovery_event kind) (Some new_state)
                     (new_state \<noteq> st_state stale)
                     [(''delivery_attempts'', EvNumber (st_delivery_attempts stale)),
                      (''lease_expired'', EvBool lease_expired), (''worker_stale'', EvBool worker_stale)] d2) (\<lambda>(_, d3).
                   bind_result (if kind = RkExhausted then enqueue_exhausted t stale current d3 else Inr d3) (\<lambda>d4.
                     Inr (Some (kind, row), d4)))))))"

fun recovery_disposition :: "(RecoveryKind \<times> JobRow) option \<Rightarrow> RepositoryError + RecoveryDisposition" where
  "recovery_disposition None = Inr LostRace"
| "recovery_disposition (Some (kind, row)) =
     bind_result (into_job row) (\<lambda>job.
       Inr (case kind of RkRequeue \<Rightarrow> Requeued job | RkCancelling \<Rightarrow> Cancelling job | RkExhausted \<Rightarrow> Finalizing job))"

definition recover_stale_job ::
  "TxClock \<Rightarrow> JobEventId \<Rightarrow> StaleJob \<Rightarrow> u32 \<Rightarrow> db \<Rightarrow> (RepositoryError + RecoveryDisposition) \<times> db" where
  "recover_stale_job t evt stale max_deliver d =
     commit_then (recover_body t evt stale max_deliver d) recovery_disposition d"

section \<open>Artifacts\<close>

definition artifact_of_row :: "ArtifactRow \<Rightarrow> RepositoryError + ArtifactRow" where
  "artifact_of_row row =
     bind_result (decode_id ''artifacts.id'' ''art_'' (ar_id row)) (\<lambda>_.
     bind_result (decode_id ''artifacts.job_id'' ''job_'' (ar_job_id row)) (\<lambda>_.
     bind_result (to_u64 ''artifacts.size_bytes'' (ar_size_bytes row)) (\<lambda>_.
     bind_result (map_err (\<lambda>_. Decode ''artifacts.sha256'') (Sha256_new (ar_sha256 row))) (\<lambda>_. Inr row))))"

definition insert_artifact_ignore :: "ArtifactRow \<Rightarrow> db \<Rightarrow> RepositoryError + (ArtifactRow option \<times> db)" where
  "insert_artifact_ignore row d =
     (case artifacts_violation row of
        Some code \<Rightarrow> Inl (Sqlx code)
      | None \<Rightarrow>
          if list_ex (\<lambda>a. ar_job_id a = ar_job_id row \<and> ar_s3_key a = ar_s3_key row) (db_artifacts d) then Inr (None, d)
          else if list_ex (\<lambda>a. ar_id a = ar_id row) (db_artifacts d) then Inl (Sqlx ''23505'')
          else if lock_job (ar_job_id row) d = None then Inl (Sqlx ''23503'')
          else Inr (Some row, d\<lparr>db_artifacts := db_artifacts d @ [row]\<rparr>))"

definition add_artifact ::
  "TxClock \<Rightarrow> string \<Rightarrow> JobId \<Rightarrow> ArtifactKind \<Rightarrow> string \<Rightarrow> string option \<Rightarrow> u64 \<Rightarrow> string \<Rightarrow> db \<Rightarrow>
   (RepositoryError + ArtifactRow) \<times> db" where
  "add_artifact t new_artifact job kind s3_key file_name size_bytes sha256 d =
     commit_then
       (bind_result (ensure (\<not> is_blank s3_key) (Validation ''artifact object key must not be blank'')) (\<lambda>_.
        bind_result (ensure (case file_name of None \<Rightarrow> True | Some n \<Rightarrow> \<not> is_blank n)
          (Validation ''artifact file name must not be blank'')) (\<lambda>_.
        bind_result (checked_i64 ''size_bytes'' size_bytes) (\<lambda>sz.
          insert_artifact_ignore \<lparr>ar_id = new_artifact, ar_job_id = job, ar_kind = kind, ar_s3_key = s3_key,
            ar_file_name = file_name, ar_size_bytes = sz, ar_sha256 = sha256, ar_created_at = tx_now t\<rparr> d))))
       (\<lambda>inserted.
          bind_result (case inserted of
              Some row \<Rightarrow> artifact_of_row row
            | None \<Rightarrow> bind_result (ok_or (select_one (\<lambda>a. ar_job_id a = job \<and> ar_s3_key a = s3_key) (db_artifacts d))
                (Sqlx ''RowNotFound'')) artifact_of_row) (\<lambda>stored.
          bind_result (ensure (ar_kind stored = kind \<and> ar_file_name stored = file_name
              \<and> ar_size_bytes stored = uint size_bytes \<and> ar_sha256 stored = sha256)
            (Conflict ''artifact object key was already recorded with different metadata'')) (\<lambda>_.
            Inr stored))) d"

definition list_artifacts :: "JobId \<Rightarrow> db \<Rightarrow> RepositoryError + ArtifactRow list" where
  "list_artifacts job d =
     collect_results artifact_of_row (sort_key (\<lambda>a. (ar_created_at a, ar_id a))
       (filter (\<lambda>a. ar_job_id a = job) (db_artifacts d)))"

end
