(* ===== verification/Repo_Workers.thy ===== *)
theory Repo_Workers
  imports Repo_Lifecycle
begin

text \<open>
  Workers, \<open>crates/repository/src/workers.rs\<close>: registration, heartbeats with lease extension, worker
  state, and the matching query of the dispatcher.
\<close>

section \<open>Registration\<close>

record WorkerStatus =
  ws_worker_id :: WorkerId
  ws_runtimes :: "RuntimeKind list"
  ws_kvm :: bool
  ws_gpu :: bool
  ws_arch :: HostArch
  ws_capacity :: u32
  ws_active_jobs :: u32
  ws_state :: WorkerState
  ws_last_seen :: instant

definition into_status :: "WorkerRow \<Rightarrow> RepositoryError + WorkerStatus" where
  "into_status row =
     bind_result (decode_id ''workers.id'' ''wrk_'' (wk_id row)) (\<lambda>i.
     bind_result (to_u32 ''workers.capacity'' (wk_capacity row)) (\<lambda>capacity.
     bind_result (to_u32 ''workers.active_jobs'' (wk_active_jobs row)) (\<lambda>active.
       Inr \<lparr>ws_worker_id = i, ws_runtimes = wk_runtimes row, ws_kvm = wk_kvm row, ws_gpu = wk_gpu row,
         ws_arch = wk_arch row, ws_capacity = capacity, ws_active_jobs = active, ws_state = wk_state row,
         ws_last_seen = wk_last_heartbeat_at row\<rparr>)))"

definition validate_runtimes :: "RuntimeKind list \<Rightarrow> RepositoryError + RuntimeKind list" where
  "validate_runtimes runtimes =
     (if runtimes = [] then Inl (Validation ''worker must advertise at least one runtime'')
      else if \<not> distinct runtimes then Inl (Validation ''worker runtimes must be unique'')
      else Inr runtimes)"

definition new_worker_row :: "TxClock \<Rightarrow> WorkerRegistration \<Rightarrow> WorkerRow" where
  "new_worker_row t reg =
     \<lparr>wk_id = wr_worker_id reg, wk_runtimes = wr_runtimes reg, wk_kvm = wr_kvm reg, wk_gpu = wr_gpu reg,
      wk_arch = wr_arch reg, wk_capacity = uint (wr_capacity reg), wk_active_jobs = 0, wk_state = Online,
      wk_last_heartbeat_at = tx_now t, wk_reported_last_seen_at = None, wk_registered_at = tx_now t,
      wk_updated_at = tx_now t\<rparr>"

definition reregister_update :: "TxClock \<Rightarrow> WorkerRegistration \<Rightarrow> WorkerRow \<Rightarrow> WorkerRow" where
  "reregister_update t reg r =
     r\<lparr>wk_runtimes := wr_runtimes reg, wk_kvm := wr_kvm reg, wk_gpu := wr_gpu reg, wk_arch := wr_arch reg,
       wk_capacity := uint (wr_capacity reg), wk_last_heartbeat_at := tx_now t, wk_updated_at := tx_now t\<rparr>"

text \<open>INSERT ... ON CONFLICT (id) DO UPDATE ... WHERE; a conflicting row the WHERE rejects yields no row.\<close>

definition upsert_body :: "TxClock \<Rightarrow> WorkerRegistration \<Rightarrow> db \<Rightarrow> RepositoryError + (WorkerRow \<times> db)" where
  "upsert_body t reg d =
     bind_result (validate_runtimes (wr_runtimes reg)) (\<lambda>_.
     case workers_violation (new_worker_row t reg) of
       Some code \<Rightarrow> Inl (Sqlx code)
     | None \<Rightarrow>
       if lock_worker (wr_worker_id reg) d = None
       then Inr (new_worker_row t reg, d\<lparr>db_workers := db_workers d @ [new_worker_row t reg]\<rparr>)
       else bind_result (update_workers (\<lambda>r. wk_id r = wr_worker_id reg \<and> wk_active_jobs r \<le> uint (wr_capacity reg))
              (reregister_update t reg) d) (\<lambda>(changed, d1).
            case changed of
              [] \<Rightarrow> Inl (Conflict ''worker capacity cannot be lowered below its active reservations'')
            | row # _ \<Rightarrow> Inr (row, d1)))"

definition upsert_worker :: "TxClock \<Rightarrow> WorkerRegistration \<Rightarrow> db \<Rightarrow> (RepositoryError + WorkerStatus) \<times> db" where
  "upsert_worker t reg d = commit_then (upsert_body t reg d) into_status d"

section \<open>Heartbeats\<close>

record HeartbeatReceipt =
  rc_recorded_at :: instant
  rc_extended :: "JobLeaseExtension list"
  rc_cancel_requested :: "JobLeaseExtension list"
  rc_rejected :: "JobLeaseExtension list"

definition num_seconds :: "duration \<Rightarrow> int" where
  "num_seconds d = (if 0 \<le> d then d div 1000000 else - ((- d) div 1000000))"

definition heartbeat_update :: "instant \<Rightarrow> WorkerHeartbeat \<Rightarrow> WorkerRow \<Rightarrow> WorkerRow" where
  "heartbeat_update recorded_at hb r =
     r\<lparr>wk_runtimes := hb_runtimes hb, wk_kvm := hb_kvm hb, wk_gpu := hb_gpu hb, wk_arch := hb_arch hb,
       wk_capacity := uint (hb_capacity hb), wk_last_heartbeat_at := recorded_at,
       wk_reported_last_seen_at := Some (hb_last_seen hb), wk_updated_at := recorded_at\<rparr>"

definition extension_where :: "instant \<Rightarrow> WorkerId \<Rightarrow> JobLeaseExtension \<Rightarrow> JobRow \<Rightarrow> bool" where
  "extension_where recorded_at worker ext r \<longleftrightarrow> jr_id r = le_job_id ext \<and> jr_worker_id r = Some worker
     \<and> jr_lease_id r = Some (le_lease_id ext)
     \<and> (case jr_lease_expires_at r of None \<Rightarrow> False | Some e \<Rightarrow> recorded_at < e)
     \<and> jr_pending_outcome r = None \<and> jr_state r \<noteq> Queued \<and> \<not> is_terminal (jr_state r)"

definition extension_update :: "instant \<Rightarrow> int \<Rightarrow> JobRow \<Rightarrow> JobRow" where
  "extension_update recorded_at lease_seconds r =
     r\<lparr>jr_lease_expires_at := Some (recorded_at + lease_seconds * 1000000), jr_last_lease_extended_at := Some recorded_at\<rparr>"

definition cancellation_pending :: "WorkerId \<Rightarrow> JobLeaseExtension \<Rightarrow> JobRow \<Rightarrow> bool" where
  "cancellation_pending worker ext r \<longleftrightarrow> jr_id r = le_job_id ext \<and> jr_worker_id r = Some worker
     \<and> jr_lease_id r = Some (le_lease_id ext) \<and> jr_pending_outcome r = Some JobOutcome.Cancelled
     \<and> \<not> is_terminal (jr_state r)"

fun extend_leases ::
  "instant \<Rightarrow> int \<Rightarrow> WorkerId \<Rightarrow> JobLeaseExtension list \<Rightarrow> HeartbeatReceipt \<Rightarrow> db \<Rightarrow>
   RepositoryError + (HeartbeatReceipt \<times> db)" where
  "extend_leases recorded_at lease_seconds worker [] receipt d = Inr (receipt, d)"
| "extend_leases recorded_at lease_seconds worker (ext # exts) receipt d =
     bind_result (sql_update jobs_violation (extension_where recorded_at worker ext)
       (extension_update recorded_at lease_seconds) (db_jobs d)) (\<lambda>(changed, rows).
       extend_leases recorded_at lease_seconds worker exts
         (if length changed = 1 then receipt\<lparr>rc_extended := rc_extended receipt @ [ext]\<rparr>
          else if list_ex (cancellation_pending worker ext) rows
          then receipt\<lparr>rc_cancel_requested := rc_cancel_requested receipt @ [ext]\<rparr>
          else receipt\<lparr>rc_rejected := rc_rejected receipt @ [ext]\<rparr>)
         (d\<lparr>db_jobs := rows\<rparr>))"

definition heartbeat_body ::
  "TxClock \<Rightarrow> WorkerHeartbeat \<Rightarrow> duration \<Rightarrow> db \<Rightarrow> RepositoryError + (HeartbeatReceipt \<times> db)" where
  "heartbeat_body t hb lease_ttl d =
     bind_result (ensure (0 < num_seconds lease_ttl) (Validation ''lease TTL must be at least one second'')) (\<lambda>_.
     bind_result (ensure (hb_active_jobs hb \<le> hb_capacity hb)
       (Validation ''heartbeat capacity must be at least active_jobs'')) (\<lambda>_.
     bind_result (validate_runtimes (hb_runtimes hb)) (\<lambda>_.
     bind_result (ok_or (lock_worker (hb_worker_id hb) d) (NotFound ''worker'' (hb_worker_id hb))) (\<lambda>w.
     bind_result (ensure (wk_active_jobs w \<le> uint (hb_capacity hb))
       (Conflict ''reported capacity is below active reservations'')) (\<lambda>_.
     bind_result (update_workers (\<lambda>r. wk_id r = hb_worker_id hb) (heartbeat_update (tx_clock t) hb) d) (\<lambda>(_, d1).
       extend_leases (tx_clock t) (num_seconds lease_ttl) (hb_worker_id hb) (hb_lease_extends hb)
         \<lparr>rc_recorded_at = tx_clock t, rc_extended = [], rc_cancel_requested = [], rc_rejected = []\<rparr> d1))))))"

definition record_heartbeat ::
  "TxClock \<Rightarrow> WorkerHeartbeat \<Rightarrow> duration \<Rightarrow> db \<Rightarrow> (RepositoryError + HeartbeatReceipt) \<times> db" where
  "record_heartbeat t hb lease_ttl d = commit_then (heartbeat_body t hb lease_ttl d) Inr d"

section \<open>Worker state and matching\<close>

definition set_worker_state ::
  "TxClock \<Rightarrow> WorkerId \<Rightarrow> WorkerState \<Rightarrow> db \<Rightarrow> (RepositoryError + WorkerStatus) \<times> db" where
  "set_worker_state t worker state d =
     commit_then
       (bind_result (update_workers (\<lambda>r. wk_id r = worker) (\<lambda>r. r\<lparr>wk_state := state, wk_updated_at := tx_now t\<rparr>) d)
         (\<lambda>(changed, d1). case changed of [] \<Rightarrow> Inl (NotFound ''worker'' worker) | row # _ \<Rightarrow> Inr (row, d1)))
       into_status d"

definition list_workers :: "db \<Rightarrow> RepositoryError + WorkerStatus list" where
  "list_workers d =
     collect_results into_status (sort_key (\<lambda>w. (wk_registered_at w, wk_id w)) (db_workers d))"

fun abi_matches_host :: "AndroidAbi \<Rightarrow> HostArch \<Rightarrow> bool" where
  "abi_matches_host AbiX86 HostX86_64 = True"
| "abi_matches_host AbiX86_64 HostX86_64 = True"
| "abi_matches_host AbiArmeabiV7a HostAarch64 = True"
| "abi_matches_host AbiArm64V8a HostAarch64 = True"
| "abi_matches_host _ _ = False"

definition worker_eligible :: "RuntimeProfile \<Rightarrow> instant \<Rightarrow> WorkerRow \<Rightarrow> bool" where
  "worker_eligible profile heartbeat_cutoff w \<longleftrightarrow> wk_state w = Online \<and> wk_active_jobs w < wk_capacity w
     \<and> heartbeat_cutoff \<le> wk_last_heartbeat_at w \<and> rp_runtime_kind profile \<in> set (wk_runtimes w)
     \<and> wk_arch w = rp_host_arch profile \<and> (\<not> needs_kvm profile \<or> wk_kvm w)"

text \<open>
  ORDER BY load ascending, active jobs ascending, heartbeat descending, identifier.  The load is the
  exact quotient, which NUMERIC division approximates; an eligible worker has a positive capacity.
\<close>

definition worker_rank :: "WorkerRow \<Rightarrow> rat \<times> int \<times> int \<times> string" where
  "worker_rank w = (of_int (wk_active_jobs w) / of_int (wk_capacity w), wk_active_jobs w,
     - wk_last_heartbeat_at w, wk_id w)"

definition find_workers_matching ::
  "RuntimeProfile \<Rightarrow> IsolationTier \<Rightarrow> instant \<Rightarrow> u32 \<Rightarrow> db \<Rightarrow> RepositoryError + WorkerStatus list" where
  "find_workers_matching profile minimum heartbeat_cutoff limit d =
     bind_result (map_err (\<lambda>_. Validation ''runtime kind BrowserNativeWasm is reserved and is not valid in Part 01 profiles'') (profile_validate profile)) (\<lambda>_.
     if \<not> satisfies (rp_isolation_tier profile) minimum then Inr []
     else if \<not> abi_matches_host (rp_abi profile) (rp_host_arch profile) then Inr []
     else bind_result (checked_limit limit) (\<lambda>limit.
       collect_results into_status (take (nat limit) (sort_key worker_rank
         (filter (worker_eligible profile heartbeat_cutoff) (db_workers d))))))"

end
