(* ===== verification/Repo_Frame.thy ===== *)
theory Repo_Frame
  imports Repo_Workers
begin

text \<open>
  What each statement and each shared sub-operation of the repository changes, and what it leaves
  alone: guarded updates, the commit, outbox insertions and appended events.  The invariant proofs
  and the properties of the operations use these facts and no longer look at the definitions below.
\<close>

section \<open>What one statement changes\<close>

lemma update_job_eq_Inr:
  "update_job p f d = Inr (res, d') \<longleftrightarrow>
     (\<forall>r \<in> set (db_jobs d). p r \<longrightarrow> jobs_violation (f r) = None)
     \<and> res = map_option f (select_one p (db_jobs d)) \<and> d' = d\<lparr>db_jobs := update_rows p f (db_jobs d)\<rparr>"
proof -
  have "(case map f (filter p rs) of [] \<Rightarrow> None | row # _ \<Rightarrow> Some row) = map_option f (select_one p rs)" for rs
    by (induction rs) auto
  then show ?thesis by (auto simp: update_job_def statement_inv)
qed

lemma update_workers_eq_Inr:
  "update_workers p f d = Inr (changed, d') \<longleftrightarrow>
     (\<forall>r \<in> set (db_workers d). p r \<longrightarrow> workers_violation (f r) = None)
     \<and> changed = map f (filter p (db_workers d)) \<and> d' = d\<lparr>db_workers := update_rows p f (db_workers d)\<rparr>"
  by (auto simp: update_workers_def statement_inv)

lemma release_worker_capacity_eq_Inr:
  "release_worker_capacity t w d = Inr d' \<longleftrightarrow>
     (\<forall>r \<in> set (db_workers d). wk_id r = w \<longrightarrow> workers_violation (release_update t r) = None)
     \<and> d' = d\<lparr>db_workers := update_rows (\<lambda>r. wk_id r = w) (release_update t) (db_workers d)\<rparr>"
  by (auto simp: release_worker_capacity_def update_workers_eq_Inr result_inv)

lemma commit_then_snd:
  "snd (commit_then body post d) = (case body of Inl _ \<Rightarrow> d | Inr (x, d') \<Rightarrow> d')"
  by (auto simp: commit_then_def split: sum.splits)

lemma commit_then_eq_Inr:
  "commit_then body post d = (Inr y, d') \<longleftrightarrow> (\<exists>x. body = Inr (x, d') \<and> post x = Inr y)"
  by (auto simp: commit_then_def split: sum.splits)

lemma commit_then_Inl [simp]: "commit_then (Inl e) post d = (Inl e, d)"
  by (simp add: commit_then_def)

lemma commit_then_Inr [simp]: "commit_then (Inr (x, d')) post d = (post x, d')"
  by (simp add: commit_then_def)

lemmas update_inv = update_job_eq_Inr update_workers_eq_Inr release_worker_capacity_eq_Inr

section \<open>The part of the database an operation keeps\<close>

text \<open>The tables the transactions on jobs, workers and the outbox leave alone.\<close>

definition same_static :: "db \<Rightarrow> db \<Rightarrow> bool" where
  "same_static d d' \<longleftrightarrow> db_projects d' = db_projects d \<and> db_uploads d' = db_uploads d
     \<and> db_runtime_profiles d' = db_runtime_profiles d \<and> db_webhooks d' = db_webhooks d
     \<and> db_api_keys d' = db_api_keys d \<and> db_debug_sessions d' = db_debug_sessions d
     \<and> db_audit_log d' = db_audit_log d \<and> db_audit_sequence d' = db_audit_sequence d"

text \<open>Only the outbox grew.\<close>

definition outbox_added :: "OutboxRow list \<Rightarrow> int \<Rightarrow> db \<Rightarrow> bool" where
  "outbox_added rows n d \<longleftrightarrow>
     distinct (map ob_event_key rows) \<and> ob_event_key ` set rows \<inter> ob_event_key ` set (db_outbox d) = {}
     \<and> db_outbox_sequence d \<le> n \<and> map ob_id rows = [db_outbox_sequence d + 1..n]
     \<and> (\<forall>r \<in> set rows. outbox_violation r = None \<and> ob_published_at r = None \<and> ob_locked_by r = None)"

definition outbox_ext :: "db \<Rightarrow> db \<Rightarrow> bool" where
  "outbox_ext d d' \<longleftrightarrow> (\<exists>rows. db_outbox d' = db_outbox d @ rows \<and> outbox_added rows (db_outbox_sequence d') d)"

definition outbox_grows :: "db \<Rightarrow> db \<Rightarrow> bool" where
  "outbox_grows d d' \<longleftrightarrow> outbox_ext d d'
     \<and> d' = d\<lparr>db_outbox := db_outbox d', db_outbox_sequence := db_outbox_sequence d'\<rparr>"

lemma outbox_ext_refl: "db_outbox d' = db_outbox d \<Longrightarrow> db_outbox_sequence d' = db_outbox_sequence d \<Longrightarrow> outbox_ext d d'"
  unfolding outbox_ext_def by (rule exI [of _ "[]"]) (simp add: outbox_added_def)

lemma outbox_ext_trans: "outbox_ext d d1 \<Longrightarrow> outbox_ext d1 d2 \<Longrightarrow> outbox_ext d d2"
proof -
  assume "outbox_ext d d1" and "outbox_ext d1 d2"
  then obtain rs ss where d1: "db_outbox d1 = db_outbox d @ rs" and 1: "outbox_added rs (db_outbox_sequence d1) d"
    and d2: "db_outbox d2 = db_outbox d1 @ ss" and 2: "outbox_added ss (db_outbox_sequence d2) d1"
    unfolding outbox_ext_def by (elim exE conjE) iprover
  let ?l = "db_outbox_sequence d" and ?n = "db_outbox_sequence d1" and ?m = "db_outbox_sequence d2"
  have n: "?l \<le> ?n" "?n \<le> ?m" using 1 2 by (simp_all add: outbox_added_def)
  then have "[?l + 1..?m] = [?l + 1..?n] @ [?n + 1..?m]"
    using upto_split2 [of "?l + 1" ?n ?m] by (cases "?l = ?n") auto
  then have "outbox_added (rs @ ss) ?m d"
    using 1 2 n unfolding outbox_added_def d1 by (auto simp: image_Un)
  then show ?thesis unfolding outbox_ext_def d2 d1 by (intro exI [of _ "rs @ ss"]) simp
qed

lemma outbox_grows_refl [simp]: "outbox_grows d d"
  by (simp add: outbox_grows_def outbox_ext_refl)

lemma outbox_grows_trans: "outbox_grows d d1 \<Longrightarrow> outbox_grows d1 d2 \<Longrightarrow> outbox_grows d d2"
proof -
  assume 1: "outbox_grows d d1" and 2: "outbox_grows d1 d2"
  have "d2 = d1\<lparr>db_outbox := db_outbox d2, db_outbox_sequence := db_outbox_sequence d2\<rparr>"
    using 2 by (simp add: outbox_grows_def)
  also have "\<dots> = d\<lparr>db_outbox := db_outbox d1, db_outbox_sequence := db_outbox_sequence d1\<rparr>
      \<lparr>db_outbox := db_outbox d2, db_outbox_sequence := db_outbox_sequence d2\<rparr>"
    using 1 by (simp add: outbox_grows_def)
  finally have "d2 = d\<lparr>db_outbox := db_outbox d2, db_outbox_sequence := db_outbox_sequence d2\<rparr>" by simp
  then show ?thesis using 1 2 outbox_ext_trans unfolding outbox_grows_def by blast
qed

lemma insert_outbox_grows:
  assumes "insert_outbox row d = Inr d'" and "ob_id row = db_outbox_sequence d + 1"
    and "ob_published_at row = None" and "ob_locked_by row = None"
  shows "outbox_grows d d'"
  unfolding outbox_grows_def outbox_ext_def using assms
  by (auto simp: insert_outbox_def statement_inv same_key_def outbox_added_def intro!: exI [of _ "[row]"])

lemma outbox_row_simps [simp]:
  "ob_id (outbox_row t k s p h d) = db_outbox_sequence d + 1" "ob_published_at (outbox_row t k s p h d) = None"
  "ob_locked_by (outbox_row t k s p h d) = None" "ob_event_key (outbox_row t k s p h d) = k"
  "ob_subject (outbox_row t k s p h d) = s" "ob_payload (outbox_row t k s p h d) = p"
  "ob_attempts (outbox_row t k s p h d) = 0"
  by (simp_all add: outbox_row_def)

lemma insert_outbox_ignore_grows:
  "insert_outbox_ignore (outbox_row t k s p h d) d = Inr (res, d') \<Longrightarrow> outbox_grows d d'"
  by (auto simp: insert_outbox_ignore_def result_inv split: option.splits if_splits intro: insert_outbox_grows)

lemma insert_webhook_rows_grows: "insert_webhook_rows t ev rows d = Inr d' \<Longrightarrow> outbox_grows d d'"
proof (induction rows arbitrary: d)
  case (Cons row rows)
  then obtain r d1 where "insert_outbox_ignore (outbox_row t (webhook_key (ev_id ev) (wh_id row))
      ''webhooks.job_state_changed'' (WebhookPayload (wh_id row) (wh_url row) ev) [] d) d = Inr (r, d1)"
    and "insert_webhook_rows t ev rows d1 = Inr d'"
    by (auto simp: statement_inv Uri_new_def validated_string_def split: if_splits)
  then show ?case using Cons.IH insert_outbox_ignore_grows outbox_grows_trans by blast
qed simp

lemma insert_webhook_event_outbox_grows:
  "insert_webhook_event_outbox t ev d = Inr d' \<Longrightarrow> outbox_grows d d'"
  by (simp add: insert_webhook_event_outbox_def insert_webhook_rows_grows)

lemma insert_job_queued_outbox_grows:
  "insert_job_queued_outbox t queued h d = Inr d' \<Longrightarrow> outbox_grows d d'"
  by (auto simp: insert_job_queued_outbox_def statement_inv intro: insert_outbox_grows)

lemma insert_job_dead_letter_outbox_grows:
  "insert_job_dead_letter_outbox t dl h d = Inr (m, d') \<Longrightarrow> outbox_grows d d'"
  by (auto simp: insert_job_dead_letter_outbox_def statement_inv
      split: option.splits dest: insert_outbox_ignore_grows)

text \<open>An appended event is one new row behind all others, and outbox messages for its recipients.\<close>

lemma append_event_effect:
  assumes "append_event t evt job event_type state changed payload d = Inr (ev, d')"
  shows "\<exists>row d1. d1 = d\<lparr>db_job_events := db_job_events d @ [row], db_event_sequence := db_event_sequence d + 1\<rparr>
    \<and> outbox_grows d1 d' \<and> lock_job job d \<noteq> None
    \<and> row = \<lparr>er_id = evt, er_sequence = db_event_sequence d + 1, er_job_id = job,
           er_timestamp = tx_now t, er_event_type = event_type, er_state = state, er_payload = payload\<rparr>
    \<and> evt \<notin> er_id ` set (db_job_events d) \<and> event_of_row row = Inr ev \<and> job_events_violation row = None"
proof -
  let ?row = "\<lparr>er_id = evt, er_sequence = db_event_sequence d + 1, er_job_id = job,
           er_timestamp = tx_now t, er_event_type = event_type, er_state = state, er_payload = payload\<rparr>"
  from assms have "job_events_violation ?row = None" "\<forall>x \<in> set (db_job_events d). er_id x \<noteq> evt"
    "event_of_row ?row = Inr ev" "lock_job job d \<noteq> None"
    "outbox_grows (d\<lparr>db_job_events := db_job_events d @ [?row], db_event_sequence := db_event_sequence d + 1\<rparr>) d'"
    by (auto simp: append_event_def statement_inv Let_def split: if_splits dest: insert_webhook_event_outbox_grows)
  then show ?thesis by auto
qed

lemma outbox_grows_frame:
  assumes "outbox_grows d d'"
  shows "db_jobs d' = db_jobs d" "db_workers d' = db_workers d" "db_projects d' = db_projects d"
    "db_job_events d' = db_job_events d" "db_event_sequence d' = db_event_sequence d"
    "db_artifacts d' = db_artifacts d" "same_static d d'" "outbox_ext d d'"
proof -
  have d': "d' = d\<lparr>db_outbox := db_outbox d', db_outbox_sequence := db_outbox_sequence d'\<rparr>"
    and "outbox_ext d d'" using assms by (simp_all add: outbox_grows_def)
  show "db_jobs d' = db_jobs d" "db_workers d' = db_workers d" "db_projects d' = db_projects d"
    "db_job_events d' = db_job_events d" "db_event_sequence d' = db_event_sequence d"
    "db_artifacts d' = db_artifacts d" "same_static d d'" "outbox_ext d d'"
    by (subst d', simp add: same_static_def)+ fact
qed

lemma append_event_frame:
  assumes "append_event t evt job event_type state changed payload d = Inr (ev, d')"
  shows "db_jobs d' = db_jobs d" "db_workers d' = db_workers d" "db_artifacts d' = db_artifacts d" "same_static d d'"
  using append_event_effect [OF assms] by (auto simp: same_static_def dest: outbox_grows_frame)

end
