(* ===== verification/Transition_System.thy ===== *)
theory Transition_System
  imports Main
begin

text \<open>
  The contract of a system that moves by steps: an invariant that holds initially and is kept by
  every step holds in every reachable state, and a relation between states that every step respects
  relates any state to all its successors.  The repository's database is the instance.
\<close>

locale step_system =
  fixes initial :: "'s \<Rightarrow> bool" and step :: "'s \<Rightarrow> 's \<Rightarrow> bool" and invariant :: "'s \<Rightarrow> bool"
  assumes initial_invariant: "initial s \<Longrightarrow> invariant s"
    and step_invariant: "invariant s \<Longrightarrow> step s s' \<Longrightarrow> invariant s'"
begin

lemma run_invariant: "step\<^sup>*\<^sup>* s s' \<Longrightarrow> invariant s \<Longrightarrow> invariant s'"
  by (induction rule: rtranclp_induct) (auto intro: step_invariant)

lemma reachable_invariant: "initial s \<Longrightarrow> step\<^sup>*\<^sup>* s s' \<Longrightarrow> invariant s'"
  using run_invariant initial_invariant by blast

end

locale monotone_system = step_system initial step invariant
  for initial :: "'s \<Rightarrow> bool" and step :: "'s \<Rightarrow> 's \<Rightarrow> bool" and invariant :: "'s \<Rightarrow> bool" +
  fixes keeps :: "'s \<Rightarrow> 's \<Rightarrow> bool"
  assumes keeps_refl: "keeps s s"
    and keeps_trans: "keeps s s' \<Longrightarrow> keeps s' s'' \<Longrightarrow> keeps s s''"
    and step_keeps: "invariant s \<Longrightarrow> step s s' \<Longrightarrow> keeps s s'"
begin

lemma run_keeps: "step\<^sup>*\<^sup>* s s' \<Longrightarrow> invariant s \<Longrightarrow> keeps s s'"
proof (induction rule: rtranclp_induct)
  case base
  show ?case by (rule keeps_refl)
next
  case (step y z)
  have "invariant y" by (rule run_invariant [OF step.hyps(1) step.prems])
  then show ?case using step keeps_trans step_keeps by blast
qed

end

end
