(* ===== verification/Repo_Invariants.thy ===== *)
theory Repo_Invariants
  imports Repo_Frame Transition_System
begin

text \<open>
  The invariant of the repository and its preservation by every transaction: identifiers and
  idempotency keys are unique, every row satisfies its constraints, a non-terminal job has a worker
  exactly when it has a lease, a terminal job has no lease, finalising states carry an outcome, and
  each worker's reservation counter is the number of jobs leased to it.
\<close>

section \<open>The invariant\<close>

definition leased_to :: "WorkerId \<Rightarrow> JobRow \<Rightarrow> bool" where
  "leased_to w r \<longleftrightarrow> jr_worker_id r = Some w \<and> jr_lease_id r \<noteq> None"

definition job_inv :: "JobRow \<Rightarrow> bool" where
  "job_inv r \<longleftrightarrow> jobs_check r
     \<and> (is_terminal (jr_state r) \<longrightarrow> jr_lease_id r = None)
     \<and> (\<not> is_terminal (jr_state r) \<longrightarrow> (jr_worker_id r = None \<longleftrightarrow> jr_lease_id r = None))
     \<and> (jr_state r \<in> {DebugAvailable, CollectingArtifacts, CleaningUp} \<longrightarrow> jr_pending_outcome r \<noteq> None)
     \<and> (jr_state r = CleaningUp \<longrightarrow> jr_artifacts_finalized r)
     \<and> (jr_state r = Queued \<longrightarrow> jr_pending_outcome r = None \<and> \<not> jr_artifacts_finalized r)"

definition job_key :: "JobRow \<Rightarrow> string \<times> string" where
  "job_key r = (jr_project_id r, jr_idempotency_key r)"

definition core_inv :: "JobRow list \<Rightarrow> WorkerRow list \<Rightarrow> bool" where
  "core_inv jobs workers \<longleftrightarrow> distinct (map jr_id jobs) \<and> distinct (map job_key jobs) \<and> distinct (map wk_id workers)
     \<and> (\<forall>r \<in> set jobs. job_inv r)
     \<and> (\<forall>r \<in> set jobs. \<forall>w. jr_worker_id r = Some w \<longrightarrow> w \<in> wk_id ` set workers)
     \<and> (\<forall>w \<in> set workers. workers_check w \<and> wk_active_jobs w = int (count_rows (leased_to (wk_id w)) jobs))"

lemma core_invD:
  assumes "core_inv jobs workers"
  shows "distinct (map jr_id jobs)" "distinct (map job_key jobs)" "distinct (map wk_id workers)"
    "r \<in> set jobs \<Longrightarrow> job_inv r" "w \<in> set workers \<Longrightarrow> workers_check w"
    "w \<in> set workers \<Longrightarrow> wk_active_jobs w = int (count_rows (leased_to (wk_id w)) jobs)"
    "r \<in> set jobs \<Longrightarrow> jr_worker_id r = Some v \<Longrightarrow> v \<in> wk_id ` set workers"
  using assms by (auto simp: core_inv_def)

lemma distinct_update_rows:
  "(\<And>r. k (f r) = k r) \<Longrightarrow> distinct (map k (update_rows p f rs)) = distinct (map k rs)"
  by (simp add: map_update_rows)

text \<open>
  One job row changes; every worker's counter moves by what that row contributes to it before and
  after.  All transactions that touch jobs or workers are instances.
\<close>

lemma core_inv_move:
  assumes inv: "core_inv jobs workers" and r: "r \<in> set jobs" "p r"
    and by_id: "\<And>x. x \<in> set jobs \<Longrightarrow> p x \<Longrightarrow> jr_id x = jr_id r"
    and keeps: "\<And>x. jr_id (f x) = jr_id x" "\<And>x. job_key (f x) = job_key x"
    and job: "job_inv (f r)"
    and fk: "\<And>v. jr_worker_id (f r) = Some v \<Longrightarrow> v \<in> wk_id ` set workers"
    and g: "\<And>x. wk_id (g x) = wk_id x"
    and check: "\<And>w. w \<in> set workers \<Longrightarrow> q w \<Longrightarrow> workers_check (g w)"
    and counter: "\<And>w. w \<in> set workers \<Longrightarrow>
       wk_active_jobs (if q w then g w else w) + (if leased_to (wk_id w) r then 1 else 0)
         = wk_active_jobs w + (if leased_to (wk_id w) (f r) then 1 else 0)"
  shows "core_inv (update_rows p f jobs) (update_rows q g workers)"
proof -
  note dj = core_invD(1) [OF inv]
  have only: "x = r" if "x \<in> set jobs" "p x" for x
    using distinct_key_eq [OF dj that(1) r(1)] by_id [OF that] by simp
  have jobs: "job_inv x" if "x \<in> set (update_rows p f jobs)" for x
    using that
  proof (cases rule: in_update_rowsE)
    case same
    then show ?thesis using core_invD(4) [OF inv] by simp
  next
    case (changed y)
    then show ?thesis using only job by auto
  qed
  have ids: "wk_id ` set (update_rows q g workers) = wk_id ` set workers"
    using arg_cong [OF map_update_rows [of wk_id g q workers, OF g], of set] by simp
  have fk': "v \<in> wk_id ` set (update_rows q g workers)"
    if "x \<in> set (update_rows p f jobs)" "jr_worker_id x = Some v" for x v
    unfolding ids using that by (cases rule: in_update_rowsE) (use core_invD(7) [OF inv] only fk in auto)
  have cnt: "int (count_rows (leased_to v) (update_rows p f jobs)) + (if leased_to v r then 1 else 0)
      = int (count_rows (leased_to v) jobs) + (if leased_to v (f r) then 1 else 0)" for v
    using count_rows_update_key [where p = p and k = jr_id, OF dj r by_id, of "leased_to v" f] by (auto split: if_splits)
  have workers: "workers_check x \<and> wk_active_jobs x = int (count_rows (leased_to (wk_id x)) (update_rows p f jobs))"
    if "x \<in> set (update_rows q g workers)" for x
  proof -
    from that obtain w where w: "w \<in> set workers" "x = (if q w then g w else w)"
      by (auto simp: set_update_rows)
    have "wk_id x = wk_id w" using w(2) g by simp
    moreover have "workers_check x" using w check core_invD(5) [OF inv w(1)] by auto
    ultimately show ?thesis
      using counter [OF w(1)] cnt [of "wk_id w"] core_invD(6) [OF inv w(1)] w(2) by (auto split: if_splits)
  qed
  show ?thesis
    unfolding core_inv_def using jobs workers fk' core_invD(1-3) [OF inv]
    by (simp add: distinct_update_rows keeps g)
qed

lemma core_inv_job:
  assumes inv: "core_inv jobs workers"
    and "\<And>x. jr_id (f x) = jr_id x" "\<And>x. job_key (f x) = job_key x"
    and job: "\<And>r. r \<in> set jobs \<Longrightarrow> p r \<Longrightarrow> job_inv (f r)
      \<and> jr_worker_id (f r) = jr_worker_id r \<and> (\<forall>v. leased_to v (f r) = leased_to v r)"
  shows "core_inv (update_rows p f jobs) workers"
proof -
  have "job_inv x" if "x \<in> set (update_rows p f jobs)" for x
    using that by (cases rule: in_update_rowsE) (use core_invD(4) [OF inv] job in auto)
  moreover have "count_rows (leased_to v) (update_rows p f jobs) = count_rows (leased_to v) jobs" for v
    by (rule count_rows_update_frame) (use job in auto)
  moreover have "v \<in> wk_id ` set workers" if "x \<in> set (update_rows p f jobs)" "jr_worker_id x = Some v" for x v
    using that by (cases rule: in_update_rowsE) (use core_invD(7) [OF inv] job in auto)
  ultimately show ?thesis
    unfolding core_inv_def using core_invD(1-3,5,6) [OF inv] assms(2,3) by (simp add: distinct_update_rows)
qed

lemma core_inv_workers:
  assumes inv: "core_inv jobs workers" and "\<And>x. wk_id (g x) = wk_id x"
    and "\<And>w. w \<in> set workers \<Longrightarrow> q w \<Longrightarrow> workers_check (g w)"
    and "\<And>w. wk_active_jobs (g w) = wk_active_jobs w"
  shows "core_inv jobs (update_rows q g workers)"
proof -
  have "workers_check x \<and> wk_active_jobs x = int (count_rows (leased_to (wk_id x)) jobs)"
    if "x \<in> set (update_rows q g workers)" for x
    using that
  proof (cases rule: in_update_rowsE)
    case same
    then show ?thesis using core_invD(5,6) [OF inv] by simp
  next
    case (changed w)
    then show ?thesis using core_invD(6) [OF inv changed(1)] assms(2-4) by simp
  qed
  moreover have "wk_id ` set (update_rows q g workers) = wk_id ` set workers"
    using arg_cong [OF map_update_rows [of wk_id g q workers, OF assms(2)], of set] by simp
  ultimately show ?thesis
    unfolding core_inv_def using core_invD(1-4,7) [OF inv] by (simp add: distinct_update_rows assms(2))
qed

definition repo_inv :: "db \<Rightarrow> bool" where
  "repo_inv d \<longleftrightarrow> core_inv (db_jobs d) (db_workers d)"

section \<open>Preservation, one transaction at a time\<close>

lemma lock_job_SomeD: "lock_job job d = Some r \<Longrightarrow> r \<in> set (db_jobs d) \<and> jr_id r = job"
  unfolding lock_job_def by (drule select_one_SomeD) simp

lemma lock_worker_SomeD: "lock_worker w d = Some r \<Longrightarrow> r \<in> set (db_workers d) \<and> wk_id r = w"
  unfolding lock_worker_def by (drule select_one_SomeD) simp

lemma repo_inv_cong: "db_jobs d' = db_jobs d \<Longrightarrow> db_workers d' = db_workers d \<Longrightarrow> repo_inv d' = repo_inv d"
  by (simp add: repo_inv_def)

lemma append_event_inv:
  "append_event t evt job ty st ch pl d = Inr (ev, d') \<Longrightarrow> repo_inv d' = repo_inv d"
  by (rule repo_inv_cong; rule append_event_frame)

text \<open>Shape of the row updates: the identity columns stay.\<close>

lemma update_shapes [simp]:
  "jr_id (cancel_update r) = jr_id r" "job_key (cancel_update r) = job_key r"
  "jr_id (claim_update w l e c r) = jr_id r" "job_key (claim_update w l e c r) = job_key r"
  "jr_id (transition_update t to ev r) = jr_id r" "job_key (transition_update t to ev r) = job_key r"
  "jr_id (result_update res r) = jr_id r" "job_key (result_update res r) = job_key r"
  "jr_id (extension_update n s r) = jr_id r" "job_key (extension_update n s r) = job_key r"
  "wk_id (reserve_update t w') = wk_id w'" "wk_id (release_update t w') = wk_id w'"
  "wk_id (heartbeat_update n hb w') = wk_id w'" "wk_id (reregister_update t reg w') = wk_id w'"
  by (simp_all add: cancel_update_def claim_update_def transition_update_def result_update_def
      extension_update_def reserve_update_def release_update_def heartbeat_update_def
      reregister_update_def job_key_def Let_def)

lemma recovery_update_shapes [simp]:
  "jr_id (recovery_update k r) = jr_id r" "job_key (recovery_update k r) = job_key r"
  "jr_worker_id (recovery_update k r) = None" "jr_lease_id (recovery_update k r) = None"
  by (cases k; simp add: finalize_update_def release_lease_def job_key_def)+

lemma new_job_row_simps [simp]:
  "jr_id (new_job_row t i q k n) = i" "jr_state (new_job_row t i q k n) = Queued"
  "jr_project_id (new_job_row t i q k n) = cr_project_id q" "jr_idempotency_key (new_job_row t i q k n) = k"
  "jr_lease_id (new_job_row t i q k n) = None" "jr_worker_id (new_job_row t i q k n) = None"
  "jr_pending_outcome (new_job_row t i q k n) = None" "\<not> jr_artifacts_finalized (new_job_row t i q k n)"
  by (simp_all add: new_job_row_def)

text \<open>What a committed transaction read and wrote, in the order of the code.\<close>

lemma create_body_newE:
  assumes "create_body t new_job evt request key headers d = Inr ((row, created, event), d')"
    and "job_by_key (cr_project_id request) key d = None"
  obtains timeout d1 ev d2 profile queued where
    "row = new_job_row t new_job request key timeout" "created" "event = Some ev"
    "jobs_violation row = None" "\<forall>r \<in> set (db_jobs d). new_job \<noteq> jr_id r"
    "check_outstanding_quota (cr_project_id request) d = Inr ()"
    "validate_create_request request d = Inr profile"
    "d1 = d\<lparr>db_jobs := db_jobs d @ [row]\<rparr>"
    "append_event t evt new_job ''job.queued'' (Some Queued) True [] d1 = Inr (ev, d2)"
    "queued = \<lparr>jq_job_id = new_job, jq_project_id = cr_project_id request,
        jq_runtime_profile_id = rp_id profile, jq_min_isolation = cr_min_isolation request,
        jq_timeout_seconds = cr_timeout_seconds request\<rparr>"
    "insert_job_queued_outbox t queued headers d2 = Inr d'" "timeout = uint (cr_timeout_seconds request)"
  using assms
  by (auto simp: create_body_def insert_job_ignore_def statement_inv checked_i64_eq_Inr split: option.splits if_splits)

definition cancel_where :: "JobId \<Rightarrow> JobState \<Rightarrow> JobRow \<Rightarrow> bool" where
  "cancel_where job st r \<longleftrightarrow> jr_id r = job \<and> jr_state r = st \<and> jr_pending_outcome r = None"

lemma cancel_bodyE:
  assumes "cancel_body t evt job d = Inr ((row, changed, event), d')"
  obtains (replay) "lock_job job d = Some row" "\<not> is_terminal (jr_state row)"
      "jr_pending_outcome row = Some JobOutcome.Cancelled" "\<not> changed" "event = None" "d' = d"
  | (change) current d1 ev where "lock_job job d = Some current" "\<not> is_terminal (jr_state current)"
      "jr_pending_outcome current = None" "changed" "event = Some ev"
      "\<forall>r \<in> set (db_jobs d). cancel_where job (jr_state current) r \<longrightarrow> jobs_violation (cancel_update r) = None"
      "map_option cancel_update (select_one (cancel_where job (jr_state current)) (db_jobs d)) = Some row"
      "d1 = d\<lparr>db_jobs := update_rows (cancel_where job (jr_state current)) cancel_update (db_jobs d)\<rparr>"
      "append_event t evt job ''job.cancellation_requested'' (Some CollectingArtifacts)
         (jr_state current \<noteq> CollectingArtifacts) [(''previous_state'', EvState (jr_state current))] d1 = Inr (ev, d')"
proof -
  from assms obtain cur where cur: "lock_job job d = Some cur" "\<not> is_terminal (jr_state cur)"
    by (auto simp: cancel_body_def statement_inv)
  show ?thesis
  proof (cases "jr_pending_outcome cur")
    case (Some p)
    with assms cur replay show ?thesis by (auto simp: cancel_body_def statement_inv split: if_splits)
  next
    case None
    with assms cur show ?thesis
      by (auto simp: cancel_body_def statement_inv update_job_eq_Inr cancel_where_def [symmetric] intro: change [of cur])
  qed
qed

lemma claim_bodyE:
  assumes "claim_body cs t evt job worker lease expires stale d = Inr ((claimed, profile), d')"
  obtains row w p q d1 d2 ev pl where
    "lock_job job d = Some row" "jr_state row = Queued" "jr_worker_id row = None" "jr_lease_id row = None"
    "check_concurrent_quota (jr_project_id row) d = Inr ()"
    "lock_worker worker d = Some w" "load_profile (jr_runtime_profile_id row) d = Inr (Some profile)"
    "tx_clock t < expires"
    "validate_worker_match cs w profile (jr_min_isolation row) (tx_clock t) stale = Inr ()"
    "q = (\<lambda>r. wk_id r = worker \<and> wk_state r = Online \<and> wk_active_jobs r < wk_capacity r)"
    "p = (\<lambda>r. jr_id r = job \<and> jr_state r = Queued \<and> jr_worker_id r = None \<and> jr_lease_id r = None)"
    "\<forall>r \<in> set (db_workers d). q r \<longrightarrow> workers_violation (reserve_update t r) = None"
    "length (filter q (db_workers d)) = 1"
    "d1 = d\<lparr>db_workers := update_rows q (reserve_update t) (db_workers d)\<rparr>"
    "\<forall>r \<in> set (db_jobs d). p r \<longrightarrow> jobs_violation (claim_update worker lease expires (tx_clock t) r) = None"
    "map_option (claim_update worker lease expires (tx_clock t)) (select_one p (db_jobs d)) = Some claimed"
    "d2 = d1\<lparr>db_jobs := update_rows p (claim_update worker lease expires (tx_clock t)) (db_jobs d)\<rparr>"
    "append_event t evt job ''job.claimed'' (Some Claimed) True pl d2 = Inr (ev, d')"
  using assms by (auto simp: claim_body_def statement_inv update_job_eq_Inr update_workers_eq_Inr)

lemma transition_bodyE:
  assumes "transition_body t evt job from to evi lease pl d = Inr (row, d')"
  obtains p d1 r0 d2 ev where
    "lifecycle_edge from to evi" "p = transition_where t job from (pending_outcome evi) lease"
    "\<forall>r \<in> set (db_jobs d). p r \<longrightarrow> jobs_violation (transition_update t to evi r) = None"
    "d1 = d\<lparr>db_jobs := update_rows p (transition_update t to evi) (db_jobs d)\<rparr>"
    "select_one p (db_jobs d) = Some r0" "row = transition_update t to evi r0"
    "(if is_terminal to then (case jr_worker_id (transition_update t to evi r0) of Some w \<Rightarrow> release_worker_capacity t w d1
        | None \<Rightarrow> Inr d1) else Inr d1) = Inr d2"
    "append_event t evt job (''job.'' @ encode_state to) (Some to) (from \<noteq> to) pl d2 = Inr (ev, d')"
  using assms
  by (auto simp: transition_body_def statement_inv update_job_eq_Inr validate_transition_ok_iff)

lemma result_bodyE:
  assumes "result_body t evt res d = Inr (row, d')"
  obtains current d1 ev st pl where
    "lock_job (res_job_id res) d = Some current" "jr_worker_id current = Some (res_worker_id res)"
    "jr_lease_id current = Some (res_lease_id res)" "\<not> is_terminal (jr_state current)"
    "\<forall>r \<in> set (db_jobs d). result_where t res r \<longrightarrow> jobs_violation (result_update res r) = None"
    "d1 = d\<lparr>db_jobs := update_rows (result_where t res) (result_update res) (db_jobs d)\<rparr>"
    "map_option (result_update res) (select_one (result_where t res) (db_jobs d)) = Some row"
    "append_event t evt (res_job_id res) ''job.result_recorded'' st False pl d1 = Inr (ev, d')"
  using assms by (auto simp: result_body_def statement_inv update_job_eq_Inr)

lemma create_body_inv:
  assumes "create_body t new_job evt request key headers d = Inr (x, d')" and inv: "repo_inv d"
  shows "repo_inv d'"
proof (cases "job_by_key (cr_project_id request) key d")
  case (Some row)
  then show ?thesis using assms by (auto simp: create_body_def statement_inv)
next
  case None
  obtain row created event where x: "x = (row, created, event)" by (cases x)
  from assms(1) [unfolded x] None show ?thesis
  proof (cases rule: create_body_newE)
    case (1 timeout d1 ev d2 profile queued)
    have ji: "job_inv row" using jobs_violation_None [OF 1(4)] by (simp add: job_inv_def 1(1))
    have nl: "\<not> leased_to w row" for w by (simp add: leased_to_def 1(1))
    have "job_key row \<notin> job_key ` set (db_jobs d)"
      using None by (force simp: job_by_key_def select_one_None_iff job_key_def 1(1))
    then have "repo_inv d1"
      using inv ji nl 1(5) unfolding repo_inv_def core_inv_def 1(8) by (auto simp: 1(1))
    then have "repo_inv d2" using append_event_inv [OF 1(9)] by simp
    then show ?thesis
      using outbox_grows_frame(1,2) [OF insert_job_queued_outbox_grows [OF 1(11)]] by (simp add: repo_inv_def)
  qed
qed

lemma cancel_body_inv:
  assumes "cancel_body t evt job d = Inr (x, d')" and inv: "repo_inv d"
  shows "repo_inv d'"
proof -
  have core: "core_inv (db_jobs d) (db_workers d)" using inv by (simp add: repo_inv_def)
  obtain row changed event where x: "x = (row, changed, event)" by (cases x)
  from assms(1) [unfolded x] show ?thesis
  proof (cases rule: cancel_bodyE)
    case replay
    then show ?thesis using inv by simp
  next
    case (change current d1 ev)
    have "job_inv (cancel_update r) \<and> jr_worker_id (cancel_update r) = jr_worker_id r
        \<and> (\<forall>v. leased_to v (cancel_update r) = leased_to v r)"
      if r: "r \<in> set (db_jobs d)" "cancel_where job (jr_state current) r" for r
      using change(2,6) r jobs_violation_None core_invD(4) [OF core r(1)]
      by (auto simp: job_inv_def cancel_update_def leased_to_def cancel_where_def)
    then have "repo_inv d1" unfolding repo_inv_def change(8) using core by (auto intro!: core_inv_job)
    then show ?thesis using append_event_inv [OF change(9)] by simp
  qed
qed

lemma claim_body_inv:
  assumes "claim_body cs t evt job worker lease expires stale d = Inr (x, d')" and inv: "repo_inv d"
  shows "repo_inv d'"
proof -
  have core: "core_inv (db_jobs d) (db_workers d)" using inv by (simp add: repo_inv_def)
  obtain claimed profile where x: "x = (claimed, profile)" by (cases x)
  let ?f = "claim_update worker lease expires (tx_clock t)"
  from assms(1) [unfolded x] show ?thesis
  proof (cases rule: claim_bodyE)
    case (1 row w p q d1 d2 ev pl)
    note c = lock_job_SomeD [OF 1(1)]
    have ji: "job_inv (?f row)"
      using 1(2-4,11,15) c jobs_violation_None core_invD(4) [OF core] by (auto simp: job_inv_def claim_update_def)
    have "filter q (db_workers d) \<noteq> []" using 1(13) by auto
    then obtain u where u: "u \<in> set (db_workers d)" "q u" by (auto simp: filter_empty_conv)
    have qv: "q v \<longleftrightarrow> wk_id v = worker" if v: "v \<in> set (db_workers d)" for v
      using distinct_key_eq [OF core_invD(3) [OF core] v u(1)] u(2) 1(10) by auto
    have "core_inv (update_rows p ?f (db_jobs d)) (update_rows q (reserve_update t) (db_workers d))"
    proof (rule core_inv_move [where r = row, OF core])
      show "v \<in> wk_id ` set (db_workers d)" if "jr_worker_id (?f row) = Some v" for v
        using that u 1(10) by (auto simp: claim_update_def)
      show "workers_check (reserve_update t v)" if "v \<in> set (db_workers d)" "q v" for v
        using that 1(12) workers_violation_None by blast
      show "wk_active_jobs (if q v then reserve_update t v else v) + (if leased_to (wk_id v) row then 1 else 0)
           = wk_active_jobs v + (if leased_to (wk_id v) (?f row) then 1 else 0)" if v: "v \<in> set (db_workers d)" for v
        using qv [OF v] 1(4) by (auto simp: leased_to_def claim_update_def reserve_update_def)
    qed (use c ji 1(2-4,11) in auto)
    then have "repo_inv d2" unfolding repo_inv_def 1(14,17) by simp
    then show ?thesis using append_event_inv [OF 1(18)] by simp
  qed
qed

lemma edge_row_inv:
  assumes edge: "lifecycle_edge from to ev" and r: "job_inv r" "jr_state r = from"
    and check: "jobs_check (transition_update t to ev r)"
  shows "job_inv (transition_update t to ev r)"
proof -
  have nt: "\<not> is_terminal (jr_state r)" using lifecycle_not_from_terminal [OF edge] r(2) by simp
  have nq: "to \<noteq> Queued" using edge by (cases rule: lifecycle_edge.cases) auto
  have tm: "is_terminal to \<Longrightarrow> terminal_outcome to \<noteq> None" "\<not> is_terminal to \<Longrightarrow> terminal_outcome to = None"
    using terminal_outcome_iff [of to] by auto
  have pend: "jr_pending_outcome (transition_update t to ev r) \<noteq> None"
    if "to \<in> {DebugAvailable, CollectingArtifacts, CleaningUp}"
    using edge that r by (cases rule: lifecycle_edge.cases)
      (auto simp: transition_update_def Let_def job_inv_def split: option.splits)
  have fin: "jr_artifacts_finalized (transition_update t to ev r)" if "to = CleaningUp"
    using edge that by (cases rule: lifecycle_edge.cases) (auto simp: transition_update_def Let_def)
  have shape: "jr_state (transition_update t to ev r) = to" "jr_worker_id (transition_update t to ev r) = jr_worker_id r"
    "jr_lease_id (transition_update t to ev r) = (if is_terminal to then None else jr_lease_id r)"
    using tm by (auto simp: transition_update_def Let_def)
  have "jr_worker_id r = None \<longleftrightarrow> jr_lease_id r = None" using r nt by (auto simp: job_inv_def)
  then show ?thesis unfolding job_inv_def [of "transition_update t to ev r"] shape using check pend fin nq by auto
qed

lemma transition_lease:
  "jr_lease_id (transition_update t to ev r) = (if is_terminal to then None else jr_lease_id r)"
  "jr_worker_id (transition_update t to ev r) = jr_worker_id r" "jr_state (transition_update t to ev r) = to"
  using terminal_outcome_iff [of to] by (auto simp: transition_update_def Let_def)

text \<open>Releasing the reservation of a row that was leased and no longer is.\<close>

lemma core_inv_release:
  assumes inv: "core_inv jobs workers" and r: "r \<in> set jobs" "p r" "leased_to w r"
    and by_id: "\<And>x. x \<in> set jobs \<Longrightarrow> p x \<Longrightarrow> jr_id x = jr_id r"
    and keeps: "\<And>x. jr_id (f x) = jr_id x" "\<And>x. job_key (f x) = job_key x"
    and job: "job_inv (f r)" and gone: "\<And>v. \<not> leased_to v (f r)"
    and fk: "jr_worker_id (f r) = None \<or> jr_worker_id (f r) = jr_worker_id r"
    and check: "\<forall>x \<in> set workers. wk_id x = w \<longrightarrow> workers_violation (release_update t x) = None"
  shows "core_inv (update_rows p f jobs) (update_rows (\<lambda>x. wk_id x = w) (release_update t) workers)"
proof (rule core_inv_move [where p = p and f = f, OF inv r(1,2)])
  show "workers_check (release_update t x)" if "x \<in> set workers" "wk_id x = w" for x
    using that check workers_violation_None by blast
  fix x assume x: "x \<in> set workers"
  have "1 \<le> wk_active_jobs x" if "wk_id x = w"
  proof -
    have "count_rows (leased_to w) jobs \<noteq> 0" using r by (auto simp: count_rows_def filter_empty_conv)
    then show ?thesis using core_invD(6) [OF inv x] that by simp
  qed
  moreover have "leased_to (wk_id x) r \<longleftrightarrow> wk_id x = w" using r(3) by (auto simp: leased_to_def)
  ultimately show "wk_active_jobs (if wk_id x = w then release_update t x else x) + (if leased_to (wk_id x) r then 1 else 0)
      = wk_active_jobs x + (if leased_to (wk_id x) (f r) then 1 else 0)"
    using gone by (auto simp: release_update_def)
qed (use by_id keeps job fk core_invD(7) [OF inv r(1)] in auto)

lemma transition_body_inv:
  assumes "transition_body t evt job from to evi lease pl d = Inr (x, d')" and inv: "repo_inv d"
  shows "repo_inv d'"
proof -
  have core: "core_inv (db_jobs d) (db_workers d)" using inv by (simp add: repo_inv_def)
  let ?f = "transition_update t to evi"
  from assms(1) show ?thesis
  proof (cases rule: transition_bodyE)
    case (1 p d1 r0 d2 ev)
    have r0: "r0 \<in> set (db_jobs d)" "p r0" "jr_id r0 = job" "jr_state r0 = from"
      using select_one_SomeD [OF 1(5)] by (auto simp: 1(2) transition_where_def)
    have p_id: "jr_id r = job" if "p r" for r using that by (simp add: 1(2) transition_where_def)
    have ji: "job_inv (?f r)" if "r \<in> set (db_jobs d)" "p r" for r
      by (rule edge_row_inv [OF 1(1)])
        (use that 1(2,3) jobs_violation_None core_invD(4) [OF core] in \<open>auto simp: transition_where_def\<close>)
    have "repo_inv d2"
    proof (cases "is_terminal to \<and> jr_worker_id r0 \<noteq> None")
      case True
      then obtain w where w: "jr_worker_id r0 = Some w" by auto
      have "leased_to w r0"
        using core_invD(4) [OF core r0(1)] w lifecycle_not_from_terminal [OF 1(1)] r0(4)
        by (auto simp: job_inv_def leased_to_def)
      moreover have "\<not> leased_to v (?f r0)" for v using True by (simp add: leased_to_def transition_lease)
      moreover have "d2 = d1\<lparr>db_workers := update_rows (\<lambda>r. wk_id r = w) (release_update t) (db_workers d)\<rparr>"
        "\<forall>r \<in> set (db_workers d). wk_id r = w \<longrightarrow> workers_violation (release_update t r) = None"
        using 1(7) True w by (auto simp: release_worker_capacity_eq_Inr 1(4) transition_lease)
      ultimately show ?thesis
        unfolding repo_inv_def 1(4) using r0 ji core p_id
        by (auto intro!: core_inv_release [of _ _ r0] simp: transition_lease)
    next
      case False
      have "leased_to v (?f r) = leased_to v r" if "r \<in> set (db_jobs d)" "p r" for v r
      proof -
        have "r = r0" using distinct_key_eq [OF core_invD(1) [OF core] that(1) r0(1)] p_id [OF that(2)] r0(3) by simp
        then show ?thesis using False by (auto simp: leased_to_def transition_lease)
      qed
      moreover have "d2 = d1" using 1(7) False by (auto simp: transition_lease split: if_splits option.splits)
      ultimately show ?thesis
        unfolding repo_inv_def 1(4) using ji core by (auto intro!: core_inv_job simp: transition_lease)
    qed
    then show ?thesis using append_event_inv [OF 1(8)] by simp
  qed
qed

lemma leased_not_queued: "job_inv r \<Longrightarrow> jr_worker_id r \<noteq> None \<Longrightarrow> jr_state r \<noteq> Queued"
  by (auto simp: job_inv_def jobs_check_def)

lemma result_body_inv:
  assumes "result_body t evt res d = Inr (x, d')" and inv: "repo_inv d"
  shows "repo_inv d'"
proof -
  have core: "core_inv (db_jobs d) (db_workers d)" using inv by (simp add: repo_inv_def)
  let ?f = "result_update res"
  from assms(1) show ?thesis
  proof (cases rule: result_bodyE)
    case (1 current d1 ev st pl)
    have "job_inv (?f r) \<and> jr_worker_id (?f r) = jr_worker_id r \<and> (\<forall>v. leased_to v (?f r) = leased_to v r)"
      if r: "r \<in> set (db_jobs d)" "result_where t res r" for r
      using r 1(5) jobs_violation_None core_invD(4) [OF core r(1)] leased_not_queued [of r]
      by (auto simp: job_inv_def result_update_def leased_to_def result_where_def)
    then have "repo_inv d1" unfolding repo_inv_def 1(6) using core by (auto intro!: core_inv_job)
    then show ?thesis using append_event_inv [OF 1(8)] by simp
  qed
qed

text \<open>A recovery that is not a lost race: what was read, what was written, in the order of the code.\<close>

lemma recover_body_SomeE:
  assumes "recover_body t evt stale max_deliver d = Inr (Some (kind, row), d')"
  obtains current d1 d2 d3 ev pl worker where
    "lock_job (st_job_id stale) d = Some current" "snapshot_matches stale current = Inr True"
    "jr_state current \<noteq> Queued" "\<not> is_terminal (jr_state current)"
    "lock_worker (st_worker_id stale) d = Some worker"
    "st_lease_expires_at stale \<le> st_lease_expired_before stale
       \<or> wk_last_heartbeat_at worker \<le> st_worker_heartbeat_before stale"
    "kind = recovery_kind stale max_deliver current"
    "\<forall>r \<in> set (db_jobs d). recovery_where stale r \<longrightarrow> jobs_violation (recovery_update kind r) = None"
    "d1 = d\<lparr>db_jobs := update_rows (recovery_where stale) (recovery_update kind) (db_jobs d)\<rparr>"
    "map_option (recovery_update kind) (select_one (recovery_where stale) (db_jobs d)) = Some row"
    "release_worker_capacity t (st_worker_id stale) d1 = Inr d2"
    "append_event t evt (st_job_id stale) (recovery_event kind) (Some (recovery_state kind stale))
       (recovery_state kind stale \<noteq> st_state stale) pl d2 = Inr (ev, d3)"
    "(if kind = RkExhausted then enqueue_exhausted t stale current d3 else Inr d3) = Inr d'"
    "max_deliver \<noteq> 0"
  using assms
  by (auto simp: recover_body_def statement_inv update_job_eq_Inr Let_def split: option.splits if_splits)

lemma recover_body_None: "recover_body t evt stale max_deliver d = Inr (None, d') \<Longrightarrow> d' = d"
  by (auto simp: recover_body_def statement_inv update_job_eq_Inr Let_def split: option.splits if_splits)

lemma enqueue_exhausted_grows: "enqueue_exhausted t stale current d = Inr d' \<Longrightarrow> outbox_grows d d'"
  by (auto simp: enqueue_exhausted_def statement_inv dest: insert_job_dead_letter_outbox_grows)

lemma recovery_row_inv:
  assumes "job_inv r" and "\<not> is_terminal (jr_state r)" and "jobs_check (recovery_update kind r)"
  shows "job_inv (recovery_update kind r)"
  using assms by (cases kind) (auto simp: job_inv_def finalize_update_def release_lease_def)

lemma recover_body_inv:
  assumes "recover_body t evt stale max_deliver d = Inr (x, d')" and inv: "repo_inv d"
  shows "repo_inv d'"
proof (cases x)
  case None
  then show ?thesis using assms(2) recover_body_None [OF assms(1) [unfolded None]] by simp
next
  case (Some kr)
  obtain kind row where kr: "kr = (kind, row)" by (cases kr)
  have core: "core_inv (db_jobs d) (db_workers d)" using inv by (simp add: repo_inv_def)
  from assms(1) [unfolded Some kr] show ?thesis
  proof (cases rule: recover_body_SomeE)
    case (1 current d1 d2 d3 ev pl worker)
    obtain r where r: "select_one (recovery_where stale) (db_jobs d) = Some r" using 1(10) by auto
    have r': "r \<in> set (db_jobs d)" "recovery_where stale r" using select_one_SomeD [OF r] by auto
    have "r = current"
      using distinct_key_eq [OF core_invD(1) [OF core] r'(1)] lock_job_SomeD [OF 1(1)] r'(2)
      by (simp add: recovery_where_def)
    have ji: "job_inv (recovery_update kind r)"
      by (rule recovery_row_inv)
        (use core_invD(4) [OF core] r' 1 \<open>r = current\<close> jobs_violation_None in auto)
    have "repo_inv d2"
      using 1(11) unfolding release_worker_capacity_eq_Inr repo_inv_def 1(9)
      using r' ji core by (auto intro!: core_inv_release [of _ _ r] simp: recovery_where_def leased_to_def)
    then have "repo_inv d3" using append_event_inv [OF 1(12)] by simp
    moreover have "outbox_grows d3 d'" using 1(13) by (auto split: if_splits dest: enqueue_exhausted_grows)
    ultimately show ?thesis using outbox_grows_frame(1,2) [of d3 d'] by (simp add: repo_inv_def)
  qed
qed

lemma extend_leases_inv:
  assumes "extend_leases now secs w exts rc d = Inr (rc', d')" and "repo_inv d"
  shows "repo_inv d'"
  using assms
proof (induction exts arbitrary: rc d)
  case (Cons ext exts)
  let ?p = "extension_where now w ext" and ?f = "extension_update now secs"
  from Cons.prems(1) obtain rc1 where
    ok: "\<forall>r \<in> set (db_jobs d). ?p r \<longrightarrow> jobs_violation (?f r) = None"
    and rest: "extend_leases now secs w exts rc1 (d\<lparr>db_jobs := update_rows ?p ?f (db_jobs d)\<rparr>) = Inr (rc', d')"
    by (auto simp: statement_inv)
  have core: "core_inv (db_jobs d) (db_workers d)" using Cons.prems(2) by (simp add: repo_inv_def)
  have "job_inv (?f r) \<and> jr_worker_id (?f r) = jr_worker_id r \<and> (\<forall>v. leased_to v (?f r) = leased_to v r)" if "r \<in> set (db_jobs d)" "?p r" for r
    using that ok jobs_violation_None core_invD(4) [OF core that(1)]
    by (auto simp: job_inv_def extension_update_def leased_to_def)
  then have "repo_inv (d\<lparr>db_jobs := update_rows ?p ?f (db_jobs d)\<rparr>)"
    unfolding repo_inv_def using core by (auto intro!: core_inv_job)
  then show ?case by (rule Cons.IH [OF rest])
qed simp

lemma heartbeat_body_inv:
  assumes "heartbeat_body t hb ttl d = Inr (x, d')" and inv: "repo_inv d"
  shows "repo_inv d'"
proof -
  let ?q = "\<lambda>r. wk_id r = hb_worker_id hb" and ?g = "heartbeat_update (tx_clock t) hb"
  from assms(1) obtain rc where
    ok: "\<forall>r \<in> set (db_workers d). ?q r \<longrightarrow> workers_violation (?g r) = None"
    and e: "extend_leases (tx_clock t) (num_seconds ttl) (hb_worker_id hb) (hb_lease_extends hb) rc
         (d\<lparr>db_workers := update_rows ?q ?g (db_workers d)\<rparr>) = Inr (x, d')"
    by (auto simp: heartbeat_body_def statement_inv update_workers_eq_Inr)
  have "repo_inv (d\<lparr>db_workers := update_rows ?q ?g (db_workers d)\<rparr>)"
    using inv ok workers_violation_None unfolding repo_inv_def
    by (auto intro!: core_inv_workers simp: heartbeat_update_def)
  then show ?thesis by (rule extend_leases_inv [OF e])
qed

lemma upsert_body_inv:
  assumes "upsert_body t reg d = Inr (x, d')" and inv: "repo_inv d"
  shows "repo_inv d'"
proof (cases "lock_worker (wr_worker_id reg) d")
  case None
  then have v: "workers_violation (new_worker_row t reg) = None"
    and d': "d' = d\<lparr>db_workers := db_workers d @ [new_worker_row t reg]\<rparr>"
    using assms(1) by (auto simp: upsert_body_def statement_inv split: option.splits)
  have new: "\<forall>w \<in> set (db_workers d). wk_id w \<noteq> wr_worker_id reg"
    using None by (auto simp: lock_worker_def select_one_None_iff)
  have "count_rows (leased_to (wr_worker_id reg)) (db_jobs d) = 0"
    using core_invD(7) inv new by (intro count_rows_zero) (fastforce simp: leased_to_def repo_inv_def)
  then show ?thesis
    using inv new workers_violation_None [OF v] unfolding repo_inv_def core_inv_def d'
    by (auto simp: new_worker_row_def)
next
  case (Some w)
  let ?q = "\<lambda>r. wk_id r = wr_worker_id reg \<and> wk_active_jobs r \<le> uint (wr_capacity reg)"
  from Some assms(1) have d': "d' = d\<lparr>db_workers := update_rows ?q (reregister_update t reg) (db_workers d)\<rparr>"
    and ok: "\<forall>r \<in> set (db_workers d). ?q r \<longrightarrow> workers_violation (reregister_update t reg r) = None"
    by (auto simp: upsert_body_def statement_inv update_workers_eq_Inr split: option.splits list.splits)
  show ?thesis
    using inv ok workers_violation_None unfolding repo_inv_def d'
    by (auto intro!: core_inv_workers simp: reregister_update_def)
qed

end
