(* ===== verification/Repo_Accounts.thy ===== *)
theory Repo_Accounts
  imports Repo_Jobs
begin

text \<open>
  Projects, API keys, uploads, runtime profiles and webhooks: \<open>auth.rs\<close>, \<open>uploads.rs\<close> and the webhook
  part of \<open>misc.rs\<close> in \<open>crates/repository/src\<close>.  Fresh identifiers and random bytes, SHA-256 and the
  URL-safe base64 encoding are arguments.  The paginated listing of profiles is not here.
\<close>

section \<open>Decoding\<close>

record Project =
  pj_id :: ProjectId
  pj_name :: string
  pj_owner :: string
  pj_max_concurrent_jobs :: u32
  pj_max_outstanding_jobs :: u32
  pj_created_at :: instant

definition project_of_row :: "ProjectRow \<Rightarrow> RepositoryError + Project" where
  "project_of_row row =
     bind_result (decode_id ''projects.id'' ''proj_'' (pr_id row)) (\<lambda>i.
     bind_result (to_u32 ''projects.max_concurrent_jobs'' (pr_max_concurrent_jobs row)) (\<lambda>concurrent.
     bind_result (to_u32 ''projects.max_outstanding_jobs'' (pr_max_outstanding_jobs row)) (\<lambda>outstanding.
       Inr \<lparr>pj_id = i, pj_name = pr_name row, pj_owner = pr_owner row, pj_max_concurrent_jobs = concurrent,
         pj_max_outstanding_jobs = outstanding, pj_created_at = pr_created_at row\<rparr>)))"

record ApiKeyRecord =
  kr_id :: string
  kr_project_id :: ProjectId
  kr_scopes :: "AuthScope list"
  kr_created_at :: instant
  kr_last_used_at :: "instant option"
  kr_revoked_at :: "instant option"

definition into_record :: "ApiKeyRow \<Rightarrow> RepositoryError + ApiKeyRecord" where
  "into_record row =
     bind_result (ensure (length (ak_key_hash row) = 32) (Decode ''api_keys.key_hash'')) (\<lambda>_.
     bind_result (decode_id ''api_keys.project_id'' ''proj_'' (ak_project_id row)) (\<lambda>project.
       Inr \<lparr>kr_id = ak_id row, kr_project_id = project, kr_scopes = ak_scopes row,
         kr_created_at = ak_created_at row, kr_last_used_at = ak_last_used_at row, kr_revoked_at = ak_revoked_at row\<rparr>))"

record CreatedApiKey =
  ck_key :: string
  ck_record :: ApiKeyRecord

record StoredUpload =
  su_id :: UploadId
  su_project_id :: ProjectId
  su_kind :: UploadKind
  su_s3_key :: string
  su_sha256 :: string
  su_size_bytes :: u64
  su_created_at :: instant

definition upload_of_row :: "UploadRow \<Rightarrow> RepositoryError + StoredUpload" where
  "upload_of_row row =
     bind_result (decode_id ''uploads.id'' ''upl_'' (ul_id row)) (\<lambda>i.
     bind_result (decode_id ''uploads.project_id'' ''proj_'' (ul_project_id row)) (\<lambda>project.
     bind_result (map_err (\<lambda>_. Decode ''uploads.sha256'') (Sha256_new (ul_sha256 row))) (\<lambda>sha.
     bind_result (to_u64 ''uploads.size_bytes'' (ul_size_bytes row)) (\<lambda>sz.
       Inr \<lparr>su_id = i, su_project_id = project, su_kind = ul_kind row, su_s3_key = ul_s3_key row,
         su_sha256 = sha, su_size_bytes = sz, su_created_at = ul_created_at row\<rparr>))))"

record Webhook =
  hook_id :: WebhookId
  hook_project_id :: ProjectId
  hook_url :: string
  hook_events :: "WebhookEvent list"
  hook_active :: bool
  hook_created_at :: instant

definition webhook_of_row :: "WebhookRow \<Rightarrow> RepositoryError + Webhook" where
  "webhook_of_row row =
     bind_result (decode_id ''webhooks.id'' ''wh_'' (wh_id row)) (\<lambda>i.
     bind_result (decode_id ''webhooks.project_id'' ''proj_'' (wh_project_id row)) (\<lambda>project.
     bind_result (map_err (\<lambda>_. Decode ''webhooks.url'') (Uri_new (wh_url row))) (\<lambda>url.
       Inr \<lparr>hook_id = i, hook_project_id = project, hook_url = url, hook_events = wh_events row,
         hook_active = wh_active row, hook_created_at = wh_created_at row\<rparr>)))"

text \<open>\<open>map(f).transpose()\<close> on an optional row.\<close>

definition transpose_row :: "('a \<Rightarrow> 'e + 'b) \<Rightarrow> 'a option \<Rightarrow> 'e + 'b option" where
  "transpose_row f row = (case row of None \<Rightarrow> Inr None | Some r \<Rightarrow> bind_result (f r) (\<lambda>x. Inr (Some x)))"

text \<open>The foreign key to \<open>projects\<close>, checked after the unique indexes.\<close>

definition references_project :: "ProjectId \<Rightarrow> db \<Rightarrow> RepositoryError + unit" where
  "references_project project d = ensure (select_project project d \<noteq> None) (Sqlx ''23503'')"

section \<open>Projects (\<open>auth.rs\<close>)\<close>

definition validate_project :: "string \<Rightarrow> string \<Rightarrow> RepositoryError + unit" where
  "validate_project name owner =
     bind_result (ensure (\<not> is_blank name) (Validation ''project name must not be blank'')) (\<lambda>_.
       ensure (\<not> is_blank owner) (Validation ''project owner must not be blank''))"

definition insert_project :: "TxClock \<Rightarrow> string \<Rightarrow> string \<Rightarrow> string \<Rightarrow> db \<Rightarrow> RepositoryError + (ProjectRow \<times> db)" where
  "insert_project t new_project name owner d =
     (let row = \<lparr>pr_id = new_project, pr_name = name, pr_owner = owner, pr_max_concurrent_jobs = 2,
            pr_max_outstanding_jobs = 100, pr_created_at = tx_now t\<rparr>
      in map_err (\<lambda>e. classify_write e ''project already exists'')
           (bind_result (sql_insert projects_violation (\<lambda>a b. pr_id a = pr_id b) row (db_projects d)) (\<lambda>rows.
              Inr (row, d\<lparr>db_projects := rows\<rparr>))))"

definition create_project ::
  "TxClock \<Rightarrow> string \<Rightarrow> string \<Rightarrow> string \<Rightarrow> db \<Rightarrow> (RepositoryError + Project) \<times> db" where
  "create_project t new_project name owner d =
     commit_then (bind_result (validate_project name owner) (\<lambda>_. insert_project t new_project name owner d)) project_of_row d"

definition get_project :: "ProjectId \<Rightarrow> db \<Rightarrow> RepositoryError + Project option" where
  "get_project project d = transpose_row project_of_row (select_project project d)"

section \<open>API keys (\<open>auth.rs\<close>)\<close>

definition validate_scopes :: "AuthScope list \<Rightarrow> RepositoryError + AuthScope list" where
  "validate_scopes scopes =
     bind_result (ensure (scopes \<noteq> []) (Validation ''an API key must have at least one scope'')) (\<lambda>_.
     bind_result (ensure (distinct scopes) (Validation ''API key scopes must be unique'')) (\<lambda>_. Inr scopes))"

definition hash_api_key :: "(string \<Rightarrow> string) \<Rightarrow> string \<Rightarrow> string" where
  "hash_api_key sha256 plaintext = sha256 plaintext"

definition generate_api_key :: "(string \<Rightarrow> string) \<Rightarrow> (string \<Rightarrow> string) \<Rightarrow> string \<Rightarrow> string \<times> string" where
  "generate_api_key sha256 base64url random =
     (let plaintext = ''raa_sk_'' @ base64url random in (plaintext, hash_api_key sha256 plaintext))"

definition insert_api_key ::
  "TxClock \<Rightarrow> string \<Rightarrow> ProjectId \<Rightarrow> string \<Rightarrow> AuthScope list \<Rightarrow> db \<Rightarrow> RepositoryError + (ApiKeyRow \<times> db)" where
  "insert_api_key t new_key project hash scopes d =
     (let row = \<lparr>ak_id = new_key, ak_project_id = project, ak_key_hash = hash, ak_scopes = scopes,
            ak_created_at = tx_now t, ak_last_used_at = None, ak_revoked_at = None\<rparr>
      in map_err (\<lambda>e. classify_write e ''API key already exists'')
           (bind_result (sql_insert api_keys_violation (\<lambda>a b. ak_id a = ak_id b \<or> ak_key_hash a = ak_key_hash b) row
              (db_api_keys d)) (\<lambda>rows.
            bind_result (references_project project d) (\<lambda>_. Inr (row, d\<lparr>db_api_keys := rows\<rparr>)))))"

definition create_api_key ::
  "(string \<Rightarrow> string) \<Rightarrow> (string \<Rightarrow> string) \<Rightarrow> TxClock \<Rightarrow> string \<Rightarrow> string \<Rightarrow> ProjectId \<Rightarrow> AuthScope list \<Rightarrow> db \<Rightarrow>
   (RepositoryError + CreatedApiKey) \<times> db" where
  "create_api_key sha256 base64url t new_key random project scopes d =
     (let (plaintext, hash) = generate_api_key sha256 base64url random
      in commit_then (bind_result (validate_scopes scopes) (\<lambda>scopes. insert_api_key t new_key project hash scopes d))
           (\<lambda>row. bind_result (into_record row) (\<lambda>record. Inr \<lparr>ck_key = plaintext, ck_record = record\<rparr>)) d)"

text \<open>Both rows are decoded before the commit, so an undecodable row rolls the project back.\<close>

definition project_with_key_body ::
  "(string \<Rightarrow> string) \<Rightarrow> (string \<Rightarrow> string) \<Rightarrow> TxClock \<Rightarrow> string \<Rightarrow> string \<Rightarrow> string \<Rightarrow> string \<Rightarrow> string \<Rightarrow> AuthScope list \<Rightarrow>
   db \<Rightarrow> RepositoryError + ((Project \<times> CreatedApiKey) \<times> db)" where
  "project_with_key_body sha256 base64url t new_project new_key random name owner scopes d =
     (let (plaintext, hash) = generate_api_key sha256 base64url random
      in bind_result (validate_project name owner) (\<lambda>_.
         bind_result (validate_scopes scopes) (\<lambda>scopes.
         bind_result (insert_project t new_project name owner d) (\<lambda>(row, d1).
         bind_result (project_of_row row) (\<lambda>project.
         bind_result (insert_api_key t new_key (pj_id project) hash scopes d1) (\<lambda>(key_row, d2).
         bind_result (into_record key_row) (\<lambda>record.
           Inr ((project, \<lparr>ck_key = plaintext, ck_record = record\<rparr>), d2))))))))"

definition create_project_with_api_key ::
  "(string \<Rightarrow> string) \<Rightarrow> (string \<Rightarrow> string) \<Rightarrow> TxClock \<Rightarrow> string \<Rightarrow> string \<Rightarrow> string \<Rightarrow> string \<Rightarrow> string \<Rightarrow> AuthScope list \<Rightarrow>
   db \<Rightarrow> (RepositoryError + (Project \<times> CreatedApiKey)) \<times> db" where
  "create_project_with_api_key sha256 base64url t new_project new_key random name owner scopes d =
     commit_then (project_with_key_body sha256 base64url t new_project new_key random name owner scopes d) Inr d"

definition find_api_key_by_hash :: "string \<Rightarrow> db \<Rightarrow> RepositoryError + ApiKeyRecord option" where
  "find_api_key_by_hash hash d = transpose_row into_record (select_one (\<lambda>r. ak_key_hash r = hash) (db_api_keys d))"

definition update_api_key_timestamp ::
  "(ApiKeyRow \<Rightarrow> bool) \<Rightarrow> (ApiKeyRow \<Rightarrow> ApiKeyRow) \<Rightarrow> string \<Rightarrow> db \<Rightarrow> (RepositoryError + ApiKeyRecord) \<times> db" where
  "update_api_key_timestamp p f key d =
     commit_then
       (bind_result (sql_update api_keys_violation (\<lambda>r. ak_id r = key \<and> p r) f (db_api_keys d)) (\<lambda>(changed, rows).
          Inr (changed, d\<lparr>db_api_keys := rows\<rparr>)))
       (\<lambda>changed. bind_result (ok_or (fetch_optional changed) (NotFound ''API key'' key)) into_record) d"

definition revoke_update :: "TxClock \<Rightarrow> ApiKeyRow \<Rightarrow> ApiKeyRow" where
  "revoke_update t r = r\<lparr>ak_revoked_at := (case ak_revoked_at r of Some revoked \<Rightarrow> Some revoked | None \<Rightarrow> Some (tx_now t))\<rparr>"

definition revoke_api_key :: "TxClock \<Rightarrow> string \<Rightarrow> db \<Rightarrow> (RepositoryError + ApiKeyRecord) \<times> db" where
  "revoke_api_key t key = update_api_key_timestamp (\<lambda>_. True) (revoke_update t) key"

definition touch_api_key_last_used :: "TxClock \<Rightarrow> string \<Rightarrow> db \<Rightarrow> (RepositoryError + ApiKeyRecord) \<times> db" where
  "touch_api_key_last_used t key =
     update_api_key_timestamp (\<lambda>r. ak_revoked_at r = None) (\<lambda>r. r\<lparr>ak_last_used_at := Some (tx_now t)\<rparr>) key"

section \<open>Uploads and runtime profiles (\<open>uploads.rs\<close>)\<close>

definition create_upload ::
  "TxClock \<Rightarrow> string \<Rightarrow> ProjectId \<Rightarrow> UploadKind \<Rightarrow> string \<Rightarrow> string \<Rightarrow> u64 \<Rightarrow> db \<Rightarrow> (RepositoryError + StoredUpload) \<times> db" where
  "create_upload t new_upload project kind s3_key sha256 size_bytes d =
     commit_then
       (bind_result (ensure (\<not> is_blank s3_key) (Validation ''upload object key must not be blank'')) (\<lambda>_.
        bind_result (checked_i64 ''size_bytes'' size_bytes) (\<lambda>sz.
          let row = \<lparr>ul_id = new_upload, ul_project_id = project, ul_kind = kind, ul_s3_key = s3_key,
                ul_sha256 = sha256, ul_size_bytes = sz, ul_created_at = tx_now t\<rparr>
          in map_err (\<lambda>e. classify_write e ''upload object already exists'')
               (bind_result (sql_insert uploads_violation (\<lambda>a b. ul_id a = ul_id b \<or> ul_s3_key a = ul_s3_key b) row
                  (db_uploads d)) (\<lambda>rows.
                bind_result (references_project project d) (\<lambda>_. Inr (row, d\<lparr>db_uploads := rows\<rparr>)))))))
       upload_of_row d"

definition get_upload :: "UploadId \<Rightarrow> db \<Rightarrow> RepositoryError + StoredUpload option" where
  "get_upload upload d = transpose_row upload_of_row (select_one (\<lambda>r. ul_id r = upload) (db_uploads d))"

definition get_runtime_profile :: "RuntimeProfileId \<Rightarrow> db \<Rightarrow> RepositoryError + RuntimeProfile option" where
  "get_runtime_profile profile d =
     transpose_row profile_of_row (select_one (\<lambda>r. rr_id r = profile) (db_runtime_profiles d))"

definition list_runtime_profiles :: "db \<Rightarrow> RepositoryError + RuntimeProfile list" where
  "list_runtime_profiles d =
     collect_results profile_of_row (sort_key (\<lambda>r. (- rr_android_api r, rr_id r)) (db_runtime_profiles d))"

section \<open>Webhooks (\<open>misc.rs\<close>)\<close>

record CreateWebhookRequest =
  cw_project_id :: ProjectId
  cw_url :: string
  cw_events :: "WebhookEvent list"

definition create_webhook ::
  "TxClock \<Rightarrow> string \<Rightarrow> CreateWebhookRequest \<Rightarrow> db \<Rightarrow> (RepositoryError + Webhook) \<times> db" where
  "create_webhook t new_webhook request d =
     commit_then
       (bind_result (ensure (cw_events request \<noteq> []) (Validation ''webhook must subscribe to at least one event'')) (\<lambda>_.
        bind_result (ensure (distinct (cw_events request)) (Validation ''webhook events must be unique'')) (\<lambda>_.
          let row = \<lparr>wh_id = new_webhook, wh_project_id = cw_project_id request, wh_url = cw_url request,
                wh_events = cw_events request, wh_active = True, wh_created_at = tx_now t\<rparr>
          in map_err (\<lambda>e. classify_write e ''webhook URL already registered for project'')
               (bind_result (sql_insert webhooks_violation (\<lambda>a b. wh_id a = wh_id b
                    \<or> wh_project_id a = wh_project_id b \<and> wh_url a = wh_url b) row (db_webhooks d)) (\<lambda>rows.
                bind_result (references_project (cw_project_id request) d) (\<lambda>_.
                  Inr (row, d\<lparr>db_webhooks := rows\<rparr>)))))))
       webhook_of_row d"

definition get_webhook :: "WebhookId \<Rightarrow> db \<Rightarrow> RepositoryError + Webhook option" where
  "get_webhook webhook d = transpose_row webhook_of_row (select_one (\<lambda>r. wh_id r = webhook) (db_webhooks d))"

definition list_active_webhooks :: "ProjectId \<Rightarrow> WebhookEvent option \<Rightarrow> db \<Rightarrow> RepositoryError + Webhook list" where
  "list_active_webhooks project event d =
     collect_results webhook_of_row (sort_key (\<lambda>r. (wh_created_at r, wh_id r))
       (filter (\<lambda>r. wh_project_id r = project \<and> wh_active r
          \<and> (case event of None \<Rightarrow> True | Some e \<Rightarrow> e \<in> set (wh_events r))) (db_webhooks d)))"

definition deactivate_webhook :: "WebhookId \<Rightarrow> db \<Rightarrow> (RepositoryError + Webhook) \<times> db" where
  "deactivate_webhook webhook d =
     commit_then
       (bind_result (sql_update webhooks_violation (\<lambda>r. wh_id r = webhook) (\<lambda>r. r\<lparr>wh_active := False\<rparr>) (db_webhooks d))
          (\<lambda>(changed, rows). Inr (changed, d\<lparr>db_webhooks := rows\<rparr>)))
       (\<lambda>changed. bind_result (ok_or (fetch_optional changed) (NotFound ''webhook'' webhook)) webhook_of_row) d"

end
