(* ===== verification/Repo_Sessions.thy ===== *)
theory Repo_Sessions
  imports Repo_Jobs
begin

text \<open>
  Debug sessions and the audit log: the rest of \<open>crates/repository/src/misc.rs\<close>.  A job has at most
  one session that has not ended (a partial unique index), the audit log is append-only, and ending
  sessions writes one audit entry per session in the same transaction.  \<open>FOR UPDATE SKIP LOCKED\<close> is
  modelled without concurrent lockers.
\<close>

section \<open>Rows\<close>

definition session_of_row :: "DebugSessionRow \<Rightarrow> RepositoryError + DebugSessionRow" where
  "session_of_row row =
     bind_result (decode_id ''debug_sessions.id'' ''dbg_'' (ds_id row)) (\<lambda>_.
     bind_result (decode_id ''debug_sessions.job_id'' ''job_'' (ds_job_id row)) (\<lambda>_. Inr row))"

definition audit_row :: "TxClock \<Rightarrow> string \<Rightarrow> string \<Rightarrow> string \<Rightarrow> EventPayload \<Rightarrow> db \<Rightarrow> AuditRow" where
  "audit_row t actor action subject payload d =
     \<lparr>au_id = db_audit_sequence d + 1, au_actor = actor, au_action = action, au_subject = subject,
      au_timestamp = tx_now t, au_payload = payload\<rparr>"

definition insert_audit ::
  "TxClock \<Rightarrow> string \<Rightarrow> string \<Rightarrow> string \<Rightarrow> EventPayload \<Rightarrow> db \<Rightarrow> RepositoryError + (AuditRow \<times> db)" where
  "insert_audit t actor action subject payload d =
     (let row = audit_row t actor action subject payload d
      in bind_result (sql_insert audit_log_violation (\<lambda>a b. au_id a = au_id b) row (db_audit_log d)) (\<lambda>rows.
           Inr (row, d\<lparr>db_audit_log := rows, db_audit_sequence := au_id row\<rparr>)))"

definition append_audit ::
  "TxClock \<Rightarrow> string \<Rightarrow> string \<Rightarrow> string \<Rightarrow> EventPayload \<Rightarrow> db \<Rightarrow> (RepositoryError + AuditRow) \<times> db" where
  "append_audit t actor action subject payload d =
     commit_then
       (bind_result (ensure (\<not> is_blank actor \<and> \<not> is_blank action \<and> \<not> is_blank subject)
          (Validation ''audit actor, action, and subject must not be blank'')) (\<lambda>_.
        insert_audit t actor action subject payload d))
       Inr d"

section \<open>Creating sessions\<close>

definition validate_debug_session :: "string \<Rightarrow> string \<Rightarrow> RepositoryError + unit" where
  "validate_debug_session jti created_by =
     ensure (\<not> is_blank jti \<and> \<not> is_blank created_by) (Validation ''debug session jti and creator must not be blank'')"

definition lock_debug_session_job :: "JobId \<Rightarrow> db \<Rightarrow> RepositoryError + JobState" where
  "lock_debug_session_job job d =
     bind_result (ok_or (lock_job job d) (NotFound ''job'' job)) (\<lambda>row. Inr (jr_state row))"

definition update_sessions ::
  "(DebugSessionRow \<Rightarrow> bool) \<Rightarrow> (DebugSessionRow \<Rightarrow> DebugSessionRow) \<Rightarrow> db \<Rightarrow>
   RepositoryError + (DebugSessionRow list \<times> db)" where
  "update_sessions p f d =
     bind_result (sql_update debug_sessions_violation p f (db_debug_sessions d)) (\<lambda>(changed, rows).
       Inr (changed, d\<lparr>db_debug_sessions := rows\<rparr>))"

definition end_expired_debug_session :: "TxClock \<Rightarrow> JobId \<Rightarrow> db \<Rightarrow> RepositoryError + db" where
  "end_expired_debug_session t job d =
     bind_result (update_sessions
       (\<lambda>r. ds_job_id r = job \<and> ds_ended_at r = None \<and> ds_expires_at r \<le> tx_clock t)
       (\<lambda>r. r\<lparr>ds_ended_at := Some (tx_clock t)\<rparr>) d) (\<lambda>(_, d1). Inr d1)"

text \<open>Primary key, unique token identifier, one session of a job that has not ended.\<close>

definition session_clash :: "DebugSessionRow \<Rightarrow> DebugSessionRow \<Rightarrow> bool" where
  "session_clash a b \<longleftrightarrow> ds_id a = ds_id b \<or> ds_jti a = ds_jti b
     \<or> ds_job_id a = ds_job_id b \<and> ds_ended_at a = None \<and> ds_ended_at b = None"

definition insert_debug_session ::
  "TxClock \<Rightarrow> string \<Rightarrow> JobId \<Rightarrow> string \<Rightarrow> string \<Rightarrow> DebugSessionMode \<Rightarrow> instant \<Rightarrow> db \<Rightarrow>
   RepositoryError + (DebugSessionRow \<times> db)" where
  "insert_debug_session t new_session job jti created_by mode expires_at d =
     bind_result (ensure (tx_clock t < expires_at)
       (Validation ''debug session expiry must be later than database time'')) (\<lambda>_.
       let row = \<lparr>ds_id = new_session, ds_job_id = job, ds_jti = jti, ds_created_by = created_by, ds_mode = mode,
             ds_created_at = tx_now t, ds_expires_at = expires_at, ds_ended_at = None\<rparr>
       in bind_result (map_err (\<lambda>e. classify_write e ''an active debug session already exists for the job or jti'')
            (sql_insert debug_sessions_violation session_clash row (db_debug_sessions d))) (\<lambda>rows.
          bind_result (session_of_row row) (\<lambda>session. Inr (session, d\<lparr>db_debug_sessions := rows\<rparr>))))"

definition create_debug_session ::
  "TxClock \<Rightarrow> string \<Rightarrow> JobId \<Rightarrow> string \<Rightarrow> string \<Rightarrow> DebugSessionMode \<Rightarrow> instant \<Rightarrow> db \<Rightarrow>
   (RepositoryError + DebugSessionRow) \<times> db" where
  "create_debug_session t new_session job jti created_by mode expires_at d =
     commit_then
       (bind_result (validate_debug_session jti created_by) (\<lambda>_.
        bind_result (lock_debug_session_job job d) (\<lambda>_.
        bind_result (end_expired_debug_session t job d) (\<lambda>d1.
          insert_debug_session t new_session job jti created_by mode expires_at d1))))
       Inr d"

definition audited_session_body ::
  "TxClock \<Rightarrow> string \<Rightarrow> JobId \<Rightarrow> string \<Rightarrow> string \<Rightarrow> DebugSessionMode \<Rightarrow> instant \<Rightarrow> EventPayload \<Rightarrow> db \<Rightarrow>
   RepositoryError + ((DebugSessionRow \<times> AuditRow) \<times> db)" where
  "audited_session_body t new_session job jti created_by mode expires_at payload d =
     bind_result (validate_debug_session jti created_by) (\<lambda>_.
     bind_result (lock_debug_session_job job d) (\<lambda>state.
     bind_result (ensure (state = DebugAvailable)
       (Conflict ''debug sessions require a job in debug_available state'')) (\<lambda>_.
     bind_result (end_expired_debug_session t job d) (\<lambda>d1.
     bind_result (insert_debug_session t new_session job jti created_by mode expires_at d1) (\<lambda>(session, d2).
     bind_result (insert_audit t created_by ''debug_session.created'' (ds_id session) payload d2) (\<lambda>(audit, d3).
       Inr ((session, audit), d3)))))))"

definition create_debug_session_with_audit ::
  "TxClock \<Rightarrow> string \<Rightarrow> JobId \<Rightarrow> string \<Rightarrow> string \<Rightarrow> DebugSessionMode \<Rightarrow> instant \<Rightarrow> EventPayload \<Rightarrow> db \<Rightarrow>
   (RepositoryError + (DebugSessionRow \<times> AuditRow)) \<times> db" where
  "create_debug_session_with_audit t new_session job jti created_by mode expires_at payload d =
     commit_then (audited_session_body t new_session job jti created_by mode expires_at payload d) Inr d"

section \<open>Ending sessions\<close>

definition end_debug_session :: "TxClock \<Rightarrow> DebugSessionId \<Rightarrow> db \<Rightarrow> (RepositoryError + DebugSessionRow) \<times> db" where
  "end_debug_session t session d =
     commit_then
       (update_sessions (\<lambda>r. ds_id r = session)
          (\<lambda>r. r\<lparr>ds_ended_at := (case ds_ended_at r of Some ended \<Rightarrow> Some ended | None \<Rightarrow> Some (tx_now t))\<rparr>) d)
       (\<lambda>changed. bind_result (ok_or (fetch_optional changed) (NotFound ''debug session'' session)) session_of_row) d"

definition find_expired_debug_sessions :: "instant \<Rightarrow> u32 \<Rightarrow> db \<Rightarrow> RepositoryError + DebugSessionRow list" where
  "find_expired_debug_sessions expired_before limit d =
     bind_result (checked_limit limit) (\<lambda>limit.
       collect_results session_of_row (take (nat limit) (sort_key (\<lambda>r. (ds_expires_at r, ds_id r))
         (filter (\<lambda>r. ds_ended_at r = None \<and> ds_expires_at r \<le> expired_before) (db_debug_sessions d)))))"

datatype DebugSessionEndReason = Expired | JobEnded

fun end_reason_str :: "DebugSessionEndReason \<Rightarrow> string" where
  "end_reason_str Expired = ''expired''"
| "end_reason_str JobEnded = ''job_ended''"

record EndedDebugSession =
  es_session :: DebugSessionRow
  es_audit :: AuditRow
  es_reason :: DebugSessionEndReason

definition job_ended :: "JobId \<Rightarrow> db \<Rightarrow> bool" where
  "job_ended job d \<longleftrightarrow> list_ex (\<lambda>j. jr_id j = job \<and> is_terminal (jr_state j)) (db_jobs d)"

definition ending_candidate :: "instant \<Rightarrow> db \<Rightarrow> DebugSessionRow \<Rightarrow> bool" where
  "ending_candidate expired_before d r \<longleftrightarrow> lock_job (ds_job_id r) d \<noteq> None \<and> ds_ended_at r = None
     \<and> (ds_expires_at r \<le> expired_before \<or> job_ended (ds_job_id r) d)"

fun end_sessions ::
  "TxClock \<Rightarrow> instant \<Rightarrow> string \<Rightarrow> DebugSessionRow list \<Rightarrow> db \<Rightarrow> RepositoryError + (EndedDebugSession list \<times> db)" where
  "end_sessions t expired_before actor [] d = Inr ([], d)"
| "end_sessions t expired_before actor (candidate # candidates) d =
     (let reason = (if ds_expires_at candidate \<le> expired_before then Expired else JobEnded)
      in bind_result (update_sessions (\<lambda>r. ds_id r = ds_id candidate \<and> ds_ended_at r = None)
           (\<lambda>r. r\<lparr>ds_ended_at := Some (max (ds_created_at r) (tx_clock t))\<rparr>) d) (\<lambda>(changed, d1).
         bind_result (ok_or (fetch_optional changed) (CompareAndSwapLost ''debug session'' (ds_id candidate))) (\<lambda>row.
         bind_result (session_of_row row) (\<lambda>session.
         bind_result (insert_audit t actor ''debug_session.ended'' (ds_id session)
           [(''job_id'', EvText (ds_job_id session)), (''reason'', EvText (end_reason_str reason))] d1) (\<lambda>(audit, d2).
         bind_result (end_sessions t expired_before actor candidates d2) (\<lambda>(ended, d3).
           Inr (\<lparr>es_session = session, es_audit = audit, es_reason = reason\<rparr> # ended, d3)))))))"

definition ending_body ::
  "TxClock \<Rightarrow> instant \<Rightarrow> string \<Rightarrow> u32 \<Rightarrow> db \<Rightarrow> RepositoryError + (EndedDebugSession list \<times> db)" where
  "ending_body t expired_before actor limit d =
     bind_result (ensure (\<not> is_blank actor) (Validation ''debug-session reconciler actor must not be blank'')) (\<lambda>_.
     bind_result (checked_limit limit) (\<lambda>limit.
       end_sessions t expired_before actor
         (take (nat limit) (sort_key (\<lambda>r. (ds_expires_at r, ds_id r))
            (filter (ending_candidate expired_before d) (db_debug_sessions d)))) d))"

definition end_expired_or_terminal_debug_sessions_with_audit ::
  "TxClock \<Rightarrow> instant \<Rightarrow> string \<Rightarrow> u32 \<Rightarrow> db \<Rightarrow> (RepositoryError + EndedDebugSession list) \<times> db" where
  "end_expired_or_terminal_debug_sessions_with_audit t expired_before actor limit d =
     commit_then (ending_body t expired_before actor limit d) Inr d"

end
