(* ===== verification/Repo_Records.thy ===== *)
theory Repo_Records
  imports Repo_Accounts Repo_Sessions Repo_Frame
begin

text \<open>
  The tables beside jobs, workers and the outbox: how their rows may change, and the invariant of
  their unique indexes.  Every operation of \<open>Repo_Accounts\<close> and \<open>Repo_Sessions\<close> is a \<open>record_change\<close>.
\<close>

section \<open>How the rows evolve\<close>

definition key_evolves :: "ApiKeyRow \<Rightarrow> ApiKeyRow \<Rightarrow> bool" where
  "key_evolves r r' \<longleftrightarrow> ak_id r' = ak_id r \<and> ak_project_id r' = ak_project_id r \<and> ak_key_hash r' = ak_key_hash r
     \<and> ak_scopes r' = ak_scopes r \<and> ak_created_at r' = ak_created_at r \<and> (ak_revoked_at r \<noteq> None \<longrightarrow> r' = r)"

definition session_evolves :: "DebugSessionRow \<Rightarrow> DebugSessionRow \<Rightarrow> bool" where
  "session_evolves r r' \<longleftrightarrow> ds_id r' = ds_id r \<and> ds_job_id r' = ds_job_id r \<and> ds_jti r' = ds_jti r
     \<and> ds_created_by r' = ds_created_by r \<and> ds_mode r' = ds_mode r \<and> ds_created_at r' = ds_created_at r
     \<and> ds_expires_at r' = ds_expires_at r \<and> (ds_ended_at r \<noteq> None \<longrightarrow> r' = r)"

definition hook_evolves :: "WebhookRow \<Rightarrow> WebhookRow \<Rightarrow> bool" where
  "hook_evolves r r' \<longleftrightarrow> r' = r \<or> r' = r\<lparr>wh_active := False\<rparr>"

definition table_keeps :: "('r \<Rightarrow> 'r \<Rightarrow> bool) \<Rightarrow> 'r list \<Rightarrow> 'r list \<Rightarrow> bool" where
  "table_keeps R rs rs' \<longleftrightarrow> (\<exists>f new. rs' = map f rs @ new \<and> (\<forall>r \<in> set rs. R r (f r)))"

definition records_keep :: "db \<Rightarrow> db \<Rightarrow> bool" where
  "records_keep d d' \<longleftrightarrow> db_runtime_profiles d' = db_runtime_profiles d
     \<and> table_keeps (=) (db_projects d) (db_projects d') \<and> table_keeps (=) (db_uploads d) (db_uploads d')
     \<and> table_keeps (=) (db_audit_log d) (db_audit_log d') \<and> table_keeps key_evolves (db_api_keys d) (db_api_keys d')
     \<and> table_keeps session_evolves (db_debug_sessions d) (db_debug_sessions d')
     \<and> table_keeps hook_evolves (db_webhooks d) (db_webhooks d')"

lemma evolution_refl [simp]: "key_evolves k k" "session_evolves s s" "hook_evolves h h"
  by (simp_all add: key_evolves_def session_evolves_def hook_evolves_def)

lemma evolution_trans:
  "key_evolves a b \<Longrightarrow> key_evolves b c \<Longrightarrow> key_evolves a c"
  "session_evolves p q \<Longrightarrow> session_evolves q r \<Longrightarrow> session_evolves p r"
  "hook_evolves x y \<Longrightarrow> hook_evolves y z \<Longrightarrow> hook_evolves x z"
  by (auto simp: key_evolves_def session_evolves_def hook_evolves_def)

lemma table_keeps_refl: "(\<And>r. R r r) \<Longrightarrow> table_keeps R rs rs"
  by (auto simp: table_keeps_def intro: exI [of _ id])

lemma table_keeps_trans:
  assumes "\<And>x y z. R x y \<Longrightarrow> R y z \<Longrightarrow> R x z" and "table_keeps R a b" and "table_keeps R b c"
  shows "table_keeps R a c"
proof -
  obtain f new where f: "b = map f a @ new" "\<forall>r \<in> set a. R r (f r)" using assms(2) unfolding table_keeps_def by blast
  obtain g new' where g: "c = map g b @ new'" "\<forall>r \<in> set b. R r (g r)" using assms(3) unfolding table_keeps_def by blast
  have c: "c = map (g \<circ> f) a @ (map g new @ new')" using f g by simp
  moreover have "R r ((g \<circ> f) r)" if "r \<in> set a" for r
    using f(2) g(2) that assms(1) [of r "f r" "g (f r)"] unfolding f(1) by auto
  ultimately show ?thesis unfolding table_keeps_def by blast
qed

lemma table_keeps_append: "(\<And>r. R r r) \<Longrightarrow> table_keeps R rs (rs @ new)"
  by (auto simp: table_keeps_def intro: exI [of _ id])

lemma table_keeps_update: "(\<And>r. R r r) \<Longrightarrow> (\<And>r. p r \<Longrightarrow> R r (f r)) \<Longrightarrow> table_keeps R rs (update_rows p f rs)"
  by (auto simp: table_keeps_def update_rows_def intro!: exI [of _ "\<lambda>r. if p r then f r else r"])

lemma map_update_rows_on: "(\<And>r. p r \<Longrightarrow> k (f r) = k r) \<Longrightarrow> map k (update_rows p f rs) = map k rs"
  by (simp add: update_rows_def)

lemmas table_keeps_intros = table_keeps_refl table_keeps_append table_keeps_update

lemma records_keep_refl [simp]: "records_keep d d"
  by (simp add: records_keep_def table_keeps_refl)

lemma records_keep_trans: "records_keep a b \<Longrightarrow> records_keep b c \<Longrightarrow> records_keep a c"
  unfolding records_keep_def by (auto elim!: table_keeps_trans [rotated] intro: evolution_trans)

lemma same_static_records: "same_static d d' \<Longrightarrow> records_keep d d'"
  by (simp add: same_static_def records_keep_def table_keeps_refl)

section \<open>Invariant\<close>

definition open_session :: "DebugSessionRow \<Rightarrow> bool" where
  "open_session r \<longleftrightarrow> ds_ended_at r = None"

definition records_inv :: "db \<Rightarrow> bool" where
  "records_inv d \<longleftrightarrow> distinct (map ds_id (db_debug_sessions d)) \<and> distinct (map ds_jti (db_debug_sessions d))
     \<and> distinct (map ds_job_id (filter open_session (db_debug_sessions d)))
     \<and> distinct (map ak_id (db_api_keys d)) \<and> distinct (map ak_key_hash (db_api_keys d))
     \<and> sorted_wrt (<) (map au_id (db_audit_log d)) \<and> (\<forall>a \<in> set (db_audit_log d). au_id a \<le> db_audit_sequence d)"

lemma same_static_records_inv: "same_static d d' \<Longrightarrow> records_inv d' = records_inv d"
  by (simp add: same_static_def records_inv_def)

text \<open>The tables of the job lifecycle stay, the others change by the rules.\<close>

definition record_change :: "db \<Rightarrow> db \<Rightarrow> bool" where
  "record_change d d' \<longleftrightarrow> db_jobs d' = db_jobs d \<and> db_workers d' = db_workers d \<and> db_job_events d' = db_job_events d
     \<and> db_event_sequence d' = db_event_sequence d \<and> db_outbox d' = db_outbox d
     \<and> db_outbox_sequence d' = db_outbox_sequence d \<and> records_keep d d' \<and> (records_inv d \<longrightarrow> records_inv d')
     \<and> (\<forall>new. db_projects d' = db_projects d @ new \<longrightarrow> distinct (map pr_id (db_projects d)) \<longrightarrow>
          distinct (map pr_id (db_projects d')) \<and> (\<forall>p \<in> set new. 0 \<le> pr_max_concurrent_jobs p \<and> 0 \<le> pr_max_outstanding_jobs p))"

lemma record_change_refl [simp]: "record_change d d"
  by (simp add: record_change_def)

lemma record_change_keeps: "record_change d d' \<Longrightarrow> \<exists>new. db_projects d' = db_projects d @ new"
  by (auto simp: record_change_def records_keep_def table_keeps_def map_idI)

lemma record_change_trans:
  assumes "record_change a b" and "record_change b c"
  shows "record_change a c"
proof -
  obtain p where p: "db_projects b = db_projects a @ p" using record_change_keeps [OF assms(1)] by blast
  obtain q where q: "db_projects c = db_projects b @ q" using record_change_keeps [OF assms(2)] by blast
  have "records_keep a c" using assms records_keep_trans by (auto simp: record_change_def)
  then show ?thesis using assms p q by (auto simp: record_change_def)
qed

lemma record_commit:
  "(\<And>x d'. body = Inr (x, d') \<Longrightarrow> record_change d d') \<Longrightarrow> record_change d (snd (commit_then body post d))"
  by (auto simp: commit_then_def split: sum.splits)

section \<open>Accounts\<close>

lemma insert_project_change:
  "insert_project t i n ow d = Inr (row, d') \<Longrightarrow> record_change d d'"
  by (fastforce simp: insert_project_def Let_def statement_inv record_change_def records_keep_def records_inv_def
      intro!: table_keeps_intros)

lemma insert_api_key_change:
  "insert_api_key t i p h sc d = Inr (row, d') \<Longrightarrow> record_change d d'"
  by (auto simp: insert_api_key_def Let_def statement_inv record_change_def records_keep_def records_inv_def
      intro!: table_keeps_intros)

lemma update_api_key_change:
  assumes "\<And>r. p r \<Longrightarrow> key_evolves r (f r)"
  shows "record_change d (snd (update_api_key_timestamp p f key d))"
proof -
  let ?rows = "update_rows (\<lambda>r. ak_id r = key \<and> p r) f (db_api_keys d)"
  have "ak_id (f r) = ak_id r" "ak_key_hash (f r) = ak_key_hash r" if "p r" for r
    using assms [OF that] by (simp_all add: key_evolves_def)
  then have "map ak_id ?rows = map ak_id (db_api_keys d)" "map ak_key_hash ?rows = map ak_key_hash (db_api_keys d)"
    by (auto intro!: map_update_rows_on)
  then show ?thesis
    unfolding update_api_key_timestamp_def
    by (intro record_commit) (use assms in \<open>auto simp: statement_inv record_change_def records_keep_def records_inv_def
        intro!: table_keeps_intros\<close>)
qed

lemma revoke_change: "record_change d (snd (revoke_api_key t key d))"
  unfolding revoke_api_key_def
  by (rule update_api_key_change) (auto simp: revoke_update_def key_evolves_def split: option.splits)

lemma touch_change: "record_change d (snd (touch_api_key_last_used t key d))"
  unfolding touch_api_key_last_used_def by (rule update_api_key_change) (simp add: key_evolves_def)

lemma account_changes:
  "record_change d (snd (create_project t i n ow d))"
  "record_change d (snd (create_api_key sha b64 t i rnd p sc d))"
  "record_change d (snd (create_project_with_api_key sha b64 t i k rnd n ow sc d))"
  "record_change d (snd (create_upload t i p kind key hash bytes d))"
  "record_change d (snd (create_webhook t i req d))"
  "record_change d (snd (deactivate_webhook w d))"
proof -
  show "record_change d (snd (create_project t i n ow d))" unfolding create_project_def
    by (rule record_commit) (auto simp: statement_inv dest: insert_project_change)
  show "record_change d (snd (create_api_key sha b64 t i rnd p sc d))" unfolding create_api_key_def
    by (auto simp: statement_inv split: prod.splits intro!: record_commit dest: insert_api_key_change)
  show "record_change d (snd (create_project_with_api_key sha b64 t i k rnd n ow sc d))"
    unfolding create_project_with_api_key_def project_with_key_body_def
    by (rule record_commit)
      (auto simp: statement_inv split: prod.splits
        intro: record_change_trans dest!: insert_project_change insert_api_key_change)
  show "record_change d (snd (create_upload t i p kind key hash bytes d))" unfolding create_upload_def
    by (rule record_commit) (auto simp: statement_inv Let_def record_change_def records_keep_def records_inv_def
        intro!: table_keeps_intros)
  show "record_change d (snd (create_webhook t i req d))" unfolding create_webhook_def
    by (rule record_commit) (auto simp: statement_inv Let_def record_change_def records_keep_def records_inv_def
        intro!: table_keeps_intros)
  show "record_change d (snd (deactivate_webhook w d))" unfolding deactivate_webhook_def
    by (rule record_commit) (auto simp: statement_inv record_change_def records_keep_def records_inv_def hook_evolves_def
        intro!: table_keeps_intros)
qed

section \<open>Sessions and audit\<close>

lemma insert_audit_change:
  "insert_audit t a c s p d = Inr (row, d') \<Longrightarrow> record_change d d'"
  by (fastforce simp: insert_audit_def audit_row_def Let_def statement_inv record_change_def records_keep_def records_inv_def
      sorted_wrt_append intro!: table_keeps_intros)

lemma open_update:
  assumes "\<And>r. p r \<Longrightarrow> session_evolves r (f r)"
  shows "distinct (map ds_job_id (filter open_session rs)) \<Longrightarrow> distinct (map ds_job_id (filter open_session (update_rows p f rs)))"
proof (induction rs)
  case (Cons r rs)
  have same: "ds_job_id (f x) = ds_job_id x" "open_session (f x) \<Longrightarrow> open_session x" if "p x" for x
    using assms [OF that] by (auto simp: session_evolves_def open_session_def)
  have "ds_job_id ` {x \<in> set (update_rows p f rs). open_session x} \<subseteq> ds_job_id ` {x \<in> set rs. open_session x}"
    using same by (fastforce simp: update_rows_def)
  then show ?case using Cons same [of r] by (auto simp: update_rows_def split: if_splits)
qed (simp add: update_rows_def)

lemma update_sessions_change:
  assumes "\<And>r. p r \<Longrightarrow> session_evolves r (f r)" and "update_sessions p f d = Inr (changed, d')"
  shows "record_change d d'"
proof -
  have d': "d' = d\<lparr>db_debug_sessions := update_rows p f (db_debug_sessions d)\<rparr>"
    using assms(2) by (auto simp: update_sessions_def statement_inv)
  have "ds_id (f r) = ds_id r" "ds_jti (f r) = ds_jti r" if "p r" for r
    using assms(1) [OF that] by (simp_all add: session_evolves_def)
  then have "map ds_id (update_rows p f (db_debug_sessions d)) = map ds_id (db_debug_sessions d)"
    "map ds_jti (update_rows p f (db_debug_sessions d)) = map ds_jti (db_debug_sessions d)"
    by (auto intro!: map_update_rows_on)
  then have "records_inv d \<longrightarrow> records_inv d'"
    using open_update [of p f "db_debug_sessions d", OF assms(1)] by (simp add: d' records_inv_def)
  then show ?thesis using assms(1) by (auto simp: record_change_def records_keep_def d' intro!: table_keeps_intros)
qed

lemma end_expired_change:
  "end_expired_debug_session t job d = Inr d' \<Longrightarrow> record_change d d'"
  by (auto simp: end_expired_debug_session_def statement_inv session_evolves_def elim!: update_sessions_change [rotated])

lemma insert_session_change:
  "insert_debug_session t i job jti c m e d = Inr (row, d') \<Longrightarrow> record_change d d'"
  by (fastforce simp: insert_debug_session_def Let_def statement_inv record_change_def records_keep_def records_inv_def
      session_clash_def open_session_def intro!: table_keeps_intros)

lemma end_sessions_change:
  "end_sessions t before actor cs d = Inr (ended, d') \<Longrightarrow> record_change d d'"
proof (induction cs arbitrary: d ended)
  case (Cons c cs)
  from Cons.prems obtain changed d1 d2 where
    "update_sessions (\<lambda>r. ds_id r = ds_id c \<and> ds_ended_at r = None)
       (\<lambda>r. r\<lparr>ds_ended_at := Some (max (ds_created_at r) (tx_clock t))\<rparr>) d = Inr (changed, d1)"
    and a: "\<exists>row p audit. insert_audit t actor ''debug_session.ended'' row p d1 = Inr (audit, d2)"
    and r: "\<exists>rest. end_sessions t before actor cs d2 = Inr (rest, d')"
    by (simp add: Let_def result_inv split_paired_Ex split_paired_all case_prod_beta) (elim exE conjE, blast)
  then have "record_change d d1" by (auto simp: session_evolves_def elim!: update_sessions_change [rotated])
  moreover have "record_change d1 d2" using a insert_audit_change by blast
  moreover have "record_change d2 d'" using r Cons.IH by blast
  ultimately show ?case using record_change_trans by metis
qed simp

lemma session_changes:
  "record_change d (snd (append_audit t a c s p d))"
  "record_change d (snd (create_debug_session t i job jti cb m e d))"
  "record_change d (snd (create_debug_session_with_audit t i job jti cb m e p d))"
  "record_change d (snd (end_debug_session t sid d))"
  "record_change d (snd (end_expired_or_terminal_debug_sessions_with_audit t before actor n d))"
proof -
  show "record_change d (snd (append_audit t a c s p d))" unfolding append_audit_def
    by (rule record_commit) (auto simp: statement_inv dest: insert_audit_change)
  show "record_change d (snd (create_debug_session t i job jti cb m e d))" unfolding create_debug_session_def
    by (rule record_commit)
      (auto simp: statement_inv intro: record_change_trans dest!: end_expired_change insert_session_change)
  show "record_change d (snd (create_debug_session_with_audit t i job jti cb m e p d))"
    unfolding create_debug_session_with_audit_def audited_session_body_def
    by (rule record_commit)
      (auto simp: statement_inv intro: record_change_trans dest!: end_expired_change insert_session_change insert_audit_change)
  show "record_change d (snd (end_debug_session t sid d))" unfolding end_debug_session_def
    by (rule record_commit) (auto simp: session_evolves_def split: option.splits elim!: update_sessions_change [rotated])
  show "record_change d (snd (end_expired_or_terminal_debug_sessions_with_audit t before actor n d))"
    unfolding end_expired_or_terminal_debug_sessions_with_audit_def ending_body_def
    by (rule record_commit) (auto simp: statement_inv dest: end_sessions_change)
qed

end
