(* ===== verification/Repo_System.thy ===== *)
theory Repo_System
  imports Repo_Invariants Repo_Records
begin

text \<open>
  The repository as a system: a step is one call of one operation.  Every step keeps the invariant
  (rows and reservations, quotas, event log, outbox) and lets the data evolve in a restricted way:
  requests are immutable, terminal rows are frozen, the log is append-only, published messages are
  final.  The system is an instance of \<open>monotone_system\<close>.
\<close>

section \<open>How a job row may evolve\<close>

definition same_request :: "JobRow \<Rightarrow> JobRow \<Rightarrow> bool" where
  "same_request r r' \<longleftrightarrow> jr_id r' = jr_id r \<and> jr_project_id r' = jr_project_id r
     \<and> jr_idempotency_key r' = jr_idempotency_key r \<and> jr_apk_upload_id r' = jr_apk_upload_id r
     \<and> jr_test_upload_id r' = jr_test_upload_id r \<and> jr_runtime_profile_id r' = jr_runtime_profile_id r
     \<and> jr_mode r' = jr_mode r \<and> jr_min_isolation r' = jr_min_isolation r \<and> jr_automation r' = jr_automation r
     \<and> jr_requested_artifacts r' = jr_requested_artifacts r \<and> jr_timeout_seconds r' = jr_timeout_seconds r
     \<and> jr_created_at r' = jr_created_at r"

definition row_evolves :: "JobRow \<Rightarrow> JobRow \<Rightarrow> bool" where
  "row_evolves r r' \<longleftrightarrow> same_request r r' \<and> jr_delivery_attempts r \<le> jr_delivery_attempts r'
     \<and> (jr_started_at r \<noteq> None \<longrightarrow> jr_started_at r' = jr_started_at r)
     \<and> (is_terminal (jr_state r) \<longrightarrow> r' = r)"

definition leased :: "JobRow \<Rightarrow> bool" where
  "leased r \<longleftrightarrow> jr_lease_id r \<noteq> None \<and> \<not> is_terminal (jr_state r)"

text \<open>A row evolution that takes no lease; only a claim takes one.\<close>

definition row_settles :: "JobRow \<Rightarrow> JobRow \<Rightarrow> bool" where
  "row_settles r r' \<longleftrightarrow> row_evolves r r' \<and> (leased r' \<longrightarrow> leased r)"

text \<open>The event log and the outbox only grow, with consecutive numbers, and the other tables stay.\<close>

definition log_grows :: "db \<Rightarrow> db \<Rightarrow> bool" where
  "log_grows d d' \<longleftrightarrow> db_event_sequence d \<le> db_event_sequence d'
     \<and> (\<exists>evs. db_job_events d' = db_job_events d @ evs
          \<and> map er_sequence evs = [db_event_sequence d + 1..db_event_sequence d'])"

definition tables_grow :: "db \<Rightarrow> db \<Rightarrow> bool" where
  "tables_grow d d' \<longleftrightarrow> log_grows d d' \<and> outbox_ext d d' \<and> same_static d d'"

text \<open>Rows change in place by a row relation.\<close>

definition steady :: "(JobRow \<Rightarrow> JobRow \<Rightarrow> bool) \<Rightarrow> db \<Rightarrow> db \<Rightarrow> bool" where
  "steady R d d' \<longleftrightarrow> (\<exists>f. db_jobs d' = map f (db_jobs d) \<and> (\<forall>r \<in> set (db_jobs d). R r (f r)))
     \<and> tables_grow d d'"

text \<open>Outbox messages keep their identity, and published ones do not change at all.\<close>

definition outbox_keeps :: "db \<Rightarrow> db \<Rightarrow> bool" where
  "outbox_keeps d d' \<longleftrightarrow> (\<forall>r \<in> set (db_outbox d). \<exists>r' \<in> set (db_outbox d'). ob_id r' = ob_id r
     \<and> ob_event_key r' = ob_event_key r \<and> ob_subject r' = ob_subject r \<and> ob_payload r' = ob_payload r
     \<and> (ob_published_at r \<noteq> None \<longrightarrow> r' = r))"

text \<open>Besides, new job rows may be appended, outbox rows may change, and so may the other tables.\<close>

definition evolves :: "db \<Rightarrow> db \<Rightarrow> bool" where
  "evolves d d' \<longleftrightarrow> (\<exists>f new. db_jobs d' = map f (db_jobs d) @ new \<and> (\<forall>r \<in> set (db_jobs d). row_evolves r (f r)))
     \<and> log_grows d d' \<and> outbox_keeps d d' \<and> records_keep d d'"

lemma outbox_keeps_refl: "db_outbox d' = db_outbox d \<Longrightarrow> outbox_keeps d d'"
  by (auto simp: outbox_keeps_def)

lemma outbox_keeps_trans: "outbox_keeps a b \<Longrightarrow> outbox_keeps b c \<Longrightarrow> outbox_keeps a c"
  unfolding outbox_keeps_def by (metis (no_types, lifting))

lemma outbox_ext_keeps: "outbox_ext d d' \<Longrightarrow> outbox_keeps d d'"
  by (auto simp: outbox_ext_def outbox_keeps_def)

lemma row_evolves_refl [simp]: "row_evolves r r"
  by (simp add: row_evolves_def same_request_def)

lemma row_evolves_trans: "row_evolves a b \<Longrightarrow> row_evolves b c \<Longrightarrow> row_evolves a c"
  by (auto simp: row_evolves_def same_request_def)

lemma row_settles_refl: "row_settles r r"
  by (simp add: row_settles_def)

lemma row_settles_trans: "row_settles a b \<Longrightarrow> row_settles b c \<Longrightarrow> row_settles a c"
  by (auto simp: row_settles_def intro: row_evolves_trans)

lemma same_static_refl [simp]: "same_static d d"
  by (simp add: same_static_def)

lemma same_static_trans: "same_static a b \<Longrightarrow> same_static b c \<Longrightarrow> same_static a c"
  by (simp add: same_static_def)

lemma log_grows_same:
  "db_job_events d' = db_job_events d \<Longrightarrow> db_event_sequence d' = db_event_sequence d \<Longrightarrow> log_grows d d'"
  by (simp add: log_grows_def)

lemma log_grows_trans: "log_grows a b \<Longrightarrow> log_grows b c \<Longrightarrow> log_grows a c"
proof -
  assume ab: "log_grows a b" and bc: "log_grows b c"
  let ?l = "db_event_sequence a" and ?n = "db_event_sequence b" and ?m = "db_event_sequence c"
  have n: "?l \<le> ?n" "?n \<le> ?m" using ab bc by (simp_all add: log_grows_def)
  then have "[?l + 1..?m] = [?l + 1..?n] @ [?n + 1..?m]"
    using upto_split2 [of "?l + 1" ?n ?m] by (cases "?l = ?n") auto
  moreover obtain es fs where "db_job_events b = db_job_events a @ es" "map er_sequence es = [?l + 1..?n]"
    "db_job_events c = db_job_events b @ fs" "map er_sequence fs = [?n + 1..?m]"
    using ab bc by (auto simp: log_grows_def)
  ultimately show ?thesis using n by (auto simp: log_grows_def intro!: exI [of _ "es @ fs"])
qed

lemma tables_grow_trans: "tables_grow a b \<Longrightarrow> tables_grow b c \<Longrightarrow> tables_grow a c"
  unfolding tables_grow_def using log_grows_trans outbox_ext_trans same_static_trans by blast

lemma tables_grow_same:
  assumes "db_job_events d' = db_job_events d" "db_event_sequence d' = db_event_sequence d"
    "db_outbox d' = db_outbox d" "db_outbox_sequence d' = db_outbox_sequence d" "same_static d d'"
  shows "tables_grow d d'"
  using assms by (simp add: tables_grow_def log_grows_same outbox_ext_refl)

lemma steady_refl [simp]: "steady row_settles d d" "steady row_evolves d d"
  by (auto simp: steady_def row_settles_refl tables_grow_same intro: exI [of _ "\<lambda>x. x"])

lemma steady_trans:
  assumes trans: "\<And>x y z. R x y \<Longrightarrow> R y z \<Longrightarrow> R x z" and ab: "steady R a b" and bc: "steady R b c"
  shows "steady R a c"
proof -
  obtain f where f: "db_jobs b = map f (db_jobs a)" "\<forall>r \<in> set (db_jobs a). R r (f r)"
    using ab by (auto simp: steady_def)
  obtain g where g: "db_jobs c = map g (db_jobs b)" "\<forall>r \<in> set (db_jobs b). R r (g r)"
    using bc by (auto simp: steady_def)
  have "db_jobs c = map (g \<circ> f) (db_jobs a)" "\<forall>r \<in> set (db_jobs a). R r ((g \<circ> f) r)"
    using f g by (auto intro: trans)
  then have "\<exists>h. db_jobs c = map h (db_jobs a) \<and> (\<forall>r \<in> set (db_jobs a). R r (h r))" by blast
  moreover have "tables_grow a c" using ab bc tables_grow_trans by (auto simp: steady_def)
  ultimately show ?thesis by (simp add: steady_def)
qed

lemma settle_trans: "steady row_settles a b \<Longrightarrow> steady row_settles b c \<Longrightarrow> steady row_settles a c"
  by (erule (1) steady_trans [rotated]) (rule row_settles_trans)

lemma evolve_trans: "steady row_evolves a b \<Longrightarrow> steady row_evolves b c \<Longrightarrow> steady row_evolves a c"
  by (erule (1) steady_trans [rotated]) (rule row_evolves_trans)

lemma steady_mono: "(\<And>x y. R x y \<Longrightarrow> S x y) \<Longrightarrow> steady R d d' \<Longrightarrow> steady S d d'"
  unfolding steady_def by blast

lemma settles_evolves: "steady row_settles d d' \<Longrightarrow> steady row_evolves d d'"
  by (erule steady_mono [rotated]) (simp add: row_settles_def)

lemma steady_evolves: "steady row_evolves d d' \<Longrightarrow> evolves d d'"
  unfolding steady_def evolves_def tables_grow_def by (metis append_Nil2 outbox_ext_keeps same_static_records)

lemma evolves_refl [simp]: "evolves d d"
  by (simp add: steady_evolves)

lemma evolves_trans: "evolves a b \<Longrightarrow> evolves b c \<Longrightarrow> evolves a c"
proof -
  assume ab: "evolves a b" and bc: "evolves b c"
  obtain f nf where f: "db_jobs b = map f (db_jobs a) @ nf" "\<forall>r \<in> set (db_jobs a). row_evolves r (f r)"
    using ab by (auto simp: evolves_def)
  obtain g ng where g: "db_jobs c = map g (db_jobs b) @ ng" "\<forall>r \<in> set (db_jobs b). row_evolves r (g r)"
    using bc by (auto simp: evolves_def)
  have "db_jobs c = map (g \<circ> f) (db_jobs a) @ (map g nf @ ng)" "\<forall>r \<in> set (db_jobs a). row_evolves r ((g \<circ> f) r)"
    using f g by (auto intro: row_evolves_trans)
  then have "\<exists>h new. db_jobs c = map h (db_jobs a) @ new \<and> (\<forall>r \<in> set (db_jobs a). row_evolves r (h r))" by blast
  moreover have "log_grows a c" "outbox_keeps a c"
    using ab bc log_grows_trans outbox_keeps_trans unfolding evolves_def by blast+
  moreover have "records_keep a c" using ab bc records_keep_trans by (auto simp: evolves_def)
  ultimately show ?thesis by (simp add: evolves_def)
qed

lemma steady_update:
  assumes "\<And>r. r \<in> set (db_jobs d) \<Longrightarrow> p r \<Longrightarrow> R r (f r)" and "\<And>r. R r r"
    and "db_jobs d' = update_rows p f (db_jobs d)" and "tables_grow d d'"
  shows "steady R d d'"
  unfolding steady_def using assms
  by (auto simp: update_rows_def intro!: exI [of _ "\<lambda>r. if p r then f r else r"])

lemma settles_jobs_same:
  assumes "db_jobs d' = db_jobs d" and "tables_grow d d'"
  shows "steady row_settles d d'"
  unfolding steady_def using assms by (auto simp: row_settles_refl intro: exI [of _ "\<lambda>x. x"])

lemma outbox_grows_tables: "outbox_grows d d' \<Longrightarrow> tables_grow d d'"
  by (simp add: tables_grow_def log_grows_same outbox_grows_frame)

lemma append_event_tables:
  assumes "append_event t evt job ty st ch pl d = Inr (ev, d')"
  shows "tables_grow d d'"
proof -
  from append_event_effect [OF assms] obtain row d1 where
    d1: "d1 = d\<lparr>db_job_events := db_job_events d @ [row], db_event_sequence := db_event_sequence d + 1\<rparr>"
    and g: "outbox_grows d1 d'" and row: "er_sequence row = db_event_sequence d + 1" by auto
  have "tables_grow d d1"
    using row by (auto simp: tables_grow_def log_grows_def outbox_ext_refl d1 same_static_def)
  then show ?thesis using outbox_grows_tables [OF g] tables_grow_trans by blast
qed

lemma append_event_settles:
  "append_event t evt job ty st ch pl d = Inr (ev, d') \<Longrightarrow> steady row_settles d d'"
  by (rule settles_jobs_same [OF append_event_frame(1) append_event_tables])

lemma outbox_grows_settles: "outbox_grows d d' \<Longrightarrow> steady row_settles d d'"
  by (rule settles_jobs_same [OF outbox_grows_frame(1) outbox_grows_tables])

lemma release_settles: "release_worker_capacity t w d = Inr d' \<Longrightarrow> steady row_settles d d'"
  by (rule settles_jobs_same) (auto simp: release_worker_capacity_eq_Inr same_static_def intro!: tables_grow_same)

lemmas evolve_defs = row_settles_def row_evolves_def same_request_def leased_def

lemma row_updates_settle:
  "\<not> is_terminal (jr_state r) \<Longrightarrow> row_settles r (cancel_update r)"
  "\<not> is_terminal (jr_state r) \<Longrightarrow> row_settles r (transition_update t to evi r)"
  "\<not> is_terminal (jr_state r) \<Longrightarrow> row_settles r (result_update res r)"
  "\<not> is_terminal (jr_state r) \<Longrightarrow> row_settles r (extension_update n s r)"
  by (auto simp: evolve_defs cancel_update_def transition_update_def Let_def
      result_update_def extension_update_def)

lemma claim_evolves: "jr_state r = Queued \<Longrightarrow> row_evolves r (claim_update w l e c r)"
  by (auto simp: evolve_defs claim_update_def)

lemma recovery_settles: "\<not> is_terminal (jr_state r) \<Longrightarrow> row_settles r (recovery_update k r)"
  by (cases k) (auto simp: evolve_defs finalize_update_def release_lease_def)

lemma create_body_evolves:
  assumes "create_body t new_job evt request key headers d = Inr (x, d')"
  shows "evolves d d'"
proof (cases "job_by_key (cr_project_id request) key d")
  case (Some row)
  then show ?thesis using assms by (auto simp: create_body_def statement_inv)
next
  case None
  obtain row created event where x: "x = (row, created, event)" by (cases x)
  from assms(1) [unfolded x] None show ?thesis
  proof (cases rule: create_body_newE)
    case (1 timeout d1 ev d2 profile queued)
    have "evolves d d1"
      unfolding evolves_def 1(8)
      by (auto simp: same_static_def log_grows_same outbox_keeps_refl intro: exI [of _ "\<lambda>x. x"] intro!: same_static_records)
    moreover have "steady row_settles d1 d'"
      using settle_trans append_event_settles [OF 1(9)]
        outbox_grows_settles [OF insert_job_queued_outbox_grows [OF 1(11)]] by blast
    ultimately show ?thesis using evolves_trans steady_evolves settles_evolves by blast
  qed
qed

lemma cancel_body_settles:
  assumes "cancel_body t evt job d = Inr (x, d')"
  shows "steady row_settles d d'"
proof -
  obtain row changed event where x: "x = (row, changed, event)" by (cases x)
  from assms(1) [unfolded x] show ?thesis
  proof (cases rule: cancel_bodyE)
    case (change current d1 ev)
    have "steady row_settles d d1"
      by (rule steady_update [of _ "cancel_where job (jr_state current)" _ cancel_update])
        (use change(2,8) row_updates_settle(1) row_settles_refl in \<open>auto simp: cancel_where_def same_static_def intro!: tables_grow_same\<close>)
    then show ?thesis using append_event_settles [OF change(9)] settle_trans by blast
  qed simp
qed

lemma claim_body_evolves:
  assumes "claim_body cs t evt job worker lease expires stale d = Inr (x, d')"
  shows "steady row_evolves d d'"
proof -
  obtain claimed profile where x: "x = (claimed, profile)" by (cases x)
  from assms(1) [unfolded x] show ?thesis
  proof (cases rule: claim_bodyE)
    case (1 row w p q d1 d2 ev pl)
    have "steady row_evolves d d2"
      by (rule steady_update [of _ p _ "claim_update worker lease expires (tx_clock t)"])
        (use 1(11,14,17) claim_evolves in \<open>auto simp: same_static_def intro!: tables_grow_same\<close>)
    then show ?thesis using settles_evolves [OF append_event_settles [OF 1(18)]] evolve_trans by blast
  qed
qed

lemma transition_body_settles:
  assumes "transition_body t evt job from to evi lease pl d = Inr (x, d')"
  shows "steady row_settles d d'"
  using assms
proof (cases rule: transition_bodyE)
  case (1 p d1 r0 d2 ev)
  have "steady row_settles d d1"
    by (rule steady_update [of _ p _ "transition_update t to evi"])
      (use 1(2,4) row_updates_settle(2) row_settles_refl lifecycle_not_from_terminal [OF 1(1)] in
        \<open>auto simp: transition_where_def same_static_def intro!: tables_grow_same\<close>)
  moreover have "steady row_settles d1 d2" using 1(7) release_settles by (auto split: if_splits option.splits)
  ultimately show ?thesis using append_event_settles [OF 1(8)] settle_trans by blast
qed

lemma result_body_settles:
  assumes "result_body t evt res d = Inr (x, d')"
  shows "steady row_settles d d'"
  using assms
proof (cases rule: result_bodyE)
  case (1 current d1 ev st pl)
  have "steady row_settles d d1"
    by (rule steady_update [of _ "result_where t res" _ "result_update res"])
      (use 1(6) row_updates_settle(3) row_settles_refl in \<open>auto simp: result_where_def same_static_def intro!: tables_grow_same\<close>)
  then show ?thesis using append_event_settles [OF 1(8)] settle_trans by blast
qed

lemma recover_body_settles:
  assumes "recover_body t evt stale max_deliver d = Inr (x, d')"
  shows "steady row_settles d d'"
proof (cases x)
  case None
  then show ?thesis using recover_body_None [OF assms [unfolded None]] by simp
next
  case (Some kr)
  obtain kind row where kr: "kr = (kind, row)" by (cases kr)
  from assms [unfolded Some kr] show ?thesis
  proof (cases rule: recover_body_SomeE)
    case (1 current d1 d2 d3 ev pl worker)
    have st: "st_state stale = jr_state current" using 1(2) by (simp add: snapshot_matches_def split: if_splits)
    have "steady row_settles d d1"
      by (rule steady_update [of _ "recovery_where stale" _ "recovery_update kind"])
        (use 1(4,9) st recovery_settles row_settles_refl in \<open>auto simp: recovery_where_def same_static_def intro!: tables_grow_same\<close>)
    moreover have "steady row_settles d1 d2" by (rule release_settles [OF 1(11)])
    moreover have "steady row_settles d2 d3" by (rule append_event_settles [OF 1(12)])
    moreover have "steady row_settles d3 d'"
      using 1(13) by (auto split: if_splits dest: enqueue_exhausted_grows intro: outbox_grows_settles)
    ultimately show ?thesis using settle_trans by blast
  qed
qed

lemma extend_leases_settles:
  assumes "extend_leases now secs w exts rc d = Inr (rc', d')"
  shows "steady row_settles d d'"
  using assms
proof (induction exts arbitrary: rc d)
  case (Cons ext exts)
  let ?d1 = "d\<lparr>db_jobs := update_rows (extension_where now w ext) (extension_update now secs) (db_jobs d)\<rparr>"
  from Cons.prems obtain rc1 where rest: "extend_leases now secs w exts rc1 ?d1 = Inr (rc', d')"
    by (auto simp: statement_inv)
  have "steady row_settles d ?d1"
    by (rule steady_update [of _ "extension_where now w ext" _ "extension_update now secs"])
      (use row_updates_settle(4) row_settles_refl in \<open>auto simp: extension_where_def same_static_def intro!: tables_grow_same\<close>)
  then show ?case using Cons.IH [OF rest] settle_trans by blast
qed simp

lemma heartbeat_body_settles:
  assumes "heartbeat_body t hb ttl d = Inr (x, d')"
  shows "steady row_settles d d'"
proof -
  from assms obtain d1 rc where d1: "d1 = d\<lparr>db_workers := update_rows (\<lambda>r. wk_id r = hb_worker_id hb)
      (heartbeat_update (tx_clock t) hb) (db_workers d)\<rparr>"
    and e: "extend_leases (tx_clock t) (num_seconds ttl) (hb_worker_id hb) (hb_lease_extends hb) rc d1 = Inr (x, d')"
    by (auto simp: heartbeat_body_def statement_inv update_workers_eq_Inr)
  have "steady row_settles d d1" by (rule settles_jobs_same) (auto simp: d1 same_static_def intro!: tables_grow_same)
  then show ?thesis using extend_leases_settles [OF e] settle_trans by blast
qed


section \<open>Quotas\<close>

definition quota_inv :: "db \<Rightarrow> bool" where
  "quota_inv d \<longleftrightarrow> distinct (map pr_id (db_projects d)) \<and> (\<forall>p \<in> set (db_projects d).
     int (active_project_jobs (pr_id p) d) \<le> pr_max_concurrent_jobs p
     \<and> int (outstanding_jobs (pr_id p) d) \<le> pr_max_outstanding_jobs p)
     \<and> (\<forall>r \<in> set (db_jobs d). jr_project_id r \<in> pr_id ` set (db_projects d))"

lemma count_rows_map_le:
  "(\<And>r. r \<in> set rs \<Longrightarrow> q (f r) \<Longrightarrow> q r) \<Longrightarrow> count_rows q (map f rs) \<le> count_rows q rs"
  by (induction rs) (auto simp: le_SucI)

lemma row_evolvesD:
  assumes "row_evolves r r'"
  shows "jr_project_id r' = jr_project_id r" "\<not> is_terminal (jr_state r') \<Longrightarrow> \<not> is_terminal (jr_state r)"
    "jr_id r' = jr_id r" "is_terminal (jr_state r) \<Longrightarrow> r' = r"
  using assms by (auto simp: row_evolves_def same_request_def)

lemma row_settlesD:
  assumes "row_settles r r'"
  shows "row_evolves r r'"
    "jr_lease_id r' \<noteq> None \<and> \<not> is_terminal (jr_state r') \<Longrightarrow> jr_lease_id r \<noteq> None \<and> \<not> is_terminal (jr_state r)"
  using assms by (simp_all add: row_settles_def leased_def)

lemma evolves_outstanding:
  assumes "steady row_evolves d d'"
  shows "outstanding_jobs p d' \<le> outstanding_jobs p d"
proof -
  obtain f where f: "db_jobs d' = map f (db_jobs d)" "\<And>r. r \<in> set (db_jobs d) \<Longrightarrow> row_evolves r (f r)"
    using assms by (auto simp: steady_def)
  show ?thesis unfolding outstanding_jobs_def f(1)
    by (rule count_rows_map_le) (use row_evolvesD(1,2) [OF f(2)] in auto)
qed

lemma settles_active:
  assumes "steady row_settles d d'"
  shows "active_project_jobs p d' \<le> active_project_jobs p d"
proof -
  obtain f where f: "db_jobs d' = map f (db_jobs d)" "\<And>r. r \<in> set (db_jobs d) \<Longrightarrow> row_settles r (f r)"
    using assms by (auto simp: steady_def)
  have "jr_project_id r = p \<and> jr_lease_id r \<noteq> None \<and> \<not> is_terminal (jr_state r)"
    if "r \<in> set (db_jobs d)" "jr_project_id (f r) = p \<and> jr_lease_id (f r) \<noteq> None \<and> \<not> is_terminal (jr_state (f r))" for r
    using row_settlesD(2) [OF f(2) [OF that(1)]] row_evolvesD(1) [OF row_settlesD(1) [OF f(2) [OF that(1)]]] that(2) by simp
  then show ?thesis unfolding active_project_jobs_def f(1) by (rule count_rows_map_le)
qed

lemmas settles_counts = settles_active evolves_outstanding [OF settles_evolves]

lemma settles_quota: "steady row_settles d d' \<Longrightarrow> quota_inv d \<Longrightarrow> quota_inv d'"
  unfolding quota_inv_def
proof (elim conjE, intro conjI ballI)
  assume s: "steady row_settles d d'" and q: "\<forall>p \<in> set (db_projects d).
     int (active_project_jobs (pr_id p) d) \<le> pr_max_concurrent_jobs p
     \<and> int (outstanding_jobs (pr_id p) d) \<le> pr_max_outstanding_jobs p"
    and dist: "distinct (map pr_id (db_projects d))"
    and ref: "\<forall>r \<in> set (db_jobs d). jr_project_id r \<in> pr_id ` set (db_projects d)"
  have pr: "db_projects d' = db_projects d" using s by (simp add: steady_def tables_grow_def same_static_def)
  show "distinct (map pr_id (db_projects d'))" using dist pr by simp
  show "jr_project_id r \<in> pr_id ` set (db_projects d')" if "r \<in> set (db_jobs d')" for r
    using s that ref row_evolvesD(1) row_settlesD(1) unfolding pr steady_def by fastforce
  fix p assume p: "p \<in> set (db_projects d')"
  show "int (active_project_jobs (pr_id p) d') \<le> pr_max_concurrent_jobs p"
    using settles_counts(1) [OF s, of "pr_id p"] q p pr by fastforce
  show "int (outstanding_jobs (pr_id p) d') \<le> pr_max_outstanding_jobs p"
    using settles_counts(2) [OF s, of "pr_id p"] q p pr by fastforce
qed

lemma select_project_unique:
  "distinct (map pr_id (db_projects d)) \<Longrightarrow> p \<in> set (db_projects d) \<Longrightarrow> select_project (pr_id p) d = Some p"
  unfolding select_project_def by (rule select_one_key)

lemma check_concurrent_quota_ok:
  "check_concurrent_quota project d = Inr u \<Longrightarrow>
     \<exists>p. select_project project d = Some p \<and> int (active_project_jobs project d) < pr_max_concurrent_jobs p"
  by (auto simp: check_concurrent_quota_def result_inv split: if_splits)

lemma check_outstanding_quota_ok:
  "check_outstanding_quota project d = Inr u \<Longrightarrow>
     \<exists>p. select_project project d = Some p \<and> int (outstanding_jobs project d) < pr_max_outstanding_jobs p"
  by (auto simp: check_outstanding_quota_def result_inv split: if_splits)

lemma select_project_SomeD: "select_project project d = Some p \<Longrightarrow> p \<in> set (db_projects d) \<and> pr_id p = project"
  unfolding select_project_def by (drule select_one_SomeD) simp

lemma quota_raise:
  assumes q: "quota_inv d" and pr: "db_projects d' = db_projects d"
    and sel: "select_project project d = Some pj"
    and act: "\<And>p. active_project_jobs p d' \<le> active_project_jobs p d + (if p = project then a else 0)"
    and out: "\<And>p. outstanding_jobs p d' \<le> outstanding_jobs p d + (if p = project then b else 0)"
    and ref: "\<forall>r \<in> set (db_jobs d'). jr_project_id r \<in> pr_id ` set (db_projects d)"
    and room: "int (active_project_jobs project d + a) \<le> pr_max_concurrent_jobs pj"
      "int (outstanding_jobs project d + b) \<le> pr_max_outstanding_jobs pj"
  shows "quota_inv d'"
proof -
  have dist: "distinct (map pr_id (db_projects d))" using q by (simp add: quota_inv_def)
  have "int (active_project_jobs (pr_id p) d') \<le> pr_max_concurrent_jobs p
     \<and> int (outstanding_jobs (pr_id p) d') \<le> pr_max_outstanding_jobs p" if p: "p \<in> set (db_projects d)" for p
  proof (cases "pr_id p = project")
    case True
    then have "p = pj" using select_project_unique [OF dist p] sel by simp
    then show ?thesis using True room act [of "pr_id p"] out [of "pr_id p"] by simp
  next
    case False
    then show ?thesis using q p act [of "pr_id p"] out [of "pr_id p"] by (fastforce simp: quota_inv_def)
  qed
  then show ?thesis using dist pr ref by (simp add: quota_inv_def)
qed

lemma create_body_quota:
  assumes "create_body t new_job evt request key headers d = Inr (x, d')" and q: "quota_inv d"
  shows "quota_inv d'"
proof (cases "job_by_key (cr_project_id request) key d")
  case (Some row)
  then show ?thesis using assms by (auto simp: create_body_def statement_inv)
next
  case None
  obtain row created event where x: "x = (row, created, event)" by (cases x)
  from assms(1) [unfolded x] None show ?thesis
  proof (cases rule: create_body_newE)
    case (1 timeout d1 ev d2 profile queued)
    let ?p = "cr_project_id request"
    obtain pj where pj: "select_project ?p d = Some pj" "int (outstanding_jobs ?p d) < pr_max_outstanding_jobs pj"
      using check_outstanding_quota_ok [OF 1(6)] by blast
    have "int (active_project_jobs ?p d) \<le> pr_max_concurrent_jobs pj"
      using q select_project_SomeD [OF pj(1)] by (auto simp: quota_inv_def)
    then have "quota_inv d1"
      using pj by (intro quota_raise [OF q _ pj(1), of d1 0 1])
        (use q conjunct1 [OF select_project_SomeD [OF pj(1)]] conjunct2 [OF select_project_SomeD [OF pj(1)], symmetric]
         in \<open>auto simp: 1(1,8) active_project_jobs_def outstanding_jobs_def quota_inv_def new_job_row_def\<close>)
    moreover have "steady row_settles d1 d'"
      using settle_trans append_event_settles [OF 1(9)]
        outbox_grows_settles [OF insert_job_queued_outbox_grows [OF 1(11)]] by blast
    ultimately show ?thesis using settles_quota by blast
  qed
qed

lemma claim_body_quota:
  assumes "claim_body cs t evt job worker lease expires stale d = Inr (x, d')" and q: "quota_inv d" and inv: "repo_inv d"
  shows "quota_inv d'"
proof -
  obtain claimed profile where x: "x = (claimed, profile)" by (cases x)
  have dj: "distinct (map jr_id (db_jobs d))" using inv core_invD(1) by (auto simp: repo_inv_def)
  from assms(1) [unfolded x] show ?thesis
  proof (cases rule: claim_bodyE)
    case (1 row w p qq d1 d2 ev pl)
    let ?f = "claim_update worker lease expires (tx_clock t)" and ?p = "jr_project_id row"
    note c = lock_job_SomeD [OF 1(1)]
    obtain pj where pj: "select_project ?p d = Some pj" "int (active_project_jobs ?p d) < pr_max_concurrent_jobs pj"
      using check_concurrent_quota_ok [OF 1(5)] by blast
    have d2: "db_jobs d2 = update_rows p ?f (db_jobs d)" "db_projects d2 = db_projects d" by (simp_all add: 1(14,17))
    have pr: "p row" "\<And>y. y \<in> set (db_jobs d) \<Longrightarrow> p y \<Longrightarrow> jr_id y = jr_id row" using c 1(2-4,11) by auto
    have act: "active_project_jobs v d2 \<le> active_project_jobs v d + (if v = ?p then 1 else 0)" for v
      using count_rows_update_key [where p = p and k = jr_id, OF dj conjunct1 [OF c] pr,
          of "\<lambda>r. jr_project_id r = v \<and> jr_lease_id r \<noteq> None \<and> \<not> is_terminal (jr_state r)" ?f]
      unfolding active_project_jobs_def d2(1) by (auto simp: claim_update_def split: if_splits)
    have "steady row_evolves d d2"
      by (rule steady_update [of _ p _ ?f])
        (use 1(11,14,17) claim_evolves in \<open>auto simp: same_static_def intro!: tables_grow_same\<close>)
    note out = evolves_outstanding [OF this]
    have "int (outstanding_jobs ?p d) \<le> pr_max_outstanding_jobs pj"
      using q select_project_SomeD [OF pj(1)] by (auto simp: quota_inv_def)
    moreover have "\<forall>r \<in> set (db_jobs d2). jr_project_id r \<in> pr_id ` set (db_projects d)"
      using q by (auto simp: quota_inv_def d2(1) update_rows_def claim_update_def)
    ultimately have "quota_inv d2"
      using pj act out by (intro quota_raise [OF q d2(2) pj(1), of 1 0]) auto
    then show ?thesis using append_event_settles [OF 1(18)] settles_quota by blast
  qed
qed


section \<open>Log and outbox\<close>

definition log_inv :: "db \<Rightarrow> bool" where
  "log_inv d \<longleftrightarrow> sorted_wrt (<) (map er_sequence (db_job_events d))
     \<and> (\<forall>e \<in> set (db_job_events d). er_sequence e \<le> db_event_sequence d)"

definition outbox_inv :: "db \<Rightarrow> bool" where
  "outbox_inv d \<longleftrightarrow> distinct (map ob_event_key (db_outbox d)) \<and> distinct (map ob_id (db_outbox d))
     \<and> (\<forall>r \<in> set (db_outbox d). ob_id r \<le> db_outbox_sequence d \<and> outbox_violation r = None)"

lemma sorted_wrt_upto: "sorted_wrt (<) [i..j]" for i j :: int
  by (induction i j rule: upto.induct) (subst upto.simps, auto)

lemma log_grows_inv: "log_grows d d' \<Longrightarrow> log_inv d \<Longrightarrow> log_inv d'"
proof -
  assume g: "log_grows d d'" and i: "log_inv d"
  obtain es where es: "db_job_events d' = db_job_events d @ es"
    "map er_sequence es = [db_event_sequence d + 1..db_event_sequence d']"
    and le: "db_event_sequence d \<le> db_event_sequence d'" using g by (auto simp: log_grows_def)
  have m: "er_sequence e \<in> {db_event_sequence d + 1..db_event_sequence d'}" if "e \<in> set es" for e
    using arg_cong [OF es(2), of set] that by (auto simp: image_iff)
  have "sorted_wrt (<) (map er_sequence (db_job_events d'))"
    unfolding es(1) map_append es(2) sorted_wrt_append
    using i by (fastforce simp: log_inv_def sorted_wrt_upto)
  moreover have "\<forall>e \<in> set (db_job_events d'). er_sequence e \<le> db_event_sequence d'"
    using i m le unfolding es(1) log_inv_def by fastforce
  ultimately show ?thesis by (simp add: log_inv_def)
qed

lemma outbox_ext_inv: "outbox_ext d d' \<Longrightarrow> outbox_inv d \<Longrightarrow> outbox_inv d'"
proof -
  assume g: "outbox_ext d d'" and i: "outbox_inv d"
  obtain rs where rs: "db_outbox d' = db_outbox d @ rs" and a: "outbox_added rs (db_outbox_sequence d') d"
    using g by (auto simp: outbox_ext_def)
  have m: "ob_id r \<in> {db_outbox_sequence d + 1..db_outbox_sequence d'}" if "r \<in> set rs" for r
  proof -
    have "set (map ob_id rs) = {db_outbox_sequence d + 1..db_outbox_sequence d'}"
      using a by (simp add: outbox_added_def del: set_map)
    then show ?thesis using that by auto
  qed
  have "distinct (map ob_id rs)" using a by (simp add: outbox_added_def)
  moreover have "ob_id ` set (db_outbox d) \<inter> ob_id ` set rs = {}"
    using m i by (fastforce simp: outbox_inv_def)
  ultimately have "distinct (map ob_id (db_outbox d'))" using i by (simp add: rs outbox_inv_def)
  moreover have "distinct (map ob_event_key (db_outbox d'))"
    using i a by (auto simp: rs outbox_inv_def outbox_added_def)
  moreover have "\<forall>r \<in> set (db_outbox d'). ob_id r \<le> db_outbox_sequence d' \<and> outbox_violation r = None"
    using i a m unfolding rs outbox_inv_def outbox_added_def by fastforce
  ultimately show ?thesis by (simp add: outbox_inv_def)
qed

text \<open>An operation on outbox rows in place.\<close>

definition outbox_only :: "db \<Rightarrow> db \<Rightarrow> bool" where
  "outbox_only d d' \<longleftrightarrow> (\<exists>p f. d' = d\<lparr>db_outbox := update_rows p f (db_outbox d)\<rparr>
     \<and> (\<forall>r. ob_id (f r) = ob_id r \<and> ob_event_key (f r) = ob_event_key r \<and> ob_subject (f r) = ob_subject r
          \<and> ob_payload (f r) = ob_payload r)
     \<and> (\<forall>r \<in> set (db_outbox d). p r \<longrightarrow> ob_published_at r = None \<and> outbox_violation (f r) = None))"

lemma outbox_only_refl [simp]: "outbox_only d d"
  unfolding outbox_only_def
  by (rule exI [of _ "\<lambda>_. False"], rule exI [of _ "\<lambda>r. r"]) (simp add: update_rows_def)

lemma outbox_only_inv:
  assumes "outbox_only d d'" and i: "outbox_inv d"
  shows "outbox_inv d'"
proof -
  obtain p f where d': "d' = d\<lparr>db_outbox := update_rows p f (db_outbox d)\<rparr>"
    and f: "\<And>r. ob_id (f r) = ob_id r" "\<And>r. ob_event_key (f r) = ob_event_key r"
      "\<And>r. r \<in> set (db_outbox d) \<Longrightarrow> p r \<Longrightarrow> outbox_violation (f r) = None"
    using assms(1) by (auto simp: outbox_only_def)
  have "ob_id r \<le> db_outbox_sequence d \<and> outbox_violation r = None" if "r \<in> set (update_rows p f (db_outbox d))" for r
    using that by (cases rule: in_update_rowsE) (use i f in \<open>auto simp: outbox_inv_def\<close>)
  then show ?thesis using i by (simp add: outbox_inv_def d' distinct_update_rows f)
qed

lemma lease_rows_only:
  assumes "outbox_inv d" and "lease_rows t disp subj ttl n d = Inr (x, d')"
  shows "outbox_only d d'"
proof -
  let ?sel = "take (nat n) (sort_key outbox_order (filter (outbox_candidate (tx_clock t) subj ttl) (db_outbox d)))"
  have unp: "ob_published_at r = None" if r: "r \<in> set (db_outbox d)" "ob_id r \<in> set (map ob_id ?sel)" for r
  proof -
    from r(2) obtain s where s: "s \<in> set ?sel" "ob_id s = ob_id r" by auto
    then have "s \<in> set (db_outbox d)" "outbox_candidate (tx_clock t) subj ttl s"
      by (auto dest: in_set_takeD)
    moreover have "s = r" using distinct_key_eq [of ob_id "db_outbox d" s r] assms(1) s r calculation(1)
      by (simp add: outbox_inv_def)
    ultimately show ?thesis by (simp add: outbox_candidate_def)
  qed
  from assms(2) show ?thesis
    unfolding outbox_only_def lease_rows_def Let_def
    by (auto simp: statement_inv simp del: set_map intro!: exI unp)
qed

lemma update_outbox_row_only:
  assumes "update_outbox_row p f e d = Inr (x, d')" and "\<And>r. p r \<Longrightarrow> ob_published_at r = None"
    and "\<And>r. ob_id (f r) = ob_id r \<and> ob_event_key (f r) = ob_event_key r \<and> ob_subject (f r) = ob_subject r
      \<and> ob_payload (f r) = ob_payload r"
  shows "outbox_only d d'"
  using assms unfolding outbox_only_def update_outbox_row_def
  by (auto simp: statement_inv split: list.splits intro!: exI [of _ p] exI [of _ f])


section \<open>The system\<close>

definition db_initial :: "db \<Rightarrow> bool" where
  "db_initial d \<longleftrightarrow> db_jobs d = [] \<and> db_workers d = [] \<and> db_job_events d = [] \<and> db_event_sequence d = 0
     \<and> db_artifacts d = [] \<and> db_outbox d = [] \<and> db_outbox_sequence d = 0
     \<and> db_api_keys d = [] \<and> db_debug_sessions d = [] \<and> db_audit_log d = [] \<and> db_audit_sequence d = 0
     \<and> distinct (map pr_id (db_projects d))
     \<and> (\<forall>p \<in> set (db_projects d). 1 \<le> pr_max_concurrent_jobs p \<and> pr_max_concurrent_jobs p \<le> pr_max_outstanding_jobs p)"

text \<open>One step is one call of a repository operation, with any arguments, successful or not.\<close>

inductive repo_step :: "db \<Rightarrow> db \<Rightarrow> bool" where
  create: "repo_step d (snd (create_job_with_outbox t new_job evt request key headers d))"
| cancel: "repo_step d (snd (request_job_cancellation t evt job d))"
| claim: "repo_step d (snd (claim_job_with_options cs t evt job worker lease expires stale_after d))"
| transition: "repo_step d (snd (transition_job_state t evt job from to evi guard payload d))"
| result: "repo_step d (snd (record_job_result t evt res d))"
| recover: "repo_step d (snd (recover_stale_job t evt stale max_deliver d))"
| event: "repo_step d (snd (append_job_event t evt job ty st payload d))"
| artifact: "repo_step d (snd (add_artifact t art job kind s3_key name bytes sha d))"
| register: "repo_step d (snd (upsert_worker t reg d))"
| heartbeat: "repo_step d (snd (record_heartbeat t hb ttl d))"
| worker_state: "repo_step d (snd (set_worker_state t worker ws d))"
| lease: "repo_step d (snd (lease_outbox_messages t dispatcher ttl n d))"
| lease_subject: "repo_step d (snd (lease_outbox_messages_for_subject t dispatcher subject ttl n d))"
| publish: "repo_step d (snd (mark_outbox_published t message dispatcher d))"
| retry: "repo_step d (snd (retry_outbox_message t message dispatcher available_at last_error d))"
| dead_letter: "repo_step d (snd (enqueue_job_dead_letter t dl headers d))"
| project: "repo_step d (snd (create_project t new_project name owner d))"
| project_with_key: "repo_step d (snd (create_project_with_api_key sha256 b64 t new_project new_key random name owner scopes d))"
| api_key: "repo_step d (snd (create_api_key sha256 b64 t new_key random project scopes d))"
| revoke: "repo_step d (snd (revoke_api_key t key d))"
| touch: "repo_step d (snd (touch_api_key_last_used t key d))"
| upload: "repo_step d (snd (create_upload t new_upload project kind s3_key sha bytes d))"
| webhook: "repo_step d (snd (create_webhook t new_webhook request d))"
| deactivate: "repo_step d (snd (deactivate_webhook hook d))"
| audit: "repo_step d (snd (append_audit t actor action subject payload d))"
| session: "repo_step d (snd (create_debug_session t new_session job jti creator mode expires d))"
| audited_session: "repo_step d (snd (create_debug_session_with_audit t new_session job jti creator mode expires payload d))"
| end_session: "repo_step d (snd (end_debug_session t sess d))"
| end_sessions: "repo_step d (snd (end_expired_or_terminal_debug_sessions_with_audit t before actor n d))"

definition full_inv :: "db \<Rightarrow> bool" where
  "full_inv d \<longleftrightarrow> repo_inv d \<and> quota_inv d \<and> log_inv d \<and> outbox_inv d \<and> records_inv d"

text \<open>The effect of one step: the invariant, and the evolution of jobs and log.\<close>

definition good_step :: "db \<Rightarrow> db \<Rightarrow> bool" where
  "good_step d d' \<longleftrightarrow> full_inv d' \<and> evolves d d'"

lemma good_step_refl: "full_inv d \<Longrightarrow> good_step d d"
  by (simp add: good_step_def)

lemma good_commit:
  assumes "full_inv d" and "\<And>x d'. body = Inr (x, d') \<Longrightarrow> good_step d d'"
  shows "good_step d (snd (commit_then body post d))"
  using assms good_step_refl by (auto simp: commit_then_snd split: sum.splits)

lemma good_settle:
  assumes "full_inv d" and "steady row_settles d d'" and "repo_inv d'"
  shows "good_step d d'"
proof -
  have g: "log_grows d d'" "outbox_ext d d'" "same_static d d'" using assms(2) by (simp_all add: steady_def tables_grow_def)
  have "evolves d d'" by (rule steady_evolves [OF settles_evolves [OF assms(2)]])
  moreover have "full_inv d'"
    using assms(1,3) settles_quota [OF assms(2)] log_grows_inv [OF g(1)] outbox_ext_inv [OF g(2)] same_static_records_inv [OF g(3)]
    by (simp add: full_inv_def)
  ultimately show ?thesis by (simp add: good_step_def)
qed

lemma outbox_only_keeps:
  assumes "outbox_only d d'"
  shows "outbox_keeps d d'"
proof -
  obtain p f where d': "db_outbox d' = update_rows p f (db_outbox d)"
    and f: "\<And>r. ob_id (f r) = ob_id r \<and> ob_event_key (f r) = ob_event_key r \<and> ob_subject (f r) = ob_subject r
      \<and> ob_payload (f r) = ob_payload r" "\<And>r. r \<in> set (db_outbox d) \<Longrightarrow> p r \<Longrightarrow> ob_published_at r = None"
    using assms by (auto simp: outbox_only_def)
  have "(if p r then f r else r) \<in> set (db_outbox d')" if "r \<in> set (db_outbox d)" for r
    using that by (auto simp: d' update_rows_def)
  moreover have "ob_published_at r \<noteq> None \<longrightarrow> (if p r then f r else r) = r" if "r \<in> set (db_outbox d)" for r
    using f(2) [OF that] by auto
  ultimately have "\<exists>r' \<in> set (db_outbox d'). ob_id r' = ob_id r \<and> ob_event_key r' = ob_event_key r
      \<and> ob_subject r' = ob_subject r \<and> ob_payload r' = ob_payload r \<and> (ob_published_at r \<noteq> None \<longrightarrow> r' = r)"
    if "r \<in> set (db_outbox d)" for r
    using that f(1) [of r] by (intro bexI [of _ "if p r then f r else r"]) auto
  then show ?thesis by (simp add: outbox_keeps_def)
qed

lemma good_outbox:
  assumes "full_inv d" and "outbox_only d d'"
  shows "good_step d d'"
proof -
  have "outbox_keeps d d'" by (rule outbox_only_keeps [OF assms(2)])
  moreover have "same_static d d'" using assms(2) by (auto simp: outbox_only_def same_static_def)
  ultimately have "repo_inv d'" "quota_inv d'" "log_inv d'" "evolves d d'" "records_inv d'"
    using assms by (auto simp: outbox_only_def full_inv_def repo_inv_def quota_inv_def log_inv_def evolves_def
        active_project_jobs_def outstanding_jobs_def log_grows_same same_static_records same_static_records_inv
        intro!: exI [of _ "\<lambda>x. x"])
  then show ?thesis using assms outbox_only_inv by (simp add: good_step_def full_inv_def)
qed

lemma good_records:
  assumes "full_inv d" and "record_change d d'"
  shows "good_step d d'"
proof -
  obtain new where new: "db_projects d' = db_projects d @ new" using record_change_keeps [OF assms(2)] by blast
  have same: "db_jobs d' = db_jobs d" "db_workers d' = db_workers d" "db_job_events d' = db_job_events d"
    "db_event_sequence d' = db_event_sequence d" "db_outbox d' = db_outbox d" "db_outbox_sequence d' = db_outbox_sequence d"
    "records_keep d d'" "records_inv d'"
    using assms by (auto simp: record_change_def full_inv_def)
  have q: "distinct (map pr_id (db_projects d))" "\<forall>r \<in> set (db_jobs d). jr_project_id r \<in> pr_id ` set (db_projects d)"
    using assms(1) by (auto simp: full_inv_def quota_inv_def)
  have fresh: "distinct (map pr_id (db_projects d @ new))" "\<forall>p \<in> set new. 0 \<le> pr_max_concurrent_jobs p \<and> 0 \<le> pr_max_outstanding_jobs p"
    using assms(2) q(1) new by (auto simp: record_change_def)
  have "count_rows (\<lambda>r. jr_project_id r = pr_id p \<and> P r) (db_jobs d) = 0" if "p \<in> set new" for p P
    using q(2) fresh(1) that by (fastforce simp: count_rows_def filter_empty_conv)
  then have "quota_inv d'"
    using assms(1) fresh same(1) q(2) new by (auto simp: full_inv_def quota_inv_def active_project_jobs_def outstanding_jobs_def)
  then have "full_inv d'" using assms(1) same by (auto simp: full_inv_def repo_inv_def log_inv_def outbox_inv_def)
  moreover have "evolves d d'" using same
    by (auto simp: evolves_def log_grows_same outbox_keeps_refl intro: exI [of _ "\<lambda>x. x"])
  ultimately show ?thesis by (simp add: good_step_def)
qed

lemma create_body_tables:
  assumes "create_body t new_job evt request key headers d = Inr (x, d')"
  shows "tables_grow d d'"
proof (cases "job_by_key (cr_project_id request) key d")
  case (Some row)
  then show ?thesis using assms by (auto simp: create_body_def statement_inv intro: tables_grow_same)
next
  case None
  obtain row created event where x: "x = (row, created, event)" by (cases x)
  from assms(1) [unfolded x] None show ?thesis
  proof (cases rule: create_body_newE)
    case (1 timeout d1 ev d2 profile queued)
    have "tables_grow d d1" by (rule tables_grow_same) (simp_all add: 1(8) same_static_def)
    then show ?thesis
      using append_event_tables [OF 1(9)] outbox_grows_tables [OF insert_job_queued_outbox_grows [OF 1(11)]]
        tables_grow_trans by blast
  qed
qed

lemma good_grow:
  assumes "full_inv d" and "repo_inv d'" and "quota_inv d'" and "tables_grow d d'" and "evolves d d'"
  shows "good_step d d'"
  using assms log_grows_inv outbox_ext_inv same_static_records_inv by (auto simp: good_step_def full_inv_def tables_grow_def)

lemma good_create:
  assumes "full_inv d" and "create_body t nj evt rq k h d = Inr (x, d')"
  shows "good_step d d'"
  by (rule good_grow [OF assms(1) create_body_inv [OF assms(2)] create_body_quota [OF assms(2)]
        create_body_tables [OF assms(2)] create_body_evolves [OF assms(2)]])
    (use assms(1) in \<open>simp_all add: full_inv_def\<close>)

lemma good_claim:
  assumes "full_inv d" and "claim_body cs t evt job w l e sa d = Inr (x, d')"
  shows "good_step d d'"
proof -
  have s: "steady row_evolves d d'" by (rule claim_body_evolves [OF assms(2)])
  show ?thesis
    by (rule good_grow [OF assms(1) claim_body_inv [OF assms(2)] claim_body_quota [OF assms(2)] _ steady_evolves [OF s]])
      (use assms(1) s in \<open>auto simp: full_inv_def steady_def\<close>)
qed

lemma good_workers:
  assumes "full_inv d" and "repo_inv d'" and "d' = d\<lparr>db_workers := ws\<rparr>"
  shows "good_step d d'"
  by (rule good_settle [OF assms(1) _ assms(2)])
    (auto simp: assms(3) same_static_def intro!: settles_jobs_same tables_grow_same)

lemma good_upsert:
  assumes "full_inv d" and "upsert_body t reg d = Inr (x, d')"
  shows "good_step d d'"
proof (rule good_workers [OF assms(1) upsert_body_inv [OF assms(2)]])
  show "repo_inv d" using assms(1) by (simp add: full_inv_def)
  show "d' = d\<lparr>db_workers := db_workers d'\<rparr>"
    using assms(2) by (auto simp: upsert_body_def statement_inv update_workers_eq_Inr split: option.splits if_splits list.splits)
qed

lemma repo_step_good:
  assumes "repo_step d d'" and inv: "full_inv d"
  shows "good_step d d'"
proof -
  have ri: "repo_inv d" and oi: "outbox_inv d" using inv by (simp_all add: full_inv_def)
  from assms(1) show ?thesis
  proof (cases rule: repo_step.cases)
  case create
  show ?thesis unfolding create create_job_with_outbox_def by (rule good_commit [OF inv]) (rule good_create [OF inv])
next
  case claim
  show ?thesis unfolding claim claim_job_with_options_def by (rule good_commit [OF inv]) (rule good_claim [OF inv])
next
  case cancel
  show ?thesis unfolding cancel request_job_cancellation_def
    by (rule good_commit [OF inv], rule good_settle [OF inv cancel_body_settles cancel_body_inv]) (use ri in auto)
next
  case transition
  show ?thesis unfolding transition transition_job_state_def
    by (rule good_commit [OF inv], rule good_settle [OF inv transition_body_settles transition_body_inv]) (use ri in auto)
next
  case result
  show ?thesis unfolding result record_job_result_def
    by (rule good_commit [OF inv], rule good_settle [OF inv result_body_settles result_body_inv]) (use ri in auto)
next
  case recover
  show ?thesis unfolding recover recover_stale_job_def
    by (rule good_commit [OF inv], rule good_settle [OF inv recover_body_settles recover_body_inv]) (use ri in auto)
next
  case event
  show ?thesis unfolding event append_job_event_def
    by (rule good_commit [OF inv], rule good_settle [OF inv append_event_settles]) (use ri append_event_inv in auto)
next
  case heartbeat
  show ?thesis unfolding heartbeat record_heartbeat_def
    by (rule good_commit [OF inv], rule good_settle [OF inv heartbeat_body_settles heartbeat_body_inv]) (use ri in auto)
next
  case register
  show ?thesis unfolding register upsert_worker_def by (rule good_commit [OF inv]) (rule good_upsert [OF inv])
next
  case (worker_state t worker ws)
  have "repo_inv (d\<lparr>db_workers := update_rows (\<lambda>r. wk_id r = worker) (\<lambda>r. r\<lparr>wk_state := ws, wk_updated_at := tx_now t\<rparr>)
      (db_workers d)\<rparr>)"
    if "\<forall>r \<in> set (db_workers d). wk_id r = worker \<longrightarrow> workers_violation (r\<lparr>wk_state := ws, wk_updated_at := tx_now t\<rparr>) = None"
    using ri that workers_violation_None unfolding repo_inv_def by (auto intro!: core_inv_workers)
  then show ?thesis unfolding worker_state set_worker_state_def
    by (intro good_commit [OF inv] good_workers [OF inv])
      (auto simp: statement_inv update_workers_eq_Inr split: list.splits)
next
  case (artifact t art job kind s3_key name bytes sha)
  have "good_step d x" if "insert_artifact_ignore row d = Inr (y, x)" for row y x
    by (rule good_settle [OF inv])
      (use that ri in \<open>auto simp: insert_artifact_ignore_def repo_inv_def same_static_def
        split: option.splits if_splits intro!: settles_jobs_same tables_grow_same\<close>)
  then show ?thesis unfolding artifact add_artifact_def
    by (intro good_commit [OF inv]) (auto simp: statement_inv)
next
  case (dead_letter t dl headers)
  have "good_step d x" if "insert_job_dead_letter_outbox t dl headers d = Inr (y, x)" for y x
    using insert_job_dead_letter_outbox_grows [OF that] ri
    by (intro good_settle [OF inv] outbox_grows_settles) (auto simp: repo_inv_def outbox_grows_frame)
  then show ?thesis unfolding dead_letter enqueue_job_dead_letter_def by (rule good_commit [OF inv])
next
  case (lease t dispatcher ttl n)
  show ?thesis unfolding lease lease_outbox_messages_def lease_with_subject_def
    using good_step_refl [OF inv] good_outbox [OF inv lease_rows_only [OF oi]]
    by (auto simp: statement_inv split: sum.splits intro!: good_commit [OF inv])
next
  case lease_subject
  show ?thesis unfolding lease_subject lease_outbox_messages_for_subject_def lease_with_subject_def
    using good_step_refl [OF inv] good_outbox [OF inv lease_rows_only [OF oi]]
    by (auto simp: statement_inv split: sum.splits intro!: good_commit [OF inv])
next
  case publish
  show ?thesis unfolding publish mark_outbox_published_def
    by (rule good_commit [OF inv], rule good_outbox [OF inv])
      (auto simp: statement_inv holds_outbox_lease_def elim!: update_outbox_row_only)
next
  case retry
  show ?thesis unfolding retry retry_outbox_message_def
    by (rule good_commit [OF inv], rule good_outbox [OF inv])
      (auto simp: statement_inv holds_outbox_lease_def elim!: update_outbox_row_only)
  qed (simp_all only: good_records [OF inv] account_changes session_changes revoke_change touch_change)
qed

lemma initial_full_inv: "db_initial d \<Longrightarrow> full_inv d"
  by (auto simp: db_initial_def full_inv_def repo_inv_def core_inv_def quota_inv_def log_inv_def outbox_inv_def
      active_project_jobs_def outstanding_jobs_def records_inv_def)

interpretation repo: monotone_system db_initial repo_step full_inv evolves
proof
  show "full_inv d" if "db_initial d" for d using that by (rule initial_full_inv)
  show "full_inv d'" if "full_inv d" "repo_step d d'" for d d'
    using repo_step_good [OF that(2,1)] by (simp add: good_step_def)
  show "evolves d d'" if "full_inv d" "repo_step d d'" for d d'
    using repo_step_good [OF that(2,1)] by (simp add: good_step_def)
qed (auto intro: evolves_trans)

end
