(* ===== verification/Repo_Safety.thy ===== *)
theory Repo_Safety
  imports Repo_System
begin

text \<open>
  Properties of every reachable database, obtained from the interpretation of \<open>monotone_system\<close>, and
  the small database their witnesses run on.
\<close>

section \<open>A small database\<close>

definition clock_at :: "instant \<Rightarrow> TxClock" where
  "clock_at t = \<lparr>tx_now = t, tx_statement = t, tx_clock = t\<rparr>"

definition sample_db :: db where
  "sample_db = \<lparr>db_projects = [\<lparr>pr_id = ''proj_1'', pr_name = ''p'', pr_owner = ''o'', pr_max_concurrent_jobs = 1,
       pr_max_outstanding_jobs = 2, pr_created_at = 0\<rparr>],
     db_uploads = [\<lparr>ul_id = ''upl_a'', ul_project_id = ''proj_1'', ul_kind = Apk, ul_s3_key = ''k'', ul_sha256 = [],
       ul_size_bytes = 1, ul_created_at = 0\<rparr>],
     db_runtime_profiles = [\<lparr>rr_id = ''rtp_r'', rr_android_api = 34, rr_device_profile = ''g'', rr_abi = AbiX86_64,
       rr_host_arch = HostX86_64, rr_runtime_kind = Redroid, rr_image_ref = ''i'', rr_isolation_tier = SharedKernelPrivileged\<rparr>],
     db_workers = [], db_jobs = [], db_job_events = [], db_event_sequence = 0, db_artifacts = [],
     db_webhooks = [\<lparr>wh_id = ''wh_1'', wh_project_id = ''proj_1'', wh_url = ''https:x'', wh_events = [JobStateChanged],
       wh_active = True, wh_created_at = 0\<rparr>],
     db_outbox = [], db_outbox_sequence = 0,
     db_api_keys = [], db_debug_sessions = [], db_audit_log = [], db_audit_sequence = 0\<rparr>"

definition sample_request :: CreateJobRequest where
  "sample_request = \<lparr>cr_project_id = ''proj_1'', cr_apk_upload_id = ''upl_a'', cr_test_upload_id = None,
     cr_runtime_profile = ''rtp_r'', cr_mode = HeadlessCi, cr_min_isolation = SharedKernelPrivileged,
     cr_automation = BuiltInSmoke,
     cr_artifacts = \<lparr>as_screenshots = True, as_video = False, as_logcat = True, as_junit = False\<rparr>,
     cr_timeout_seconds = 60\<rparr>"

definition sample_registration :: WorkerRegistration where
  "sample_registration = \<lparr>wr_worker_id = ''wrk_1'', wr_runtimes = [Redroid], wr_kvm = False, wr_gpu = False,
     wr_arch = HostX86_64, wr_capacity = 1\<rparr>"

definition no_underflow_sub :: "instant \<Rightarrow> duration \<Rightarrow> instant option" where
  "no_underflow_sub t d = Some (t - d)"

definition db_created :: db where
  "db_created = snd (create_job_with_outbox (clock_at 10) ''job_1'' ''evt_1'' sample_request ''key'' [] sample_db)"

definition db_worker :: db where
  "db_worker = snd (upsert_worker (clock_at 11) sample_registration db_created)"

definition db_claimed :: db where
  "db_claimed = snd (claim_job no_underflow_sub (clock_at 12) ''evt_2'' ''job_1'' ''wrk_1'' ''lease_1'' 100 db_worker)"

text \<open>These databases in normal form, which evaluation starts from.\<close>

definition queued_row :: JobRow where
  "queued_row = \<lparr>jr_id = ''job_1'', jr_project_id = ''proj_1'', jr_apk_upload_id = ''upl_a'', jr_test_upload_id = None,
     jr_runtime_profile_id = ''rtp_r'', jr_worker_id = None, jr_mode = HeadlessCi, jr_min_isolation = SharedKernelPrivileged,
     jr_automation = BuiltInSmoke,
     jr_requested_artifacts = \<lparr>as_screenshots = True, as_video = False, as_logcat = True, as_junit = False\<rparr>,
     jr_timeout_seconds = 60, jr_idempotency_key = ''key'', jr_state = Queued, jr_pending_outcome = None, jr_outcome = None,
     jr_failure = None, jr_artifacts_finalized = False, jr_cleanup_completed = False, jr_lease_id = None,
     jr_lease_expires_at = None, jr_last_lease_extended_at = None, jr_delivery_attempts = 0, jr_created_at = 10,
     jr_started_at = None, jr_finished_at = None\<rparr>"

definition outbox_row_at :: "instant \<Rightarrow> int \<Rightarrow> string \<Rightarrow> string \<Rightarrow> OutboxPayload \<Rightarrow> OutboxRow" where
  "outbox_row_at now i key subject payload = \<lparr>ob_id = i, ob_event_key = key, ob_subject = subject, ob_payload = payload,
     ob_trace_headers = [], ob_available_at = now, ob_attempts = 0, ob_locked_by = None, ob_locked_at = None,
     ob_published_at = None, ob_last_error = None, ob_created_at = now\<rparr>"

lemma db_created_code [code]:
  "db_created = sample_db\<lparr>db_jobs := [queued_row],
     db_job_events := [\<lparr>er_id = ''evt_1'', er_sequence = 1, er_job_id = ''job_1'', er_timestamp = 10,
       er_event_type = ''job.queued'', er_state = Some Queued, er_payload = []\<rparr>],
     db_event_sequence := 1,
     db_outbox := [outbox_row_at 10 1 ''webhook:evt_1:wh_1'' ''webhooks.job_state_changed'' (WebhookPayload ''wh_1'' ''https:x''
           \<lparr>ev_id = ''evt_1'', ev_job_id = ''job_1'', ev_sequence = 1, ev_timestamp = 10, ev_event_type = ''job.queued'',
             ev_state = Some Queued, ev_payload = []\<rparr>),
         outbox_row_at 10 2 ''job_1'' ''jobs.queued'' (QueuedPayload \<lparr>jq_job_id = ''job_1'', jq_project_id = ''proj_1'',
             jq_runtime_profile_id = ''rtp_r'', jq_min_isolation = SharedKernelPrivileged, jq_timeout_seconds = 60\<rparr>)],
     db_outbox_sequence := 2\<rparr>"
  by code_simp

lemma db_worker_code [code]:
  "db_worker = db_created\<lparr>db_workers := [\<lparr>wk_id = ''wrk_1'', wk_runtimes = [Redroid], wk_kvm = False, wk_gpu = False,
     wk_arch = HostX86_64, wk_capacity = 1, wk_active_jobs = 0, wk_state = Online, wk_last_heartbeat_at = 11,
     wk_reported_last_seen_at = None, wk_registered_at = 11, wk_updated_at = 11\<rparr>]\<rparr>"
  by code_simp

lemma db_claimed_code [code]:
  "db_claimed = db_created\<lparr>
     db_workers := [\<lparr>wk_id = ''wrk_1'', wk_runtimes = [Redroid], wk_kvm = False, wk_gpu = False, wk_arch = HostX86_64,
       wk_capacity = 1, wk_active_jobs = 1, wk_state = Online, wk_last_heartbeat_at = 11, wk_reported_last_seen_at = None,
       wk_registered_at = 11, wk_updated_at = 12\<rparr>],
     db_jobs := [queued_row\<lparr>jr_worker_id := Some ''wrk_1'', jr_state := Claimed, jr_lease_id := Some ''lease_1'',
       jr_lease_expires_at := Some 100, jr_last_lease_extended_at := Some 12, jr_delivery_attempts := 1,
       jr_started_at := Some 12\<rparr>],
     db_job_events := db_job_events db_created @ [\<lparr>er_id = ''evt_2'', er_sequence = 2, er_job_id = ''job_1'',
       er_timestamp = 12, er_event_type = ''job.claimed'', er_state = Some Claimed,
       er_payload = [(''lease_id'', EvText ''lease_1''), (''worker_id'', EvText ''wrk_1'')]\<rparr>],
     db_event_sequence := 2,
     db_outbox := db_outbox db_created @ [outbox_row_at 12 3 ''webhook:evt_2:wh_1'' ''webhooks.job_state_changed''
       (WebhookPayload ''wh_1'' ''https:x'' \<lparr>ev_id = ''evt_2'', ev_job_id = ''job_1'', ev_sequence = 2, ev_timestamp = 12,
          ev_event_type = ''job.claimed'', ev_state = Some Claimed,
          ev_payload = [(''lease_id'', EvText ''lease_1''), (''worker_id'', EvText ''wrk_1'')]\<rparr>)],
     db_outbox_sequence := 3\<rparr>"
  by code_simp

lemma sample_initial: "db_initial sample_db"
  by (simp add: db_initial_def sample_db_def)

lemma sample_reachable: "repo_step\<^sup>*\<^sup>* sample_db db_created" "repo_step\<^sup>*\<^sup>* sample_db db_worker"
  "repo_step\<^sup>*\<^sup>* sample_db db_claimed"
proof -
  have 1: "repo_step sample_db db_created" unfolding db_created_def by (rule repo_step.create)
  have 2: "repo_step db_created db_worker" unfolding db_worker_def by (rule repo_step.register)
  have 3: "repo_step db_worker db_claimed" unfolding db_claimed_def claim_job_def by (rule repo_step.claim)
  show "repo_step\<^sup>*\<^sup>* sample_db db_created" "repo_step\<^sup>*\<^sup>* sample_db db_worker" "repo_step\<^sup>*\<^sup>* sample_db db_claimed"
    using 1 2 3 by (meson rtranclp.rtrancl_into_rtrancl rtranclp.rtrancl_refl)+
qed

lemmas sample_full_inv = repo.reachable_invariant [OF sample_initial sample_reachable(1)]
  repo.reachable_invariant [OF sample_initial sample_reachable(2)]
  repo.reachable_invariant [OF sample_initial sample_reachable(3)]

lemma sample_run: "repo_step\<^sup>*\<^sup>* db_created db_claimed"
proof -
  have "repo_step db_created db_worker" unfolding db_worker_def by (rule repo_step.register)
  moreover have "repo_step db_worker db_claimed" unfolding db_claimed_def claim_job_def by (rule repo_step.claim)
  ultimately show ?thesis by (meson rtranclp.rtrancl_into_rtrancl rtranclp.rtrancl_refl)
qed

section \<open>Properties of every reachable database\<close>

lemma reachable_core:
  "db_initial d0 \<Longrightarrow> repo_step\<^sup>*\<^sup>* d0 d \<Longrightarrow> core_inv (db_jobs d) (db_workers d)"
  using repo.reachable_invariant by (auto simp: full_inv_def repo_inv_def)

lemma select_update_row:
  assumes "distinct (map jr_id jobs)" and "r \<in> set jobs" and "p r" and "\<And>x. jr_id (f x) = jr_id x"
  shows "select_one (\<lambda>x. jr_id x = jr_id r) (update_rows p f jobs) = Some (f r)"
  using select_one_update_key [of jr_id f "jr_id r" p jobs] select_one_key [OF assms(1,2)] assms(3,4) by simp

text \<open>
  C1. Reservations are exact: after any sequence of repository calls with any arguments, each
  worker's \<open>active_jobs\<close> is the number of jobs leased to it and never exceeds its capacity.  No call
  leaks a reservation and none releases it twice.
\<close>

theorem capacity_accounting:
  assumes "db_initial d0" and "repo_step\<^sup>*\<^sup>* d0 d" and "w \<in> set (db_workers d)"
  shows "wk_active_jobs w
      = int (count_rows (\<lambda>r. jr_worker_id r = Some (wk_id w) \<and> jr_lease_id r \<noteq> None) (db_jobs d))
    \<and> wk_active_jobs w \<le> wk_capacity w"
  using core_invD(5,6) [OF reachable_core [OF assms(1,2)] assms(3)]
  by (simp add: workers_check_def leased_to_def [abs_def])

theorem capacity_accounting_witness:
  "db_workers db_claimed \<noteq> [] \<and> wk_active_jobs (hd (db_workers db_claimed)) = 1"
proof -
  have w: "db_workers db_claimed \<noteq> []" by code_simp
  have c: "count_rows (\<lambda>r. jr_worker_id r = Some (wk_id (hd (db_workers db_claimed))) \<and> jr_lease_id r \<noteq> None)
      (db_jobs db_claimed) = 1" by code_simp
  show ?thesis
    using capacity_accounting [OF sample_initial sample_reachable(3) hd_in_set [OF w]] w unfolding c by simp
qed

text \<open>
  C9. Quotas hold at all times: in every reachable database a project has at most
  \<open>max_concurrent_jobs\<close> leased jobs and at most \<open>max_outstanding_jobs\<close> jobs that are not terminal.
\<close>

theorem quotas_respected:
  assumes "db_initial d0" and "repo_step\<^sup>*\<^sup>* d0 d" and "p \<in> set (db_projects d)"
  shows "int (count_rows (\<lambda>r. jr_project_id r = pr_id p \<and> jr_lease_id r \<noteq> None \<and> \<not> is_terminal (jr_state r)) (db_jobs d))
      \<le> pr_max_concurrent_jobs p
    \<and> int (count_rows (\<lambda>r. jr_project_id r = pr_id p \<and> \<not> is_terminal (jr_state r)) (db_jobs d))
      \<le> pr_max_outstanding_jobs p"
  using repo.reachable_invariant [OF assms(1,2)] assms(3)
  by (simp add: full_inv_def quota_inv_def active_project_jobs_def outstanding_jobs_def)

theorem quotas_respected_witness:
  "db_projects db_claimed \<noteq> [] \<and> int (count_rows (\<lambda>r. jr_project_id r = pr_id (hd (db_projects db_claimed))
      \<and> jr_lease_id r \<noteq> None \<and> \<not> is_terminal (jr_state r)) (db_jobs db_claimed))
      \<le> pr_max_concurrent_jobs (hd (db_projects db_claimed))"
proof -
  have p: "db_projects db_claimed \<noteq> []" by code_simp
  show ?thesis using quotas_respected [OF sample_initial sample_reachable(3) hd_in_set [OF p]] p by simp
qed

text \<open>
  C6. Lifecycle discipline of stored jobs: a terminal job has finalised artifacts, completed
  cleanup, a recorded outcome equal to its pending outcome and no lease; any other job has a worker
  exactly when it has a lease; a queued job has neither and carries no outcome; and a job being
  debugged, collected or cleaned up already carries its outcome.
\<close>

theorem stored_job_discipline:
  assumes "db_initial d0" and "repo_step\<^sup>*\<^sup>* d0 d" and "r \<in> set (db_jobs d)"
  shows "if is_terminal (jr_state r)
    then jr_artifacts_finalized r \<and> jr_cleanup_completed r \<and> jr_finished_at r \<noteq> None \<and> jr_lease_id r = None
      \<and> jr_outcome r = terminal_outcome (jr_state r) \<and> jr_pending_outcome r = jr_outcome r
    else jr_outcome r = None \<and> (jr_worker_id r = None \<longleftrightarrow> jr_lease_id r = None)
      \<and> (jr_state r = Queued \<longrightarrow> jr_worker_id r = None \<and> jr_pending_outcome r = None)
      \<and> (jr_state r \<in> {DebugAvailable, CollectingArtifacts, CleaningUp} \<longrightarrow> jr_pending_outcome r \<noteq> None)"
proof -
  have j: "job_inv r" by (rule core_invD(4) [OF reachable_core [OF assms(1,2)] assms(3)])
  then have c: "jobs_check r" by (simp add: job_inv_def)
  show ?thesis
  proof (cases "is_terminal (jr_state r)")
    case True
    then obtain oc where "terminal_outcome (jr_state r) = Some oc" using terminal_outcome_iff [of "jr_state r"] by auto
    then show ?thesis using True j c
      by (simp add: job_inv_def jobs_check_def jobs_terminal_state_consistent_def jobs_terminal_evidence_complete_def)
  next
    case False
    then have "terminal_outcome (jr_state r) = None" using terminal_outcome_iff [of "jr_state r"] by auto
    then show ?thesis using False j c
      by (auto simp: job_inv_def jobs_check_def jobs_terminal_state_consistent_def)
  qed
qed

theorem stored_job_discipline_witness:
  "db_jobs db_claimed \<noteq> [] \<and> jr_outcome (hd (db_jobs db_claimed)) = None
     \<and> (jr_worker_id (hd (db_jobs db_claimed)) = None \<longleftrightarrow> jr_lease_id (hd (db_jobs db_claimed)) = None)"
proof -
  have j: "db_jobs db_claimed \<noteq> []" and t: "\<not> is_terminal (jr_state (hd (db_jobs db_claimed)))" by code_simp+
  show ?thesis
    using stored_job_discipline [OF sample_initial sample_reachable(3) hd_in_set [OF j]] j t by simp
qed

text \<open>
  C35. What a run can do to a stored job: its request columns never change, its delivery attempts
  never decrease, and once it is terminal the whole row is frozen.
\<close>

theorem jobs_evolve:
  assumes "db_initial d0" and "repo_step\<^sup>*\<^sup>* d0 d" and "repo_step\<^sup>*\<^sup>* d d'" and "r \<in> set (db_jobs d)"
  shows "\<exists>r' \<in> set (db_jobs d'). same_request r r' \<and> jr_delivery_attempts r \<le> jr_delivery_attempts r'
     \<and> (is_terminal (jr_state r) \<longrightarrow> r' = r)"
  using repo.run_keeps [OF assms(3) repo.reachable_invariant [OF assms(1,2)]] assms(4)
  by (fastforce simp: evolves_def row_evolves_def)

theorem jobs_evolve_witness:
  "db_jobs db_created \<noteq> [] \<and> (\<exists>r' \<in> set (db_jobs db_claimed). same_request (hd (db_jobs db_created)) r')"
proof -
  have j: "db_jobs db_created \<noteq> []" by code_simp
  show ?thesis
    using jobs_evolve [OF sample_initial sample_reachable(1) sample_run hd_in_set [OF j]] j by blast
qed

text \<open>
  The event log is append-only and totally ordered: along any run the earlier log is a prefix
  of the later one, and sequence numbers strictly increase, so a reader that has seen sequence
  \<open>n\<close> misses nothing by asking for what comes after \<open>n\<close>.
\<close>

theorem event_log_append_only:
  assumes "db_initial d0" and "repo_step\<^sup>*\<^sup>* d0 d" and "repo_step\<^sup>*\<^sup>* d d'"
  shows "\<exists>evs. db_job_events d' = db_job_events d @ evs
    \<and> sorted_wrt (<) (map er_sequence (db_job_events d'))
    \<and> (\<forall>old \<in> set (db_job_events d). \<forall>new \<in> set evs. er_sequence old < er_sequence new)"
proof -
  have inv: "full_inv d" by (rule repo.reachable_invariant [OF assms(1,2)])
  have inv': "log_inv d'" using repo.run_invariant [OF assms(3) inv] by (simp add: full_inv_def)
  obtain evs where evs: "db_job_events d' = db_job_events d @ evs"
    using repo.run_keeps [OF assms(3) inv] by (auto simp: evolves_def log_grows_def)
  then show ?thesis using inv' by (auto simp: log_inv_def sorted_wrt_append)
qed

theorem event_log_append_only_witness:
  "map er_event_type (db_job_events db_created) = [''job.queued'']
   \<and> (\<exists>evs. db_job_events db_claimed = db_job_events sample_db @ evs
        \<and> sorted_wrt (<) (map er_sequence (db_job_events db_claimed)))"
proof -
  have "map er_event_type (db_job_events db_created) = [''job.queued'']" by code_simp
  then show ?thesis
    using event_log_append_only [OF sample_initial rtranclp.rtrancl_refl sample_reachable(3)] by blast
qed

text \<open>
  Publication is final: an outbox message keeps its identifier, key, subject and payload for
  ever, and once it is marked published no later call changes or releases it, so it is never leased
  to a dispatcher again.
\<close>

theorem published_messages_final:
  assumes "db_initial d0" and "repo_step\<^sup>*\<^sup>* d0 d" and "repo_step\<^sup>*\<^sup>* d d'" and "m \<in> set (db_outbox d)"
  shows "\<exists>m' \<in> set (db_outbox d'). ob_id m' = ob_id m \<and> ob_event_key m' = ob_event_key m
     \<and> ob_subject m' = ob_subject m \<and> ob_payload m' = ob_payload m \<and> (ob_published_at m \<noteq> None \<longrightarrow> m' = m)"
  using repo.run_keeps [OF assms(3) repo.reachable_invariant [OF assms(1,2)]] assms(4)
  by (simp add: evolves_def outbox_keeps_def)

theorem published_messages_final_witness:
  "db_outbox db_created \<noteq> [] \<and> (\<exists>m' \<in> set (db_outbox db_created). ob_event_key m' = ob_event_key (hd (db_outbox db_created)))"
proof -
  have o: "db_outbox db_created \<noteq> []" by code_simp
  show ?thesis
    using published_messages_final [OF sample_initial sample_reachable(1) rtranclp.rtrancl_refl hd_in_set [OF o]] o by blast
qed

end
