(* ===== verification/Job_Claiming.thy ===== *)
theory Job_Claiming
  imports Repo_Safety
begin

text \<open>
  What creation, matching, claiming and transitions do (\<open>create_job_with_outbox\<close>,
  \<open>find_workers_matching\<close>, \<open>claim_job_with_options\<close> and \<open>transition_job_state\<close> of
  \<open>crates/repository/src/jobs.rs\<close> and \<open>workers.rs\<close>), on the databases the repository can reach.
\<close>

section \<open>Decoding stored jobs\<close>

lemma decode_id_opt_eq_Inr:
  "decode_id_opt field prefix s = Inr v \<longleftrightarrow> v = s \<and> (\<forall>x. s = Some x \<longrightarrow> x \<in> identifier_lang prefix)"
  by (cases s) (auto simp: decode_id_opt_def statement_inv)

lemma into_job_id: "into_job r = Inr j \<Longrightarrow> job_id j = jr_id r"
  by (auto simp: into_job_def statement_inv)

text \<open>A stored row that evolved from a decodable one is decodable: its worker is a registered worker.\<close>

lemma into_job_evolved:
  assumes dec: "into_job r = Inr j" and same: "same_request r r'"
    and core: "core_inv (db_jobs d) (db_workers d)" and r': "r' \<in> set (db_jobs d)"
  shows "\<exists>j'. into_job r' = Inr j' \<and> job_id j' = job_id j"
proof -
  have "x \<in> identifier_lang ''wrk_''" if "jr_worker_id r' = Some x" for x
    using core_invD(7) [OF core r' that] core_invD(5) [OF core] by (auto simp: workers_check_def id_format_iff)
  then have "decode_id_opt ''jobs.worker_id'' ''wrk_'' (jr_worker_id r') = Inr (jr_worker_id r')"
    by (simp add: decode_id_opt_eq_Inr)
  then show ?thesis using dec same
    by (auto simp: into_job_def statement_inv same_request_def)
qed

section \<open>Creation\<close>

lemma create_row:
  assumes "create_job_with_outbox t nj evt request key h d = (Inr created, d')"
  shows "\<exists>r \<in> set (db_jobs d'). job_key r = (cr_project_id request, key) \<and> into_job r = Inr (created_job created)
    \<and> validate_idempotency_key key = Inr ()"
proof -
  from assms obtain row c e where b: "create_body t nj evt request key h d = Inr ((row, c, e), d')"
    and j: "into_job row = Inr (created_job created)"
    by (auto simp: create_job_with_outbox_def commit_then_eq_Inr result_inv)
  have k: "validate_idempotency_key key = Inr ()" using b by (auto simp: create_body_def statement_inv)
  show ?thesis
  proof (cases "job_by_key (cr_project_id request) key d")
    case (Some r)
    then have "r = row" "d' = d" using b by (auto simp: create_body_def statement_inv)
    then show ?thesis using Some j k unfolding job_by_key_def by (auto dest!: select_one_SomeD simp: job_key_def)
  next
    case None
    from b None show ?thesis
    proof (cases rule: create_body_newE)
      case (1 timeout d1 ev d2 profile queued)
      have "row \<in> set (db_jobs d')"
        using 1(8) append_event_frame(1) [OF 1(9)] outbox_grows_frame(1) [OF insert_job_queued_outbox_grows [OF 1(11)]]
        by simp
      then show ?thesis using j k by (intro bexI [of _ row]) (auto simp: 1(1) job_key_def)
    qed
  qed
qed

text \<open>
  C8. Creation is idempotent for ever: once a call with an idempotency key succeeded, every later
  call for the same project and key, after any other calls and with any request body, returns the
  same job, reports that it was not created, and changes nothing.
\<close>

theorem create_is_idempotent:
  assumes "db_initial d0" and "repo_step\<^sup>*\<^sup>* d0 d"
    and "create_job_with_outbox t nj evt request key h d = (Inr created, d1)"
    and "repo_step\<^sup>*\<^sup>* d1 d2" and "cr_project_id request' = cr_project_id request"
  shows "\<exists>again. create_job_with_outbox t' nj' evt' request' key h' d2 = (Inr again, d2)
    \<and> job_id (created_job again) = job_id (created_job created) \<and> \<not> was_created again \<and> queued_event again = None"
proof -
  have "repo_step d d1" using repo_step.create [of d t nj evt request key h] assms(3) by simp
  then have reach: "repo_step\<^sup>*\<^sup>* d0 d1" using assms(2) by simp
  obtain r where r: "r \<in> set (db_jobs d1)" "job_key r = (cr_project_id request, key)"
    "into_job r = Inr (created_job created)" and k: "validate_idempotency_key key = Inr ()"
    using create_row [OF assms(3)] by blast
  obtain r' where r': "r' \<in> set (db_jobs d2)" "same_request r r'"
    using repo.run_keeps [OF assms(4) repo.reachable_invariant [OF assms(1) reach]] r(1)
    by (fastforce simp: evolves_def row_evolves_def)
  have core: "core_inv (db_jobs d2) (db_workers d2)"
    using reachable_core [OF assms(1)] rtranclp_trans [OF reach assms(4)] by blast
  obtain j' where j': "into_job r' = Inr j'" "job_id j' = job_id (created_job created)"
    using into_job_evolved [OF r(3) r'(2) core r'(1)] by blast
  have key: "job_key r' = (cr_project_id request, key)" using r(2) r'(2) by (simp add: same_request_def job_key_def)
  have sel: "job_by_key (cr_project_id request) key d2 = Some r'"
    using select_one_key [OF core_invD(2) [OF core] r'(1)] key by (simp add: job_by_key_def job_key_def)
  show ?thesis
    using k sel j' assms(5) by (simp add: create_job_with_outbox_def create_body_def)
qed

theorem create_is_idempotent_witness:
  "\<exists>again. create_job_with_outbox (clock_at 50) ''job_2'' ''evt_9'' (sample_request\<lparr>cr_runtime_profile := ''none''\<rparr>) ''key'' [] db_claimed
      = (Inr again, db_claimed) \<and> job_id (created_job again) = ''job_1'' \<and> \<not> was_created again"
proof -
  have c: "case create_job_with_outbox (clock_at 10) ''job_1'' ''evt_1'' sample_request ''key'' [] sample_db of
      (Inr c, _) \<Rightarrow> job_id (created_job c) = ''job_1'' | _ \<Rightarrow> False" by code_simp
  then obtain created where created:
    "create_job_with_outbox (clock_at 10) ''job_1'' ''evt_1'' sample_request ''key'' [] sample_db = (Inr created, db_created)"
    "job_id (created_job created) = ''job_1''"
    unfolding db_created_def
    by (cases "create_job_with_outbox (clock_at 10) ''job_1'' ''evt_1'' sample_request ''key'' [] sample_db")
      (auto split: sum.splits)
  show ?thesis
    using create_is_idempotent [OF sample_initial rtranclp.rtrancl_refl created(1) sample_run,
        of "sample_request\<lparr>cr_runtime_profile := ''none''\<rparr>" "clock_at 50" "''job_2''" "''evt_9''" "[]"] created(2)
    by (auto simp: sample_request_def)
qed

lemma insert_job_queued_outbox_row:
  assumes "insert_job_queued_outbox t queued h d = Inr d'"
  shows "\<exists>m \<in> set (db_outbox d'). ob_event_key m = jq_job_id queued \<and> ob_subject m = ''jobs.queued''
    \<and> ob_payload m = QueuedPayload queued \<and> ob_trace_headers m = h \<and> ob_published_at m = None"
  using assms by (auto simp: insert_job_queued_outbox_def insert_outbox_def statement_inv outbox_row_def)

text \<open>
  A creating call is atomic and complete: it adds exactly one job, queued, unassigned and with
  the columns of the request, whose project was below its quota; it logs exactly one \<open>job.queued\<close>
  event; and it leaves an unpublished \<open>jobs.queued\<close> message keyed by the job.
\<close>

theorem create_effect:
  assumes "create_job_with_outbox t nj evt request key h d = (Inr created, d')" and "was_created created"
  shows "\<exists>row queued. db_jobs d' = db_jobs d @ [row] \<and> jr_id row = nj \<and> jr_state row = Queued \<and> jr_worker_id row = None
      \<and> job_key row = (cr_project_id request, key) \<and> jr_timeout_seconds row = uint (cr_timeout_seconds request)
      \<and> (\<exists>p. select_project (cr_project_id request) d = Some p
           \<and> int (outstanding_jobs (cr_project_id request) d) < pr_max_outstanding_jobs p)
      \<and> map er_event_type (db_job_events d') = map er_event_type (db_job_events d) @ [''job.queued'']
      \<and> (\<exists>m \<in> set (db_outbox d'). ob_event_key m = nj \<and> ob_subject m = ''jobs.queued''
           \<and> ob_payload m = QueuedPayload queued \<and> ob_published_at m = None)
      \<and> jq_job_id queued = nj \<and> jq_project_id queued = cr_project_id request"
proof -
  from assms obtain row e where b: "create_body t nj evt request key h d = Inr ((row, True, e), d')"
    by (auto simp: create_job_with_outbox_def commit_then_eq_Inr result_inv)
  have none: "job_by_key (cr_project_id request) key d = None"
    using b by (auto simp: create_body_def statement_inv split: option.splits)
  from b none show ?thesis
  proof (cases rule: create_body_newE)
    case (1 timeout d1 ev d2 profile queued)
    note o = outbox_grows_frame [OF insert_job_queued_outbox_grows [OF 1(11)]]
    have jobs: "db_jobs d' = db_jobs d @ [row]" using o(1) append_event_frame(1) [OF 1(9)] 1(8) by simp
    have evs: "map er_event_type (db_job_events d') = map er_event_type (db_job_events d) @ [''job.queued'']"
      using append_event_effect [OF 1(9)] o(4) 1(8) by (auto dest: outbox_grows_frame(4))
    show ?thesis
      using jobs evs 1(12) insert_job_queued_outbox_row [OF 1(11)] check_outstanding_quota_ok [OF 1(6)]
      by (intro exI [of _ row] exI [of _ queued]) (auto simp: 1(1,10) job_key_def new_job_row_def)
  qed
qed

theorem create_effect_witness:
  "\<exists>created. create_job_with_outbox (clock_at 10) ''job_1'' ''evt_1'' sample_request ''key'' [] sample_db = (Inr created, db_created)
     \<and> was_created created \<and> (\<exists>row. db_jobs db_created = db_jobs sample_db @ [row] \<and> jr_state row = Queued)"
proof -
  have c: "case create_job_with_outbox (clock_at 10) ''job_1'' ''evt_1'' sample_request ''key'' [] sample_db of
      (Inr c, _) \<Rightarrow> was_created c | _ \<Rightarrow> False" by code_simp
  then obtain created where created:
    "create_job_with_outbox (clock_at 10) ''job_1'' ''evt_1'' sample_request ''key'' [] sample_db = (Inr created, db_created)"
    "was_created created"
    unfolding db_created_def
    by (cases "create_job_with_outbox (clock_at 10) ''job_1'' ''evt_1'' sample_request ''key'' [] sample_db")
      (auto split: sum.splits)
  show ?thesis using create_effect [OF created] created by blast
qed

section \<open>Matching and claiming\<close>

text \<open>
  The dispatcher's query and the claim agree on which workers fit: for the cut-off the claim
  computes, a worker passes \<open>validate_worker_match\<close> exactly when it satisfies the WHERE clause of
  \<open>find_workers_matching\<close> and the profile passes that query's two early returns.
\<close>

theorem matching_agrees_with_claim:
  assumes "checked_sub now stale_after = Some cutoff"
  shows "validate_worker_match checked_sub w profile minimum now stale_after = Inr () \<longleftrightarrow>
    worker_eligible profile cutoff w \<and> satisfies (rp_isolation_tier profile) minimum
    \<and> abi_matches_host (rp_abi profile) (rp_host_arch profile)"
proof -
  have "abi_supported a h = abi_matches_host a h" for a h by (cases a; cases h) simp_all
  then show ?thesis
    using assms by (auto simp: validate_worker_match_def worker_eligible_def statement_inv)
qed

theorem matching_agrees_with_claim_witness:
  "\<exists>w profile. no_underflow_sub 12 45 = Some (-33)
    \<and> validate_worker_match no_underflow_sub w profile SharedKernelPrivileged 12 45 = Inr ()
    \<and> worker_eligible profile (-33) w"
proof -
  define w where "w = new_worker_row (clock_at 11) sample_registration"
  define p where "p = \<lparr>rp_id = ''rtp_r'', rp_android_api = 34, rp_device_profile = ''g'', rp_abi = AbiX86_64,
      rp_host_arch = HostX86_64, rp_runtime_kind = Redroid, rp_image_ref = ''i'', rp_isolation_tier = SharedKernelPrivileged\<rparr>"
  have c: "no_underflow_sub 12 45 = Some (-33)" by (simp add: no_underflow_sub_def)
  have e: "worker_eligible p (-33) w \<and> satisfies (rp_isolation_tier p) SharedKernelPrivileged
      \<and> abi_matches_host (rp_abi p) (rp_host_arch p)"
    unfolding w_def p_def by code_simp
  then show ?thesis using matching_agrees_with_claim [of no_underflow_sub 12 45 "-33" w p SharedKernelPrivileged, OF c] c by blast
qed

lemma claim_grants:
  assumes core: "core_inv (db_jobs d) (db_workers d)"
    and claim: "claim_job_with_options cs t evt job worker lease expires stale_after d = (Inr claim, d')"
  obtains r where "lock_job job d = Some r" "jr_state r = Queued" "jr_worker_id r = None" "jr_lease_id r = None"
    "lock_job job d' = Some (claim_update worker lease expires (tx_clock t) r)"
proof -
  obtain claimed profile where b: "claim_body cs t evt job worker lease expires stale_after d = Inr ((claimed, profile), d')"
    using claim by (auto simp: claim_job_with_options_def commit_then_eq_Inr)
  then show thesis
  proof (cases rule: claim_bodyE)
    case (1 row w p q d1 d2 ev pl)
    have j: "jr_id row = job" "row \<in> set (db_jobs d)" using lock_job_SomeD [OF 1(1)] by simp_all
    have "db_jobs d' = update_rows p (claim_update worker lease expires (tx_clock t)) (db_jobs d)"
      using append_event_frame(1) [OF 1(18)] by (simp add: 1(14,17))
    then have "lock_job job d' = Some (claim_update worker lease expires (tx_clock t) row)"
      using select_update_row [OF core_invD(1) [OF core] j(2), of p "claim_update worker lease expires (tx_clock t)"] j(1) 1(2-4,11)
      by (simp add: lock_job_def)
    then show ?thesis using that 1 by blast
  qed
qed

lemma into_job_fields:
  "into_job r = Inr j \<Longrightarrow> job_state j = jr_state r \<and> job_mode j = jr_mode r \<and> job_outcome j = jr_outcome r
     \<and> job_worker_id j = jr_worker_id r \<and> job_project_id j = jr_project_id r \<and> job_id j = jr_id r"
  by (auto simp: into_job_def statement_inv decode_id_opt_eq_Inr)

lemma claim_names_job:
  assumes "claim_job_with_options cs t evt job worker lease expires stale d = (Inr claim, d')"
  shows "cl_job_id claim = job \<and> cl_worker_id claim = worker \<and> cl_lease_id claim = lease"
proof -
  obtain claimed profile j where b: "claim_body cs t evt job worker lease expires stale d = Inr ((claimed, profile), d')"
    and j: "into_job claimed = Inr j" "cl_job_id claim = job_id j" "cl_worker_id claim = worker" "cl_lease_id claim = lease"
    using assms by (auto simp: claim_job_with_options_def commit_then_eq_Inr result_inv)
  have "jr_id claimed = job"
    using b by (cases rule: claim_bodyE) (auto simp: claim_update_def dest: select_one_SomeD)
  then show ?thesis using j into_job_fields [OF j(1)] by simp
qed

text \<open>
  C2. A claim is exclusive and complete.  It succeeds only on a queued, unassigned job, and leaves
  that job claimed by the given worker under the given lease with one more delivery attempt; until
  the job is released every further claim of it, by any worker, loses the compare-and-swap and
  changes nothing.
\<close>

theorem claim_is_exclusive:
  assumes "db_initial d0" and "repo_step\<^sup>*\<^sup>* d0 d"
    and "claim_job_with_options cs t evt job worker lease expires stale_after d = (Inr claim, d')"
  shows "(\<exists>r. lock_job job d = Some r \<and> jr_state r = Queued \<and> jr_worker_id r = None \<and> jr_lease_id r = None
        \<and> lock_job job d' = Some (claim_update worker lease expires (tx_clock t) r))
    \<and> (0 < stale_after' \<longrightarrow>
         claim_job_with_options cs' t' evt' job worker' lease' expires' stale_after' d'
           = (Inl (CompareAndSwapLost ''job'' job), d'))"
proof -
  have core: "core_inv (db_jobs d) (db_workers d)" by (rule reachable_core [OF assms(1,2)])
  obtain r where r: "lock_job job d = Some r" "jr_state r = Queued" "jr_worker_id r = None" "jr_lease_id r = None"
    "lock_job job d' = Some (claim_update worker lease expires (tx_clock t) r)"
    by (rule claim_grants [OF core assms(3)])
  have "claim_body cs' t' evt' job worker' lease' expires' stale_after' d' = Inl (CompareAndSwapLost ''job'' job)"
    if "0 < stale_after'"
    using that r(5) by (simp add: claim_body_def claim_update_def)
  then show ?thesis using r by (auto simp: claim_job_with_options_def)
qed

lemma sample_claim:
  "\<exists>claim. claim_job_with_options no_underflow_sub (clock_at 12) ''evt_2'' ''job_1'' ''wrk_1'' ''lease_1'' 100 45000000 db_worker
     = (Inr claim, db_claimed)"
proof -
  have "case claim_job_with_options no_underflow_sub (clock_at 12) ''evt_2'' ''job_1'' ''wrk_1'' ''lease_1'' 100 45000000 db_worker of
      (Inr c, _) \<Rightarrow> True | _ \<Rightarrow> False" by code_simp
  then show ?thesis unfolding db_claimed_def claim_job_def
    by (cases "claim_job_with_options no_underflow_sub (clock_at 12) ''evt_2'' ''job_1'' ''wrk_1'' ''lease_1'' 100 45000000 db_worker")
      (auto split: sum.splits)
qed

theorem claim_is_exclusive_witness:
  "claim_job_with_options no_underflow_sub (clock_at 13) ''evt_3'' ''job_1'' ''wrk_1'' ''lease_2'' 100 45 db_claimed
     = (Inl (CompareAndSwapLost ''job'' ''job_1''), db_claimed)"
  using sample_claim claim_is_exclusive [OF sample_initial sample_reachable(2)] by force

section \<open>Transitions\<close>

lemma transition_lost:
  assumes "\<And>r. r \<in> set (db_jobs d) \<Longrightarrow> \<not> transition_where t job from (pending_outcome evi) guard r"
  shows "transition_job_state t evt job from to evi guard payload d
    = (Inl (case validate_transition from to evi of Inl e \<Rightarrow> InvalidTransition e | Inr _ \<Rightarrow> CompareAndSwapLost ''job'' job), d)"
proof -
  have "filter (transition_where t job from (pending_outcome evi) guard) (db_jobs d) = []"
    using assms by (simp add: filter_empty_conv)
  then have "\<exists>d1. update_job (transition_where t job from (pending_outcome evi) guard) (transition_update t to evi) d = Inr (None, d1)"
    by (simp add: update_job_def sql_update_def List.map_filter_def)
  then show ?thesis
    by (auto simp: transition_job_state_def transition_body_def split: sum.splits)
qed

text \<open>
  C3. Fencing: a transition sent under a lease guard has no effect unless the job is held by that
  very worker under that very lease and the lease has not expired; otherwise the call fails, with
  the transition error or a lost compare-and-swap, and the database is unchanged.
\<close>

theorem stale_lease_is_fenced:
  assumes "db_initial d0" and "repo_step\<^sup>*\<^sup>* d0 d"
    and "\<forall>r. lock_job job d = Some r \<longrightarrow>
      \<not> (jr_worker_id r = Some (lg_worker_id g) \<and> jr_lease_id r = Some (lg_lease_id g)
         \<and> (\<exists>e. jr_lease_expires_at r = Some e \<and> tx_statement t < e))"
  shows "\<exists>err. transition_job_state t evt job from to evi (Some g) payload d = (Inl err, d)
    \<and> (err = CompareAndSwapLost ''job'' job \<or> (\<exists>e. err = InvalidTransition e))"
proof -
  have core: "core_inv (db_jobs d) (db_workers d)" by (rule reachable_core [OF assms(1,2)])
  have "\<not> transition_where t job from (pending_outcome evi) (Some g) r" if r: "r \<in> set (db_jobs d)" for r
  proof
    assume w: "transition_where t job from (pending_outcome evi) (Some g) r"
    then have "lock_job job d = Some r"
      using select_one_key [OF core_invD(1) [OF core] r] by (simp add: lock_job_def transition_where_def)
    with assms(3) w show False by (auto simp: transition_where_def lease_guard_holds_def split: option.splits)
  qed
  from transition_lost [OF this] show ?thesis by (auto split: sum.splits)
qed

theorem stale_lease_is_fenced_witness:
  "\<exists>err. transition_job_state (clock_at 20) ''evt_3'' ''job_1'' Claimed ProvisioningRuntime evidence_done
      (Some \<lparr>lg_worker_id = ''wrk_1'', lg_lease_id = ''lease_0''\<rparr>) [] db_claimed = (Inl err, db_claimed)"
proof -
  have "map_option jr_lease_id (lock_job ''job_1'' db_claimed) = Some (Some ''lease_1'')" by code_simp
  then have "\<forall>r. lock_job ''job_1'' db_claimed = Some r \<longrightarrow> \<not> (jr_worker_id r = Some ''wrk_1'' \<and> jr_lease_id r = Some ''lease_0''
         \<and> (\<exists>e. jr_lease_expires_at r = Some e \<and> tx_statement (clock_at 20) < e))" by auto
  then show ?thesis
    using stale_lease_is_fenced [OF sample_initial sample_reachable(3), of "''job_1''"
        "\<lparr>lg_worker_id = ''wrk_1'', lg_lease_id = ''lease_0''\<rparr>" "clock_at 20"] by force
qed

text \<open>
  C21. A successful transition follows an edge of the lifecycle from the state the row really had,
  changes that row and no other, frees the worker's reservation exactly when the job becomes
  terminal, and logs one \<open>job.<state>\<close> event.
\<close>

theorem transition_effect:
  assumes "db_initial d0" and "repo_step\<^sup>*\<^sup>* d0 d"
    and "transition_job_state t evt job from to evi guard payload d = (Inr j, d')"
  shows "\<exists>r. lock_job job d = Some r \<and> jr_state r = from \<and> lifecycle_edge from to evi \<and> lease_guard_holds t guard r
    \<and> lock_job job d' = Some (transition_update t to evi r)
    \<and> (\<forall>other. other \<noteq> job \<longrightarrow> lock_job other d' = lock_job other d)
    \<and> map er_event_type (db_job_events d') = map er_event_type (db_job_events d) @ [''job.'' @ encode_state to]
    \<and> (\<forall>w \<in> set (db_workers d). \<exists>w' \<in> set (db_workers d'). wk_id w' = wk_id w
         \<and> wk_active_jobs w' = wk_active_jobs w
             - (if is_terminal to \<and> jr_worker_id r = Some (wk_id w) then 1 else 0))"
proof -
  have core: "core_inv (db_jobs d) (db_workers d)" by (rule reachable_core [OF assms(1,2)])
  obtain row where b: "transition_body t evt job from to evi guard payload d = Inr (row, d')"
    using assms(3) by (auto simp: transition_job_state_def commit_then_eq_Inr)
  let ?f = "transition_update t to evi"
  from b show ?thesis
  proof (cases rule: transition_bodyE)
    case (1 p d1 r d2 ev)
    have r: "r \<in> set (db_jobs d)" "p r" "jr_id r = job" "jr_state r = from" "lease_guard_holds t guard r"
      using select_one_SomeD [OF 1(5)] by (auto simp: 1(2) transition_where_def)
    have jobs: "db_jobs d' = update_rows p ?f (db_jobs d)" "db_job_events d2 = db_job_events d" "db_workers d' = db_workers d2"
      using append_event_frame(1,2) [OF 1(8)] 1(4,7)
      by (auto simp: release_worker_capacity_eq_Inr split: if_splits option.splits)
    have l: "lock_job job d = Some r" using select_one_key [OF core_invD(1) [OF core] r(1)] r(3) by (simp add: lock_job_def)
    have l': "lock_job job d' = Some (?f r)"
      using select_update_row [where p = p and f = ?f, OF core_invD(1) [OF core] r(1,2)] r(3) jobs(1) by (simp add: lock_job_def)
    have o: "lock_job other d' = lock_job other d" if "other \<noteq> job" for other
    proof -
      have "\<not> p x" if "lock_job other d = Some x" for x
        using lock_job_SomeD [OF that] \<open>other \<noteq> job\<close> by (auto simp: 1(2) transition_where_def)
      then show ?thesis
        using select_one_update_key [of jr_id ?f other p "db_jobs d"]
        by (cases "lock_job other d") (simp_all add: lock_job_def jobs(1))
    qed
    have evs: "map er_event_type (db_job_events d') = map er_event_type (db_job_events d) @ [''job.'' @ encode_state to]"
      using append_event_effect [OF 1(8)] jobs(2) by (auto dest: outbox_grows_frame(4))
    have ws: "\<exists>w' \<in> set (db_workers d'). wk_id w' = wk_id w \<and> wk_active_jobs w' = wk_active_jobs w
        - (if is_terminal to \<and> jr_worker_id r = Some (wk_id w) then 1 else 0)" if w: "w \<in> set (db_workers d)" for w
    proof (cases "is_terminal to \<and> jr_worker_id r = Some (wk_id w)")
      case True
      then have "leased_to (wk_id w) r"
        using core_invD(4) [OF core r(1)] lifecycle_not_from_terminal [OF 1(1)] r(4)
        by (auto simp: job_inv_def leased_to_def)
      then have "count_rows (leased_to (wk_id w)) (db_jobs d) \<noteq> 0"
        using r(1) by (auto simp: count_rows_def filter_empty_conv)
      then have "1 \<le> wk_active_jobs w" using core_invD(6) [OF core w] by simp
      moreover have "release_update t w \<in> set (db_workers d')"
        using 1(4,7) True w jobs(3) by (auto simp: transition_lease release_worker_capacity_eq_Inr set_update_rows)
      ultimately show ?thesis using True by (intro bexI [of _ "release_update t w"]) (auto simp: release_update_def)
    next
      case False
      then have "w \<in> set (db_workers d')"
        using 1(4,7) w jobs(3) by (auto simp: transition_lease release_worker_capacity_eq_Inr set_update_rows
            split: if_splits option.splits intro!: exI [of _ w])
      then show ?thesis using False by auto
    qed
    show ?thesis using l l' o evs ws r 1(1) by blast
  qed
qed

theorem transition_effect_witness:
  "\<exists>j d'. transition_job_state (clock_at 20) ''evt_3'' ''job_1'' Claimed ProvisioningRuntime evidence_done
      (Some \<lparr>lg_worker_id = ''wrk_1'', lg_lease_id = ''lease_1''\<rparr>) [] db_claimed = (Inr j, d')
     \<and> map_option jr_state (lock_job ''job_1'' d') = Some ProvisioningRuntime"
proof -
  let ?r = "transition_job_state (clock_at 20) ''evt_3'' ''job_1'' Claimed ProvisioningRuntime evidence_done
      (Some \<lparr>lg_worker_id = ''wrk_1'', lg_lease_id = ''lease_1''\<rparr>) [] db_claimed"
  have "case ?r of (Inr c, _) \<Rightarrow> True | _ \<Rightarrow> False" by code_simp
  then obtain j d' where r: "?r = (Inr j, d')" by (cases ?r) (auto split: sum.splits)
  show ?thesis using transition_effect [OF sample_initial sample_reachable(3) r] r by (auto simp: transition_lease)
qed

end
