(* ===== verification/Job_Recovery.thy ===== *)
theory Job_Recovery
  imports Repo_Safety
begin

text \<open>
  What stale-lease detection, recovery, heartbeats and cancellation do (\<open>find_stale_jobs\<close>,
  \<open>recover_stale_job\<close>, \<open>request_job_cancellation\<close> of \<open>crates/repository/src/jobs.rs\<close> and
  \<open>record_heartbeat\<close> of \<open>workers.rs\<close>), on the databases the repository can reach.
\<close>

section \<open>Recovery of stale leases\<close>

lemma recovery_where_current:
  assumes "snapshot_matches stale r = Inr True" and "jr_id r = st_job_id stale"
  shows "recovery_where stale r"
  using assms by (auto simp: snapshot_matches_def recovery_where_def result_inv to_u32_uint split: if_splits)

lemma insert_dead_letter_row:
  assumes "insert_job_dead_letter_outbox t dl h d = Inr (m, d')" and "idempotency_key dl = Inr k"
  shows "\<exists>row \<in> set (db_outbox d'). ob_event_key row = k \<and> ob_subject row = ''jobs.dead''"
proof -
  from assms obtain ins d1 where i: "insert_outbox_ignore (outbox_row t k ''jobs.dead'' (DeadLetterPayload dl) h d) d = Inr (ins, d1)"
    and rest: "case ins of Some row \<Rightarrow> d' = d1
      | None \<Rightarrow> d' = d1 \<and> (\<exists>row. select_one (\<lambda>r. ob_event_key r = k) (db_outbox d1) = Some row \<and> ob_subject row = ''jobs.dead'')"
    by (auto simp: insert_job_dead_letter_outbox_def statement_inv split: option.splits)
  show ?thesis
  proof (cases ins)
    case None
    then show ?thesis using rest by (auto dest!: select_one_SomeD)
  next
    case (Some row)
    then have "row = outbox_row t k ''jobs.dead'' (DeadLetterPayload dl) h d" "row \<in> set (db_outbox d1)"
      using i by (auto simp: insert_outbox_ignore_def insert_outbox_def statement_inv split: option.splits if_splits)
    then show ?thesis using rest Some by (intro bexI [of _ row]) auto
  qed
qed

lemma enqueue_exhausted_row:
  assumes "enqueue_exhausted t stale current d = Inr d'"
  shows "\<exists>row \<in> set (db_outbox d'). ob_event_key row = exhausted_key (st_job_id stale) (st_delivery_attempts stale)
    \<and> ob_subject row = ''jobs.dead''"
proof -
  from assms obtain dl m where dl: "dead_letter_new (Some (st_job_id stale)) (Some (jr_project_id current)) None
      (st_delivery_attempts stale) AttemptsExhausted (tx_clock t) = Inr dl"
    and ins: "insert_job_dead_letter_outbox t dl [] d = Inr (m, d')"
    by (auto simp: enqueue_exhausted_def statement_inv)
  have "idempotency_key dl = Inr (exhausted_key (st_job_id stale) (st_delivery_attempts stale))"
    using dl by (auto simp: dead_letter_new_def idempotency_key_def result_inv Let_def)
  from insert_dead_letter_row [OF ins this] show ?thesis .
qed


definition sample_stale :: StaleJob where
  "sample_stale = \<lparr>st_job_id = ''job_1'', st_worker_id = ''wrk_1'', st_lease_id = ''lease_1'', st_state = Claimed,
     st_delivery_attempts = 1, st_lease_expires_at = 100, st_worker_last_heartbeat_at = 11,
     st_lease_expired_before = 200, st_worker_heartbeat_before = 0\<rparr>"


lemma collect_results_all:
  "collect_results f xs = Inr ys \<Longrightarrow> length ys = length xs \<and> (\<forall>y \<in> set ys. \<exists>x \<in> set xs. f x = Inr y)
     \<and> (\<forall>x \<in> set xs. \<exists>y \<in> set ys. f x = Inr y)"
proof (induction xs arbitrary: ys)
  case (Cons x xs)
  then obtain y zs where 1: "f x = Inr y" "collect_results f xs = Inr zs" "ys = y # zs" by (auto simp: result_inv)
  with Cons.IH [OF 1(2)] show ?case by simp
qed simp

lemma recovery_disposition_lost: "recovery_disposition x = Inr LostRace \<longleftrightarrow> x = None"
proof (cases x)
  case (Some kr)
  obtain kind row where kr: "kr = (kind, row)" by (cases kr)
  show ?thesis unfolding Some kr by (cases kind) (auto simp: result_inv)
qed simp

text \<open>
  Stale detection feeds recovery: whatever \<open>find_stale_jobs\<close> reports on a database is a leased,
  unfinished job whose lease or worker is past the criteria, and recovering it on that database is
  never a lost race.  When the page is not full, every such job is reported.
\<close>

theorem stale_detection:
  assumes "db_initial d0" and "repo_step\<^sup>*\<^sup>* d0 d" and "find_stale_jobs criteria d = Inr found"
  shows "(\<forall>s \<in> set found. \<exists>r w. lock_job (st_job_id s) d = Some r \<and> lock_worker (st_worker_id s) d = Some w
        \<and> stale_candidate criteria r w \<and> recovery_where s r
        \<and> (max_deliver \<noteq> 0 \<longrightarrow> (\<forall>t evt d'. recover_stale_job t evt s max_deliver d \<noteq> (Inr LostRace, d'))))
    \<and> (length found < unat (sc_limit criteria) \<longrightarrow>
        (\<forall>r \<in> set (db_jobs d). \<forall>w \<in> set (db_workers d). stale_candidate criteria r w \<longrightarrow>
           (\<exists>s \<in> set found. st_job_id s = jr_id r)))"
proof -
  have core: "core_inv (db_jobs d) (db_workers d)" by (rule reachable_core [OF assms(1,2)])
  obtain n where n: "n = uint (sc_limit criteria)"
    and col: "collect_results (stale_of_row criteria) (take (nat n) (stale_pairs criteria d)) = Inr found"
    using assms(3) by (auto simp: find_stale_jobs_def result_inv checked_limit_def split: if_splits)
  note all = collect_results_all [OF col]
  have pairs: "(r, w) \<in> set (stale_pairs criteria d) \<longleftrightarrow>
      r \<in> set (db_jobs d) \<and> w \<in> set (db_workers d) \<and> stale_candidate criteria r w" for r w
    by (auto simp: stale_pairs_def)
  have "\<exists>r w. lock_job (st_job_id s) d = Some r \<and> lock_worker (st_worker_id s) d = Some w \<and> stale_candidate criteria r w
      \<and> recovery_where s r \<and> (max_deliver \<noteq> 0 \<longrightarrow> (\<forall>t evt d'. recover_stale_job t evt s max_deliver d \<noteq> (Inr LostRace, d')))"
    if s: "s \<in> set found" for s
  proof -
    obtain rw where rw: "rw \<in> set (take (nat n) (stale_pairs criteria d))" "stale_of_row criteria rw = Inr s"
      using all s by blast
    obtain r w where p: "rw = (r, w)" by (cases rw)
    have m: "r \<in> set (db_jobs d)" "w \<in> set (db_workers d)" "stale_candidate criteria r w"
      using pairs in_set_takeD [OF rw(1) [unfolded p]] by blast+
    have e: "st_job_id s = jr_id r" "jr_worker_id r = Some (st_worker_id s)" "jr_lease_id r = Some (st_lease_id s)"
      "st_state s = jr_state r" "to_u32 ''jobs.delivery_attempts'' (jr_delivery_attempts r) = Inr (st_delivery_attempts s)"
      "jr_lease_expires_at r = Some (st_lease_expires_at s)"
      "st_lease_expired_before s = sc_lease_expired_before criteria"
      "st_worker_heartbeat_before s = sc_worker_heartbeat_before criteria"
      using rw(2) by (auto simp: p stale_of_row_def statement_inv)
    have wid: "wk_id w = st_worker_id s" using m(3) e(2) by (simp add: stale_candidate_def)
    have l: "lock_job (st_job_id s) d = Some r" "lock_worker (st_worker_id s) d = Some w"
      using select_one_key [OF core_invD(1) [OF core] m(1)] select_one_key [OF core_invD(3) [OF core] m(2)] e(1) wid
      by (simp_all add: lock_job_def lock_worker_def)
    have sm: "snapshot_matches s r = Inr True" using e by (simp add: snapshot_matches_def)
    have rwh: "recovery_where s r" by (rule recovery_where_current [OF sm]) (simp add: e(1))
    have st: "jr_state r \<noteq> Queued" "\<not> is_terminal (jr_state r)"
      "st_lease_expires_at s \<le> st_lease_expired_before s \<or> wk_last_heartbeat_at w \<le> st_worker_heartbeat_before s"
      using m(3) e(6-8) by (auto simp: stale_candidate_def)
    have sel: "select_one (recovery_where s) (db_jobs d) \<noteq> None" using m(1) rwh by (auto simp: select_one_None_iff)
    have "recover_body t evt s max_deliver d \<noteq> Inr (None, d')" if "max_deliver \<noteq> 0" for t evt d'
      using that l sm st sel
      by (auto simp: recover_body_def statement_inv Let_def update_job_eq_Inr split: if_splits)
    then have "recover_stale_job t evt s max_deliver d \<noteq> (Inr LostRace, d')" if "max_deliver \<noteq> 0" for t evt d'
      using that by (auto simp: recover_stale_job_def commit_then_eq_Inr recovery_disposition_lost)
    then show ?thesis using l m(3) rwh by blast
  qed
  moreover have "\<exists>s \<in> set found. st_job_id s = jr_id r"
    if len: "length found < unat (sc_limit criteria)" and c: "r \<in> set (db_jobs d)" "w \<in> set (db_workers d)" "stale_candidate criteria r w" for r w
  proof -
    have "length found = min (nat n) (length (stale_pairs criteria d))"
      using all by (simp add: min.commute)
    then have "take (nat n) (stale_pairs criteria d) = stale_pairs criteria d" using len n by (auto simp: min_def split: if_splits)
    then have "(r, w) \<in> set (take (nat n) (stale_pairs criteria d))" using pairs c by simp
    then obtain s where "s \<in> set found" "stale_of_row criteria (r, w) = Inr s"
      using all by blast
    then show ?thesis by (intro bexI [of _ s]) (auto simp: stale_of_row_def statement_inv)
  qed
  ultimately show ?thesis by blast
qed

theorem stale_detection_witness:
  "\<exists>found. find_stale_jobs \<lparr>sc_lease_expired_before = 200, sc_worker_heartbeat_before = 0, sc_limit = 10\<rparr> db_claimed = Inr found
     \<and> found \<noteq> [] \<and> (\<forall>s \<in> set found. \<exists>r. lock_job (st_job_id s) db_claimed = Some r \<and> recovery_where s r)"
proof -
  let ?c = "\<lparr>sc_lease_expired_before = 200, sc_worker_heartbeat_before = 0, sc_limit = 10\<rparr>"
  have len: "length (db_jobs db_claimed) = 1" "length (db_workers db_claimed) = 1" by code_simp+
  obtain r w where one: "db_jobs db_claimed = [r]" "db_workers db_claimed = [w]"
    using len by (auto simp: length_Suc_conv)
  have "stale_candidate ?c (hd (db_jobs db_claimed)) (hd (db_workers db_claimed))"
    "is_ok (stale_of_row ?c (hd (db_jobs db_claimed), hd (db_workers db_claimed)))" by code_simp+
  then have c: "stale_candidate ?c r w" "is_ok (stale_of_row ?c (r, w))" by (simp_all only: one list.sel)
  then obtain s where s: "stale_of_row ?c (r, w) = Inr s" by (auto simp: is_ok_iff)
  have "stale_pairs ?c db_claimed = [(r, w)]" by (simp add: stale_pairs_def one c)
  then have f: "find_stale_jobs ?c db_claimed = Inr [s]"
    by (simp add: find_stale_jobs_def checked_limit_def JobListQuery_MAX_LIMIT_def s)
  show ?thesis using stale_detection [OF sample_initial sample_reachable(3) f, of 3] f by auto
qed

section \<open>Heartbeats\<close>

text \<open>What a heartbeat may do to one job row: nothing, or push the expiry of a lease without outcome.\<close>

lemma extend_leases_job:
  assumes "extend_leases now secs w exts rc d = Inr (rc', d')" and "distinct (map jr_id (db_jobs d))"
    and "lock_job job d = Some r" and "jr_pending_outcome r \<noteq> None"
  shows "lock_job job d' = Some r"
  using assms
proof (induction exts arbitrary: rc d)
  case (Cons ext exts)
  let ?d1 = "d\<lparr>db_jobs := update_rows (extension_where now w ext) (extension_update now secs) (db_jobs d)\<rparr>"
  from Cons.prems(1) obtain rc1 where rest: "extend_leases now secs w exts rc1 ?d1 = Inr (rc', d')"
    by (auto simp: statement_inv)
  have "\<not> extension_where now w ext r" using Cons.prems(4) by (simp add: extension_where_def)
  then have "lock_job job ?d1 = Some r"
    using Cons.prems(3) select_one_update_key [of jr_id "extension_update now secs" job]
    by (simp add: lock_job_def)
  then show ?case using Cons.IH [OF rest] Cons.prems(2,4) by (simp add: distinct_update_rows)
qed simp

lemma extend_leases_receipt:
  assumes "extend_leases now secs w exts rc d = Inr (rc', d')"
  shows "\<exists>xs ys zs. rc' = rc\<lparr>rc_extended := rc_extended rc @ xs, rc_cancel_requested := rc_cancel_requested rc @ ys,
      rc_rejected := rc_rejected rc @ zs\<rparr> \<and> mset exts = mset xs + mset ys + mset zs"
  using assms
proof (induction exts arbitrary: rc d)
  case (Cons ext exts)
  from Cons.prems obtain rc1 d1 where rest: "extend_leases now secs w exts rc1 d1 = Inr (rc', d')"
    and rc1: "rc1 = rc\<lparr>rc_extended := rc_extended rc @ [ext]\<rparr> \<or> rc1 = rc\<lparr>rc_cancel_requested := rc_cancel_requested rc @ [ext]\<rparr>
      \<or> rc1 = rc\<lparr>rc_rejected := rc_rejected rc @ [ext]\<rparr>"
    by (auto simp: statement_inv split: if_splits)
  obtain xs ys zs where ih: "rc' = rc1\<lparr>rc_extended := rc_extended rc1 @ xs, rc_cancel_requested := rc_cancel_requested rc1 @ ys,
      rc_rejected := rc_rejected rc1 @ zs\<rparr>" "mset exts = mset xs + mset ys + mset zs" using Cons.IH [OF rest] by blast
  from rc1 consider "rc1 = rc\<lparr>rc_extended := rc_extended rc @ [ext]\<rparr>"
    | "rc1 = rc\<lparr>rc_cancel_requested := rc_cancel_requested rc @ [ext]\<rparr>"
    | "rc1 = rc\<lparr>rc_rejected := rc_rejected rc @ [ext]\<rparr>" by blast
  then show ?case
  proof cases
    case 1
    then show ?thesis using ih by (intro exI [of _ "ext # xs"] exI [of _ ys] exI [of _ zs]) simp
  next
    case 2
    then show ?thesis using ih by (intro exI [of _ xs] exI [of _ "ext # ys"] exI [of _ zs]) simp
  next
    case 3
    then show ?thesis using ih by (intro exI [of _ xs] exI [of _ ys] exI [of _ "ext # zs"]) simp
  qed
qed simp

lemma extend_leases_extended:
  assumes "extend_leases now secs w exts rc d = Inr (rc', d')" and "distinct (map jr_id (db_jobs d))"
    and "ext \<in> set (rc_extended rc')" and "ext \<notin> set (rc_extended rc)"
  shows "\<exists>r. lock_job (le_job_id ext) d = Some r \<and> jr_worker_id r = Some w \<and> jr_lease_id r = Some (le_lease_id ext)
    \<and> jr_pending_outcome r = None"
  using assms
proof (induction exts arbitrary: rc d)
  case (Cons e exts)
  let ?p = "extension_where now w e" and ?f = "extension_update now secs"
  let ?d1 = "d\<lparr>db_jobs := update_rows ?p ?f (db_jobs d)\<rparr>"
  from Cons.prems(1) obtain rc1 where rest: "extend_leases now secs w exts rc1 ?d1 = Inr (rc', d')"
    and rc1: "set (rc_extended rc1) = set (rc_extended rc) \<union> (if length (filter ?p (db_jobs d)) = 1 then {e} else {})"
    by (auto simp: statement_inv)
  show ?case
  proof (cases "ext \<in> set (rc_extended rc1)")
    case True
    then have "ext = e" "filter ?p (db_jobs d) \<noteq> []" using rc1 Cons.prems(4) by (auto split: if_splits)
    then obtain r where r: "r \<in> set (db_jobs d)" "?p r" by (auto simp: filter_empty_conv)
    then have "lock_job (le_job_id ext) d = Some r"
      using select_one_key [OF Cons.prems(2) r(1)] \<open>ext = e\<close> by (simp add: lock_job_def extension_where_def)
    then show ?thesis using r(2) \<open>ext = e\<close> by (auto simp: extension_where_def)
  next
    case False
    obtain r1 where r1: "lock_job (le_job_id ext) ?d1 = Some r1" "jr_worker_id r1 = Some w"
      "jr_lease_id r1 = Some (le_lease_id ext)" "jr_pending_outcome r1 = None"
      using Cons.IH [OF rest _ Cons.prems(3) False] Cons.prems(2) by (auto simp: distinct_update_rows)
    then obtain r where r: "lock_job (le_job_id ext) d = Some r" "r1 = (if ?p r then ?f r else r)"
      using select_one_update_key [of jr_id ?f "le_job_id ext" ?p "db_jobs d"] by (auto simp: lock_job_def)
    then show ?thesis using r1 by (auto simp: extension_update_def split: if_splits)
  qed
qed simp

text \<open>
  The receipt of a heartbeat answers every requested extension exactly once: the extended, the
  cancelled and the rejected ones together are the requested ones.  An extension is granted only
  for a job this worker holds under that very lease and that carries no outcome yet.
\<close>

theorem heartbeat_receipt:
  assumes "db_initial d0" and "repo_step\<^sup>*\<^sup>* d0 d" and "record_heartbeat t hb ttl d = (Inr receipt, d')"
  shows "mset (hb_lease_extends hb) = mset (rc_extended receipt) + mset (rc_cancel_requested receipt) + mset (rc_rejected receipt)
    \<and> (\<forall>ext \<in> set (rc_extended receipt). \<exists>r. lock_job (le_job_id ext) d = Some r
         \<and> jr_worker_id r = Some (hb_worker_id hb) \<and> jr_lease_id r = Some (le_lease_id ext) \<and> jr_pending_outcome r = None)"
proof -
  let ?ws = "update_rows (\<lambda>r. wk_id r = hb_worker_id hb) (heartbeat_update (tx_clock t) hb) (db_workers d)"
  let ?rc = "\<lparr>rc_recorded_at = tx_clock t, rc_extended = [], rc_cancel_requested = [], rc_rejected = []\<rparr>"
  have e: "extend_leases (tx_clock t) (num_seconds ttl) (hb_worker_id hb) (hb_lease_extends hb) ?rc (d\<lparr>db_workers := ?ws\<rparr>)
      = Inr (receipt, d')"
    using assms(3) by (auto simp: record_heartbeat_def commit_then_eq_Inr heartbeat_body_def statement_inv update_workers_eq_Inr)
  have dist: "distinct (map jr_id (db_jobs (d\<lparr>db_workers := ?ws\<rparr>)))"
    using core_invD(1) [OF reachable_core [OF assms(1,2)]] by simp
  show ?thesis
    using extend_leases_receipt [OF e] extend_leases_extended [OF e dist] by (auto simp: lock_job_def)
qed

definition sample_heartbeat :: WorkerHeartbeat where
  "sample_heartbeat = \<lparr>hb_worker_id = ''wrk_1'', hb_active_jobs = 1, hb_capacity = 1, hb_runtimes = [Redroid], hb_kvm = False,
     hb_gpu = False, hb_arch = HostX86_64, hb_lease_extends = [\<lparr>le_job_id = ''job_1'', le_lease_id = ''lease_1''\<rparr>], hb_last_seen = 20\<rparr>"

theorem heartbeat_receipt_witness:
  "\<exists>receipt d'. record_heartbeat (clock_at 20) sample_heartbeat 60000000 db_claimed = (Inr receipt, d')
     \<and> rc_extended receipt \<noteq> []
     \<and> mset (hb_lease_extends sample_heartbeat) = mset (rc_extended receipt) + mset (rc_cancel_requested receipt) + mset (rc_rejected receipt)"
proof -
  let ?r = "record_heartbeat (clock_at 20) sample_heartbeat 60000000 db_claimed"
  have "case ?r of (Inr c, _) \<Rightarrow> rc_extended c \<noteq> [] | _ \<Rightarrow> False" by code_simp
  then obtain c d' where r: "?r = (Inr c, d')" "rc_extended c \<noteq> []" by (cases ?r) (auto split: sum.splits)
  show ?thesis using heartbeat_receipt [OF sample_initial sample_reachable(3) r(1)] r by blast
qed

text \<open>
  C36. Once a job carries an outcome, no heartbeat keeps its lease alive: the job row is left exactly
  as it was, whatever extensions the heartbeat asks for.  In particular a job held in
  \<open>debug_available\<close>, which entered that state with its outcome, has only the rest of its current
  lease; when that expires the job is reported as stale.
\<close>

theorem outcome_stops_lease_extension:
  assumes "db_initial d0" and "repo_step\<^sup>*\<^sup>* d0 d" and "record_heartbeat t hb ttl d = (Inr receipt, d')"
    and "lock_job job d = Some r" and "jr_state r = DebugAvailable \<or> jr_pending_outcome r \<noteq> None"
  shows "lock_job job d' = Some r \<and> (\<forall>ext \<in> set (rc_extended receipt). le_job_id ext \<noteq> job)
    \<and> (\<forall>criteria w e. jr_lease_expires_at r = Some e \<and> e \<le> sc_lease_expired_before criteria
         \<and> jr_worker_id r = Some (wk_id w) \<and> \<not> is_terminal (jr_state r) \<longrightarrow> stale_candidate criteria r w)"
proof -
  have core: "core_inv (db_jobs d) (db_workers d)" by (rule reachable_core [OF assms(1,2)])
  have j: "job_inv r" using core_invD(4) [OF core] lock_job_SomeD [OF assms(4)] by blast
  have p: "jr_pending_outcome r \<noteq> None" using assms(5) j by (auto simp: job_inv_def)
  let ?ws = "update_rows (\<lambda>r. wk_id r = hb_worker_id hb) (heartbeat_update (tx_clock t) hb) (db_workers d)"
  obtain rc where e: "extend_leases (tx_clock t) (num_seconds ttl) (hb_worker_id hb) (hb_lease_extends hb) rc (d\<lparr>db_workers := ?ws\<rparr>)
      = Inr (receipt, d')" and rc: "rc_extended rc = []"
    using assms(3) by (auto simp: record_heartbeat_def commit_then_eq_Inr heartbeat_body_def statement_inv update_workers_eq_Inr)
  have dist: "distinct (map jr_id (db_jobs (d\<lparr>db_workers := ?ws\<rparr>)))" using core_invD(1) [OF core] by simp
  have l: "lock_job job (d\<lparr>db_workers := ?ws\<rparr>) = Some r" using assms(4) by (simp add: lock_job_def)
  have "lock_job job d' = Some r" by (rule extend_leases_job [OF e dist l p])
  moreover have "le_job_id ext \<noteq> job" if "ext \<in> set (rc_extended receipt)" for ext
    using extend_leases_extended [OF e dist that] rc l p by auto
  moreover have "stale_candidate criteria r w" if "jr_lease_expires_at r = Some x" "x \<le> sc_lease_expired_before criteria"
    "jr_worker_id r = Some (wk_id w)" "\<not> is_terminal (jr_state r)" for criteria w x
    using that j by (auto simp: stale_candidate_def job_inv_def jobs_check_def)
  ultimately show ?thesis by blast
qed

definition db_outcome :: db where
  "db_outcome = snd (record_job_result (clock_at 21) ''evt_4'' \<lparr>res_job_id = ''job_1'', res_worker_id = ''wrk_1'', res_lease_id = ''lease_1'',
     res_outcome = JobOutcome.Failed, res_artifact_ids = [], res_artifacts_finalized = False, res_cleanup_completed = False,
     res_error = None, res_completed_at = 21\<rparr> db_claimed)"

theorem outcome_stops_lease_extension_witness:
  "\<exists>receipt d' r. record_heartbeat (clock_at 22) sample_heartbeat 60000000 db_outcome = (Inr receipt, d')
     \<and> lock_job ''job_1'' db_outcome = Some r \<and> lock_job ''job_1'' d' = Some r \<and> rc_extended receipt = []"
proof -
  have "repo_step db_claimed db_outcome" unfolding db_outcome_def by (rule repo_step.result)
  then have reach: "repo_step\<^sup>*\<^sup>* sample_db db_outcome" using sample_reachable(3) by simp
  let ?r = "record_heartbeat (clock_at 22) sample_heartbeat 60000000 db_outcome"
  have "case ?r of (Inr c, _) \<Rightarrow> rc_extended c = [] | _ \<Rightarrow> False" by code_simp
  then obtain c d' where r: "?r = (Inr c, d')" "rc_extended c = []" by (cases ?r) (auto split: sum.splits)
  have "case lock_job ''job_1'' db_outcome of Some r \<Rightarrow> jr_pending_outcome r \<noteq> None | None \<Rightarrow> False" by code_simp
  then obtain row where row: "lock_job ''job_1'' db_outcome = Some row" "jr_pending_outcome row \<noteq> None"
    by (auto split: option.splits)
  show ?thesis using outcome_stops_lease_extension [OF sample_initial reach r(1) row(1)] row r by blast
qed

section \<open>Cancellation\<close>

text \<open>
  Cancellation is idempotent and never overrides an outcome.  A successful request leaves the
  job with the pending outcome \<open>cancelled\<close>; repeating it returns the job, reports no change, appends
  nothing and leaves the database as it is.  A job that is terminal or has another outcome is refused
  with a conflict, unchanged.
\<close>

theorem cancellation_idempotent:
  assumes "db_initial d0" and "repo_step\<^sup>*\<^sup>* d0 d"
  shows "(case request_job_cancellation t evt job d of
      (Inr m, d') \<Rightarrow> (\<exists>r. lock_job job d' = Some r \<and> jr_pending_outcome r = Some JobOutcome.Cancelled \<and> \<not> is_terminal (jr_state r)
          \<and> into_job r = Inr (mutated_job m)
          \<and> request_job_cancellation t' evt' job d' = (Inr \<lparr>mutated_job = mutated_job m, was_changed = False, mutation_event = None\<rparr>, d'))
    | (Inl e, d') \<Rightarrow> True)
    \<and> (\<forall>r. lock_job job d = Some r \<and> (is_terminal (jr_state r) \<or> jr_pending_outcome r \<notin> {None, Some JobOutcome.Cancelled})
        \<longrightarrow> (\<exists>why. request_job_cancellation t evt job d = (Inl (Conflict why), d)))"
proof
  have core: "core_inv (db_jobs d) (db_workers d)" by (rule reachable_core [OF assms])
  show "case request_job_cancellation t evt job d of
      (Inr m, d') \<Rightarrow> (\<exists>r. lock_job job d' = Some r \<and> jr_pending_outcome r = Some JobOutcome.Cancelled \<and> \<not> is_terminal (jr_state r)
          \<and> into_job r = Inr (mutated_job m)
          \<and> request_job_cancellation t' evt' job d' = (Inr \<lparr>mutated_job = mutated_job m, was_changed = False, mutation_event = None\<rparr>, d'))
    | (Inl e, d') \<Rightarrow> True"
  proof (cases "request_job_cancellation t evt job d")
    case (Pair res d')
    show ?thesis
    proof (cases res)
      case (Inr m)
      then obtain row ch ev where b: "cancel_body t evt job d = Inr ((row, ch, ev), d')" and j: "into_job row = Inr (mutated_job m)"
        using Pair by (auto simp: request_job_cancellation_def commit_then_eq_Inr result_inv)
      then have l: "lock_job job d' = Some row \<and> jr_pending_outcome row = Some JobOutcome.Cancelled \<and> \<not> is_terminal (jr_state row)"
      proof (cases rule: cancel_bodyE)
        case (change current d1 e)
        obtain r where r: "select_one (cancel_where job (jr_state current)) (db_jobs d) = Some r" "row = cancel_update r"
          using change(7) by auto
        have r': "r \<in> set (db_jobs d)" "cancel_where job (jr_state current) r" using select_one_SomeD [OF r(1)] by simp_all
        have "db_jobs d' = update_rows (cancel_where job (jr_state current)) cancel_update (db_jobs d)"
          using append_event_frame(1) [OF change(9)] change(8) by simp
        then show ?thesis
          using select_update_row [where p = "cancel_where job (jr_state current)" and f = cancel_update,
              OF core_invD(1) [OF core] r'] r'(2) r(2)
          by (simp add: lock_job_def cancel_where_def cancel_update_def)
      qed simp
      then have "request_job_cancellation t' evt' job d' = (Inr \<lparr>mutated_job = mutated_job m, was_changed = False, mutation_event = None\<rparr>, d')"
        using j by (simp add: request_job_cancellation_def cancel_body_def)
      then show ?thesis using l j Pair Inr by auto
    qed (simp add: Pair)
  qed
  show "\<forall>r. lock_job job d = Some r \<and> (is_terminal (jr_state r) \<or> jr_pending_outcome r \<notin> {None, Some JobOutcome.Cancelled})
        \<longrightarrow> (\<exists>why. request_job_cancellation t evt job d = (Inl (Conflict why), d))"
  proof (intro allI impI, elim conjE)
    fix r assume l: "lock_job job d = Some r"
      and c: "is_terminal (jr_state r) \<or> jr_pending_outcome r \<notin> {None, Some JobOutcome.Cancelled}"
    have "\<exists>why. cancel_body t evt job d = Inl (Conflict why)"
    proof (cases "is_terminal (jr_state r)")
      case True
      then show ?thesis by (simp add: cancel_body_def l)
    next
      case False
      then obtain p where "jr_pending_outcome r = Some p" "p \<noteq> JobOutcome.Cancelled" using c by auto
      then show ?thesis using False by (simp add: cancel_body_def l pending_conflict_def)
    qed
    then show "\<exists>why. request_job_cancellation t evt job d = (Inl (Conflict why), d)"
      by (auto simp: request_job_cancellation_def)
  qed
qed

theorem cancellation_idempotent_witness:
  "\<exists>m d'. request_job_cancellation (clock_at 30) ''evt_7'' ''job_1'' db_claimed = (Inr m, d')
     \<and> request_job_cancellation (clock_at 31) ''evt_8'' ''job_1'' d' = (Inr \<lparr>mutated_job = mutated_job m, was_changed = False, mutation_event = None\<rparr>, d')"
proof -
  let ?r = "request_job_cancellation (clock_at 30) ''evt_7'' ''job_1'' db_claimed"
  have "case ?r of (Inr c, _) \<Rightarrow> True | _ \<Rightarrow> False" by code_simp
  then obtain m d' where r: "?r = (Inr m, d')" by (cases ?r) (auto split: sum.splits)
  have "case ?r of
      (Inr m, d') \<Rightarrow> (\<exists>r. lock_job ''job_1'' d' = Some r \<and> jr_pending_outcome r = Some JobOutcome.Cancelled \<and> \<not> is_terminal (jr_state r)
          \<and> into_job r = Inr (mutated_job m)
          \<and> request_job_cancellation (clock_at 31) ''evt_8'' ''job_1'' d' = (Inr \<lparr>mutated_job = mutated_job m, was_changed = False, mutation_event = None\<rparr>, d'))
    | (Inl e, d') \<Rightarrow> True"
    by (rule conjunct1 [OF cancellation_idempotent [OF sample_initial sample_reachable(3)]])
  then show ?thesis unfolding r by auto
qed

end
