(* ===== verification/Outbox_Leasing.thy ===== *)
theory Outbox_Leasing
  imports Repo_Safety
begin

text \<open>
  What a dispatcher's outbox lease protects (\<open>lease_outbox_messages_for_subject\<close>,
  \<open>mark_outbox_published\<close> and \<open>retry_outbox_message\<close> of \<open>crates/repository/src/outbox.rs\<close>).
\<close>

section \<open>Outbox leases\<close>

definition lease_ids :: "TxClock \<Rightarrow> string option \<Rightarrow> duration \<Rightarrow> int \<Rightarrow> db \<Rightarrow> int list" where
  "lease_ids t subject ttl n d =
     map ob_id (take (nat n) (sort_key outbox_order (filter (outbox_candidate (tx_clock t) subject ttl) (db_outbox d))))"

lemma outbox_of_row_eq: "outbox_of_row r = Inr m \<Longrightarrow> m = r"
  by (auto simp: outbox_of_row_def result_inv)

lemma collect_outbox: "collect_results outbox_of_row rows = Inr ms \<Longrightarrow> ms = rows"
  by (induction rows arbitrary: ms) (auto simp: result_inv dest: outbox_of_row_eq)

definition lease_mark :: "TxClock \<Rightarrow> string \<Rightarrow> OutboxRow \<Rightarrow> OutboxRow" where
  "lease_mark t dispatcher r =
     r\<lparr>ob_locked_by := Some dispatcher, ob_locked_at := Some (tx_clock t), ob_attempts := ob_attempts r + 1\<rparr>"

definition lease_picks :: "TxClock \<Rightarrow> string \<Rightarrow> duration \<Rightarrow> u32 \<Rightarrow> db \<Rightarrow> OutboxRow \<Rightarrow> bool" where
  "lease_picks t subject ttl n d r \<longleftrightarrow> ob_id r \<in> set (lease_ids t (Some subject) ttl (uint n) d)"

lemma lease_rows_eq:
  "lease_rows t dispatcher (Some subject) ttl (uint n) d =
     bind_result (sql_update outbox_violation (lease_picks t subject ttl n d) (lease_mark t dispatcher) (db_outbox d))
       (\<lambda>(changed, rows). Inr (changed, d\<lparr>db_outbox := rows\<rparr>))"
  by (simp add: lease_rows_def lease_picks_def [abs_def] lease_mark_def [abs_def] lease_ids_def Let_def)

lemma leaseD:
  assumes "lease_outbox_messages_for_subject t dispatcher subject ttl n d = (Inr ms, d')"
  shows "d' = d\<lparr>db_outbox := update_rows (lease_picks t subject ttl n d) (lease_mark t dispatcher) (db_outbox d)\<rparr>"
    and "ms = sort_key outbox_order (map (lease_mark t dispatcher) (filter (lease_picks t subject ttl n d) (db_outbox d)))"
proof -
  from assms obtain rows where
    "lease_rows t dispatcher (Some subject) ttl (uint n) d = Inr (rows, d')"
    "collect_results outbox_of_row rows = Inr ms0 \<Longrightarrow> ms = sort_key outbox_order ms0" "\<exists>ms0. collect_results outbox_of_row rows = Inr ms0" for ms0
    by (auto simp: lease_outbox_messages_for_subject_def lease_with_subject_def commit_then_eq_Inr result_inv
        checked_limit_def split: sum.splits if_splits)
  then show "d' = d\<lparr>db_outbox := update_rows (lease_picks t subject ttl n d) (lease_mark t dispatcher) (db_outbox d)\<rparr>"
    "ms = sort_key outbox_order (map (lease_mark t dispatcher) (filter (lease_picks t subject ttl n d) (db_outbox d)))"
    by (auto simp: lease_rows_eq statement_inv dest: collect_outbox)
qed

lemma lease_picks_candidate:
  assumes "outbox_inv d" and "r \<in> set (db_outbox d)" and "lease_picks t subject ttl n d r"
  shows "outbox_candidate (tx_clock t) (Some subject) ttl r"
proof -
  from assms(3) obtain s where s: "s \<in> set (db_outbox d)" "outbox_candidate (tx_clock t) (Some subject) ttl s" "ob_id s = ob_id r"
    by (auto simp: lease_picks_def lease_ids_def dest!: in_set_takeD)
  then have "s = r" using distinct_key_eq [of ob_id "db_outbox d" s r] assms(1,2) by (simp add: outbox_inv_def)
  with s show ?thesis by simp
qed

text \<open>
  C37. Outbox leases are exclusive while they live.  A dispatcher is handed unpublished, available
  messages of its subject, in order of availability; they are locked in its name, and no other
  lease call hands any of them out before the lease timeout has passed, for any dispatcher, subject
  or batch size.
\<close>

theorem outbox_lease_exclusive:
  assumes "db_initial d0" and "repo_step\<^sup>*\<^sup>* d0 d"
    and "lease_outbox_messages_for_subject t dispatcher subject ttl n d = (Inr ms, d1)"
    and "lease_outbox_messages_for_subject t' dispatcher' subject' ttl' n' d1 = (Inr ms', d2)"
    and "tx_clock t' < tx_clock t + 1000 * milliseconds ttl'"
  shows "(\<forall>m \<in> set ms. ob_locked_by m = Some dispatcher \<and> ob_published_at m = None \<and> ob_subject m = subject
        \<and> ob_available_at m \<le> tx_clock t)
    \<and> sorted (map outbox_order ms) \<and> ob_id ` set ms \<inter> ob_id ` set ms' = {}"
proof -
  have inv: "outbox_inv d" using repo.reachable_invariant [OF assms(1,2)] by (simp add: full_inv_def)
  have "repo_step d d1" using repo_step.lease_subject [of d t dispatcher subject ttl n] assms(3) by simp
  then have inv1: "outbox_inv d1"
    using repo.reachable_invariant [OF assms(1) rtranclp.rtrancl_into_rtrancl [OF assms(2)]] by (simp add: full_inv_def)
  note 1 = leaseD [OF assms(3)] and 2 = leaseD [OF assms(4)]
  have first: "ob_locked_by m = Some dispatcher \<and> ob_published_at m = None \<and> ob_subject m = subject \<and> ob_available_at m \<le> tx_clock t"
    if "m \<in> set ms" for m
  proof -
    from that obtain r where r: "r \<in> set (db_outbox d)" "lease_picks t subject ttl n d r" "m = lease_mark t dispatcher r" by (auto simp: 1(2))
    then show ?thesis using lease_picks_candidate [OF inv r(1,2)] by (auto simp: lease_mark_def outbox_candidate_def)
  qed
  have "ob_id m \<noteq> ob_id m'" if m: "m \<in> set ms" and m': "m' \<in> set ms'" for m m'
  proof
    assume eq: "ob_id m = ob_id m'"
    from m obtain r where r: "r \<in> set (db_outbox d)" "lease_picks t subject ttl n d r" "m = lease_mark t dispatcher r" by (auto simp: 1(2))
    from m' obtain s where s: "s \<in> set (db_outbox d1)" "lease_picks t' subject' ttl' n' d1 s" "m' = lease_mark t' dispatcher' s" by (auto simp: 2(2))
    have "m \<in> set (db_outbox d1)" using r by (auto simp: 1(1) set_update_rows)
    moreover have "ob_id s = ob_id m" using eq s(3) by (simp add: lease_mark_def)
    ultimately have "s = m" using distinct_key_eq [of ob_id "db_outbox d1" s m] s(1) inv1 by (simp add: outbox_inv_def)
    then show False using assms(5) lease_picks_candidate [OF inv1 s(1,2)] r(3) by (simp add: outbox_candidate_def lease_mark_def)
  qed
  then show ?thesis using first by (auto simp: 1(2))
qed

definition lease_twice :: "db \<Rightarrow> ((RepositoryError + OutboxRow list) \<times> db) \<times> ((RepositoryError + OutboxRow list) \<times> db)" where
  "lease_twice d = (let a = lease_outbox_messages_for_subject (clock_at 20) ''disp_a'' ''jobs.queued'' 5000 10 d
     in (a, lease_outbox_messages_for_subject (clock_at 21) ''disp_b'' ''jobs.queued'' 5000 10 (snd a)))"

theorem outbox_lease_exclusive_witness:
  "\<exists>ms d1 ms' d2. lease_twice db_created = ((Inr ms, d1), (Inr ms', d2)) \<and> length ms = 1 \<and> ob_id ` set ms \<inter> ob_id ` set ms' = {}"
proof -
  have "case lease_twice db_created of (a, b) \<Rightarrow> (case fst a of Inr ms \<Rightarrow> length ms = 1 | _ \<Rightarrow> False) \<and> is_ok (fst b)" by code_simp
  then obtain ms d1 ms' d2 where r: "lease_twice db_created = ((Inr ms, d1), (Inr ms', d2))" "length ms = 1"
    by (cases "lease_twice db_created") (auto simp: is_ok_iff split: sum.splits prod.splits)
  then have "lease_outbox_messages_for_subject (clock_at 20) ''disp_a'' ''jobs.queued'' 5000 10 db_created = (Inr ms, d1)"
    "lease_outbox_messages_for_subject (clock_at 21) ''disp_b'' ''jobs.queued'' 5000 10 d1 = (Inr ms', d2)"
    by (auto simp: lease_twice_def Let_def)
  from outbox_lease_exclusive [OF sample_initial sample_reachable(1) this] r show ?thesis
    by (auto simp: clock_at_def milliseconds_def)
qed

text \<open>
  C38. Only the holder of the lease settles a message: marking a message published, or scheduling its
  retry, by a dispatcher that does not hold an unpublished message under that identifier is refused
  as a lost compare-and-swap and changes nothing.
\<close>

theorem settle_requires_lease:
  assumes "\<forall>m \<in> set (db_outbox d). ob_id m = message \<longrightarrow> ob_published_at m \<noteq> None \<or> ob_locked_by m \<noteq> Some dispatcher"
    and "\<not> is_blank dispatcher" and "\<not> is_blank last_error"
  shows "mark_outbox_published t message dispatcher d
      = (Inl (CompareAndSwapLost ''outbox message lease'' (show_int message)), d)
    \<and> retry_outbox_message t message dispatcher available_at last_error d
      = (Inl (CompareAndSwapLost ''outbox message lease'' (show_int message)), d)"
proof -
  have "filter (holds_outbox_lease message dispatcher) (db_outbox d) = []"
    using assms(1) by (auto simp: filter_empty_conv holds_outbox_lease_def)
  then have "update_outbox_row (holds_outbox_lease message dispatcher) f lost d = Inl lost" for f lost
    by (simp add: update_outbox_row_def sql_update_def List.map_filter_def)
  then show ?thesis
    using assms(2,3) by (simp add: mark_outbox_published_def retry_outbox_message_def validate_dispatcher_id_def)
qed

theorem settle_requires_lease_witness:
  "db_outbox db_created \<noteq> [] \<and> mark_outbox_published (clock_at 40) 1 ''disp_b'' db_created
     = (Inl (CompareAndSwapLost ''outbox message lease'' (show_int 1)), db_created)"
proof -
  have a: "list_all (\<lambda>m. ob_locked_by m = None) (db_outbox db_created)" "db_outbox db_created \<noteq> []" by code_simp+
  then have h: "\<forall>m \<in> set (db_outbox db_created). ob_id m = 1 \<longrightarrow> ob_published_at m \<noteq> None \<or> ob_locked_by m \<noteq> Some ''disp_b''"
    by (auto simp: list_all_iff)
  have b: "\<not> is_blank ''disp_b''" "\<not> is_blank ''e''" by code_simp+
  show ?thesis using settle_requires_lease [OF h b] a(2) by simp
qed

end
