(* ===== verification/Subjects.thy ===== *)
theory Subjects
  imports Ordered_Map Primitives
begin

text \<open>
  Who may speak where on the message bus: the subjects and trace headers of
  \<open>crates/scheduler/src/subjects.rs\<close>, the permission policies of \<open>security.rs\<close>, and the parsing of
  control subjects and reply inboxes of \<open>control.rs\<close>.  The header map of the NATS client and its
  header-name and header-value parsers are arguments.
\<close>

section \<open>Subjects\<close>

definition JOBS_QUEUED_SUBJECT :: string where "JOBS_QUEUED_SUBJECT = ''jobs.queued''"

definition JOBS_DEAD_SUBJECT :: string where "JOBS_DEAD_SUBJECT = ''jobs.dead''"

definition JOB_QUEUE_STREAM :: string where "JOB_QUEUE_STREAM = ''JOB_QUEUE''"

definition JOB_DISPATCH_CONSUMER :: string where "JOB_DISPATCH_CONSUMER = ''job-dispatch-v1''"

definition MAX_DELIVERIES_ADVISORY_SUBJECT :: string where
  "MAX_DELIVERIES_ADVISORY_SUBJECT =
     ''$JS.EVENT.ADVISORY.CONSUMER.MAX_DELIVERIES.JOB_QUEUE.job-dispatch-v1''"

definition TERMINATED_ADVISORY_SUBJECT :: string where
  "TERMINATED_ADVISORY_SUBJECT =
     ''$JS.EVENT.ADVISORY.CONSUMER.MSG_TERMINATED.JOB_QUEUE.job-dispatch-v1''"

definition worker_registration_subject :: "WorkerId \<Rightarrow> string" where
  "worker_registration_subject w = ''control.workers.'' @ w @ ''.register''"

definition worker_heartbeat_subject :: "WorkerId \<Rightarrow> string" where
  "worker_heartbeat_subject w = ''control.workers.'' @ w @ ''.heartbeat''"

definition job_transition_subject :: "WorkerId \<Rightarrow> string" where
  "job_transition_subject w = ''control.jobs.'' @ w @ ''.transition''"

definition job_result_subject :: "WorkerId \<Rightarrow> string" where
  "job_result_subject w = ''control.jobs.'' @ w @ ''.result''"

definition worker_dispatch_subject :: "WorkerId \<Rightarrow> string" where
  "worker_dispatch_subject w = ''workers.'' @ w @ ''.dispatch''"

section \<open>Trace headers\<close>

definition TRACE_HEADER_NAMES :: "string list" where
  "TRACE_HEADER_NAMES = [''traceparent'', ''tracestate'', ''baggage'']"

definition MAX_TRACE_HEADER_BYTES :: nat where "MAX_TRACE_HEADER_BYTES = 4096"

datatype TraceHeaderError =
    Unsupported string | TraceTooLarge string | InvalidName string | InvalidValue string

fun extract_names :: "(string \<Rightarrow> string option) \<Rightarrow> string list \<Rightarrow> (string, string) btree \<Rightarrow> (string, string) btree" where
  "extract_names get [] trace = trace"
| "extract_names get (name # names) trace =
     extract_names get names
       (case get name of
          Some v \<Rightarrow> if length v \<le> MAX_TRACE_HEADER_BYTES then bt_put name v trace else trace
        | None \<Rightarrow> trace)"

definition extract_trace_headers :: "(string \<Rightarrow> string option) \<Rightarrow> (string, string) btree" where
  "extract_trace_headers get = extract_names get TRACE_HEADER_NAMES []"

definition to_ascii_lowercase :: "char \<Rightarrow> char" where
  "to_ascii_lowercase c = (if 65 \<le> ascii_code c \<and> ascii_code c \<le> 90 then char_of (ascii_code c + 32) else c)"

definition eq_ignore_ascii_case :: "string \<Rightarrow> string \<Rightarrow> bool" where
  "eq_ignore_ascii_case a b \<longleftrightarrow> map to_ascii_lowercase a = map to_ascii_lowercase b"

fun inject_trace_headers ::
  "(string \<Rightarrow> 'n option) \<Rightarrow> (string \<Rightarrow> 'v option) \<Rightarrow> ('n \<Rightarrow> 'v \<Rightarrow> 'h \<Rightarrow> 'h) \<Rightarrow> (string, string) btree \<Rightarrow> 'h \<Rightarrow>
   TraceHeaderError + 'h" where
  "inject_trace_headers parse_name parse_value insert_header [] headers = Inr headers"
| "inject_trace_headers parse_name parse_value insert_header ((name, v) # trace) headers =
     bind_result (ok_or (find (\<lambda>c. eq_ignore_ascii_case c name) TRACE_HEADER_NAMES) (Unsupported name)) (\<lambda>canonical.
     bind_result (ensure (length v \<le> MAX_TRACE_HEADER_BYTES) (TraceTooLarge canonical)) (\<lambda>_.
     bind_result (ok_or (parse_name canonical) (InvalidName canonical)) (\<lambda>parsed_name.
     bind_result (ok_or (parse_value v) (InvalidValue canonical)) (\<lambda>parsed_value.
       inject_trace_headers parse_name parse_value insert_header trace
         (insert_header parsed_name parsed_value headers)))))"

section \<open>Permission policies\<close>

datatype NatsPrincipal = ApiPrincipal | SchedulerPrincipal | WorkerPrincipal WorkerId

record NatsPermissionPolicy =
  np_principal :: NatsPrincipal
  np_publish :: "string list"
  np_subscribe :: "string list"
  np_allow_responses :: bool
  np_manage_jetstream :: bool
  np_consume_job_queue :: bool
  np_raw_jetstream_ack :: bool
  np_inbox_prefix :: string

definition API_INBOX_PREFIX :: string where "API_INBOX_PREFIX = ''_INBOX.api''"

definition SCHEDULER_INBOX_PREFIX :: string where "SCHEDULER_INBOX_PREFIX = ''_INBOX.scheduler''"

definition JOB_QUEUE_ACK_SUBJECTS :: string where
  "JOB_QUEUE_ACK_SUBJECTS = ''$JS.ACK.JOB_QUEUE.job-dispatch-v1.>''"

definition JOB_ADVISORY_ACK_SUBJECTS :: string where
  "JOB_ADVISORY_ACK_SUBJECTS = ''$JS.ACK.JOB_ADVISORIES.job-advisory-recovery-v1.>''"

definition SCHEDULER_JETSTREAM_API_SUBJECTS :: "string list" where
  "SCHEDULER_JETSTREAM_API_SUBJECTS =
     [''$JS.API.STREAM.INFO.JOB_QUEUE'', ''$JS.API.STREAM.CREATE.JOB_QUEUE'',
      ''$JS.API.STREAM.UPDATE.JOB_QUEUE'', ''$JS.API.STREAM.MSG.GET.JOB_QUEUE'',
      ''$JS.API.STREAM.MSG.DELETE.JOB_QUEUE'', ''$JS.API.STREAM.INFO.JOB_DLQ'',
      ''$JS.API.STREAM.CREATE.JOB_DLQ'', ''$JS.API.STREAM.UPDATE.JOB_DLQ'',
      ''$JS.API.STREAM.INFO.JOB_ADVISORIES'', ''$JS.API.STREAM.CREATE.JOB_ADVISORIES'',
      ''$JS.API.STREAM.UPDATE.JOB_ADVISORIES'', ''$JS.API.CONSUMER.INFO.JOB_QUEUE.job-dispatch-v1'',
      ''$JS.API.CONSUMER.CREATE.JOB_QUEUE.job-dispatch-v1.jobs.queued'',
      ''$JS.API.CONSUMER.MSG.NEXT.JOB_QUEUE.job-dispatch-v1'',
      ''$JS.API.CONSUMER.INFO.JOB_ADVISORIES.job-advisory-recovery-v1'',
      ''$JS.API.CONSUMER.CREATE.JOB_ADVISORIES.job-advisory-recovery-v1'',
      ''$JS.API.CONSUMER.MSG.NEXT.JOB_ADVISORIES.job-advisory-recovery-v1'']"

definition worker_inbox_prefix :: "WorkerId \<Rightarrow> string" where
  "worker_inbox_prefix w = ''_INBOX.workers.'' @ w"

definition policy_api :: NatsPermissionPolicy where
  "policy_api = \<lparr>np_principal = ApiPrincipal, np_publish = [JOBS_QUEUED_SUBJECT],
     np_subscribe = [API_INBOX_PREFIX @ ''.>''], np_allow_responses = False, np_manage_jetstream = False,
     np_consume_job_queue = False, np_raw_jetstream_ack = False, np_inbox_prefix = API_INBOX_PREFIX\<rparr>"

definition policy_scheduler :: NatsPermissionPolicy where
  "policy_scheduler = \<lparr>np_principal = SchedulerPrincipal,
     np_publish = [JOBS_QUEUED_SUBJECT, JOBS_DEAD_SUBJECT, ''workers.*.dispatch'', ''_INBOX.workers.*.>'',
        JOB_QUEUE_ACK_SUBJECTS, JOB_ADVISORY_ACK_SUBJECTS] @ SCHEDULER_JETSTREAM_API_SUBJECTS,
     np_subscribe = [''control.workers.*.register'', ''control.workers.*.heartbeat'',
        ''control.jobs.*.transition'', ''control.jobs.*.result'', MAX_DELIVERIES_ADVISORY_SUBJECT,
        TERMINATED_ADVISORY_SUBJECT, SCHEDULER_INBOX_PREFIX @ ''.>''],
     np_allow_responses = False, np_manage_jetstream = True, np_consume_job_queue = True,
     np_raw_jetstream_ack = True, np_inbox_prefix = SCHEDULER_INBOX_PREFIX\<rparr>"

definition policy_worker :: "WorkerId \<Rightarrow> NatsPermissionPolicy" where
  "policy_worker w = \<lparr>np_principal = WorkerPrincipal w,
     np_publish = [worker_registration_subject w, worker_heartbeat_subject w, job_transition_subject w,
        job_result_subject w],
     np_subscribe = [worker_dispatch_subject w, worker_inbox_prefix w @ ''.>''],
     np_allow_responses = True, np_manage_jetstream = False, np_consume_job_queue = False,
     np_raw_jetstream_ack = False, np_inbox_prefix = worker_inbox_prefix w\<rparr>"

definition contains_wildcard :: "string \<Rightarrow> bool" where
  "contains_wildcard subject \<longleftrightarrow> list_ex (\<lambda>token. token = ''*'' \<or> token = ''>'') (split_char CHR ''.'' subject)"

fun tokens_match :: "string list \<Rightarrow> string list \<Rightarrow> bool" where
  "tokens_match (p # ps) (s # ss) =
     (if p = ''>'' then ps = [] else if p = ''*'' \<or> p = s then tokens_match ps ss else False)"
| "tokens_match [] [] = True"
| "tokens_match _ _ = False"

definition subject_matches :: "string \<Rightarrow> string \<Rightarrow> bool" where
  "subject_matches permission subject =
     tokens_match (split_char CHR ''.'' permission) (split_char CHR ''.'' subject)"

definition allows_publish :: "NatsPermissionPolicy \<Rightarrow> string \<Rightarrow> bool" where
  "allows_publish policy subject \<longleftrightarrow> \<not> contains_wildcard subject
     \<and> list_ex (\<lambda>permission. subject_matches permission subject) (np_publish policy)"

definition allows_subscribe :: "NatsPermissionPolicy \<Rightarrow> string \<Rightarrow> bool" where
  "allows_subscribe policy subject \<longleftrightarrow>
     list_ex (\<lambda>permission. permission = subject
       \<or> \<not> contains_wildcard subject \<and> subject_matches permission subject) (np_subscribe policy)"

section \<open>Control subjects and reply inboxes\<close>

datatype ControlRoute =
    RegisterRoute WorkerId | HeartbeatRoute WorkerId | TransitionRoute WorkerId | ResultRoute WorkerId

fun route_worker_id :: "ControlRoute \<Rightarrow> WorkerId" where
  "route_worker_id (RegisterRoute w) = w"
| "route_worker_id (HeartbeatRoute w) = w"
| "route_worker_id (TransitionRoute w) = w"
| "route_worker_id (ResultRoute w) = w"

datatype SubjectParseError = UnsupportedShape | InvalidWorkerId

definition route_of :: "string \<Rightarrow> string \<Rightarrow> WorkerId \<Rightarrow> SubjectParseError + ControlRoute" where
  "route_of namespace operation w =
     (if namespace = ''workers'' \<and> operation = ''register'' then Inr (RegisterRoute w)
      else if namespace = ''workers'' \<and> operation = ''heartbeat'' then Inr (HeartbeatRoute w)
      else if namespace = ''jobs'' \<and> operation = ''transition'' then Inr (TransitionRoute w)
      else if namespace = ''jobs'' \<and> operation = ''result'' then Inr (ResultRoute w)
      else Inl UnsupportedShape)"

definition parse_control_subject :: "string \<Rightarrow> SubjectParseError + ControlRoute" where
  "parse_control_subject subject =
     (case split_char CHR ''.'' subject of
        [control, namespace, worker, operation] \<Rightarrow>
          bind_result (ensure (control = ''control'') UnsupportedShape) (\<lambda>_.
          bind_result (case WorkerId_new worker of Inl _ \<Rightarrow> Inl InvalidWorkerId | Inr w \<Rightarrow> Inr w) (\<lambda>w.
            route_of namespace operation w))
      | _ \<Rightarrow> Inl UnsupportedShape)"

definition worker_matches_subject :: "WorkerId \<Rightarrow> WorkerId \<Rightarrow> bool" where
  "worker_matches_subject subject_worker payload_worker \<longleftrightarrow> subject_worker = payload_worker"

definition reply_is_scoped_to_worker :: "string \<Rightarrow> WorkerId \<Rightarrow> bool" where
  "reply_is_scoped_to_worker reply w =
     (case strip_prefix (worker_inbox_prefix w) reply of
        None \<Rightarrow> False
      | Some suffix \<Rightarrow>
          (case strip_prefix ''.'' suffix of
             None \<Rightarrow> False
           | Some tokens \<Rightarrow> tokens \<noteq> []
               \<and> list_all (\<lambda>token. token \<noteq> [] \<and> token \<noteq> ''*'' \<and> token \<noteq> ''>'') (split_char CHR ''.'' tokens)))"

text \<open>The subject a worker sends each kind of request on.\<close>

fun route_subject :: "ControlRoute \<Rightarrow> string" where
  "route_subject (RegisterRoute w) = worker_registration_subject w"
| "route_subject (HeartbeatRoute w) = worker_heartbeat_subject w"
| "route_subject (TransitionRoute w) = job_transition_subject w"
| "route_subject (ResultRoute w) = job_result_subject w"

section \<open>Lemmas\<close>

lemma split_char_inj: "split_char c s = split_char c t \<longleftrightarrow> s = t"
  using join_char_split by metis

lemma valid_worker_id_token:
  assumes "valid_worker_id w"
  shows "CHR ''.'' \<notin> set w" "w \<noteq> ''*''" "w \<noteq> ''>''"
  using valid_worker_id_bytes [OF assms, of "CHR ''.''"] valid_worker_id_bytes [OF assms, of "CHR ''*''"]
    valid_worker_id_bytes [OF assms, of "CHR ''>''"] by auto

lemma worker_subject_tokens:
  assumes "CHR ''.'' \<notin> set w"
  shows "split_char CHR ''.'' (worker_registration_subject w) = [''control'', ''workers'', w, ''register'']"
    "split_char CHR ''.'' (worker_heartbeat_subject w) = [''control'', ''workers'', w, ''heartbeat'']"
    "split_char CHR ''.'' (job_transition_subject w) = [''control'', ''jobs'', w, ''transition'']"
    "split_char CHR ''.'' (job_result_subject w) = [''control'', ''jobs'', w, ''result'']"
    "split_char CHR ''.'' (worker_dispatch_subject w) = [''workers'', w, ''dispatch'']"
    "split_char CHR ''.'' (worker_inbox_prefix w @ CHR ''.'' # s) = ''_INBOX'' # ''workers'' # w # split_char CHR ''.'' s"
  using split_char_append [OF assms]
  by (simp_all add: worker_registration_subject_def worker_heartbeat_subject_def job_transition_subject_def
      job_result_subject_def worker_dispatch_subject_def worker_inbox_prefix_def)

lemma tokens_match_exact:
  "\<forall>p \<in> set ps. p \<noteq> ''*'' \<and> p \<noteq> ''>'' \<Longrightarrow> tokens_match ps ss \<longleftrightarrow> ps = ss"
  by (induction ps ss rule: tokens_match.induct) auto

lemma subject_matches_exact:
  "\<not> contains_wildcard permission \<Longrightarrow> subject_matches permission subject \<longleftrightarrow> permission = subject"
  by (simp add: subject_matches_def contains_wildcard_def list_ex_iff tokens_match_exact split_char_inj)

lemma route_subject_tokens:
  assumes "CHR ''.'' \<notin> set (route_worker_id r)"
  shows "\<exists>namespace operation. split_char CHR ''.'' (route_subject r) = [''control'', namespace, route_worker_id r, operation]
    \<and> route_of namespace operation (route_worker_id r) = Inr r \<and> namespace \<noteq> ''*'' \<and> namespace \<noteq> ''>''
    \<and> operation \<noteq> ''*'' \<and> operation \<noteq> ''>''"
  using assms by (cases r) (simp_all add: worker_subject_tokens route_of_def)

lemma route_of_InrD:
  assumes "route_of namespace operation w = Inr r" and "CHR ''.'' \<notin> set w"
  shows "route_worker_id r = w \<and> split_char CHR ''.'' (route_subject r) = [''control'', namespace, w, operation]"
  using assms by (auto simp: route_of_def worker_subject_tokens split: if_splits)

lemma parse_control_subject_iff:
  "parse_control_subject s = Inr r \<longleftrightarrow> valid_worker_id (route_worker_id r) \<and> s = route_subject r"
proof
  assume parsed: "parse_control_subject s = Inr r"
  then obtain namespace w operation where t: "split_char CHR ''.'' s = [''control'', namespace, w, operation]"
    and w: "WorkerId_new w = Inr w" and r: "route_of namespace operation w = Inr r"
    by (auto simp: parse_control_subject_def result_inv WorkerId_new_def identifier_new_iff
        split: list.splits sum.splits)
  from w have v: "valid_worker_id w" by (simp add: valid_worker_id_def)
  with route_of_InrD [OF r valid_worker_id_token(1) [OF v]] t
  show "valid_worker_id (route_worker_id r) \<and> s = route_subject r"
    using split_char_inj [of "CHR ''.''" s "route_subject r"] by simp
next
  assume a: "valid_worker_id (route_worker_id r) \<and> s = route_subject r"
  then show "parse_control_subject s = Inr r"
    using route_subject_tokens [OF valid_worker_id_token(1), of r]
    by (auto simp: parse_control_subject_def valid_worker_id_def)
qed

lemma worker_publishes_own_routes:
  assumes "valid_worker_id w" and "allows_publish (policy_worker w) s"
  shows "\<exists>r. s = route_subject r \<and> route_worker_id r = w"
proof -
  note tok = valid_worker_id_token [OF assms(1)]
  have "\<not> contains_wildcard (route_subject r)" if "route_worker_id r = w" for r
    using route_subject_tokens [of r] that tok by (auto simp: contains_wildcard_def)
  then have "subject_matches (route_subject r) s \<Longrightarrow> route_subject r = s" if "route_worker_id r = w" for r
    using that by (simp add: subject_matches_exact)
  from this [of "RegisterRoute w"] this [of "HeartbeatRoute w"] this [of "TransitionRoute w"] this [of "ResultRoute w"]
    assms(2) show ?thesis
    by (auto simp: allows_publish_def policy_worker_def intro: exI [of _ "RegisterRoute w"] exI [of _ "HeartbeatRoute w"]
        exI [of _ "TransitionRoute w"] exI [of _ "ResultRoute w"])
qed

lemma scoped_reply_tokens:
  assumes "reply_is_scoped_to_worker reply w" and "valid_worker_id w"
  obtains t ts where "split_char CHR ''.'' reply = ''_INBOX'' # ''workers'' # w # t # ts"
    "\<forall>x \<in> set (t # ts). x \<noteq> ''*'' \<and> x \<noteq> ''>''"
proof -
  from assms(1) obtain rest where reply: "reply = worker_inbox_prefix w @ CHR ''.'' # rest"
    and ok: "\<forall>x \<in> set (split_char CHR ''.'' rest). x \<noteq> ''*'' \<and> x \<noteq> ''>''"
    by (auto simp: reply_is_scoped_to_worker_def strip_prefix_eq_Some list_all_iff split: option.splits)
  obtain t ts where "split_char CHR ''.'' rest = t # ts" by (cases "split_char CHR ''.'' rest") auto
  with that [of t ts] reply ok worker_subject_tokens(6) [OF valid_worker_id_token(1) [OF assms(2)]]
  show thesis by simp
qed

lemma inbox_permission:
  assumes "valid_worker_id u" and "split_char CHR ''.'' reply = ''_INBOX'' # ''workers'' # w # t # ts"
  shows "subject_matches (worker_inbox_prefix u @ ''.>'') reply \<longleftrightarrow> u = w"
proof -
  have "split_char CHR ''.'' (worker_inbox_prefix u @ ''.>'') = [''_INBOX'', ''workers'', u, ''>'']"
    using worker_subject_tokens(6) [OF valid_worker_id_token(1) [OF assms(1)], of "''>''"] by simp
  then show ?thesis using valid_worker_id_token(2,3) [OF assms(1)] by (simp add: subject_matches_def assms(2))
qed

lemma api_inbox_tokens: "split_char CHR ''.'' (API_INBOX_PREFIX @ ''.>'') = [''_INBOX'', ''api'', ''>'']"
  by code_simp

lemma scheduler_inbox_tokens: "split_char CHR ''.'' ''_INBOX.workers.*.>'' = [''_INBOX'', ''workers'', ''*'', ''>'']"
  by code_simp

lemma other_subscriptions:
  assumes "split_char CHR ''.'' reply = ''_INBOX'' # ''workers'' # rest" and "\<not> contains_wildcard reply"
  shows "\<not> allows_subscribe policy_api reply"
    and "valid_worker_id v \<Longrightarrow> allows_subscribe (policy_worker v) reply \<longleftrightarrow> subject_matches (worker_inbox_prefix v @ ''.>'') reply"
proof -
  have "API_INBOX_PREFIX @ ''.>'' \<noteq> reply"
  proof
    assume eq: "API_INBOX_PREFIX @ ''.>'' = reply"
    show False using api_inbox_tokens [unfolded eq assms(1)] by simp
  qed
  moreover have "\<not> subject_matches (API_INBOX_PREFIX @ ''.>'') reply"
    unfolding subject_matches_def api_inbox_tokens assms(1) by simp
  ultimately show "\<not> allows_subscribe policy_api reply" by (simp add: allows_subscribe_def policy_api_def)
next
  assume v: "valid_worker_id v"
  note tok = worker_subject_tokens(5,6) [OF valid_worker_id_token(1) [OF v]]
  have "worker_dispatch_subject v \<noteq> reply"
  proof
    assume eq: "worker_dispatch_subject v = reply"
    show False using tok(1) [unfolded eq assms(1)] by simp
  qed
  moreover have "\<not> subject_matches (worker_dispatch_subject v) reply"
    unfolding subject_matches_def tok assms(1) by simp
  moreover have "worker_inbox_prefix v @ ''.>'' \<noteq> reply"
    using assms(2) tok(2) [of "''>''"] by (auto simp: contains_wildcard_def)
  ultimately show "allows_subscribe (policy_worker v) reply \<longleftrightarrow> subject_matches (worker_inbox_prefix v @ ''.>'') reply"
    using assms(2) by (simp add: allows_subscribe_def policy_worker_def)
qed

section \<open>Properties\<close>

text \<open>
  C34. Control subjects and routes correspond one to one: a subject parses to a route exactly when it
  is the subject that route's worker sends on and the worker identifier is valid, so no other shape
  of subject reaches a handler and a request is always attributed to the worker its subject names.
\<close>

theorem control_subject_roundtrip:
  "parse_control_subject s = Inr r \<longleftrightarrow> valid_worker_id (route_worker_id r) \<and> s = route_subject r"
  by (rule parse_control_subject_iff)

text \<open>
  C22. Workers are isolated on the bus: whatever control route a worker's credentials let it publish
  is a route of that worker itself, and a reply inbox the scheduler accepts for a worker is one the
  scheduler may publish to, that worker may listen to, and neither the API nor any other worker may.
\<close>

theorem bus_isolation:
  assumes "valid_worker_id w" and "valid_worker_id v"
  shows "(allows_publish (policy_worker w) s \<longrightarrow> (\<exists>r. parse_control_subject s = Inr r \<and> route_worker_id r = w))
    \<and> (reply_is_scoped_to_worker reply w \<longrightarrow>
         allows_publish policy_scheduler reply \<and> allows_subscribe (policy_worker w) reply
         \<and> (allows_subscribe (policy_worker v) reply \<longrightarrow> v = w) \<and> \<not> allows_subscribe policy_api reply)"
proof (intro conjI impI)
  assume "allows_publish (policy_worker w) s"
  from worker_publishes_own_routes [OF assms(1) this] assms(1)
  show "\<exists>r. parse_control_subject s = Inr r \<and> route_worker_id r = w"
    using parse_control_subject_iff by blast
next
  assume r: "reply_is_scoped_to_worker reply w"
  obtain t ts where t: "split_char CHR ''.'' reply = ''_INBOX'' # ''workers'' # w # t # ts"
    "\<forall>x \<in> set (t # ts). x \<noteq> ''*'' \<and> x \<noteq> ''>''" by (rule scoped_reply_tokens [OF r assms(1)])
  have plain: "\<not> contains_wildcard reply"
    using t valid_worker_id_token(2,3) [OF assms(1)] by (simp add: contains_wildcard_def list_ex_iff)
  have "subject_matches ''_INBOX.workers.*.>'' reply" unfolding subject_matches_def scheduler_inbox_tokens t(1) by simp
  then show "allows_publish policy_scheduler reply" using plain by (simp add: allows_publish_def policy_scheduler_def)
  note listen = other_subscriptions(2) [OF t(1) plain] and inbox = inbox_permission [OF _ t(1)]
  show "allows_subscribe (policy_worker w) reply" using listen inbox assms(1) by simp
  show "v = w" if "allows_subscribe (policy_worker v) reply" using that listen inbox assms(2) by simp
  show "\<not> allows_subscribe policy_api reply" by (rule other_subscriptions(1) [OF t(1) plain])
qed

theorem bus_isolation_witness:
  "reply_is_scoped_to_worker ''_INBOX.workers.wrk_a.r1'' ''wrk_a''
   \<and> allows_publish policy_scheduler ''_INBOX.workers.wrk_a.r1''
   \<and> \<not> allows_subscribe (policy_worker ''wrk_b'') ''_INBOX.workers.wrk_a.r1''"
proof -
  have v: "valid_worker_id ''wrk_a''" "valid_worker_id ''wrk_b''" by code_simp+
  have "reply_is_scoped_to_worker ''_INBOX.workers.wrk_a.r1'' ''wrk_a''" by code_simp
  then show ?thesis using bus_isolation [OF v, of _ "''_INBOX.workers.wrk_a.r1''"] by auto
qed

end
