(* ===== verification/Acknowledgements.thy ===== *)
theory Acknowledgements
  imports Ordered_Map Contracts
begin

text \<open>
  The queue acknowledgements the scheduler holds (\<open>crates/scheduler/src/acknowledgements.rs\<close>): one
  delivered message per job, bound to the lease that owns it.  A message handle is opaque; the
  server's answer to an acknowledgement is the argument \<open>ack\<close>, and every request sent to the server
  is recorded, in order, in \<open>sent\<close>.  The registry is shared with other tasks: while a confirmation is
  in flight the lock is free, and \<open>rebinds i\<close> is what the others did to the registry during the
  \<open>i\<close>-th wait.  The confirmation loop runs as long as they keep replacing the binding, so it is a
  partial function whose value is absent when it never returns.
\<close>

section \<open>Bindings\<close>

record 'm AckBinding =
  ab_worker_id :: WorkerId
  ab_lease_id :: LeaseId
  ab_stream_sequence :: u64
  ab_message :: 'm

datatype AckKind = Progress | DoubleAck | Nak "duration option" | Term

record 'm AckRegistry =
  bindings :: "(JobId, 'm AckBinding) btree"
  sent :: "(AckKind \<times> 'm) list"

datatype AckRegistryError = AckMissing JobId | AckStaleLease JobId | AckJetStream string

type_synonym 'm ack_server = "AckKind \<Rightarrow> 'm \<Rightarrow> string + unit"

type_synonym 'm rebinds = "nat \<Rightarrow> (JobId, 'm AckBinding) btree \<Rightarrow> (JobId, 'm AckBinding) btree"

definition ack_matches :: "WorkerId \<Rightarrow> LeaseId \<Rightarrow> 'm AckBinding \<Rightarrow> bool" where
  "ack_matches worker lease b \<longleftrightarrow> ab_worker_id b = worker \<and> ab_lease_id b = lease"

text \<open>One request to the server.\<close>

definition send_ack :: "'m ack_server \<Rightarrow> AckKind \<Rightarrow> 'm \<Rightarrow> 'm AckRegistry \<Rightarrow> (AckRegistryError + unit) \<times> 'm AckRegistry" where
  "send_ack ack kind message reg =
     (case ack kind message of Inl e \<Rightarrow> Inl (AckJetStream e) | Inr _ \<Rightarrow> Inr (),
      reg\<lparr>sent := sent reg @ [(kind, message)]\<rparr>)"

section \<open>Operations\<close>

definition ack_bind :: "JobId \<Rightarrow> 'm AckBinding \<Rightarrow> 'm AckRegistry \<Rightarrow> 'm AckRegistry" where
  "ack_bind job b reg = reg\<lparr>bindings := bt_put job b (bindings reg)\<rparr>"

definition ack_binding :: "JobId \<Rightarrow> WorkerId \<Rightarrow> LeaseId \<Rightarrow> 'm AckRegistry \<Rightarrow> AckRegistryError + 'm AckBinding" where
  "ack_binding job worker lease reg =
     bind_result (ok_or (bt_get job (bindings reg)) (AckMissing job)) (\<lambda>b.
     bind_result (ensure (ack_matches worker lease b) (AckStaleLease job)) (\<lambda>_. Inr b))"

definition ack_progress ::
  "'m ack_server \<Rightarrow> JobId \<Rightarrow> WorkerId \<Rightarrow> LeaseId \<Rightarrow> 'm AckRegistry \<Rightarrow> (AckRegistryError + unit) \<times> 'm AckRegistry" where
  "ack_progress ack job worker lease reg =
     (case ack_binding job worker lease reg of
        Inl e \<Rightarrow> (Inl e, reg)
      | Inr b \<Rightarrow> send_ack ack Progress (ab_message b) reg)"

partial_function (option) confirm_loop ::
  "'m ack_server \<Rightarrow> 'm rebinds \<Rightarrow> nat \<Rightarrow> JobId \<Rightarrow> WorkerId \<Rightarrow> LeaseId \<Rightarrow> 'm AckBinding \<Rightarrow> 'm AckRegistry \<Rightarrow>
   ((AckRegistryError + unit) \<times> 'm AckRegistry) option" where
  [code]: "confirm_loop ack rebinds i job worker lease b reg =
     (case send_ack ack DoubleAck (ab_message b) reg of
        (Inl e, reg1) \<Rightarrow> Some (Inl e, reg1)
      | (Inr _, reg1) \<Rightarrow>
          let reg2 = reg1\<lparr>bindings := rebinds i (bindings reg1)\<rparr>
          in (case bt_get job (bindings reg2) of
                None \<Rightarrow> Some (Inr (), reg2)
              | Some current \<Rightarrow>
                  if \<not> ack_matches worker lease current then Some (Inl (AckStaleLease job), reg2)
                  else if ab_stream_sequence current = ab_stream_sequence b
                  then Some (Inr (), reg2\<lparr>bindings := bt_del job (bindings reg2)\<rparr>)
                  else confirm_loop ack rebinds (Suc i) job worker lease current reg2))"

definition confirm_ack ::
  "'m ack_server \<Rightarrow> 'm rebinds \<Rightarrow> JobId \<Rightarrow> WorkerId \<Rightarrow> LeaseId \<Rightarrow> 'm AckRegistry \<Rightarrow>
   ((AckRegistryError + unit) \<times> 'm AckRegistry) option" where
  "confirm_ack ack rebinds job worker lease reg =
     (case ack_binding job worker lease reg of
        Inl e \<Rightarrow> Some (Inl e, reg)
      | Inr b \<Rightarrow> confirm_loop ack rebinds 0 job worker lease b reg)"

definition ack_take ::
  "JobId \<Rightarrow> WorkerId \<Rightarrow> LeaseId \<Rightarrow> 'm AckRegistry \<Rightarrow> (AckRegistryError + 'm AckBinding) \<times> 'm AckRegistry" where
  "ack_take job worker lease reg =
     (case ack_binding job worker lease reg of
        Inl e \<Rightarrow> (Inl e, reg)
      | Inr b \<Rightarrow> (Inr b, reg\<lparr>bindings := bt_del job (bindings reg)\<rparr>))"

definition ack_nak ::
  "'m ack_server \<Rightarrow> JobId \<Rightarrow> WorkerId \<Rightarrow> LeaseId \<Rightarrow> duration option \<Rightarrow> 'm AckRegistry \<Rightarrow>
   (AckRegistryError + unit) \<times> 'm AckRegistry" where
  "ack_nak ack job worker lease delay reg =
     (case ack_take job worker lease reg of
        (Inl e, reg1) \<Rightarrow> (Inl e, reg1)
      | (Inr b, reg1) \<Rightarrow> send_ack ack (Nak delay) (ab_message b) reg1)"

definition ack_len :: "'m AckRegistry \<Rightarrow> nat" where
  "ack_len reg = length (bindings reg)"

definition ack_is_empty :: "'m AckRegistry \<Rightarrow> bool" where
  "ack_is_empty reg \<longleftrightarrow> bindings reg = []"

section \<open>Lemmas\<close>

lemma ack_binding_eq_Inr:
  "ack_binding job worker lease reg = Inr b \<longleftrightarrow> bt_get job (bindings reg) = Some b \<and> ack_matches worker lease b"
  by (auto simp: ack_binding_def result_inv)

lemma send_ack_bindings [simp]: "bindings (snd (send_ack ack kind m reg)) = bindings reg"
  by (simp add: send_ack_def)

lemma send_ack_sent [simp]: "sent (snd (send_ack ack kind m reg)) = sent reg @ [(kind, m)]"
  by (simp add: send_ack_def)

lemma send_ack_ok: "fst (send_ack ack kind m reg) = Inr () \<longleftrightarrow> (\<exists>u. ack kind m = Inr u)"
  by (auto simp: send_ack_def split: sum.splits)

text \<open>The requests a finished confirmation sent, and what it left behind.\<close>

definition confirmed :: "'m ack_server \<Rightarrow> JobId \<Rightarrow> WorkerId \<Rightarrow> LeaseId \<Rightarrow> 'm AckRegistry \<Rightarrow> (AckRegistryError + unit) \<times> 'm AckRegistry \<Rightarrow> bool" where
  "confirmed ack job worker lease reg y \<longleftrightarrow>
     (\<exists>bs. sent (snd y) = sent reg @ map (\<lambda>x. (DoubleAck, ab_message x)) bs
      \<and> bs \<noteq> [] \<and> (\<forall>x \<in> set bs. ack_matches worker lease x)
      \<and> (fst y = Inr () \<longrightarrow> (\<forall>x \<in> set bs. is_ok (ack DoubleAck (ab_message x))) \<and> bt_get job (bindings (snd y)) = None))"

lemma confirmed_step:
  assumes "confirmed ack job worker lease (reg\<lparr>sent := sent reg @ [(DoubleAck, ab_message b)], bindings := m\<rparr>) y"
    and "ack_matches worker lease b" and "is_ok (ack DoubleAck (ab_message b))"
  shows "confirmed ack job worker lease reg y"
proof -
  from assms(1) obtain bs where bs: "sent (snd y) = sent reg @ map (\<lambda>x. (DoubleAck, ab_message x)) (b # bs)"
    "\<forall>x \<in> set bs. ack_matches worker lease x"
    "fst y = Inr () \<longrightarrow> (\<forall>x \<in> set bs. is_ok (ack DoubleAck (ab_message x))) \<and> bt_get job (bindings (snd y)) = None"
    by (auto simp: confirmed_def)
  then show ?thesis using assms(2,3) unfolding confirmed_def by (intro exI [of _ "b # bs"]) auto
qed

lemma confirm_loop_confirmed:
  assumes "confirm_loop ack rebinds i job worker lease b reg = Some y"
  shows "ack_matches worker lease b \<longrightarrow> confirmed ack job worker lease reg y"
proof (rule confirm_loop.raw_induct [where P = "\<lambda>ack rebinds i job worker lease b reg y.
      ack_matches worker lease b \<longrightarrow> confirmed ack job worker lease reg y", OF _ assms], rule impI, goal_cases)
  case (1 loop ack rebinds i job worker lease b reg y)
  let ?reg1 = "reg\<lparr>sent := sent reg @ [(DoubleAck, ab_message b)]\<rparr>"
  let ?reg2 = "?reg1\<lparr>bindings := rebinds i (bindings ?reg1)\<rparr>"
  show ?case
  proof (cases "ack DoubleAck (ab_message b)")
    case (Inl e)
    then show ?thesis using 1 by (auto simp: send_ack_def confirmed_def intro: exI [of _ "[b]"])
  next
    case (Inr u)
    have fin: "confirmed ack job worker lease reg (res, ?reg1\<lparr>bindings := m\<rparr>)"
      if "res = Inr () \<longrightarrow> bt_get job m = None" for res m
      using that Inr \<open>ack_matches worker lease b\<close> by (auto simp: confirmed_def intro: exI [of _ "[b]"])
    have sa: "send_ack ack DoubleAck (ab_message b) reg = (Inr (), ?reg1)" using Inr by (simp add: send_ack_def)
    show ?thesis
    proof (cases "bt_get job (bindings ?reg2)")
      case None
      then show ?thesis using 1(2) sa fin [of "Inr ()" "rebinds i (bindings reg)"] by (simp add: Let_def)
    next
      case (Some current)
      consider (stale) "\<not> ack_matches worker lease current"
        | (same) "ack_matches worker lease current" "ab_stream_sequence current = ab_stream_sequence b"
        | (again) "ack_matches worker lease current" "ab_stream_sequence current \<noteq> ab_stream_sequence b" by blast
      then show ?thesis
      proof cases
        case stale
        then show ?thesis
          using 1(2) sa Some fin [of "Inl (AckStaleLease job)" "rebinds i (bindings reg)"] by (simp add: Let_def)
      next
        case same
        then show ?thesis
          using 1(2) sa Some fin [of "Inr ()" "bt_del job (rebinds i (bindings reg))"] by (simp add: Let_def bt_get_del)
      next
        case again
        then have "loop ack rebinds (Suc i) job worker lease current ?reg2 = Some y"
          using 1(2) sa Some by (simp add: Let_def)
        then have "confirmed ack job worker lease ?reg2 y" using 1(1) again(1) by simp
        from confirmed_step [OF this 1(3)] Inr show ?thesis by simp
      qed
    qed
  qed
qed

text \<open>Once the others leave the job's binding alone, the next round of the loop is its last.\<close>

lemma confirm_loop_returns:
  assumes "\<forall>k \<ge> n. \<forall>m. bt_get job (rebinds k m) = bt_get job m" and "bt_get job (bindings reg) = Some b"
  shows "\<exists>y. confirm_loop ack rebinds i job worker lease b reg = Some y"
  using assms(2)
proof (induction "n - i" arbitrary: i b reg rule: less_induct)
  case less
  show ?case
  proof (cases "n \<le> i")
    case True
    then show ?thesis
      by (subst confirm_loop.simps) (simp add: send_ack_def Let_def assms(1) less.prems split: sum.splits)
  next
    case False
    then have "n - Suc i < n - i" by simp
    then show ?thesis
      using less.hyps [of "Suc i"] by (subst confirm_loop.simps) (auto simp: send_ack_def Let_def split: sum.splits option.splits)
  qed
qed

section \<open>Properties\<close>

text \<open>
  C23. Confirming an acknowledgement returns as soon as other tasks stop replacing the job's binding.
  Every request it sends confirms a message bound under exactly the given worker and lease; it
  reports success only when the server confirmed each of them, and then no binding of the job is
  left, so a message redelivered meanwhile is confirmed too and none is confirmed for another lease.
\<close>

theorem confirmation_returns:
  assumes "\<forall>k \<ge> n. \<forall>m. bt_get job (rebinds k m) = bt_get job m"
  shows "\<exists>res reg' bs. confirm_ack ack rebinds job worker lease reg = Some (res, reg')
    \<and> sent reg' = sent reg @ map (\<lambda>b. (DoubleAck, ab_message b)) bs
    \<and> (\<forall>b \<in> set bs. ack_matches worker lease b)
    \<and> (res = Inr () \<longrightarrow> bs \<noteq> [] \<and> (\<forall>b \<in> set bs. is_ok (ack DoubleAck (ab_message b))) \<and> bt_get job (bindings reg') = None)"
proof (cases "ack_binding job worker lease reg")
  case (Inl e)
  then show ?thesis by (simp add: confirm_ack_def)
next
  case (Inr b)
  then have b: "bt_get job (bindings reg) = Some b" "ack_matches worker lease b" by (simp_all add: ack_binding_eq_Inr)
  from confirm_loop_returns [OF assms b(1)] obtain y where
    y: "confirm_loop ack rebinds 0 job worker lease b reg = Some y" by blast
  have "confirmed ack job worker lease reg y" using confirm_loop_confirmed [OF y] b(2) by blast
  then show ?thesis using Inr y by (cases y) (auto simp: confirm_ack_def confirmed_def)
qed

definition sample_registry :: "string AckRegistry" where
  "sample_registry = \<lparr>bindings = [(''job_1'', \<lparr>ab_worker_id = ''wrk_1'', ab_lease_id = ''lease_1'', ab_stream_sequence = 7,
     ab_message = ''m7''\<rparr>)], sent = []\<rparr>"

text \<open>A redelivery of the message arrives while the first confirmation is in flight.\<close>

definition sample_rebinds :: "string rebinds" where
  "sample_rebinds i m = (if i = 0 then bt_put ''job_1'' \<lparr>ab_worker_id = ''wrk_1'', ab_lease_id = ''lease_1'',
     ab_stream_sequence = 9, ab_message = ''m9''\<rparr> m else m)"

theorem confirmation_returns_witness:
  "\<exists>reg'. confirm_ack (\<lambda>_ _. Inr ()) sample_rebinds ''job_1'' ''wrk_1'' ''lease_1'' sample_registry = Some (Inr (), reg')
     \<and> sent reg' = [(DoubleAck, ''m7''), (DoubleAck, ''m9'')] \<and> bt_get ''job_1'' (bindings reg') = None"
proof -
  have q: "\<forall>k \<ge> 1. \<forall>m. bt_get ''job_1'' (sample_rebinds k m) = bt_get ''job_1'' m"
    by (simp add: sample_rebinds_def)
  have "case confirm_ack (\<lambda>_ _. Inr ()) sample_rebinds ''job_1'' ''wrk_1'' ''lease_1'' sample_registry of
      Some (r, reg') \<Rightarrow> is_ok r \<and> sent reg' = [(DoubleAck, ''m7''), (DoubleAck, ''m9'')] | None \<Rightarrow> False" by code_simp
  with confirmation_returns [OF q, of "\<lambda>_ _. Inr ()" "''wrk_1''" "''lease_1''" sample_registry]
  show ?thesis by (auto simp: is_ok_iff)
qed

end
