(* ===== verification/Delivery.thy ===== *)
theory Delivery
  imports Fairness Job_Claiming
begin

text \<open>
  What to do with a message the queue delivers (\<open>crates/scheduler/src/delivery.rs\<close>): the size limit of
  its payload, and the decision of \<open>classify_canonical_delivery\<close>, which trusts only the database.  The
  JSON decoder is an argument.  The properties relate the decision to the stored job, and show that
  the message creation enqueues is never taken for an inconsistent one.
\<close>

section \<open>The decision\<close>

definition MAX_QUEUE_PAYLOAD_BYTES :: nat where "MAX_QUEUE_PAYLOAD_BYTES = 256 * 1024"

datatype QueuePayloadError = PayloadTooLarge | PayloadMalformed

definition decode_queue_payload :: "(string \<Rightarrow> JobQueuedWire option) \<Rightarrow> string \<Rightarrow> QueuePayloadError + JobQueued" where
  "decode_queue_payload from_json bytes =
     bind_result (ensure (length bytes \<le> MAX_QUEUE_PAYLOAD_BYTES) PayloadTooLarge) (\<lambda>_.
     bind_result (ok_or (from_json bytes) PayloadMalformed) (\<lambda>wire. Inr (job_queued_of_wire wire)))"

datatype CanonicalDeliveryDecision =
    AckTerminal
  | FinalizeCancellation
  | Buffer PriorityLane
  | Rebind LeaseGuard
  | HoldForReconciliation
  | DeadLetter JobDeadLetterReason

definition classify_canonical_delivery ::
  "JobQueued \<Rightarrow> JobSchedulingSnapshot \<Rightarrow> instant \<Rightarrow> CanonicalDeliveryDecision" where
  "classify_canonical_delivery queued snapshot now =
     (if is_terminal (job_state (sn_job snapshot)) then AckTerminal
      else if sn_pending_outcome snapshot = Some JobOutcome.Cancelled \<and> sn_lease snapshot = None
        \<and> sn_delivery_attempts snapshot = 0 then FinalizeCancellation
      else if queued \<noteq> sn_queued snapshot then DeadLetter CanonicalJobInconsistent
      else case sn_lease snapshot of
        Some lease \<Rightarrow>
          if (case sn_lease_expires_at snapshot of None \<Rightarrow> False | Some expires \<Rightarrow> now < expires)
          then Rebind lease else HoldForReconciliation
      | None \<Rightarrow>
          if job_state (sn_job snapshot) = Queued \<and> sn_pending_outcome snapshot = None
            \<and> sn_lease_expires_at snapshot = None
          then Buffer (lane_of_mode (job_mode (sn_job snapshot))) else HoldForReconciliation)"

section \<open>The snapshot and its row\<close>

lemma snapshot_lease_eq_Inr:
  "snapshot_lease r = Inr lease \<Longrightarrow> lease = (case (jr_worker_id r, jr_lease_id r) of
     (Some w, Some l) \<Rightarrow> Some \<lparr>lg_worker_id = w, lg_lease_id = l\<rparr> | _ \<Rightarrow> None)"
  by (auto simp: snapshot_lease_def statement_inv split: option.splits)

lemma snapshotD:
  assumes "get_job_scheduling_snapshot job d = Inr (Some s)"
  obtains r profile where "lock_job job d = Some r" "load_profile (jr_runtime_profile_id r) d = Inr (Some profile)"
    "snapshot_lease r = Inr (sn_lease s)" "into_job r = Inr (sn_job s)"
    "sn_pending_outcome s = jr_pending_outcome r" "sn_lease_expires_at s = jr_lease_expires_at r"
    "uint (sn_delivery_attempts s) = jr_delivery_attempts r" "decode_timeout (jr_timeout_seconds r) = Inr (jq_timeout_seconds (sn_queued s))"
    "sn_queued s = \<lparr>jq_job_id = jr_id r, jq_project_id = jr_project_id r, jq_runtime_profile_id = rp_id profile,
       jq_min_isolation = jr_min_isolation r, jq_timeout_seconds = jq_timeout_seconds (sn_queued s)\<rparr>"
  using assms
  by (auto simp: get_job_scheduling_snapshot_def statement_inv to_u32_uint split: option.splits)

section \<open>Properties\<close>

text \<open>
  C24. The decision about a delivered message fits the stored job, in every database the repository
  reaches: only terminal jobs are acknowledged away; a job is buffered only when it is queued and
  unowned, so the claim's compare-and-swap is open, and in the lane of its mode; a delivery is bound
  only to the lease that holds the job and is still live; a cancelled job is finalised without its
  worker only when no worker was ever given it.
\<close>

theorem delivery_decision_sound:
  assumes "db_initial d0" and "repo_step\<^sup>*\<^sup>* d0 d" and "get_job_scheduling_snapshot job d = Inr (Some s)"
  shows "\<exists>r. lock_job job d = Some r \<and> (case classify_canonical_delivery queued s now of
      AckTerminal \<Rightarrow> is_terminal (jr_state r)
    | FinalizeCancellation \<Rightarrow> jr_pending_outcome r = Some JobOutcome.Cancelled \<and> jr_worker_id r = None
        \<and> jr_delivery_attempts r = 0 \<and> \<not> is_terminal (jr_state r)
    | Buffer lane \<Rightarrow> jr_state r = Queued \<and> jr_worker_id r = None \<and> jr_lease_id r = None
        \<and> queued = sn_queued s \<and> lane = lane_of_mode (jr_mode r)
    | Rebind g \<Rightarrow> jr_worker_id r = Some (lg_worker_id g) \<and> jr_lease_id r = Some (lg_lease_id g)
        \<and> (\<exists>e. jr_lease_expires_at r = Some e \<and> now < e) \<and> \<not> is_terminal (jr_state r)
    | HoldForReconciliation \<Rightarrow> \<not> is_terminal (jr_state r) \<and> (jr_state r = Queued \<longrightarrow> jr_worker_id r \<noteq> None)
    | DeadLetter reason \<Rightarrow> reason = CanonicalJobInconsistent \<and> queued \<noteq> sn_queued s \<and> \<not> is_terminal (jr_state r))"
proof -
  obtain r profile where r: "lock_job job d = Some r" "snapshot_lease r = Inr (sn_lease s)" "into_job r = Inr (sn_job s)"
    "sn_pending_outcome s = jr_pending_outcome r" "sn_lease_expires_at s = jr_lease_expires_at r"
    "uint (sn_delivery_attempts s) = jr_delivery_attempts r"
    using snapshotD [OF assms(3)] by metis
  have inv: "job_inv r" using core_invD(4) [OF reachable_core [OF assms(1,2)]] lock_job_SomeD [OF r(1)] by blast
  have un: "(jr_worker_id r = None \<longleftrightarrow> jr_lease_id r = None) \<and> (jr_lease_id r = None \<longrightarrow> jr_lease_expires_at r = None)
      \<and> (jr_state r = Queued \<longrightarrow> jr_pending_outcome r = None)" if "\<not> is_terminal (jr_state r)"
    using inv that by (auto simp: job_inv_def jobs_check_def jobs_lease_consistent_def split: option.splits)
  show ?thesis
    using snapshot_lease_eq_Inr [OF r(2)] into_job_fields [OF r(3)] r un
    by (auto simp: classify_canonical_delivery_def split: option.splits)
qed

theorem delivery_decision_sound_witness:
  "\<exists>r s. lock_job ''job_1'' db_claimed = Some r \<and> get_job_scheduling_snapshot ''job_1'' db_claimed = Inr (Some s)
     \<and> classify_canonical_delivery (sn_queued s) s 20 = Rebind \<lparr>lg_worker_id = ''wrk_1'', lg_lease_id = ''lease_1''\<rparr>
     \<and> jr_lease_id r = Some ''lease_1''"
proof -
  have "case get_job_scheduling_snapshot ''job_1'' db_claimed of
      Inr (Some s) \<Rightarrow> classify_canonical_delivery (sn_queued s) s 20 = Rebind \<lparr>lg_worker_id = ''wrk_1'', lg_lease_id = ''lease_1''\<rparr>
    | _ \<Rightarrow> False" by code_simp
  then obtain s where s: "get_job_scheduling_snapshot ''job_1'' db_claimed = Inr (Some s)"
    "classify_canonical_delivery (sn_queued s) s 20 = Rebind \<lparr>lg_worker_id = ''wrk_1'', lg_lease_id = ''lease_1''\<rparr>"
    by (auto split: sum.splits option.splits)
  from delivery_decision_sound [OF sample_initial sample_reachable(3) s(1), of "sn_queued s" 20] s
  show ?thesis by auto
qed

text \<open>The queue message of a creation and the row it created agree.\<close>

lemma created_message:
  assumes "create_job_with_outbox t nj evt request key h d = (Inr created, d')" and "was_created created"
  obtains row profile queued m where "row \<in> set (db_jobs d')" "jr_id row = nj" "into_job row = Inr (created_job created)"
    "load_profile (jr_runtime_profile_id row) d' = Inr (Some profile)" "m \<in> set (db_outbox d')"
    "ob_subject m = ''jobs.queued''" "ob_payload m = QueuedPayload queued"
    "queued = \<lparr>jq_job_id = nj, jq_project_id = jr_project_id row, jq_runtime_profile_id = rp_id profile,
       jq_min_isolation = jr_min_isolation row, jq_timeout_seconds = word_of_int (jr_timeout_seconds row)\<rparr>"
proof -
  from assms obtain row e where b: "create_body t nj evt request key h d = Inr ((row, True, e), d')"
    and j: "into_job row = Inr (created_job created)"
    by (auto simp: create_job_with_outbox_def commit_then_eq_Inr result_inv)
  have none: "job_by_key (cr_project_id request) key d = None"
    using b by (auto simp: create_body_def statement_inv split: option.splits)
  from b none show thesis
  proof (cases rule: create_body_newE)
    case (1 timeout d1 ev d2 profile queued)
    note o = outbox_grows_frame [OF insert_job_queued_outbox_grows [OF 1(11)]] and e = append_event_frame [OF 1(9)]
    have jobs: "db_jobs d' = db_jobs d @ [row]" using o(1) e(1) 1(8) by simp
    have "evolves d d'" by (rule create_body_evolves [OF b])
    then have "db_runtime_profiles d' = db_runtime_profiles d" by (simp add: evolves_def records_keep_def)
    then have p: "load_profile (cr_runtime_profile request) d' = Inr (Some profile)"
      using 1(7) by (auto simp: validate_create_request_def load_profile_def statement_inv)
    obtain m where m: "m \<in> set (db_outbox d')" "ob_subject m = ''jobs.queued''" "ob_payload m = QueuedPayload queued"
      using insert_job_queued_outbox_row [OF 1(11)] by blast
    show thesis by (rule that [OF _ _ j _ m]) (simp_all add: jobs 1(1,10,12) new_job_row_def p)
  qed
qed

text \<open>
  A job's own message is never mistaken for an inconsistent one: after any run of the repository,
  the message that creation enqueued still is the canonical message of its job, so no delivery of it
  is dead-lettered.
\<close>

theorem own_message_stays_canonical:
  assumes "db_initial d0" and "repo_step\<^sup>*\<^sup>* d0 d"
    and "create_job_with_outbox t nj evt request key h d = (Inr created, d1)" and "was_created created"
    and "repo_step\<^sup>*\<^sup>* d1 d2" and "get_job_scheduling_snapshot (job_id (created_job created)) d2 = Inr (Some s)"
  shows "\<exists>m \<in> set (db_outbox d1). ob_subject m = ''jobs.queued'' \<and> ob_payload m = QueuedPayload (sn_queued s)
    \<and> classify_canonical_delivery (sn_queued s) s now \<noteq> DeadLetter reason"
proof -
  have "repo_step d d1" using repo_step.create [of d t nj evt request key h] assms(3) by simp
  then have reach: "repo_step\<^sup>*\<^sup>* d0 d1" using assms(2) by simp
  obtain row profile queued m where c: "row \<in> set (db_jobs d1)" "jr_id row = nj" "into_job row = Inr (created_job created)"
    "load_profile (jr_runtime_profile_id row) d1 = Inr (Some profile)" "m \<in> set (db_outbox d1)"
    "ob_subject m = ''jobs.queued''" "ob_payload m = QueuedPayload queued"
    "queued = \<lparr>jq_job_id = nj, jq_project_id = jr_project_id row, jq_runtime_profile_id = rp_id profile,
       jq_min_isolation = jr_min_isolation row, jq_timeout_seconds = word_of_int (jr_timeout_seconds row)\<rparr>"
    by (rule created_message [OF assms(3,4)])
  have ev: "evolves d1 d2" by (rule repo.run_keeps [OF assms(5) repo.reachable_invariant [OF assms(1) reach]])
  then obtain r' where r': "r' \<in> set (db_jobs d2)" "same_request row r'"
    using c(1) by (fastforce simp: evolves_def row_evolves_def)
  have core: "core_inv (db_jobs d2) (db_workers d2)"
    by (rule reachable_core [OF assms(1) rtranclp_trans [OF reach assms(5)]])
  have "job_id (created_job created) = nj" using into_job_id [OF c(3)] c(2) by simp
  then have lock: "lock_job (job_id (created_job created)) d2 = Some r'"
    using select_one_key [OF core_invD(1) [OF core] r'(1)] r'(2) c(2) by (simp add: lock_job_def same_request_def)
  have p: "load_profile (jr_runtime_profile_id r') d2 = Inr (Some profile)"
    using c(4) ev r'(2) by (simp add: load_profile_def evolves_def records_keep_def same_request_def)
  obtain r profile' where "lock_job (job_id (created_job created)) d2 = Some r"
    "load_profile (jr_runtime_profile_id r) d2 = Inr (Some profile')"
    and t: "decode_timeout (jr_timeout_seconds r) = Inr (jq_timeout_seconds (sn_queued s))"
    and q: "sn_queued s = \<lparr>jq_job_id = jr_id r, jq_project_id = jr_project_id r, jq_runtime_profile_id = rp_id profile',
       jq_min_isolation = jr_min_isolation r, jq_timeout_seconds = jq_timeout_seconds (sn_queued s)\<rparr>"
    using snapshotD [OF assms(6)] by metis
  then have r: "r = r'" "profile' = profile" using lock p by simp_all
  have "jq_timeout_seconds (sn_queued s) = word_of_int (jr_timeout_seconds row)"
    using t r r'(2) by (auto simp: decode_timeout_def statement_inv to_u64_def DurationSeconds_new_def same_request_def split: if_splits)
  then have "sn_queued s = queued" using q r r'(2) c(2,8) by (simp add: same_request_def)
  moreover have "classify_canonical_delivery (sn_queued s) s now \<noteq> DeadLetter reason"
    by (auto simp: classify_canonical_delivery_def split: option.splits)
  ultimately show ?thesis using c(5-7) by auto
qed

theorem own_message_stays_canonical_witness:
  "\<exists>s. get_job_scheduling_snapshot ''job_1'' db_claimed = Inr (Some s)
     \<and> (\<exists>m \<in> set (db_outbox db_created). ob_payload m = QueuedPayload (sn_queued s))"
proof -
  have c: "case create_job_with_outbox (clock_at 10) ''job_1'' ''evt_1'' sample_request ''key'' [] sample_db of
      (Inr c, _) \<Rightarrow> was_created c \<and> job_id (created_job c) = ''job_1'' | _ \<Rightarrow> False" by code_simp
  then obtain created where created:
    "create_job_with_outbox (clock_at 10) ''job_1'' ''evt_1'' sample_request ''key'' [] sample_db = (Inr created, db_created)"
    "was_created created" "job_id (created_job created) = ''job_1''"
    unfolding db_created_def
    by (cases "create_job_with_outbox (clock_at 10) ''job_1'' ''evt_1'' sample_request ''key'' [] sample_db")
      (auto split: sum.splits)
  have "case get_job_scheduling_snapshot ''job_1'' db_claimed of Inr (Some s) \<Rightarrow> True | _ \<Rightarrow> False" by code_simp
  then obtain s where s: "get_job_scheduling_snapshot ''job_1'' db_claimed = Inr (Some s)"
    by (auto split: sum.splits option.splits)
  show ?thesis
    using own_message_stays_canonical [OF sample_initial rtranclp.rtrancl_refl created(1,2) sample_run, of s] s created(3) by auto
qed

end
