(* ===== verification/Control.thy ===== *)
theory Control
  imports Subjects Acknowledgements Repo_Lifecycle Repo_Workers
begin

text \<open>
  The worker control plane (\<open>crates/scheduler/src/control.rs\<close>): the four request handlers, each over
  the database and the acknowledgement registry.  The scheduler is not alone: before the \<open>n\<close>-th
  repository call of a request, other transactions may change the database and other tasks the
  registry, which \<open>cw_call n\<close> supplies together with the call's clock and fresh event identifier.
  JSON decoding of payloads and the conversion of \<open>std::time::Duration\<close> are arguments.  A handler
  is partial because the confirmation of an acknowledgement is.
\<close>

section \<open>State and environment\<close>

record 'm ControlState =
  cs_db :: db
  cs_acks :: "'m AckRegistry"
  cs_calls :: nat

record 'm CallEnv =
  ce_clock :: TxClock
  ce_event :: JobEventId
  ce_others :: "db \<Rightarrow> db"
  ce_binds :: "(JobId, 'm AckBinding) btree \<Rightarrow> (JobId, 'm AckBinding) btree"

record 'm World =
  cw_call :: "nat \<Rightarrow> 'm CallEnv"
  cw_ack :: "'m ack_server"
  cw_rebinds :: "'m rebinds"

record ControlConfig =
  cc_database_lease_ttl :: duration
  cc_reconciliation_interval :: duration

record ControlCodec =
  cd_registration :: "string \<Rightarrow> WorkerRegistration option"
  cd_heartbeat :: "string \<Rightarrow> WorkerHeartbeat option"
  cd_transition :: "string \<Rightarrow> JobStateTransitionRequest option"
  cd_result :: "string \<Rightarrow> JobResult option"
  cd_from_std :: "duration \<Rightarrow> duration option"

text \<open>One awaited repository call.\<close>

definition repo_call ::
  "'m World \<Rightarrow> (TxClock \<Rightarrow> JobEventId \<Rightarrow> db \<Rightarrow> 'a \<times> db) \<Rightarrow> 'm ControlState \<Rightarrow> 'a \<times> 'm ControlState" where
  "repo_call world operation st =
     (let env = cw_call world (cs_calls st);
          answer = operation (ce_clock env) (ce_event env) (ce_others env (cs_db st))
      in (fst answer,
          st\<lparr>cs_db := snd answer,
             cs_acks := (cs_acks st)\<lparr>bindings := ce_binds env (bindings (cs_acks st))\<rparr>,
             cs_calls := Suc (cs_calls st)\<rparr>))"

definition snapshot_call ::
  "'m World \<Rightarrow> JobId \<Rightarrow> 'm ControlState \<Rightarrow> (RepositoryError + JobSchedulingSnapshot option) \<times> 'm ControlState" where
  "snapshot_call world job = repo_call world (\<lambda>_ _ d. (get_job_scheduling_snapshot job d, d))"

definition transition_call ::
  "'m World \<Rightarrow> JobId \<Rightarrow> JobState \<Rightarrow> JobState \<Rightarrow> TransitionEvidence \<Rightarrow> LeaseGuard \<Rightarrow> 'm ControlState \<Rightarrow>
   (RepositoryError + Job) \<times> 'm ControlState" where
  "transition_call world job from_state target evidence lease =
     repo_call world (\<lambda>t evt. transition_job_state t evt job from_state target evidence (Some lease) [])"

section \<open>Classification\<close>

datatype ResponseClass = RcStaleLease | RcQuotaExceeded | RcRetry

fun classify_repository_error :: "RepositoryError \<Rightarrow> ResponseClass" where
  "classify_repository_error (QuotaExceededError _ _ _ _) = RcQuotaExceeded"
| "classify_repository_error (NotFound _ _) = RcStaleLease"
| "classify_repository_error (CompareAndSwapLost _ _) = RcStaleLease"
| "classify_repository_error (Conflict _) = RcStaleLease"
| "classify_repository_error (InvalidTransition _) = RcStaleLease"
| "classify_repository_error (Validation _) = RcRetry"
| "classify_repository_error (Decode _) = RcRetry"
| "classify_repository_error (Sqlx _) = RcRetry"

fun classify_ack_error :: "AckRegistryError \<Rightarrow> ResponseClass" where
  "classify_ack_error (AckStaleLease _) = RcStaleLease"
| "classify_ack_error (AckMissing _) = RcRetry"
| "classify_ack_error (AckJetStream _) = RcRetry"

fun is_cas_or_conflict :: "RepositoryError \<Rightarrow> bool" where
  "is_cas_or_conflict (CompareAndSwapLost _ _) = True"
| "is_cas_or_conflict (Conflict _) = True"
| "is_cas_or_conflict _ = False"

definition as_secs :: "duration \<Rightarrow> u64" where
  "as_secs d = word_of_int (d div 1000000)"

definition retry_after_seconds :: "duration \<Rightarrow> DurationSeconds" where
  "retry_after_seconds d = max (as_secs d) 1"

fun response_for_class :: "ResponseClass \<Rightarrow> duration \<Rightarrow> ControlResponse" where
  "response_for_class RcStaleLease retry_after = StaleLease"
| "response_for_class RcQuotaExceeded retry_after = QuotaExceeded (retry_after_seconds retry_after)"
| "response_for_class RcRetry retry_after = Retry (retry_after_seconds retry_after)"

definition control_response :: "ControlConfig \<Rightarrow> ResponseClass \<Rightarrow> ControlResponse" where
  "control_response cfg class = response_for_class class (cc_reconciliation_interval cfg)"

fun terminal_state :: "JobOutcome \<Rightarrow> JobState" where
  "terminal_state JobOutcome.Passed = JobState.Passed"
| "terminal_state JobOutcome.Failed = JobState.Failed"
| "terminal_state JobOutcome.Cancelled = JobState.Cancelled"
| "terminal_state JobOutcome.TimedOut = JobState.TimedOut"
| "terminal_state JobOutcome.InfraFailed = JobState.InfraFailed"

fun next_result_state :: "JobState \<Rightarrow> JobResult \<Rightarrow> JobState option" where
  "next_result_state CollectingArtifacts result = (if res_artifacts_finalized result then Some CleaningUp else None)"
| "next_result_state CleaningUp result =
     (if res_cleanup_completed result then Some (terminal_state (res_outcome result)) else None)"
| "next_result_state state result = (if is_terminal state then None else Some CollectingArtifacts)"

section \<open>Handlers\<close>

definition register_worker ::
  "ControlConfig \<Rightarrow> ControlCodec \<Rightarrow> 'm World \<Rightarrow> WorkerId \<Rightarrow> string \<Rightarrow> 'm ControlState \<Rightarrow> ControlResponse \<times> 'm ControlState" where
  "register_worker cfg codec world subject_worker payload st =
     (case cd_registration codec payload of
        None \<Rightarrow> (control_response cfg RcRetry, st)
      | Some registration \<Rightarrow>
          if \<not> worker_matches_subject subject_worker (wr_worker_id registration) then (StaleLease, st)
          else (case repo_call world (\<lambda>t _. upsert_worker t registration) st of
                  (Inr _, st1) \<Rightarrow> (Accepted, st1)
                | (Inl e, st1) \<Rightarrow> (control_response cfg (classify_repository_error e), st1)))"

text \<open>Renewing the queue message of every extended lease; the first failure ends the loop.\<close>

fun progress_extended ::
  "'m ack_server \<Rightarrow> WorkerId \<Rightarrow> JobLeaseExtension list \<Rightarrow> 'm AckRegistry \<Rightarrow> (AckRegistryError + unit) \<times> 'm AckRegistry" where
  "progress_extended ack worker [] reg = (Inr (), reg)"
| "progress_extended ack worker (ext # exts) reg =
     (case ack_progress ack (le_job_id ext) worker (le_lease_id ext) reg of
        (Inl e, reg1) \<Rightarrow> (Inl e, reg1)
      | (Inr _, reg1) \<Rightarrow> progress_extended ack worker exts reg1)"

definition control_heartbeat ::
  "ControlConfig \<Rightarrow> ControlCodec \<Rightarrow> 'm World \<Rightarrow> WorkerId \<Rightarrow> string \<Rightarrow> 'm ControlState \<Rightarrow> ControlResponse \<times> 'm ControlState" where
  "control_heartbeat cfg codec world subject_worker payload st =
     (case cd_heartbeat codec payload of
        None \<Rightarrow> (control_response cfg RcRetry, st)
      | Some heartbeat \<Rightarrow>
          if \<not> worker_matches_subject subject_worker (hb_worker_id heartbeat) then (StaleLease, st)
          else (case cd_from_std codec (cc_database_lease_ttl cfg) of
             None \<Rightarrow> (control_response cfg RcRetry, st)
           | Some lease_ttl \<Rightarrow>
             (case repo_call world (\<lambda>t _. record_heartbeat t heartbeat lease_ttl) st of
                (Inl e, st1) \<Rightarrow> (control_response cfg (classify_repository_error e), st1)
              | (Inr receipt, st1) \<Rightarrow>
                  (case progress_extended (cw_ack world) subject_worker (rc_extended receipt) (cs_acks st1) of
                     (Inl e, reg) \<Rightarrow> (control_response cfg (classify_ack_error e), st1\<lparr>cs_acks := reg\<rparr>)
                   | (Inr _, reg) \<Rightarrow>
                       (ControlResponse.Heartbeat (rc_extended receipt) (rc_cancel_requested receipt) (rc_rejected receipt),
                        st1\<lparr>cs_acks := reg\<rparr>)))))"

definition control_confirm_ack ::
  "ControlConfig \<Rightarrow> 'm World \<Rightarrow> JobId \<Rightarrow> LeaseGuard \<Rightarrow> 'm ControlState \<Rightarrow> (ControlResponse \<times> 'm ControlState) option" where
  "control_confirm_ack cfg world job lease st =
     (case confirm_ack (cw_ack world) (cw_rebinds world) job (lg_worker_id lease) (lg_lease_id lease) (cs_acks st) of
        None \<Rightarrow> None
      | Some (res, reg) \<Rightarrow>
          Some (case res of
              Inr _ \<Rightarrow> Accepted
            | Inl (AckMissing _) \<Rightarrow> Accepted
            | Inl e \<Rightarrow> control_response cfg (classify_ack_error e), st\<lparr>cs_acks := reg\<rparr>))"

definition classify_replayed_transition ::
  "ControlConfig \<Rightarrow> 'm World \<Rightarrow> JobStateTransitionRequest \<Rightarrow> LeaseGuard \<Rightarrow> 'm ControlState \<Rightarrow>
   (ControlResponse \<times> 'm ControlState) option" where
  "classify_replayed_transition cfg world request lease st =
     (case snapshot_call world (tr_job_id request) st of
        (Inl e, st1) \<Rightarrow> Some (control_response cfg (classify_repository_error e), st1)
      | (Inr None, st1) \<Rightarrow> Some (StaleLease, st1)
      | (Inr (Some snapshot), st1) \<Rightarrow>
          if job_state (sn_job snapshot) \<noteq> tr_to request then Some (StaleLease, st1)
          else if is_terminal (tr_to request) then control_confirm_ack cfg world (tr_job_id request) lease st1
          else if sn_lease snapshot = Some lease then Some (Accepted, st1)
          else Some (StaleLease, st1))"

definition transition_job ::
  "ControlConfig \<Rightarrow> ControlCodec \<Rightarrow> 'm World \<Rightarrow> WorkerId \<Rightarrow> string \<Rightarrow> 'm ControlState \<Rightarrow>
   (ControlResponse \<times> 'm ControlState) option" where
  "transition_job cfg codec world subject_worker payload st =
     (case cd_transition codec payload of
        None \<Rightarrow> Some (control_response cfg RcRetry, st)
      | Some request \<Rightarrow>
          if \<not> worker_matches_subject subject_worker (tr_worker_id request) then Some (StaleLease, st)
          else if \<not> is_ok (request_validate request) then Some (control_response cfg RcRetry, st)
          else
            let lease = \<lparr>lg_worker_id = tr_worker_id request, lg_lease_id = tr_lease_id request\<rparr>
            in (case transition_call world (tr_job_id request) (tr_from request) (tr_to request)
                   (tr_evidence request) lease st of
                  (Inr _, st1) \<Rightarrow>
                    if is_terminal (tr_to request) then control_confirm_ack cfg world (tr_job_id request) lease st1
                    else Some (Accepted, st1)
                | (Inl e, st1) \<Rightarrow>
                    if is_cas_or_conflict e then classify_replayed_transition cfg world request lease st1
                    else Some (control_response cfg (classify_repository_error e), st1)))"

text \<open>
  \<open>drive_result_finalizer\<close>: the first argument is the number of rounds left of the source's bounded
  loop.
\<close>

definition result_evidence :: "JobResult \<Rightarrow> TransitionEvidence" where
  "result_evidence result = \<lparr>pending_outcome = Some (res_outcome result),
     artifacts_finalized = res_artifacts_finalized result, cleanup_completed = res_cleanup_completed result\<rparr>"

fun finalizer_rounds ::
  "nat \<Rightarrow> ControlConfig \<Rightarrow> 'm World \<Rightarrow> JobResult \<Rightarrow> LeaseGuard \<Rightarrow> JobState \<Rightarrow> 'm ControlState \<Rightarrow>
   (ControlResponse \<times> 'm ControlState) option" where
  "finalizer_rounds 0 cfg world result lease state st = Some (control_response cfg RcRetry, st)"
| "finalizer_rounds (Suc n) cfg world result lease state st =
     (if is_terminal state then control_confirm_ack cfg world (res_job_id result) lease st
      else case next_result_state state result of
        None \<Rightarrow> Some (Accepted, st)
      | Some target \<Rightarrow>
        (case transition_call world (res_job_id result) state target (result_evidence result) lease st of
           (Inr job, st1) \<Rightarrow> finalizer_rounds n cfg world result lease (job_state job) st1
         | (Inl e, st1) \<Rightarrow>
             if \<not> is_cas_or_conflict e then Some (control_response cfg (classify_repository_error e), st1)
             else (case snapshot_call world (res_job_id result) st1 of
                (Inl e, st2) \<Rightarrow> Some (control_response cfg (classify_repository_error e), st2)
              | (Inr None, st2) \<Rightarrow> Some (StaleLease, st2)
              | (Inr (Some snapshot), st2) \<Rightarrow>
                  if is_terminal (job_state (sn_job snapshot)) then
                    if job_outcome (sn_job snapshot) = Some (res_outcome result)
                      \<and> job_worker_id (sn_job snapshot) = Some (res_worker_id result)
                    then control_confirm_ack cfg world (res_job_id result) lease st2
                    else Some (StaleLease, st2)
                  else if sn_lease snapshot \<noteq> Some lease \<or> sn_pending_outcome snapshot \<noteq> Some (res_outcome result)
                  then Some (StaleLease, st2)
                  else finalizer_rounds n cfg world result lease (job_state (sn_job snapshot)) st2)))"

definition drive_result_finalizer ::
  "ControlConfig \<Rightarrow> 'm World \<Rightarrow> JobResult \<Rightarrow> LeaseGuard \<Rightarrow> JobState \<Rightarrow> 'm ControlState \<Rightarrow>
   (ControlResponse \<times> 'm ControlState) option" where
  "drive_result_finalizer = finalizer_rounds 6"

definition classify_replayed_result ::
  "ControlConfig \<Rightarrow> 'm World \<Rightarrow> JobResult \<Rightarrow> LeaseGuard \<Rightarrow> 'm ControlState \<Rightarrow> (ControlResponse \<times> 'm ControlState) option" where
  "classify_replayed_result cfg world result lease st =
     (case snapshot_call world (res_job_id result) st of
        (Inl e, st1) \<Rightarrow> Some (control_response cfg (classify_repository_error e), st1)
      | (Inr None, st1) \<Rightarrow> Some (StaleLease, st1)
      | (Inr (Some snapshot), st1) \<Rightarrow>
          if is_terminal (job_state (sn_job snapshot)) \<and> job_outcome (sn_job snapshot) = Some (res_outcome result)
            \<and> job_worker_id (sn_job snapshot) = Some (res_worker_id result)
          then control_confirm_ack cfg world (res_job_id result) lease st1
          else if sn_lease snapshot = Some lease \<and> sn_pending_outcome snapshot = Some (res_outcome result)
          then drive_result_finalizer cfg world result lease (job_state (sn_job snapshot)) st1
          else Some (StaleLease, st1))"

definition record_result ::
  "ControlConfig \<Rightarrow> ControlCodec \<Rightarrow> 'm World \<Rightarrow> WorkerId \<Rightarrow> string \<Rightarrow> 'm ControlState \<Rightarrow>
   (ControlResponse \<times> 'm ControlState) option" where
  "record_result cfg codec world subject_worker payload st =
     (case cd_result codec payload of
        None \<Rightarrow> Some (control_response cfg RcRetry, st)
      | Some result \<Rightarrow>
          if \<not> worker_matches_subject subject_worker (res_worker_id result) then Some (StaleLease, st)
          else
            let lease = \<lparr>lg_worker_id = res_worker_id result, lg_lease_id = res_lease_id result\<rparr>
            in (case repo_call world (\<lambda>t evt. record_job_result t evt result) st of
                  (Inr job, st1) \<Rightarrow> drive_result_finalizer cfg world result lease (job_state job) st1
                | (Inl e, st1) \<Rightarrow>
                    if is_cas_or_conflict e then classify_replayed_result cfg world result lease st1
                    else Some (control_response cfg (classify_repository_error e), st1)))"

definition process ::
  "ControlConfig \<Rightarrow> ControlCodec \<Rightarrow> 'm World \<Rightarrow> string \<Rightarrow> string \<Rightarrow> 'm ControlState \<Rightarrow>
   (ControlResponse \<times> 'm ControlState) option" where
  "process cfg codec world subject payload st =
     (case parse_control_subject subject of
        Inl _ \<Rightarrow> Some (control_response cfg RcRetry, st)
      | Inr (RegisterRoute w) \<Rightarrow> Some (register_worker cfg codec world w payload st)
      | Inr (HeartbeatRoute w) \<Rightarrow> Some (control_heartbeat cfg codec world w payload st)
      | Inr (TransitionRoute w) \<Rightarrow> transition_job cfg codec world w payload st
      | Inr (ResultRoute w) \<Rightarrow> record_result cfg codec world w payload st)"

definition MAX_CONTROL_PAYLOAD_BYTES :: nat where "MAX_CONTROL_PAYLOAD_BYTES = 256 * 1024"

record ControlMessage =
  cm_subject :: string
  cm_reply :: "string option"
  cm_payload :: string

text \<open>The reply that is published, with its subject; none when the request is ignored.\<close>

definition handle_message ::
  "ControlConfig \<Rightarrow> ControlCodec \<Rightarrow> 'm World \<Rightarrow> ControlMessage \<Rightarrow> 'm ControlState \<Rightarrow>
   ((string \<times> ControlResponse) option \<times> 'm ControlState) option" where
  "handle_message cfg codec world message st =
     (case cm_reply message of
        None \<Rightarrow> Some (None, st)
      | Some reply \<Rightarrow>
          (case parse_control_subject (cm_subject message) of
             Inl _ \<Rightarrow> Some (None, st)
           | Inr route \<Rightarrow>
               if \<not> reply_is_scoped_to_worker reply (route_worker_id route) then Some (None, st)
               else if MAX_CONTROL_PAYLOAD_BYTES < length (cm_payload message)
               then Some (Some (reply, control_response cfg RcRetry), st)
               else map_option (\<lambda>(response, st1). (Some (reply, response), st1))
                      (process cfg codec world (cm_subject message) (cm_payload message) st)))"

end
