(* ===== verification/Control_Safety.thy ===== *)
theory Control_Safety
  imports Control Delivery
begin

text \<open>
  What control requests can do.  The locale \<open>control_frame\<close> lifts a relation on databases from the
  four repository calls the handlers make to whole requests; it is interpreted twice, with the runs
  of the repository (so that everything proved of reachable databases holds under the control plane
  too) and with the changes confined to one worker's rows.
\<close>

section \<open>Lifting relations through the handlers\<close>

lemma confirm_db: "control_confirm_ack cfg world job g st = Some (resp, st') \<Longrightarrow> cs_db st' = cs_db st"
  by (auto simp: control_confirm_ack_def split: option.splits)

text \<open>One round of the finaliser: it stops, or it goes on after a transition or a fresh snapshot.\<close>

lemma finalizer_round:
  assumes "finalizer_rounds (Suc n) cfg world res g s st = Some (resp, st')"
  obtains (terminal) "is_terminal s" "control_confirm_ack cfg world (res_job_id res) g st = Some (resp, st')"
  | (held) "\<not> is_terminal s" "next_result_state s res = None" "resp = Accepted" "st' = st"
  | (moved) target job st1 where "\<not> is_terminal s" "next_result_state s res = Some target"
      "transition_call world (res_job_id res) s target (result_evidence res) g st = (Inr job, st1)"
      "finalizer_rounds n cfg world res g (job_state job) st1 = Some (resp, st')"
  | (failed) target e st1 where "\<not> is_terminal s" "next_result_state s res = Some target"
      "transition_call world (res_job_id res) s target (result_evidence res) g st = (Inl e, st1)"
      "resp \<noteq> Accepted" "st' = st1"
  | (lost) target e st1 answer st2 where "\<not> is_terminal s" "next_result_state s res = Some target"
      "transition_call world (res_job_id res) s target (result_evidence res) g st = (Inl e, st1)"
      "snapshot_call world (res_job_id res) st1 = (answer, st2)"
      "resp \<noteq> Accepted \<and> st' = st2
       \<or> (\<exists>sn. answer = Inr (Some sn) \<and> is_terminal (job_state (sn_job sn)) \<and> job_outcome (sn_job sn) = Some (res_outcome res)
            \<and> control_confirm_ack cfg world (res_job_id res) g st2 = Some (resp, st'))
       \<or> (\<exists>sn. answer = Inr (Some sn) \<and> \<not> is_terminal (job_state (sn_job sn))
            \<and> finalizer_rounds n cfg world res g (job_state (sn_job sn)) st2 = Some (resp, st'))"
proof (cases "is_terminal s")
  case True
  then show ?thesis using assms terminal by simp
next
  case nt: False
  show ?thesis
  proof (cases "next_result_state s res")
    case None
    then show ?thesis using assms nt held by simp
  next
    case (Some target)
    obtain r st1 where c: "transition_call world (res_job_id res) s target (result_evidence res) g st = (r, st1)" by fastforce
    show ?thesis
    proof (cases r)
      case (Inr job)
      then show ?thesis using assms nt Some c by (intro moved [OF nt Some]) simp_all
    next
      case (Inl e)
      obtain answer st2 where s2: "snapshot_call world (res_job_id res) st1 = (answer, st2)" by fastforce
      have na: "control_response cfg k \<noteq> Accepted" for k by (cases k) (simp_all add: control_response_def)
      show ?thesis
      proof (cases "is_cas_or_conflict e")
        case True
        then show ?thesis
          using assms nt Some c Inl s2 na
          by (intro lost [OF nt Some _ s2]) (auto split: sum.splits option.splits if_splits)
      next
        case False
        then show ?thesis using assms nt Some c Inl na by (intro failed [OF nt Some]) auto
      qed
    qed
  qed
qed

locale control_frame =
  fixes R :: "db \<Rightarrow> db \<Rightarrow> bool" and w :: WorkerId
  assumes R_refl: "R d d"
    and R_trans: "R d d' \<Longrightarrow> R d' d'' \<Longrightarrow> R d d''"
    and R_register: "wr_worker_id reg = w \<Longrightarrow> R d (snd (upsert_worker t reg d))"
    and R_heartbeat: "hb_worker_id hb = w \<Longrightarrow> R d (snd (record_heartbeat t hb ttl d))"
    and R_transition: "lg_worker_id g = w \<Longrightarrow> R d (snd (transition_job_state t evt job s s' evi (Some g) pl d))"
    and R_result: "res_worker_id res = w \<Longrightarrow> R d (snd (record_job_result t evt res d))"
begin

definition others_in :: "'m World \<Rightarrow> bool" where
  "others_in world \<longleftrightarrow> (\<forall>n d. R d (ce_others (cw_call world n) d))"

lemma repo_call_in:
  assumes "others_in world" and "\<And>t evt d. R d (snd (op t evt d))" and "repo_call world op st = (res, st')"
  shows "R (cs_db st) (cs_db st')"
  using assms(1,3) assms(2) [of "ce_others (cw_call world (cs_calls st)) (cs_db st)"]
    R_trans [of "cs_db st" "ce_others (cw_call world (cs_calls st)) (cs_db st)"]
  by (auto simp: repo_call_def Let_def others_in_def)

lemma snapshot_call_in:
  "others_in world \<Longrightarrow> snapshot_call world job st = (res, st') \<Longrightarrow> R (cs_db st) (cs_db st')"
  unfolding snapshot_call_def by (erule repo_call_in) (simp_all add: R_refl)

lemma transition_call_in:
  "others_in world \<Longrightarrow> lg_worker_id g = w \<Longrightarrow> transition_call world job s s' evi g st = (res, st') \<Longrightarrow>
   R (cs_db st) (cs_db st')"
  unfolding transition_call_def by (erule repo_call_in) (simp_all add: R_transition)

lemma register_in:
  "others_in world \<Longrightarrow> register_worker cfg codec world w payload st = (resp, st') \<Longrightarrow> R (cs_db st) (cs_db st')"
  by (auto simp: register_worker_def worker_matches_subject_def R_refl
      split: option.splits if_splits prod.splits sum.splits elim!: repo_call_in intro!: R_register)

lemma heartbeat_in:
  assumes "others_in world" and "control_heartbeat cfg codec world w payload st = (resp, st')"
  shows "R (cs_db st) (cs_db st')"
proof (cases "cd_heartbeat codec payload")
  case (Some hb)
  show ?thesis
  proof (cases "hb_worker_id hb = w \<and> cd_from_std codec (cc_database_lease_ttl cfg) \<noteq> None")
    case True
    then obtain ttl where ttl: "cd_from_std codec (cc_database_lease_ttl cfg) = Some ttl" by auto
    obtain r st1 where c: "repo_call world (\<lambda>t _. record_heartbeat t hb ttl) st = (r, st1)" by fastforce
    have "R (cs_db st) (cs_db st1)" by (rule repo_call_in [OF assms(1) _ c]) (simp add: R_heartbeat True)
    moreover have "cs_db st' = cs_db st1" using assms(2) Some True ttl c
      by (auto simp: control_heartbeat_def worker_matches_subject_def split: sum.splits prod.splits)
    ultimately show ?thesis by simp
  next
    case False
    then show ?thesis using assms(2) Some R_refl
      by (auto simp: control_heartbeat_def worker_matches_subject_def split: if_splits)
  qed
qed (use assms(2) R_refl in \<open>auto simp: control_heartbeat_def\<close>)

lemma replayed_transition_in:
  assumes "others_in world" and "classify_replayed_transition cfg world req g st = Some (resp, st')"
  shows "R (cs_db st) (cs_db st')"
proof -
  obtain r st1 where c: "snapshot_call world (tr_job_id req) st = (r, st1)" by fastforce
  have "cs_db st' = cs_db st1" using assms(2) c
    by (auto simp: classify_replayed_transition_def dest!: confirm_db split: sum.splits option.splits if_splits)
  then show ?thesis using snapshot_call_in [OF assms(1) c] by simp
qed

lemma transition_in:
  assumes "others_in world" and "transition_job cfg codec world w payload st = Some (resp, st')"
  shows "R (cs_db st) (cs_db st')"
proof (cases "cd_transition codec payload")
  case None
  then show ?thesis using assms(2) R_refl by (auto simp: transition_job_def)
next
  case (Some req)
  let ?g = "\<lparr>lg_worker_id = tr_worker_id req, lg_lease_id = tr_lease_id req\<rparr>"
  obtain res st1 where c: "transition_call world (tr_job_id req) (tr_from req) (tr_to req) (tr_evidence req) ?g st = (res, st1)"
    by fastforce
  have 1: "R (cs_db st) (cs_db st1)" if "tr_worker_id req = w" by (rule transition_call_in [OF assms(1) _ c]) (simp add: that)
  have "st' = st \<or> tr_worker_id req = w
      \<and> (cs_db st' = cs_db st1 \<or> classify_replayed_transition cfg world req ?g st1 = Some (resp, st'))"
    using assms(2) Some c
    by (auto simp: transition_job_def worker_matches_subject_def Let_def dest!: confirm_db split: if_splits sum.splits)
  then show ?thesis
  proof (elim disjE conjE)
    assume "tr_worker_id req = w" "classify_replayed_transition cfg world req ?g st1 = Some (resp, st')"
    then show ?thesis using R_trans [OF 1] replayed_transition_in [OF assms(1)] by blast
  qed (use 1 R_refl in simp_all)
qed

lemma finalizer_in:
  assumes "others_in world" and "lg_worker_id g = w"
  shows "finalizer_rounds n cfg world res g s st = Some (resp, st') \<Longrightarrow> R (cs_db st) (cs_db st')"
proof (induction n arbitrary: s st)
  case (Suc n)
  from Suc.prems show ?case
  proof (cases rule: finalizer_round)
    case terminal
    then show ?thesis using confirm_db R_refl by metis
  next
    case held
    then show ?thesis using R_refl by simp
  next
    case (moved target job st1)
    then show ?thesis using R_trans [OF transition_call_in [OF assms moved(3)]] Suc.IH by blast
  next
    case (failed target e st1)
    then show ?thesis using transition_call_in [OF assms failed(3)] by simp
  next
    case (lost target e st1 answer st2)
    have 2: "R (cs_db st) (cs_db st2)"
      by (rule R_trans [OF transition_call_in [OF assms lost(3)] snapshot_call_in [OF assms(1) lost(4)]])
    from lost(5) show ?thesis
    proof (elim disjE exE conjE)
      assume "st' = st2"
      then show ?thesis using 2 by simp
    next
      fix sn assume "control_confirm_ack cfg world (res_job_id res) g st2 = Some (resp, st')"
      then show ?thesis using 2 confirm_db by metis
    next
      fix sn assume "finalizer_rounds n cfg world res g (job_state (sn_job sn)) st2 = Some (resp, st')"
      then show ?thesis using R_trans [OF 2] Suc.IH by blast
    qed
  qed
qed (simp add: R_refl)

lemma result_in:
  assumes "others_in world" and "record_result cfg codec world w payload st = Some (resp, st')"
  shows "R (cs_db st) (cs_db st')"
proof (cases "cd_result codec payload")
  case None
  then show ?thesis using assms(2) R_refl by (auto simp: record_result_def)
next
  case (Some res)
  let ?g = "\<lparr>lg_worker_id = res_worker_id res, lg_lease_id = res_lease_id res\<rparr>"
  obtain r st1 where c: "repo_call world (\<lambda>t evt. record_job_result t evt res) st = (r, st1)" by fastforce
  obtain r2 st2 where s2: "snapshot_call world (res_job_id res) st1 = (r2, st2)" by fastforce
  show ?thesis
  proof (cases "res_worker_id res = w")
    case True
    have 1: "R (cs_db st) (cs_db st1)" by (rule repo_call_in [OF assms(1) _ c]) (simp add: R_result True)
    have 2: "R (cs_db st) (cs_db st2)" using R_trans [OF 1] snapshot_call_in [OF assms(1) s2] by blast
    have fin: "R (cs_db st0) (cs_db st')" if "drive_result_finalizer cfg world res ?g s st0 = Some (resp, st')" for s st0
      using that finalizer_in [OF assms(1), of ?g] True by (simp add: drive_result_finalizer_def)
    have "cs_db st' = cs_db st1 \<or> cs_db st' = cs_db st2
        \<or> (\<exists>s st0. (st0 = st1 \<or> st0 = st2) \<and> drive_result_finalizer cfg world res ?g s st0 = Some (resp, st'))"
      using assms(2) Some c s2 True
      by (auto simp: record_result_def worker_matches_subject_def Let_def classify_replayed_result_def
          dest!: confirm_db split: sum.splits if_splits option.splits)
    then show ?thesis
    proof (elim disjE exE conjE)
      fix s st0 assume "st0 = st1" "drive_result_finalizer cfg world res ?g s st0 = Some (resp, st')"
      then show ?thesis using R_trans [OF 1] fin by blast
    next
      fix s st0 assume "st0 = st2" "drive_result_finalizer cfg world res ?g s st0 = Some (resp, st')"
      then show ?thesis using R_trans [OF 2] fin by blast
    qed (use 1 2 in simp_all)
  next
    case False
    then show ?thesis using assms(2) Some R_refl by (auto simp: record_result_def worker_matches_subject_def)
  qed
qed

lemma process_in:
  assumes "others_in world" and "parse_control_subject subject = Inr route" and "route_worker_id route = w"
    and "process cfg codec world subject payload st = Some (resp, st')"
  shows "R (cs_db st) (cs_db st')"
  using assms register_in heartbeat_in transition_in result_in
  by (cases route) (auto simp: process_def)

lemma handle_in:
  assumes "others_in world" and "parse_control_subject (cm_subject m) = Inr route" and "route_worker_id route = w"
    and "handle_message cfg codec world m st = Some (reply, st')"
  shows "R (cs_db st) (cs_db st')"
  using assms(4) process_in [OF assms(1-3)] R_refl
  by (auto simp: handle_message_def assms(2) split: option.splits if_splits)

end

section \<open>Requests are runs of the repository\<close>

interpretation control_runs: control_frame "repo_step\<^sup>*\<^sup>*" w for w
proof (unfold_locales, goal_cases)
  case (2 d d' d'')
  then show ?case by (rule rtranclp_trans)
qed (blast intro: repo_step.intros)+

section \<open>Changes confined to one worker\<close>

definition touches_only :: "WorkerId \<Rightarrow> db \<Rightarrow> db \<Rightarrow> bool" where
  "touches_only w d d' \<longleftrightarrow>
     (\<exists>f. db_jobs d' = map f (db_jobs d) \<and> (\<forall>r \<in> set (db_jobs d). f r = r \<or> jr_worker_id r = Some w))
     \<and> filter (\<lambda>x. wk_id x \<noteq> w) (db_workers d') = filter (\<lambda>x. wk_id x \<noteq> w) (db_workers d)"

lemma touches_only_refl: "touches_only w d d"
  by (auto simp: touches_only_def intro: exI [of _ id])

lemma touches_only_trans:
  assumes "touches_only w d d'" and "touches_only w d' d''"
  shows "touches_only w d d''"
proof -
  from assms(1) obtain f where f: "db_jobs d' = map f (db_jobs d)"
    "\<forall>r \<in> set (db_jobs d). f r = r \<or> jr_worker_id r = Some w" unfolding touches_only_def by blast
  from assms(2) obtain g where g: "db_jobs d'' = map g (db_jobs d')"
    "\<forall>r \<in> set (db_jobs d'). g r = r \<or> jr_worker_id r = Some w" unfolding touches_only_def by blast
  have "g (f r) = r \<or> jr_worker_id r = Some w" if r: "r \<in> set (db_jobs d)" for r
  proof (cases "f r = r")
    case True
    have "f r \<in> set (db_jobs d')" using f(1) r by simp
    then show ?thesis using g(2) True by auto
  next
    case False
    then show ?thesis using f(2) r by blast
  qed
  then have "db_jobs d'' = map (g \<circ> f) (db_jobs d) \<and> (\<forall>r \<in> set (db_jobs d). (g \<circ> f) r = r \<or> jr_worker_id r = Some w)"
    by (simp add: f(1) g(1))
  then show ?thesis using assms unfolding touches_only_def by metis
qed

lemma touches_only_jobs:
  assumes "\<And>r. p r \<Longrightarrow> jr_worker_id r = Some w" and "db_jobs d' = update_rows p f (db_jobs d)"
    and "filter (\<lambda>x. wk_id x \<noteq> w) (db_workers d') = filter (\<lambda>x. wk_id x \<noteq> w) (db_workers d)"
  shows "touches_only w d d'"
  using assms by (auto simp: touches_only_def update_rows_def intro!: exI [of _ "\<lambda>r. if p r then f r else r"])

lemma filter_update_workers:
  "(\<And>x. wk_id (f x) = wk_id x) \<Longrightarrow> (\<And>x. p x \<Longrightarrow> wk_id x = w) \<Longrightarrow>
   filter (\<lambda>x. wk_id x \<noteq> w) (update_rows p f rs) = filter (\<lambda>x. wk_id x \<noteq> w) rs"
  by (induction rs) (auto simp: update_rows_def)

lemma release_other_workers:
  "release_worker_capacity t w d = Inr d' \<Longrightarrow>
   filter (\<lambda>x. wk_id x \<noteq> w) (db_workers d') = filter (\<lambda>x. wk_id x \<noteq> w) (db_workers d) \<and> db_jobs d' = db_jobs d"
  by (auto simp: release_worker_capacity_eq_Inr filter_update_workers release_update_def)

lemma transition_touches:
  assumes "transition_body t evt job s s' evi (Some g) pl d = Inr (row, d')"
  shows "touches_only (lg_worker_id g) d d'"
  using assms
proof (cases rule: transition_bodyE)
  case (1 p d1 r0 d2 ev)
  have p: "jr_worker_id r = Some (lg_worker_id g)" if "p r" for r
    using that 1(2) by (simp add: transition_where_def lease_guard_holds_def)
  have "jr_worker_id (transition_update t s' evi r0) = Some (lg_worker_id g)"
    using p select_one_SomeD [OF 1(5)] by (simp add: transition_update_def Let_def)
  then have "filter (\<lambda>x. wk_id x \<noteq> lg_worker_id g) (db_workers d2) = filter (\<lambda>x. wk_id x \<noteq> lg_worker_id g) (db_workers d)
      \<and> db_jobs d2 = db_jobs d1"
    using 1(4,7) by (auto dest: release_other_workers split: if_splits)
  then show ?thesis
    using append_event_frame(1,2) [OF 1(8)] 1(4)
    by (intro touches_only_jobs [where p = p and f = "transition_update t s' evi", OF p]) simp_all
qed

lemma result_touches:
  assumes "result_body t evt res d = Inr (row, d')"
  shows "touches_only (res_worker_id res) d d'"
  using assms
proof (cases rule: result_bodyE)
  case (1 current d1 ev st pl)
  then show ?thesis
    using append_event_frame(1,2) [OF 1(8)]
    by (intro touches_only_jobs [where p = "result_where t res" and f = "result_update res"]) (simp_all add: result_where_def)
qed

lemma extend_leases_touches:
  "extend_leases now secs w exts rc d = Inr (rc', d') \<Longrightarrow> touches_only w d d'"
proof (induction exts arbitrary: rc d)
  case (Cons ext exts)
  let ?d1 = "d\<lparr>db_jobs := update_rows (extension_where now w ext) (extension_update now secs) (db_jobs d)\<rparr>"
  from Cons.prems obtain rc1 where "extend_leases now secs w exts rc1 ?d1 = Inr (rc', d')" by (auto simp: statement_inv)
  moreover have "touches_only w d ?d1"
    by (rule touches_only_jobs [where p = "extension_where now w ext" and f = "extension_update now secs"])
      (simp_all add: extension_where_def)
  ultimately show ?case using touches_only_trans Cons.IH by blast
qed (simp add: touches_only_refl)

lemma heartbeat_touches:
  assumes "heartbeat_body t hb ttl d = Inr (rc, d')"
  shows "touches_only (hb_worker_id hb) d d'"
proof -
  from assms obtain d1 rc0 where
    u: "d1 = d\<lparr>db_workers := update_rows (\<lambda>r. wk_id r = hb_worker_id hb) (heartbeat_update (tx_clock t) hb) (db_workers d)\<rparr>"
    and e: "extend_leases (tx_clock t) (num_seconds ttl) (hb_worker_id hb) (hb_lease_extends hb) rc0 d1 = Inr (rc, d')"
    by (auto simp: heartbeat_body_def statement_inv update_workers_eq_Inr)
  have "touches_only (hb_worker_id hb) d d1"
    by (auto simp: touches_only_def u filter_update_workers heartbeat_update_def intro: exI [of _ id])
  then show ?thesis using touches_only_trans extend_leases_touches [OF e] by blast
qed

lemma worker_row_ids: "wk_id (new_worker_row t reg) = wr_worker_id reg" "wk_id (reregister_update t reg x) = wk_id x"
  by (simp_all add: new_worker_row_def reregister_update_def)

lemma filter_reregistered:
  "filter (\<lambda>x. wk_id x \<noteq> wr_worker_id reg) (update_rows (\<lambda>x. wk_id x = wr_worker_id reg \<and> q x) (reregister_update t reg) rs)
     = filter (\<lambda>x. wk_id x \<noteq> wr_worker_id reg) rs"
  by (rule filter_update_workers) (simp_all add: worker_row_ids)

lemma upsert_touches:
  "upsert_body t reg d = Inr (row, d') \<Longrightarrow> touches_only (wr_worker_id reg) d d'"
  by (auto simp: upsert_body_def statement_inv update_workers_eq_Inr touches_only_def worker_row_ids
      filter_reregistered intro: exI [of _ id] split: option.splits if_splits list.splits)

interpretation control_touches: control_frame "touches_only w" w for w
  by unfold_locales
    (auto simp: touches_only_refl upsert_worker_def record_heartbeat_def transition_job_state_def record_job_result_def
      commit_then_snd intro: touches_only_trans upsert_touches heartbeat_touches transition_touches result_touches
      split: sum.splits)

section \<open>A sample request\<close>

definition sample_result :: JobResult where
  "sample_result = \<lparr>res_job_id = ''job_1'', res_worker_id = ''wrk_1'', res_lease_id = ''lease_1'',
     res_outcome = JobOutcome.InfraFailed, res_artifact_ids = [], res_artifacts_finalized = True,
     res_cleanup_completed = True, res_error = None, res_completed_at = 20\<rparr>"

definition sample_codec :: ControlCodec where
  "sample_codec = \<lparr>cd_registration = (\<lambda>_. None), cd_heartbeat = (\<lambda>_. None), cd_transition = (\<lambda>_. None),
     cd_result = (\<lambda>_. Some sample_result), cd_from_std = Some\<rparr>"

definition sample_world :: "string World" where
  "sample_world = \<lparr>cw_call = (\<lambda>n. \<lparr>ce_clock = clock_at 20, ce_event = ''evt_r'' @ replicate n CHR ''x'', ce_others = id, ce_binds = id\<rparr>),
     cw_ack = (\<lambda>_ _. Inr ()), cw_rebinds = (\<lambda>_ m. m)\<rparr>"

definition sample_control :: "string ControlState" where
  "sample_control = \<lparr>cs_db = db_claimed, cs_acks = sample_registry, cs_calls = 0\<rparr>"

definition sample_config :: ControlConfig where
  "sample_config = \<lparr>cc_database_lease_ttl = 100, cc_reconciliation_interval = 1000000\<rparr>"

definition sample_message :: ControlMessage where
  "sample_message = \<lparr>cm_subject = job_result_subject ''wrk_1'', cm_reply = Some ''_INBOX.workers.wrk_1.r1'', cm_payload = ''{}''\<rparr>"

lemma sample_accepted:
  obtains st' where "record_result sample_config sample_codec sample_world ''wrk_1'' ''{}'' sample_control = Some (Accepted, st')"
    and "map jr_state (db_jobs (cs_db st')) = [JobState.InfraFailed]"
proof -
  have "map_option (\<lambda>(resp, st'). (resp, map jr_state (db_jobs (cs_db st'))))
      (record_result sample_config sample_codec sample_world ''wrk_1'' ''{}'' sample_control)
      = Some (Accepted, [JobState.InfraFailed])" by code_simp
  then show thesis using that by auto
qed

section \<open>Properties\<close>

text \<open>A request that is not interleaved with other transactions.\<close>

definition undisturbed :: "'m World \<Rightarrow> bool" where
  "undisturbed world \<longleftrightarrow> (\<forall>n d. ce_others (cw_call world n) d = d)"



text \<open>The outcome of a job is settled.\<close>

definition settled :: "JobId \<Rightarrow> JobOutcome \<Rightarrow> db \<Rightarrow> bool" where
  "settled job oc d \<longleftrightarrow> (\<exists>r. lock_job job d = Some r \<and> is_terminal (jr_state r) \<and> jr_outcome r = Some oc)"

lemma next_result_target:
  assumes "next_result_state s res = Some target"
  shows "is_terminal target \<Longrightarrow> target = terminal_state (res_outcome res)"
  using assms by (cases s) (auto split: if_splits)

lemma next_result_complete:
  "\<not> is_terminal s \<Longrightarrow> res_artifacts_finalized res \<Longrightarrow> res_cleanup_completed res \<Longrightarrow> next_result_state s res \<noteq> None"
  by (cases s) simp_all

lemma terminal_state_outcome: "terminal_outcome (terminal_state oc) = Some oc"
  by (cases oc) simp_all

lemma repo_call_answer:
  assumes "repo_call world op st = (res, st')"
  obtains t evt n where "op t evt (ce_others (cw_call world n) (cs_db st)) = (res, cs_db st')"
  using assms by (auto simp: repo_call_def Let_def prod_eq_iff)

lemma others_full_inv:
  "control_runs.others_in world \<Longrightarrow> full_inv d \<Longrightarrow> full_inv (ce_others (cw_call world n) d)"
  using repo.run_invariant by (auto simp: control_runs.others_in_def)

lemma full_inv_core: "full_inv d \<Longrightarrow> core_inv (db_jobs d) (db_workers d)"
  by (simp add: full_inv_def repo_inv_def)

text \<open>What a successful transition leaves in the row.\<close>

lemma transition_row:
  assumes "transition_job_state t evt job s target evi g pl d = (Inr j, d')" and "full_inv d"
  shows "job_state j = target \<and> (\<exists>r. lock_job job d' = Some r \<and> jr_state r = target \<and> jr_outcome r = terminal_outcome target)"
proof -
  from assms(1) obtain row where b: "transition_body t evt job s target evi g pl d = Inr (row, d')" and j: "into_job row = Inr j"
    by (auto simp: transition_job_state_def commit_then_eq_Inr)
  from b show ?thesis
  proof (cases rule: transition_bodyE)
    case (1 p d1 r0 d2 ev)
    have r0: "r0 \<in> set (db_jobs d)" "p r0" using select_one_SomeD [OF 1(5)] by auto
    have id0: "jr_id r0 = job" using r0(2) 1(2) by (simp add: transition_where_def)
    have "db_jobs d2 = db_jobs d1" using 1(7) by (auto dest: release_other_workers split: if_splits option.splits)
    then have "db_jobs d' = update_rows p (transition_update t target evi) (db_jobs d)"
      using append_event_frame(1) [OF 1(8)] 1(4) by simp
    then have "lock_job job d' = Some (transition_update t target evi r0)"
      using select_update_row [of "db_jobs d" r0 p "transition_update t target evi"] core_invD(1) [OF full_inv_core [OF assms(2)]] r0 id0
      by (simp add: lock_job_def transition_update_def Let_def)
    then show ?thesis using into_job_fields [OF j] 1(6) by (simp add: transition_update_def Let_def)
  qed
qed

lemma snapshot_settled:
  assumes "get_job_scheduling_snapshot job d = Inr (Some sn)" and "is_terminal (job_state (sn_job sn))"
    and "job_outcome (sn_job sn) = Some oc"
  shows "settled job oc d"
proof -
  obtain r where "lock_job job d = Some r" "into_job r = Inr (sn_job sn)" using snapshotD [OF assms(1)] by metis
  then show ?thesis using assms(2,3) into_job_fields by (auto simp: settled_def)
qed

lemma snapshot_call_answer:
  assumes "snapshot_call world job st = (Inr (Some sn), st')"
  shows "get_job_scheduling_snapshot job (cs_db st') = Inr (Some sn)"
proof -
  obtain k where "(get_job_scheduling_snapshot job (ce_others (cw_call world k) (cs_db st)), ce_others (cw_call world k) (cs_db st))
      = (Inr (Some sn), cs_db st')"
    using assms unfolding snapshot_call_def by (rule repo_call_answer)
  then show ?thesis by auto
qed

lemma finalizer_settles:
  assumes world: "control_runs.others_in world" and ev: "res_artifacts_finalized res" "res_cleanup_completed res"
  shows "finalizer_rounds n cfg world res g s st = Some (Accepted, st') \<Longrightarrow> full_inv (cs_db st) \<Longrightarrow>
    (is_terminal s \<longrightarrow> settled (res_job_id res) (res_outcome res) (cs_db st)) \<Longrightarrow>
    settled (res_job_id res) (res_outcome res) (cs_db st')"
proof (induction n arbitrary: s st)
  case 0
  then show ?case by (simp add: control_response_def)
next
  case (Suc n)
  have keep: "full_inv (cs_db st2)" if "repo_step\<^sup>*\<^sup>* (cs_db st) (cs_db st2)" for st2 :: "'a ControlState"
    using repo.run_invariant that Suc.prems(2) by blast
  from Suc.prems(1) show ?case
  proof (cases rule: finalizer_round)
    case terminal
    then show ?thesis using confirm_db [OF terminal(2)] Suc.prems(3) by simp
  next
    case held
    then show ?thesis using next_result_complete ev by blast
  next
    case (moved target job st1)
    obtain t evt k where a: "transition_job_state t evt (res_job_id res) s target (result_evidence res) (Some g) []
        (ce_others (cw_call world k) (cs_db st)) = (Inr job, cs_db st1)"
      using moved(3) unfolding transition_call_def by (rule repo_call_answer)
    have row: "job_state job = target \<and> (\<exists>r. lock_job (res_job_id res) (cs_db st1) = Some r \<and> jr_state r = target
        \<and> jr_outcome r = terminal_outcome target)"
      by (rule transition_row [OF a others_full_inv [OF world Suc.prems(2)]])
    then have "is_terminal (job_state job) \<longrightarrow> settled (res_job_id res) (res_outcome res) (cs_db st1)"
      using next_result_target [OF moved(2)] terminal_state_outcome by (auto simp: settled_def)
    then show ?thesis
      using Suc.IH [OF moved(4)] keep control_runs.transition_call_in [OF world refl moved(3)] by blast
  next
    case (failed target e st1)
    then show ?thesis by simp
  next
    case (lost target e st1 answer st2)
    have inv2: "full_inv (cs_db st2)"
      using keep rtranclp_trans [OF control_runs.transition_call_in [OF world refl lost(3)] control_runs.snapshot_call_in [OF world lost(4)]]
      by blast
    from lost(5) show ?thesis
    proof (elim disjE exE conjE)
      fix sn assume sn: "answer = Inr (Some sn)" "is_terminal (job_state (sn_job sn))" "job_outcome (sn_job sn) = Some (res_outcome res)"
        "control_confirm_ack cfg world (res_job_id res) g st2 = Some (Accepted, st')"
      show ?thesis
        using snapshot_settled [OF snapshot_call_answer sn(2,3)] lost(4) sn(1) confirm_db [OF sn(4)] by simp
    next
      fix sn assume sn: "\<not> is_terminal (job_state (sn_job sn))"
        "finalizer_rounds n cfg world res g (job_state (sn_job sn)) st2 = Some (Accepted, st')"
      show ?thesis using Suc.IH [OF sn(2) inv2] sn(1) by blast
    qed simp
  qed
qed

lemma recorded_not_terminal:
  assumes "record_job_result t evt res d = (Inr j, d')"
  shows "\<not> is_terminal (job_state j)"
proof -
  from assms obtain row where b: "result_body t evt res d = Inr (row, d')" and j: "into_job row = Inr j"
    by (auto simp: record_job_result_def commit_then_eq_Inr)
  from b show ?thesis
  proof (cases rule: result_bodyE)
    case (1 current d1 ev st pl)
    then obtain r where "select_one (result_where t res) (db_jobs d) = Some r" "row = result_update res r" by auto
    then show ?thesis
      using select_one_SomeD into_job_fields [OF j] by (fastforce simp: result_where_def result_update_def)
  qed
qed

lemma leased_snapshot_not_terminal:
  assumes "get_job_scheduling_snapshot job d = Inr (Some sn)" and "sn_lease sn = Some g" and "full_inv d"
  shows "\<not> is_terminal (job_state (sn_job sn))"
proof -
  obtain r where r: "lock_job job d = Some r" "snapshot_lease r = Inr (sn_lease sn)" "into_job r = Inr (sn_job sn)"
    using snapshotD [OF assms(1)] by metis
  have "job_inv r" using core_invD(4) [OF full_inv_core [OF assms(3)]] lock_job_SomeD [OF r(1)] by blast
  then show ?thesis
    using snapshot_lease_eq_Inr [OF r(2)] assms(2) into_job_fields [OF r(3)] by (auto simp: job_inv_def split: option.splits)
qed

text \<open>
  C5. An accepted result is final: when the scheduler answers \<open>Accepted\<close> to a result with finalised
  artifacts and completed cleanup, the job is terminal and its recorded outcome is the reported one,
  however the request was interleaved with other repository calls and whether it was a first report
  or a replay.
\<close>

theorem accepted_result_is_final:
  assumes "db_initial d0" and "repo_step\<^sup>*\<^sup>* d0 (cs_db st)"
    and "\<forall>n d. repo_step\<^sup>*\<^sup>* d (ce_others (cw_call world n) d)"
    and "cd_result codec payload = Some res" and "res_artifacts_finalized res" and "res_cleanup_completed res"
    and "res_worker_id res = w" and "record_result cfg codec world w payload st = Some (Accepted, st')"
  shows "\<exists>r. lock_job (res_job_id res) (cs_db st') = Some r \<and> is_terminal (jr_state r) \<and> jr_outcome r = Some (res_outcome res)"
proof -
  have world: "control_runs.others_in world" using assms(3) by (simp add: control_runs.others_in_def)
  have inv: "full_inv (cs_db st)" by (rule repo.reachable_invariant [OF assms(1,2)])
  let ?g = "\<lparr>lg_worker_id = res_worker_id res, lg_lease_id = res_lease_id res\<rparr>"
  obtain r st1 where c: "repo_call world (\<lambda>t evt. record_job_result t evt res) st = (r, st1)" by fastforce
  obtain r2 st2 where s2: "snapshot_call world (res_job_id res) st1 = (r2, st2)" by fastforce
  have 1: "repo_step\<^sup>*\<^sup>* (cs_db st) (cs_db st1)"
    by (rule control_runs.repo_call_in [OF world _ c]) (blast intro: repo_step.result)
  have 2: "repo_step\<^sup>*\<^sup>* (cs_db st) (cs_db st2)"
    by (rule rtranclp_trans [OF 1 control_runs.snapshot_call_in [OF world s2]])
  note inv1 = repo.run_invariant [OF 1 inv] and inv2 = repo.run_invariant [OF 2 inv]
  have na: "control_response cfg k \<noteq> Accepted" for k by (cases k) (simp_all add: control_response_def)
  have "(\<exists>j. r = Inr j \<and> drive_result_finalizer cfg world res ?g (job_state j) st1 = Some (Accepted, st'))
    \<or> (\<exists>sn. r2 = Inr (Some sn) \<and> is_terminal (job_state (sn_job sn)) \<and> job_outcome (sn_job sn) = Some (res_outcome res)
          \<and> control_confirm_ack cfg world (res_job_id res) ?g st2 = Some (Accepted, st'))
    \<or> (\<exists>sn. r2 = Inr (Some sn) \<and> sn_lease sn = Some ?g
          \<and> drive_result_finalizer cfg world res ?g (job_state (sn_job sn)) st2 = Some (Accepted, st'))"
    using assms(4,7,8) c s2 na na [symmetric]
    by (auto simp: record_result_def worker_matches_subject_def Let_def classify_replayed_result_def
        split: sum.splits if_splits option.splits)
  then have "settled (res_job_id res) (res_outcome res) (cs_db st')"
  proof (elim disjE exE conjE)
    fix j assume j: "r = Inr j" "drive_result_finalizer cfg world res ?g (job_state j) st1 = Some (Accepted, st')"
    obtain t evt k where "record_job_result t evt res (ce_others (cw_call world k) (cs_db st)) = (Inr j, cs_db st1)"
      using c unfolding j(1) by (rule repo_call_answer)
    then have "\<not> is_terminal (job_state j)" by (rule recorded_not_terminal)
    then show ?thesis using finalizer_settles [OF world assms(5,6) _ inv1] j(2) by (simp add: drive_result_finalizer_def)
  next
    fix sn assume sn: "r2 = Inr (Some sn)" "is_terminal (job_state (sn_job sn))" "job_outcome (sn_job sn) = Some (res_outcome res)"
      "control_confirm_ack cfg world (res_job_id res) ?g st2 = Some (Accepted, st')"
    show ?thesis using snapshot_settled [OF snapshot_call_answer sn(2,3)] s2 sn(1) confirm_db [OF sn(4)] by simp
  next
    fix sn assume sn: "r2 = Inr (Some sn)" "sn_lease sn = Some ?g"
      "drive_result_finalizer cfg world res ?g (job_state (sn_job sn)) st2 = Some (Accepted, st')"
    have "\<not> is_terminal (job_state (sn_job sn))"
      using leased_snapshot_not_terminal [OF snapshot_call_answer sn(2) inv2] s2 sn(1) by simp
    then show ?thesis using finalizer_settles [OF world assms(5,6) _ inv2] sn(3) by (simp add: drive_result_finalizer_def)
  qed
  then show ?thesis by (simp add: settled_def)
qed

theorem accepted_result_is_final_witness:
  "case record_result sample_config sample_codec sample_world ''wrk_1'' ''{}'' sample_control of
     Some (Accepted, st') \<Rightarrow> (\<exists>r. lock_job ''job_1'' (cs_db st') = Some r \<and> jr_outcome r = Some JobOutcome.InfraFailed)
   | _ \<Rightarrow> False"
proof -
  let ?run = "record_result sample_config sample_codec sample_world ''wrk_1'' ''{}'' sample_control"
  obtain st' where run: "?run = Some (Accepted, st')" by (rule sample_accepted)
  have reach: "repo_step\<^sup>*\<^sup>* sample_db (cs_db sample_control)" by (simp add: sample_control_def sample_reachable)
  have calm: "\<forall>n d. repo_step\<^sup>*\<^sup>* d (ce_others (cw_call sample_world n) d)" by (simp add: sample_world_def)
  have res: "cd_result sample_codec ''{}'' = Some sample_result" by (simp add: sample_codec_def)
  have "res_artifacts_finalized sample_result" "res_cleanup_completed sample_result" "res_worker_id sample_result = ''wrk_1''"
    by (simp_all add: sample_result_def)
  from accepted_result_is_final [OF sample_initial reach calm res this run] run show ?thesis
    by (auto simp: sample_result_def)
qed

end
