(* ===== verification/Actions.thy ===== *)
theory Actions
  imports Prelude
begin

text \<open>
  Tasks of the scheduler as actions on a state: an action returns a result, an error or a value, with
  the new state, or does not return at all (a loop that never ends, or a panic).  \<open>and_then\<close> is the
  question-mark operator.  The locale \<open>action_relation\<close> lifts a reflexive and transitive relation on
  states from the primitive actions to whole tasks; its rules are the bundle \<open>keeps_rules\<close>.
\<close>

type_synonym ('s, 'e, 'a) action = "'s \<Rightarrow> (('e + 'a) \<times> 's) option"

definition succeed :: "'a \<Rightarrow> ('s, 'e, 'a) action" where
  "succeed x s = Some (Inr x, s)"

definition fail_with :: "'e \<Rightarrow> ('s, 'e, 'a) action" where
  "fail_with e s = Some (Inl e, s)"

definition answered :: "'e + 'a \<Rightarrow> ('s, 'e, 'a) action" where
  "answered r s = Some (r, s)"

definition reading :: "('s \<Rightarrow> 'a) \<Rightarrow> ('s, 'e, 'a) action" where
  "reading f s = Some (Inr (f s), s)"

definition modify :: "('s \<Rightarrow> 's) \<Rightarrow> ('s, 'e, unit) action" where
  "modify f s = Some (Inr (), f s)"

text \<open>\<open>expect\<close>: a panic ends the task without a result.\<close>

definition expect :: "'a option \<Rightarrow> ('s, 'e, 'a) action" where
  "expect r s = (case r of None \<Rightarrow> None | Some x \<Rightarrow> Some (Inr x, s))"

text \<open>A call that waits for ever.\<close>

definition never_returns :: "('s, 'e, 'a) action" where
  "never_returns s = None"

definition and_then :: "('s, 'e, 'a) action \<Rightarrow> ('a \<Rightarrow> ('s, 'e, 'b) action) \<Rightarrow> ('s, 'e, 'b) action" where
  "and_then m f s = (case m s of
       None \<Rightarrow> None
     | Some (Inl e, s1) \<Rightarrow> Some (Inl e, s1)
     | Some (Inr x, s1) \<Rightarrow> f x s1)"

text \<open>The result of an action as a value, for a caller that inspects or ignores the error.\<close>

definition outcome_of :: "('s, 'e, 'a) action \<Rightarrow> ('s, 'f, 'e + 'a) action" where
  "outcome_of m s = (case m s of None \<Rightarrow> None | Some (r, s1) \<Rightarrow> Some (Inr r, s1))"

definition map_failure :: "('e \<Rightarrow> 'f) \<Rightarrow> ('s, 'e, 'a) action \<Rightarrow> ('s, 'f, 'a) action" where
  "map_failure g m s = (case m s of
       None \<Rightarrow> None
     | Some (Inl e, s1) \<Rightarrow> Some (Inl (g e), s1)
     | Some (Inr x, s1) \<Rightarrow> Some (Inr x, s1))"

text \<open>A for loop over a list with an accumulator.\<close>

fun for_each :: "('x \<Rightarrow> 'b \<Rightarrow> ('s, 'e, 'b) action) \<Rightarrow> 'x list \<Rightarrow> 'b \<Rightarrow> ('s, 'e, 'b) action" where
  "for_each body [] acc = succeed acc"
| "for_each body (x # xs) acc = and_then (body x acc) (for_each body xs)"

section \<open>Inversion\<close>

lemma action_simps [simp]:
  "succeed x s = Some (r, s') \<longleftrightarrow> r = Inr x \<and> s' = s"
  "fail_with e s = Some (q, s') \<longleftrightarrow> q = Inl e \<and> s' = s"
  "answered a s = Some (b, s') \<longleftrightarrow> a = b \<and> s' = s"
  "reading g s = Some (u, s') \<longleftrightarrow> u = Inr (g s) \<and> s' = s"
  "modify h s = Some (v, s') \<longleftrightarrow> v = Inr () \<and> s' = h s"
  "expect t s = Some (w, s') \<longleftrightarrow> (\<exists>y. t = Some y \<and> w = Inr y \<and> s' = s)"
  "\<not> never_returns s = Some (z, s')"
  by (auto simp: succeed_def fail_with_def answered_def reading_def modify_def expect_def never_returns_def split: option.splits)

lemma and_then_cases:
  "and_then m f s = Some (r, s') \<longleftrightarrow>
     (\<exists>e. m s = Some (Inl e, s') \<and> r = Inl e) \<or> (\<exists>x s1. m s = Some (Inr x, s1) \<and> f x s1 = Some (r, s'))"
  by (auto simp: and_then_def split: option.splits prod.splits sum.splits)

lemma and_then_Inr:
  "and_then m f s = Some (Inr y, s') \<longleftrightarrow> (\<exists>x s1. m s = Some (Inr x, s1) \<and> f x s1 = Some (Inr y, s'))"
  by (simp add: and_then_cases)

lemma outcome_cases: "outcome_of m s = Some (r, s') \<longleftrightarrow> (\<exists>q. m s = Some (q, s') \<and> r = Inr q)"
  by (auto simp: outcome_of_def split: option.splits)

lemma map_failure_Inr: "map_failure g m s = Some (Inr x, s') \<longleftrightarrow> m s = Some (Inr x, s')"
  by (auto simp: map_failure_def split: option.splits prod.splits sum.splits)

lemma map_failure_cases:
  "map_failure g m s = Some (r, s') \<longleftrightarrow> (\<exists>q. m s = Some (q, s') \<and> r = (case q of Inl e \<Rightarrow> Inl (g e) | Inr x \<Rightarrow> Inr x))"
  by (auto simp: map_failure_def split: option.splits prod.splits sum.splits)

lemma map_failure_iff:
  "map_failure g m s = Some (r, s') \<longleftrightarrow>
     (\<exists>e. m s = Some (Inl e, s') \<and> r = Inl (g e)) \<or> (\<exists>x. m s = Some (Inr x, s') \<and> r = Inr x)"
  by (auto simp: map_failure_def split: option.splits prod.splits sum.splits)

lemmas action_iff = and_then_cases outcome_cases map_failure_iff

lemmas action_cases = and_then_cases outcome_cases map_failure_cases

section \<open>Relations kept by actions\<close>

locale action_relation =
  fixes R :: "'s \<Rightarrow> 's \<Rightarrow> bool"
  assumes R_refl: "R s s"
    and R_trans: "R s s' \<Longrightarrow> R s' s'' \<Longrightarrow> R s s''"
begin

definition keeps :: "('s, 'e, 'a) action \<Rightarrow> bool" where
  "keeps m \<longleftrightarrow> (\<forall>s r s'. m s = Some (r, s') \<longrightarrow> R s s')"

lemma keepsD: "keeps m \<Longrightarrow> m s = Some (r, s') \<Longrightarrow> R s s'"
  by (simp add: keeps_def)

lemma keepsI: "(\<And>s r s'. m s = Some (r, s') \<Longrightarrow> R s s') \<Longrightarrow> keeps m"
  by (simp add: keeps_def)

lemma keeps_pure:
  "keeps (succeed x)" "keeps (fail_with e)" "keeps (answered a)" "keeps (reading g)" "keeps (expect t)" "keeps never_returns"
  by (auto simp: keeps_def R_refl)

lemma keeps_modify: "(\<And>s. R s (h s)) \<Longrightarrow> keeps (modify h)"
  by (auto simp: keeps_def)

lemma keeps_and_then:
  assumes "keeps m" and "\<And>x. keeps (f x)"
  shows "keeps (and_then m f)"
proof (rule keepsI)
  fix s r s' assume "and_then m f s = Some (r, s')"
  then consider "\<exists>q. m s = Some (q, s')" | x s1 where "m s = Some (Inr x, s1)" "f x s1 = Some (r, s')"
    by (auto simp: and_then_cases)
  then show "R s s'"
  proof cases
    case 1
    then show ?thesis using assms(1) keepsD by blast
  next
    case 2
    then show ?thesis using R_trans [OF keepsD [OF assms(1)] keepsD [OF assms(2)]] by blast
  qed
qed

lemma keeps_outcome: "keeps m \<Longrightarrow> keeps (outcome_of m)"
  by (auto simp: keeps_def outcome_cases)

lemma keeps_map_failure: "keeps m \<Longrightarrow> keeps (map_failure g m)"
  by (auto simp: keeps_def map_failure_cases)

lemma keeps_for_each: "(\<And>x b. keeps (body x b)) \<Longrightarrow> keeps (for_each body xs acc)"
  by (induction xs arbitrary: acc) (auto intro: keeps_pure keeps_and_then)

lemma keeps_if: "keeps m \<Longrightarrow> keeps n \<Longrightarrow> keeps (if b then m else n)"
  by simp

lemma keeps_option:
  "keeps m \<Longrightarrow> (\<And>x. keeps (f x)) \<Longrightarrow> keeps (case opt of None \<Rightarrow> m | Some x \<Rightarrow> f x)"
  by (cases opt) simp_all

lemma keeps_sum:
  "(\<And>e. keeps (f e)) \<Longrightarrow> (\<And>x. keeps (g x)) \<Longrightarrow> keeps (case r of Inl e \<Rightarrow> f e | Inr x \<Rightarrow> g x)"
  by (cases r) simp_all

lemma keeps_prod: "(\<And>x y. keeps (f x y)) \<Longrightarrow> keeps (case p of (x, y) \<Rightarrow> f x y)"
  by (cases p) simp

lemmas keeps_rules = keeps_pure keeps_and_then keeps_outcome keeps_map_failure keeps_for_each keeps_if keeps_option
  keeps_sum keeps_prod

end

section \<open>Actions that return\<close>

definition returns :: "('s, 'e, 'a) action \<Rightarrow> bool" where
  "returns m \<longleftrightarrow> (\<forall>s. m s \<noteq> None)"

lemma returnsD: "returns m \<Longrightarrow> \<exists>r s'. m s = Some (r, s')"
  by (auto simp: returns_def)

lemma returns_pure:
  "returns (succeed x)" "returns (fail_with e)" "returns (answered a)" "returns (reading g)" "returns (modify h)"
  "returns (expect (Some y))"
  by (simp_all add: returns_def succeed_def fail_with_def answered_def reading_def modify_def expect_def)

lemma returns_and_then: "returns m \<Longrightarrow> (\<And>x. returns (f x)) \<Longrightarrow> returns (and_then m f)"
  by (auto simp: returns_def and_then_def split: option.splits sum.splits)

lemma returns_outcome: "returns m \<Longrightarrow> returns (outcome_of m)"
  by (auto simp: returns_def outcome_of_def split: option.splits)

lemma returns_map_failure: "returns m \<Longrightarrow> returns (map_failure g m)"
  by (auto simp: returns_def map_failure_def split: option.splits sum.splits)

lemma returns_for_each: "(\<And>x b. returns (body x b)) \<Longrightarrow> returns (for_each body xs acc)"
  by (induction xs arbitrary: acc) (auto intro: returns_pure returns_and_then)

lemma returns_if: "returns m \<Longrightarrow> returns n \<Longrightarrow> returns (if b then m else n)"
  by simp

lemma returns_option: "returns m \<Longrightarrow> (\<And>x. returns (f x)) \<Longrightarrow> returns (case opt of None \<Rightarrow> m | Some x \<Rightarrow> f x)"
  by (cases opt) simp_all

lemma returns_sum: "(\<And>e. returns (f e)) \<Longrightarrow> (\<And>x. returns (g x)) \<Longrightarrow> returns (case r of Inl e \<Rightarrow> f e | Inr x \<Rightarrow> g x)"
  by (cases r) simp_all

lemma returns_prod: "(\<And>x y. returns (f x y)) \<Longrightarrow> returns (case p of (x, y) \<Rightarrow> f x y)"
  by (cases p) simp

lemmas returns_rules = returns_pure returns_and_then returns_outcome returns_map_failure returns_for_each returns_if
  returns_option returns_sum returns_prod

end
