(* ===== verification/Scheduler_World.thy ===== *)
theory Scheduler_World
  imports Actions Control
begin

text \<open>
  What the scheduler's tasks share: the database and the acknowledgement registry (\<open>ControlState\<close>),
  and a log of the requests sent to JetStream, to workers and to the runtime engine.  Every awaited
  call is numbered; before it, other transactions and tasks act on the database and the registry
  (\<open>cw_call\<close> of \<open>World\<close>), and its answer is the one the world gives under that number.  The clock and
  fresh identifiers are read once between two awaited calls.
\<close>

section \<open>State and environment\<close>

record JobDispatch =
  jd_claim :: JobClaim
  jd_trace_context :: "(string, string) btree"

datatype Effect =
    Published string "(string, string) btree" OutboxPayload
  | SourceDeleted u64
  | DispatchRequested string "(string, string) btree" JobDispatch
  | ReapRequested string JobId WorkerId LeaseId

record 'm Sched =
  sd_control :: "'m ControlState"
  sd_log :: "Effect list"

datatype RawMessageAnswer =
    RawMessage "string \<Rightarrow> string option" string
  | is_NoMessageFound: NoMessageFound
  | RawMessageFailed string

record 'm SchedWorld =
  sw_control :: "'m World"
  sw_now :: "nat \<Rightarrow> instant"
  sw_fresh :: "nat \<Rightarrow> string"
  sw_header_name :: "string \<Rightarrow> string option"
  sw_header_value :: "string \<Rightarrow> string option"
  sw_publish :: "nat \<Rightarrow> string + unit"
  sw_confirm :: "nat \<Rightarrow> string + unit"
  sw_delete :: "nat \<Rightarrow> string + bool"
  sw_raw :: "nat \<Rightarrow> RawMessageAnswer"
  sw_request :: "nat \<Rightarrow> ControlResponse option"
  sw_from_std :: "duration \<Rightarrow> duration option"

abbreviation sd_db :: "('m, 'z) Sched_scheme \<Rightarrow> db" where
  "sd_db s \<equiv> cs_db (sd_control s)"

abbreviation sd_acks :: "('m, 'z) Sched_scheme \<Rightarrow> 'm AckRegistry" where
  "sd_acks s \<equiv> cs_acks (sd_control s)"

section \<open>Primitive actions\<close>

definition repository ::
  "'m SchedWorld \<Rightarrow> (TxClock \<Rightarrow> JobEventId \<Rightarrow> db \<Rightarrow> (RepositoryError + 'a) \<times> db) \<Rightarrow>
   (('m, 'z) Sched_scheme, RepositoryError, 'a) action" where
  "repository world operation s =
     (case repo_call (sw_control world) operation (sd_control s) of (r, c) \<Rightarrow> Some (r, s\<lparr>sd_control := c\<rparr>))"

definition query ::
  "'m SchedWorld \<Rightarrow> (db \<Rightarrow> RepositoryError + 'a) \<Rightarrow> (('m, 'z) Sched_scheme, RepositoryError, 'a) action" where
  "query world f = repository world (\<lambda>_ _ d. (f d, d))"

definition await :: "'m SchedWorld \<Rightarrow> (nat \<Rightarrow> 'a) \<Rightarrow> (('m, 'z) Sched_scheme, 'e, 'a) action" where
  "await world answer s =
     (case repo_call (sw_control world) (\<lambda>_ _ d. ((), d)) (sd_control s) of
        (_, c) \<Rightarrow> Some (Inr (answer (cs_calls (sd_control s))), s\<lparr>sd_control := c\<rparr>))"

definition utc_now :: "'m SchedWorld \<Rightarrow> (('m, 'z) Sched_scheme, 'e, instant) action" where
  "utc_now world = reading (\<lambda>s. sw_now world (cs_calls (sd_control s)))"

definition fresh_id :: "'m SchedWorld \<Rightarrow> (('m, 'z) Sched_scheme, 'e, string) action" where
  "fresh_id world = reading (\<lambda>s. sw_fresh world (cs_calls (sd_control s)))"

definition record_effect :: "Effect \<Rightarrow> (('m, 'z) Sched_scheme, 'e, unit) action" where
  "record_effect eff = modify (\<lambda>s. s\<lparr>sd_log := sd_log s @ [eff]\<rparr>)"

text \<open>An operation of the registry that waits for no server.\<close>

definition registry ::
  "('m AckRegistry \<Rightarrow> 'a \<times> 'm AckRegistry) \<Rightarrow> (('m, 'z) Sched_scheme, 'e, 'a) action" where
  "registry f s =
     (case f (sd_acks s) of (x, reg) \<Rightarrow> Some (Inr x, s\<lparr>sd_control := (sd_control s)\<lparr>cs_acks := reg\<rparr>\<rparr>))"

text \<open>\<open>ack_with\<close> and \<open>double_ack\<close> on a message, outside the registry.\<close>

definition acknowledge ::
  "'m SchedWorld \<Rightarrow> AckKind \<Rightarrow> 'm \<Rightarrow> (('m, 'z) Sched_scheme, string, unit) action" where
  "acknowledge world kind message =
     and_then (await world (\<lambda>_. ())) (\<lambda>_.
     and_then (registry (send_ack (cw_ack (sw_control world)) kind message)) (\<lambda>answer.
       case answer of Inl (AckJetStream e) \<Rightarrow> fail_with e | _ \<Rightarrow> succeed ()))"

definition confirm_registered ::
  "'m SchedWorld \<Rightarrow> JobId \<Rightarrow> WorkerId \<Rightarrow> LeaseId \<Rightarrow> (('m, 'z) Sched_scheme, AckRegistryError, unit) action" where
  "confirm_registered world job worker lease s =
     (case confirm_ack (cw_ack (sw_control world)) (cw_rebinds (sw_control world)) job worker lease (sd_acks s) of
        None \<Rightarrow> None
      | Some (r, reg) \<Rightarrow> Some (r, s\<lparr>sd_control := (sd_control s)\<lparr>cs_acks := reg\<rparr>\<rparr>))"

text \<open>Publishing: the send and the stream's acknowledgement of it are two awaited calls.\<close>

definition jetstream_publish ::
  "'m SchedWorld \<Rightarrow> string \<Rightarrow> (string, string) btree \<Rightarrow> OutboxPayload \<Rightarrow> (('m, 'z) Sched_scheme, string, unit) action" where
  "jetstream_publish world subject headers payload =
     and_then (await world (sw_publish world)) (\<lambda>sent. and_then (answered sent) (\<lambda>_.
     and_then (record_effect (Published subject headers payload)) (\<lambda>_.
     and_then (await world (sw_confirm world)) answered)))"

definition NATS_MESSAGE_ID_HEADER :: string where "NATS_MESSAGE_ID_HEADER = ''Nats-Msg-Id''"

text \<open>The text of a trace header error, as its \<open>Display\<close> prints it.\<close>

fun trace_error_message :: "TraceHeaderError \<Rightarrow> string" where
  "trace_error_message (Unsupported n) = ''unsupported trace header `'' @ n @ ''`''"
| "trace_error_message (TraceTooLarge n) = ''trace header `'' @ n @ ''` exceeds 4096 bytes''"
| "trace_error_message (InvalidName n) = ''invalid trace header name `'' @ n @ ''`''"
| "trace_error_message (InvalidValue n) = ''invalid value for trace header `'' @ n @ ''`''"

definition traced_headers ::
  "'m SchedWorld \<Rightarrow> (string, string) btree \<Rightarrow> (string, string) btree \<Rightarrow> string + (string, string) btree" where
  "traced_headers world trace headers =
     map_err trace_error_message (inject_trace_headers (sw_header_name world) (sw_header_value world) bt_put trace headers)"

definition saturating_inc :: "'a::len word \<Rightarrow> 'a word" where
  "saturating_inc n = (if n = - 1 then n else n + 1)"

section \<open>Relations on the database\<close>

text \<open>
  A relation between databases that every step of the surroundings respects and that is reflexive
  and transitive lifts to the scheduler's states; the tasks are then covered by \<open>keeps_rules\<close>.
\<close>

locale db_relation =
  fixes D :: "db \<Rightarrow> db \<Rightarrow> bool"
  assumes D_refl: "D d d"
    and D_trans: "D d d' \<Longrightarrow> D d' d'' \<Longrightarrow> D d d''"
begin

sublocale on_db: action_relation "\<lambda>s s' :: ('m, 'z) Sched_scheme. D (sd_db s) (sd_db s')"
  by unfold_locales (auto intro: D_refl D_trans)

definition world_in :: "'m SchedWorld \<Rightarrow> bool" where
  "world_in world \<longleftrightarrow> (\<forall>n d. D d (ce_others (cw_call (sw_control world) n) d))"

lemma repository_in:
  assumes "world_in world" and "\<And>t evt d. D d (snd (op t evt d))"
  shows "on_db.keeps (repository world op)"
proof (rule on_db.keepsI)
  fix s r s' assume c: "repository world op s = Some (r, s')"
  let ?env = "cw_call (sw_control world) (cs_calls (sd_control s))"
  have "D (sd_db s) (ce_others ?env (sd_db s))" using assms(1) by (simp add: world_in_def)
  moreover have "sd_db s' = snd (op (ce_clock ?env) (ce_event ?env) (ce_others ?env (sd_db s)))"
    using c by (auto simp: repository_def repo_call_def Let_def)
  ultimately show "D (sd_db s) (sd_db s')" using D_trans assms(2) by metis
qed

lemma query_in: "world_in world \<Longrightarrow> on_db.keeps (query world f)"
  unfolding query_def by (rule repository_in) (simp_all add: D_refl)

lemma await_in: "world_in world \<Longrightarrow> on_db.keeps (await world answer)"
  by (rule on_db.keepsI) (auto simp: await_def repo_call_def Let_def world_in_def)

lemma registry_in: "on_db.keeps (registry f)"
  by (rule on_db.keepsI) (auto simp: registry_def D_refl split: prod.splits)

lemma confirm_in: "on_db.keeps (confirm_registered world job worker lease)"
  by (rule on_db.keepsI) (auto simp: confirm_registered_def D_refl split: option.splits)

lemma modify_in: "(\<And>s. sd_db (h s) = sd_db s) \<Longrightarrow> on_db.keeps (modify h)"
  by (rule on_db.keepsI) (simp add: D_refl)

lemma effect_in: "on_db.keeps (record_effect eff)"
  unfolding record_effect_def by (rule modify_in) simp

lemma reading_in: "on_db.keeps (utc_now world)" "on_db.keeps (fresh_id world)"
  unfolding utc_now_def fresh_id_def by (rule on_db.keeps_rules)+

lemma acknowledge_in: "world_in world \<Longrightarrow> on_db.keeps (acknowledge world kind m)"
  unfolding acknowledge_def
  by (intro on_db.keeps_rules await_in registry_in) (auto intro: on_db.keeps_rules split: AckRegistryError.splits)

lemma publish_in: "world_in world \<Longrightarrow> on_db.keeps (jetstream_publish world subject headers payload)"
  unfolding jetstream_publish_def by (intro on_db.keeps_rules await_in effect_in)

lemmas primitives_in = query_in await_in registry_in confirm_in effect_in reading_in acknowledge_in publish_in

end

section \<open>Tasks that leave the caller's state alone\<close>

text \<open>These primitives change the database, the registry and the log only.\<close>

interpretation own: action_relation "\<lambda>s s' :: ('m, 'z) Sched_scheme. Sched.more s' = Sched.more s"
  by unfold_locales auto

lemma calls_own:
  "own.keeps (repository world operation)" "own.keeps (query world f)" "own.keeps (await world answer)"
  "own.keeps (registry g)" "own.keeps (confirm_registered world job worker lease)" "own.keeps (record_effect eff)"
  "own.keeps (utc_now world)" "own.keeps (fresh_id world)"
  by (rule own.keepsI, auto simp: repository_def query_def await_def registry_def confirm_registered_def record_effect_def
      utc_now_def fresh_id_def split: prod.splits option.splits)+

lemma messages_own:
  "own.keeps (acknowledge world kind m)" "own.keeps (jetstream_publish world subject headers payload)"
proof -
  show "own.keeps (acknowledge world kind m)"
    unfolding acknowledge_def by (intro own.keeps_and_then calls_own) (auto intro: own.keeps_pure split: sum.splits AckRegistryError.splits)
  show "own.keeps (jetstream_publish world subject headers payload)"
    unfolding jetstream_publish_def by (intro own.keeps_rules calls_own)
qed

end
