(* ===== verification/Dlq.thy ===== *)
theory Dlq
  imports Scheduler_World Repo_System
begin

text \<open>
  Dead letters (\<open>crates/scheduler/src/dlq.rs\<close>): publication through the outbox and retirement of the
  source message.  JSON serialisation of a payload cannot fail, so a published payload is the value it
  encodes.
\<close>

section \<open>Markers\<close>

definition exhaustion_event_key :: "JobId \<Rightarrow> u32 \<Rightarrow> string" where
  "exhaustion_event_key job attempt = ''dlq:'' @ job @ '':'' @ show_nat (unat (max attempt 1))"

definition is_matching_exhaustion_marker :: "OutboxRow \<Rightarrow> JobId \<Rightarrow> u32 \<Rightarrow> bool" where
  "is_matching_exhaustion_marker message job attempt =
     (if ob_subject message \<noteq> JOBS_DEAD_SUBJECT \<or> ob_event_key message \<noteq> exhaustion_event_key job attempt then False
      else (case ob_payload message of
          DeadLetterPayload dead_letter \<Rightarrow> dl_reason dead_letter = AttemptsExhausted
            \<and> dl_job_id dead_letter = Some job \<and> dl_attempt dead_letter = max attempt 1
        | _ \<Rightarrow> False))"

section \<open>Publication\<close>

datatype DlqError =
    DlqRepository RepositoryError
  | DlqTrace string
  | DlqPublish string
  | DlqPending string
  | DlqTerm string
  | DlqDelete u64 string

datatype DlqPublishOutcome = NewlyPublished | AlreadyPublished

definition DLQ_LEASE_BATCH :: u32 where "DLQ_LEASE_BATCH = 64"

definition outbox_lease_timeout :: duration where "outbox_lease_timeout = 30 * 1000000"

definition publish_one :: "'m SchedWorld \<Rightarrow> OutboxRow \<Rightarrow> (('m, 'z) Sched_scheme, DlqError, unit) action" where
  "publish_one world message =
     and_then (answered (map_err DlqTrace (traced_headers world (ob_trace_headers message)
        (bt_put NATS_MESSAGE_ID_HEADER (ob_event_key message) [])))) (\<lambda>headers.
     map_failure DlqPublish (jetstream_publish world JOBS_DEAD_SUBJECT headers (ob_payload message)))"

definition publish_leased ::
  "'m SchedWorld \<Rightarrow> string \<Rightarrow> OutboxRow \<Rightarrow> u64 \<Rightarrow> (('m, 'z) Sched_scheme, DlqError, u64) action" where
  "publish_leased world dispatcher message published =
     and_then (outcome_of (publish_one world message)) (\<lambda>r. case r of
         Inl e \<Rightarrow>
           and_then (utc_now world) (\<lambda>now.
           and_then (outcome_of (repository world (\<lambda>t _. retry_outbox_message t (ob_id message) dispatcher
             (now + 5 * 1000000) ''JetStream did not confirm DLQ publication''))) (\<lambda>_. fail_with e))
       | Inr _ \<Rightarrow>
           and_then (map_failure DlqRepository (repository world (\<lambda>t _. mark_outbox_published t (ob_id message) dispatcher)))
             (\<lambda>_. succeed (saturating_inc published)))"

definition publish_ready :: "'m SchedWorld \<Rightarrow> string \<Rightarrow> (('m, 'z) Sched_scheme, DlqError, u64) action" where
  "publish_ready world dispatcher =
     and_then (map_failure DlqRepository (repository world (\<lambda>t _. lease_outbox_messages_for_subject t dispatcher
        JOBS_DEAD_SUBJECT outbox_lease_timeout DLQ_LEASE_BATCH))) (\<lambda>messages.
     for_each (publish_leased world dispatcher) messages 0)"

definition ensure_published ::
  "'m SchedWorld \<Rightarrow> string \<Rightarrow> JobDeadLetter \<Rightarrow> (string, string) btree \<Rightarrow>
   (('m, 'z) Sched_scheme, DlqError, DlqPublishOutcome) action" where
  "ensure_published world dispatcher dead_letter trace_context =
     and_then (answered (map_err (\<lambda>e. DlqTrace (dead_letter_message e)) (idempotency_key dead_letter))) (\<lambda>event_key.
     and_then (map_failure DlqRepository (repository world (\<lambda>t _. enqueue_job_dead_letter t dead_letter trace_context))) (\<lambda>message.
     and_then (if ob_published_at message = None
         then and_then (publish_ready world dispatcher) (\<lambda>_. succeed ()) else succeed ()) (\<lambda>_.
     and_then (map_failure DlqRepository (query world (get_outbox_message event_key))) (\<lambda>published.
       if (case published of None \<Rightarrow> False | Some entry \<Rightarrow> ob_published_at entry \<noteq> None)
       then succeed (if ob_published_at message \<noteq> None then AlreadyPublished else NewlyPublished)
       else fail_with (DlqPending event_key)))))"

section \<open>Retirement\<close>

definition accept_if_source_is_absent ::
  "'m SchedWorld \<Rightarrow> u64 \<Rightarrow> string \<Rightarrow> (('m, 'z) Sched_scheme, DlqError, unit) action" where
  "accept_if_source_is_absent world stream_sequence delete_error =
     and_then (await world (sw_raw world)) (\<lambda>answer.
       if is_NoMessageFound answer then succeed () else fail_with (DlqDelete stream_sequence delete_error))"

definition delete_source :: "'m SchedWorld \<Rightarrow> u64 \<Rightarrow> (('m, 'z) Sched_scheme, DlqError, unit) action" where
  "delete_source world stream_sequence =
     and_then (record_effect (SourceDeleted stream_sequence)) (\<lambda>_.
     and_then (await world (sw_delete world)) (\<lambda>answer. case answer of
         Inr True \<Rightarrow> succeed ()
       | Inr False \<Rightarrow> accept_if_source_is_absent world stream_sequence
           ''JetStream reported an unsuccessful source-message deletion''
       | Inl e \<Rightarrow> accept_if_source_is_absent world stream_sequence e))"

definition retire_delivery :: "'m SchedWorld \<Rightarrow> 'm AckBinding \<Rightarrow> (('m, 'z) Sched_scheme, DlqError, unit) action" where
  "retire_delivery world binding =
     and_then (map_failure DlqTerm (acknowledge world Term (ab_message binding))) (\<lambda>_.
       delete_source world (ab_stream_sequence binding))"

section \<open>Lemmas\<close>

lemma exhaustion_event_key_eq: "exhaustion_event_key job attempt = exhausted_key job (max attempt 1)"
  by (simp add: exhaustion_event_key_def exhausted_key_def)

text \<open>The outbox row of a key is there and confirmed.\<close>

definition published_under :: "string \<Rightarrow> db \<Rightarrow> bool" where
  "published_under key d \<longleftrightarrow> (\<exists>row \<in> set (db_outbox d). ob_event_key row = key \<and> ob_published_at row \<noteq> None)"

lemma get_outbox_message_SomeD:
  "get_outbox_message key d = Inr (Some row) \<Longrightarrow> row \<in> set (db_outbox d) \<and> ob_event_key row = key"
  by (auto simp: get_outbox_message_def outbox_of_row_def statement_inv split: option.splits dest: select_one_SomeD)

lemma query_answer:
  assumes "query world f s = Some (r, s')"
  shows "r = f (sd_db s')"
  using assms by (auto simp: query_def repository_def repo_call_def Let_def)

lemma ensure_published_confirmed:
  assumes "ensure_published world dispatcher dl trace s = Some (Inr outcome, s')"
  shows "\<exists>key. idempotency_key dl = Inr key \<and> published_under key (sd_db s')"
proof -
  from assms obtain key s1 row where key: "idempotency_key dl = Inr key"
    and q: "query world (get_outbox_message key) s1 = Some (Inr (Some row), s')" "ob_published_at row \<noteq> None"
    unfolding ensure_published_def
    by (auto simp: and_then_Inr map_failure_Inr split: if_splits option.splits)
  then show ?thesis using query_answer [OF q(1)] get_outbox_message_SomeD by (metis published_under_def)
qed

text \<open>Publication is for ever.\<close>

lemma published_under_run:
  assumes "repo_step\<^sup>*\<^sup>* d d'" and "full_inv d" and "published_under key d"
  shows "published_under key d'"
proof -
  have "outbox_keeps d d'" using repo.run_keeps [OF assms(1,2)] by (simp add: evolves_def)
  then show ?thesis using assms(3) unfolding published_under_def outbox_keeps_def by metis
qed

section \<open>Databases the tasks leave behind\<close>

context db_relation
begin

lemma dlq_in:
  assumes world: "world_in world"
    and lease: "\<And>t d. D d (snd (lease_outbox_messages_for_subject t disp JOBS_DEAD_SUBJECT outbox_lease_timeout DLQ_LEASE_BATCH d))"
    and publish: "\<And>t m d. D d (snd (mark_outbox_published t m disp d))"
    and retry: "\<And>t m available e d. D d (snd (retry_outbox_message t m disp available e d))"
    and letter: "\<And>t dl tr d. D d (snd (enqueue_job_dead_letter t dl tr d))"
  shows "on_db.keeps (publish_ready world disp)" and "on_db.keeps (ensure_published world disp dl tr)"
    and "on_db.keeps (delete_source world sq)" and "on_db.keeps (retire_delivery world b)"
proof -
  have 1: "on_db.keeps (publish_one world m)" for m
    unfolding publish_one_def by (intro on_db.keeps_rules publish_in world)
  have 2: "on_db.keeps (publish_leased world disp m n)" for m n
    unfolding publish_leased_def
    by (intro on_db.keeps_rules reading_in repository_in world retry publish 1)
  show 3: "on_db.keeps (publish_ready world disp)"
    unfolding publish_ready_def by (intro on_db.keeps_rules repository_in world lease 2)
  show "on_db.keeps (ensure_published world disp dl tr)"
    unfolding ensure_published_def by (intro on_db.keeps_rules repository_in query_in world letter 3)
  have 4: "on_db.keeps (accept_if_source_is_absent world q e)" for q e
    unfolding accept_if_source_is_absent_def by (intro on_db.keeps_rules await_in world)
  show 5: "on_db.keeps (delete_source world sq)" for sq
    unfolding delete_source_def
    by (intro on_db.keeps_and_then effect_in await_in world) (auto intro: on_db.keeps_rules 4 split: sum.splits bool.splits)
  show "on_db.keeps (retire_delivery world b)"
    unfolding retire_delivery_def by (intro on_db.keeps_rules acknowledge_in world 5)
qed

end

lemma dlq_own:
  "own.keeps (publish_ready world disp)" "own.keeps (ensure_published world disp dl tr)"
  "own.keeps (delete_source world sq)" "own.keeps (retire_delivery world b)"
proof -
  have 1: "own.keeps (publish_leased world disp m n)" for m n
    unfolding publish_leased_def publish_one_def by (intro own.keeps_rules calls_own messages_own)
  show 2: "own.keeps (publish_ready world disp)" unfolding publish_ready_def by (intro own.keeps_rules calls_own 1)
  show "own.keeps (ensure_published world disp dl tr)" unfolding ensure_published_def by (intro own.keeps_rules calls_own 2)
  have 3: "own.keeps (accept_if_source_is_absent world q e)" for q e
    unfolding accept_if_source_is_absent_def by (intro own.keeps_rules calls_own)
  show 4: "own.keeps (delete_source world q)" for q
    unfolding delete_source_def by (intro own.keeps_and_then calls_own) (auto intro: own.keeps_rules 3 split: sum.splits bool.splits)
  show "own.keeps (retire_delivery world b)" unfolding retire_delivery_def by (intro own.keeps_rules messages_own 4)
qed

end
