(* ===== verification/Advisory.thy ===== *)
theory Advisory
  imports Dlq Delivery
begin

text \<open>
  Recovery of deliveries JetStream gave up on (\<open>crates/scheduler/src/advisory.rs\<close>): a maximum-deliveries
  or termination advisory names the sequence of a queue message; the handler reads that message back,
  compares it with the stored job and either redrives the canonical message or dead-letters it before
  it deletes the source.  The JSON decoders are arguments; serialisation cannot fail.  The consumer
  loop around the handler is input and output.
\<close>

section \<open>Messages\<close>

definition MAX_ADVISORY_PAYLOAD_BYTES :: nat where "MAX_ADVISORY_PAYLOAD_BYTES = 64 * 1024"

record ConsumerAdvisory =
  ca_stream :: string
  ca_consumer :: string
  ca_stream_seq :: u64

record AdvisoryCodec =
  ac_advisory :: "string \<Rightarrow> ConsumerAdvisory option"
  ac_queued :: "string \<Rightarrow> JobQueuedWire option"

record AdvisoryConfig =
  av_dispatcher_id :: string
  av_max_run_attempts :: u32

datatype AdvisoryError =
    AdvRepository RepositoryError
  | AdvDlq DlqError
  | AdvConsumer string
  | AdvSource string
  | AdvAcknowledge string
  | AdvRedrive string
  | AdvTrace string
  | AdvInvalidExhaustionMarker string

section \<open>Redriving\<close>

text \<open>The deduplication key of a redrive is the sequence of the message it replaces.\<close>

definition redrive_message_id :: "u64 \<Rightarrow> string" where
  "redrive_message_id source = ''redrive:'' @ JOB_QUEUE_STREAM @ '':'' @ JOB_DISPATCH_CONSUMER @ '':'' @ show_nat (unat source)"

definition redrive ::
  "(string \<Rightarrow> 'e) \<Rightarrow> (string \<Rightarrow> 'e) \<Rightarrow> 'm SchedWorld \<Rightarrow> JobQueued \<Rightarrow> (string, string) btree \<Rightarrow> u64 \<Rightarrow>
   (('m, 'z) Sched_scheme, 'e, unit) action" where
  "redrive trace_error publish_error world queued trace_context source =
     and_then (answered (map_err trace_error (traced_headers world trace_context []))) (\<lambda>headers.
     map_failure publish_error (jetstream_publish world JOBS_QUEUED_SUBJECT
       (bt_put NATS_MESSAGE_ID_HEADER (redrive_message_id source) headers) (QueuedPayload queued)))"

definition advisory_redrive ::
  "'m SchedWorld \<Rightarrow> JobQueued \<Rightarrow> (string, string) btree \<Rightarrow> u64 \<Rightarrow> (('m, 'z) Sched_scheme, AdvisoryError, unit) action" where
  "advisory_redrive = redrive AdvTrace AdvRedrive"

section \<open>The handler\<close>

definition advisory_confirm :: "'m SchedWorld \<Rightarrow> 'm \<Rightarrow> (('m, 'z) Sched_scheme, AdvisoryError, unit) action" where
  "advisory_confirm world message = map_failure AdvAcknowledge (acknowledge world DoubleAck message)"

definition dead_letter_and_finish ::
  "'m SchedWorld \<Rightarrow> AdvisoryConfig \<Rightarrow> 'm \<Rightarrow> u64 \<Rightarrow> u32 \<Rightarrow> JobId option \<Rightarrow> ProjectId option \<Rightarrow> JobDeadLetterReason \<Rightarrow>
   (string, string) btree \<Rightarrow> (('m, 'z) Sched_scheme, AdvisoryError, unit) action" where
  "dead_letter_and_finish world cfg message sequence attempt job project reason trace_context =
     and_then (utc_now world) (\<lambda>now.
     and_then (expect (case dead_letter_new job project (Some sequence) (max attempt 1) reason now of
         Inr dl \<Rightarrow> Some dl | Inl _ \<Rightarrow> None)) (\<lambda>dead_letter.
     and_then (map_failure AdvDlq (ensure_published world (av_dispatcher_id cfg) dead_letter trace_context)) (\<lambda>_.
     and_then (map_failure AdvDlq (delete_source world sequence)) (\<lambda>_.
       advisory_confirm world message))))"

definition finish_malformed ::
  "'m SchedWorld \<Rightarrow> AdvisoryConfig \<Rightarrow> 'm \<Rightarrow> u64 \<Rightarrow> (string, string) btree \<Rightarrow> (('m, 'z) Sched_scheme, AdvisoryError, unit) action" where
  "finish_malformed world cfg message sequence trace_context =
     dead_letter_and_finish world cfg message sequence 1 None None MalformedMessage trace_context"

definition marked_exhausted ::
  "AdvisoryConfig \<Rightarrow> JobSchedulingSnapshot \<Rightarrow> OutboxRow option \<Rightarrow> AdvisoryError + bool" where
  "marked_exhausted cfg snapshot marker =
     (let attempt = max (sn_delivery_attempts snapshot) 1 in
      case marker of
        None \<Rightarrow> Inr False
      | Some marker \<Rightarrow>
          if is_matching_exhaustion_marker marker (job_id (sn_job snapshot)) attempt
          then Inr (av_max_run_attempts cfg \<le> sn_delivery_attempts snapshot)
          else Inl (AdvInvalidExhaustionMarker (exhaustion_event_key (job_id (sn_job snapshot)) attempt)))"

definition recover_known ::
  "'m SchedWorld \<Rightarrow> AdvisoryConfig \<Rightarrow> 'm \<Rightarrow> u64 \<Rightarrow> JobQueued \<Rightarrow> JobSchedulingSnapshot \<Rightarrow> (string, string) btree \<Rightarrow>
   (('m, 'z) Sched_scheme, AdvisoryError, unit) action" where
  "recover_known world cfg message sequence queued snapshot trace_context =
     (let attempt = max (sn_delivery_attempts snapshot) 1;
          job = job_id (sn_job snapshot); project = job_project_id (sn_job snapshot);
          dead = (\<lambda>attempt reason. dead_letter_and_finish world cfg message sequence attempt (Some job) (Some project) reason trace_context);
          delete = map_failure AdvDlq (delete_source world sequence)
      in and_then (map_failure AdvRepository (query world (get_outbox_message (exhaustion_event_key job attempt)))) (\<lambda>marker.
         and_then (answered (marked_exhausted cfg snapshot marker)) (\<lambda>exhausted.
         if is_terminal (job_state (sn_job snapshot))
         then if exhausted then dead attempt AttemptsExhausted
              else and_then delete (\<lambda>_. advisory_confirm world message)
         else if queued \<noteq> sn_queued snapshot
         then and_then (advisory_redrive world (sn_queued snapshot) trace_context sequence) (\<lambda>_. dead attempt CanonicalJobInconsistent)
         else if sn_pending_outcome snapshot = Some JobOutcome.InfraFailed \<and> sn_lease snapshot = None \<and> exhausted
         then dead attempt AttemptsExhausted
         else and_then (advisory_redrive world (sn_queued snapshot) trace_context sequence) (\<lambda>_.
              and_then delete (\<lambda>_. advisory_confirm world message)))))"

definition recover_source ::
  "'m SchedWorld \<Rightarrow> AdvisoryConfig \<Rightarrow> AdvisoryCodec \<Rightarrow> 'm \<Rightarrow> u64 \<Rightarrow> (string \<Rightarrow> string option) \<Rightarrow> string \<Rightarrow>
   (('m, 'z) Sched_scheme, AdvisoryError, unit) action" where
  "recover_source world cfg codec message sequence headers payload =
     (let trace_context = extract_trace_headers headers in
      case decode_queue_payload (ac_queued codec) payload of
        Inl _ \<Rightarrow> finish_malformed world cfg message sequence trace_context
      | Inr queued \<Rightarrow>
          and_then (map_failure AdvRepository (query world (get_job_scheduling_snapshot (jq_job_id queued)))) (\<lambda>found. case found of
            None \<Rightarrow> dead_letter_and_finish world cfg message sequence 1 (Some (jq_job_id queued)) (Some (jq_project_id queued))
              CanonicalJobInconsistent trace_context
          | Some snapshot \<Rightarrow> recover_known world cfg message sequence queued snapshot trace_context))"

definition handle_advisory ::
  "'m SchedWorld \<Rightarrow> AdvisoryConfig \<Rightarrow> AdvisoryCodec \<Rightarrow> 'm \<Rightarrow> string \<Rightarrow> (('m, 'z) Sched_scheme, AdvisoryError, unit) action" where
  "handle_advisory world cfg codec message payload =
     (if MAX_ADVISORY_PAYLOAD_BYTES < length payload then advisory_confirm world message
      else case ac_advisory codec payload of
        None \<Rightarrow> advisory_confirm world message
      | Some advisory \<Rightarrow>
          if ca_stream advisory \<noteq> JOB_QUEUE_STREAM \<or> ca_consumer advisory \<noteq> JOB_DISPATCH_CONSUMER \<or> ca_stream_seq advisory = 0
          then advisory_confirm world message
          else and_then (await world (sw_raw world)) (\<lambda>raw. case raw of
              RawMessage headers source \<Rightarrow> recover_source world cfg codec message (ca_stream_seq advisory) headers source
            | NoMessageFound \<Rightarrow> advisory_confirm world message
            | RawMessageFailed e \<Rightarrow> fail_with (AdvSource e)))"

end
