(* ===== verification/Dispatcher.thy ===== *)
theory Dispatcher
  imports Advisory Fairness
begin

text \<open>
  The dispatcher (\<open>crates/scheduler/src/dispatcher.rs\<close>): it takes queue deliveries into the fair buffer
  after comparing them with the stored job, and on every tick pops as many as one pull batch, claims
  each job for a worker that matches, binds the delivery to the claim's lease and asks the worker to
  run it.  The buffer is the task's own variable, so nothing else changes it.  The select loop, its
  timers and the metrics are input and output.
\<close>

section \<open>Data\<close>

record 'm PendingDelivery =
  pd_queued :: JobQueued
  pd_trace_context :: "(string, string) btree"
  pd_message :: 'm
  pd_stream_sequence :: u64
  pd_delivered :: u32
  pd_last_progress_at :: instant

record 'm DispatcherState = "'m Sched" +
  ds_fair :: "'m PendingDelivery FairQueue"

record DispatcherConfig =
  dc_dispatcher_id :: string
  dc_worker_heartbeat :: duration
  dc_stale_worker_threshold :: duration
  dc_database_lease_ttl :: duration
  dc_pull_batch_size :: nat

record DispatchCodec =
  dx_queued :: "string \<Rightarrow> JobQueuedWire option"
  dx_checked_sub :: "instant \<Rightarrow> duration \<Rightarrow> instant option"

text \<open>A delivered message: what its reply subject says of it, its headers and its payload.\<close>

record 'm DeliveredMessage =
  dm_message :: 'm
  dm_info :: "string + (u64 \<times> int)"
  dm_headers :: "(string \<Rightarrow> string option) option"
  dm_payload :: string

datatype DispatcherError =
    DispRepository RepositoryError
  | DispDlq DlqError
  | DispConsumer string
  | DispAcknowledge string
  | DispFairness string
  | DispSerialization string
  | DispTrace string
  | DispRedrive string
  | DispInvalidExhaustionMarker string

type_synonym ('m, 'a) dispatch = "('m DispatcherState, DispatcherError, 'a) action"

section \<open>The buffer in place\<close>

text \<open>\<open>get_mut\<close> hands out the entry of a job for its payload to be changed.\<close>

fun update_first :: "('a \<Rightarrow> bool) \<Rightarrow> ('a \<Rightarrow> 'a) \<Rightarrow> 'a list \<Rightarrow> 'a list" where
  "update_first p f [] = []"
| "update_first p f (x # xs) = (if p x then f x # xs else x # update_first p f xs)"

fun update_buckets :: "('a \<Rightarrow> bool) \<Rightarrow> ('a \<Rightarrow> 'a) \<Rightarrow> ('k, 'a list) btree \<Rightarrow> ('k, 'a list) btree" where
  "update_buckets p f [] = []"
| "update_buckets p f ((k, b) # m) =
     (if list_ex p b then (k, update_first p f b) # m else (k, b) # update_buckets p f m)"

definition lane_update :: "JobId \<Rightarrow> ('p \<Rightarrow> 'p) \<Rightarrow> 'p LaneQueue \<Rightarrow> 'p LaneQueue" where
  "lane_update job f l = l\<lparr>lq_projects := update_buckets (\<lambda>e. fe_job_id e = job) (\<lambda>e. e\<lparr>fe_payload := f (fe_payload e)\<rparr>) (lq_projects l)\<rparr>"

definition fair_update :: "JobId \<Rightarrow> ('p \<Rightarrow> 'p) \<Rightarrow> 'p FairQueue \<Rightarrow> 'p FairQueue" where
  "fair_update job f q =
     (if lane_get job (fq_interactive q) \<noteq> None then q\<lparr>fq_interactive := lane_update job f (fq_interactive q)\<rparr>
      else q\<lparr>fq_batch := lane_update job f (fq_batch q)\<rparr>)"

definition update_payload :: "JobId \<Rightarrow> ('m PendingDelivery \<Rightarrow> 'm PendingDelivery) \<Rightarrow> ('m, unit) dispatch" where
  "update_payload job f = modify (\<lambda>s. s\<lparr>ds_fair := fair_update job f (ds_fair s)\<rparr>)"

definition requeue :: "'m PendingDelivery FairEntry \<Rightarrow> ('m, unit) dispatch" where
  "requeue entry =
     and_then (reading (\<lambda>s. fair_push entry (ds_fair s))) (\<lambda>pushed. case pushed of
         Inl _ \<Rightarrow> fail_with (DispFairness ''buffer is full'')
       | Inr fair \<Rightarrow> modify (\<lambda>s. s\<lparr>ds_fair := fair\<rparr>))"

section \<open>Acknowledgements\<close>

definition disp_progress :: "'m SchedWorld \<Rightarrow> 'm \<Rightarrow> (('m, 'z) Sched_scheme, DispatcherError, unit) action" where
  "disp_progress world message = map_failure DispAcknowledge (acknowledge world Progress message)"

definition disp_confirm :: "'m SchedWorld \<Rightarrow> 'm \<Rightarrow> (('m, 'z) Sched_scheme, DispatcherError, unit) action" where
  "disp_confirm world message = map_failure DispAcknowledge (acknowledge world DoubleAck message)"

text \<open>An acknowledgement whose failure the caller ignores.\<close>

definition try_confirm :: "'m SchedWorld \<Rightarrow> 'm \<Rightarrow> (('m, 'z) Sched_scheme, DispatcherError, unit) action" where
  "try_confirm world message = and_then (outcome_of (acknowledge world DoubleAck message)) (\<lambda>_. succeed ())"

definition progress_if_due ::
  "'m SchedWorld \<Rightarrow> duration \<Rightarrow> 'm PendingDelivery \<Rightarrow> (('m, 'z) Sched_scheme, DispatcherError, 'm PendingDelivery) action" where
  "progress_if_due world interval delivery =
     and_then (utc_now world) (\<lambda>now.
     and_then (expect (sw_from_std world interval)) (\<lambda>interval.
       if interval \<le> now - pd_last_progress_at delivery
       then and_then (disp_progress world (pd_message delivery)) (\<lambda>_.
            and_then (utc_now world) (\<lambda>now. succeed (delivery\<lparr>pd_last_progress_at := now\<rparr>)))
       else succeed delivery))"

definition renew_entry :: "'m SchedWorld \<Rightarrow> DispatcherConfig \<Rightarrow> 'm PendingDelivery FairEntry \<Rightarrow> unit \<Rightarrow> ('m, unit) dispatch" where
  "renew_entry world cfg entry _ =
     and_then (outcome_of (progress_if_due world (dc_worker_heartbeat cfg) (fe_payload entry))) (\<lambda>renewed. case renewed of
         Inl (_ :: DispatcherError) \<Rightarrow> succeed ()
       | Inr delivery \<Rightarrow> update_payload (fe_job_id entry) (\<lambda>_. delivery))"

definition progress_buffered :: "'m SchedWorld \<Rightarrow> DispatcherConfig \<Rightarrow> ('m, unit) dispatch" where
  "progress_buffered world cfg =
     and_then (reading (\<lambda>s. fair_entries (ds_fair s))) (\<lambda>entries. for_each (renew_entry world cfg) entries ())"

section \<open>Leaving the queue\<close>

definition dead_letter_delivery ::
  "'m SchedWorld \<Rightarrow> DispatcherConfig \<Rightarrow> 'm \<Rightarrow> u64 \<Rightarrow> u32 \<Rightarrow> JobId option \<Rightarrow> ProjectId option \<Rightarrow> JobDeadLetterReason \<Rightarrow>
   (string, string) btree \<Rightarrow> (('m, 'z) Sched_scheme, DispatcherError, unit) action" where
  "dead_letter_delivery world cfg message sequence attempt job project reason trace_context =
     and_then (utc_now world) (\<lambda>now.
     and_then (expect (case dead_letter_new job project (Some sequence) (max attempt 1) reason now of
         Inr dl \<Rightarrow> Some dl | Inl _ \<Rightarrow> None)) (\<lambda>dead_letter.
     and_then (map_failure DispDlq (ensure_published world (dc_dispatcher_id cfg) dead_letter trace_context)) (\<lambda>_.
     and_then (map_failure DispAcknowledge (acknowledge world Term message)) (\<lambda>_.
       map_failure DispDlq (delete_source world sequence)))))"

definition dead_letter_entry ::
  "'m SchedWorld \<Rightarrow> DispatcherConfig \<Rightarrow> 'm PendingDelivery FairEntry \<Rightarrow> JobDeadLetterReason \<Rightarrow> u32 \<Rightarrow>
   (('m, 'z) Sched_scheme, DispatcherError, unit) action" where
  "dead_letter_entry world cfg entry reason attempt =
     (let delivery = fe_payload entry in
      dead_letter_delivery world cfg (pd_message delivery) (pd_stream_sequence delivery) attempt
        (Some (jq_job_id (pd_queued delivery))) (Some (jq_project_id (pd_queued delivery))) reason (pd_trace_context delivery))"

definition finish_terminal_delivery ::
  "'m SchedWorld \<Rightarrow> DispatcherConfig \<Rightarrow> JobSchedulingSnapshot \<Rightarrow> 'm \<Rightarrow> u64 \<Rightarrow> (string, string) btree \<Rightarrow>
   (('m, 'z) Sched_scheme, DispatcherError, unit) action" where
  "finish_terminal_delivery world cfg snapshot message sequence trace_context =
     (if job_state (sn_job snapshot) = JobState.InfraFailed
      then let attempt = max (sn_delivery_attempts snapshot) 1; job = job_id (sn_job snapshot); event_key = exhaustion_event_key job attempt
        in and_then (map_failure DispRepository (query world (get_outbox_message event_key))) (\<lambda>found. case found of
             None \<Rightarrow> disp_confirm world message
           | Some marker \<Rightarrow>
               if \<not> is_matching_exhaustion_marker marker job attempt then fail_with (DispInvalidExhaustionMarker event_key)
               else dead_letter_delivery world cfg message sequence attempt (Some job) (Some (job_project_id (sn_job snapshot)))
                 AttemptsExhausted trace_context)
      else disp_confirm world message)"

definition finalize_queued_cancellation ::
  "'m SchedWorld \<Rightarrow> JobSchedulingSnapshot \<Rightarrow> (('m, 'z) Sched_scheme, DispatcherError, unit) action" where
  "finalize_queued_cancellation world snapshot =
     (let job = job_id (sn_job snapshot) in
      and_then (if job_state (sn_job snapshot) = CollectingArtifacts
         then and_then (map_failure DispRepository (repository world (\<lambda>t evt. transition_job_state t evt job CollectingArtifacts CleaningUp
                \<lparr>pending_outcome = Some JobOutcome.Cancelled, artifacts_finalized = True, cleanup_completed = False\<rparr> None
                [(''finalizer'', EvText ''empty_queue_job'')]))) (\<lambda>_. succeed ())
         else succeed ()) (\<lambda>_.
      and_then (map_failure DispRepository (query world (get_job_scheduling_snapshot job))) (\<lambda>refreshed.
        if (case refreshed of None \<Rightarrow> False | Some current \<Rightarrow> job_state (sn_job current) = CleaningUp)
        then and_then (map_failure DispRepository (repository world (\<lambda>t evt. transition_job_state t evt job CleaningUp JobState.Cancelled
                \<lparr>pending_outcome = Some JobOutcome.Cancelled, artifacts_finalized = True, cleanup_completed = True\<rparr> None
                [(''cleanup'', EvText ''not_started'')]))) (\<lambda>_. succeed ())
        else succeed ())))"

definition bind_or_ack_duplicate ::
  "'m SchedWorld \<Rightarrow> JobId \<Rightarrow> LeaseGuard \<Rightarrow> u64 \<Rightarrow> 'm \<Rightarrow> (('m, 'z) Sched_scheme, DispatcherError, unit) action" where
  "bind_or_ack_duplicate world job lease sequence message =
     (let install = and_then (registry (\<lambda>reg. ((), ack_bind job \<lparr>ab_worker_id = lg_worker_id lease, ab_lease_id = lg_lease_id lease,
            ab_stream_sequence = sequence, ab_message = message\<rparr> reg))) (\<lambda>_. disp_progress world message)
      in and_then (registry (\<lambda>reg. (ack_binding job (lg_worker_id lease) (lg_lease_id lease) reg, reg))) (\<lambda>found. case found of
           Inl _ \<Rightarrow> install
         | Inr existing \<Rightarrow>
             if sequence < ab_stream_sequence existing then try_confirm world message
             else if ab_stream_sequence existing < sequence
             then and_then (try_confirm world (ab_message existing)) (\<lambda>_. install)
             else install))"

section \<open>Accepting a delivery\<close>

definition delivered_count :: "int \<Rightarrow> u32" where
  "delivered_count n = (if max n 1 < 2 ^ 32 then word_of_int (max n 1) else - 1)"

definition refresh :: "'m \<Rightarrow> u32 \<Rightarrow> (string, string) btree \<Rightarrow> 'm PendingDelivery \<Rightarrow> 'm PendingDelivery" where
  "refresh message delivered trace_context delivery =
     delivery\<lparr>pd_message := message, pd_delivered := delivered, pd_trace_context := trace_context\<rparr>"

text \<open>A delivery of a job that is already buffered.\<close>

definition merge_delivery ::
  "'m SchedWorld \<Rightarrow> JobId \<Rightarrow> 'm PendingDelivery \<Rightarrow> 'm \<Rightarrow> u64 \<Rightarrow> u32 \<Rightarrow> (string, string) btree \<Rightarrow> ('m, unit) dispatch" where
  "merge_delivery world job existing message sequence delivered trace_context =
     (let renewed = and_then (disp_progress world message) (\<lambda>_. and_then (utc_now world) (\<lambda>now.
            update_payload job (\<lambda>d. d\<lparr>pd_last_progress_at := now\<rparr>)))
      in if pd_stream_sequence existing = sequence
         then and_then (update_payload job (refresh message delivered trace_context)) (\<lambda>_. renewed)
         else if pd_stream_sequence existing < sequence
         then and_then (try_confirm world (pd_message existing)) (\<lambda>_.
              and_then (update_payload job (\<lambda>d. (refresh message delivered trace_context d)\<lparr>pd_stream_sequence := sequence\<rparr>)) (\<lambda>_. renewed))
         else try_confirm world message)"

definition buffer_delivery ::
  "'m SchedWorld \<Rightarrow> JobQueued \<Rightarrow> PriorityLane \<Rightarrow> instant \<Rightarrow> 'm \<Rightarrow> u64 \<Rightarrow> u32 \<Rightarrow> (string, string) btree \<Rightarrow> ('m, unit) dispatch" where
  "buffer_delivery world queued lane created_at message sequence delivered trace_context =
     and_then (reading (\<lambda>s. fair_get (jq_job_id queued) (ds_fair s))) (\<lambda>found. case found of
         Some existing \<Rightarrow> merge_delivery world (jq_job_id queued) (fe_payload existing) message sequence delivered trace_context
       | None \<Rightarrow>
           and_then (utc_now world) (\<lambda>now.
             requeue \<lparr>fe_job_id = jq_job_id queued, fe_project_id = jq_project_id queued, fe_lane = lane, fe_created_at = created_at,
               fe_enqueued_at = now, fe_payload = \<lparr>pd_queued = queued, pd_trace_context = trace_context, pd_message = message,
                 pd_stream_sequence = sequence, pd_delivered = delivered, pd_last_progress_at = now\<rparr>\<rparr>))"

definition dispose_delivery ::
  "'m SchedWorld \<Rightarrow> DispatcherConfig \<Rightarrow> JobQueued \<Rightarrow> JobSchedulingSnapshot \<Rightarrow> 'm \<Rightarrow> u64 \<Rightarrow> u32 \<Rightarrow> (string, string) btree \<Rightarrow>
   ('m, unit) dispatch" where
  "dispose_delivery world cfg queued snapshot message sequence delivered trace_context =
     and_then (utc_now world) (\<lambda>now.
       case classify_canonical_delivery queued snapshot now of
         AckTerminal \<Rightarrow> finish_terminal_delivery world cfg snapshot message sequence trace_context
       | FinalizeCancellation \<Rightarrow>
           and_then (finalize_queued_cancellation world snapshot) (\<lambda>_. disp_confirm world message)
       | Rebind lease \<Rightarrow> bind_or_ack_duplicate world (jq_job_id queued) lease sequence message
       | HoldForReconciliation \<Rightarrow>
           (case sn_lease snapshot of
              Some lease \<Rightarrow> bind_or_ack_duplicate world (jq_job_id queued) lease sequence message
            | None \<Rightarrow> disp_progress world message)
       | DeadLetter reason \<Rightarrow>
           and_then (if reason = CanonicalJobInconsistent
              then redrive DispTrace DispRedrive world (sn_queued snapshot) trace_context sequence else succeed ()) (\<lambda>_.
             dead_letter_delivery world cfg message sequence (max (sn_delivery_attempts snapshot) 1) (Some (job_id (sn_job snapshot)))
               (Some (job_project_id (sn_job snapshot))) reason trace_context)
       | Buffer lane \<Rightarrow>
           buffer_delivery world queued lane (job_created_at (sn_job snapshot)) message sequence delivered trace_context)"

definition accept_delivery ::
  "'m SchedWorld \<Rightarrow> DispatcherConfig \<Rightarrow> DispatchCodec \<Rightarrow> 'm DeliveredMessage \<Rightarrow> ('m, unit) dispatch" where
  "accept_delivery world cfg codec message =
     and_then (answered (map_err DispConsumer (dm_info message))) (\<lambda>(sequence, deliveries).
     let trace_context = (case dm_headers message of None \<Rightarrow> [] | Some headers \<Rightarrow> extract_trace_headers headers);
         dead = (\<lambda>job project reason. dead_letter_delivery world cfg (dm_message message) sequence 1 job project reason trace_context)
     in case decode_queue_payload (dx_queued codec) (dm_payload message) of
          Inl _ \<Rightarrow> dead None None MalformedMessage
        | Inr queued \<Rightarrow>
            and_then (map_failure DispRepository (query world (get_job_scheduling_snapshot (jq_job_id queued)))) (\<lambda>found. case found of
              None \<Rightarrow> dead (Some (jq_job_id queued)) (Some (jq_project_id queued)) CanonicalJobInconsistent
            | Some snapshot \<Rightarrow> dispose_delivery world cfg queued snapshot (dm_message message) sequence (delivered_count deliveries)
                trace_context))"

text \<open>The arm of the loop that receives a message: on an error the message stays pending.\<close>

definition receive ::
  "'m SchedWorld \<Rightarrow> DispatcherConfig \<Rightarrow> DispatchCodec \<Rightarrow> 'm DeliveredMessage \<Rightarrow> ('m, unit) dispatch" where
  "receive world cfg codec message =
     and_then (outcome_of (accept_delivery world cfg codec message)) (\<lambda>accepted. case accepted of
         Inr _ \<Rightarrow> succeed ()
       | Inl (_ :: DispatcherError) \<Rightarrow> and_then (outcome_of (acknowledge world Progress (dm_message message))) (\<lambda>_. succeed ()))"

section \<open>Dispatching an entry\<close>

text \<open>Back into the buffer, with the delivery renewed when its acknowledgement is due.\<close>

definition hold_entry :: "'m SchedWorld \<Rightarrow> DispatcherConfig \<Rightarrow> 'm PendingDelivery FairEntry \<Rightarrow> ('m, unit) dispatch" where
  "hold_entry world cfg entry =
     and_then (progress_if_due world (dc_worker_heartbeat cfg) (fe_payload entry)) (\<lambda>delivery.
       requeue (entry\<lparr>fe_payload := delivery\<rparr>))"

text \<open>After a successful claim: bind the delivery to the lease, then ask the worker.\<close>

definition hand_over :: "'m SchedWorld \<Rightarrow> 'm PendingDelivery \<Rightarrow> JobClaim \<Rightarrow> ('m, unit) dispatch" where
  "hand_over world delivery claim =
     and_then (registry (\<lambda>reg. ((), ack_bind (cl_job_id claim) \<lparr>ab_worker_id = cl_worker_id claim, ab_lease_id = cl_lease_id claim,
       ab_stream_sequence = pd_stream_sequence delivery, ab_message = pd_message delivery\<rparr> reg))) (\<lambda>_.
     and_then (disp_progress world (pd_message delivery)) (\<lambda>_.
     and_then (answered (map_err DispTrace (traced_headers world (pd_trace_context delivery) []))) (\<lambda>headers.
     and_then (record_effect (DispatchRequested (worker_dispatch_subject (cl_worker_id claim)) headers
       \<lparr>jd_claim = claim, jd_trace_context = pd_trace_context delivery\<rparr>)) (\<lambda>_.
     and_then (await world (sw_request world)) (\<lambda>_. succeed ())))))"

text \<open>One attempt to claim the job for a worker, under a fresh lease.\<close>

definition claim_for ::
  "'m SchedWorld \<Rightarrow> DispatcherConfig \<Rightarrow> DispatchCodec \<Rightarrow> JobId \<Rightarrow> WorkerId \<Rightarrow> ('m, RepositoryError + JobClaim) dispatch" where
  "claim_for world cfg codec job worker =
     and_then (fresh_id world) (\<lambda>fresh.
     and_then (expect (case LeaseId_new (''lease_'' @ fresh) of Inr lease \<Rightarrow> Some lease | Inl _ \<Rightarrow> None)) (\<lambda>lease.
     and_then (utc_now world) (\<lambda>now.
     and_then (expect (sw_from_std world (dc_database_lease_ttl cfg))) (\<lambda>ttl.
     and_then (expect (sw_from_std world (dc_stale_worker_threshold cfg))) (\<lambda>stale_after.
       outcome_of (repository world (\<lambda>t evt. claim_job_with_options (dx_checked_sub codec) t evt job worker lease (now + ttl)
         stale_after)))))))"

fun try_workers ::
  "'m SchedWorld \<Rightarrow> DispatcherConfig \<Rightarrow> DispatchCodec \<Rightarrow> 'm PendingDelivery FairEntry \<Rightarrow> WorkerStatus list \<Rightarrow> ('m, unit) dispatch" where
  "try_workers world cfg codec entry [] = hold_entry world cfg entry"
| "try_workers world cfg codec entry (worker # workers) =
     and_then (claim_for world cfg codec (fe_job_id entry) (ws_worker_id worker)) (\<lambda>claimed. case claimed of
         Inr claim \<Rightarrow> hand_over world (fe_payload entry) claim
       | Inl (QuotaExceededError _ ConcurrentJobs _ _) \<Rightarrow> hold_entry world cfg entry
       | Inl (CompareAndSwapLost _ _) \<Rightarrow> try_workers world cfg codec entry workers
       | Inl (Conflict _) \<Rightarrow> try_workers world cfg codec entry workers
       | Inl (NotFound entity i) \<Rightarrow>
           if entity = ''worker'' then try_workers world cfg codec entry workers else fail_with (DispRepository (NotFound entity i))
       | Inl e \<Rightarrow> fail_with (DispRepository e))"

definition matching_workers ::
  "'m SchedWorld \<Rightarrow> DispatcherConfig \<Rightarrow> JobSchedulingSnapshot \<Rightarrow> 'm PendingDelivery \<Rightarrow> ('m, WorkerStatus list) dispatch" where
  "matching_workers world cfg snapshot delivery =
     and_then (utc_now world) (\<lambda>now.
     and_then (expect (sw_from_std world (dc_stale_worker_threshold cfg))) (\<lambda>threshold.
       map_failure DispRepository (query world (find_workers_matching (sn_runtime_profile snapshot)
         (jq_min_isolation (pd_queued delivery)) (now - threshold) 200))))"

definition dispatch_entry ::
  "'m SchedWorld \<Rightarrow> DispatcherConfig \<Rightarrow> DispatchCodec \<Rightarrow> 'm PendingDelivery FairEntry \<Rightarrow> JobSchedulingSnapshot \<Rightarrow> ('m, unit) dispatch" where
  "dispatch_entry world cfg codec entry snapshot =
     (let delivery = fe_payload entry in
      and_then (utc_now world) (\<lambda>now.
        case classify_canonical_delivery (pd_queued delivery) snapshot now of
          Buffer _ \<Rightarrow>
            and_then (matching_workers world cfg snapshot delivery) (\<lambda>workers.
              if workers = [] then hold_entry world cfg entry else try_workers world cfg codec entry workers)
        | AckTerminal \<Rightarrow> finish_terminal_delivery world cfg snapshot (pd_message delivery) (pd_stream_sequence delivery)
            (pd_trace_context delivery)
        | FinalizeCancellation \<Rightarrow>
            and_then (finalize_queued_cancellation world snapshot) (\<lambda>_. disp_confirm world (pd_message delivery))
        | Rebind lease \<Rightarrow> bind_or_ack_duplicate world (fe_job_id entry) lease (pd_stream_sequence delivery) (pd_message delivery)
        | HoldForReconciliation \<Rightarrow> hold_entry world cfg entry
        | DeadLetter reason \<Rightarrow>
            and_then (if reason = CanonicalJobInconsistent
               then redrive DispTrace DispRedrive world (sn_queued snapshot) (pd_trace_context delivery) (pd_stream_sequence delivery)
               else succeed ()) (\<lambda>_.
              dead_letter_entry world cfg entry reason (max (sn_delivery_attempts snapshot) 1))))"

definition pop_entry :: "'m SchedWorld \<Rightarrow> ('m, 'm PendingDelivery FairEntry option) dispatch" where
  "pop_entry world =
     and_then (utc_now world) (\<lambda>now.
     and_then (reading (\<lambda>s. fair_pop now (ds_fair s))) (\<lambda>popped.
     and_then (expect (case popped of Inr p \<Rightarrow> Some p | Inl _ \<Rightarrow> None)) (\<lambda>(entry, fair).
     and_then (modify (\<lambda>s. s\<lparr>ds_fair := fair\<rparr>)) (\<lambda>_. succeed entry))))"

definition dispatch_one :: "'m SchedWorld \<Rightarrow> DispatcherConfig \<Rightarrow> DispatchCodec \<Rightarrow> ('m, unit) dispatch" where
  "dispatch_one world cfg codec =
     and_then (pop_entry world) (\<lambda>popped. case popped of
         None \<Rightarrow> succeed ()
       | Some entry \<Rightarrow>
           and_then (map_failure DispRepository (query world (get_job_scheduling_snapshot (fe_job_id entry)))) (\<lambda>found. case found of
             None \<Rightarrow> dead_letter_entry world cfg entry CanonicalJobInconsistent 1
           | Some snapshot \<Rightarrow> dispatch_entry world cfg codec entry snapshot))"

text \<open>One tick: at most one pull batch of entries, so that requeued entries do not keep it busy.\<close>

definition dispatch_step :: "'m SchedWorld \<Rightarrow> DispatcherConfig \<Rightarrow> DispatchCodec \<Rightarrow> nat \<Rightarrow> unit \<Rightarrow> ('m, unit) dispatch" where
  "dispatch_step world cfg codec _ _ =
     and_then (outcome_of (dispatch_one world cfg codec)) (\<lambda>(_ :: DispatcherError + unit). progress_buffered world cfg)"

definition dispatch_tick :: "'m SchedWorld \<Rightarrow> DispatcherConfig \<Rightarrow> DispatchCodec \<Rightarrow> ('m, unit) dispatch" where
  "dispatch_tick world cfg codec =
     and_then (progress_buffered world cfg) (\<lambda>_.
     and_then (reading (\<lambda>s. min (fq_len (ds_fair s)) (dc_pull_batch_size cfg))) (\<lambda>budget.
       for_each (dispatch_step world cfg codec) [0..<budget] ()))"

end
