(* ===== verification/Task_Runs.thy ===== *)
theory Task_Runs
  imports Dlq
begin

text \<open>
  How the scheduler's tasks act on the database and on the log.  Their repository calls are steps of
  the repository, so every task is a run of it; and a task only appends to the log.  Each is a relation
  that the primitives keep, lifted to tasks by the locale of relations kept by actions.
\<close>

section \<open>Runs of the repository\<close>

interpretation runs: db_relation "repo_step\<^sup>*\<^sup>*"
  by unfold_locales (auto intro: rtranclp_trans)

lemma one_step: "repo_step d d' \<Longrightarrow> repo_step\<^sup>*\<^sup>* d d'"
  by (rule r_into_rtranclp)

lemmas repo_calls = repo_step.intros [THEN one_step]

lemma dlq_runs:
  assumes "runs.world_in world"
  shows "runs.on_db.keeps (publish_ready world disp)" and "runs.on_db.keeps (ensure_published world disp dl tr)"
    and "runs.on_db.keeps (delete_source world sq)" and "runs.on_db.keeps (retire_delivery world b)"
  using assms repo_calls by (auto intro!: runs.dlq_in)

lemmas calls_in = runs.repository_in runs.query_in runs.await_in runs.registry_in runs.confirm_in runs.effect_in runs.reading_in

text \<open>The stored job runs under the lease.\<close>

definition runs_under :: "JobId \<Rightarrow> WorkerId \<Rightarrow> LeaseId \<Rightarrow> db \<Rightarrow> bool" where
  "runs_under job worker lease d \<longleftrightarrow> (\<exists>r. lock_job job d = Some r \<and> \<not> is_terminal (jr_state r)
     \<and> jr_worker_id r = Some worker \<and> jr_lease_id r = Some lease)"

section \<open>The log\<close>

definition logged :: "(Effect \<Rightarrow> bool) \<Rightarrow> ('m, 'z) Sched_scheme \<Rightarrow> ('m, 'z) Sched_scheme \<Rightarrow> bool" where
  "logged P s s' \<longleftrightarrow> (\<exists>new. sd_log s' = sd_log s @ new \<and> list_all P new)"

interpretation logs: action_relation "logged P" for P
  by unfold_locales (auto simp: logged_def intro: exI [of _ "[]"])

lemma logged_mono: "logged P s s' \<Longrightarrow> (\<And>e. P e \<Longrightarrow> Q e) \<Longrightarrow> logged Q s s'"
  unfolding logged_def by (meson list_all_cong list.pred_mono_strong)

lemma calls_log:
  "logs.keeps P (repository world operation)" "logs.keeps P (query world f)" "logs.keeps P (await world answer)"
  "logs.keeps P (registry g)" "logs.keeps P (confirm_registered world job worker lease)"
  "logs.keeps P (utc_now world)" "logs.keeps P (fresh_id world)"
  by (rule logs.keepsI, auto simp: logged_def repository_def query_def await_def registry_def confirm_registered_def
      utc_now_def fresh_id_def split: prod.splits option.splits)+

lemma effect_log: "P eff \<Longrightarrow> logs.keeps P (record_effect eff)"
  by (rule logs.keepsI) (simp add: logged_def record_effect_def)

lemma acknowledge_log: "logs.keeps P (acknowledge world kind m)"
  unfolding acknowledge_def
  by (intro logs.keeps_and_then calls_log) (auto intro: logs.keeps_pure split: sum.splits AckRegistryError.splits)

lemma publish_log:
  assumes "P (Published subject headers payload)"
  shows "logs.keeps P (jetstream_publish world subject headers payload)"
  unfolding jetstream_publish_def by (intro logs.keeps_rules calls_log effect_log assms)

lemma dlq_log:
  assumes "\<And>headers payload. P (Published JOBS_DEAD_SUBJECT headers payload)"
  shows "logs.keeps P (publish_ready world disp)" and "logs.keeps P (ensure_published world disp dl tr)"
proof -
  have 1: "logs.keeps P (publish_leased world disp m n)" for m n
    unfolding publish_leased_def publish_one_def by (intro logs.keeps_rules calls_log publish_log assms)
  show 2: "logs.keeps P (publish_ready world disp)" unfolding publish_ready_def by (intro logs.keeps_rules calls_log 1)
  show "logs.keeps P (ensure_published world disp dl tr)" unfolding ensure_published_def by (intro logs.keeps_rules calls_log 2)
qed

lemma delete_log:
  assumes "P (SourceDeleted sq)"
  shows "logs.keeps P (delete_source world sq)"
proof -
  have 1: "logs.keeps P (accept_if_source_is_absent world q e)" for q e
    unfolding accept_if_source_is_absent_def by (intro logs.keeps_rules calls_log)
  show ?thesis
    unfolding delete_source_def
    by (intro logs.keeps_and_then calls_log effect_log assms) (auto intro: logs.keeps_rules 1 split: sum.splits bool.splits)
qed

section \<open>Tasks that return\<close>

lemma calls_return:
  "returns (repository world operation)" "returns (query world f)" "returns (await world answer)"
  "returns (registry g)" "returns (utc_now world)" "returns (fresh_id world)" "returns (record_effect eff)"
  by (auto simp: returns_def repository_def query_def await_def registry_def utc_now_def fresh_id_def record_effect_def
      reading_def modify_def split: prod.splits)

lemma acknowledge_returns: "returns (acknowledge world kind m)"
  unfolding acknowledge_def
  by (intro returns_and_then calls_return) (auto intro: returns_pure split: sum.splits AckRegistryError.splits)

lemma publish_returns: "returns (jetstream_publish world subject headers payload)"
  unfolding jetstream_publish_def by (intro returns_rules calls_return)

lemma dlq_returns:
  "returns (publish_ready world disp)" "returns (ensure_published world disp dl tr)" "returns (delete_source world sq)"
proof -
  have 1: "returns (publish_leased world disp m n)" for m n
    unfolding publish_leased_def publish_one_def by (intro returns_rules calls_return publish_returns)
  show 2: "returns (publish_ready world disp)" unfolding publish_ready_def by (intro returns_rules calls_return 1)
  show "returns (ensure_published world disp dl tr)" unfolding ensure_published_def by (intro returns_rules calls_return 2)
  have 3: "returns (accept_if_source_is_absent world q e)" for q e
    unfolding accept_if_source_is_absent_def by (intro returns_rules calls_return)
  show "returns (delete_source world sq)"
    unfolding delete_source_def
    by (intro returns_and_then calls_return) (auto intro: returns_rules 3 split: sum.splits bool.splits)
qed

end
