(* ===== verification/Sample_World.thy ===== *)
theory Sample_World
  imports Task_Runs Control_Safety
begin

text \<open>A quiet environment of the scheduler's tasks, for concrete runs: nothing interferes and every server answers.\<close>

definition sample_sched_world :: "string SchedWorld" where
  "sample_sched_world = \<lparr>sw_control = sample_world, sw_now = (\<lambda>_. 100), sw_fresh = (\<lambda>n. replicate (Suc n) CHR ''a''),
     sw_header_name = Some, sw_header_value = Some, sw_publish = (\<lambda>_. Inr ()), sw_confirm = (\<lambda>_. Inr ()),
     sw_delete = (\<lambda>_. Inr True), sw_raw = (\<lambda>_. NoMessageFound), sw_request = (\<lambda>_. Some Accepted), sw_from_std = Some\<rparr>"

lemma sample_runs: "runs.world_in sample_sched_world"
  by (simp add: runs.world_in_def sample_sched_world_def sample_world_def)

end
