(* ===== verification/Sample_Dispatch.thy ===== *)
theory Sample_Dispatch
  imports Dispatcher Sample_World Job_Claiming
begin

text \<open>
  A tick of the dispatcher on a concrete state: the buffer holds one delivery, of the sample job that
  is queued, and the sample worker is registered and idle.
\<close>

definition tick_delivery :: "string PendingDelivery" where
  "tick_delivery = \<lparr>pd_queued = \<lparr>jq_job_id = ''job_1'', jq_project_id = ''proj_1'', jq_runtime_profile_id = ''rtp_r'',
     jq_min_isolation = SharedKernelPrivileged, jq_timeout_seconds = 60\<rparr>, pd_trace_context = [], pd_message = ''m'',
     pd_stream_sequence = 7, pd_delivered = 1, pd_last_progress_at = 100\<rparr>"

definition tick_entry :: "string PendingDelivery FairEntry" where
  "tick_entry = \<lparr>fe_job_id = ''job_1'', fe_project_id = ''proj_1'', fe_lane = Batch, fe_created_at = 10, fe_enqueued_at = 90,
     fe_payload = tick_delivery\<rparr>"

definition tick_buffer :: "string PendingDelivery FairQueue" where
  "tick_buffer = \<lparr>fq_capacity = 4, fq_batch_aging = 300, fq_schedule = [Interactive, Batch], fq_cursor = 0,
     fq_interactive = lane_default, fq_batch = \<lparr>lq_projects = [(''proj_1'', [tick_entry])], lq_project_ring = [''proj_1''], lq_len = 1\<rparr>,
     fq_job_ids = {''job_1''}, fq_len = 1, fq_last_pop_forced_aged_batch = False\<rparr>"

definition tick_state :: "string DispatcherState" where
  "tick_state = \<lparr>sd_control = \<lparr>cs_db = db_worker, cs_acks = sample_registry, cs_calls = 0\<rparr>, sd_log = [], ds_fair = tick_buffer\<rparr>"

definition tick_config :: DispatcherConfig where
  "tick_config = \<lparr>dc_dispatcher_id = ''scheduler'', dc_worker_heartbeat = 10, dc_stale_worker_threshold = 45000000,
     dc_database_lease_ttl = 100, dc_pull_batch_size = 8\<rparr>"

definition tick_codec :: DispatchCodec where
  "tick_codec = \<lparr>dx_queued = (\<lambda>_. None), dx_checked_sub = no_underflow_sub\<rparr>"

lemma tick_buffer_inv: "fair_inv tick_buffer"
  by (simp add: fair_inv_def tick_buffer_def fair_entries_def lane_entries_def lane_inv_def bucket_inv_def bt_inv_def bt_keys_def
      bt_concat_def lane_default_def tick_entry_def entry_key_def)

lemma tick_pop: "\<exists>q. fair_pop 100 tick_buffer = Inr (Some tick_entry, q) \<and> fair_entries q = [] \<and> fq_len q = 0"
  by (simp add: fair_pop_def tick_buffer_def aged_batch_def oldest_enqueued_at_def lane_entries_def bt_concat_def tick_entry_def
      pop_lane_def lane_pop_def lane_default_def fair_entries_def bt_get_def Let_def bind_result_def statement_inv)

definition tick_worker :: WorkerStatus where
  "tick_worker = \<lparr>ws_worker_id = ''wrk_1'', ws_runtimes = [Redroid], ws_kvm = False, ws_gpu = False, ws_arch = HostX86_64,
     ws_capacity = 1, ws_active_jobs = 0, ws_state = Online, ws_last_seen = 11\<rparr>"

lemma tick_snapshot:
  "\<exists>sn. get_job_scheduling_snapshot ''job_1'' db_worker = Inr (Some sn)
     \<and> classify_canonical_delivery (pd_queued tick_delivery) sn 100 = Buffer Batch
     \<and> find_workers_matching (sn_runtime_profile sn) SharedKernelPrivileged (- 44999900) 200 db_worker = Inr [tick_worker]"
proof -
  have "case get_job_scheduling_snapshot ''job_1'' db_worker of
      Inr (Some sn) \<Rightarrow> classify_canonical_delivery (pd_queued tick_delivery) sn 100 = Buffer Batch
        \<and> find_workers_matching (sn_runtime_profile sn) SharedKernelPrivileged (- 44999900) 200 db_worker = Inr [tick_worker]
    | _ \<Rightarrow> False" by code_simp
  then show ?thesis by (auto split: sum.splits option.splits)
qed

lemma tick_claim:
  "\<exists>claim d'. claim_job_with_options no_underflow_sub (clock_at 20) ''evt_rxx'' ''job_1'' ''wrk_1'' ''lease_aaa'' 200 45000000 db_worker
     = (Inr claim, d')"
proof -
  have "case claim_job_with_options no_underflow_sub (clock_at 20) ''evt_rxx'' ''job_1'' ''wrk_1'' ''lease_aaa'' 200 45000000 db_worker of
      (Inr c, _) \<Rightarrow> True | _ \<Rightarrow> False" by code_simp
  then show ?thesis by (auto split: sum.splits prod.splits)
qed

lemma tick_lease: "LeaseId_new (''lease_'' @ ''aaa'') = Inr ''lease_aaa''"
  by code_simp

section \<open>The run\<close>

definition tick_at :: "nat \<Rightarrow> db \<Rightarrow> string PendingDelivery FairQueue \<Rightarrow> string DispatcherState" where
  "tick_at n d q = \<lparr>sd_control = \<lparr>cs_db = d, cs_acks = sample_registry, cs_calls = n\<rparr>, sd_log = [], ds_fair = q\<rparr>"

lemmas tick_evals = utc_now_def fresh_id_def await_def query_def repository_def repo_call_def Let_def and_then_def outcome_of_def
  map_failure_def succeed_def reading_def modify_def answered_def expect_def sample_sched_world_def sample_world_def
  tick_config_def tick_codec_def tick_at_def

lemma tick_pops:
  "fair_pop 100 tick_buffer = Inr (Some tick_entry, q) \<Longrightarrow>
   pop_entry sample_sched_world (tick_at 0 db_worker tick_buffer) = Some (Inr (Some tick_entry), tick_at 0 db_worker q)"
  by (simp add: pop_entry_def tick_evals)

lemma tick_queries:
  "f db_worker = Inr x \<Longrightarrow> map_failure DispRepository (query sample_sched_world f) (tick_at n db_worker q) = Some (Inr x, tick_at (Suc n) db_worker q)"
  by (simp add: tick_evals)

lemma tick_claims:
  assumes "claim_job_with_options no_underflow_sub (clock_at 20) ''evt_rxx'' ''job_1'' ''wrk_1'' ''lease_aaa'' 200 45000000 d = (Inr claim, d')"
  shows "claim_for sample_sched_world tick_config tick_codec ''job_1'' ''wrk_1'' (tick_at 2 d q) = Some (Inr (Inr claim), tick_at 3 d' q)"
  using assms tick_lease by (simp add: claim_for_def tick_evals numeral_2_eq_2 numeral_3_eq_3)

lemma tick_hands_over:
  assumes "cl_worker_id claim = ''wrk_1''"
  shows "\<exists>s'. hand_over sample_sched_world tick_delivery claim (tick_at n d q) = Some (Inr (), s') \<and> ds_fair s' = q
     \<and> DispatchRequested ''workers.wrk_1.dispatch'' [] \<lparr>jd_claim = claim, jd_trace_context = []\<rparr> \<in> set (sd_log s')"
  using assms
  by (simp add: hand_over_def tick_evals disp_progress_def acknowledge_def record_effect_def registry_def traced_headers_def
      send_ack_def ack_bind_def tick_delivery_def map_err_def worker_dispatch_subject_def)

lemma tick_dispatch_one:
  "\<exists>s' claim. dispatch_one sample_sched_world tick_config tick_codec tick_state = Some (Inr (), s')
     \<and> fair_entries (ds_fair s') = [] \<and> fq_len (ds_fair s') = 0
     \<and> DispatchRequested ''workers.wrk_1.dispatch'' [] \<lparr>jd_claim = claim, jd_trace_context = []\<rparr> \<in> set (sd_log s')"
proof -
  obtain q where q: "fair_pop 100 tick_buffer = Inr (Some tick_entry, q)" "fair_entries q = []" "fq_len q = 0" using tick_pop by blast
  obtain sn where sn: "get_job_scheduling_snapshot ''job_1'' db_worker = Inr (Some sn)"
    "classify_canonical_delivery (pd_queued tick_delivery) sn 100 = Buffer Batch"
    "find_workers_matching (sn_runtime_profile sn) SharedKernelPrivileged (- 44999900) 200 db_worker = Inr [tick_worker]"
    using tick_snapshot by blast
  obtain claim d' where claim: "claim_job_with_options no_underflow_sub (clock_at 20) ''evt_rxx'' ''job_1'' ''wrk_1'' ''lease_aaa'' 200 45000000
      db_worker = (Inr claim, d')" using tick_claim by blast
  obtain s' where handed: "hand_over sample_sched_world tick_delivery claim (tick_at 3 d' q) = Some (Inr (), s')" "ds_fair s' = q"
    "DispatchRequested ''workers.wrk_1.dispatch'' [] \<lparr>jd_claim = claim, jd_trace_context = []\<rparr> \<in> set (sd_log s')"
    using tick_hands_over claim_names_job [OF claim] by blast
  have e: "fe_payload tick_entry = tick_delivery" "fe_job_id tick_entry = ''job_1''" "ws_worker_id tick_worker = ''wrk_1''"
    "jq_min_isolation (pd_queued tick_delivery) = SharedKernelPrivileged"
    by (simp_all add: tick_entry_def tick_worker_def tick_delivery_def)
  have now: "utc_now sample_sched_world s = Some (Inr 100 :: DispatcherError + instant, s)" for s :: "string DispatcherState"
    by (simp add: utc_now_def sample_sched_world_def)
  have workers: "matching_workers sample_sched_world tick_config sn tick_delivery (tick_at 1 db_worker q)
      = Some (Inr [tick_worker], tick_at 2 db_worker q)"
    using tick_queries [of "find_workers_matching (sn_runtime_profile sn) SharedKernelPrivileged (- 44999900) 200", OF sn(3), of 1 q] by (simp add: matching_workers_def and_then_def now e expect_def)
      (simp add: tick_config_def sample_sched_world_def numeral_2_eq_2)
  have "try_workers sample_sched_world tick_config tick_codec tick_entry [tick_worker] (tick_at 2 db_worker q) = Some (Inr (), s')"
    using handed(1) tick_claims [OF claim] by (simp add: and_then_def e)
  then have "dispatch_entry sample_sched_world tick_config tick_codec tick_entry sn (tick_at 1 db_worker q) = Some (Inr (), s')"
    using workers by (simp add: dispatch_entry_def Let_def and_then_def now e sn(2))
  moreover have "tick_state = tick_at 0 db_worker tick_buffer" by (simp add: tick_state_def tick_at_def)
  ultimately have "dispatch_one sample_sched_world tick_config tick_codec tick_state = Some (Inr (), s')"
    using tick_pops [OF q(1)] tick_queries [of "get_job_scheduling_snapshot ''job_1''", OF sn(1), of 0 q] by (simp add: dispatch_one_def and_then_def e)
  then show ?thesis using handed q by blast
qed

text \<open>The tick dispatches the buffered entry: the buffer is empty after it, and the worker has been asked.\<close>

lemma tick_dispatches:
  "\<exists>s' claim. dispatch_tick sample_sched_world tick_config tick_codec tick_state = Some (Inr (), s')
     \<and> DispatchRequested ''workers.wrk_1.dispatch'' [] \<lparr>jd_claim = claim, jd_trace_context = []\<rparr> \<in> set (sd_log s')"
proof -
  obtain s' claim where one: "dispatch_one sample_sched_world tick_config tick_codec tick_state = Some (Inr (), s')"
    "fair_entries (ds_fair s') = []" "fq_len (ds_fair s') = 0"
    "DispatchRequested ''workers.wrk_1.dispatch'' [] \<lparr>jd_claim = claim, jd_trace_context = []\<rparr> \<in> set (sd_log s')"
    using tick_dispatch_one by blast
  have buffer: "fair_entries (ds_fair tick_state) = [tick_entry]" "fq_len (ds_fair tick_state) = 1"
    by (simp_all add: tick_state_def tick_buffer_def fair_entries_def lane_entries_def bt_concat_def lane_default_def)
  have e: "fe_payload tick_entry = tick_delivery" "pd_last_progress_at tick_delivery = 100" by (simp_all add: tick_entry_def tick_delivery_def)
  have due: "progress_if_due sample_sched_world (dc_worker_heartbeat tick_config) tick_delivery tick_state
      = Some (Inr tick_delivery :: DispatcherError + _, tick_state)"
    by (simp add: progress_if_due_def and_then_def utc_now_def reading_def expect_def e)
      (simp add: sample_sched_world_def tick_config_def succeed_def)
  have same: "tick_state\<lparr>ds_fair := fair_update (fe_job_id tick_entry) (\<lambda>_. tick_delivery) (ds_fair tick_state)\<rparr> = tick_state"
    by (simp add: tick_state_def tick_buffer_def fair_update_def lane_update_def lane_get_def lane_entries_def lane_default_def
        bt_concat_def tick_entry_def)
  have renewed: "progress_buffered sample_sched_world tick_config tick_state = Some (Inr (), tick_state)"
    by (simp add: progress_buffered_def renew_entry_def buffer e due same update_payload_def and_then_def outcome_of_def reading_def
        modify_def succeed_def)
  have budget: "[0..<min (fq_len (ds_fair tick_state)) (dc_pull_batch_size tick_config)] = [0]"
    by (simp add: buffer tick_config_def)
  have "progress_buffered sample_sched_world tick_config s' = Some (Inr (), s')"
    by (simp add: progress_buffered_def one(2) and_then_def reading_def succeed_def)
  then have "dispatch_tick sample_sched_world tick_config tick_codec tick_state = Some (Inr (), s')"
    using renewed one(1) budget
    by (simp add: dispatch_tick_def dispatch_step_def and_then_def outcome_of_def reading_def succeed_def)
  then show ?thesis using one(4) by blast
qed

end
