(* ===== verification/Dispatcher_Buffer.thy ===== *)
theory Dispatcher_Buffer
  imports Sample_Dispatch
begin

text \<open>
  The dispatcher and its buffer: changing a payload in place keeps the buffer's invariant, a popped
  entry can always go back, and a dispatch attempt removes at most the entry it popped.
\<close>

section \<open>Payloads changed in place\<close>

lemma update_first_append:
  "update_first p f (xs @ ys) = (if list_ex p xs then update_first p f xs @ ys else xs @ update_first p f ys)"
  by (induction xs) auto

lemma update_buckets_concat: "bt_concat (update_buckets p f m) = update_first p f (bt_concat m)"
  by (induction p f m rule: update_buckets.induct) (auto simp: update_first_append)

lemma update_first_map: "(\<And>x. g (f x) = g x) \<Longrightarrow> map g (update_first p f xs) = map g xs"
  by (induction xs) auto

lemma update_first_in: "y \<in> set (update_first p f xs) \<Longrightarrow> y \<in> set xs \<or> (\<exists>x \<in> set xs. y = f x)"
  by (induction xs) (auto split: if_splits)

lemma update_first_Nil [simp]: "update_first p f xs = [] \<longleftrightarrow> xs = []"
  by (cases xs) auto

lemma update_buckets_keys: "bt_keys (update_buckets p f m) = bt_keys m"
  by (induction p f m rule: update_buckets.induct) (auto simp: bt_keys_def)

lemma update_buckets_in:
  "(k, b) \<in> set (update_buckets p f m) \<Longrightarrow> \<exists>b0. (k, b0) \<in> set m \<and> (b = b0 \<or> b = update_first p f b0)"
  by (induction p f m rule: update_buckets.induct) (auto split: if_splits)

lemma lane_update_facts:
  fixes f :: "'p \<Rightarrow> 'p"
  assumes "lane_inv lane l"
  shows "lane_inv lane (lane_update job f l)"
    and "lane_entries (lane_update job f l)
      = update_first (\<lambda>e. fe_job_id e = job) (\<lambda>e. e\<lparr>fe_payload := f (fe_payload e)\<rparr>) (lane_entries l)"
proof -
  let ?p = "\<lambda>e :: 'p FairEntry. fe_job_id e = job" and ?f = "\<lambda>e. e\<lparr>fe_payload := f (fe_payload e)\<rparr>"
  show entries: "lane_entries (lane_update job f l) = update_first ?p ?f (lane_entries l)"
    by (simp add: lane_entries_def lane_update_def update_buckets_concat)
  have ids: "map fe_job_id (lane_entries (lane_update job f l)) = map fe_job_id (lane_entries l)"
    unfolding entries by (rule update_first_map) simp
  have b: "bucket_inv lane k b" if kb: "(k, b) \<in> set (lq_projects (lane_update job f l))" for k b
  proof -
    obtain b0 where b0: "(k, b0) \<in> set (lq_projects l)" "b = b0 \<or> b = update_first ?p ?f b0"
      using update_buckets_in [of k b ?p ?f "lq_projects l"] kb by (auto simp: lane_update_def)
    have "bucket_inv lane k b0" using assms b0(1) by (auto simp: lane_inv_def)
    moreover have "map entry_key (update_first ?p ?f b0) = map entry_key b0" by (rule update_first_map) (simp add: entry_key_def)
    ultimately show ?thesis using b0(2) by (auto simp: bucket_inv_def dest: update_first_in)
  qed
  have len: "length (lane_entries (lane_update job f l)) = length (lane_entries l)" using ids by (metis length_map)
  have "bt_inv (lq_projects (lane_update job f l))"
    using assms by (simp add: lane_inv_def bt_inv_def lane_update_def update_buckets_keys)
  then show "lane_inv lane (lane_update job f l)"
    using assms b ids len by (auto simp: lane_inv_def lane_update_def update_buckets_keys)
qed

text \<open>What a renewal may change of the buffered entries: nothing that identifies them.\<close>

definition same_work :: "'m PendingDelivery FairEntry \<Rightarrow> 'm PendingDelivery FairEntry \<Rightarrow> bool" where
  "same_work e e' \<longleftrightarrow> fe_job_id e' = fe_job_id e \<and> fe_project_id e' = fe_project_id e \<and> fe_lane e' = fe_lane e
     \<and> fe_created_at e' = fe_created_at e \<and> fe_enqueued_at e' = fe_enqueued_at e
     \<and> pd_message (fe_payload e') = pd_message (fe_payload e) \<and> pd_queued (fe_payload e') = pd_queued (fe_payload e)
     \<and> pd_stream_sequence (fe_payload e') = pd_stream_sequence (fe_payload e)"

lemma fair_update_facts:
  assumes inv: "fair_inv q"
  shows "fair_inv (fair_update job f q)"
    and "fair_entries (fair_update job f q)
      = update_first (\<lambda>e. fe_job_id e = job) (\<lambda>e. e\<lparr>fe_payload := f (fe_payload e)\<rparr>) (fair_entries q)"
    and "fq_capacity (fair_update job f q) = fq_capacity q"
proof -
  let ?p = "\<lambda>e. fe_job_id e = job" and ?f = "\<lambda>e. e\<lparr>fe_payload := f (fe_payload e)\<rparr>"
  have li: "lane_inv Interactive (fq_interactive q)" "lane_inv Batch (fq_batch q)" using inv by (simp_all add: fair_inv_def)
  have "list_ex ?p (lane_entries (fq_interactive q)) \<longleftrightarrow> lane_get job (fq_interactive q) \<noteq> None"
    by (auto simp: lane_get_def list_ex_iff find_None_iff)
  then show entries: "fair_entries (fair_update job f q) = update_first ?p ?f (fair_entries q)"
    using lane_update_facts(2) [OF li(1)] lane_update_facts(2) [OF li(2)]
    by (auto simp: fair_update_def fair_entries_def update_first_append)
  have ids: "map fe_job_id (fair_entries (fair_update job f q)) = map fe_job_id (fair_entries q)"
    unfolding entries by (rule update_first_map) simp
  then have "length (fair_entries (fair_update job f q)) = length (fair_entries q)" 
    "fe_job_id ` set (fair_entries (fair_update job f q)) = fe_job_id ` set (fair_entries q)"
    by (metis length_map, metis list.set_map)
  then show "fair_inv (fair_update job f q)"
    using inv ids lane_update_facts(1) [OF li(1)] lane_update_facts(1) [OF li(2)]
    by (auto simp: fair_inv_def fair_update_def)
  show "fq_capacity (fair_update job f q) = fq_capacity q" by (simp add: fair_update_def)
qed

section \<open>A popped entry fits\<close>

lemma pop_lane_capacity: "pop_lane lane q = Inr (popped, q') \<Longrightarrow> fq_capacity q' = fq_capacity q"
  by (cases lane) (auto simp: pop_lane_def statement_inv result_inv split: option.splits)

lemma pop_schedule_capacity: "pop_schedule n q = Inr (popped, q') \<Longrightarrow> fq_capacity q' = fq_capacity q"
  by (induction n q rule: pop_schedule.induct)
    (auto simp: Let_def result_inv split: if_splits option.splits dest!: pop_lane_capacity)

lemma fair_pop_capacity: "fair_pop now q = Inr (popped, q') \<Longrightarrow> fq_capacity q' = fq_capacity q"
  by (auto simp: fair_pop_def Let_def split: if_splits dest!: pop_lane_capacity pop_schedule_capacity)

lemma fair_pop_cases:
  assumes inv: "fair_inv q"
  obtains popped q' where "fair_pop now q = Inr (popped, q')" "fair_inv q'" "fq_capacity q' = fq_capacity q"
    "mset (fair_entries q) = mset (fair_entries q') + (case popped of None \<Rightarrow> {#} | Some e \<Rightarrow> {#e#})"
    "popped = None \<longleftrightarrow> fair_entries q = []"
  using fair_pop_effect [OF inv, of now] fair_pop_capacity unfolding pop_effect_def by blast

text \<open>The entry popped from a buffer can be pushed again.\<close>

lemma push_back:
  assumes inv: "fair_inv q" and inv': "fair_inv q'" and cap: "fq_capacity q' = fq_capacity q"
    and popped: "mset (fair_entries q) = add_mset e (mset (fair_entries q'))" and same: "fe_job_id e' = fe_job_id e"
  shows "\<exists>q''. fair_push e' q' = Inr q'' \<and> fair_inv q'' \<and> mset (fair_entries q'') = add_mset e' (mset (fair_entries q'))"
proof (rule fair_push_ok [OF inv'])
  have "distinct (map fe_job_id (e # fair_entries q'))"
    using mset_distinct_map [of "fair_entries q" "e # fair_entries q'" fe_job_id] popped fair_invD(2) [OF inv] by simp
  then show "fe_job_id e' \<notin> fq_job_ids q'" using fair_invD(3) [OF inv'] same by auto
  have "length (fair_entries q) = Suc (length (fair_entries q'))" using popped by (metis size_add_mset size_mset)
  then show "fq_len q' \<noteq> fq_capacity q'" using fair_invD(4,5) [OF inv] fair_invD(4) [OF inv'] cap by simp
qed

section \<open>Tasks that leave the buffer alone\<close>

definition quiet :: "('m, 'a) dispatch \<Rightarrow> bool" where
  "quiet m \<longleftrightarrow> (\<forall>s r s'. m s = Some (r, s') \<longrightarrow> ds_fair s' = ds_fair s \<and> (\<forall>text. r \<noteq> Inl (DispFairness text)))"

lemma quietD: "quiet m \<Longrightarrow> m s = Some (r, s') \<Longrightarrow> ds_fair s' = ds_fair s \<and> (\<forall>text. r \<noteq> Inl (DispFairness text))"
  by (simp add: quiet_def)

lemma same_fair: "Sched.more s' = Sched.more s \<Longrightarrow> ds_fair s' = ds_fair (s :: 'm DispatcherState)"
  by (cases s; cases s') simp

lemma quiet_own:
  assumes "own.keeps m" and "\<And>e text. g e \<noteq> DispFairness text"
  shows "quiet (map_failure g m)"
  unfolding quiet_def map_failure_iff by (auto dest!: own.keepsD [OF assms(1)] same_fair simp: assms(2))

lemma quiet_outcome: "own.keeps m \<Longrightarrow> quiet (outcome_of m)"
  unfolding quiet_def outcome_cases by (auto dest!: own.keepsD same_fair)

lemma quiet_pure:
  "quiet (succeed x)" "quiet (expect t)" "quiet (reading g)" "quiet (utc_now world)" "quiet (fresh_id world)"
  "quiet (registry h)" "quiet (record_effect eff)" "quiet (await world answer)" "quiet (answered (map_err DispTrace y))"
  "quiet (fail_with (DispRepository er))" "quiet (fail_with (DispInvalidExhaustionMarker key))"
  by (auto simp: quiet_def utc_now_def fresh_id_def registry_def record_effect_def await_def map_err_def split: prod.splits sum.splits)

lemma quiet_and_then: "quiet m \<Longrightarrow> (\<And>x. quiet (f x)) \<Longrightarrow> quiet (and_then m f)"
  unfolding quiet_def and_then_cases by (metis sum.inject(1))

lemma quiet_if: "quiet m \<Longrightarrow> quiet n \<Longrightarrow> quiet (if b then m else n)"
  by simp

lemma quiet_option: "quiet m \<Longrightarrow> (\<And>x. quiet (f x)) \<Longrightarrow> quiet (case opt of None \<Rightarrow> m | Some x \<Rightarrow> f x)"
  by (cases opt) simp_all

lemma quiet_sum: "(\<And>e. quiet (f e)) \<Longrightarrow> (\<And>x. quiet (g x)) \<Longrightarrow> quiet (case r of Inl e \<Rightarrow> f e | Inr x \<Rightarrow> g x)"
  by (cases r) simp_all

lemmas quiet_rules = quiet_pure quiet_and_then quiet_if quiet_option quiet_sum

lemma quiet_calls:
  "quiet (map_failure DispRepository (repository world operation))" "quiet (map_failure DispRepository (query world f))"
  "quiet (map_failure DispAcknowledge (acknowledge world kind message))" "quiet (outcome_of (acknowledge world kind message))"
  "quiet (map_failure DispDlq (ensure_published world disp dl tr))" "quiet (map_failure DispDlq (delete_source world sq))"
  "quiet (outcome_of (repository world operation))"
  by (intro quiet_own quiet_outcome calls_own messages_own dlq_own; simp)+

lemma quiet_acks: "quiet (disp_progress world message)" "quiet (disp_confirm world message)" "quiet (try_confirm world message)"
  unfolding disp_progress_def disp_confirm_def try_confirm_def by (intro quiet_rules quiet_calls)+

lemma quiet_redrive: "quiet (redrive DispTrace DispRedrive world queued trace sq)"
  unfolding redrive_def by (intro quiet_rules quiet_own messages_own) simp

lemma quiet_progress_if_due: "quiet (progress_if_due world interval delivery)"
  unfolding progress_if_due_def by (intro quiet_rules quiet_acks)

lemma quiet_leaving:
  "quiet (dead_letter_delivery world cfg message sq attempt job project reason trace)"
  "quiet (dead_letter_entry world cfg entry reason attempt)"
  "quiet (finish_terminal_delivery world cfg sn message sq trace)"
  "quiet (finalize_queued_cancellation world sn)"
  "quiet (bind_or_ack_duplicate world jb lease sq message)"
  "quiet (hand_over world delivery claim)"
proof -
  show 1: "quiet (dead_letter_delivery world cfg message sq attempt job project reason trace)" for sq attempt job project reason trace message
    unfolding dead_letter_delivery_def by (intro quiet_rules quiet_calls)
  show "quiet (dead_letter_entry world cfg entry reason attempt)"
    unfolding dead_letter_entry_def Let_def by (rule 1)
  show "quiet (finish_terminal_delivery world cfg sn message sq trace)"
    unfolding finish_terminal_delivery_def Let_def by (intro quiet_rules quiet_calls quiet_acks 1)
  show "quiet (finalize_queued_cancellation world sn)"
    unfolding finalize_queued_cancellation_def Let_def by (intro quiet_rules quiet_calls)
  show "quiet (bind_or_ack_duplicate world jb lease sq message)"
    unfolding bind_or_ack_duplicate_def Let_def by (intro quiet_rules quiet_acks)
  show "quiet (hand_over world delivery claim)"
    unfolding hand_over_def by (intro quiet_rules quiet_acks)
qed

section \<open>What becomes of a popped entry\<close>

definition acked :: "'m \<Rightarrow> 'm DispatcherState \<Rightarrow> bool" where
  "acked message s \<longleftrightarrow> (\<exists>kind \<in> {DoubleAck, Term}. (kind, message) \<in> set (sent (sd_acks s)))"

text \<open>Held by the registry, unless another task unbound it: this message, or a newer one of the job.\<close>

definition bound :: "JobId \<Rightarrow> u64 \<Rightarrow> 'm \<Rightarrow> 'm DispatcherState \<Rightarrow> bool" where
  "bound job sq message s \<longleftrightarrow> (\<exists>b. bt_get job (bindings (sd_acks s)) = Some b \<and> sq \<le> ab_stream_sequence b
     \<and> (ab_stream_sequence b = sq \<longrightarrow> ab_message b = message))"

definition unbinds_nothing :: "'m SchedWorld \<Rightarrow> bool" where
  "unbinds_nothing world \<longleftrightarrow> (\<forall>n b. ce_binds (cw_call (sw_control world) n) b = b)"

definition accounted :: "'m SchedWorld \<Rightarrow> 'm PendingDelivery FairEntry \<Rightarrow> 'm DispatcherState \<Rightarrow> DispatcherError + unit \<Rightarrow> 'm DispatcherState \<Rightarrow> bool" where
  "accounted world e s r s' \<longleftrightarrow> (\<forall>text. r \<noteq> Inl (DispFairness text)) \<and>
     (ds_fair s' = ds_fair s \<and> (r = Inr () \<longrightarrow> acked (pd_message (fe_payload e)) s'
          \<or> bound (fe_job_id e) (pd_stream_sequence (fe_payload e)) (pd_message (fe_payload e)) s')
      \<or> r = Inr () \<and> fair_inv (ds_fair s') \<and> fq_capacity (ds_fair s') = fq_capacity (ds_fair s)
          \<and> (\<exists>e'. same_work e e' \<and> mset (fair_entries (ds_fair s')) = add_mset e' (mset (fair_entries (ds_fair s)))))"

lemma accounted_step: "ds_fair s1 = ds_fair s \<Longrightarrow> accounted world e s1 r s' \<Longrightarrow> accounted world e s r s'"
  by (simp add: accounted_def)

lemma accounted_quiet:
  assumes "quiet m" and "m s = Some (r, s')" and "r = Inr () \<Longrightarrow> acked (pd_message (fe_payload e)) s'
     \<or> bound (fe_job_id e) (pd_stream_sequence (fe_payload e)) (pd_message (fe_payload e)) s'"
  shows "accounted world e s r s'"
  using quietD [OF assms(1,2)] assms(3) by (auto simp: accounted_def)

text \<open>A quiet prefix of an attempt: on an error the attempt ends, otherwise the rest accounts for the entry.\<close>

lemma accounted_after:
  assumes quiet: "quiet m" and step: "and_then m f s = Some (r, s')"
    and rest: "\<And>x s1. m s = Some (Inr x, s1) \<Longrightarrow> f x s1 = Some (r, s') \<Longrightarrow> ds_fair s1 = ds_fair s \<Longrightarrow> accounted world e s1 r s'"
  shows "accounted world e s r s'"
  using step unfolding and_then_cases
proof (elim disjE exE conjE)
  fix er assume "m s = Some (Inl er, s')" "r = Inl er"
  then show ?thesis using quietD [OF quiet] by (auto simp: accounted_def)
next
  fix x s1 assume m: "m s = Some (Inr x, s1)" and "f x s1 = Some (r, s')"
  then show ?thesis using rest [OF m] accounted_step quietD [OF quiet m] by blast
qed

subsection \<open>Acknowledged\<close>

interpretation sends: action_relation "\<lambda>s s' :: ('m, 'z) Sched_scheme. set (sent (sd_acks s)) \<subseteq> set (sent (sd_acks s'))"
  by unfold_locales auto

lemma calls_send: "sends.keeps (await world answer)" "sends.keeps (record_effect eff)"
  by (rule sends.keepsI, auto simp: await_def record_effect_def repo_call_def Let_def)+

lemma delete_sends: "sends.keeps (delete_source world sq)"
proof -
  have "sends.keeps (accept_if_source_is_absent world q e)" for q e
    unfolding accept_if_source_is_absent_def by (intro sends.keeps_rules calls_send)
  then show ?thesis
    unfolding delete_source_def
    by (intro sends.keeps_and_then calls_send) (auto intro: sends.keeps_rules split: sum.splits bool.splits)
qed

lemma acknowledge_sent:
  "acknowledge world kind message s = Some (r, s') \<Longrightarrow> (kind, message) \<in> set (sent (sd_acks s'))"
  by (auto simp: acknowledge_def await_def repo_call_def Let_def registry_def and_then_cases send_ack_def split: sum.splits)

lemma confirm_acked: "disp_confirm world message s = Some (Inr (), s') \<Longrightarrow> acked message s'"
  unfolding disp_confirm_def map_failure_iff acked_def by (auto dest: acknowledge_sent)

lemma dead_letter_acked:
  assumes "dead_letter_delivery world cfg message sq attempt job project reason trace s = Some (Inr (), s')"
  shows "acked message s'"
proof -
  from assms obtain s1 s2 where 1: "acknowledge world Term message s1 = Some (Inr (), s2)" and 2: "delete_source world sq s2 = Some (Inr (), s')"
    unfolding dead_letter_delivery_def by (auto simp: action_iff)
  have "set (sent (sd_acks s2)) \<subseteq> set (sent (sd_acks s'))" by (rule sends.keepsD [OF delete_sends 2])
  then show ?thesis using acknowledge_sent [OF 1] unfolding acked_def by blast
qed

lemma terminal_acked:
  "finish_terminal_delivery world cfg sn message sq trace s = Some (Inr (), s') \<Longrightarrow> acked message s'"
  unfolding finish_terminal_delivery_def Let_def
  by (auto simp: action_iff dest: confirm_acked dead_letter_acked split: if_splits option.splits)

subsection \<open>Bound\<close>

lemma acknowledge_bindings:
  "unbinds_nothing world \<Longrightarrow> acknowledge world kind message s = Some (r, s') \<Longrightarrow> bindings (sd_acks s') = bindings (sd_acks s)"
  by (auto simp: acknowledge_def await_def registry_def and_then_cases send_ack_def repo_call_def Let_def unbinds_nothing_def
      split: sum.splits AckRegistryError.splits)

lemma try_confirm_bindings:
  "unbinds_nothing world \<Longrightarrow> try_confirm world message s = Some (r, s') \<Longrightarrow> bindings (sd_acks s') = bindings (sd_acks s)"
  unfolding try_confirm_def by (auto simp: action_iff dest: acknowledge_bindings)

lemma progress_bindings:
  "unbinds_nothing world \<Longrightarrow> disp_progress world message s = Some (r, s') \<Longrightarrow> bindings (sd_acks s') = bindings (sd_acks s)"
  unfolding disp_progress_def by (auto simp: action_iff dest: acknowledge_bindings)

lemma duplicate_bound:
  assumes calm: "unbinds_nothing world" and step: "bind_or_ack_duplicate world job lease sq message s = Some (Inr (), s')"
  shows "bound job sq message s'"
proof -
  let ?b = "\<lparr>ab_worker_id = lg_worker_id lease, ab_lease_id = lg_lease_id lease, ab_stream_sequence = sq, ab_message = message\<rparr>"
  have install: "bound job sq message s'"
    if "and_then (registry (\<lambda>reg. ((), ack_bind job ?b reg))) (\<lambda>_. disp_progress world message) s1 = Some (Inr (), s')" for s1
    using that progress_bindings [OF calm]
    by (fastforce simp: action_iff registry_def ack_bind_def bound_def bt_get_put_any)
  show ?thesis
  proof (cases "ack_binding job (lg_worker_id lease) (lg_lease_id lease) (sd_acks s)")
    case (Inl er)
    then show ?thesis
      using step by (intro install [of s]) (simp add: bind_or_ack_duplicate_def Let_def and_then_def [of "registry (\<lambda>reg. (ack_binding _ _ _ reg, reg))"] registry_def [of "\<lambda>reg. (ack_binding _ _ _ reg, reg)"])
  next
    case (Inr b)
    then have b: "bt_get job (bindings (sd_acks s)) = Some b" by (simp add: ack_binding_eq_Inr)
    from step Inr consider "sq < ab_stream_sequence b" "try_confirm world message s = Some (Inr (), s')"
      | s1 where "and_then (registry (\<lambda>reg. ((), ack_bind job ?b reg))) (\<lambda>_. disp_progress world message) s1 = Some (Inr (), s')"
      by (auto simp: bind_or_ack_duplicate_def Let_def and_then_cases [of "registry (\<lambda>reg. (ack_binding _ _ _ reg, reg))"]
          and_then_cases [of "try_confirm _ _"] registry_def [of "\<lambda>reg. (ack_binding _ _ _ reg, reg)"] split: if_splits)
    then show ?thesis
    proof cases
      case 1
      then show ?thesis using try_confirm_bindings [OF calm 1(2)] b by (auto simp: bound_def)
    qed (rule install)
  qed
qed

lemma hand_over_bound:
  assumes calm: "unbinds_nothing world" and step: "hand_over world delivery claim s = Some (Inr (), s')"
  shows "bound (cl_job_id claim) (pd_stream_sequence delivery) (pd_message delivery) s'"
  using step calm unfolding hand_over_def unbinds_nothing_def
  by (auto simp: action_iff registry_def ack_bind_def record_effect_def await_def repo_call_def Let_def bound_def bt_get_put_any
      dest!: progress_bindings [OF calm])

text \<open>Holding an entry puts it back.\<close>

definition fits :: "'m PendingDelivery FairEntry \<Rightarrow> 'm PendingDelivery FairQueue \<Rightarrow> bool" where
  "fits e q \<longleftrightarrow> (\<forall>e'. fe_job_id e' = fe_job_id e \<longrightarrow> (\<exists>q'. fair_push e' q = Inr q' \<and> fair_inv q'
     \<and> mset (fair_entries q') = add_mset e' (mset (fair_entries q))))"

lemma fair_push_capacity: "fair_push e q = Inr q' \<Longrightarrow> fq_capacity q' = fq_capacity q"
  by (cases "fe_lane e") (auto simp: fair_push_def Let_def split: if_splits)

lemma hold_accounted:
  assumes fits: "fits e (ds_fair s)" and step: "hold_entry world cfg e s = Some (r, s')"
  shows "accounted world e s r s'"
  using step unfolding hold_entry_def
proof (rule accounted_after [OF quiet_progress_if_due])
  fix d s1 assume d: "progress_if_due world (dc_worker_heartbeat cfg) (fe_payload e) s = Some (Inr d, s1)"
    and push: "requeue (e\<lparr>fe_payload := d\<rparr>) s1 = Some (r, s')" and same: "ds_fair s1 = ds_fair s"
  have "pd_message d = pd_message (fe_payload e) \<and> pd_queued d = pd_queued (fe_payload e)
      \<and> pd_stream_sequence d = pd_stream_sequence (fe_payload e)"
    using d unfolding progress_if_due_def utc_now_def by (auto simp: action_iff split: if_splits)
  then have work: "same_work e (e\<lparr>fe_payload := d\<rparr>)" by (simp add: same_work_def)
  obtain q' where q': "fair_push (e\<lparr>fe_payload := d\<rparr>) (ds_fair s1) = Inr q'" "fair_inv q'"
    "mset (fair_entries q') = add_mset (e\<lparr>fe_payload := d\<rparr>) (mset (fair_entries (ds_fair s1)))"
    using fits unfolding fits_def same by (metis FairEntry.select_convs(1) FairEntry.surjective FairEntry.update_convs(6))
  then have "r = Inr ()" "ds_fair s' = q'"
    using push by (auto simp: requeue_def action_iff)
  then show "accounted world e s1 r s'"
    using q' work fair_push_capacity [OF q'(1)] unfolding accounted_def by auto
qed

lemma quiet_claim_for: "quiet (claim_for world cfg codec job worker)"
  unfolding claim_for_def by (intro quiet_rules quiet_calls)

lemma claim_for_granted:
  assumes "claim_for world cfg codec job worker s = Some (Inr (Inr claim), s')"
  obtains cs t evt lease expires stale where
    "claim_job_with_options cs t evt job worker lease expires stale (ce_others (cw_call (sw_control world) (cs_calls (sd_control s))) (sd_db s))
       = (Inr claim, sd_db s')" "sd_log s' = sd_log s"
proof -
  let ?env = "cw_call (sw_control world) (cs_calls (sd_control s))"
  from assms obtain lease now ttl stale where
    "repository world (\<lambda>t evt. claim_job_with_options (dx_checked_sub codec) t evt job worker lease (now + ttl) stale) s = Some (Inr claim, s')"
    unfolding claim_for_def utc_now_def fresh_id_def by (auto simp: action_iff)
  then have "Inr claim = fst (claim_job_with_options (dx_checked_sub codec) (ce_clock ?env) (ce_event ?env) job worker lease (now + ttl) stale
      (ce_others ?env (sd_db s)))"
    "sd_db s' = snd (claim_job_with_options (dx_checked_sub codec) (ce_clock ?env) (ce_event ?env) job worker lease (now + ttl) stale
      (ce_others ?env (sd_db s)))" "sd_log s' = sd_log s"
    by (auto simp: repository_def repo_call_def Let_def)
  then show thesis using that [of "dx_checked_sub codec" "ce_clock ?env" "ce_event ?env" lease "now + ttl" stale] by simp
qed

lemma claim_for_job: "claim_for world cfg codec job worker s = Some (Inr (Inr claim), s') \<Longrightarrow> cl_job_id claim = job"
  by (elim claim_for_granted) (simp add: claim_names_job)

lemma try_workers_accounted:
  assumes calm: "unbinds_nothing world"
  shows "fits e (ds_fair s) \<Longrightarrow> try_workers world cfg codec e workers s = Some (r, s') \<Longrightarrow> accounted world e s r s'"
proof (induction workers arbitrary: s)
  case Nil
  then show ?case by (auto intro: hold_accounted)
next
  case (Cons w ws)
  show ?case
    using Cons.prems(2) unfolding try_workers.simps
  proof (rule accounted_after [OF quiet_claim_for])
    fix claimed s1 assume claim: "claim_for world cfg codec (fe_job_id e) (ws_worker_id w) s = Some (Inr claimed, s1)"
      and same: "ds_fair s1 = ds_fair s"
      and rest: "(case claimed of Inr claim \<Rightarrow> hand_over world (fe_payload e) claim
       | Inl (QuotaExceededError _ ConcurrentJobs _ _) \<Rightarrow> hold_entry world cfg e
       | Inl (CompareAndSwapLost _ _) \<Rightarrow> try_workers world cfg codec e ws
       | Inl (Conflict _) \<Rightarrow> try_workers world cfg codec e ws
       | Inl (NotFound entity i) \<Rightarrow>
           if entity = ''worker'' then try_workers world cfg codec e ws else fail_with (DispRepository (NotFound entity i))
       | Inl er \<Rightarrow> fail_with (DispRepository er)) s1 = Some (r, s')"
    have fits: "fits e (ds_fair s1)" using Cons.prems(1) same by simp
    from rest consider (claimed) c where "claimed = Inr c" "hand_over world (fe_payload e) c s1 = Some (r, s')"
      | (held) "hold_entry world cfg e s1 = Some (r, s')" | (onward) "try_workers world cfg codec e ws s1 = Some (r, s')"
      | (failed) er where "fail_with (DispRepository er) s1 = Some (r, s')"
      by (simp split: sum.splits RepositoryError.splits ProjectQuota.splits if_splits)
    then show "accounted world e s1 r s'"
    proof cases
      case claimed
      then have "cl_job_id c = fe_job_id e" using claim_for_job claim by blast
      then show ?thesis
        using accounted_quiet [OF quiet_leaving(6) claimed(2)] hand_over_bound [OF calm] claimed(2) by metis
    next
      case held
      then show ?thesis by (rule hold_accounted [OF fits])
    next
      case onward
      then show ?thesis by (rule Cons.IH [OF fits])
    next
      case failed
      then show ?thesis by (intro accounted_quiet [OF quiet_pure(10) failed]) simp
    qed
  qed
qed

lemma quiet_matching: "quiet (matching_workers world cfg sn delivery)"
  unfolding matching_workers_def by (intro quiet_rules quiet_calls)

lemma dispatch_entry_accounted:
  fixes world :: "'m SchedWorld"
  assumes calm: "unbinds_nothing world" and fits: "fits e (ds_fair s)"
    and step: "dispatch_entry world cfg codec e sn s = Some (r, s')"
  shows "accounted world e s r s'"
  using step unfolding dispatch_entry_def Let_def
proof (rule accounted_after [OF quiet_pure(4)])
  fix now :: instant and s1 :: "'m DispatcherState"
  assume same: "ds_fair s1 = ds_fair s"
  let ?d = "fe_payload e"
  assume rest: "(case classify_canonical_delivery (pd_queued ?d) sn now of
      AckTerminal \<Rightarrow> finish_terminal_delivery world cfg sn (pd_message ?d) (pd_stream_sequence ?d) (pd_trace_context ?d)
    | FinalizeCancellation \<Rightarrow> and_then (finalize_queued_cancellation world sn) (\<lambda>_. disp_confirm world (pd_message ?d))
    | Buffer x \<Rightarrow> and_then (matching_workers world cfg sn ?d) (\<lambda>workers.
          if workers = [] then hold_entry world cfg e else try_workers world cfg codec e workers)
    | Rebind lease \<Rightarrow> bind_or_ack_duplicate world (fe_job_id e) lease (pd_stream_sequence ?d) (pd_message ?d)
    | HoldForReconciliation \<Rightarrow> hold_entry world cfg e
    | DeadLetter reason \<Rightarrow> and_then (if reason = CanonicalJobInconsistent
        then redrive DispTrace DispRedrive world (sn_queued sn) (pd_trace_context ?d) (pd_stream_sequence ?d) else succeed ()) (\<lambda>_.
          dead_letter_entry world cfg e reason (max (sn_delivery_attempts sn) 1))) s1 = Some (r, s')"
  have fits: "fits e (ds_fair s1)" using fits same by simp
  show "accounted world e s1 r s'"
  proof (cases "classify_canonical_delivery (pd_queued ?d) sn now")
    case AckTerminal
    then have t: "finish_terminal_delivery world cfg sn (pd_message ?d) (pd_stream_sequence ?d) (pd_trace_context ?d) s1 = Some (r, s')"
      using rest by simp
    show ?thesis by (rule accounted_quiet [OF quiet_leaving(3) t]) (use t in \<open>auto dest: terminal_acked\<close>)
  next
    case FinalizeCancellation
    then have t: "and_then (finalize_queued_cancellation world sn) (\<lambda>_. disp_confirm world (pd_message ?d)) s1 = Some (r, s')"
      using rest by simp
    have "quiet (and_then (finalize_queued_cancellation world sn) (\<lambda>_. disp_confirm world (pd_message ?d)))"
      by (intro quiet_rules quiet_leaving quiet_acks)
    from accounted_quiet [OF this t] show ?thesis
      by (rule meta_mp) (use t in \<open>auto simp: and_then_cases dest: confirm_acked\<close>)
  next
    case (Buffer lane)
    then have "and_then (matching_workers world cfg sn ?d) (\<lambda>workers.
        if workers = [] then hold_entry world cfg e else try_workers world cfg codec e workers) s1 = Some (r, s')" using rest by simp
    then show ?thesis
    proof (rule accounted_after [OF quiet_matching])
      fix workers and s2 :: "'m DispatcherState"
      assume go: "(if workers = [] then hold_entry world cfg e else try_workers world cfg codec e workers) s2 = Some (r, s')"
        and same2: "ds_fair s2 = ds_fair s1"
      have "fits e (ds_fair s2)" using fits same2 by simp
      then show "accounted world e s2 r s'" using go by (cases "workers = []") (auto intro: hold_accounted try_workers_accounted [OF calm])
    qed
  next
    case (Rebind lease)
    then have t: "bind_or_ack_duplicate world (fe_job_id e) lease (pd_stream_sequence ?d) (pd_message ?d) s1 = Some (r, s')"
      using rest by simp
    show ?thesis by (rule accounted_quiet [OF quiet_leaving(5) t]) (use t in \<open>auto dest: duplicate_bound [OF calm]\<close>)
  next
    case HoldForReconciliation
    then show ?thesis using rest by (intro hold_accounted [OF fits]) simp
  next
    case (DeadLetter reason)
    then have t: "and_then (if reason = CanonicalJobInconsistent
        then redrive DispTrace DispRedrive world (sn_queued sn) (pd_trace_context ?d) (pd_stream_sequence ?d) else succeed ()) (\<lambda>_.
          dead_letter_entry world cfg e reason (max (sn_delivery_attempts sn) 1)) s1 = Some (r, s')" using rest by simp
    have "quiet (and_then (if reason = CanonicalJobInconsistent
        then redrive DispTrace DispRedrive world (sn_queued sn) (pd_trace_context ?d) (pd_stream_sequence ?d) else succeed ()) (\<lambda>_.
          dead_letter_entry world cfg e reason (max (sn_delivery_attempts sn) 1)))"
      by (intro quiet_rules quiet_leaving quiet_redrive)
    from accounted_quiet [OF this t] show ?thesis
      by (rule meta_mp) (use t in \<open>auto simp: and_then_cases dead_letter_entry_def Let_def dest: dead_letter_acked\<close>)
  qed
qed

section \<open>One attempt\<close>

lemma pop_entry_cases:
  assumes inv: "fair_inv (ds_fair s)" and step: "pop_entry world s = Some (r, s1)"
  obtains popped where "r = Inr popped" "fair_inv (ds_fair s1)"
    "mset (fair_entries (ds_fair s)) = mset (fair_entries (ds_fair s1)) + (case popped of None \<Rightarrow> {#} | Some e \<Rightarrow> {#e#})"
    "popped = None \<longleftrightarrow> fair_entries (ds_fair s) = []" "\<And>e. popped = Some e \<Longrightarrow> fits e (ds_fair s1)"
proof -
  let ?now = "sw_now world (cs_calls (sd_control s))"
  obtain popped q where q: "fair_pop ?now (ds_fair s) = Inr (popped, q)" "fair_inv q" "fq_capacity q = fq_capacity (ds_fair s)"
    "mset (fair_entries (ds_fair s)) = mset (fair_entries q) + (case popped of None \<Rightarrow> {#} | Some e \<Rightarrow> {#e#})"
    "popped = None \<longleftrightarrow> fair_entries (ds_fair s) = []" by (rule fair_pop_cases [OF inv])
  have s1: "r = Inr popped" "ds_fair s1 = q"
    using step q(1) by (auto simp: pop_entry_def utc_now_def action_iff)
  have "fits e q" if "popped = Some e" for e
    using push_back [OF inv q(2,3)] q(4) that unfolding fits_def by auto
  then show thesis using that [of popped] s1 q by simp
qed

text \<open>
  C18. The dispatcher loses no delivery and its buffer never overflows: an attempt takes at most one
  entry out of the buffer; unless the attempt fails, so that the queue will deliver the message again,
  the entry is back in the buffer with the same message, or its message has been acknowledged or
  terminated, or the acknowledgement registry holds it, or a newer message of the job, under a lease;
  and putting an entry back never finds the buffer full.
\<close>

theorem dispatch_loses_no_delivery:
  assumes "unbinds_nothing world" and "fair_inv (ds_fair s)" and "dispatch_one world cfg codec s = Some (r, s')"
  shows "fair_inv (ds_fair s') \<and> (\<forall>text. r \<noteq> Inl (DispFairness text)) \<and>
    (if fair_entries (ds_fair s) = [] then r = Inr () \<and> fair_entries (ds_fair s') = []
     else \<exists>e rest. mset (fair_entries (ds_fair s)) = add_mset e rest \<and>
       (mset (fair_entries (ds_fair s')) = rest
          \<and> (r = Inr () \<longrightarrow> acked (pd_message (fe_payload e)) s'
               \<or> bound (fe_job_id e) (pd_stream_sequence (fe_payload e)) (pd_message (fe_payload e)) s')
        \<or> r = Inr () \<and> (\<exists>e'. same_work e e' \<and> mset (fair_entries (ds_fair s')) = add_mset e' rest)))"
proof -
  from assms(3) obtain p s1 where pop: "pop_entry world s = Some (p, s1)"
    and rest: "(\<exists>er. p = Inl er) \<or> (\<exists>popped. p = Inr popped \<and> (case popped of
         None \<Rightarrow> succeed ()
       | Some entry \<Rightarrow>
           and_then (map_failure DispRepository (query world (get_job_scheduling_snapshot (fe_job_id entry)))) (\<lambda>found. case found of
             None \<Rightarrow> dead_letter_entry world cfg entry CanonicalJobInconsistent 1
           | Some snapshot \<Rightarrow> dispatch_entry world cfg codec entry snapshot)) s1 = Some (r, s'))"
    unfolding dispatch_one_def and_then_cases [of "pop_entry world"] by blast
  obtain popped where p: "p = Inr popped" and inv1: "fair_inv (ds_fair s1)"
    and m: "mset (fair_entries (ds_fair s)) = mset (fair_entries (ds_fair s1)) + (case popped of None \<Rightarrow> {#} | Some e \<Rightarrow> {#e#})"
    and none: "popped = None \<longleftrightarrow> fair_entries (ds_fair s) = []" and fits: "\<And>e. popped = Some e \<Longrightarrow> fits e (ds_fair s1)"
    by (rule pop_entry_cases [OF assms(2) pop], rule that)
  show ?thesis
  proof (cases popped)
    case None
    then show ?thesis using rest p inv1 m none by auto
  next
    case (Some e)
    then have go: "and_then (map_failure DispRepository (query world (get_job_scheduling_snapshot (fe_job_id e)))) (\<lambda>found. case found of
             None \<Rightarrow> dead_letter_entry world cfg e CanonicalJobInconsistent 1
           | Some snapshot \<Rightarrow> dispatch_entry world cfg codec e snapshot) s1 = Some (r, s')" using rest p by simp
    have "accounted world e s1 r s'"
      using go
    proof (rule accounted_after [OF quiet_calls(2)])
      fix found and s2 :: "'a DispatcherState"
      assume tail: "(case found of None \<Rightarrow> dead_letter_entry world cfg e CanonicalJobInconsistent 1
           | Some snapshot \<Rightarrow> dispatch_entry world cfg codec e snapshot) s2 = Some (r, s')" and same: "ds_fair s2 = ds_fair s1"
      show "accounted world e s2 r s'"
      proof (cases found)
        case None
        then have t: "dead_letter_entry world cfg e CanonicalJobInconsistent 1 s2 = Some (r, s')" using tail by simp
        show ?thesis
          by (rule accounted_quiet [OF quiet_leaving(2) t]) (use t in \<open>auto simp: dead_letter_entry_def Let_def dest: dead_letter_acked\<close>)
      next
        case (Some sn)
        then show ?thesis using tail dispatch_entry_accounted [OF assms(1)] fits [OF \<open>popped = Some e\<close>] same by simp
      qed
    qed
    moreover have "mset (fair_entries (ds_fair s)) = add_mset e (mset (fair_entries (ds_fair s1)))" using m Some by simp
    moreover have "fair_entries (ds_fair s) \<noteq> []" using none Some by simp
    ultimately show ?thesis using inv1 unfolding accounted_def by (auto intro: exI [of _ e])
  qed
qed

theorem dispatch_loses_no_delivery_witness:
  "\<exists>s'. dispatch_one sample_sched_world tick_config tick_codec tick_state = Some (Inr (), s')
     \<and> fair_entries (ds_fair s') = [] \<and> (acked ''m'' s' \<or> bound ''job_1'' 7 ''m'' s')"
proof -
  obtain s' where run: "dispatch_one sample_sched_world tick_config tick_codec tick_state = Some (Inr (), s')" "fair_entries (ds_fair s') = []"
    using tick_dispatch_one by blast
  have calm: "unbinds_nothing sample_sched_world" by (simp add: unbinds_nothing_def sample_sched_world_def sample_world_def)
  have inv: "fair_inv (ds_fair tick_state)" using tick_buffer_inv by (simp add: tick_state_def)
  have one: "fair_entries (ds_fair tick_state) = [tick_entry]"
    by (simp add: tick_state_def tick_buffer_def fair_entries_def lane_entries_def bt_concat_def lane_default_def)
  have e: "fe_job_id tick_entry = ''job_1''" "pd_message (fe_payload tick_entry) = ''m''" "pd_stream_sequence (fe_payload tick_entry) = 7"
    by (simp_all add: tick_entry_def tick_delivery_def)
  have "acked ''m'' s' \<or> bound ''job_1'' 7 ''m'' s'"
    using dispatch_loses_no_delivery [OF calm inv run(1)] one run(2) e by (auto simp: single_is_union)
  then show ?thesis using run by blast
qed

end
