(* ===== verification/Advisory_Safety.thy ===== *)
theory Advisory_Safety
  imports Advisory Sample_World
begin

text \<open>
  What the recovery of an advisory guarantees: it always returns, and it deletes a queue message only
  when its job needs it no more, when its canonical replacement has been published, or when its dead
  letter is confirmed.
\<close>

section \<open>What the tasks are\<close>

definition dead_lettered :: "u64 \<Rightarrow> db \<Rightarrow> bool" where
  "dead_lettered sq d \<longleftrightarrow> (\<exists>dl key. dl_source_stream_sequence dl = Some sq \<and> idempotency_key dl = Inr key \<and> published_under key d)"

lemma dead_lettered_run: "repo_step\<^sup>*\<^sup>* d d' \<Longrightarrow> full_inv d \<Longrightarrow> dead_lettered sq d \<Longrightarrow> dead_lettered sq d'"
  unfolding dead_lettered_def using published_under_run by blast

lemma dead_letter_new_sequence:
  assumes "sq \<noteq> 0" and "reason = AttemptsExhausted \<longrightarrow> job \<noteq> None"
  shows "\<exists>dl. dead_letter_new job project (Some sq) (max attempt 1) reason now = Inr dl \<and> dl_source_stream_sequence dl = Some sq"
proof -
  have "max attempt 1 \<noteq> (0 :: u32)" by (metis max.cobounded2 word_le_0_iff zero_neq_one)
  then show ?thesis using assms by (cases reason) (auto simp: dead_letter_new_def dead_letter_validate_def Let_def)
qed

lemma redrive_runs: "runs.world_in world \<Longrightarrow> runs.on_db.keeps (redrive f g world queued trace sq)"
  unfolding redrive_def by (intro runs.on_db.keeps_rules runs.publish_in)

lemma redrive_returns: "returns (redrive f g world queued trace sq)"
  unfolding redrive_def by (intro returns_rules publish_returns)

lemma redrive_log: "logs.keeps (\<lambda>e. \<exists>headers. e = Published JOBS_QUEUED_SUBJECT headers (QueuedPayload queued)) (redrive f g world queued trace sq)"
  unfolding redrive_def by (intro logs.keeps_rules publish_log) blast

lemma confirm_log: "logs.keeps P (advisory_confirm world message)"
  unfolding advisory_confirm_def by (intro logs.keeps_rules acknowledge_log)

lemma confirm_runs: "runs.world_in world \<Longrightarrow> runs.on_db.keeps (advisory_confirm world message)"
  unfolding advisory_confirm_def by (intro runs.on_db.keeps_rules runs.acknowledge_in)

lemma confirm_returns: "returns (advisory_confirm world message)"
  unfolding advisory_confirm_def by (intro returns_rules acknowledge_returns)

lemma redrive_published:
  assumes "redrive f g world queued trace sq s = Some (Inr x, s')"
  shows "\<exists>headers. sd_log s' = sd_log s @ [Published JOBS_QUEUED_SUBJECT headers (QueuedPayload queued)]"
  using assms
  by (auto simp: redrive_def action_iff jetstream_publish_def await_def record_effect_def repo_call_def Let_def)

lemma finish_returns:
  assumes "sq \<noteq> 0" and "reason = AttemptsExhausted \<longrightarrow> job \<noteq> None"
  shows "returns (dead_letter_and_finish world cfg message sq attempt job project reason trace)"
proof -
  have "returns (expect (case dead_letter_new job project (Some sq) (max attempt 1) reason now of Inr dl \<Rightarrow> Some dl | Inl _ \<Rightarrow> None))" for now
    using dead_letter_new_sequence [OF assms, of project attempt now] by (auto intro: returns_pure)
  then show ?thesis
    unfolding dead_letter_and_finish_def by (intro returns_rules calls_return dlq_returns confirm_returns)
qed

lemma finish_runs:
  assumes "runs.world_in world"
  shows "runs.on_db.keeps (dead_letter_and_finish world cfg message sq attempt job project reason trace)"
  unfolding dead_letter_and_finish_def by (intro runs.on_db.keeps_rules calls_in dlq_runs confirm_runs assms)

text \<open>A source deleted by the dead-letter path is dead-lettered, and nothing is put in its place.\<close>

lemma finish_deletes:
  assumes world: "runs.world_in world" and inv: "full_inv (sd_db s)"
    and step: "dead_letter_and_finish world cfg message sq attempt job project reason trace s = Some (r, s')"
  shows "\<exists>new. sd_log s' = sd_log s @ new \<and> (\<forall>q. SourceDeleted q \<in> set new \<longrightarrow> q = sq \<and> dead_lettered sq (sd_db s'))"
proof -
  let ?dead = "\<lambda>e. \<exists>h p. e = Published JOBS_DEAD_SUBJECT h p"
  let ?any = "\<lambda>e. ?dead e \<or> e = SourceDeleted sq"
  from step consider (early) dl x where "ensure_published world (av_dispatcher_id cfg) dl trace s = Some (Inl x, s')"
    | (late) dl outcome s1 where "dead_letter_new job project (Some sq) (max attempt 1) reason (sw_now world (cs_calls (sd_control s))) = Inr dl"
      "ensure_published world (av_dispatcher_id cfg) dl trace s = Some (Inr outcome, s1)"
      "and_then (map_failure AdvDlq (delete_source world sq)) (\<lambda>_. advisory_confirm world message) s1 = Some (r, s')"
    unfolding dead_letter_and_finish_def utc_now_def by (auto simp: action_iff split: sum.splits)
  then show ?thesis
  proof cases
    case early
    then have "logged ?dead s s'" using dlq_log(2) [of ?dead] logs.keepsD by blast
    then show ?thesis by (auto simp: logged_def list_all_iff)
  next
    case late
    have dl: "dl_source_stream_sequence dl = Some sq" using late(1) by (auto simp: dead_letter_new_def Let_def result_inv)
    have "logged ?dead s s1" using dlq_log(2) [of ?dead] logs.keepsD late(2) by blast
    then have "logged ?any s s1" by (rule logged_mono) blast
    moreover have "logs.keeps ?any (and_then (map_failure AdvDlq (delete_source world sq)) (\<lambda>_. advisory_confirm world message))"
      by (intro logs.keeps_rules delete_log confirm_log) simp
    ultimately have "logged ?any s s'" using logs.keepsD late(3) logs.R_trans by blast
    moreover have "dead_lettered sq (sd_db s')"
    proof -
      have "dead_lettered sq (sd_db s1)" using ensure_published_confirmed [OF late(2)] dl unfolding dead_lettered_def by blast
      moreover have "repo_step\<^sup>*\<^sup>* (sd_db s) (sd_db s1)" by (rule runs.on_db.keepsD [OF dlq_runs(2) [OF world] late(2)])
      moreover have "runs.on_db.keeps (and_then (map_failure AdvDlq (delete_source world sq)) (\<lambda>_. advisory_confirm world message))"
        by (intro runs.on_db.keeps_rules dlq_runs confirm_runs world)
      then have "repo_step\<^sup>*\<^sup>* (sd_db s1) (sd_db s')" using runs.on_db.keepsD late(3) by blast
      ultimately show ?thesis using dead_lettered_run repo.run_invariant inv by blast
    qed
    ultimately show ?thesis by (auto simp: logged_def list_all_iff)
  qed
qed

text \<open>Whatever follows a redrive, it deletes a source only after the canonical message was published.\<close>

abbreviation deletes_only :: "u64 \<Rightarrow> Effect \<Rightarrow> bool" where
  "deletes_only sq eff \<equiv> \<forall>q. eff = SourceDeleted q \<longrightarrow> q = sq"

lemma redriven_first:
  assumes step: "and_then (redrive f g world queued trace sq) (\<lambda>_. m) s = Some (r, s')" and rest: "logs.keeps (deletes_only sq) m"
  shows "\<exists>new. sd_log s' = sd_log s @ new \<and> (\<forall>q. SourceDeleted q \<in> set new \<longrightarrow> q = sq
     \<and> (\<exists>headers. Published JOBS_QUEUED_SUBJECT headers (QueuedPayload queued) \<in> set new))"
  using step unfolding and_then_cases
proof (elim disjE exE conjE)
  fix e assume "redrive f g world queued trace sq s = Some (Inl e, s')"
  from logs.keepsD [OF redrive_log this] show ?thesis unfolding logged_def list_all_iff by blast
next
  fix x s1 assume redriven: "redrive f g world queued trace sq s = Some (Inr x, s1)" and m: "m s1 = Some (r, s')"
  from redrive_published [OF redriven] obtain headers where
    1: "sd_log s1 = sd_log s @ [Published JOBS_QUEUED_SUBJECT headers (QueuedPayload queued)]" by blast
  from logs.keepsD [OF rest m] obtain new where 2: "sd_log s' = sd_log s1 @ new" "list_all (deletes_only sq) new"
    by (auto simp: logged_def)
  show ?thesis
    by (rule exI [of _ "Published JOBS_QUEUED_SUBJECT headers (QueuedPayload queued) # new"]) (use 1 2 in \<open>auto simp: list_all_iff\<close>)
qed

lemma finish_log: "logs.keeps (deletes_only sq) (dead_letter_and_finish world cfg message sq attempt job project reason trace)"
  unfolding dead_letter_and_finish_def by (intro logs.keeps_rules calls_log dlq_log delete_log confirm_log) auto

lemma delete_confirm_log:
  "logs.keeps (deletes_only sq) (and_then (map_failure AdvDlq (delete_source world sq)) (\<lambda>_. advisory_confirm world message))"
  by (intro logs.keeps_rules delete_log confirm_log) auto

section \<open>The guarantee\<close>

definition work_kept :: "u64 \<Rightarrow> QueuePayloadError + JobQueued \<Rightarrow> db \<Rightarrow> db \<Rightarrow> Effect list \<Rightarrow> bool" where
  "work_kept sq decoded d d' new \<longleftrightarrow>
     (case decoded of
        Inl _ \<Rightarrow> dead_lettered sq d'
      | Inr queued \<Rightarrow>
          (case get_job_scheduling_snapshot (jq_job_id queued) d of
             Inl _ \<Rightarrow> False
           | Inr None \<Rightarrow> dead_lettered sq d'
           | Inr (Some snapshot) \<Rightarrow>
               is_terminal (job_state (sn_job snapshot))
               \<or> (\<exists>headers. Published JOBS_QUEUED_SUBJECT headers (QueuedPayload (sn_queued snapshot)) \<in> set new)
               \<or> (sn_pending_outcome snapshot = Some JobOutcome.InfraFailed \<and> sn_lease snapshot = None \<and> dead_lettered sq d')))"

lemma recover_known_kept:
  assumes world: "runs.world_in world" and inv: "full_inv (sd_db s)"
    and step: "recover_known world cfg message sq queued sn trace s = Some (r, s')"
  shows "\<exists>new. sd_log s' = sd_log s @ new \<and> (\<forall>q. SourceDeleted q \<in> set new \<longrightarrow> q = sq
     \<and> (is_terminal (job_state (sn_job sn)) \<or> (\<exists>headers. Published JOBS_QUEUED_SUBJECT headers (QueuedPayload (sn_queued sn)) \<in> set new)
        \<or> (sn_pending_outcome sn = Some JobOutcome.InfraFailed \<and> sn_lease sn = None \<and> dead_lettered sq (sd_db s'))))"
proof -
  let ?dead = "\<lambda>reason. dead_letter_and_finish world cfg message sq (max (sn_delivery_attempts sn) 1) (Some (job_id (sn_job sn)))
      (Some (job_project_id (sn_job sn))) reason trace"
  let ?drop = "and_then (map_failure AdvDlq (delete_source world sq)) (\<lambda>_. advisory_confirm world message)"
  let ?key = "exhaustion_event_key (job_id (sn_job sn)) (max (sn_delivery_attempts sn) 1)"
  from step consider (error) "sd_log s' = sd_log s"
    | (go) q s1 exhausted where "query world (get_outbox_message ?key) s = Some (q, s1)"
      "(if is_terminal (job_state (sn_job sn)) then if exhausted then ?dead AttemptsExhausted else ?drop
        else if queued \<noteq> sn_queued sn then and_then (advisory_redrive world (sn_queued sn) trace sq) (\<lambda>_. ?dead CanonicalJobInconsistent)
        else if sn_pending_outcome sn = Some JobOutcome.InfraFailed \<and> sn_lease sn = None \<and> exhausted then ?dead AttemptsExhausted
        else and_then (advisory_redrive world (sn_queued sn) trace sq) (\<lambda>_. ?drop)) s1 = Some (r, s')"
    unfolding recover_known_def Let_def and_then_cases [of "map_failure AdvRepository _"] and_then_cases [of "answered _"]
      map_failure_iff action_simps
    by (auto simp: query_def repository_def repo_call_def Let_def)
  then show ?thesis
  proof cases
    case go
    have log: "sd_log s1 = sd_log s" using go(1) by (auto simp: query_def repository_def repo_call_def Let_def)
    have inv1: "full_inv (sd_db s1)"
      using runs.on_db.keepsD [OF runs.query_in [OF world] go(1)] repo.run_invariant inv by blast
    consider (terminal) m where "is_terminal (job_state (sn_job sn))" "logs.keeps (deletes_only sq) m" "m s1 = Some (r, s')"
      | (redriven) m where "logs.keeps (deletes_only sq) m" "and_then (advisory_redrive world (sn_queued sn) trace sq) (\<lambda>_. m) s1 = Some (r, s')"
      | (exhausted) "sn_pending_outcome sn = Some JobOutcome.InfraFailed" "sn_lease sn = None" "?dead AttemptsExhausted s1 = Some (r, s')"
    proof -
      assume terminal: "\<And>m. is_terminal (job_state (sn_job sn)) \<Longrightarrow> logs.keeps (deletes_only sq) m \<Longrightarrow> m s1 = Some (r, s') \<Longrightarrow> thesis"
        and redriven: "\<And>m. logs.keeps (deletes_only sq) m \<Longrightarrow>
          and_then (advisory_redrive world (sn_queued sn) trace sq) (\<lambda>_. m) s1 = Some (r, s') \<Longrightarrow> thesis"
        and exhausted: "sn_pending_outcome sn = Some JobOutcome.InfraFailed \<Longrightarrow> sn_lease sn = None \<Longrightarrow>
          ?dead AttemptsExhausted s1 = Some (r, s') \<Longrightarrow> thesis"
      show thesis
        using go(2) terminal [OF _ finish_log] terminal [OF _ delete_confirm_log] redriven [OF finish_log]
          redriven [OF delete_confirm_log] exhausted
        by (simp split: if_splits)
    qed
    then show ?thesis
    proof cases
      case terminal
      then show ?thesis using logs.keepsD [OF terminal(2,3)] log by (auto simp: logged_def list_all_iff)
    next
      case redriven
      from redriven_first [OF redriven(2) [unfolded advisory_redrive_def] redriven(1)] show ?thesis unfolding log by blast
    next
      case exhausted
      from finish_deletes [OF world inv1 exhausted(3)] exhausted(1,2) show ?thesis unfolding log by blast
    qed
  qed simp
qed

lemma recover_known_runs:
  assumes "runs.world_in world"
  shows "runs.on_db.keeps (recover_known world cfg message sq queued sn trace)"
  unfolding recover_known_def Let_def advisory_redrive_def
  by (intro runs.on_db.keeps_rules calls_in dlq_runs finish_runs redrive_runs confirm_runs assms)

lemma recover_source_kept:
  assumes world: "runs.world_in world" and inv: "full_inv (sd_db s)"
    and step: "recover_source world cfg codec message sq headers source s = Some (r, s')"
  shows "\<exists>new d. sd_log s' = sd_log s @ new \<and> repo_step\<^sup>*\<^sup>* (sd_db s) d \<and> repo_step\<^sup>*\<^sup>* d (sd_db s')
     \<and> (\<forall>q. SourceDeleted q \<in> set new \<longrightarrow> q = sq \<and> work_kept sq (decode_queue_payload (ac_queued codec) source) d (sd_db s') new)"
proof (cases "decode_queue_payload (ac_queued codec) source")
  case (Inl e)
  then have finish: "finish_malformed world cfg message sq (extract_trace_headers headers) s = Some (r, s')"
    using step by (simp add: recover_source_def)
  have "repo_step\<^sup>*\<^sup>* (sd_db s) (sd_db s')" using runs.on_db.keepsD [OF finish_runs [OF world]] finish unfolding finish_malformed_def by blast
  then show ?thesis using finish_deletes [OF world inv finish [unfolded finish_malformed_def]] Inl unfolding work_kept_def by auto
next
  case (Inr queued)
  obtain answer s1 where q: "query world (get_job_scheduling_snapshot (jq_job_id queued)) s = Some (answer, s1)"
    using returnsD [OF calls_return(2)] by blast
  have log: "sd_log s1 = sd_log s" and db: "answer = get_job_scheduling_snapshot (jq_job_id queued) (sd_db s1)"
    using q by (auto simp: query_def repository_def repo_call_def Let_def)
  have run: "repo_step\<^sup>*\<^sup>* (sd_db s) (sd_db s1)" by (rule runs.on_db.keepsD [OF runs.query_in [OF world] q])
  have inv1: "full_inv (sd_db s1)" using run repo.run_invariant inv by blast
  let ?lost = "dead_letter_and_finish world cfg message sq 1 (Some (jq_job_id queued)) (Some (jq_project_id queued)) CanonicalJobInconsistent
    (extract_trace_headers headers)"
  from step consider (error) "s' = s1" | (missing) "answer = Inr None" "?lost s1 = Some (r, s')"
    | (known) sn where "answer = Inr (Some sn)" "recover_known world cfg message sq queued sn (extract_trace_headers headers) s1 = Some (r, s')"
    unfolding recover_source_def Let_def Inr
    by (auto simp: and_then_def map_failure_def q split: sum.splits option.splits)
  then show ?thesis
  proof cases
    case error
    then show ?thesis using run log by auto
  next
    case missing
    have "repo_step\<^sup>*\<^sup>* (sd_db s1) (sd_db s')" by (rule runs.on_db.keepsD [OF finish_runs [OF world] missing(2)])
    moreover obtain new where "sd_log s' = sd_log s @ new" "\<And>q. SourceDeleted q \<in> set new \<Longrightarrow> q = sq \<and> dead_lettered sq (sd_db s')"
      using finish_deletes [OF world inv1 missing(2)] log by auto
    ultimately show ?thesis
      by (intro exI [of _ new] exI [of _ "sd_db s1"]) (use run db missing(1) Inr in \<open>auto simp: work_kept_def split: sum.splits option.splits\<close>)
  next
    case known
    have "repo_step\<^sup>*\<^sup>* (sd_db s1) (sd_db s')" by (rule runs.on_db.keepsD [OF recover_known_runs [OF world] known(2)])
    moreover obtain new where "sd_log s' = sd_log s @ new" "\<And>q. SourceDeleted q \<in> set new \<Longrightarrow> q = sq
        \<and> (is_terminal (job_state (sn_job sn)) \<or> (\<exists>headers. Published JOBS_QUEUED_SUBJECT headers (QueuedPayload (sn_queued sn)) \<in> set new)
          \<or> (sn_pending_outcome sn = Some JobOutcome.InfraFailed \<and> sn_lease sn = None \<and> dead_lettered sq (sd_db s')))"
      using recover_known_kept [OF world inv1 known(2)] log by metis
    ultimately show ?thesis
      by (intro exI [of _ new] exI [of _ "sd_db s1"]) (use run db [symmetric] known(1) Inr in \<open>auto simp: work_kept_def\<close>)
  qed
qed

lemma recover_source_returns:
  assumes "sq \<noteq> 0"
  shows "returns (recover_source world cfg codec message sq headers source)"
proof -
  have 1: "returns (dead_letter_and_finish world cfg message sq attempt (Some job) project reason trace)" for attempt job project reason trace
    by (rule finish_returns) (use assms in auto)
  have 2: "returns (finish_malformed world cfg message sq trace)" for trace
    unfolding finish_malformed_def by (rule finish_returns) (use assms in auto)
  have 3: "returns (recover_known world cfg message sq queued sn trace)" for queued sn trace
    unfolding recover_known_def Let_def advisory_redrive_def
    by (intro returns_rules calls_return 1 redrive_returns dlq_returns confirm_returns)
  show ?thesis
    unfolding recover_source_def Let_def by (intro returns_rules calls_return 1 2 3)
qed

lemma handle_advisory_returns: "returns (handle_advisory world cfg codec message payload)"
proof -
  have "returns (and_then (await world (sw_raw world)) (\<lambda>raw. case raw of
      RawMessage headers source \<Rightarrow> recover_source world cfg codec message sq headers source
    | NoMessageFound \<Rightarrow> advisory_confirm world message | RawMessageFailed e \<Rightarrow> fail_with (AdvSource e)))" if "sq \<noteq> 0" for sq
    by (intro returns_and_then calls_return)
      (auto intro: recover_source_returns [OF that] confirm_returns returns_pure split: RawMessageAnswer.splits)
  then show ?thesis
    unfolding handle_advisory_def by (auto intro: confirm_returns split: option.splits)
qed

section \<open>Property\<close>


text \<open>An advisory for the message of the sample job while a worker holds it: the message is redriven.\<close>

definition sample_advisory_world :: "string SchedWorld" where
  "sample_advisory_world = sample_sched_world\<lparr>sw_raw := (\<lambda>_. RawMessage (\<lambda>_. None) ''q'')\<rparr>"

definition sample_advisory_codec :: AdvisoryCodec where
  "sample_advisory_codec = \<lparr>ac_advisory = (\<lambda>_. Some \<lparr>ca_stream = JOB_QUEUE_STREAM, ca_consumer = JOB_DISPATCH_CONSUMER, ca_stream_seq = 7\<rparr>),
     ac_queued = (\<lambda>_. Some (Current ''job_1'' ''proj_1'' ''rtp_r'' SharedKernelPrivileged 60))\<rparr>"

definition sample_advisory_config :: AdvisoryConfig where
  "sample_advisory_config = \<lparr>av_dispatcher_id = ''scheduler'', av_max_run_attempts = 3\<rparr>"

definition sample_sched :: "string Sched" where
  "sample_sched = \<lparr>sd_control = sample_control, sd_log = []\<rparr>"

definition sample_queued :: JobQueued where
  "sample_queued = \<lparr>jq_job_id = ''job_1'', jq_project_id = ''proj_1'', jq_runtime_profile_id = ''rtp_r'',
     jq_min_isolation = SharedKernelPrivileged, jq_timeout_seconds = 60\<rparr>"

lemma sample_held:
  "\<exists>sn. get_job_scheduling_snapshot ''job_1'' db_claimed = Inr (Some sn) \<and> sn_queued sn = sample_queued \<and> sn_pending_outcome sn = None
     \<and> \<not> is_terminal (job_state (sn_job sn)) \<and> get_outbox_message (exhaustion_event_key (job_id (sn_job sn)) (max (sn_delivery_attempts sn) 1)) db_claimed = Inr None"
proof -
  have "case get_job_scheduling_snapshot ''job_1'' db_claimed of Inr (Some sn) \<Rightarrow> sn_queued sn = sample_queued \<and> sn_pending_outcome sn = None
     \<and> \<not> is_terminal (job_state (sn_job sn)) \<and> get_outbox_message (exhaustion_event_key (job_id (sn_job sn)) (max (sn_delivery_attempts sn) 1)) db_claimed = Inr None
     | _ \<Rightarrow> False" by code_simp
  then show ?thesis by (auto split: sum.splits option.splits)
qed

lemma sample_redriven:
  "\<exists>r s'. handle_advisory sample_advisory_world sample_advisory_config sample_advisory_codec ''m'' ''{}'' sample_sched = Some (r, s')
     \<and> SourceDeleted 7 \<in> set (sd_log s')"
proof -
  obtain sn where sn: "get_job_scheduling_snapshot ''job_1'' db_claimed = Inr (Some sn)" "sn_queued sn = sample_queued" "sn_pending_outcome sn = None"
    "\<not> is_terminal (job_state (sn_job sn))" "get_outbox_message (exhaustion_event_key (job_id (sn_job sn)) (max (sn_delivery_attempts sn) 1)) db_claimed = Inr None"
    using sample_held by blast
  have q: "decode_queue_payload (ac_queued sample_advisory_codec) ''q'' = Inr sample_queued"
    by (simp add: decode_queue_payload_def MAX_QUEUE_PAYLOAD_BYTES_def ensure_def sample_advisory_codec_def sample_queued_def)
  have a: "ac_advisory sample_advisory_codec x = Some \<lparr>ca_stream = JOB_QUEUE_STREAM, ca_consumer = JOB_DISPATCH_CONSUMER, ca_stream_seq = 7\<rparr>" for x
    by (simp add: sample_advisory_codec_def)
  have j: "jq_job_id sample_queued = ''job_1''" by (simp add: sample_queued_def)
  have t: "extract_trace_headers (\<lambda>_. None) = []" by code_simp
  show ?thesis
    by (simp add: handle_advisory_def MAX_ADVISORY_PAYLOAD_BYTES_def recover_source_def recover_known_def redrive_def advisory_redrive_def
      jetstream_publish_def delete_source_def advisory_confirm_def acknowledge_def record_effect_def registry_def traced_headers_def
      await_def query_def repository_def repo_call_def Let_def and_then_def outcome_of_def map_failure_def succeed_def reading_def
      modify_def answered_def marked_exhausted_def q a j t sn sample_advisory_world_def sample_sched_def sample_advisory_config_def
      sample_sched_world_def sample_world_def sample_control_def send_ack_def)
qed


end
