(* ===== verification/Dispatcher_Safety.thy ===== *)
theory Dispatcher_Safety
  imports Dispatcher_Buffer Advisory_Safety
begin

text \<open>
  Fencing of the dispatcher: a worker is asked to run a job only under a claim that a transaction of
  the tick granted it.  The relation below holds between the states before and after every part of a
  tick, so it lifts to the whole tick.
\<close>

definition granted :: "db \<Rightarrow> db \<Rightarrow> string \<Rightarrow> JobDispatch \<Rightarrow> bool" where
  "granted d d' subject dispatch \<longleftrightarrow> (let claim = jd_claim dispatch in
     subject = worker_dispatch_subject (cl_worker_id claim) \<and>
     (\<exists>d1 d2 row. repo_step\<^sup>*\<^sup>* d d1 \<and> repo_step\<^sup>*\<^sup>* d1 d2 \<and> repo_step\<^sup>*\<^sup>* d2 d'
        \<and> lock_job (cl_job_id claim) d1 = Some row \<and> jr_state row = Queued \<and> jr_worker_id row = None \<and> jr_lease_id row = None
        \<and> runs_under (cl_job_id claim) (cl_worker_id claim) (cl_lease_id claim) d2))"

definition fenced :: "('m, 'z) Sched_scheme \<Rightarrow> ('m, 'z) Sched_scheme \<Rightarrow> bool" where
  "fenced s s' \<longleftrightarrow> (full_inv (sd_db s) \<longrightarrow> repo_step\<^sup>*\<^sup>* (sd_db s) (sd_db s') \<and>
     (\<exists>new. sd_log s' = sd_log s @ new \<and> (\<forall>subject headers dispatch. DispatchRequested subject headers dispatch \<in> set new \<longrightarrow>
        granted (sd_db s) (sd_db s') subject dispatch)))"

lemma granted_widen:
  assumes "granted d1 d2 subject dispatch" and "repo_step\<^sup>*\<^sup>* d d1" and "repo_step\<^sup>*\<^sup>* d2 d'"
  shows "granted d d' subject dispatch"
proof -
  let ?job = "cl_job_id (jd_claim dispatch)"
  let ?runs = "runs_under ?job (cl_worker_id (jd_claim dispatch)) (cl_lease_id (jd_claim dispatch))"
  from assms(1) obtain e1 e2 row where 1: "repo_step\<^sup>*\<^sup>* d1 e1" "repo_step\<^sup>*\<^sup>* e1 e2" "repo_step\<^sup>*\<^sup>* e2 d2"
    "lock_job ?job e1 = Some row" "jr_state row = Queued" "jr_worker_id row = None" "jr_lease_id row = None" "?runs e2"
    and subject: "subject = worker_dispatch_subject (cl_worker_id (jd_claim dispatch))"
    unfolding granted_def Let_def by blast
  have "repo_step\<^sup>*\<^sup>* d e1" "repo_step\<^sup>*\<^sup>* e2 d'" using rtranclp_trans [OF assms(2) 1(1)] rtranclp_trans [OF 1(3) assms(3)] .
  then show ?thesis using 1 subject unfolding granted_def Let_def by blast
qed

lemma fenced_trans: "fenced s s1 \<Longrightarrow> fenced s1 s' \<Longrightarrow> fenced s s'"
proof -
  assume a: "fenced s s1" and b: "fenced s1 s'"
  show "fenced s s'"
    unfolding fenced_def
  proof (intro impI)
    assume inv: "full_inv (sd_db s)"
    from a inv obtain new where 1: "repo_step\<^sup>*\<^sup>* (sd_db s) (sd_db s1)" "sd_log s1 = sd_log s @ new"
      "\<And>x h y. DispatchRequested x h y \<in> set new \<Longrightarrow> granted (sd_db s) (sd_db s1) x y" unfolding fenced_def by blast
    have "full_inv (sd_db s1)" using 1(1) inv by (rule repo.run_invariant)
    with b obtain new' where 2: "repo_step\<^sup>*\<^sup>* (sd_db s1) (sd_db s')" "sd_log s' = sd_log s1 @ new'"
      "\<And>x h y. DispatchRequested x h y \<in> set new' \<Longrightarrow> granted (sd_db s1) (sd_db s') x y" unfolding fenced_def by blast
    have "granted (sd_db s) (sd_db s') x y" if "DispatchRequested x h y \<in> set (new @ new')" for x h y
      using that granted_widen [OF 1(3) rtranclp.rtrancl_refl 2(1)] granted_widen [OF 2(3) 1(1) rtranclp.rtrancl_refl] by auto
    then show "repo_step\<^sup>*\<^sup>* (sd_db s) (sd_db s') \<and> (\<exists>new. sd_log s' = sd_log s @ new \<and> (\<forall>subject headers dispatch.
        DispatchRequested subject headers dispatch \<in> set new \<longrightarrow> granted (sd_db s) (sd_db s') subject dispatch))"
      using rtranclp_trans [OF 1(1) 2(1)] 1(2) 2(2) by (intro conjI exI [of _ "new @ new'"]) auto
  qed
qed

interpretation fence: action_relation fenced
proof unfold_locales
  show "fenced s s" for s :: "('a, 'b) Sched_scheme" by (simp add: fenced_def)
qed (rule fenced_trans)

section \<open>Parts that ask no worker\<close>

abbreviation asks_nobody :: "Effect \<Rightarrow> bool" where
  "asks_nobody eff \<equiv> \<forall>subject headers dispatch. eff \<noteq> DispatchRequested subject headers dispatch"

lemma fenceI: "runs.on_db.keeps m \<Longrightarrow> logs.keeps asks_nobody m \<Longrightarrow> fence.keeps m"
proof (rule fence.keepsI)
  fix s r s' assume "runs.on_db.keeps m" "logs.keeps asks_nobody m" "m s = Some (r, s')"
  then have "repo_step\<^sup>*\<^sup>* (sd_db s) (sd_db s')" "logged asks_nobody s s'" using runs.on_db.keepsD logs.keepsD by blast+
  then show "fenced s s'" unfolding fenced_def logged_def list_all_iff by blast
qed

lemma fence_modify: "fence.keeps (modify (\<lambda>s :: 'm DispatcherState. s\<lparr>ds_fair := f s\<rparr>))"
  by (rule fence.keeps_modify) (auto simp: fenced_def)

lemma fence_calls:
  assumes world: "runs.world_in world"
  shows "fence.keeps (query world f)" "fence.keeps (await world answer)" "fence.keeps (registry g)" "fence.keeps (utc_now world)"
    "fence.keeps (fresh_id world)" "fence.keeps (acknowledge world kind message)"
    "fence.keeps (ensure_published world disp dl tr)" "fence.keeps (delete_source world sq)"
    "fence.keeps (redrive h1 h2 world queued trace sq)"
proof -
  show "fence.keeps (query world f)" by (intro fenceI calls_in calls_log world)
  show "fence.keeps (await world answer)" by (intro fenceI calls_in calls_log world)
  show "fence.keeps (registry g)" by (intro fenceI calls_in calls_log)
  show "fence.keeps (utc_now world)" "fence.keeps (fresh_id world)" by (intro fenceI calls_in calls_log)+
  show "fence.keeps (acknowledge world kind message)" by (intro fenceI runs.acknowledge_in acknowledge_log world)
  show "fence.keeps (ensure_published world disp dl tr)" by (intro fenceI dlq_runs dlq_log world) simp
  show "fence.keeps (delete_source world sq)" by (intro fenceI dlq_runs delete_log world) simp
  have "logs.keeps asks_nobody (redrive h1 h2 world queued trace sq)"
    unfolding redrive_def by (intro logs.keeps_rules publish_log) simp
  then show "fence.keeps (redrive h1 h2 world queued trace sq)" by (intro fenceI redrive_runs world)
qed

lemma fence_repository:
  assumes "runs.world_in world" and "\<And>t evt d. repo_step\<^sup>*\<^sup>* d (snd (operation t evt d))"
  shows "fence.keeps (repository world operation)"
  by (intro fenceI calls_log runs.repository_in assms)

lemma fence_acks:
  assumes "runs.world_in world"
  shows "fence.keeps (disp_progress world message)" and "fence.keeps (disp_confirm world message)" and "fence.keeps (try_confirm world message)"
  unfolding disp_progress_def disp_confirm_def try_confirm_def by (intro fence.keeps_rules fence_calls assms)+

lemma fence_leaving:
  assumes world: "runs.world_in world"
  shows "fence.keeps (dead_letter_delivery world cfg message sq attempt job project reason trace)"
    and "fence.keeps (dead_letter_entry world cfg entry reason attempt)"
    and "fence.keeps (finish_terminal_delivery world cfg sn message sq trace)"
    and "fence.keeps (finalize_queued_cancellation world sn)"
    and "fence.keeps (bind_or_ack_duplicate world jb lease sq message)"
proof -
  show 1: "fence.keeps (dead_letter_delivery world cfg message sq attempt job project reason trace)"
    for sq attempt job project reason trace message
    unfolding dead_letter_delivery_def by (intro fence.keeps_rules fence_calls world)
  show "fence.keeps (dead_letter_entry world cfg entry reason attempt)"
    unfolding dead_letter_entry_def Let_def by (rule 1)
  show "fence.keeps (finish_terminal_delivery world cfg sn message sq trace)"
    unfolding finish_terminal_delivery_def Let_def by (intro fence.keeps_rules fence_calls fence_acks 1 world)
  show "fence.keeps (finalize_queued_cancellation world sn)"
    unfolding finalize_queued_cancellation_def Let_def by (intro fence.keeps_rules fence_calls fence_repository repo_calls world)
  show "fence.keeps (bind_or_ack_duplicate world jb lease sq message)"
    unfolding bind_or_ack_duplicate_def Let_def by (intro fence.keeps_rules fence_calls [OF world] fence_acks [OF world])
qed

section \<open>The buffer\<close>

lemma fence_update: "fence.keeps (update_payload job f)"
  unfolding update_payload_def by (rule fence_modify)

lemma fence_requeue: "fence.keeps (requeue entry)"
  unfolding requeue_def by (intro fence.keeps_rules fence_modify)

lemma fence_progress:
  assumes "runs.world_in world"
  shows "fence.keeps (progress_if_due world interval delivery)" and "fence.keeps (progress_buffered world cfg)"
    and "fence.keeps (hold_entry world cfg entry)"
proof -
  show 1: "fence.keeps (progress_if_due world interval delivery)" for interval delivery
    unfolding progress_if_due_def by (intro fence.keeps_rules fence_calls fence_acks assms)
  show "fence.keeps (progress_buffered world cfg)"
    unfolding progress_buffered_def renew_entry_def by (intro fence.keeps_rules 1 fence_update)
  show "fence.keeps (hold_entry world cfg entry)"
    unfolding hold_entry_def by (intro fence.keeps_rules 1 fence_requeue)
qed

section \<open>A claim and the request that follows it\<close>

lemma claim_for_runs: "runs.world_in world \<Longrightarrow> runs.on_db.keeps (claim_for world cfg codec job worker)"
  unfolding claim_for_def by (intro runs.on_db.keeps_rules calls_in repo_calls)

lemma hand_over_runs: "runs.world_in world \<Longrightarrow> runs.on_db.keeps (hand_over world delivery claim)"
  unfolding hand_over_def disp_progress_def by (intro runs.on_db.keeps_rules calls_in runs.acknowledge_in)

lemma hand_over_log:
  "logs.keeps (\<lambda>eff. \<forall>x h y. eff = DispatchRequested x h y \<longrightarrow> x = worker_dispatch_subject (cl_worker_id claim) \<and> jd_claim y = claim)
     (hand_over world delivery claim)"
  unfolding hand_over_def disp_progress_def by (intro logs.keeps_rules calls_log acknowledge_log effect_log) simp

lemma claim_for_runs_under:
  assumes world: "runs.world_in world" and inv: "full_inv (sd_db s)"
    and claim: "claim_for world cfg codec job worker s = Some (Inr (Inr claim), s1)"
  obtains d1 row where "repo_step\<^sup>*\<^sup>* (sd_db s) d1" "repo_step\<^sup>*\<^sup>* d1 (sd_db s1)" "lock_job (cl_job_id claim) d1 = Some row"
    "jr_state row = Queued" "jr_worker_id row = None" "jr_lease_id row = None"
    "runs_under (cl_job_id claim) (cl_worker_id claim) (cl_lease_id claim) (sd_db s1)" "sd_log s1 = sd_log s"
proof (rule claim_for_granted [OF claim])
  fix cs t evt lease expires stale
  let ?d1 = "ce_others (cw_call (sw_control world) (cs_calls (sd_control s))) (sd_db s)"
  assume c: "claim_job_with_options cs t evt job worker lease expires stale ?d1 = (Inr claim, sd_db s1)" and log: "sd_log s1 = sd_log s"
  have run: "repo_step\<^sup>*\<^sup>* (sd_db s) ?d1" using world by (simp add: runs.world_in_def)
  have "full_inv ?d1" using run inv by (rule repo.run_invariant)
  from claim_grants [OF full_inv_core [OF this] c] obtain row where row: "lock_job job ?d1 = Some row" "jr_state row = Queued"
    "jr_worker_id row = None" "jr_lease_id row = None" "lock_job job (sd_db s1) = Some (claim_update worker lease expires (tx_clock t) row)" .
  have "repo_step\<^sup>*\<^sup>* ?d1 (snd (claim_job_with_options cs t evt job worker lease expires stale ?d1))" by (rule repo_calls)
  then have step: "repo_step\<^sup>*\<^sup>* ?d1 (sd_db s1)" by (simp add: c)
  have "runs_under job worker lease (sd_db s1)" using row(5) by (simp add: runs_under_def claim_update_def)
  then show thesis using that [OF run step] row log claim_names_job [OF c] by simp
qed

lemma fence_claimed:
  assumes world: "runs.world_in world" and claim: "claim_for world cfg codec job worker s = Some (Inr (Inr claim), s1)"
    and asked: "hand_over world delivery claim s1 = Some (r, s')"
  shows "fenced s s'"
  unfolding fenced_def
proof (intro impI)
  assume inv: "full_inv (sd_db s)"
  have last_run: "repo_step\<^sup>*\<^sup>* (sd_db s1) (sd_db s')" by (rule runs.on_db.keepsD [OF hand_over_runs [OF world] asked])
  obtain d1 row where 1: "repo_step\<^sup>*\<^sup>* (sd_db s) d1" "repo_step\<^sup>*\<^sup>* d1 (sd_db s1)" "lock_job (cl_job_id claim) d1 = Some row"
    "jr_state row = Queued" "jr_worker_id row = None" "jr_lease_id row = None"
    "runs_under (cl_job_id claim) (cl_worker_id claim) (cl_lease_id claim) (sd_db s1)" "sd_log s1 = sd_log s"
    by (rule claim_for_runs_under [OF world inv claim])
  obtain new where new: "sd_log s' = sd_log s @ new" "\<And>x h y. DispatchRequested x h y \<in> set new \<Longrightarrow>
      x = worker_dispatch_subject (cl_worker_id claim) \<and> jd_claim y = claim"
    using logs.keepsD [OF hand_over_log asked] unfolding logged_def list_all_iff 1(8) by blast
  have "granted (sd_db s) (sd_db s') x y" if "DispatchRequested x h y \<in> set new" for x h y
    using new(2) [OF that] 1 last_run unfolding granted_def Let_def by blast
  then show "repo_step\<^sup>*\<^sup>* (sd_db s) (sd_db s') \<and> (\<exists>new. sd_log s' = sd_log s @ new \<and> (\<forall>subject headers dispatch.
      DispatchRequested subject headers dispatch \<in> set new \<longrightarrow> granted (sd_db s) (sd_db s') subject dispatch))"
    using new(1) rtranclp_trans [OF rtranclp_trans [OF 1(1,2)] last_run] by blast
qed

lemma fence_claim_for: "runs.world_in world \<Longrightarrow> fence.keeps (claim_for world cfg codec job worker)"
  by (rule fenceI [OF claim_for_runs], assumption) (unfold claim_for_def, intro logs.keeps_rules calls_log)

lemma fence_try_workers:
  assumes world: "runs.world_in world"
  shows "fence.keeps (try_workers world cfg codec entry workers)"
proof (induction workers)
  case Nil
  show ?case using fence_progress(3) [OF world] by simp
next
  case (Cons w ws)
  show ?case
  proof (rule fence.keepsI)
    fix s s' :: "'a DispatcherState" and r
    assume "try_workers world cfg codec entry (w # ws) s = Some (r, s')"
    then consider (failed) er where "claim_for world cfg codec (fe_job_id entry) (ws_worker_id w) s = Some (Inl er, s')"
      | (went) claimed s1 where "claim_for world cfg codec (fe_job_id entry) (ws_worker_id w) s = Some (Inr claimed, s1)"
          "(case claimed of Inr claim \<Rightarrow> hand_over world (fe_payload entry) claim
             | Inl (QuotaExceededError _ ConcurrentJobs _ _) \<Rightarrow> hold_entry world cfg entry
             | Inl (CompareAndSwapLost _ _) \<Rightarrow> try_workers world cfg codec entry ws
             | Inl (Conflict _) \<Rightarrow> try_workers world cfg codec entry ws
             | Inl (NotFound entity i) \<Rightarrow>
                 if entity = ''worker'' then try_workers world cfg codec entry ws else fail_with (DispRepository (NotFound entity i))
             | Inl e \<Rightarrow> fail_with (DispRepository e)) s1 = Some (r, s')"
      unfolding try_workers.simps and_then_cases [of "claim_for _ _ _ _ _"] by blast
    then show "fenced s s'"
    proof cases
      case failed
      then show ?thesis by (rule fence.keepsD [OF fence_claim_for [OF world]])
    next
      case went
      then consider (claimed) c where "claimed = Inr c" "hand_over world (fe_payload entry) c s1 = Some (r, s')"
        | (other) "hold_entry world cfg entry s1 = Some (r, s') \<or> try_workers world cfg codec entry ws s1 = Some (r, s') \<or> s1 = s'"
        by (simp split: sum.splits RepositoryError.splits ProjectQuota.splits if_splits)
      then show ?thesis
      proof cases
        case claimed
        then show ?thesis using fence_claimed [OF world] went(1) by blast
      next
        case other
        have "fenced s1 s'"
          using other fence.keepsD [OF fence_progress(3) [OF world]] fence.keepsD [OF Cons.IH] fence.R_refl by blast
        then show ?thesis by (rule fence.R_trans [OF fence.keepsD [OF fence_claim_for [OF world] went(1)]])
      qed
    qed
  qed
qed

section \<open>A tick\<close>

lemma fence_dispatch_one:
  assumes world: "runs.world_in world"
  shows "fence.keeps (dispatch_one world cfg codec)"
proof -
  have pop: "fence.keeps (pop_entry world)"
    unfolding pop_entry_def by (intro fence.keeps_rules fence_calls [OF world] fence_modify)
  have workers: "fence.keeps (matching_workers world cfg sn delivery)" for sn delivery
    unfolding matching_workers_def by (intro fence.keeps_rules fence_calls [OF world])
  have entry: "fence.keeps (dispatch_entry world cfg codec e sn)" for e sn
    unfolding dispatch_entry_def Let_def
  proof (rule fence.keeps_and_then [OF fence_calls(4) [OF world]], goal_cases decided)
    case (decided now)
    show ?case
    proof (cases "classify_canonical_delivery (pd_queued (fe_payload e)) sn now")
      case AckTerminal
      then show ?thesis by (simp add: fence_leaving [OF world])
    next
      case FinalizeCancellation
      then show ?thesis by (simp add: fence.keeps_and_then fence_leaving [OF world] fence_acks [OF world])
    next
      case (Buffer lane)
      then show ?thesis
        by (simp add: fence.keeps_and_then workers fence_progress [OF world] fence_try_workers [OF world])
    next
      case (Rebind lease)
      then show ?thesis by (simp add: fence_leaving [OF world])
    next
      case HoldForReconciliation
      then show ?thesis by (simp add: fence_progress [OF world])
    next
      case (DeadLetter reason)
      then show ?thesis
        by (simp add: fence.keeps_and_then fence.keeps_pure fence_calls(9) [OF world] fence_leaving [OF world])
    qed
  qed
  show ?thesis
    unfolding dispatch_one_def by (intro fence.keeps_rules pop fence_calls [OF world] fence_leaving [OF world] entry)
qed

lemma fence_tick: "runs.world_in world \<Longrightarrow> fence.keeps (dispatch_tick world cfg codec)"
  unfolding dispatch_tick_def dispatch_step_def by (intro fence.keeps_rules fence_progress fence_dispatch_one)

text \<open>
  C14. A worker is asked to run a job only under a lease granted to it: whatever the other tasks and
  transactions do meanwhile, every request that a tick of the dispatcher sends goes to the dispatch
  subject of the worker that the claim names, and during the tick there was a database in which the job
  of the claim was queued and unassigned, followed by one in which that job ran under that worker and
  that lease.
\<close>

theorem dispatch_is_fenced:
  assumes "runs.world_in world" and "db_initial d0" and "repo_step\<^sup>*\<^sup>* d0 (sd_db s)"
    and "dispatch_tick world cfg codec s = Some (r, s')"
  shows "\<exists>new. sd_log s' = sd_log s @ new \<and> (\<forall>subject headers dispatch. DispatchRequested subject headers dispatch \<in> set new \<longrightarrow>
    granted (sd_db s) (sd_db s') subject dispatch)"
  using fence.keepsD [OF fence_tick [OF assms(1)] assms(4)] repo.reachable_invariant [OF assms(2,3)] unfolding fenced_def by blast

theorem dispatch_is_fenced_witness:
  "\<exists>s' headers dispatch. dispatch_tick sample_sched_world tick_config tick_codec tick_state = Some (Inr (), s')
     \<and> DispatchRequested ''workers.wrk_1.dispatch'' headers dispatch \<in> set (sd_log s')
     \<and> granted db_worker (sd_db s') ''workers.wrk_1.dispatch'' dispatch"
proof -
  obtain s' headers dispatch where run: "dispatch_tick sample_sched_world tick_config tick_codec tick_state = Some (Inr (), s')"
    "DispatchRequested ''workers.wrk_1.dispatch'' headers dispatch \<in> set (sd_log s')"
    using tick_dispatches by blast
  have d: "sd_db tick_state = db_worker" "sd_log tick_state = []" by (simp_all add: tick_state_def)
  have reach: "repo_step\<^sup>*\<^sup>* sample_db (sd_db tick_state)" using sample_reachable(2) d(1) by simp
  from dispatch_is_fenced [OF sample_runs sample_initial reach run(1)] obtain new where "sd_log s' = sd_log tick_state @ new"
    "\<forall>subject headers dispatch. DispatchRequested subject headers dispatch \<in> set new \<longrightarrow>
      granted (sd_db tick_state) (sd_db s') subject dispatch" by blast
  then have "granted db_worker (sd_db s') ''workers.wrk_1.dispatch'' dispatch" using run(2) unfolding d by auto
  then show ?thesis using run by blast
qed

end
