(* ===== verification/Reaper.thy ===== *)
theory Reaper
  imports Repo_Outbox Ordered_Map
begin

text \<open>
  Cleanup of runtimes (\<open>crates/scheduler/src/reaper.rs\<close>): the decision whether a runtime may be
  destroyed, the labels by which a container is recognised, and the three reapers.  A reaper is an
  instance of the locale \<open>runtime_reaper\<close>: reaping removes at most the runtime it was asked for.  The
  Docker engine's answers are arguments.  Building the HTTP client is not modelled; the engine's URLs
  are always well formed because the client is only built for \<open>http\<close> and \<open>https\<close> base URLs.
\<close>

section \<open>The decision\<close>

record RuntimeResource =
  rx_resource_id :: string
  rx_job_id :: JobId
  rx_worker_id :: WorkerId
  rx_lease_id :: LeaseId
  rx_created_at :: instant

datatype RuntimeOwnership = ActiveMatchingLease | JobMissing | JobTerminal | LeaseMismatch | Unknown

datatype ReapDecision = Reap | KeepActive | KeepInGrace | KeepUnknown

definition evaluate_reap ::
  "(duration \<Rightarrow> duration option) \<Rightarrow> RuntimeOwnership \<Rightarrow> instant option \<Rightarrow> instant \<Rightarrow> duration \<Rightarrow> ReapDecision" where
  "evaluate_reap from_std ownership unsafe_since now grace =
     (case ownership of
        ActiveMatchingLease \<Rightarrow> KeepActive
      | Unknown \<Rightarrow> KeepUnknown
      | _ \<Rightarrow>
          (case unsafe_since of
             None \<Rightarrow> KeepInGrace
           | Some since \<Rightarrow>
               (case from_std grace of
                  None \<Rightarrow> KeepInGrace
                | Some grace \<Rightarrow> if now - since < grace then KeepInGrace else Reap)))"

datatype ReapOutcome = Reaped | AlreadyAbsent | Skipped

datatype ReaperError =
    EngineRequest string
  | EngineStatus nat
  | MalformedManagedResource string string
  | InvalidResourceId
  | IdentityMismatch string

section \<open>Containers\<close>

definition MANAGED_LABEL :: string where "MANAGED_LABEL = ''io.run-anywhere.managed''"
definition JOB_ID_LABEL :: string where "JOB_ID_LABEL = ''job-id''"
definition WORKER_ID_LABEL :: string where "WORKER_ID_LABEL = ''worker-id''"
definition LEASE_ID_LABEL :: string where "LEASE_ID_LABEL = ''lease-id''"
definition RUNTIME_KIND_LABEL :: string where "RUNTIME_KIND_LABEL = ''runtime-kind''"

record DockerContainer =
  dc_id :: string
  dc_created :: int
  dc_labels :: "(string, string) btree option"

definition unwrap_or_default :: "'a list option \<Rightarrow> 'a list" where
  "unwrap_or_default labels = (case labels of None \<Rightarrow> [] | Some l \<Rightarrow> l)"

definition valid_resource_id :: "string \<Rightarrow> bool" where
  "valid_resource_id resource_id \<longleftrightarrow> resource_id \<noteq> [] \<and> length resource_id \<le> 128
     \<and> list_all (\<lambda>b. is_ascii_alphanumeric b \<or> b \<in> {CHR ''_'', CHR ''-'', CHR ''.''}) resource_id"

definition valid_runtime_kind :: "string \<Rightarrow> bool" where
  "valid_runtime_kind kind \<longleftrightarrow>
     kind \<in> {''android_emulator_container'', ''redroid'', ''cuttlefish'', ''browser_native_wasm''}"

definition required_label :: "(string, string) btree \<Rightarrow> string \<Rightarrow> string \<Rightarrow> ReaperError + string" where
  "required_label labels resource_id label =
     (case bt_get label labels of
        Some v \<Rightarrow> if v \<noteq> [] then Inr v else Inl (MalformedManagedResource resource_id label)
      | None \<Rightarrow> Inl (MalformedManagedResource resource_id label))"

definition parsed_label ::
  "(string \<Rightarrow> PrimitiveValidationError + string) \<Rightarrow> (string, string) btree \<Rightarrow> string \<Rightarrow> string \<Rightarrow> ReaperError + string" where
  "parsed_label parse labels resource_id label =
     bind_result (required_label labels resource_id label) (\<lambda>v.
       map_err (\<lambda>_. MalformedManagedResource resource_id label) (parse v))"

text \<open>\<open>from_timestamp\<close> is the conversion of a Unix time in seconds.\<close>

definition runtime_from_container ::
  "(int \<Rightarrow> instant option) \<Rightarrow> DockerContainer \<Rightarrow> ReaperError + RuntimeResource" where
  "runtime_from_container from_timestamp container =
     bind_result (ensure (valid_resource_id (dc_id container)) InvalidResourceId) (\<lambda>_.
       let labels = unwrap_or_default (dc_labels container); rid = dc_id container
       in bind_result (required_label labels rid MANAGED_LABEL) (\<lambda>managed.
          bind_result (ensure (managed = ''true'') (MalformedManagedResource rid MANAGED_LABEL)) (\<lambda>_.
          bind_result (parsed_label JobId_new labels rid JOB_ID_LABEL) (\<lambda>job.
          bind_result (parsed_label WorkerId_new labels rid WORKER_ID_LABEL) (\<lambda>worker.
          bind_result (parsed_label LeaseId_new labels rid LEASE_ID_LABEL) (\<lambda>lease.
          bind_result (required_label labels rid RUNTIME_KIND_LABEL) (\<lambda>kind.
          bind_result (ensure (valid_runtime_kind kind) (MalformedManagedResource rid RUNTIME_KIND_LABEL)) (\<lambda>_.
          bind_result (ok_or (from_timestamp (dc_created container)) (MalformedManagedResource rid ''created_at'')) (\<lambda>created.
            Inr \<lparr>rx_resource_id = rid, rx_job_id = job, rx_worker_id = worker, rx_lease_id = lease,
              rx_created_at = created\<rparr>)))))))))"

definition labels_match_resource :: "(string, string) btree \<Rightarrow> RuntimeResource \<Rightarrow> bool" where
  "labels_match_resource labels r \<longleftrightarrow> bt_get MANAGED_LABEL labels = Some ''true''
     \<and> bt_get JOB_ID_LABEL labels = Some (rx_job_id r) \<and> bt_get WORKER_ID_LABEL labels = Some (rx_worker_id r)
     \<and> bt_get LEASE_ID_LABEL labels = Some (rx_lease_id r)
     \<and> (case bt_get RUNTIME_KIND_LABEL labels of None \<Rightarrow> False | Some kind \<Rightarrow> valid_runtime_kind kind)"

section \<open>The reapers\<close>

definition noop_inventory :: "unit \<Rightarrow> ReaperError + RuntimeResource list" where
  "noop_inventory _ = Inr []"

definition noop_reap :: "RuntimeResource \<Rightarrow> unit \<Rightarrow> (ReaperError + ReapOutcome) \<times> unit" where
  "noop_reap resource state = (Inr Skipped, state)"

record MemoryState =
  ms_resources :: "(string, RuntimeResource) btree"
  ms_reaped :: "(string, unit) btree"

definition memory_new :: "RuntimeResource list \<Rightarrow> MemoryState" where
  "memory_new resources = \<lparr>ms_resources = fold (\<lambda>r. bt_put (rx_resource_id r) r) resources [], ms_reaped = []\<rparr>"

definition reaped_ids :: "MemoryState \<Rightarrow> string list" where
  "reaped_ids state = map fst (ms_reaped state)"

definition memory_inventory :: "MemoryState \<Rightarrow> ReaperError + RuntimeResource list" where
  "memory_inventory state = Inr (map snd (ms_resources state))"

definition memory_reap :: "RuntimeResource \<Rightarrow> MemoryState \<Rightarrow> (ReaperError + ReapOutcome) \<times> MemoryState" where
  "memory_reap resource state =
     (case bt_get (rx_resource_id resource) (ms_resources state) of
        None \<Rightarrow> (Inr AlreadyAbsent, state)
      | Some stored \<Rightarrow>
          if stored \<noteq> resource then (Inl (IdentityMismatch (rx_resource_id resource)), state)
          else (Inr Reaped, state\<lparr>ms_resources := bt_del (rx_resource_id resource) (ms_resources state),
                  ms_reaped := bt_put (rx_resource_id resource) () (ms_reaped state)\<rparr>))"

text \<open>The Docker engine: a transport error, or a status with a body that may not decode.\<close>

type_synonym 'b engine_answer = "string + (nat \<times> 'b option)"

definition is_success :: "nat \<Rightarrow> bool" where
  "is_success status \<longleftrightarrow> 200 \<le> status \<and> status < 300"

definition docker_inventory ::
  "(int \<Rightarrow> instant option) \<Rightarrow> DockerContainer list engine_answer \<Rightarrow> ReaperError + RuntimeResource list" where
  "docker_inventory from_timestamp answer =
     bind_result (map_err EngineRequest answer) (\<lambda>(status, body).
     bind_result (ensure (is_success status) (EngineStatus status)) (\<lambda>_.
     bind_result (ok_or body (EngineRequest ''error decoding response body'')) (\<lambda>containers.
       collect_results (runtime_from_container from_timestamp) containers)))"

definition inspect_matches ::
  "(string, string) btree option engine_answer \<Rightarrow> RuntimeResource \<Rightarrow> ReaperError + bool option" where
  "inspect_matches answer resource =
     bind_result (map_err EngineRequest answer) (\<lambda>(status, body).
       if status = 404 then Inr None
       else bind_result (ensure (is_success status) (EngineStatus status)) (\<lambda>_.
            bind_result (ok_or body (EngineRequest ''error decoding response body'')) (\<lambda>labels.
              Inr (Some (labels_match_resource (unwrap_or_default labels) resource)))))"

definition docker_reap ::
  "(string, string) btree option engine_answer \<Rightarrow> unit engine_answer \<Rightarrow> RuntimeResource \<Rightarrow> ReaperError + ReapOutcome" where
  "docker_reap inspect delete resource =
     bind_result (ensure (valid_resource_id (rx_resource_id resource)) InvalidResourceId) (\<lambda>_.
     bind_result (inspect_matches inspect resource) (\<lambda>found.
       case found of
         None \<Rightarrow> Inr AlreadyAbsent
       | Some False \<Rightarrow> Inl (IdentityMismatch (rx_resource_id resource))
       | Some True \<Rightarrow>
           bind_result (map_err EngineRequest delete) (\<lambda>(status, _).
             if is_success status then Inr Reaped
             else if status = 404 then Inr AlreadyAbsent else Inl (EngineStatus status))))"

section \<open>The contract of a reaper\<close>

locale runtime_reaper =
  fixes inventory :: "'r \<Rightarrow> ReaperError + RuntimeResource list"
    and reap :: "RuntimeResource \<Rightarrow> 'r \<Rightarrow> (ReaperError + ReapOutcome) \<times> 'r"
    and present :: "'r \<Rightarrow> RuntimeResource set"
    and invariant :: "'r \<Rightarrow> bool"
  assumes inventory_present: "invariant s \<Longrightarrow> inventory s = Inr rs \<Longrightarrow> set rs = present s"
    and reap_invariant: "invariant s \<Longrightarrow> invariant (snd (reap x s))"
    and reap_exact: "invariant s \<Longrightarrow> present (snd (reap x s)) = (if fst (reap x s) = Inr Reaped then present s - {x} else present s)"
begin

text \<open>Whatever sequence of runtimes is reaped, nothing else disappears.\<close>

fun reap_all :: "RuntimeResource list \<Rightarrow> 'r \<Rightarrow> 'r" where
  "reap_all [] s = s"
| "reap_all (x # xs) s = reap_all xs (snd (reap x s))"

lemma reap_all_spares:
  "invariant s \<Longrightarrow> invariant (reap_all xs s) \<and> present s - set xs \<subseteq> present (reap_all xs s) \<and> present (reap_all xs s) \<subseteq> present s"
proof (induction xs arbitrary: s)
  case (Cons x xs)
  then have "invariant (snd (reap x s))" using reap_invariant by blast
  from Cons.IH [OF this] show ?case using reap_exact [OF Cons.prems, of x] by (auto split: if_splits)
qed simp

end

interpretation noop: runtime_reaper noop_inventory noop_reap "\<lambda>_. {}" "\<lambda>_. True"
  by unfold_locales (auto simp: noop_inventory_def noop_reap_def)

definition resources_inv :: "(string, RuntimeResource) btree \<Rightarrow> bool" where
  "resources_inv m \<longleftrightarrow> bt_inv m \<and> (\<forall>k r. bt_get k m = Some r \<longrightarrow> k = rx_resource_id r)"

definition memory_present :: "MemoryState \<Rightarrow> RuntimeResource set" where
  "memory_present s = {r. bt_get (rx_resource_id r) (ms_resources s) = Some r}"

lemma resources_inv_put: "resources_inv m \<Longrightarrow> resources_inv (bt_put (rx_resource_id r) r m)"
  unfolding resources_inv_def by (auto simp: bt_inv_put bt_get_put split: if_splits)

lemma resources_inv_del: "resources_inv m \<Longrightarrow> resources_inv (bt_del k m)"
  unfolding resources_inv_def by (auto simp: bt_inv_del bt_get_del split: if_splits)

lemma resources_inv_values: "resources_inv m \<Longrightarrow> snd ` set m = {r. bt_get (rx_resource_id r) m = Some r}"
proof (rule set_eqI)
  fix r assume m: "resources_inv m"
  have "r \<in> snd ` set m \<longleftrightarrow> (\<exists>k. bt_get k m = Some r)"
    using m bt_in_iff unfolding resources_inv_def by force
  then show "r \<in> snd ` set m \<longleftrightarrow> r \<in> {r. bt_get (rx_resource_id r) m = Some r}"
    using m unfolding resources_inv_def by blast
qed

lemma memory_new_inv: "resources_inv (ms_resources (memory_new rs))"
proof -
  have "resources_inv m \<Longrightarrow> resources_inv (fold (\<lambda>r. bt_put (rx_resource_id r) r) rs m)" for m
    by (induction rs arbitrary: m) (simp_all add: resources_inv_put)
  moreover have "resources_inv []" by (simp add: resources_inv_def)
  ultimately show ?thesis by (simp add: memory_new_def)
qed

interpretation memory: runtime_reaper memory_inventory memory_reap memory_present "\<lambda>s. resources_inv (ms_resources s)"
proof (unfold_locales, goal_cases)
  case (1 s rs)
  then show ?case using resources_inv_values [OF 1(1)] by (auto simp: memory_inventory_def memory_present_def)
next
  case (2 s x)
  then show ?case by (simp add: memory_reap_def resources_inv_del split: option.splits)
next
  case (3 s x)
  show ?case
  proof (cases "bt_get (rx_resource_id x) (ms_resources s) = Some x")
    case True
    then show ?thesis by (auto simp: memory_reap_def memory_present_def bt_get_del)
  next
    case False
    then show ?thesis by (simp add: memory_reap_def memory_present_def split: option.splits)
  qed
qed

section \<open>Labels\<close>

text \<open>An inventoried container carries exactly the labels the deletion checks.\<close>

lemma inventoried_matches:
  "runtime_from_container ft c = Inr r \<Longrightarrow> labels_match_resource (unwrap_or_default (dc_labels c)) r"
  by (auto simp: runtime_from_container_def Let_def parsed_label_def required_label_def labels_match_resource_def statement_inv
      JobId_new_def WorkerId_new_def LeaseId_new_def identifier_new_iff split: option.splits if_splits)

lemma docker_reap_fenced:
  "docker_reap inspect delete r = Inr Reaped \<Longrightarrow>
     \<exists>status labels. inspect = Inr (status, Some labels) \<and> labels_match_resource (unwrap_or_default labels) r"
  by (auto simp: docker_reap_def inspect_matches_def statement_inv split: option.splits bool.splits if_splits)

end
