(* ===== verification/Reconciler.thy ===== *)
theory Reconciler
  imports Dlq Reaper Repo_Sessions
begin

text \<open>
  The leader's repair loop (\<open>crates/scheduler/src/reconciler.rs\<close>): recovery of stale leases, cleanup of
  orphaned runtimes, finalisation of jobs nobody owns, expiry of debug sessions, and publication of
  dead letters.  The runtimes are a state of the reaper's own, which the surroundings may change
  before every call to it.  Iteration over a \<open>HashMap\<close> takes the order the world gives.  Metrics and
  log messages are dropped.
\<close>

section \<open>State\<close>

record ReconcilerConfig =
  rt_stale_worker_threshold :: duration
  rt_reap_grace :: duration
  rt_max_run_attempts :: u32
  rt_dispatcher_id :: string

record ('m, 'r) ReconcilerState = "'m Sched" +
  rs_runtimes :: 'r
  rs_pending_exhausted :: "(JobId, LeaseGuard) btree"
  rs_pending_cancellations :: "(JobId, LeaseGuard) btree"
  rs_orphan_observations :: "(string, RuntimeResource \<times> instant) btree"

record ('m, 'r) ReconcilerWorld =
  rw_world :: "'m SchedWorld"
  rw_inventory :: "'r \<Rightarrow> ReaperError + RuntimeResource list"
  rw_reap :: "RuntimeResource \<Rightarrow> 'r \<Rightarrow> (ReaperError + ReapOutcome) \<times> 'r"
  rw_runtimes :: "nat \<Rightarrow> 'r \<Rightarrow> 'r"
  rw_order :: "nat \<Rightarrow> (JobId \<times> LeaseGuard) list \<Rightarrow> (JobId \<times> LeaseGuard) list"

datatype ReconcilerError =
    RecRepository RepositoryError
  | RecDlq DlqError
  | RecReaper ReaperError
  | InvalidJobId string
  | InvalidExhaustionMarker string

record ReconcileReport =
  rr_requeued :: u32
  rr_exhausted :: u32
  rr_finalized :: u32
  rr_debug_sessions_ended :: u32
  rr_runtimes_reaped :: u32

definition empty_report :: ReconcileReport where
  "empty_report = \<lparr>rr_requeued = 0, rr_exhausted = 0, rr_finalized = 0, rr_debug_sessions_ended = 0, rr_runtimes_reaped = 0\<rparr>"

definition RECONCILE_BATCH :: u32 where "RECONCILE_BATCH = 200"
definition RECONCILER_ACTOR :: string where "RECONCILER_ACTOR = ''scheduler-reconciler''"

type_synonym ('m, 'r, 'e, 'a) reconcile = "(('m, 'r) ReconcilerState, 'e, 'a) action"

text \<open>One call of the reaper.\<close>

definition runtime_call ::
  "('m, 'r) ReconcilerWorld \<Rightarrow> ('r \<Rightarrow> 'a \<times> 'r) \<Rightarrow> ('m, 'r, 'e, 'a) reconcile" where
  "runtime_call world f =
     and_then (await (rw_world world) (\<lambda>n. n)) (\<lambda>n.
     and_then (reading (\<lambda>s. f (rw_runtimes world n (rs_runtimes s)))) (\<lambda>(answer, runtimes).
     and_then (modify (\<lambda>s. s\<lparr>rs_runtimes := runtimes\<rparr>)) (\<lambda>_. succeed answer)))"

section \<open>Stale leases\<close>

definition recover_one ::
  "('m, 'r) ReconcilerWorld \<Rightarrow> ReconcilerConfig \<Rightarrow> StaleJob \<Rightarrow> ReconcileReport \<Rightarrow>
   ('m, 'r, ReconcilerError, ReconcileReport) reconcile" where
  "recover_one world cfg stale report =
     (let lease = \<lparr>lg_worker_id = st_worker_id stale, lg_lease_id = st_lease_id stale\<rparr>; w = rw_world world
      in and_then (map_failure RecRepository (repository w (\<lambda>t evt. recover_stale_job t evt stale (rt_max_run_attempts cfg)))) (\<lambda>disposition.
         case disposition of
           Requeued _ \<Rightarrow>
             and_then (await w (\<lambda>_. ())) (\<lambda>_.
             and_then (registry (ack_nak (cw_ack (sw_control w)) (st_job_id stale) (st_worker_id stale) (st_lease_id stale)
               (Some 100000))) (\<lambda>_.
             succeed (report\<lparr>rr_requeued := saturating_inc (rr_requeued report)\<rparr>)))
         | Finalizing _ \<Rightarrow>
             and_then (modify (\<lambda>s. s\<lparr>rs_pending_exhausted := bt_put (st_job_id stale) lease (rs_pending_exhausted s)\<rparr>)) (\<lambda>_.
             succeed (report\<lparr>rr_exhausted := saturating_inc (rr_exhausted report)\<rparr>))
         | Cancelling _ \<Rightarrow>
             and_then (modify (\<lambda>s. s\<lparr>rs_pending_cancellations := bt_put (st_job_id stale) lease (rs_pending_cancellations s)\<rparr>)) (\<lambda>_.
             succeed report)
         | LostRace \<Rightarrow> succeed report))"

section \<open>Runtimes\<close>

definition ownership_of_snapshot ::
  "RuntimeResource \<Rightarrow> RepositoryError + JobSchedulingSnapshot option \<Rightarrow> RuntimeOwnership" where
  "ownership_of_snapshot resource answer =
     (case answer of
        Inr None \<Rightarrow> JobMissing
      | Inr (Some snapshot) \<Rightarrow>
          if is_terminal (job_state (sn_job snapshot)) then JobTerminal
          else if (case sn_lease snapshot of None \<Rightarrow> False
                   | Some lease \<Rightarrow> lg_worker_id lease = rx_worker_id resource \<and> lg_lease_id lease = rx_lease_id resource)
          then ActiveMatchingLease else LeaseMismatch
      | Inl _ \<Rightarrow> Unknown)"

definition runtime_ownership ::
  "('m, 'r) ReconcilerWorld \<Rightarrow> RuntimeResource \<Rightarrow> ('m, 'r, 'e, RuntimeOwnership) reconcile" where
  "runtime_ownership world resource =
     and_then (outcome_of (query (rw_world world) (get_job_scheduling_snapshot (rx_job_id resource))))
       (\<lambda>answer. succeed (ownership_of_snapshot resource answer))"

definition observe ::
  "RuntimeResource \<Rightarrow> RuntimeOwnership \<Rightarrow> instant \<Rightarrow> (string, RuntimeResource \<times> instant) btree \<Rightarrow>
   instant option \<times> (string, RuntimeResource \<times> instant) btree" where
  "observe resource ownership now observations =
     (if ownership \<in> {ActiveMatchingLease, Unknown} then (None, bt_del (rx_resource_id resource) observations)
      else
        let observation = (case bt_get (rx_resource_id resource) observations of
              Some (observed, first_seen) \<Rightarrow> if observed \<noteq> resource then (resource, now) else (observed, first_seen)
            | None \<Rightarrow> (resource, now))
        in (Some (snd observation), bt_put (rx_resource_id resource) observation observations))"

definition observe_runtime_ownership ::
  "RuntimeResource \<Rightarrow> RuntimeOwnership \<Rightarrow> instant \<Rightarrow> ('m, 'r, 'e, instant option) reconcile" where
  "observe_runtime_ownership resource ownership now =
     and_then (reading (\<lambda>s. observe resource ownership now (rs_orphan_observations s))) (\<lambda>(since, observations).
     and_then (modify (\<lambda>s. s\<lparr>rs_orphan_observations := observations\<rparr>)) (\<lambda>_. succeed since))"

definition forget_observation :: "string \<Rightarrow> ('m, 'r, 'e, unit) reconcile" where
  "forget_observation rid = modify (\<lambda>s. s\<lparr>rs_orphan_observations := bt_del rid (rs_orphan_observations s)\<rparr>)"

text \<open>The result of the pass so far: jobs with a runtime, runtimes seen, runtimes reaped.\<close>

type_synonym pass = "JobId set \<times> string set \<times> u32"

definition reap_one ::
  "('m, 'r) ReconcilerWorld \<Rightarrow> RuntimeResource \<Rightarrow> pass \<Rightarrow> ('m, 'r, ReconcilerError, pass) reconcile" where
  "reap_one world resource pass =
     (case pass of (remaining, inventoried, reaped) \<Rightarrow>
      and_then (record_effect (ReapRequested (rx_resource_id resource) (rx_job_id resource) (rx_worker_id resource)
        (rx_lease_id resource))) (\<lambda>_.
      and_then (runtime_call world (rw_reap world resource)) (\<lambda>answer. case answer of
          Inr Reaped \<Rightarrow>
            and_then (forget_observation (rx_resource_id resource)) (\<lambda>_. succeed (remaining, inventoried, saturating_inc reaped))
        | Inr AlreadyAbsent \<Rightarrow>
            and_then (forget_observation (rx_resource_id resource)) (\<lambda>_. succeed (remaining, inventoried, reaped))
        | Inr Skipped \<Rightarrow> succeed (insert (rx_job_id resource) remaining, inventoried, reaped)
        | Inl _ \<Rightarrow> succeed (insert (rx_job_id resource) remaining, inventoried, reaped))))"

definition reconcile_runtime ::
  "('m, 'r) ReconcilerWorld \<Rightarrow> ReconcilerConfig \<Rightarrow> instant \<Rightarrow> RuntimeResource \<Rightarrow> pass \<Rightarrow>
   ('m, 'r, ReconcilerError, pass) reconcile" where
  "reconcile_runtime world cfg now resource pass =
     (case pass of (remaining, inventoried, reaped) \<Rightarrow>
      let inventoried = insert (rx_resource_id resource) inventoried
      in and_then (runtime_ownership world resource) (\<lambda>ownership.
         and_then (observe_runtime_ownership resource ownership now) (\<lambda>unsafe_since.
         case evaluate_reap (sw_from_std (rw_world world)) ownership unsafe_since now (rt_reap_grace cfg) of
           Reap \<Rightarrow> reap_one world resource (remaining, inventoried, reaped)
         | _ \<Rightarrow> succeed (insert (rx_job_id resource) remaining, inventoried, reaped))))"

definition reconcile_runtimes ::
  "('m, 'r) ReconcilerWorld \<Rightarrow> ReconcilerConfig \<Rightarrow> instant \<Rightarrow> ('m, 'r, ReconcilerError, JobId set \<times> u32) reconcile" where
  "reconcile_runtimes world cfg now =
     and_then (runtime_call world (\<lambda>r. (rw_inventory world r, r))) (\<lambda>answer.
     and_then (answered (map_err RecReaper answer)) (\<lambda>resources.
     and_then (for_each (reconcile_runtime world cfg now) resources ({}, {}, 0)) (\<lambda>(remaining, inventoried, reaped).
     and_then (modify (\<lambda>s. s\<lparr>rs_orphan_observations := filter (\<lambda>(rid, _). rid \<in> inventoried) (rs_orphan_observations s)\<rparr>)) (\<lambda>_.
       succeed (remaining, reaped)))))"

section \<open>Finalisation\<close>

definition finalizable_ids :: "db \<Rightarrow> string list" where
  "finalizable_ids d = map jr_id (take (unat RECONCILE_BATCH) (sort_key (\<lambda>r. (jr_created_at r, jr_id r))
     (filter (\<lambda>r. jr_state r \<in> {CollectingArtifacts, CleaningUp}
        \<and> jr_pending_outcome r \<in> {Some JobOutcome.Cancelled, Some JobOutcome.InfraFailed}) (db_jobs d))))"

definition to_cleanup ::
  "'m SchedWorld \<Rightarrow> JobId \<Rightarrow> JobOutcome \<Rightarrow> JobSchedulingSnapshot \<Rightarrow>
   (('m, 'z) Sched_scheme, ReconcilerError, JobSchedulingSnapshot) action" where
  "to_cleanup w job oc snapshot =
     (if job_state (sn_job snapshot) \<noteq> CollectingArtifacts then succeed snapshot
      else and_then (map_failure RecRepository (repository w (\<lambda>t evt. transition_job_state t evt job CollectingArtifacts CleaningUp
             \<lparr>pending_outcome = Some oc, artifacts_finalized = True, cleanup_completed = False\<rparr> None
             [(''finalizer'', EvText ''confirmed_empty_or_unrecoverable'')]))) (\<lambda>_.
           and_then (map_failure RecRepository (query w (get_job_scheduling_snapshot job))) expect))"

text \<open>
  The mutex guard taken in the scrutinee of the \<open>if let\<close> lives until the end of its block, and the
  removal there locks the same \<open>tokio\<close> mutex again, which is not reentrant: that branch never returns.
\<close>

definition settle_cancellation ::
  "('m, 'r) ReconcilerWorld \<Rightarrow> JobId \<Rightarrow> ('m, 'r, ReconcilerError, unit) reconcile" where
  "settle_cancellation world job =
     and_then (reading (\<lambda>s. bt_get job (rs_pending_cancellations s))) (\<lambda>pending. case pending of
         None \<Rightarrow> succeed ()
       | Some lease \<Rightarrow>
           and_then (outcome_of (confirm_registered (rw_world world) job (lg_worker_id lease) (lg_lease_id lease))) (\<lambda>answer.
             case answer of
               Inl (AckStaleLease _) \<Rightarrow> succeed ()
             | Inl (AckJetStream _) \<Rightarrow> succeed ()
             | _ \<Rightarrow> never_returns))"

definition retire_registered ::
  "'m SchedWorld \<Rightarrow> JobId \<Rightarrow> LeaseGuard \<Rightarrow> (('m, 'z) Sched_scheme, ReconcilerError, unit) action" where
  "retire_registered w job lease =
     and_then (registry (ack_take job (lg_worker_id lease) (lg_lease_id lease))) (\<lambda>taken. case taken of
         Inr binding \<Rightarrow> map_failure RecDlq (retire_delivery w binding)
       | Inl _ \<Rightarrow> succeed ())"

definition settle_exhaustion ::
  "('m, 'r) ReconcilerWorld \<Rightarrow> ReconcilerConfig \<Rightarrow> JobId \<Rightarrow> JobSchedulingSnapshot \<Rightarrow> ('m, 'r, ReconcilerError, unit) reconcile" where
  "settle_exhaustion world cfg job snapshot =
     (let w = rw_world world in
      and_then (utc_now w) (\<lambda>now.
      and_then (expect (case dead_letter_new (Some (job_id (sn_job snapshot))) (Some (job_project_id (sn_job snapshot))) None
          (max (sn_delivery_attempts snapshot) 1) AttemptsExhausted now of Inr dl \<Rightarrow> Some dl | Inl _ \<Rightarrow> None)) (\<lambda>dead_letter.
      and_then (map_failure RecDlq (ensure_published w (rt_dispatcher_id cfg) dead_letter [])) (\<lambda>_.
      and_then (reading (\<lambda>s. bt_get job (rs_pending_exhausted s))) (\<lambda>pending.
      and_then (modify (\<lambda>s. s\<lparr>rs_pending_exhausted := bt_del job (rs_pending_exhausted s)\<rparr>)) (\<lambda>_.
        case pending of None \<Rightarrow> succeed () | Some lease \<Rightarrow> retire_registered w job lease))))))"

definition finalize_one ::
  "('m, 'r) ReconcilerWorld \<Rightarrow> ReconcilerConfig \<Rightarrow> JobId set \<Rightarrow> string \<Rightarrow> u32 \<Rightarrow> ('m, 'r, ReconcilerError, u32) reconcile" where
  "finalize_one world cfg runtime_jobs raw_id finalized =
     (let w = rw_world world in
      and_then (answered (map_err (\<lambda>_. InvalidJobId raw_id) (JobId_new raw_id))) (\<lambda>job.
      if job \<in> runtime_jobs then succeed finalized
      else and_then (map_failure RecRepository (query w (get_job_scheduling_snapshot job))) (\<lambda>found. case found of
        None \<Rightarrow> succeed finalized
      | Some snapshot \<Rightarrow>
        if sn_lease snapshot \<noteq> None then succeed finalized
        else (case sn_pending_outcome snapshot of
          None \<Rightarrow> succeed finalized
        | Some oc \<Rightarrow>
          if oc \<notin> {JobOutcome.Cancelled, JobOutcome.InfraFailed} then succeed finalized
          else and_then (to_cleanup w job oc snapshot) (\<lambda>snapshot.
            if job_state (sn_job snapshot) \<noteq> CleaningUp then succeed finalized
            else and_then (map_failure RecRepository (repository w (\<lambda>t evt. transition_job_state t evt job CleaningUp
                   (if oc = JobOutcome.Cancelled then JobState.Cancelled else JobState.InfraFailed)
                   \<lparr>pending_outcome = Some oc, artifacts_finalized = True, cleanup_completed = True\<rparr> None
                   [(''cleanup'', EvText ''reconciled'')]))) (\<lambda>_.
                 and_then (if oc = JobOutcome.Cancelled then settle_cancellation world job
                    else settle_exhaustion world cfg job snapshot) (\<lambda>_.
                 succeed (saturating_inc finalized))))))))"

definition finalize_ready_jobs ::
  "('m, 'r) ReconcilerWorld \<Rightarrow> ReconcilerConfig \<Rightarrow> JobId set \<Rightarrow> ('m, 'r, ReconcilerError, u32) reconcile" where
  "finalize_ready_jobs world cfg runtime_jobs =
     and_then (map_failure RecRepository (query (rw_world world) (\<lambda>d. Inr (finalizable_ids d)))) (\<lambda>ids.
       for_each (finalize_one world cfg runtime_jobs) ids 0)"

section \<open>Published exhaustion\<close>

definition retire_one ::
  "('m, 'r) ReconcilerWorld \<Rightarrow> JobId \<times> LeaseGuard \<Rightarrow> unit \<Rightarrow> ('m, 'r, ReconcilerError, unit) reconcile" where
  "retire_one world pending _ =
     (case pending of (job, lease) \<Rightarrow>
      let w = rw_world world in
      and_then (map_failure RecRepository (query w (get_job_scheduling_snapshot job))) (\<lambda>found. case found of
        None \<Rightarrow> succeed ()
      | Some snapshot \<Rightarrow>
        if job_state (sn_job snapshot) \<noteq> JobState.InfraFailed then succeed ()
        else let event_key = exhaustion_event_key job (sn_delivery_attempts snapshot) in
          and_then (map_failure RecRepository (query w (get_outbox_message event_key))) (\<lambda>marker. case marker of
            None \<Rightarrow> succeed ()
          | Some marker \<Rightarrow>
            if \<not> is_matching_exhaustion_marker marker job (sn_delivery_attempts snapshot)
            then fail_with (InvalidExhaustionMarker event_key)
            else if ob_published_at marker = None then succeed ()
            else and_then (retire_registered w job lease) (\<lambda>_.
              modify (\<lambda>s. s\<lparr>rs_pending_exhausted := bt_del job (rs_pending_exhausted s)\<rparr>)))))"

definition retire_published_exhausted :: "('m, 'r) ReconcilerWorld \<Rightarrow> ('m, 'r, ReconcilerError, unit) reconcile" where
  "retire_published_exhausted world =
     and_then (reading (\<lambda>s. rw_order world (cs_calls (sd_control s)) (rs_pending_exhausted s))) (\<lambda>pending.
       for_each (retire_one world) pending ())"

section \<open>One pass\<close>

definition runtime_pass ::
  "('m, 'r) ReconcilerWorld \<Rightarrow> ReconcilerConfig \<Rightarrow> instant \<Rightarrow> ReconcileReport \<Rightarrow> ('m, 'r, ReconcilerError, ReconcileReport) reconcile" where
  "runtime_pass world cfg now report =
     and_then (outcome_of (reconcile_runtimes world cfg now)) (\<lambda>answer. case answer of
         Inr (runtime_jobs, reaped) \<Rightarrow>
           and_then (finalize_ready_jobs world cfg runtime_jobs) (\<lambda>finalized.
             succeed (report\<lparr>rr_runtimes_reaped := reaped, rr_finalized := finalized\<rparr>))
       | Inl _ \<Rightarrow> succeed report)"

definition run_once ::
  "('m, 'r) ReconcilerWorld \<Rightarrow> ReconcilerConfig \<Rightarrow> ('m, 'r, ReconcilerError, ReconcileReport) reconcile" where
  "run_once world cfg =
     (let w = rw_world world in
      and_then (utc_now w) (\<lambda>now.
      and_then (expect (sw_from_std w (rt_stale_worker_threshold cfg))) (\<lambda>stale_threshold.
      and_then (map_failure RecRepository (query w (find_stale_jobs \<lparr>sc_lease_expired_before = now,
        sc_worker_heartbeat_before = now - stale_threshold, sc_limit = RECONCILE_BATCH\<rparr>))) (\<lambda>stale_jobs.
      and_then (for_each (recover_one world cfg) stale_jobs empty_report) (\<lambda>report.
      and_then (runtime_pass world cfg now report) (\<lambda>report.
      and_then (map_failure RecRepository (repository w (\<lambda>t _.
        end_expired_or_terminal_debug_sessions_with_audit t now RECONCILER_ACTOR RECONCILE_BATCH))) (\<lambda>ended.
      and_then (map_failure RecDlq (publish_ready w (rt_dispatcher_id cfg))) (\<lambda>_.
      and_then (retire_published_exhausted world) (\<lambda>_.
        succeed (report\<lparr>rr_debug_sessions_ended :=
          (if length ended < 2 ^ 32 then of_nat (length ended) else - 1)\<rparr>))))))))))"

end
