(* ===== verification/Reconciler_Safety.thy ===== *)
theory Reconciler_Safety
  imports Reconciler Sample_World
begin

text \<open>
  What the reconciler may do: every pass is a run of the repository, so the invariants of reachable
  databases hold under it, and a runtime is reaped only when it has been orphaned for the whole grace
  period.
\<close>

section \<open>A pass is a run of the repository\<close>

lemma modify_runs:
  "runs.on_db.keeps (modify (\<lambda>s :: ('m, 'r) ReconcilerState. s\<lparr>rs_runtimes := f s\<rparr>))"
  "runs.on_db.keeps (modify (\<lambda>s :: ('m, 'r) ReconcilerState. s\<lparr>rs_pending_exhausted := g s\<rparr>))"
  "runs.on_db.keeps (modify (\<lambda>s :: ('m, 'r) ReconcilerState. s\<lparr>rs_pending_cancellations := g s\<rparr>))"
  "runs.on_db.keeps (modify (\<lambda>s :: ('m, 'r) ReconcilerState. s\<lparr>rs_orphan_observations := h s\<rparr>))"
  by (rule runs.modify_in, simp)+

lemma runtime_call_runs:
  assumes world: "runs.world_in (rw_world world)"
  shows "runs.on_db.keeps (runtime_call world f)"
  unfolding runtime_call_def by (intro runs.on_db.keeps_rules calls_in world modify_runs)

lemma recover_one_runs:
  assumes world: "runs.world_in (rw_world world)"
  shows "runs.on_db.keeps (recover_one world cfg stale report)"
  unfolding recover_one_def Let_def
  by (intro runs.on_db.keeps_and_then runs.on_db.keeps_map_failure calls_in world repo_calls)
    (auto intro!: runs.on_db.keeps_rules calls_in world modify_runs split: RecoveryDisposition.splits)

lemma reconcile_runtime_runs:
  assumes world: "runs.world_in (rw_world world)"
  shows "runs.on_db.keeps (reconcile_runtime world cfg now x pass)"
proof -
  have 1: "runs.on_db.keeps (reap_one world x p)" for p
    unfolding reap_one_def forget_observation_def
    by (intro runs.on_db.keeps_prod runs.on_db.keeps_and_then calls_in world runtime_call_runs [OF world])
      (auto intro!: runs.on_db.keeps_rules modify_runs split: sum.splits ReapOutcome.splits)
  show ?thesis
    unfolding reconcile_runtime_def runtime_ownership_def observe_runtime_ownership_def Let_def
    by (intro runs.on_db.keeps_rules calls_in world modify_runs)
      (auto intro: 1 runs.on_db.keeps_pure split: ReapDecision.splits)
qed

lemma reconcile_runtimes_runs:
  assumes world: "runs.world_in (rw_world world)"
  shows "runs.on_db.keeps (reconcile_runtimes world cfg now)"
  unfolding reconcile_runtimes_def
  by (intro runs.on_db.keeps_rules runtime_call_runs [OF world] reconcile_runtime_runs [OF world] modify_runs)

lemma retire_registered_runs:
  assumes world: "runs.world_in (rw_world world)"
  shows "runs.on_db.keeps (retire_registered (rw_world world) job lease)"
  unfolding retire_registered_def by (intro runs.on_db.keeps_rules calls_in world dlq_runs)

lemma finalize_one_runs:
  assumes world: "runs.world_in (rw_world world)"
  shows "runs.on_db.keeps (finalize_one world cfg jobs rid n)"
proof -
  have 1: "runs.on_db.keeps (to_cleanup (rw_world world) job oc sn)" for job oc sn
    unfolding to_cleanup_def by (intro runs.on_db.keeps_rules calls_in world repo_calls)
  have 2: "runs.on_db.keeps (settle_cancellation world job)" for job
    unfolding settle_cancellation_def
    by (intro runs.on_db.keeps_rules calls_in world)
      (auto intro: runs.on_db.keeps_pure modify_runs split: AckRegistryError.splits)
  have 3: "runs.on_db.keeps (settle_exhaustion world cfg job sn)" for job sn
    unfolding settle_exhaustion_def Let_def
    by (intro runs.on_db.keeps_rules calls_in world modify_runs dlq_runs retire_registered_runs [OF world])
  show ?thesis
    unfolding finalize_one_def Let_def by (intro runs.on_db.keeps_rules calls_in world repo_calls 1 2 3)
qed

lemma retire_one_runs:
  assumes world: "runs.world_in (rw_world world)"
  shows "runs.on_db.keeps (retire_one world p u)"
  unfolding retire_one_def Let_def by (intro runs.on_db.keeps_rules calls_in world modify_runs retire_registered_runs [OF world])

lemma run_once_runs:
  assumes world: "runs.world_in (rw_world world)"
  shows "runs.on_db.keeps (run_once world cfg)"
  unfolding run_once_def runtime_pass_def finalize_ready_jobs_def retire_published_exhausted_def Let_def
  by (intro runs.on_db.keeps_rules calls_in world repo_calls recover_one_runs [OF world] reconcile_runtimes_runs [OF world] finalize_one_runs [OF world]
      dlq_runs retire_one_runs [OF world])

section \<open>Reaping\<close>

lemma orphan_not_running:
  assumes "ownership_of_snapshot x (get_job_scheduling_snapshot (rx_job_id x) d) \<notin> {ActiveMatchingLease, Unknown}"
  shows "\<not> runs_under (rx_job_id x) (rx_worker_id x) (rx_lease_id x) d"
proof
  assume "runs_under (rx_job_id x) (rx_worker_id x) (rx_lease_id x) d"
  then obtain r where r: "lock_job (rx_job_id x) d = Some r" "\<not> is_terminal (jr_state r)"
    "jr_worker_id r = Some (rx_worker_id x)" "jr_lease_id r = Some (rx_lease_id x)" unfolding runs_under_def by blast
  show False
  proof (cases "get_job_scheduling_snapshot (rx_job_id x) d")
    case (Inr found)
    then obtain sn where sn: "get_job_scheduling_snapshot (rx_job_id x) d = Inr (Some sn)"
      using r(1) by (auto simp: get_job_scheduling_snapshot_def statement_inv split: option.splits)
    obtain r' where r': "lock_job (rx_job_id x) d = Some r'" "snapshot_lease r' = Inr (sn_lease sn)" "into_job r' = Inr (sn_job sn)"
      using snapshotD [OF sn] by metis
    then have "sn_lease sn = Some \<lparr>lg_worker_id = rx_worker_id x, lg_lease_id = rx_lease_id x\<rparr>"
      using r snapshot_lease_eq_Inr [OF r'(2)] by simp
    then show False using assms sn r r' into_job_fields [OF r'(3)] by (simp add: ownership_of_snapshot_def)
  qed (use assms in \<open>simp add: ownership_of_snapshot_def\<close>)
qed

text \<open>
  A request to reap is justified by an observation from before the pass, of the same runtime, at least
  the grace period old, and by a database of the pass in which its job does not run under its lease.
\<close>

definition reap_justified ::
  "('m, 'r) ReconcilerState \<Rightarrow> instant \<Rightarrow> duration \<Rightarrow> db \<Rightarrow> string \<Rightarrow> JobId \<Rightarrow> WorkerId \<Rightarrow> LeaseId \<Rightarrow> bool" where
  "reap_justified s now grace d' rid job worker lease \<longleftrightarrow>
     (\<exists>created since. bt_get rid (rs_orphan_observations s) = Some (\<lparr>rx_resource_id = rid, rx_job_id = job,
          rx_worker_id = worker, rx_lease_id = lease, rx_created_at = created\<rparr>, since) \<and> since + grace \<le> now)
     \<and> (\<exists>d. repo_step\<^sup>*\<^sup>* (sd_db s) d \<and> repo_step\<^sup>*\<^sup>* d d' \<and> \<not> runs_under job worker lease d)"

definition pass_inv ::
  "('m, 'r) ReconcilerState \<Rightarrow> instant \<Rightarrow> duration \<Rightarrow> ('m, 'r) ReconcilerState \<Rightarrow> bool" where
  "pass_inv s now grace s1 \<longleftrightarrow> repo_step\<^sup>*\<^sup>* (sd_db s) (sd_db s1) \<and> bt_inv (rs_orphan_observations s1)
     \<and> (\<forall>k x since. bt_get k (rs_orphan_observations s1) = Some (x, since) \<longrightarrow>
          since = now \<or> bt_get k (rs_orphan_observations s) = Some (x, since))
     \<and> (\<exists>new. sd_log s1 = sd_log s @ new \<and> (\<forall>rid job worker lease. ReapRequested rid job worker lease \<in> set new \<longrightarrow>
          reap_justified s now grace (sd_db s1) rid job worker lease))"

lemma pass_inv_move:
  assumes "pass_inv s now grace s1" and "repo_step\<^sup>*\<^sup>* (sd_db s1) (sd_db s2)" and "sd_log s2 = sd_log s1"
    and "bt_inv (rs_orphan_observations s2)"
    and "\<And>k x since. bt_get k (rs_orphan_observations s2) = Some (x, since) \<Longrightarrow>
      since = now \<or> bt_get k (rs_orphan_observations s1) = Some (x, since)"
  shows "pass_inv s now grace s2"
proof -
  obtain new where new: "sd_log s1 = sd_log s @ new" "\<And>rid job worker lease. ReapRequested rid job worker lease \<in> set new \<Longrightarrow>
      reap_justified s now grace (sd_db s1) rid job worker lease"
    using assms(1) unfolding pass_inv_def by blast
  have "reap_justified s now grace (sd_db s2) rid job worker lease"
    if "ReapRequested rid job worker lease \<in> set new" for rid job worker lease
    using new(2) [OF that] assms(2) rtranclp_trans unfolding reap_justified_def by metis
  moreover have "repo_step\<^sup>*\<^sup>* (sd_db s) (sd_db s2)" using assms(1,2) rtranclp_trans unfolding pass_inv_def by metis
  ultimately show ?thesis using assms new(1) unfolding pass_inv_def by metis
qed

lemma query_state:
  "query world f s = Some (r, s') \<Longrightarrow> \<exists>c. s' = s\<lparr>sd_control := c\<rparr> \<and> r = f (cs_db c)"
  by (auto simp: query_def repository_def repo_call_def Let_def)

lemma runtime_call_state:
  "runtime_call world f s = Some (r, s') \<Longrightarrow> \<exists>c rt. s' = s\<lparr>sd_control := c, rs_runtimes := rt\<rparr>"
  by (auto simp: runtime_call_def await_def action_cases split: prod.splits)

lemma observe_cases:
  assumes "observe x own now obs = (since, obs')" and "bt_inv obs"
  shows "bt_inv obs'" and "bt_get k obs' = Some (y, t) \<Longrightarrow> t = now \<or> bt_get k obs = Some (y, t)"
    and "since = Some t \<Longrightarrow> t \<noteq> now \<Longrightarrow> bt_get (rx_resource_id x) obs = Some (x, t)"
    and "since = Some t \<Longrightarrow> own \<notin> {ActiveMatchingLease, Unknown}"
  using assms by (auto simp: observe_def Let_def bt_inv_put bt_inv_del bt_get_put bt_get_del split: if_splits option.splits)

lemma reap_one_inv:
  assumes world: "runs.world_in (rw_world world)" and inv: "pass_inv s now grace s1"
    and step: "reap_one world x p s1 = Some (r, s2)"
    and just: "reap_justified s now grace (sd_db s1) (rx_resource_id x) (rx_job_id x) (rx_worker_id x) (rx_lease_id x)"
  shows "pass_inv s now grace s2"
proof -
  obtain remaining inventoried reaped where p: "p = (remaining, inventoried, reaped)" by (cases p)
  define s1' where "s1' = s1\<lparr>sd_log := sd_log s1 @ [ReapRequested (rx_resource_id x) (rx_job_id x) (rx_worker_id x) (rx_lease_id x)]\<rparr>"
  from inv just have inv': "pass_inv s now grace s1'" by (auto simp: pass_inv_def s1'_def)
  obtain q :: "ReconcilerError + (ReaperError + ReapOutcome)" and s1a where c: "runtime_call world (rw_reap world x) s1' = Some (q, s1a)"
    and s2: "s2 = s1a \<or> s2 = s1a\<lparr>rs_orphan_observations := bt_del (rx_resource_id x) (rs_orphan_observations s1a)\<rparr>"
    using step unfolding p s1'_def
    by (auto simp: reap_one_def record_effect_def forget_observation_def and_then_def succeed_def modify_def
        split: option.splits prod.splits sum.splits ReapOutcome.splits)
  have "repo_step\<^sup>*\<^sup>* (sd_db s1') (sd_db s1a)" by (rule runs.on_db.keepsD [OF runtime_call_runs [OF world] c])
  moreover have "sd_log s1a = sd_log s1'" "rs_orphan_observations s1a = rs_orphan_observations s1'"
    using runtime_call_state [OF c] by auto
  moreover have "bt_inv (rs_orphan_observations s1')" using inv' by (simp add: pass_inv_def)
  ultimately show ?thesis
    using s2 by (intro pass_inv_move [OF inv']) (auto simp: bt_inv_del bt_get_del split: if_splits)
qed

lemma reconcile_runtime_inv:
  assumes world: "runs.world_in (rw_world world)" and grace: "sw_from_std (rw_world world) (rt_reap_grace cfg) = Some grace" "0 < grace"
    and inv: "pass_inv s now grace s1" and step: "reconcile_runtime world cfg now x p s1 = Some (r, s2)"
  shows "pass_inv s now grace s2"
proof -
  obtain remaining inventoried reaped where p: "p = (remaining, inventoried, reaped)" by (cases p)
  obtain answer sq where q: "query (rw_world world) (get_job_scheduling_snapshot (rx_job_id x)) s1 = Some (answer, sq)"
    using step by (auto simp: p reconcile_runtime_def runtime_ownership_def Let_def action_cases)
  define own where "own = ownership_of_snapshot x answer"
  obtain since obs where o: "observe x own now (rs_orphan_observations sq) = (since, obs)" by fastforce
  let ?so = "sq\<lparr>rs_orphan_observations := obs\<rparr>"
  have rest: "(if evaluate_reap (sw_from_std (rw_world world)) own since now (rt_reap_grace cfg) = Reap
      then reap_one world x (remaining, insert (rx_resource_id x) inventoried, reaped) ?so
      else succeed (insert (rx_job_id x) remaining, insert (rx_resource_id x) inventoried, reaped) ?so) = Some (r, s2)"
    using step q o by (auto simp: p reconcile_runtime_def runtime_ownership_def observe_runtime_ownership_def Let_def
        and_then_def outcome_of_def succeed_def reading_def modify_def own_def split: ReapDecision.splits)
  obtain c where sq: "sq = s1\<lparr>sd_control := c\<rparr>" "answer = get_job_scheduling_snapshot (rx_job_id x) (sd_db sq)"
    using query_state [OF q] by auto
  have run: "repo_step\<^sup>*\<^sup>* (sd_db s1) (sd_db sq)" by (rule runs.on_db.keepsD [OF runs.query_in [OF world] q])
  have bt: "bt_inv (rs_orphan_observations sq)" using inv by (simp add: pass_inv_def sq(1))
  note obs = observe_cases [OF o bt]
  have inv': "pass_inv s now grace ?so"
    by (rule pass_inv_move [OF inv]) (use run obs(1,2) in \<open>simp_all add: sq(1)\<close>)
  show ?thesis
  proof (cases "evaluate_reap (sw_from_std (rw_world world)) own since now (rt_reap_grace cfg) = Reap")
    case True
    then obtain t where t: "since = Some t" "t + grace \<le> now"
      by (auto simp: evaluate_reap_def grace(1) split: RuntimeOwnership.splits option.splits if_splits)
    have "own \<notin> {ActiveMatchingLease, Unknown}" by (rule obs(4) [OF t(1)])
    then have "\<not> runs_under (rx_job_id x) (rx_worker_id x) (rx_lease_id x) (sd_db sq)"
      unfolding own_def sq(2) by (rule orphan_not_running)
    moreover have "bt_get (rx_resource_id x) (rs_orphan_observations s) = Some (x, t)"
    proof -
      have "t \<noteq> now" using t(2) grace(2) by simp
      then have "bt_get (rx_resource_id x) (rs_orphan_observations sq) = Some (x, t)" using obs(3) t(1) by blast
      then show ?thesis using inv \<open>t \<noteq> now\<close> unfolding pass_inv_def sq(1) by auto
    qed
    moreover have "repo_step\<^sup>*\<^sup>* (sd_db s) (sd_db sq)" using inv run rtranclp_trans unfolding pass_inv_def by metis
    ultimately have "reap_justified s now grace (sd_db ?so) (rx_resource_id x) (rx_job_id x) (rx_worker_id x) (rx_lease_id x)"
      using t(2) unfolding reap_justified_def by (cases x) auto
    then show ?thesis using rest True reap_one_inv [OF world inv'] by simp
  next
    case False
    then show ?thesis using rest inv' by simp
  qed
qed

lemma for_each_invariant:
  assumes "\<And>x b s1 r s2. P s1 \<Longrightarrow> body x b s1 = Some (r, s2) \<Longrightarrow> P s2"
  shows "P s1 \<Longrightarrow> for_each body xs b s1 = Some (r, s2) \<Longrightarrow> P s2"
proof (induction xs arbitrary: b s1)
  case (Cons x xs)
  from Cons.prems(2) consider q where "body x b s1 = Some (q, s2)" | b' s1' where "body x b s1 = Some (Inr b', s1')"
    "for_each body xs b' s1' = Some (r, s2)" by (auto simp: and_then_cases)
  then show ?case using Cons.IH assms Cons.prems(1) by cases blast+
qed simp

lemma reconcile_runtimes_inv:
  assumes world: "runs.world_in (rw_world world)" and grace: "sw_from_std (rw_world world) (rt_reap_grace cfg) = Some grace" "0 < grace"
    and bt: "bt_inv (rs_orphan_observations s)" and step: "reconcile_runtimes world cfg now s = Some (r, s')"
  shows "pass_inv s now grace s' \<or> (\<exists>s1. pass_inv s now grace s1 \<and> sd_log s' = sd_log s1 \<and> sd_db s' = sd_db s1)"
proof -
  from step obtain q :: "ReconcilerError + (ReaperError + RuntimeResource list)" and s1 where c: "runtime_call world (\<lambda>rt. (rw_inventory world rt, rt)) s = Some (q, s1)"
    and rest: "s' = s1 \<or> (\<exists>xs y s2. for_each (reconcile_runtime world cfg now) xs ({}, {}, 0) s1 = Some (y, s2)
      \<and> (s' = s2 \<or> (\<exists>f. s' = s2\<lparr>rs_orphan_observations := f\<rparr>)))"
    unfolding reconcile_runtimes_def
    by (auto simp: and_then_def answered_def succeed_def modify_def split: option.splits prod.splits sum.splits)
  have "repo_step\<^sup>*\<^sup>* (sd_db s) (sd_db s1)" by (rule runs.on_db.keepsD [OF runtime_call_runs [OF world] c])
  then have inv: "pass_inv s now grace s1" using runtime_call_state [OF c] bt by (auto simp: pass_inv_def)
  have "pass_inv s now grace s2" if "for_each (reconcile_runtime world cfg now) xs ({}, {}, 0) s1 = Some (y, s2)" for xs y s2
    by (rule for_each_invariant [where P = "pass_inv s now grace", OF reconcile_runtime_inv [OF world grace] inv that])
  with rest show ?thesis
  proof (elim disjE exE conjE)
    fix xs y s2 f assume "for_each (reconcile_runtime world cfg now) xs ({}, {}, 0) s1 = Some (y, s2)"
      "s' = s2\<lparr>rs_orphan_observations := f\<rparr>" "\<And>xs y s2. for_each (reconcile_runtime world cfg now) xs ({}, {}, 0) s1 = Some (y, s2)
        \<Longrightarrow> pass_inv s now grace s2"
    then show ?thesis by (intro disjI2 exI [of _ s2]) auto
  qed (use inv in auto)
qed

section \<open>A sample pass\<close>

definition sample_reconciler_world :: "(string, MemoryState) ReconcilerWorld" where
  "sample_reconciler_world = \<lparr>rw_world = sample_sched_world, rw_inventory = memory_inventory, rw_reap = memory_reap,
     rw_runtimes = (\<lambda>_ r. r), rw_order = (\<lambda>_ xs. xs)\<rparr>"

definition sample_runtime :: "string \<Rightarrow> LeaseId \<Rightarrow> RuntimeResource" where
  "sample_runtime rid lease = \<lparr>rx_resource_id = rid, rx_job_id = ''job_1'', rx_worker_id = ''wrk_1'', rx_lease_id = lease,
     rx_created_at = 0\<rparr>"

text \<open>A runtime under an older lease than the one that holds the job, seen orphaned at 10.\<close>

definition sample_reconciler :: "(string, MemoryState) ReconcilerState" where
  "sample_reconciler = \<lparr>sd_control = sample_control, sd_log = [],
     rs_runtimes = memory_new [sample_runtime ''c2'' ''lease_0''],
     rs_pending_exhausted = [], rs_pending_cancellations = [],
     rs_orphan_observations = [(''c2'', (sample_runtime ''c2'' ''lease_0'', 10))]\<rparr>"

definition sample_reconciler_config :: ReconcilerConfig where
  "sample_reconciler_config = \<lparr>rt_stale_worker_threshold = 50, rt_reap_grace = 60, rt_max_run_attempts = 3,
     rt_dispatcher_id = ''scheduler''\<rparr>"

section \<open>Properties\<close>

text \<open>
  C19. Runtimes are reaped only when they are orphaned for good: whenever a pass asks the reaper to
  destroy a runtime, the leader had already seen this very runtime orphaned at least the grace period
  ago, and during the pass the database showed that its job is gone, terminal or not held under the
  runtime's lease.
\<close>

theorem runtimes_reaped_only_when_orphaned:
  assumes "runs.world_in (rw_world world)" and "sw_from_std (rw_world world) (rt_reap_grace cfg) = Some grace" and "0 < grace"
    and "bt_inv (rs_orphan_observations s)" and "reconcile_runtimes world cfg now s = Some (r, s')"
  shows "\<exists>new. sd_log s' = sd_log s @ new \<and> (\<forall>rid job worker lease. ReapRequested rid job worker lease \<in> set new \<longrightarrow>
     (\<exists>created since. bt_get rid (rs_orphan_observations s) = Some (\<lparr>rx_resource_id = rid, rx_job_id = job,
          rx_worker_id = worker, rx_lease_id = lease, rx_created_at = created\<rparr>, since) \<and> since + grace \<le> now)
     \<and> (\<exists>d. repo_step\<^sup>*\<^sup>* (sd_db s) d \<and> repo_step\<^sup>*\<^sup>* d (sd_db s') \<and> \<not> runs_under job worker lease d))"
proof -
  obtain s1 where s1: "pass_inv s now grace s1" "sd_log s' = sd_log s1" "sd_db s' = sd_db s1"
    using reconcile_runtimes_inv [OF assms] by blast
  then show ?thesis unfolding pass_inv_def s1(2,3) reap_justified_def by (elim conjE)
qed

theorem runtimes_reaped_only_when_orphaned_witness:
  "\<exists>r s'. reconcile_runtimes sample_reconciler_world sample_reconciler_config 100 sample_reconciler = Some (r, s')
     \<and> sd_log s' = [ReapRequested ''c2'' ''job_1'' ''wrk_1'' ''lease_0'']
     \<and> (\<exists>d. repo_step\<^sup>*\<^sup>* d (sd_db s') \<and> \<not> runs_under ''job_1'' ''wrk_1'' ''lease_0'' d)"
proof -
  let ?run = "reconcile_runtimes sample_reconciler_world sample_reconciler_config 100 sample_reconciler"
  have "evaluate_reap Some (ownership_of_snapshot (sample_runtime ''c2'' ''lease_0'') (get_job_scheduling_snapshot ''job_1'' db_claimed))
     (Some 10) 100 60 = Reap" "ownership_of_snapshot (sample_runtime ''c2'' ''lease_0'') (get_job_scheduling_snapshot ''job_1'' db_claimed)
     = LeaseMismatch" by code_simp+
  then obtain r s' where run: "?run = Some (r, s')" and log: "sd_log s' = [ReapRequested ''c2'' ''job_1'' ''wrk_1'' ''lease_0'']"
    by (simp add: reconcile_runtimes_def reconcile_runtime_def runtime_ownership_def observe_runtime_ownership_def reap_one_def
      runtime_call_def await_def query_def repository_def repo_call_def Let_def and_then_def outcome_of_def succeed_def reading_def
      modify_def answered_def record_effect_def forget_observation_def observe_def sample_reconciler_world_def
      sample_reconciler_config_def sample_reconciler_def sample_sched_world_def sample_world_def sample_control_def
      sample_runtime_def memory_new_def memory_inventory_def memory_reap_def split: option.splits)
  have w: "runs.world_in (rw_world sample_reconciler_world)" using sample_runs by (simp add: sample_reconciler_world_def)
  have g: "sw_from_std (rw_world sample_reconciler_world) (rt_reap_grace sample_reconciler_config) = Some 60" "0 < (60::int)"
    by (simp_all add: sample_reconciler_world_def sample_sched_world_def sample_reconciler_config_def)
  have b: "bt_inv (rs_orphan_observations sample_reconciler)" by (simp add: sample_reconciler_def bt_inv_def)
  have "sd_log sample_reconciler = []" by (simp add: sample_reconciler_def)
  then show ?thesis using runtimes_reaped_only_when_orphaned [OF w g b run] run log by fastforce
qed

end
