(* ===== verification/Reconciler_Locks.thy ===== *)
theory Reconciler_Locks
  imports Reconciler_Safety
begin

text \<open>
  The reconciler's map of pending cancellations across a pass: no pass that returns takes a job out of
  it, because the code that would do so waits for a lock its own task holds.
\<close>

definition still_pending :: "('m, 'r) ReconcilerState \<Rightarrow> ('m, 'r) ReconcilerState \<Rightarrow> bool" where
  "still_pending s s' \<longleftrightarrow> (\<forall>job. bt_get job (rs_pending_cancellations s) \<noteq> None \<longrightarrow> bt_get job (rs_pending_cancellations s') \<noteq> None)"

interpretation pending: action_relation still_pending
  by unfold_locales (auto simp: still_pending_def)

lemma same_pending:
  "Sched.more s' = Sched.more s \<Longrightarrow> rs_pending_cancellations s' = rs_pending_cancellations (s :: ('m, 'r) ReconcilerState)"
  by (cases s; cases s') simp

lemma own_pending: "own.keeps m \<Longrightarrow> pending.keeps m"
  using same_pending unfolding own.keeps_def pending.keeps_def still_pending_def by fastforce

lemmas calls_pending = calls_own [THEN own_pending] messages_own [THEN own_pending] dlq_own [THEN own_pending]

lemma modify_pending:
  "pending.keeps (modify (\<lambda>s :: ('m, 'r) ReconcilerState. s\<lparr>rs_runtimes := f s\<rparr>))"
  "pending.keeps (modify (\<lambda>s :: ('m, 'r) ReconcilerState. s\<lparr>rs_pending_exhausted := g s\<rparr>))"
  "pending.keeps (modify (\<lambda>s :: ('m, 'r) ReconcilerState. s\<lparr>rs_orphan_observations := h s\<rparr>))"
  "pending.keeps (modify (\<lambda>s :: ('m, 'r) ReconcilerState. s\<lparr>rs_pending_cancellations := bt_put job lease (rs_pending_cancellations s)\<rparr>))"
  by (auto intro!: pending.keeps_modify simp: still_pending_def bt_get_put_any)

lemma runtime_call_pending: "pending.keeps (runtime_call world f)"
  unfolding runtime_call_def by (intro pending.keeps_rules calls_pending modify_pending)

lemma recover_one_pending: "pending.keeps (recover_one world cfg stale report)"
  unfolding recover_one_def Let_def
  by (intro pending.keeps_and_then pending.keeps_map_failure calls_pending)
    (auto intro!: pending.keeps_rules calls_pending modify_pending split: RecoveryDisposition.splits)

lemma reconcile_runtimes_pending: "pending.keeps (reconcile_runtimes world cfg now)"
proof -
  have 1: "pending.keeps (reap_one world x p)" for x p
    unfolding reap_one_def forget_observation_def
    by (intro pending.keeps_prod pending.keeps_and_then calls_pending runtime_call_pending)
      (auto intro!: pending.keeps_rules modify_pending split: sum.splits ReapOutcome.splits)
  have 2: "pending.keeps (reconcile_runtime world cfg now x p)" for x p
    unfolding reconcile_runtime_def runtime_ownership_def observe_runtime_ownership_def Let_def
    by (intro pending.keeps_rules calls_pending modify_pending)
      (auto intro: 1 pending.keeps_pure split: ReapDecision.splits)
  show ?thesis
    unfolding reconcile_runtimes_def by (intro pending.keeps_rules runtime_call_pending 2 modify_pending)
qed

lemma retire_registered_pending: "pending.keeps (retire_registered w job lease)"
  unfolding retire_registered_def by (intro pending.keeps_rules calls_pending)

lemma finalize_one_pending: "pending.keeps (finalize_one world cfg jobs rid n)"
proof -
  have 1: "pending.keeps (to_cleanup w job oc sn)" for w job oc sn
    unfolding to_cleanup_def by (intro pending.keeps_rules calls_pending)
  have 2: "pending.keeps (settle_cancellation world job)" for job
    unfolding settle_cancellation_def
    by (intro pending.keeps_rules calls_pending) (auto intro: pending.keeps_pure split: AckRegistryError.splits)
  have 3: "pending.keeps (settle_exhaustion world cfg job sn)" for job sn
    unfolding settle_exhaustion_def Let_def
    by (intro pending.keeps_rules calls_pending modify_pending retire_registered_pending)
  show ?thesis
    unfolding finalize_one_def Let_def by (intro pending.keeps_rules calls_pending 1 2 3)
qed

lemma run_once_pending: "pending.keeps (run_once world cfg)"
proof -
  have 1: "pending.keeps (retire_one world p u)" for p u
    unfolding retire_one_def Let_def by (intro pending.keeps_rules calls_pending modify_pending retire_registered_pending)
  show ?thesis
    unfolding run_once_def runtime_pass_def finalize_ready_jobs_def retire_published_exhausted_def Let_def
    by (intro pending.keeps_rules calls_pending recover_one_pending reconcile_runtimes_pending finalize_one_pending 1)
qed

section \<open>Property\<close>


text \<open>A scheduler with an empty database and a cancellation pending under the lease the registry holds.\<close>

definition sample_cancelling :: "(string, MemoryState) ReconcilerState" where
  "sample_cancelling = sample_reconciler\<lparr>sd_control := sample_control\<lparr>cs_db := sample_db\<rparr>, rs_runtimes := memory_new [],
     rs_pending_cancellations := [(''job_1'', \<lparr>lg_worker_id = ''wrk_1'', lg_lease_id = ''lease_1''\<rparr>)]\<rparr>"

lemma sample_answers:
  "find_stale_jobs \<lparr>sc_lease_expired_before = a, sc_worker_heartbeat_before = b, sc_limit = RECONCILE_BATCH\<rparr> sample_db = Inr []"
  "finalizable_ids sample_db = []"
  "end_expired_or_terminal_debug_sessions_with_audit t a RECONCILER_ACTOR RECONCILE_BATCH sample_db = (Inr [], sample_db)"
  "lease_outbox_messages_for_subject t ''scheduler'' JOBS_DEAD_SUBJECT outbox_lease_timeout DLQ_LEASE_BATCH sample_db = (Inr [], sample_db)"
proof -
  show "find_stale_jobs \<lparr>sc_lease_expired_before = a, sc_worker_heartbeat_before = b, sc_limit = RECONCILE_BATCH\<rparr> sample_db = Inr []"
    by (simp add: find_stale_jobs_def RECONCILE_BATCH_def checked_limit_def JobListQuery_MAX_LIMIT_def stale_pairs_def sample_db_def)
  show "finalizable_ids sample_db = []" by (simp add: finalizable_ids_def sample_db_def)
  have actor: "\<not> is_blank RECONCILER_ACTOR" by code_simp
  show "end_expired_or_terminal_debug_sessions_with_audit t a RECONCILER_ACTOR RECONCILE_BATCH sample_db = (Inr [], sample_db)"
    by (simp add: end_expired_or_terminal_debug_sessions_with_audit_def ending_body_def commit_then_def actor ensure_def
        RECONCILE_BATCH_def checked_limit_def JobListQuery_MAX_LIMIT_def sample_db_def)
  have d: "validate_dispatcher_id ''scheduler'' = Inr ()" "validate_subject JOBS_DEAD_SUBJECT = Inr ()" by code_simp+
  show "lease_outbox_messages_for_subject t ''scheduler'' JOBS_DEAD_SUBJECT outbox_lease_timeout DLQ_LEASE_BATCH sample_db = (Inr [], sample_db)"
    by (simp add: lease_outbox_messages_for_subject_def lease_with_subject_def lease_rows_def commit_then_def d ensure_def outbox_lease_timeout_def
        milliseconds_def DLQ_LEASE_BATCH_def checked_limit_def JobListQuery_MAX_LIMIT_def sample_db_def sql_update_def)
qed

lemma sample_pass: "\<exists>r s'. run_once sample_reconciler_world sample_reconciler_config sample_cancelling = Some (r, s')"
  by (simp add: run_once_def runtime_pass_def reconcile_runtimes_def finalize_ready_jobs_def retire_published_exhausted_def publish_ready_def
      runtime_call_def await_def query_def repository_def repo_call_def Let_def and_then_def outcome_of_def map_failure_def succeed_def
      reading_def modify_def answered_def expect_def utc_now_def sample_answers sample_cancelling_def sample_reconciler_world_def
      sample_reconciler_config_def sample_reconciler_def sample_sched_world_def sample_world_def sample_control_def
      memory_new_def memory_inventory_def)


end
