(* ===== verification/Environment.thy ===== *)
theory Environment
  imports Subjects
begin

text \<open>
  What the two configuration loaders share (\<open>crates/scheduler/src/config.rs\<close> and
  \<open>crates/api/src/config.rs\<close>): reading the environment, the integer parser of the Rust standard
  library, booleans, and the loopback test of addresses and URLs.  The URL parser of the \<open>url\<close> crate,
  the text form of socket and IP addresses, and the range check of \<open>chrono::Duration\<close> are arguments.
\<close>

section \<open>Text\<close>

definition trim_text :: "string \<Rightarrow> string" where
  "trim_text s = rev (dropWhile is_trimmed_char (rev (dropWhile is_trimmed_char s)))"

section \<open>Integers\<close>

text \<open>\<open>from_str\<close> of the integer types: it stops at the first character that is no digit or overflows.\<close>

datatype IntErrorKind = EmptyText | InvalidDigit | PosOverflow | NegOverflow

fun int_error_message :: "IntErrorKind \<Rightarrow> string" where
  "int_error_message EmptyText = ''cannot parse integer from empty string''"
| "int_error_message InvalidDigit = ''invalid digit found in string''"
| "int_error_message PosOverflow = ''number too large to fit in target type''"
| "int_error_message NegOverflow = ''number too small to fit in target type''"

definition digit_value :: "char \<Rightarrow> int option" where
  "digit_value c = (if is_ascii_digit c then Some (int (ascii_code c) - 48) else None)"

fun parse_digits :: "bool \<Rightarrow> int \<Rightarrow> int \<Rightarrow> int \<Rightarrow> string \<Rightarrow> IntErrorKind + int" where
  "parse_digits negative lo hi acc [] = Inr acc"
| "parse_digits negative lo hi acc (c # cs) =
     (case digit_value c of
        None \<Rightarrow> Inl InvalidDigit
      | Some d \<Rightarrow>
          let x = (if negative then acc * 10 - d else acc * 10 + d)
          in if hi < x then Inl PosOverflow else if x < lo then Inl NegOverflow else parse_digits negative lo hi x cs)"

definition parse_int :: "int \<Rightarrow> int \<Rightarrow> string \<Rightarrow> IntErrorKind + int" where
  "parse_int lo hi s =
     (case s of
        [] \<Rightarrow> Inl EmptyText
      | c # cs \<Rightarrow>
          if cs = [] \<and> (c = CHR ''+'' \<or> c = CHR ''-'') then Inl InvalidDigit
          else if c = CHR ''+'' then parse_digits False lo hi 0 cs
          else if c = CHR ''-'' \<and> lo < 0 then parse_digits True lo hi 0 cs
          else parse_digits False lo hi 0 s)"

lemma parse_digits_range: "lo \<le> acc \<Longrightarrow> acc \<le> hi \<Longrightarrow> parse_digits n lo hi acc s = Inr x \<Longrightarrow> lo \<le> x \<and> x \<le> hi"
  by (induction n lo hi acc s rule: parse_digits.induct) (auto simp: Let_def split: option.splits if_splits)

lemma parse_int_range: "lo \<le> 0 \<Longrightarrow> 0 \<le> hi \<Longrightarrow> parse_int lo hi s = Inr x \<Longrightarrow> lo \<le> x \<and> x \<le> hi"
  using parse_digits_range [of lo 0 hi] by (auto simp: parse_int_def simp del: parse_digits.simps split: list.splits if_splits)

text \<open>A number parses back from its decimal text when it is in range.\<close>

lemma parse_digits_append:
  "parse_digits n lo hi acc (s @ t) = (case parse_digits n lo hi acc s of Inl e \<Rightarrow> Inl e | Inr x \<Rightarrow> parse_digits n lo hi x t)"
  by (induction n lo hi acc s rule: parse_digits.induct) (auto simp: Let_def split: option.splits)

lemma digit_value_char: "n < 10 \<Longrightarrow> digit_value (char_of (48 + n)) = Some (int n)"
  by (simp add: digit_value_def is_ascii_digit_def ascii_code_def of_char_of)

lemma parse_digits_show: "lo \<le> 0 \<Longrightarrow> int n \<le> hi \<Longrightarrow> parse_digits False lo hi 0 (show_nat n) = Inr (int n)"
proof (induction n rule: show_nat.induct)
  case (1 n)
  show ?case
  proof (cases "n < 10")
    case True
    then show ?thesis using 1 by (simp add: show_nat.simps [of n] digit_value_char)
  next
    case False
    have "int (n div 10) \<le> hi" using 1(3) by (simp add: zdiv_int)
    then have "parse_digits False lo hi 0 (show_nat (n div 10)) = Inr (int (n div 10))" using 1 False by blast
    moreover have "int (n div 10) * 10 + int (n mod 10) = int n" by (simp add: zdiv_int zmod_int)
    moreover have "parse_digits False lo hi (int (n div 10)) [char_of (48 + n mod 10)] = Inr (int n)"
      using calculation(2) 1(2,3) digit_value_char [of "n mod 10"] by simp
    ultimately show ?thesis using False by (simp add: show_nat.simps [of n] parse_digits_append del: parse_digits.simps)
  qed
qed

lemma parse_int_show:
  assumes "lo \<le> 0" and "int n \<le> hi"
  shows "parse_int lo hi (show_nat n) = Inr (int n)"
proof -
  have "c \<noteq> CHR ''+'' \<and> c \<noteq> CHR ''-''" if "c \<in> set (show_nat n)" for c
    using show_nat_digits [OF that] by (auto simp: is_ascii_digit_def ascii_code_def)
  then show ?thesis
    using parse_digits_show [OF assms] by (cases "show_nat n") (auto simp: parse_int_def)
qed

section \<open>Addresses and URLs\<close>

datatype IpAddr = IpV4 u32 | IpV6 "128 word"

fun ip_is_loopback :: "IpAddr \<Rightarrow> bool" where
  "ip_is_loopback (IpV4 a) = (drop_bit 24 a = 127)"
| "ip_is_loopback (IpV6 a) = (a = 1)"

record SocketAddr =
  sa_ip :: IpAddr
  sa_port :: u16

definition socket_is_loopback :: "SocketAddr \<Rightarrow> bool" where
  "socket_is_loopback address = (case sa_ip address of IpV4 ip \<Rightarrow> ip_is_loopback (IpV4 ip) | IpV6 ip \<Rightarrow> ip_is_loopback (IpV6 ip))"

datatype UrlHost = DomainHost string | Ipv4Host u32 | Ipv6Host "128 word"

record ParsedUrl =
  pu_scheme :: string
  pu_host :: "UrlHost option"
  pu_username :: string
  pu_password :: "string option"

record TextParsers =
  tp_url :: "string \<Rightarrow> string + ParsedUrl"
  tp_ip :: "string \<Rightarrow> IpAddr option"
  tp_socket :: "string \<Rightarrow> string + SocketAddr"
  tp_from_std :: "duration \<Rightarrow> duration option"

definition nats_endpoint_is_loopback :: "TextParsers \<Rightarrow> ParsedUrl \<Rightarrow> bool" where
  "nats_endpoint_is_loopback parsers url =
     (case pu_host url of
        Some (DomainHost host) \<Rightarrow> eq_ignore_ascii_case host ''localhost''
          \<or> (case tp_ip parsers host of Some address \<Rightarrow> ip_is_loopback address | None \<Rightarrow> False)
      | Some (Ipv4Host ip) \<Rightarrow> ip_is_loopback (IpV4 ip)
      | Some (Ipv6Host ip) \<Rightarrow> ip_is_loopback (IpV6 ip)
      | None \<Rightarrow> False)"

end
