(* ===== verification/Topology.thy ===== *)
theory Topology
  imports Scheduler_Config Actions
begin

text \<open>
  Provisioning of the JetStream streams and consumers (\<open>crates/scheduler/src/topology.rs\<close>).  The
  configurations are the client library's; the records have the fields the code names, a default one
  is an argument, and the enumerations keep the values the code names and stand for the others by a
  number.  The server is a world that answers every call; the requests are logged.
\<close>

section \<open>Data\<close>

definition JOB_DLQ_STREAM :: string where "JOB_DLQ_STREAM = ''JOB_DLQ''"

definition JOB_ADVISORY_STREAM :: string where "JOB_ADVISORY_STREAM = ''JOB_ADVISORIES''"

definition JOB_ADVISORY_CONSUMER :: string where "JOB_ADVISORY_CONSUMER = ''job-advisory-recovery-v1''"

definition MAX_JOB_MESSAGE_BYTES :: int where "MAX_JOB_MESSAGE_BYTES = 256 * 1024"

record TopologyConfig =
  tc_job_stream_max_bytes :: int
  tc_dlq_stream_max_bytes :: int
  tc_advisory_stream_max_bytes :: int
  tc_stream_replicas :: nat
  tc_dlq_retention :: duration
  tc_advisory_retention :: duration
  tc_ack_wait :: duration
  tc_max_deliver :: int
  tc_max_ack_pending :: int
  tc_pull_batch_size :: int

definition default_topology :: TopologyConfig where
  "default_topology = \<lparr>tc_job_stream_max_bytes = 10 * 1024 * 1024 * 1024, tc_dlq_stream_max_bytes = 2 * 1024 * 1024 * 1024,
     tc_advisory_stream_max_bytes = 256 * 1024 * 1024, tc_stream_replicas = 1,
     tc_dlq_retention = 30 * 24 * 60 * 60 * 1000000, tc_advisory_retention = 30 * 24 * 60 * 60 * 1000000,
     tc_ack_wait = 60 * 1000000, tc_max_deliver = 4, tc_max_ack_pending = 256, tc_pull_batch_size = 64\<rparr>"

datatype RetentionPolicy = RetainLimits | RetainWorkQueue | OtherRetention nat

datatype StorageType = FileStorage | OtherStorage nat

datatype DiscardPolicy = DiscardNew | DiscardOld | OtherDiscard nat

datatype DeliverPolicy = DeliverAll | OtherDeliver nat

datatype AckPolicy = AckExplicit | OtherAck nat

record StreamConfig =
  sc_name :: string
  sc_description :: "string option"
  sc_subjects :: "string list"
  sc_retention :: RetentionPolicy
  sc_storage :: StorageType
  sc_discard :: DiscardPolicy
  sc_max_bytes :: int
  sc_max_age :: duration
  sc_duplicate_window :: duration
  sc_max_message_size :: int
  sc_num_replicas :: nat
  sc_no_ack :: bool
  sc_deny_delete :: bool
  sc_sealed :: bool

record PullConfig =
  pc_durable_name :: "string option"
  pc_name :: "string option"
  pc_description :: "string option"
  pc_deliver_policy :: DeliverPolicy
  pc_ack_policy :: AckPolicy
  pc_ack_wait :: duration
  pc_max_deliver :: int
  pc_filter_subject :: string
  pc_max_ack_pending :: int
  pc_max_batch :: int
  pc_num_replicas :: nat
  pc_memory_storage :: bool

record ConsumerConfig = PullConfig +
  pc_deliver_subject :: "string option"
  pc_deliver_group :: "string option"
  pc_filter_subjects :: "string list"
  pc_headers_only :: bool
  pc_backoff :: "duration list"

text \<open>The two values of an incompatible field, which the source prints into the error.\<close>

datatype FieldValue =
    RetentionValue RetentionPolicy
  | StorageValue StorageType
  | FlagValue bool
  | SubjectsValue "string list"
  | TextValue "string option"
  | AckValue AckPolicy
  | DeliverValue DeliverPolicy
  | FilterValue string
  | FiltersValue string "string list"

datatype TopologyError =
    InvalidTopology string
  | Incompatible string string FieldValue FieldValue
  | TopologyOperation string string

section \<open>From the configuration\<close>

definition topology_of_config :: "SchedulerConfig \<Rightarrow> TopologyError + TopologyConfig" where
  "topology_of_config config =
     (let t = sg_topology config in
      bind_result (ok_or (i64_of_usize (ts_pull_batch_size t)) (InvalidTopology ''pull batch size exceeds i64'')) (\<lambda>pull_batch_size.
        Inr \<lparr>tc_job_stream_max_bytes = ts_job_stream_max_bytes t, tc_dlq_stream_max_bytes = ts_dlq_stream_max_bytes t,
          tc_advisory_stream_max_bytes = ts_advisory_stream_max_bytes t, tc_stream_replicas = ts_stream_replicas t,
          tc_dlq_retention = ts_dlq_retention t, tc_advisory_retention = ts_advisory_retention t,
          tc_ack_wait = tm_ack_wait (sg_timing config), tc_max_deliver = uint (sg_max_run_attempts config) + 1,
          tc_max_ack_pending = ts_max_ack_pending t, tc_pull_batch_size = pull_batch_size\<rparr>))"

definition validate_topology :: "TopologyConfig \<Rightarrow> TopologyError + unit" where
  "validate_topology config =
     (if tc_job_stream_max_bytes config \<le> 0 \<or> tc_dlq_stream_max_bytes config \<le> 0 \<or> tc_advisory_stream_max_bytes config \<le> 0
         \<or> \<not> (1 \<le> tc_stream_replicas config \<and> tc_stream_replicas config \<le> 5)
         \<or> tc_dlq_retention config = 0 \<or> tc_advisory_retention config = 0 \<or> tc_ack_wait config = 0
         \<or> tc_max_deliver config < 2 \<or> tc_max_ack_pending config \<le> 0 \<or> tc_pull_batch_size config \<le> 0
      then Inl (InvalidTopology ''sizes, retention, timing, delivery, replicas, and batch limits must be positive'')
      else Inr ())"

section \<open>What is wanted\<close>

definition desired_job_stream :: "StreamConfig \<Rightarrow> TopologyConfig \<Rightarrow> StreamConfig" where
  "desired_job_stream fallback config = fallback\<lparr>sc_name := JOB_QUEUE_STREAM,
     sc_description := Some ''Run Anywhere durable job work queue'', sc_subjects := [JOBS_QUEUED_SUBJECT],
     sc_retention := RetainWorkQueue, sc_storage := FileStorage, sc_discard := DiscardNew,
     sc_max_bytes := tc_job_stream_max_bytes config, sc_max_message_size := MAX_JOB_MESSAGE_BYTES,
     sc_duplicate_window := tc_advisory_retention config, sc_num_replicas := tc_stream_replicas config,
     sc_no_ack := False, sc_deny_delete := False\<rparr>"

definition desired_dlq_stream :: "StreamConfig \<Rightarrow> TopologyConfig \<Rightarrow> StreamConfig" where
  "desired_dlq_stream fallback config = fallback\<lparr>sc_name := JOB_DLQ_STREAM,
     sc_description := Some ''Run Anywhere sanitized job dead letters'', sc_subjects := [JOBS_DEAD_SUBJECT],
     sc_retention := RetainLimits, sc_storage := FileStorage, sc_discard := DiscardOld,
     sc_max_bytes := tc_dlq_stream_max_bytes config, sc_max_age := tc_dlq_retention config,
     sc_duplicate_window := tc_dlq_retention config, sc_max_message_size := MAX_JOB_MESSAGE_BYTES,
     sc_num_replicas := tc_stream_replicas config, sc_no_ack := False\<rparr>"

definition desired_advisory_stream :: "StreamConfig \<Rightarrow> TopologyConfig \<Rightarrow> StreamConfig" where
  "desired_advisory_stream fallback config = fallback\<lparr>sc_name := JOB_ADVISORY_STREAM,
     sc_description := Some ''Durable max-delivery and termination advisories'',
     sc_subjects := [MAX_DELIVERIES_ADVISORY_SUBJECT, TERMINATED_ADVISORY_SUBJECT],
     sc_retention := RetainLimits, sc_storage := FileStorage, sc_discard := DiscardOld,
     sc_max_bytes := tc_advisory_stream_max_bytes config, sc_max_age := tc_advisory_retention config,
     sc_max_message_size := MAX_JOB_MESSAGE_BYTES, sc_num_replicas := tc_stream_replicas config, sc_no_ack := False\<rparr>"

definition desired_job_consumer :: "PullConfig \<Rightarrow> TopologyConfig \<Rightarrow> PullConfig" where
  "desired_job_consumer fallback config = fallback\<lparr>pc_durable_name := Some JOB_DISPATCH_CONSUMER,
     pc_name := Some JOB_DISPATCH_CONSUMER, pc_description := Some ''Fenced scheduler dispatch and DLQ handling'',
     pc_deliver_policy := DeliverAll, pc_ack_policy := AckExplicit, pc_ack_wait := tc_ack_wait config,
     pc_max_deliver := tc_max_deliver config, pc_filter_subject := JOBS_QUEUED_SUBJECT,
     pc_max_ack_pending := tc_max_ack_pending config, pc_max_batch := tc_pull_batch_size config,
     pc_num_replicas := tc_stream_replicas config, pc_memory_storage := False\<rparr>"

definition desired_advisory_consumer :: "PullConfig \<Rightarrow> TopologyConfig \<Rightarrow> PullConfig" where
  "desired_advisory_consumer fallback config = fallback\<lparr>pc_durable_name := Some JOB_ADVISORY_CONSUMER,
     pc_name := Some JOB_ADVISORY_CONSUMER,
     pc_description := Some ''Durable recovery of exhausted and terminated job messages'',
     pc_deliver_policy := DeliverAll, pc_ack_policy := AckExplicit, pc_ack_wait := tc_ack_wait config,
     pc_max_deliver := -1, pc_max_ack_pending := min (tc_max_ack_pending config) 256,
     pc_max_batch := tc_pull_batch_size config, pc_num_replicas := tc_stream_replicas config, pc_memory_storage := False\<rparr>"

section \<open>Drift\<close>

definition incompatible_if :: "string \<Rightarrow> string \<Rightarrow> ('a \<Rightarrow> FieldValue) \<Rightarrow> 'a \<Rightarrow> 'a \<Rightarrow> TopologyError + unit" where
  "incompatible_if resource field show_value expected actual =
     (if expected = actual then Inr () else Inl (Incompatible resource field (show_value expected) (show_value actual)))"

definition reconciled_stream_config ::
  "StreamConfig \<Rightarrow> StreamConfig \<Rightarrow> string \<Rightarrow> TopologyError + StreamConfig option" where
  "reconciled_stream_config actual desired resource =
     bind_result (incompatible_if resource ''retention'' RetentionValue (sc_retention desired) (sc_retention actual)) (\<lambda>_.
     bind_result (incompatible_if resource ''storage'' StorageValue (sc_storage desired) (sc_storage actual)) (\<lambda>_.
     bind_result (incompatible_if resource ''no_ack'' FlagValue False (sc_no_ack actual)) (\<lambda>_.
     bind_result (incompatible_if resource ''deny_delete'' FlagValue False (sc_deny_delete actual)) (\<lambda>_.
     bind_result (incompatible_if resource ''sealed'' FlagValue False (sc_sealed actual)) (\<lambda>_.
     bind_result (incompatible_if resource ''subjects'' SubjectsValue (sort (sc_subjects desired)) (sort (sc_subjects actual))) (\<lambda>_.
       let updated = actual\<lparr>sc_description := sc_description desired, sc_max_bytes := sc_max_bytes desired,
             sc_discard := sc_discard desired, sc_max_age := sc_max_age desired,
             sc_duplicate_window := sc_duplicate_window desired, sc_max_message_size := sc_max_message_size desired,
             sc_num_replicas := sc_num_replicas desired\<rparr>;
           managed_equal = (sc_description actual = sc_description updated \<and> sc_max_bytes actual = sc_max_bytes updated
             \<and> sc_discard actual = sc_discard updated \<and> sc_max_age actual = sc_max_age updated
             \<and> sc_duplicate_window actual = sc_duplicate_window updated
             \<and> sc_max_message_size actual = sc_max_message_size updated \<and> sc_num_replicas actual = sc_num_replicas updated)
       in Inr (if \<not> managed_equal then Some updated else None)))))))"

definition filter_matches :: "ConsumerConfig \<Rightarrow> ConsumerConfig \<Rightarrow> bool" where
  "filter_matches actual desired \<longleftrightarrow>
     (let expected_filter = pc_filter_subject desired in
      if expected_filter = [] \<and> pc_filter_subjects desired = []
      then pc_filter_subject actual = [] \<and> pc_filter_subjects actual = []
      else pc_filter_subject actual = expected_filter \<and> pc_filter_subjects actual = []
        \<or> pc_filter_subject actual = [] \<and> pc_filter_subjects actual = [expected_filter])"

definition consumer_needs_update :: "ConsumerConfig \<Rightarrow> ConsumerConfig \<Rightarrow> string \<Rightarrow> TopologyError + bool" where
  "consumer_needs_update actual desired resource =
     bind_result (incompatible_if resource ''durable_name'' TextValue (pc_durable_name desired) (pc_durable_name actual)) (\<lambda>_.
     bind_result (incompatible_if resource ''pull_consumer'' TextValue None (pc_deliver_subject actual)) (\<lambda>_.
     bind_result (incompatible_if resource ''deliver_group'' TextValue None (pc_deliver_group actual)) (\<lambda>_.
     bind_result (incompatible_if resource ''ack_policy'' AckValue (pc_ack_policy desired) (pc_ack_policy actual)) (\<lambda>_.
     bind_result (incompatible_if resource ''deliver_policy'' DeliverValue (pc_deliver_policy desired) (pc_deliver_policy actual)) (\<lambda>_.
     bind_result (incompatible_if resource ''headers_only'' FlagValue False (pc_headers_only actual)) (\<lambda>_.
     bind_result (ensure (filter_matches actual desired) (Incompatible resource ''filter_subject'' (FilterValue (pc_filter_subject desired))
       (FiltersValue (pc_filter_subject actual) (pc_filter_subjects actual)))) (\<lambda>_.
       Inr (pc_description actual \<noteq> pc_description desired \<or> pc_ack_wait actual \<noteq> pc_ack_wait desired
         \<or> pc_max_deliver actual \<noteq> pc_max_deliver desired \<or> pc_max_ack_pending actual \<noteq> pc_max_ack_pending desired
         \<or> pc_max_batch actual \<noteq> pc_max_batch desired \<or> pc_num_replicas actual \<noteq> pc_num_replicas desired
         \<or> pc_memory_storage actual \<noteq> pc_memory_storage desired \<or> pc_backoff actual \<noteq> []))))))))"

section \<open>Provisioning\<close>

datatype TopologyRequest =
    GetOrCreateStream StreamConfig
  | UpdateStream StreamConfig
  | GetStream string
  | GetOrCreateConsumer string string ConsumerConfig
  | UpdateConsumer string PullConfig
  | GetConsumer string string

record TopologyState =
  tp_calls :: nat
  tp_log :: "TopologyRequest list"

record ('t, 'c) TopologyWorld =
  tw_created :: "nat \<Rightarrow> string + ('t \<times> StreamConfig)"
  tw_updated :: "nat \<Rightarrow> string + unit"
  tw_stream :: "nat \<Rightarrow> string + 't"
  tw_created_consumer :: "nat \<Rightarrow> string + ConsumerConfig"
  tw_updated_consumer :: "nat \<Rightarrow> string + 'c"
  tw_consumer :: "nat \<Rightarrow> string + 'c"
  tw_into_consumer_config :: "PullConfig \<Rightarrow> ConsumerConfig"
  tw_stream_fallback :: StreamConfig
  tw_pull_fallback :: PullConfig

record ('t, 'c) ProvisionedTopology =
  pt_job_stream :: 't
  pt_job_consumer :: 'c
  pt_dlq_stream :: 't
  pt_advisory_stream :: 't
  pt_advisory_consumer :: 'c

type_synonym 'a provisioning = "(TopologyState, TopologyError, 'a) action"

definition server_call :: "string \<Rightarrow> TopologyRequest \<Rightarrow> (nat \<Rightarrow> string + 'a) \<Rightarrow> 'a provisioning" where
  "server_call resource request answer s =
     Some (case answer (tp_calls s) of Inl message \<Rightarrow> Inl (TopologyOperation resource message) | Inr x \<Rightarrow> Inr x,
       s\<lparr>tp_calls := Suc (tp_calls s), tp_log := tp_log s @ [request]\<rparr>)"

definition ensure_stream :: "('t, 'c) TopologyWorld \<Rightarrow> StreamConfig \<Rightarrow> 't provisioning" where
  "ensure_stream world desired =
     (let stream_name = sc_name desired in
      and_then (server_call stream_name (GetOrCreateStream desired) (tw_created world)) (\<lambda>(existing, cached).
      and_then (answered (reconciled_stream_config cached desired stream_name)) (\<lambda>changed. case changed of
          Some updated \<Rightarrow>
            and_then (server_call stream_name (UpdateStream updated) (tw_updated world)) (\<lambda>_.
              server_call stream_name (GetStream stream_name) (tw_stream world))
        | None \<Rightarrow> succeed existing)))"

definition ensure_pull_consumer :: "('t, 'c) TopologyWorld \<Rightarrow> string \<Rightarrow> string \<Rightarrow> PullConfig \<Rightarrow> 'c provisioning" where
  "ensure_pull_consumer world stream_name name desired_pull =
     (let desired_generic = tw_into_consumer_config world desired_pull in
      and_then (server_call name (GetOrCreateConsumer stream_name name desired_generic) (tw_created_consumer world)) (\<lambda>existing.
      and_then (answered (consumer_needs_update existing desired_generic name)) (\<lambda>needs_update.
        if needs_update then server_call name (UpdateConsumer stream_name desired_pull) (tw_updated_consumer world)
        else server_call name (GetConsumer stream_name name) (tw_consumer world))))"

definition provision_topology :: "('t, 'c) TopologyWorld \<Rightarrow> TopologyConfig \<Rightarrow> ('t, 'c) ProvisionedTopology provisioning" where
  "provision_topology world config =
     and_then (answered (validate_topology config)) (\<lambda>_.
     and_then (ensure_stream world (desired_job_stream (tw_stream_fallback world) config)) (\<lambda>job_stream.
     and_then (ensure_stream world (desired_dlq_stream (tw_stream_fallback world) config)) (\<lambda>dlq_stream.
     and_then (ensure_stream world (desired_advisory_stream (tw_stream_fallback world) config)) (\<lambda>advisory_stream.
     and_then (ensure_pull_consumer world JOB_QUEUE_STREAM JOB_DISPATCH_CONSUMER
       (desired_job_consumer (tw_pull_fallback world) config)) (\<lambda>job_consumer.
     and_then (ensure_pull_consumer world JOB_ADVISORY_STREAM JOB_ADVISORY_CONSUMER
       (desired_advisory_consumer (tw_pull_fallback world) config)) (\<lambda>advisory_consumer.
       succeed \<lparr>pt_job_stream = job_stream, pt_job_consumer = job_consumer, pt_dlq_stream = dlq_stream,
         pt_advisory_stream = advisory_stream, pt_advisory_consumer = advisory_consumer\<rparr>))))))"

end
