(* ===== verification/Config_Safety.thy ===== *)
theory Config_Safety
  imports Topology Fairness
begin

text \<open>
  What an accepted configuration guarantees to the parts that use it, and what provisioning does to
  the streams it finds.
\<close>

section \<open>The settings\<close>

text \<open>The buffer of \<open>Dispatcher::run\<close>.\<close>

definition fairness_config :: "SchedulerConfig \<Rightarrow> FairQueueConfig" where
  "fairness_config config = \<lparr>fc_capacity = fs_buffer_size (sg_fairness config),
     fc_interactive_weight = fs_interactive_weight (sg_fairness config),
     fc_batch_weight = fs_batch_weight (sg_fairness config), fc_batch_aging = fs_batch_aging (sg_fairness config)\<rparr>"

lemma parse_or_int_range:
  assumes "parse_or (int_from_str lo hi) v name fallback = Inr x" and "lo \<le> 0" and "0 \<le> hi"
  shows "lo \<le> x \<and> x \<le> hi"
proof -
  obtain s where "parse_int lo hi s = Inr x"
    using assms(1) by (auto simp: parse_or_def int_from_str_def split: sum.splits)
  then show ?thesis by (rule parse_int_range [OF assms(2,3)])
qed

lemma duration_seconds_facts:
  assumes "duration_seconds parsers v name fallback = Inr d"
  shows "0 \<le> d \<and> tp_from_std parsers d \<noteq> None"
proof -
  obtain n where n: "parse_or u64_from_str v name (show_nat fallback) = Inr n" "d = n * 1000000" "tp_from_std parsers d \<noteq> None"
    using assms by (auto simp: duration_seconds_def result_inv)
  from parse_or_int_range [OF n(1)] show ?thesis using n by simp
qed

lemma positive_i64_facts: "positive_i64 v name fallback = Inr x \<Longrightarrow> 0 < x \<and> x < 2 ^ 63"
  using parse_or_int_range [of "- (2 ^ 63)" "2 ^ 63 - 1" v name "show_nat fallback" x]
  by (fastforce simp: positive_i64_def result_inv invalid_positive_def split: if_splits)

definition timing_sound :: "TextParsers \<Rightarrow> TimingSettings \<Rightarrow> bool" where
  "timing_sound parsers t \<longleftrightarrow> 0 < tm_worker_heartbeat t \<and> tm_worker_heartbeat t < tm_stale_worker_threshold t
     \<and> tm_stale_worker_threshold t < tm_ack_wait t \<and> tm_ack_wait t < tm_database_lease_ttl t
     \<and> 0 < tm_reconciliation_interval t \<and> 0 < tm_reap_grace t
     \<and> (\<forall>d \<in> {tm_worker_heartbeat t, tm_stale_worker_threshold t, tm_ack_wait t, tm_database_lease_ttl t,
          tm_reconciliation_interval t, tm_reap_grace t}. tp_from_std parsers d \<noteq> None)"

lemma timing_settings_sound: "timing_settings parsers get = Inr t \<Longrightarrow> timing_sound parsers t"
  unfolding timing_settings_def Let_def bind_result_eq_Inr
  by (elim exE conjE) (auto simp: timing_sound_def timing_values_are_nonzero_def dest!: duration_seconds_facts split: if_splits)

lemma batch_limits_facts:
  "batch_limits get = Inr (pull, ack, buffer) \<Longrightarrow> 0 < pull \<and> 0 < ack \<and> int pull \<le> ack \<and> ack \<le> int buffer \<and> ack < 2 ^ 63"
  unfolding batch_limits_def Let_def bind_result_eq_Inr
  by (elim exE conjE)
    (auto simp: i64_of_usize_def usize_of_i64_def invalid_positive_def dest!: parse_or_int_range split: if_splits)

lemma topology_settings_facts:
  "topology_settings parsers get pull ack = Inr t \<Longrightarrow> 0 < ts_job_stream_max_bytes t \<and> 0 < ts_dlq_stream_max_bytes t
     \<and> 0 < ts_advisory_stream_max_bytes t \<and> 1 \<le> ts_stream_replicas t \<and> ts_stream_replicas t \<le> 5
     \<and> 0 < ts_dlq_retention t \<and> 0 < ts_advisory_retention t \<and> ts_pull_batch_size t = pull \<and> ts_max_ack_pending t = ack"
  unfolding topology_settings_def Let_def bind_result_eq_Inr
  by (elim exE conjE) (auto dest!: positive_i64_facts duration_seconds_facts split: if_splits)

lemma fairness_settings_facts:
  "fairness_settings parsers get buffer = Inr f \<Longrightarrow> fs_buffer_size f = buffer \<and> 0 < fs_interactive_weight f \<and> 0 < fs_batch_weight f
     \<and> fs_interactive_weight f + fs_batch_weight f \<le> 1024 \<and> 0 < fs_batch_aging f \<and> tp_from_std parsers (fs_batch_aging f) \<noteq> None"
  unfolding fairness_settings_def Let_def bind_result_eq_Inr
  by (elim exE conjE) (auto simp: invalid_positive_def dest!: parse_or_int_range duration_seconds_facts split: if_splits)

lemma run_attempts_facts:
  assumes "run_attempts get = Inr n"
  shows "1 \<le> uint n \<and> uint n < 2 ^ 32 - 1"
proof -
  obtain x where x: "parse_or u32_from_str (get ''SCHEDULER_MAX_RUN_ATTEMPTS'') ''SCHEDULER_MAX_RUN_ATTEMPTS'' ''3'' = Inr x"
    "x \<noteq> 0" "x \<noteq> 2 ^ 32 - 1" "n = word_of_int x"
    using assms by (auto simp: run_attempts_def result_inv split: if_splits)
  from parse_or_int_range [OF x(1)] have "0 \<le> x" "x \<le> 2 ^ 32 - 1" by simp_all
  then show ?thesis using x by (simp add: uint_word_of_int)
qed

text \<open>A NATS server on another machine is reached over TLS and with a credential, never with one in the URL.\<close>

definition nats_sound :: "TextParsers \<Rightarrow> NatsConfig \<Rightarrow> bool" where
  "nats_sound parsers nats \<longleftrightarrow> (\<exists>url. tp_url parsers (nc_url nats) = Inr url \<and> pu_username url = [] \<and> pu_password url = None
     \<and> (nats_endpoint_is_loopback parsers url
        \<or> pu_scheme url \<in> {''tls'', ''wss''} \<and> (nc_credentials_file nats = None) \<noteq> (nc_nkey_seed_file nats = None)))"

lemma nats_settings_sound: "nats_settings parsers get = Inr nats \<Longrightarrow> nats_sound parsers nats"
  unfolding nats_settings_def Let_def bind_result_eq_Inr
  by (elim exE conjE) (auto simp: nats_sound_def split: if_splits sum.splits)

lemma metrics_address_local: "metrics_address parsers get = Inr a \<Longrightarrow> ip_is_loopback (sa_ip a)"
  by (auto simp: metrics_address_def result_inv socket_is_loopback_def split: if_splits IpAddr.splits)

lemma config_from_map_parts:
  assumes "config_from_map parsers windows values = Inr c"
  obtains get pull ack buffer where "metrics_address parsers get = Inr (sg_metrics_bind_addr c)" "nats_settings parsers get = Inr (sg_nats c)"
    "timing_settings parsers get = Inr (sg_timing c)" "batch_limits get = Inr (pull, ack, buffer)"
    "topology_settings parsers get pull ack = Inr (sg_topology c)" "fairness_settings parsers get buffer = Inr (sg_fairness c)"
    "run_attempts get = Inr (sg_max_run_attempts c)"
  using assms unfolding config_from_map_def Let_def bind_result_eq_Inr
  by (elim exE conjE) (auto simp: bind_result_eq_Inr)

text \<open>
  C30. Whatever the environment holds, a configuration the scheduler accepts is one its parts can run
  with: heartbeats come more often than workers go stale, workers go stale before a delivery is
  redelivered and that before the lease expires; the prefetch fits the acknowledgement window and the
  window fits the buffer, whose construction succeeds; the topology derived from it passes its own
  validation and leaves one delivery beyond the run attempts; the metrics port is local and a remote
  bus is reached over TLS with a credential.
\<close>

theorem accepted_configuration_is_sound:
  assumes "config_from_map parsers windows values = Inr c"
  shows "timing_sound parsers (sg_timing c)
    \<and> 0 < ts_pull_batch_size (sg_topology c) \<and> int (ts_pull_batch_size (sg_topology c)) \<le> ts_max_ack_pending (sg_topology c)
    \<and> ts_max_ack_pending (sg_topology c) \<le> int (fs_buffer_size (sg_fairness c))
    \<and> (\<exists>q :: 'p FairQueue. fair_new (tp_from_std parsers) (fairness_config c) = Inr q \<and> fq_capacity q = fs_buffer_size (sg_fairness c))
    \<and> (\<exists>t. topology_of_config c = Inr t \<and> validate_topology t = Inr () \<and> tc_max_deliver t = uint (sg_max_run_attempts c) + 1
         \<and> 2 \<le> tc_max_deliver t \<and> tc_max_deliver t < 2 ^ 32)
    \<and> ip_is_loopback (sa_ip (sg_metrics_bind_addr c)) \<and> nats_sound parsers (sg_nats c)"
proof -
  obtain get pull ack buffer where p: "metrics_address parsers get = Inr (sg_metrics_bind_addr c)"
    "nats_settings parsers get = Inr (sg_nats c)" "timing_settings parsers get = Inr (sg_timing c)"
    "batch_limits get = Inr (pull, ack, buffer)" "topology_settings parsers get pull ack = Inr (sg_topology c)"
    "fairness_settings parsers get buffer = Inr (sg_fairness c)" "run_attempts get = Inr (sg_max_run_attempts c)"
    by (rule config_from_map_parts [OF assms])
  note b = batch_limits_facts [OF p(4)] and t = topology_settings_facts [OF p(5)] and f = fairness_settings_facts [OF p(6)]
    and a = run_attempts_facts [OF p(7)] and tm = timing_settings_sound [OF p(3)]
  have buffer: "\<exists>q :: 'p FairQueue. fair_new (tp_from_std parsers) (fairness_config c) = Inr q \<and> fq_capacity q = fs_buffer_size (sg_fairness c)"
    using b f by (auto simp: fair_new_def fairness_config_def)
  have "0 < tm_ack_wait (sg_timing c)" using tm by (simp add: timing_sound_def)
  then have topology: "\<exists>t. topology_of_config c = Inr t \<and> validate_topology t = Inr () \<and> tc_max_deliver t = uint (sg_max_run_attempts c) + 1
      \<and> 2 \<le> tc_max_deliver t \<and> tc_max_deliver t < 2 ^ 32"
    using b t a by (auto simp: topology_of_config_def i64_of_usize_def validate_topology_def Let_def)
  show ?thesis
    using b t f tm buffer topology metrics_address_local [OF p(1)] nats_settings_sound [OF p(2)] by simp
qed

text \<open>The empty environment: every default.\<close>

definition sample_parsers :: TextParsers where
  "sample_parsers = \<lparr>tp_url = (\<lambda>u. Inr \<lparr>pu_scheme = takeWhile (\<lambda>c. c \<noteq> CHR '':'') u, pu_host = Some (Ipv4Host (127 * 2 ^ 24 + 1)),
     pu_username = [], pu_password = None\<rparr>), tp_ip = (\<lambda>_. None),
     tp_socket = (\<lambda>_. Inr \<lparr>sa_ip = IpV4 (127 * 2 ^ 24 + 1), sa_port = 9091\<rparr>), tp_from_std = Some\<rparr>"

lemma default_seconds: "int n \<le> 2 ^ 64 - 1 \<Longrightarrow> duration_seconds sample_parsers None name n = Inr (int n * 1000000)"
  by (simp add: duration_seconds_def parse_or_def int_from_str_def parse_int_show sample_parsers_def)

lemma default_bytes: "0 < n \<Longrightarrow> int n \<le> 2 ^ 63 - 1 \<Longrightarrow> positive_i64 None name n = Inr (int n)"
  by (simp add: positive_i64_def parse_or_def int_from_str_def parse_int_show)

lemma sample_defaults:
  "parse_or u64_from_str None a ''64'' = Inr 64" "parse_or i64_from_str None a ''256'' = Inr 256"
  "parse_or u64_from_str None a ''1024'' = Inr 1024" "parse_or u64_from_str None a ''1'' = Inr 1"
  "parse_or u64_from_str None a ''3'' = Inr 3" "parse_or u32_from_str None a ''3'' = Inr 3"
  "is_ok (metrics_address sample_parsers (\<lambda>_. None))" "is_ok (nats_settings sample_parsers (\<lambda>_. None))"
  "validate_docker_endpoint sample_parsers (default_docker_endpoint False) = Inr ()"
proof -
  have 1: "parse_int 0 (2 ^ 64 - 1) ''64'' = Inr 64" "parse_int (- (2 ^ 63)) (2 ^ 63 - 1) ''256'' = Inr 256"
    "parse_int 0 (2 ^ 64 - 1) ''1024'' = Inr 1024" "parse_int 0 (2 ^ 64 - 1) ''1'' = Inr 1"
    "parse_int 0 (2 ^ 64 - 1) ''3'' = Inr 3" "parse_int 0 (2 ^ 32 - 1) ''3'' = Inr 3"
    by (simp_all add: parse_int_def digit_value_def is_ascii_digit_def ascii_code_def)
  then show "parse_or u64_from_str None a ''64'' = Inr 64" "parse_or i64_from_str None a ''256'' = Inr 256"
    "parse_or u64_from_str None a ''1024'' = Inr 1024" "parse_or u64_from_str None a ''1'' = Inr 1"
    "parse_or u64_from_str None a ''3'' = Inr 3" "parse_or u32_from_str None a ''3'' = Inr 3"
    by (simp_all add: parse_or_def int_from_str_def)
  have 2: "drop_bit 24 (127 * 2 ^ 24 + 1 :: u32) = 127" by simp
  show "is_ok (metrics_address sample_parsers (\<lambda>_. None))"
    using 2 by (simp add: metrics_address_def parse_or_def sample_parsers_def socket_is_loopback_def)
  show "is_ok (nats_settings sample_parsers (\<lambda>_. None))"
    using 2 by (simp add: nats_settings_def sample_parsers_def DEFAULT_NATS_URL_def nats_endpoint_is_loopback_def Let_def)
  show "validate_docker_endpoint sample_parsers (default_docker_endpoint False) = Inr ()"
    by (simp add: validate_docker_endpoint_def sample_parsers_def default_docker_endpoint_def)
qed

theorem accepted_configuration_is_sound_witness:
  "\<exists>c. config_from_map sample_parsers False (\<lambda>_. None) = Inr c \<and> timing_sound sample_parsers (sg_timing c)
     \<and> (\<exists>q :: unit FairQueue. fair_new Some (fairness_config c) = Inr q \<and> fq_capacity q = fs_buffer_size (sg_fairness c))"
proof -
  obtain m n where mn: "metrics_address sample_parsers (\<lambda>_. None) = Inr m" "nats_settings sample_parsers (\<lambda>_. None) = Inr n"
    using sample_defaults(7,8) by (auto simp: is_ok_iff)
  have get: "env_value (\<lambda>_. None) = (\<lambda>_. None)" by (auto simp: env_value_def)
  have "is_ok (config_from_map sample_parsers False (\<lambda>_. None))" using sample_defaults(1-6,9) mn
    by (simp add: config_from_map_def get Let_def timing_settings_def topology_settings_def fairness_settings_def batch_limits_def docker_settings_def
        run_attempts_def env_value_def parse_bool_def default_seconds default_bytes timing_values_are_nonzero_def i64_of_usize_def
        usize_of_i64_def)
  then obtain c where c: "config_from_map sample_parsers False (\<lambda>_. None) = Inr c" by (auto simp: is_ok_iff)
  have "tp_from_std sample_parsers = Some" by (simp add: sample_parsers_def)
  then show ?thesis using accepted_configuration_is_sound [OF c, where 'p = unit] c by auto
qed

section \<open>Drift\<close>

definition stream_compatible :: "StreamConfig \<Rightarrow> StreamConfig \<Rightarrow> bool" where
  "stream_compatible found wanted \<longleftrightarrow> sc_retention found = sc_retention wanted \<and> sc_storage found = sc_storage wanted
     \<and> \<not> sc_no_ack found \<and> \<not> sc_deny_delete found \<and> \<not> sc_sealed found \<and> mset (sc_subjects found) = mset (sc_subjects wanted)"

text \<open>The fields the scheduler manages, and those it leaves as it finds them.\<close>

definition managed :: "StreamConfig \<Rightarrow> string option \<times> int \<times> DiscardPolicy \<times> duration \<times> duration \<times> int \<times> nat" where
  "managed c = (sc_description c, sc_max_bytes c, sc_discard c, sc_max_age c, sc_duplicate_window c, sc_max_message_size c, sc_num_replicas c)"

definition left_alone :: "StreamConfig \<Rightarrow> string \<times> string list \<times> RetentionPolicy \<times> StorageType \<times> bool \<times> bool \<times> bool" where
  "left_alone c = (sc_name c, sc_subjects c, sc_retention c, sc_storage c, sc_no_ack c, sc_deny_delete c, sc_sealed c)"

lemma same_subjects: "sort xs = sort ys \<longleftrightarrow> mset xs = mset (ys :: string list)"
  by (metis mset_sort properties_for_sort sorted_sort)

lemma reconciled_compatible:
  assumes "stream_compatible found wanted"
  shows "reconciled_stream_config found wanted resource = Inr (if managed found = managed wanted then None
     else Some (found\<lparr>sc_description := sc_description wanted, sc_max_bytes := sc_max_bytes wanted, sc_discard := sc_discard wanted,
       sc_max_age := sc_max_age wanted, sc_duplicate_window := sc_duplicate_window wanted,
       sc_max_message_size := sc_max_message_size wanted, sc_num_replicas := sc_num_replicas wanted\<rparr>))"
  using assms unfolding reconciled_stream_config_def stream_compatible_def Let_def managed_def
  by (simp add: incompatible_if_def same_subjects)

lemma reconciled_incompatible:
  assumes "\<not> stream_compatible found wanted"
  shows "\<exists>field e a. reconciled_stream_config found wanted resource = Inl (Incompatible resource field e a)"
  using assms unfolding reconciled_stream_config_def stream_compatible_def
  by (auto simp: incompatible_if_def same_subjects)

lemma reconciled_Some:
  assumes "reconciled_stream_config found wanted resource = Inr (Some u)"
  shows "stream_compatible found wanted \<and> managed u = managed wanted \<and> left_alone u = left_alone found"
proof -
  have c: "stream_compatible found wanted" using assms reconciled_incompatible [of found wanted resource] by force
  then show ?thesis
    using assms by (auto simp: reconciled_compatible managed_def left_alone_def split: if_splits)
qed

text \<open>
  Reconciling a stream converges and never touches what it does not manage: a stream that differs
  in retention, storage, acknowledgement, deletion or its set of subjects is refused; otherwise an
  update is due exactly when a managed field differs, it sets the managed fields and keeps the others,
  and the updated stream needs no further update.
\<close>

theorem stream_reconciliation_converges:
  "if stream_compatible found wanted
   then \<exists>changed. reconciled_stream_config found wanted resource = Inr changed
     \<and> (case changed of
          None \<Rightarrow> managed found = managed wanted
        | Some u \<Rightarrow> managed found \<noteq> managed wanted \<and> managed u = managed wanted \<and> left_alone u = left_alone found
            \<and> reconciled_stream_config u wanted resource = Inr None)
   else \<exists>field e a. reconciled_stream_config found wanted resource = Inl (Incompatible resource field e a)"
proof (cases "stream_compatible found wanted")
  case True
  show ?thesis
  proof (cases "managed found = managed wanted")
    case same: True
    then show ?thesis using reconciled_compatible [OF True] True by simp
  next
    case False
    then obtain u where u: "reconciled_stream_config found wanted resource = Inr (Some u)"
      using reconciled_compatible [OF True] by simp
    have m: "managed u = managed wanted" "left_alone u = left_alone found" using reconciled_Some [OF u] by simp_all
    then have "stream_compatible u wanted" using True by (simp add: stream_compatible_def left_alone_def)
    then show ?thesis using u m False True reconciled_compatible [of u wanted resource] by simp
  qed
qed (simp add: reconciled_incompatible)

section \<open>Provisioning\<close>

definition requested :: "(TopologyRequest \<Rightarrow> bool) \<Rightarrow> TopologyState \<Rightarrow> TopologyState \<Rightarrow> bool" where
  "requested P s s' \<longleftrightarrow> (\<exists>new. tp_log s' = tp_log s @ new \<and> list_all P new)"

interpretation requests: action_relation "requested P" for P
  by unfold_locales (auto simp: requested_def intro: exI [of _ "[]"])

lemma server_call_requests: "P request \<Longrightarrow> requests.keeps P (server_call resource request answer)"
  by (rule requests.keepsI) (auto simp: requested_def server_call_def)

lemma server_call_returns: "returns (server_call resource request answer)"
  by (simp add: returns_def server_call_def)

text \<open>An update that the world's answers justify.\<close>

definition justified :: "('t, 'c) TopologyWorld \<Rightarrow> TopologyConfig \<Rightarrow> TopologyRequest \<Rightarrow> bool" where
  "justified world config request \<longleftrightarrow> (\<forall>u. request = UpdateStream u \<longrightarrow> (\<exists>n handle found wanted.
     tw_created world n = Inr (handle, found)
     \<and> wanted \<in> {desired_job_stream (tw_stream_fallback world) config, desired_dlq_stream (tw_stream_fallback world) config,
         desired_advisory_stream (tw_stream_fallback world) config}
     \<and> stream_compatible found wanted \<and> managed u = managed wanted \<and> left_alone u = left_alone found))"

lemma justified_other: "(\<And>u. request \<noteq> UpdateStream u) \<Longrightarrow> justified world config request"
  by (simp add: justified_def)

lemma ensure_stream_requests:
  assumes wanted: "wanted \<in> {desired_job_stream (tw_stream_fallback world) config, desired_dlq_stream (tw_stream_fallback world) config,
    desired_advisory_stream (tw_stream_fallback world) config}"
  shows "requests.keeps (justified world config) (ensure_stream world wanted)"
proof (rule requests.keepsI)
  fix s r s' assume run: "ensure_stream world wanted s = Some (r, s')"
  let ?name = "sc_name wanted"
  let ?rest = "\<lambda>existing cached. and_then (answered (reconciled_stream_config cached wanted ?name)) (\<lambda>changed. case changed of
      Some updated \<Rightarrow> and_then (server_call ?name (UpdateStream updated) (tw_updated world)) (\<lambda>_.
        server_call ?name (GetStream ?name) (tw_stream world))
    | None \<Rightarrow> succeed existing)"
  have first: "requests.keeps (justified world config) (server_call ?name (GetOrCreateStream wanted) (tw_created world))"
    by (rule server_call_requests) (simp add: justified_def)
  from run consider e where "server_call ?name (GetOrCreateStream wanted) (tw_created world) s = Some (Inl e, s')"
    | existing cached s1 where "server_call ?name (GetOrCreateStream wanted) (tw_created world) s = Some (Inr (existing, cached), s1)"
      "?rest existing cached s1 = Some (r, s')"
    unfolding ensure_stream_def Let_def and_then_cases [of "server_call _ _ _"] by auto
  then show "requested (justified world config) s s'"
  proof cases
    case 1
    then show ?thesis by (rule requests.keepsD [OF first])
  next
    case 2
    have created: "tw_created world (tp_calls s) = Inr (existing, cached)"
      using 2(1) by (auto simp: server_call_def split: sum.splits)
    have "justified world config (UpdateStream u)" if "reconciled_stream_config cached wanted ?name = Inr (Some u)" for u
      using reconciled_Some [OF that] created wanted unfolding justified_def by blast
    then have "requests.keeps (justified world config) (?rest existing cached)"
      by (cases "reconciled_stream_config cached wanted ?name")
        (auto simp: answered_def and_then_def requests.keeps_def action_iff requested_def server_call_def justified_def
          split: option.splits prod.splits sum.splits)
    then have "requested (justified world config) s1 s'" using requests.keepsD 2(2) by blast
    then show ?thesis using requests.R_trans requests.keepsD [OF first 2(1)] by blast
  qed
qed

lemma ensure_consumer_requests: "requests.keeps (justified world config) (ensure_pull_consumer world stream name wanted)"
  unfolding ensure_pull_consumer_def Let_def
  by (intro requests.keeps_rules server_call_requests) (simp_all add: justified_def)

lemma provisioning_returns: "returns (provision_topology world config)"
proof -
  have "returns (ensure_stream world wanted)" for wanted
    unfolding ensure_stream_def Let_def by (intro returns_rules server_call_returns)
  moreover have "returns (ensure_pull_consumer world stream name wanted)" for stream name wanted
    unfolding ensure_pull_consumer_def Let_def by (intro returns_rules server_call_returns)
  ultimately show ?thesis unfolding provision_topology_def by (intro returns_rules)
qed

text \<open>
  C32. Provisioning returns whatever the server answers, and changes no stream it does not understand:
  an invalid configuration sends no request at all, and every stream update it sends goes to a stream
  that the server reported as compatible with one of the three wanted ones, sets its managed fields
  and keeps the rest.
\<close>

theorem provisioning_keeps_streams:
  "\<exists>r s' new. provision_topology world config s = Some (r, s') \<and> tp_log s' = tp_log s @ new
     \<and> (\<forall>request \<in> set new. validate_topology config = Inr () \<and> justified world config request)"
proof -
  obtain r s' where run: "provision_topology world config s = Some (r, s')" using returnsD [OF provisioning_returns] by blast
  show ?thesis
  proof (cases "validate_topology config = Inr ()")
    case True
    have "requests.keeps (justified world config) (provision_topology world config)"
      unfolding provision_topology_def by (intro requests.keeps_rules ensure_stream_requests ensure_consumer_requests) simp_all
    from requests.keepsD [OF this run] show ?thesis using run True by (auto simp: requested_def list_all_iff)
  next
    case False
    then have "s' = s" using run unfolding provision_topology_def by (auto simp: and_then_cases)
    then show ?thesis using run by (intro exI [of _ r] exI [of _ s'] exI [of _ "[]"]) simp
  qed
qed

text \<open>A server whose job stream has another size limit: the stream is updated, then the server goes away.\<close>

definition blank_stream :: StreamConfig where
  "blank_stream = \<lparr>sc_name = [], sc_description = None, sc_subjects = [], sc_retention = RetainLimits, sc_storage = FileStorage,
     sc_discard = DiscardOld, sc_max_bytes = 0, sc_max_age = 0, sc_duplicate_window = 0, sc_max_message_size = 0, sc_num_replicas = 0,
     sc_no_ack = False, sc_deny_delete = False, sc_sealed = False\<rparr>"

definition sample_server :: "(unit, unit) TopologyWorld" where
  "sample_server = \<lparr>tw_created = (\<lambda>n. if n = 0 then Inr ((), (desired_job_stream blank_stream default_topology)\<lparr>sc_max_bytes := 123\<rparr>)
       else Inl ''down''),
     tw_updated = (\<lambda>_. Inr ()), tw_stream = (\<lambda>_. Inr ()), tw_created_consumer = (\<lambda>_. Inl ''down''),
     tw_updated_consumer = (\<lambda>_. Inr ()), tw_consumer = (\<lambda>_. Inr ()), tw_into_consumer_config = undefined,
     tw_stream_fallback = blank_stream, tw_pull_fallback = undefined\<rparr>"

theorem provisioning_keeps_streams_witness:
  "\<exists>r s' u. provision_topology sample_server default_topology \<lparr>tp_calls = 0, tp_log = []\<rparr> = Some (r, s')
     \<and> UpdateStream u \<in> set (tp_log s') \<and> sc_max_bytes u = 10737418240 \<and> justified sample_server default_topology (UpdateStream u)"
proof -
  let ?s = "\<lparr>tp_calls = 0, tp_log = []\<rparr>"
  obtain r s' new where run: "provision_topology sample_server default_topology ?s = Some (r, s')" "tp_log s' = [] @ new"
    "\<And>request. request \<in> set new \<Longrightarrow> justified sample_server default_topology request"
    using provisioning_keeps_streams [of sample_server default_topology ?s] by auto
  have "validate_topology default_topology = Inr ()" by (simp add: validate_topology_def default_topology_def)
  then have "\<exists>u. UpdateStream u \<in> set (tp_log s') \<and> sc_max_bytes u = 10737418240"
    using run(1)
    by (auto simp: provision_topology_def ensure_stream_def and_then_def answered_def server_call_def sample_server_def Let_def succeed_def
        reconciled_stream_config_def incompatible_if_def desired_job_stream_def default_topology_def blank_stream_def
        split: option.splits sum.splits prod.splits)
  then show ?thesis using run by (metis append_Nil)
qed

end
