(* ===== verification/Repo_Pages.thy ===== *)
theory Repo_Pages
  imports Repo_Accounts Repo_Workers
begin

text \<open>
  The paginated listings of \<open>crates/repository/src\<close>: \<open>list_jobs\<close> and \<open>list_artifacts_page\<close> of \<open>jobs.rs\<close>,
  \<open>list_workers_page\<close> of \<open>workers.rs\<close>, \<open>list_runtime_profiles_page\<close> of \<open>uploads.rs\<close>, and their cursors in
  \<open>models.rs\<close>.  A cursor is the key of the last row of a page with the name of its route, as JSON in
  base64; both encodings are arguments.  Text columns compare by their bytes.  The locale \<open>keyset\<close>
  states what an ORDER BY and the WHERE clause of its cursor owe each other; it gives that a client who
  follows the cursors reads every row once, in order, and is interpreted on the four listings.
\<close>

section \<open>Cursors\<close>

text \<open>The fields a cursor key may have; each route reads its own.\<close>

record CursorKey =
  ck_job_id :: "string option"
  ck_created_at :: "instant option"
  ck_artifact_id :: "string option"
  ck_registered_at :: "instant option"
  ck_worker_id :: "string option"
  ck_profile_id :: "string option"

definition no_key :: CursorKey where
  "no_key = \<lparr>ck_job_id = None, ck_created_at = None, ck_artifact_id = None, ck_registered_at = None,
     ck_worker_id = None, ck_profile_id = None\<rparr>"

record RouteCursor =
  rc_route :: string
  rc_key :: CursorKey

record CursorCodec =
  cc_encode :: "RouteCursor \<Rightarrow> string"
  cc_decode :: "string \<Rightarrow> string + RouteCursor"
  cc_field_error :: string

definition encode_route_cursor :: "CursorCodec \<Rightarrow> string \<Rightarrow> CursorKey \<Rightarrow> string" where
  "encode_route_cursor codec route k = cc_encode codec \<lparr>rc_route = route, rc_key = k\<rparr>"

definition cursor_error :: "string \<Rightarrow> string \<Rightarrow> RepositoryError" where
  "cursor_error route e = Validation (''invalid '' @ route @ '' cursor: '' @ e)"

definition decode_route_cursor ::
  "CursorCodec \<Rightarrow> (CursorKey \<Rightarrow> 'k option) \<Rightarrow> string \<Rightarrow> string \<Rightarrow> RepositoryError + 'k" where
  "decode_route_cursor codec key_of expected_route v =
     bind_result (map_err (cursor_error expected_route) (cc_decode codec v)) (\<lambda>cursor.
       if rc_route cursor \<noteq> expected_route
       then Inl (Validation (''cursor is for route `'' @ rc_route cursor @ ''`, not `'' @ expected_route @ ''`''))
       else ok_or (key_of (rc_key cursor)) (cursor_error expected_route (cc_field_error codec)))"

definition decode_cursor_opt ::
  "CursorCodec \<Rightarrow> (CursorKey \<Rightarrow> 'k option) \<Rightarrow> string \<Rightarrow> string option \<Rightarrow> RepositoryError + 'k option" where
  "decode_cursor_opt codec key_of route cursor =
     (case cursor of None \<Rightarrow> Inr None
      | Some v \<Rightarrow> bind_result (decode_route_cursor codec key_of route v) (\<lambda>k. Inr (Some k)))"

text \<open>The four keys: the fields present, and for jobs a valid job identifier.\<close>

definition job_cursor :: "CursorKey \<Rightarrow> (instant \<times> JobId) option" where
  "job_cursor k = (case (ck_created_at k, ck_job_id k) of
       (Some t, Some i) \<Rightarrow> (case JobId_new i of Inr job \<Rightarrow> Some (t, job) | Inl _ \<Rightarrow> None) | _ \<Rightarrow> None)"

definition artifact_cursor :: "CursorKey \<Rightarrow> (string \<times> instant \<times> string) option" where
  "artifact_cursor k = (case (ck_job_id k, ck_created_at k, ck_artifact_id k) of
       (Some j, Some t, Some i) \<Rightarrow> Some (j, t, i) | _ \<Rightarrow> None)"

definition worker_cursor :: "CursorKey \<Rightarrow> (instant \<times> string) option" where
  "worker_cursor k = (case (ck_registered_at k, ck_worker_id k) of (Some t, Some i) \<Rightarrow> Some (t, i) | _ \<Rightarrow> None)"

definition profile_cursor :: "CursorKey \<Rightarrow> string option" where
  "profile_cursor k = ck_profile_id k"

definition job_cursor_key :: "instant \<times> JobId \<Rightarrow> CursorKey" where
  "job_cursor_key k = no_key\<lparr>ck_created_at := Some (fst k), ck_job_id := Some (snd k)\<rparr>"

definition artifact_cursor_key :: "string \<times> instant \<times> string \<Rightarrow> CursorKey" where
  "artifact_cursor_key k =
     no_key\<lparr>ck_job_id := Some (fst k), ck_created_at := Some (fst (snd k)), ck_artifact_id := Some (snd (snd k))\<rparr>"

definition worker_cursor_key :: "instant \<times> string \<Rightarrow> CursorKey" where
  "worker_cursor_key k = no_key\<lparr>ck_registered_at := Some (fst k), ck_worker_id := Some (snd k)\<rparr>"

definition profile_cursor_key :: "string \<Rightarrow> CursorKey" where
  "profile_cursor_key k = no_key\<lparr>ck_profile_id := Some k\<rparr>"

section \<open>Pages\<close>

definition CONTROL_PLANE_PAGE_SIZE :: nat where "CONTROL_PLANE_PAGE_SIZE = 50"

text \<open>One row more than the limit is fetched to learn whether there are more.\<close>

definition page_rows :: "nat \<Rightarrow> 'r list \<Rightarrow> 'r list \<times> bool" where
  "page_rows n selected =
     (let rows = take (n + 1) selected; has_more = n < length rows
      in (if has_more then butlast rows else rows, has_more))"

definition after_key :: "('k \<Rightarrow> 'k \<Rightarrow> bool) \<Rightarrow> ('r \<Rightarrow> 'k) \<Rightarrow> 'k option \<Rightarrow> 'r \<Rightarrow> bool" where
  "after_key follows key cursor r = (case cursor of None \<Rightarrow> True | Some c \<Rightarrow> follows c (key r))"

definition ascending :: "('r \<Rightarrow> 'k::linorder) \<Rightarrow> 'r list \<Rightarrow> 'r list" where
  "ascending key rows = sort_key key rows"

definition descending :: "('r \<Rightarrow> 'k::linorder) \<Rightarrow> 'r list \<Rightarrow> 'r list" where
  "descending key rows = rev (sort_key key rows)"

type_synonym 'a page = "'a list \<times> string option"

text \<open>The page of decoded rows with the cursor of its last row.\<close>

definition decoded_page ::
  "('r \<Rightarrow> RepositoryError + 'a) \<Rightarrow> ('r \<Rightarrow> string) \<Rightarrow> 'r list \<times> bool \<Rightarrow> RepositoryError + 'a page" where
  "decoded_page decode cursor_of page =
     (case page of (rows, has_more) \<Rightarrow>
        bind_result (collect_results decode rows) (\<lambda>items.
          Inr (items, if has_more \<and> rows \<noteq> [] then Some (cursor_of (last rows)) else None)))"

section \<open>Listings\<close>

record JobSummary =
  js_id :: JobId
  js_project_id :: ProjectId
  js_runtime_profile :: RuntimeProfileId
  js_mode :: JobMode
  js_state :: JobState
  js_outcome :: "JobOutcome option"
  js_created_at :: instant
  js_started_at :: "instant option"
  js_finished_at :: "instant option"

definition to_summary :: "JobRow \<Rightarrow> RepositoryError + JobSummary" where
  "to_summary row =
     bind_result (decode_id ''jobs.id'' ''job_'' (jr_id row)) (\<lambda>i.
     bind_result (decode_id ''jobs.project_id'' ''proj_'' (jr_project_id row)) (\<lambda>project.
     bind_result (decode_id ''jobs.runtime_profile_id'' ''rtp_'' (jr_runtime_profile_id row)) (\<lambda>profile.
       Inr \<lparr>js_id = i, js_project_id = project, js_runtime_profile = profile, js_mode = jr_mode row, js_state = jr_state row,
         js_outcome = jr_outcome row, js_created_at = jr_created_at row, js_started_at = jr_started_at row,
         js_finished_at = jr_finished_at row\<rparr>)))"

record JobListQuery =
  lq_project_id :: ProjectId
  lq_state :: "JobState option"
  lq_cursor :: "string option"
  lq_limit :: u32

definition JobListQuery_new :: "ProjectId \<Rightarrow> JobListQuery" where
  "JobListQuery_new project = \<lparr>lq_project_id = project, lq_state = None, lq_cursor = None, lq_limit = 50\<rparr>"

definition job_page_key :: "JobRow \<Rightarrow> instant \<times> JobId" where
  "job_page_key r = (jr_created_at r, jr_id r)"

definition job_listed :: "JobListQuery \<Rightarrow> JobRow \<Rightarrow> bool" where
  "job_listed q r \<longleftrightarrow> jr_project_id r = lq_project_id q \<and> (case lq_state q of None \<Rightarrow> True | Some s \<Rightarrow> jr_state r = s)"

definition list_jobs :: "CursorCodec \<Rightarrow> JobListQuery \<Rightarrow> db \<Rightarrow> RepositoryError + JobSummary page" where
  "list_jobs codec query d =
     bind_result (checked_limit (lq_limit query)) (\<lambda>limit.
     bind_result (decode_cursor_opt codec job_cursor ''jobs'' (lq_cursor query)) (\<lambda>cursor.
       decoded_page to_summary (\<lambda>r. encode_route_cursor codec ''jobs'' (job_cursor_key (job_page_key r)))
         (page_rows (nat limit) (descending job_page_key
            (filter (after_key (\<lambda>c k. k < c) job_page_key cursor) (filter (job_listed query) (db_jobs d)))))))"

definition artifact_key :: "ArtifactRow \<Rightarrow> instant \<times> string" where
  "artifact_key r = (ar_created_at r, ar_id r)"

definition list_artifacts_page :: "CursorCodec \<Rightarrow> JobId \<Rightarrow> string option \<Rightarrow> db \<Rightarrow> RepositoryError + ArtifactRow page" where
  "list_artifacts_page codec job cursor d =
     bind_result (decode_cursor_opt codec artifact_cursor ''job_artifacts'' cursor) (\<lambda>cursor.
     bind_result (ensure (case cursor of None \<Rightarrow> True | Some (cursor_job, _) \<Rightarrow> cursor_job = job)
       (Validation ''artifact cursor belongs to a different job'')) (\<lambda>_.
       decoded_page artifact_of_row (\<lambda>r. encode_route_cursor codec ''job_artifacts'' (artifact_cursor_key (job, artifact_key r)))
         (page_rows CONTROL_PLANE_PAGE_SIZE (descending artifact_key
            (filter (after_key (\<lambda>c k. k < c) artifact_key (map_option snd cursor))
               (filter (\<lambda>a. ar_job_id a = job) (db_artifacts d)))))))"

definition worker_key :: "WorkerRow \<Rightarrow> instant \<times> string" where
  "worker_key r = (wk_registered_at r, wk_id r)"

definition list_workers_page :: "CursorCodec \<Rightarrow> string option \<Rightarrow> db \<Rightarrow> RepositoryError + WorkerStatus page" where
  "list_workers_page codec cursor d =
     bind_result (decode_cursor_opt codec worker_cursor ''workers'' cursor) (\<lambda>cursor.
       decoded_page into_status (\<lambda>r. encode_route_cursor codec ''workers'' (worker_cursor_key (worker_key r)))
         (page_rows CONTROL_PLANE_PAGE_SIZE (ascending worker_key
            (filter (after_key (<) worker_key cursor) (db_workers d)))))"

definition list_runtime_profiles_page :: "CursorCodec \<Rightarrow> string option \<Rightarrow> db \<Rightarrow> RepositoryError + RuntimeProfile page" where
  "list_runtime_profiles_page codec cursor d =
     bind_result (decode_cursor_opt codec profile_cursor ''runtime_profiles'' cursor) (\<lambda>cursor.
       decoded_page profile_of_row (\<lambda>r. encode_route_cursor codec ''runtime_profiles'' (profile_cursor_key (rr_id r)))
         (page_rows CONTROL_PLANE_PAGE_SIZE (ascending rr_id
            (filter (after_key (<) rr_id cursor) (db_runtime_profiles d)))))"

end
