(* ===== verification/Repo_Paging.thy ===== *)
theory Repo_Paging
  imports Repo_Pages Repo_Safety
begin

text \<open>
  Following the cursors of a listing.  The locale \<open>keyset\<close> is the contract between the ORDER BY of a
  page query and the WHERE clause its cursor adds; its theorem is that the pages, read one after the
  other from an unchanged table, are the ordered table.
\<close>

section \<open>Reading every page\<close>

text \<open>A client that follows the cursors for at most a number of pages.\<close>

fun read_all :: "nat \<Rightarrow> (string option \<Rightarrow> 'e + 'a list \<times> string option) \<Rightarrow> string option \<Rightarrow> ('e + 'a list) option" where
  "read_all 0 fetch cursor = None"
| "read_all (Suc k) fetch cursor =
     (case fetch cursor of
        Inl e \<Rightarrow> Some (Inl e)
      | Inr (items, None) \<Rightarrow> Some (Inr items)
      | Inr (items, Some c) \<Rightarrow> map_option (\<lambda>r. bind_result r (\<lambda>rest. Inr (items @ rest))) (read_all k fetch (Some c)))"

lemma read_all_mono: "read_all m fetch c = Some r \<Longrightarrow> m \<le> m' \<Longrightarrow> read_all m' fetch c = Some r"
proof (induction m fetch c arbitrary: m' r rule: read_all.induct)
  case (1 fetch c)
  then show ?case by simp
next
  case (2 k fetch c)
  obtain j where j: "m' = Suc j" "k \<le> j" using 2(3) by (cases m') auto
  show ?case
  proof (cases "fetch c")
    case (Inl e)
    then show ?thesis using 2(2) j by simp
  next
    case (Inr page)
    then obtain items n where p: "fetch c = Inr (items, n)" by (cases page) auto
    show ?thesis
    proof (cases n)
      case None
      then show ?thesis using 2(2) j p by simp
    next
      case (Some c')
      then obtain q where q: "read_all k fetch (Some c') = Some q" "r = bind_result q (\<lambda>rest. Inr (items @ rest))"
        using 2(2) p by auto
      then have "read_all j fetch (Some c') = Some q" using 2(1) [OF p refl Some q(1) j(2)] by simp
      then show ?thesis using q(2) j(1) p Some by simp
    qed
  qed
qed

lemma collect_append:
  "collect_results f (xs @ ys) = bind_result (collect_results f xs) (\<lambda>a. bind_result (collect_results f ys) (\<lambda>b. Inr (a @ b)))"
  by (induction xs) (auto simp: bind_result_def split: sum.splits)

lemma collect_length: "collect_results f xs = Inr ys \<Longrightarrow> length ys = length xs"
  by (induction xs arbitrary: ys) (auto simp: result_inv)

section \<open>The contract\<close>

locale keyset =
  fixes key :: "'r \<Rightarrow> 'k" and order :: "'r list \<Rightarrow> 'r list" and follows :: "'k \<Rightarrow> 'k \<Rightarrow> bool"
  assumes order_mset: "mset (order rows) = mset rows"
    and order_split: "distinct (map key rows) \<Longrightarrow> order rows = before @ r # rest \<Longrightarrow>
      order (filter (\<lambda>x. follows (key r) (key x)) rows) = rest"
begin

lemma order_length: "length (order rows) = length rows"
  by (metis order_mset size_mset)

text \<open>A cursor is at a place of the ordered table when it is absent at its start, or the key of the row before.\<close>

definition at_place :: "'r list \<Rightarrow> 'k option \<Rightarrow> bool" where
  "at_place before cursor \<longleftrightarrow> (case cursor of None \<Rightarrow> before = [] | Some c \<Rightarrow> before \<noteq> [] \<and> c = key (last before))"

lemma after_place:
  assumes "distinct (map key rows)" and "order rows = before @ rest" and "at_place before cursor"
  shows "order (filter (after_key follows key cursor) rows) = rest"
proof (cases cursor)
  case None
  then have "after_key follows key cursor = (\<lambda>_. True)" by (simp add: after_key_def [abs_def])
  then show ?thesis using None assms(2,3) by (simp add: at_place_def)
next
  case (Some c)
  then obtain b where b: "before = b @ [last before]" "c = key (last before)"
    using assms(3) by (auto simp: at_place_def intro: append_butlast_last_id [symmetric])
  then have "order rows = b @ last before # rest" using assms(2) by (metis append.assoc append_Cons append_Nil)
  then have "order (filter (\<lambda>x. follows c (key x)) rows) = rest" using order_split [OF assms(1)] b(2) by blast
  then show ?thesis using Some by (simp add: after_key_def [abs_def])
qed

theorem read_all_complete:
  assumes rows: "distinct (map key rows)" and n: "1 \<le> n"
    and fetch: "\<And>cursor. (\<And>c. cursor = Some c \<Longrightarrow> c \<in> key ` set rows) \<Longrightarrow> fetch (map_option enc cursor) =
      decoded_page decode (enc \<circ> key) (page_rows n (order (filter (after_key follows key cursor) rows)))"
    and place: "order rows = before @ rest" "at_place before cursor"
    and items: "collect_results decode rest = Inr items"
  shows "read_all (Suc (length rest)) fetch (map_option enc cursor) = Some (Inr items)"
  using place items
proof (induction "length rest" arbitrary: before rest cursor items rule: less_induct)
  case less
  have page: "fetch (map_option enc cursor) = decoded_page decode (enc \<circ> key) (page_rows n rest)"
  proof -
    have "set before \<subseteq> set rows" using less.prems(1) order_mset by (metis Un_upper1 set_append set_mset_mset)
    then have "c \<in> key ` set rows" if "cursor = Some c" for c
      using less.prems(2) that last_in_set by (fastforce simp: at_place_def)
    then show ?thesis using fetch after_place [OF rows less.prems(1,2)] by simp
  qed
  show ?case
  proof (cases "length rest \<le> n")
    case True
    then have "page_rows n rest = (rest, False)" by (simp add: page_rows_def)
    then show ?thesis using page less.prems(3) by (simp add: decoded_page_def)
  next
    case False
    define first tail where "first = take n rest" and "tail = drop n rest"
    have split: "rest = first @ tail" "first \<noteq> []" "length tail < length rest"
      using False n by (auto simp: first_def tail_def)
    have "butlast (take (n + 1) rest) = first" using False by (simp add: first_def butlast_take)
    then have p: "page_rows n rest = (first, True)" using False by (simp add: page_rows_def)
    obtain as bs where cs: "collect_results decode first = Inr as" "collect_results decode tail = Inr bs" "items = as @ bs"
      using less.prems(3) unfolding split(1) collect_append by (auto simp: result_inv)
    have o: "order rows = (before @ first) @ tail" using less.prems(1) split(1) by simp
    have "at_place (before @ first) (Some (key (last first)))" using split(2) by (simp add: at_place_def)
    then have "read_all (Suc (length tail)) fetch (map_option enc (Some (key (last first)))) = Some (Inr bs)"
      using less.hyps [OF split(3) o] cs(2) by blast
    then have "read_all (length rest) fetch (Some (enc (key (last first)))) = Some (Inr bs)"
      using read_all_mono split(3) by (metis Suc_leI option.map(2))
    then show ?thesis using page p cs split(2) by (simp add: decoded_page_def)
  qed
qed

end

section \<open>The two orders\<close>

lemma distinct_sort_key: "distinct (map key rows) \<Longrightarrow> distinct (map key (sort_key key rows))"
  by (metis mset_eq_imp_distinct_iff mset_map mset_sort)

lemma strictly_sorted:
  assumes "distinct (map key rows)"
  shows "sorted_wrt (<) (map key (sort_key key rows))"
  using distinct_sort_key [OF assms] by (simp add: strict_sorted_iff)

lemma sort_split:
  assumes "distinct (map key rows)" and "sort_key key rows = before @ r # rest"
  shows "filter (\<lambda>x. key r < key x) (sort_key key rows) = rest" and "filter (\<lambda>x. key x < key r) (sort_key key rows) = before"
proof -
  have "sorted_wrt (<) (map key (before @ r # rest))" using strictly_sorted [OF assms(1)] assms(2) by simp
  then have b: "\<forall>x \<in> set before. key x < key r" and a: "\<forall>x \<in> set rest. key r < key x"
    by (auto simp: sorted_wrt_append)
  show "filter (\<lambda>x. key r < key x) (sort_key key rows) = rest" "filter (\<lambda>x. key x < key r) (sort_key key rows) = before"
    using a b unfolding assms(2) by (auto simp: filter_id_conv filter_empty_conv dest: less_asym)
qed

lemma keyset_ascending: "keyset key (ascending key) (<)" for key :: "'r \<Rightarrow> 'k::linorder"
proof
  show "mset (ascending key rows) = mset rows" for rows by (simp add: ascending_def)
  show "ascending key (filter (\<lambda>x. key r < key x) rows) = rest"
    if "distinct (map key rows)" "ascending key rows = before @ r # rest" for rows before r rest
    using sort_split(1) [OF that(1)] that(2) by (simp add: ascending_def flip: filter_sort)
qed

lemma keyset_descending: "keyset key (descending key) (\<lambda>c k. k < c)" for key :: "'r \<Rightarrow> 'k::linorder"
proof
  show "mset (descending key rows) = mset rows" for rows by (simp add: descending_def)
  show "descending key (filter (\<lambda>x. key x < key r) rows) = rest"
    if "distinct (map key rows)" "descending key rows = before @ r # rest" for rows before r rest
  proof -
    have "sort_key key rows = rev (before @ r # rest)" using that(2) by (metis descending_def rev_rev_ident)
    then have "sort_key key rows = rev rest @ r # rev before" by simp
    then show ?thesis using sort_split(2) [OF that(1)] by (simp add: descending_def flip: filter_sort)
  qed
qed

interpretation listed_jobs: keyset job_page_key "descending job_page_key" "\<lambda>c k. k < c"
  by (rule keyset_descending)

interpretation listed_artifacts: keyset artifact_key "descending artifact_key" "\<lambda>c k. k < c"
  by (rule keyset_descending)

interpretation listed_workers: keyset worker_key "ascending worker_key" "(<)"
  by (rule keyset_ascending)

interpretation listed_profiles: keyset rr_id "ascending rr_id" "(<)"
  by (rule keyset_ascending)

section \<open>The listings\<close>

definition cursors_round_trip :: "CursorCodec \<Rightarrow> bool" where
  "cursors_round_trip codec \<longleftrightarrow> (\<forall>c. cc_decode codec (cc_encode codec c) = Inr c)"

lemma cursor_round_trip:
  assumes "cursors_round_trip codec" and "key_of k = Some v"
  shows "decode_route_cursor codec key_of route (encode_route_cursor codec route k) = Inr v"
  using assms by (simp add: cursors_round_trip_def decode_route_cursor_def encode_route_cursor_def)

lemma cursor_opt_round_trip:
  assumes "cursors_round_trip codec" and "\<And>k. cursor = Some k \<Longrightarrow> key_of (enc k) = Some k"
  shows "decode_cursor_opt codec key_of route (map_option (\<lambda>k. encode_route_cursor codec route (enc k)) cursor) = Inr cursor"
proof (cases cursor)
  case None
  then show ?thesis by (simp add: decode_cursor_opt_def)
next
  case (Some k)
  then have "decode_route_cursor codec key_of route (encode_route_cursor codec route (enc k)) = Inr k"
    using cursor_round_trip [OF assms(1)] assms(2) by metis
  then show ?thesis using Some by (simp add: decode_cursor_opt_def)
qed

lemma cursor_keys:
  "valid_job_id (snd k) \<Longrightarrow> job_cursor (job_cursor_key k) = Some k"
  "artifact_cursor (artifact_cursor_key a) = Some a"
  "worker_cursor (worker_cursor_key w) = Some w"
  "profile_cursor (profile_cursor_key p) = Some p"
  by (simp_all add: job_cursor_def job_cursor_key_def artifact_cursor_def artifact_cursor_key_def worker_cursor_def
      worker_cursor_key_def profile_cursor_def profile_cursor_key_def no_key_def valid_job_id_def)

lemma distinct_job_page_key: "distinct (map jr_id rows) \<Longrightarrow> distinct (map job_page_key rows)"
  by (auto simp: distinct_map inj_on_def job_page_key_def)

lemma summaries:
  "collect_results to_summary rows = Inr items \<Longrightarrow> map js_id items = map jr_id rows \<and> (\<forall>r \<in> set rows. valid_job_id (jr_id r))"
proof (induction rows arbitrary: items)
  case (Cons r rows)
  then obtain x xs where "to_summary r = Inr x" "collect_results to_summary rows = Inr xs" "items = x # xs"
    by (auto simp: result_inv)
  moreover from this have "js_id x = jr_id r" "valid_job_id (jr_id r)"
    by (auto simp: to_summary_def result_inv decode_id_eq_Inr valid_job_id_def JobId_new_def identifier_new_iff)
  ultimately show ?case using Cons.IH by simp
qed simp

text \<open>
  C26. Following the cursors of the job listing reads every job of the project (in the queried state,
  if one is given) exactly once, newest first: from an unchanged table whose rows decode, a client that
  starts without a cursor and passes each page's \<open>next_cursor\<close> back gets, after finitely many pages,
  exactly the ordered list of matching jobs, for every page size from 1 to 200.
\<close>

theorem job_listing_complete:
  assumes "cursors_round_trip codec" and "distinct (map jr_id (db_jobs d))"
    and "1 \<le> lq_limit query" and "lq_limit query \<le> 200"
    and "collect_results to_summary (descending job_page_key (filter (job_listed query) (db_jobs d))) = Inr items"
  shows "read_all (Suc (length (db_jobs d))) (\<lambda>c. list_jobs codec (query\<lparr>lq_cursor := c\<rparr>) d) None = Some (Inr items)
    \<and> distinct (map js_id items) \<and> set (map js_id items) = jr_id ` {r \<in> set (db_jobs d). job_listed query r}"
proof -
  let ?rows = "filter (job_listed query) (db_jobs d)"
  let ?fetch = "\<lambda>c. list_jobs codec (query\<lparr>lq_cursor := c\<rparr>) d"
  let ?enc = "\<lambda>k. encode_route_cursor codec ''jobs'' (job_cursor_key k)"
  have ids: "distinct (map jr_id ?rows)" using assms(2) by (rule distinct_map_filter)
  then have keys: "distinct (map job_page_key ?rows)" by (rule distinct_job_page_key)
  have ordered: "set (descending job_page_key ?rows) = set ?rows" by (simp add: descending_def)
  note s = summaries [OF assms(5)]
  define n where "n = nat (uint (lq_limit query))"
  have "lq_limit query \<noteq> 0" "\<not> 200 < lq_limit query" using assms(3,4) by (auto simp: not_less)
  then have n: "checked_limit (lq_limit query) = Inr (uint (lq_limit query))" "1 \<le> n"
    by (simp_all add: checked_limit_def JobListQuery_MAX_LIMIT_def n_def Suc_le_eq unat_gt_0 flip: unat_eq_nat_uint)
  have fetch: "?fetch (map_option ?enc cursor) =
      decoded_page to_summary (?enc \<circ> job_page_key) (page_rows n (descending job_page_key (filter (after_key (\<lambda>c k. k < c) job_page_key cursor) ?rows)))"
    if "\<And>c. cursor = Some c \<Longrightarrow> c \<in> job_page_key ` set ?rows" for cursor
  proof -
    have "job_cursor (job_cursor_key k) = Some k" if "cursor = Some k" for k
      using \<open>\<And>c. cursor = Some c \<Longrightarrow> c \<in> job_page_key ` set ?rows\<close> [OF that] s ordered by (auto simp: job_page_key_def cursor_keys(1))
    then have "decode_cursor_opt codec job_cursor ''jobs'' (map_option ?enc cursor) = Inr cursor"
      by (rule cursor_opt_round_trip [OF assms(1)])
    moreover have "job_listed (query\<lparr>lq_cursor := c\<rparr>) = job_listed query" for c by (simp add: job_listed_def [abs_def])
    ultimately show ?thesis using n(1) by (simp add: list_jobs_def comp_def n_def)
  qed
  have all: "read_all (Suc (length (descending job_page_key ?rows))) ?fetch (map_option ?enc None) = Some (Inr items)"
    by (rule listed_jobs.read_all_complete [OF keys n(2) fetch _ _ assms(5), where before = "[]" and cursor = None]) (simp_all add: listed_jobs.at_place_def)
  have "Suc (length (descending job_page_key ?rows)) \<le> Suc (length (db_jobs d))" by (simp add: descending_def length_filter_le)
  from read_all_mono [OF all this] have "read_all (Suc (length (db_jobs d))) ?fetch None = Some (Inr items)"
    by (simp only: option.map(1))
  moreover have "distinct (map jr_id (descending job_page_key ?rows))"
    using ids by (metis descending_def distinct_rev mset_eq_imp_distinct_iff mset_map mset_sort rev_map)
  ultimately show ?thesis using s ordered by auto
qed

section \<open>A codec\<close>

text \<open>A concrete encoding with the required round trip: every character is escaped, numbers are unary.\<close>

definition put_text :: "string \<Rightarrow> string" where
  "put_text v = concat (map (\<lambda>c. [CHR ''.'', c]) v) @ ''|''"

fun get_text :: "string \<Rightarrow> string \<times> string" where
  "get_text (x # c # r) = (if x = CHR ''.'' then (case get_text r of (v, q) \<Rightarrow> (c # v, q)) else ([], c # r))"
| "get_text [x] = ([], [])"
| "get_text [] = ([], [])"

definition put_int :: "int \<Rightarrow> string" where
  "put_int i = put_text ((if i < 0 then ''-'' else ''+'') @ replicate (nat \<bar>i\<bar>) (CHR ''1''))"

definition get_int :: "string \<Rightarrow> int \<times> string" where
  "get_int s = (case get_text s of (v, r) \<Rightarrow> (if hd v = CHR ''-'' then - int (length v - 1) else int (length v - 1), r))"

definition put_opt :: "('a \<Rightarrow> string) \<Rightarrow> 'a option \<Rightarrow> string" where
  "put_opt put v = (case v of None \<Rightarrow> ''n'' | Some x \<Rightarrow> CHR ''s'' # put x)"

definition get_opt :: "(string \<Rightarrow> 'a \<times> string) \<Rightarrow> string \<Rightarrow> 'a option \<times> string" where
  "get_opt get s = (if hd s = CHR ''s'' then (case get (tl s) of (x, r) \<Rightarrow> (Some x, r)) else (None, tl s))"

lemma get_put_text: "get_text (put_text v @ r) = (v, r)"
proof (induction v)
  case Nil
  then show ?case by (cases r) (simp_all add: put_text_def)
qed (simp add: put_text_def)

lemma get_put_int: "get_int (put_int i @ r) = (i, r)"
  by (simp add: get_int_def put_int_def get_put_text)

lemma get_put_opt: "(\<And>x r. get (put x @ r) = (x, r)) \<Longrightarrow> get_opt get (put_opt put v @ r) = (v, r)"
  by (cases v) (simp_all add: get_opt_def put_opt_def)

definition sample_cursors :: CursorCodec where
  "sample_cursors =
     \<lparr>cc_encode = (\<lambda>c. put_text (rc_route c) @ put_opt put_text (ck_job_id (rc_key c)) @ put_opt put_int (ck_created_at (rc_key c))
        @ put_opt put_text (ck_artifact_id (rc_key c)) @ put_opt put_int (ck_registered_at (rc_key c))
        @ put_opt put_text (ck_worker_id (rc_key c)) @ put_opt put_text (ck_profile_id (rc_key c))),
      cc_decode = (\<lambda>s. let (route, s) = get_text s; (job, s) = get_opt get_text s; (created, s) = get_opt get_int s;
          (artifact, s) = get_opt get_text s; (registered, s) = get_opt get_int s; (worker, s) = get_opt get_text s;
          (profile, s) = get_opt get_text s
        in Inr \<lparr>rc_route = route, rc_key = \<lparr>ck_job_id = job, ck_created_at = created, ck_artifact_id = artifact,
             ck_registered_at = registered, ck_worker_id = worker, ck_profile_id = profile\<rparr>\<rparr>),
      cc_field_error = ''missing field''\<rparr>"

lemma sample_round_trip: "cursors_round_trip sample_cursors"
proof -
  have t: "get_opt get_text (put_opt put_text v @ r) = (v, r)" for v r by (rule get_put_opt) (rule get_put_text)
  have i: "get_opt get_int (put_opt put_int v @ r) = (v, r)" for v r by (rule get_put_opt) (rule get_put_int)
  show ?thesis
    using t [of _ "[]"] by (simp add: cursors_round_trip_def sample_cursors_def Let_def get_put_text t i)
qed

definition paged_row :: "JobId \<Rightarrow> instant \<Rightarrow> JobRow" where
  "paged_row job created = \<lparr>jr_id = job, jr_project_id = ''proj_1'', jr_apk_upload_id = ''upl_a'', jr_test_upload_id = None,
     jr_runtime_profile_id = ''rtp_r'', jr_worker_id = None, jr_mode = HeadlessCi, jr_min_isolation = SharedKernelPrivileged,
     jr_automation = BuiltInSmoke,
     jr_requested_artifacts = \<lparr>as_screenshots = True, as_video = False, as_logcat = True, as_junit = False\<rparr>,
     jr_timeout_seconds = 60, jr_idempotency_key = job, jr_state = Queued, jr_pending_outcome = None, jr_outcome = None,
     jr_failure = None, jr_artifacts_finalized = False, jr_cleanup_completed = False, jr_lease_id = None,
     jr_lease_expires_at = None, jr_last_lease_extended_at = None, jr_delivery_attempts = 0, jr_created_at = created,
     jr_started_at = None, jr_finished_at = None\<rparr>"

definition paged_db :: db where
  "paged_db = sample_db\<lparr>db_jobs := [paged_row ''job_1'' 10, paged_row ''job_2'' 12]\<rparr>"

definition paged_query :: JobListQuery where
  "paged_query = \<lparr>lq_project_id = ''proj_1'', lq_state = None, lq_cursor = None, lq_limit = 1\<rparr>"

theorem job_listing_complete_witness:
  "\<exists>items. map js_id items = [''job_2'', ''job_1'']
     \<and> read_all 3 (\<lambda>c. list_jobs sample_cursors (paged_query\<lparr>lq_cursor := c\<rparr>) paged_db) None = Some (Inr items)"
proof -
  let ?rows = "descending job_page_key (filter (job_listed paged_query) (db_jobs paged_db))"
  have "map_err (\<lambda>_. ()) (bind_result (collect_results to_summary ?rows) (\<lambda>items. Inr (map js_id items))) = Inr [''job_2'', ''job_1'']"
    by code_simp
  then obtain items where i: "collect_results to_summary ?rows = Inr items" "map js_id items = [''job_2'', ''job_1'']"
    by (auto simp: result_inv)
  have "distinct (map jr_id (db_jobs paged_db))" "length (db_jobs paged_db) = 2" by (simp_all add: paged_db_def paged_row_def)
  then show ?thesis
    using job_listing_complete [OF sample_round_trip _ _ _ i(1)] i(2) by (auto simp: paged_query_def numeral_3_eq_3)
qed

end
