(* ===== verification/Api_World.thy ===== *)
theory Api_World
  imports Actions Environment Repo_Accounts Repo_Sessions Repo_Lifecycle
begin

text \<open>
  What the tasks of the control-plane API share (\<open>crates/api/src\<close>): the database, a count of the
  awaited calls, and a log of what the process sent to other services and of the confirmations it got.
  Every awaited call is numbered; before it other transactions act on the database (\<open>ac_others\<close>), and
  its answer is the one the world gives under that number.  DNS, HTTP, JetStream, the object store,
  the clock, fresh identifiers, SHA-256, the URL parser and the token signer are fields of the world.
  Metrics and logging are not modelled.
\<close>

section \<open>State and environment\<close>

record WebhookUrl =
  wu_text :: string
  wu_parts :: ParsedUrl
  wu_fragment :: "string option"
  wu_port_or_known_default :: "u16 option"

datatype ApiEffect =
    WebhookSent "SocketAddr list" WebhookUrl "(string \<times> string) list" JobEvent
  | QueuePublished string "(string, string) btree" JobQueued
  | QueueAcknowledged string string
  | PresignedPut string string string int string
  | PresignedGet string string

record Api =
  ap_db :: db
  ap_calls :: nat
  ap_log :: "ApiEffect list"

record ApiCall =
  ac_clock :: TxClock
  ac_event :: JobEventId
  ac_others :: "db \<Rightarrow> db"

text \<open>\<open>HEAD\<close> of an object: absent, failed, or its length and SHA-256 checksum.\<close>

datatype HeadAnswer = HeadNotFound | HeadFailed string | HeadFound "int option" "string option"

record ApiWorld =
  aw_call :: "nat \<Rightarrow> ApiCall"
  aw_now :: "nat \<Rightarrow> instant"
  aw_fresh :: "nat \<Rightarrow> string"
  aw_random :: "nat \<Rightarrow> string"
  aw_elapsed :: "nat \<Rightarrow> bool"
  aw_lookup :: "nat \<Rightarrow> string \<Rightarrow> u16 \<Rightarrow> string + SocketAddr list"
  aw_send :: "nat \<Rightarrow> string + u16"
  aw_publish :: "nat \<Rightarrow> string + unit"
  aw_confirm :: "nat \<Rightarrow> string + unit"
  aw_presigned :: "nat \<Rightarrow> string + string"
  aw_head :: "nat \<Rightarrow> HeadAnswer"
  aw_shutdown :: "nat \<Rightarrow> bool"
  aw_url :: "string \<Rightarrow> WebhookUrl option"
  aw_client :: "string + unit"
  aw_json_error :: string
  aw_status_text :: "u16 \<Rightarrow> string"
  aw_sha256 :: "string \<Rightarrow> string"
  aw_base64url :: "string \<Rightarrow> string"
  aw_base64 :: "string \<Rightarrow> string"
  aw_presign_config :: "duration \<Rightarrow> string + unit"
  aw_http_header :: "string \<Rightarrow> bool"
  aw_duration_seconds :: "int \<Rightarrow> duration option"
  aw_event_json :: "JobEvent \<Rightarrow> string option"
  aw_trace :: "nat \<Rightarrow> (string \<times> string) list"
  aw_header_name :: "string \<Rightarrow> string option"
  aw_header_value :: "string \<Rightarrow> string option"
  aw_from_std :: "duration \<Rightarrow> duration option"
  aw_checked_add :: "instant \<Rightarrow> duration \<Rightarrow> instant option"

type_synonym ('e, 'a) api = "(Api, 'e, 'a) action"

section \<open>Primitive actions\<close>

definition api_call ::
  "ApiWorld \<Rightarrow> (TxClock \<Rightarrow> JobEventId \<Rightarrow> string \<Rightarrow> db \<Rightarrow> (RepositoryError + 'a) \<times> db) \<Rightarrow> (RepositoryError, 'a) api" where
  "api_call world operation s =
     (let env = aw_call world (ap_calls s);
          answer = operation (ac_clock env) (ac_event env) (aw_fresh world (ap_calls s)) (ac_others env (ap_db s))
      in Some (fst answer, s\<lparr>ap_db := snd answer, ap_calls := Suc (ap_calls s)\<rparr>))"

definition api_query :: "ApiWorld \<Rightarrow> (db \<Rightarrow> RepositoryError + 'a) \<Rightarrow> (RepositoryError, 'a) api" where
  "api_query world f = api_call world (\<lambda>_ _ _ d. (f d, d))"

definition api_await :: "ApiWorld \<Rightarrow> (nat \<Rightarrow> 'a) \<Rightarrow> ('e, 'a) api" where
  "api_await world answer s =
     Some (Inr (answer (ap_calls s)),
       s\<lparr>ap_db := ac_others (aw_call world (ap_calls s)) (ap_db s), ap_calls := Suc (ap_calls s)\<rparr>)"

definition api_now :: "ApiWorld \<Rightarrow> ('e, instant) api" where
  "api_now world = reading (\<lambda>s. aw_now world (ap_calls s))"

definition api_fresh :: "ApiWorld \<Rightarrow> ('e, string) api" where
  "api_fresh world = reading (\<lambda>s. aw_fresh world (ap_calls s))"

definition api_effect :: "ApiEffect \<Rightarrow> ('e, unit) api" where
  "api_effect eff = modify (\<lambda>s. s\<lparr>ap_log := ap_log s @ [eff]\<rparr>)"

text \<open>
  An await under \<open>tokio::time::timeout\<close>: the timer may elapse while the call is under way, which
  drops the rest of the task.
\<close>

datatype 'e timed = Elapsed | Inner 'e

definition timed_await :: "ApiWorld \<Rightarrow> (nat \<Rightarrow> 'a) \<Rightarrow> ('e timed, 'a) api" where
  "timed_await world answer =
     and_then (api_await world (\<lambda>n. (aw_elapsed world n, answer n))) (\<lambda>(elapsed, x).
       if elapsed then fail_with Elapsed else succeed x)"

definition timeout_error :: "'e \<Rightarrow> 'e timed \<Rightarrow> 'e" where
  "timeout_error e r = (case r of Elapsed \<Rightarrow> e | Inner x \<Rightarrow> x)"

section \<open>The database relation of the API\<close>

text \<open>As for the scheduler: a reflexive and transitive relation on databases lifts to whole handlers.\<close>

locale api_relation =
  fixes D :: "db \<Rightarrow> db \<Rightarrow> bool"
  assumes D_refl: "D d d"
    and D_trans: "D d d' \<Longrightarrow> D d' d'' \<Longrightarrow> D d d''"
begin

sublocale on_api: action_relation "\<lambda>s s'. D (ap_db s) (ap_db s')"
  by unfold_locales (auto intro: D_refl D_trans)

definition api_world_in :: "ApiWorld \<Rightarrow> bool" where
  "api_world_in world \<longleftrightarrow> (\<forall>n d. D d (ac_others (aw_call world n) d))"

lemma api_call_in:
  assumes "api_world_in world" and "\<And>t evt i d. D d (snd (op t evt i d))"
  shows "on_api.keeps (api_call world op)"
proof (rule on_api.keepsI)
  fix s r s' assume c: "api_call world op s = Some (r, s')"
  let ?env = "aw_call world (ap_calls s)"
  have "D (ap_db s) (ac_others ?env (ap_db s))" using assms(1) by (simp add: api_world_in_def)
  moreover have "ap_db s' = snd (op (ac_clock ?env) (ac_event ?env) (aw_fresh world (ap_calls s)) (ac_others ?env (ap_db s)))"
    using c by (auto simp: api_call_def Let_def)
  ultimately show "D (ap_db s) (ap_db s')" using D_trans assms(2) by metis
qed

lemma api_query_in: "api_world_in world \<Longrightarrow> on_api.keeps (api_query world f)"
  unfolding api_query_def by (rule api_call_in) (simp_all add: D_refl)

lemma api_await_in: "api_world_in world \<Longrightarrow> on_api.keeps (api_await world answer)"
  by (rule on_api.keepsI) (auto simp: api_await_def api_world_in_def)

lemma timed_await_in: "api_world_in world \<Longrightarrow> on_api.keeps (timed_await world answer)"
  unfolding timed_await_def by (intro on_api.keeps_rules api_await_in)

lemma api_reading_in: "on_api.keeps (api_now world)" "on_api.keeps (api_fresh world)"
  unfolding api_now_def api_fresh_def by (rule on_api.keeps_rules)+

lemma api_effect_in: "on_api.keeps (api_effect eff)"
  unfolding api_effect_def by (rule on_api.keepsI) (simp add: D_refl)

lemmas api_primitives_in = api_query_in api_await_in timed_await_in api_reading_in api_effect_in

end

section \<open>The log\<close>

text \<open>The log only grows.\<close>

definition log_extends :: "Api \<Rightarrow> Api \<Rightarrow> bool" where
  "log_extends s s' \<longleftrightarrow> (\<exists>l. ap_log s' = ap_log s @ l)"

interpretation api_log: action_relation log_extends
  by unfold_locales (auto simp: log_extends_def)

lemma primitives_log:
  "api_log.keeps (api_call world op)" "api_log.keeps (api_query world f)" "api_log.keeps (api_await world a)"
  "api_log.keeps (api_effect eff)" "api_log.keeps (api_now world)" "api_log.keeps (api_fresh world)"
  by (rule api_log.keepsI, auto simp: api_call_def api_query_def api_await_def api_effect_def api_now_def api_fresh_def
      log_extends_def Let_def)+

lemma timed_await_log: "api_log.keeps (timed_await world answer)"
  unfolding timed_await_def by (intro api_log.keeps_rules primitives_log)

text \<open>Calls that record nothing in the log.\<close>

interpretation silent: action_relation "\<lambda>s s'. ap_log s' = ap_log s"
  by unfold_locales auto

lemma primitives_silent:
  "silent.keeps (api_call world op)" "silent.keeps (api_query world f)" "silent.keeps (api_await world a)"
  "silent.keeps (api_now world)" "silent.keeps (api_fresh world)"
  by (rule silent.keepsI, auto simp: api_call_def api_query_def api_await_def api_now_def api_fresh_def Let_def)+

lemma timed_await_silent: "silent.keeps (timed_await world answer)"
  unfolding timed_await_def by (intro silent.keeps_rules primitives_silent)

section \<open>Inversion\<close>

lemma api_query_iff:
  "api_query world f s = Some (r, s') \<longleftrightarrow>
     r = f (ac_others (aw_call world (ap_calls s)) (ap_db s))
     \<and> s' = s\<lparr>ap_db := ac_others (aw_call world (ap_calls s)) (ap_db s), ap_calls := Suc (ap_calls s)\<rparr>"
  by (auto simp: api_query_def api_call_def Let_def)

lemma timed_await_Inr:
  "timed_await world answer s = Some (Inr x, s') \<longleftrightarrow>
     \<not> aw_elapsed world (ap_calls s) \<and> x = answer (ap_calls s)
     \<and> s' = s\<lparr>ap_db := ac_others (aw_call world (ap_calls s)) (ap_db s), ap_calls := Suc (ap_calls s)\<rparr>"
  by (auto simp: timed_await_def and_then_cases api_await_def)

lemma returns_primitives:
  "returns (api_call world op)" "returns (api_query world f)" "returns (api_await world a)"
  "returns (api_effect eff)" "returns (api_now world)" "returns (api_fresh world)"
  by (simp_all add: returns_def api_call_def api_query_def api_await_def api_effect_def api_now_def api_fresh_def
      reading_def modify_def Let_def)

lemma returns_timed_await: "returns (timed_await world answer)"
  unfolding timed_await_def by (intro returns_rules returns_primitives)

end
