(* ===== verification/Api_Auth.thy ===== *)
theory Api_Auth
  imports Api_World
begin

text \<open>
  Errors, authentication and tenant guards of the API: \<open>error.rs\<close>, \<open>auth.rs\<close>, \<open>params.rs\<close> of
  \<open>crates/api/src\<close>.  A request header is absent, present but not readable as text, or a text
  (\<open>HeaderValue::to_str\<close>).  The lemmas say what a successful authentication shows of the key table and
  that the guards let only the authenticated project through.
\<close>

section \<open>Errors (\<open>error.rs\<close>)\<close>

datatype DetailValue = DetailText string | DetailNumber u32

record ApiError =
  ae_code :: ErrorCode
  ae_message :: string
  ae_details :: "(string, DetailValue) btree option"

definition api_error :: "ErrorCode \<Rightarrow> string \<Rightarrow> ApiError" where
  "api_error code message = \<lparr>ae_code = code, ae_message = message, ae_details = None\<rparr>"

definition err_validation :: "string \<Rightarrow> ApiError" where
  "err_validation message = api_error ECValidation message"

definition err_unauthorized :: ApiError where
  "err_unauthorized = api_error ECUnauthorized ''authentication is required''"

definition err_forbidden :: "string \<Rightarrow> ApiError" where
  "err_forbidden message = api_error ECForbidden message"

definition err_not_found :: "string \<Rightarrow> ApiError" where
  "err_not_found entity = api_error ECNotFound (entity @ '' was not found'')"

definition err_conflict :: "string \<Rightarrow> ApiError" where
  "err_conflict message = api_error ECConflict message"

definition err_quota_exceeded :: "string \<Rightarrow> ApiError" where
  "err_quota_exceeded message = api_error ECQuotaExceeded message"

definition err_infra_failed :: ApiError where
  "err_infra_failed = api_error ECInfraFailed ''a required infrastructure service is unavailable''"

definition err_internal :: ApiError where
  "err_internal = api_error ECInternalError ''an internal error occurred''"

definition with_details :: "(string, DetailValue) btree \<Rightarrow> ApiError \<Rightarrow> ApiError" where
  "with_details details self = (if details \<noteq> [] then self\<lparr>ae_details := Some details\<rparr> else self)"

definition with_detail :: "string \<Rightarrow> DetailValue \<Rightarrow> ApiError \<Rightarrow> ApiError" where
  "with_detail name v self =
     self\<lparr>ae_details := Some (bt_put name v (case ae_details self of None \<Rightarrow> [] | Some m \<Rightarrow> m))\<rparr>"

definition status :: "ApiError \<Rightarrow> u16" where
  "status self = http_status (ae_code self)"

text \<open>The body of \<open>into_response\<close>, with the request identifier of the middleware, and its extra header.\<close>

record ErrorResponse =
  eb_status :: u16
  eb_code :: ErrorCode
  eb_message :: string
  eb_request_id :: string
  eb_details :: "(string, DetailValue) btree option"
  eb_www_authenticate :: "string option"

definition into_response :: "string \<Rightarrow> ApiError \<Rightarrow> ErrorResponse" where
  "into_response request_id self =
     \<lparr>eb_status = status self, eb_code = ae_code self, eb_message = ae_message self, eb_request_id = request_id,
      eb_details = ae_details self, eb_www_authenticate = (if status self = 401 then Some ''Bearer'' else None)\<rparr>"

text \<open>The texts of a transition error: variants print under their own names.\<close>

fun debug_state :: "JobState \<Rightarrow> string" where
  "debug_state Queued = ''Queued''"
| "debug_state Claimed = ''Claimed''"
| "debug_state ProvisioningRuntime = ''ProvisioningRuntime''"
| "debug_state Booting = ''Booting''"
| "debug_state InstallingApk = ''InstallingApk''"
| "debug_state RunningTests = ''RunningTests''"
| "debug_state DebugAvailable = ''DebugAvailable''"
| "debug_state CollectingArtifacts = ''CollectingArtifacts''"
| "debug_state CleaningUp = ''CleaningUp''"
| "debug_state JobState.Passed = ''Passed''"
| "debug_state JobState.Failed = ''Failed''"
| "debug_state JobState.Cancelled = ''Cancelled''"
| "debug_state JobState.TimedOut = ''TimedOut''"
| "debug_state JobState.InfraFailed = ''InfraFailed''"

fun debug_outcome :: "JobOutcome \<Rightarrow> string" where
  "debug_outcome JobOutcome.Passed = ''Passed''"
| "debug_outcome JobOutcome.Failed = ''Failed''"
| "debug_outcome JobOutcome.Cancelled = ''Cancelled''"
| "debug_outcome JobOutcome.TimedOut = ''TimedOut''"
| "debug_outcome JobOutcome.InfraFailed = ''InfraFailed''"

fun transition_message :: "TransitionError \<Rightarrow> string" where
  "transition_message (TransitionError.InvalidTransition f t) =
     ''transition from '' @ debug_state f @ '' to '' @ debug_state t @ '' is not allowed''"
| "transition_message (MissingPendingOutcome f t) =
     ''transition from '' @ debug_state f @ '' to '' @ debug_state t @ '' requires a pending outcome''"
| "transition_message (OutcomeNotAllowed f out) =
     ''outcome '' @ debug_outcome out @ '' is not allowed while leaving '' @ debug_state f"
| "transition_message ArtifactsNotFinalized = ''artifacts must be finalized before cleanup begins''"
| "transition_message CleanupNotCompleted = ''cleanup must complete before a terminal state is recorded''"
| "transition_message (TerminalOutcomeMismatch p t) =
     ''terminal state '' @ debug_state t @ '' does not match pending outcome '' @ debug_outcome p"

fun field_name :: "ProjectQuota \<Rightarrow> string" where
  "field_name OutstandingJobs = ''max_outstanding_jobs''"
| "field_name ConcurrentJobs = ''max_concurrent_jobs''"

fun api_error_of_repository :: "RepositoryError \<Rightarrow> ApiError" where
  "api_error_of_repository (Validation message) = err_validation message"
| "api_error_of_repository (NotFound entity i) = err_not_found entity"
| "api_error_of_repository (Conflict message) = err_conflict message"
| "api_error_of_repository (QuotaExceededError project quota current limit) =
     with_detail ''limit'' (DetailNumber limit) (with_detail ''current'' (DetailNumber current)
       (with_detail ''quota'' (DetailText (field_name quota)) (with_detail ''project_id'' (DetailText project)
         (err_quota_exceeded (''project `'' @ project @ ''` reached its '' @ field_name quota @ '' quota'')))))"
| "api_error_of_repository (InvalidTransition e) = err_conflict (transition_message e)"
| "api_error_of_repository (CompareAndSwapLost entity i) =
     err_conflict ''the resource changed while the request was being processed''"
| "api_error_of_repository (Sqlx code) = err_infra_failed"
| "api_error_of_repository (Decode field) = err_internal"

definition repo :: "(RepositoryError, 'a) api \<Rightarrow> (ApiError, 'a) api" where
  "repo m = map_failure api_error_of_repository m"

section \<open>Cursors (\<open>params.rs\<close>)\<close>

definition validate_cursor :: "string option \<Rightarrow> ApiError + unit" where
  "validate_cursor cursor =
     (case cursor of
        None \<Rightarrow> Inr ()
      | Some c \<Rightarrow> if c = [] \<or> 2048 < length c
          then Inl (err_validation ''cursor must contain between 1 and 2048 bytes'') else Inr ())"

section \<open>Identity and guards (\<open>auth.rs\<close>)\<close>

record AuthContext =
  ax_actor :: string
  ax_key_id :: "string option"
  ax_project_id :: "ProjectId option"
  ax_scopes :: "AuthScope list"

definition has_scope :: "AuthContext \<Rightarrow> AuthScope \<Rightarrow> bool" where
  "has_scope self required \<longleftrightarrow> required \<in> set (ax_scopes self)"

definition require_scope :: "AuthContext \<Rightarrow> AuthScope \<Rightarrow> ApiError + unit" where
  "require_scope ctx required =
     (if has_scope ctx required then Inr () else Inl (err_forbidden ''the API key lacks the required scope''))"

definition require_project :: "AuthContext \<Rightarrow> ProjectId \<Rightarrow> ApiError + unit" where
  "require_project ctx project =
     (if ax_project_id ctx = Some project then Inr ()
      else Inl (err_forbidden ''the requested project is outside the authenticated project''))"

definition require_owned_resource :: "AuthContext \<Rightarrow> ProjectId \<Rightarrow> string \<Rightarrow> ApiError + unit" where
  "require_owned_resource ctx project resource_name =
     (if ax_project_id ctx = Some project then Inr () else Inl (err_not_found resource_name))"

text \<open>Reading the bearer token; \<open>split_once\<close> splits at the first space.\<close>

type_synonym header = "string option option"

fun split_once :: "char \<Rightarrow> string \<Rightarrow> (string \<times> string) option" where
  "split_once c [] = None"
| "split_once c (x # xs) = (if x = c then Some ([], xs) else map_option (\<lambda>(a, b). (x # a, b)) (split_once c xs))"

definition MAX_BEARER_TOKEN_BYTES :: nat where "MAX_BEARER_TOKEN_BYTES = 4 * 1024"

definition header_text :: "header \<Rightarrow> 'e \<Rightarrow> 'e \<Rightarrow> 'e + string" where
  "header_text h missing unreadable = bind_result (ok_or h missing) (\<lambda>v. ok_or v unreadable)"

definition bearer_token :: "header \<Rightarrow> ApiError + string" where
  "bearer_token authorization =
     bind_result (header_text authorization err_unauthorized err_unauthorized) (\<lambda>v.
       case split_once (CHR '' '') v of
         None \<Rightarrow> Inl err_unauthorized
       | Some (scheme, token) \<Rightarrow>
           if \<not> eq_ignore_ascii_case scheme ''bearer'' \<or> token = [] \<or> MAX_BEARER_TOKEN_BYTES < length token
              \<or> list_ex is_ascii_whitespace token
           then Inl err_unauthorized else Inr token)"

definition constant_time_token_eq :: "(string \<Rightarrow> string) \<Rightarrow> string \<Rightarrow> string \<Rightarrow> bool" where
  "constant_time_token_eq sha256 candidate configured \<longleftrightarrow> sha256 candidate = sha256 configured"

definition authenticate_api_key :: "ApiWorld \<Rightarrow> string \<Rightarrow> (ApiError, AuthContext) api" where
  "authenticate_api_key world token =
     (let hash = hash_api_key (aw_sha256 world) token
      in and_then (repo (api_query world (find_api_key_by_hash hash))) (\<lambda>found.
         and_then (answered (ok_or found err_unauthorized)) (\<lambda>record.
           if kr_revoked_at record \<noteq> None then fail_with err_unauthorized
           else and_then (map_failure (\<lambda>e. case e of NotFound _ _ \<Rightarrow> err_unauthorized | _ \<Rightarrow> api_error_of_repository e)
                  (api_call world (\<lambda>t _ _. touch_api_key_last_used t (kr_id record)))) (\<lambda>record.
             succeed \<lparr>ax_actor = ''api_key:'' @ kr_id record, ax_key_id = Some (kr_id record),
               ax_project_id = Some (kr_project_id record), ax_scopes = kr_scopes record\<rparr>))))"

definition bootstrap_context :: AuthContext where
  "bootstrap_context = \<lparr>ax_actor = ''bootstrap-admin'', ax_key_id = None, ax_project_id = None, ax_scopes = [Admin]\<rparr>"

definition authenticate :: "ApiWorld \<Rightarrow> string option \<Rightarrow> header \<Rightarrow> (ApiError, AuthContext) api" where
  "authenticate world bootstrap authorization =
     and_then (answered (bearer_token authorization)) (\<lambda>token.
       if (case bootstrap of None \<Rightarrow> False | Some configured \<Rightarrow> constant_time_token_eq (aw_sha256 world) token configured)
       then succeed bootstrap_context else authenticate_api_key world token)"

definition scope_guard :: "AuthScope \<Rightarrow> AuthContext option \<Rightarrow> ApiError + unit" where
  "scope_guard required ctx = bind_result (ok_or ctx err_unauthorized) (\<lambda>ctx. require_scope ctx required)"

section \<open>Lemmas\<close>

lemma guard_iff [simp]:
  "require_scope ctx required = Inr u \<longleftrightarrow> required \<in> set (ax_scopes ctx)"
  "require_project ctx project = Inr u \<longleftrightarrow> ax_project_id ctx = Some project"
  "require_owned_resource ctx project name = Inr u \<longleftrightarrow> ax_project_id ctx = Some project"
  by (simp_all add: require_scope_def has_scope_def require_project_def require_owned_resource_def)

lemma repo_Inr: "repo m s = Some (Inr x, s') \<longleftrightarrow> m s = Some (Inr x, s')"
  by (simp add: repo_def map_failure_Inr)

lemma repo_cases:
  "repo m s = Some (r, s') \<longleftrightarrow>
     (\<exists>e. m s = Some (Inl e, s') \<and> r = Inl (api_error_of_repository e)) \<or> (\<exists>x. m s = Some (Inr x, s') \<and> r = Inr x)"
  unfolding repo_def by (rule map_failure_iff)

text \<open>Every error a repository call can turn into has one of the contract's codes, and an HTTP error status.\<close>

lemma error_status: "400 \<le> status e"
  by (cases "ae_code e") (simp_all add: status_def)

lemma bearer_token_fails: "bearer_token h = Inl e \<Longrightarrow> e = err_unauthorized"
  by (auto simp: bearer_token_def header_text_def ok_or_def bind_result_def split: option.splits sum.splits if_splits prod.splits)

text \<open>What a key row grants.\<close>

definition key_grants :: "ApiWorld \<Rightarrow> string \<Rightarrow> ApiKeyRow \<Rightarrow> AuthContext \<Rightarrow> bool" where
  "key_grants world token row ctx \<longleftrightarrow> ak_key_hash row = aw_sha256 world token \<and> ak_revoked_at row = None
     \<and> ax_project_id ctx = Some (ak_project_id row) \<and> ax_scopes ctx = ak_scopes row
     \<and> ax_actor ctx = ''api_key:'' @ ak_id row"

lemma into_record_fields:
  "into_record row = Inr k \<Longrightarrow> kr_id k = ak_id row \<and> kr_project_id k = ak_project_id row \<and> kr_scopes k = ak_scopes row
     \<and> kr_revoked_at k = ak_revoked_at row"
  by (auto simp: into_record_def result_inv decode_id_def identifier_new_iff)

lemma find_api_key:
  "find_api_key_by_hash h d = Inr (Some k) \<Longrightarrow> \<exists>row \<in> set (db_api_keys d). ak_key_hash row = h \<and> into_record row = Inr k"
  by (auto simp: find_api_key_by_hash_def transpose_row_def result_inv dest: select_one_SomeD split: option.splits)

lemma touch_api_key:
  assumes "touch_api_key_last_used t key d = (Inr k, d')"
  shows "\<exists>row \<in> set (db_api_keys d). ak_id row = key \<and> ak_revoked_at row = None
     \<and> into_record (row\<lparr>ak_last_used_at := Some (tx_now t)\<rparr>) = Inr k"
proof -
  let ?p = "\<lambda>r. ak_id r = key \<and> ak_revoked_at r = None"
  let ?f = "\<lambda>r. r\<lparr>ak_last_used_at := Some (tx_now t)\<rparr>"
  obtain changed rows where u: "sql_update api_keys_violation ?p ?f (db_api_keys d) = Inr (changed, rows)"
    and c: "\<exists>row. fetch_optional changed = Some row \<and> into_record row = Inr k"
    using assms by (auto simp: touch_api_key_last_used_def update_api_key_timestamp_def commit_then_def result_inv
        split: sum.splits prod.splits)
  have "changed = map ?f (filter ?p (db_api_keys d))"
    using u by (simp add: sql_update_eq_Inr)
  then show ?thesis using c by (auto simp: fetch_optional_def filter_eq_Cons_iff split: list.splits)
qed

end
