(* ===== verification/Api_Webhook.thy ===== *)
theory Api_Webhook
  imports Api_World
begin

text \<open>
  Webhook delivery, \<open>crates/api/src/webhook.rs\<close>: parsing a target, resolving its host, refusing
  private, local and reserved addresses, and posting an event to the addresses that were checked.  An
  IPv4 address is its 32 bits and an IPv6 address its 128 bits, in network order.  The semaphore that
  bounds concurrent deliveries is never closed, so acquiring a permit only waits.  The refused IPv4
  addresses are shown to be exactly a list of network blocks, and an IPv6 address that carries an IPv4
  address to be judged as that one.
\<close>

section \<open>Addresses\<close>

definition octet :: "nat \<Rightarrow> u32 \<Rightarrow> u32" where
  "octet i a = take_bit 8 (drop_bit (24 - 8 * i) a)"

definition segment :: "nat \<Rightarrow> 128 word \<Rightarrow> 128 word" where
  "segment i a = take_bit 16 (drop_bit (112 - 16 * i) a)"

text \<open>\<open>Ipv6Addr::to_ipv4\<close>: an IPv4-compatible or IPv4-mapped address.\<close>

definition to_ipv4 :: "128 word \<Rightarrow> u32 option" where
  "to_ipv4 a =
     (if (\<forall>i \<in> {0..<5}. segment i a = 0) \<and> (segment 5 a = 0 \<or> segment 5 a = 0xffff) then Some (ucast a) else None)"

definition is_private_v4 :: "u32 \<Rightarrow> bool" where
  "is_private_v4 x \<longleftrightarrow>
     (let a = octet 0 x; b = octet 1 x
      in a = 10 \<or> a = 172 \<and> 16 \<le> b \<and> b \<le> 31 \<or> a = 192 \<and> b = 168)"

fun is_private_ip :: "IpAddr \<Rightarrow> bool" where
  "is_private_ip (IpV4 x) = is_private_v4 x"
| "is_private_ip (IpV6 x) =
     (case to_ipv4 x of Some mapped \<Rightarrow> is_private_v4 mapped | None \<Rightarrow> and (segment 0 x) 0xfe00 = 0xfc00)"

definition is_always_forbidden_v4 :: "u32 \<Rightarrow> bool" where
  "is_always_forbidden_v4 x \<longleftrightarrow>
     (let a = octet 0 x; b = octet 1 x; c = octet 2 x; d = octet 3 x
      in a = 0
         \<or> a = 127
         \<or> a = 100 \<and> 64 \<le> b \<and> b \<le> 127
         \<or> a = 169 \<and> b = 254
         \<or> a = 192 \<and> b = 0 \<and> c = 0
         \<or> a = 192 \<and> b = 0 \<and> c = 2
         \<or> a = 198 \<and> (b = 18 \<or> b = 19)
         \<or> a = 198 \<and> b = 51 \<and> c = 100
         \<or> a = 203 \<and> b = 0 \<and> c = 113
         \<or> 224 \<le> a
         \<or> a = 255 \<and> b = 255 \<and> c = 255 \<and> d = 255)"

fun is_always_forbidden_ip :: "IpAddr \<Rightarrow> bool" where
  "is_always_forbidden_ip (IpV4 x) = is_always_forbidden_v4 x"
| "is_always_forbidden_ip (IpV6 x) =
     (case to_ipv4 x of
        Some mapped \<Rightarrow> is_always_forbidden_v4 mapped
      | None \<Rightarrow> x = 0 \<or> x = 1
          \<or> segment 0 x = 0x0064 \<and> segment 1 x = 0xff9b \<and> ((\<forall>i \<in> {2..<6}. segment i x = 0) \<or> segment 2 x = 1)
          \<or> and (segment 0 x) 0xffc0 = 0xfe80
          \<or> and (segment 0 x) 0xffc0 = 0xfec0
          \<or> and (segment 0 x) 0xff00 = 0xff00
          \<or> segment 0 x = 0x2001 \<and> segment 1 x = 0x0db8
          \<or> segment 0 x = 0x0100 \<and> (\<forall>i \<in> {1..<8}. segment i x = 0))"

record WebhookPolicy =
  wp_allow_private_networks :: bool

definition is_forbidden_target :: "IpAddr \<Rightarrow> WebhookPolicy \<Rightarrow> bool" where
  "is_forbidden_target address policy \<longleftrightarrow>
     is_always_forbidden_ip address \<or> \<not> wp_allow_private_networks policy \<and> is_private_ip address"

section \<open>Targets\<close>

datatype WebhookValidationError =
    InvalidUrl | UnsupportedScheme | UnsafeUrlComponents | Resolve string | NoAddresses | PrivateNetwork
  | Timeout | Delivery string

fun webhook_error_message :: "WebhookValidationError \<Rightarrow> string" where
  "webhook_error_message InvalidUrl = ''webhook URL must be a valid absolute URL''"
| "webhook_error_message UnsupportedScheme = ''webhook URL must use http or https''"
| "webhook_error_message UnsafeUrlComponents = ''webhook URL must not contain embedded credentials or a fragment''"
| "webhook_error_message (Resolve e) = ''webhook hostname could not be resolved: '' @ e"
| "webhook_error_message NoAddresses = ''webhook hostname did not resolve to an address''"
| "webhook_error_message PrivateNetwork =
     ''webhook targets private, local, reserved, or non-routable networking''"
| "webhook_error_message Timeout = ''webhook validation or delivery timed out''"
| "webhook_error_message (Delivery e) = ''webhook delivery failed: '' @ e"

text \<open>The order of socket addresses: IPv4 before IPv6, then the address, then the port.\<close>

definition address_order :: "SocketAddr \<Rightarrow> nat \<times> nat \<times> nat" where
  "address_order x =
     (case sa_ip x of IpV4 ip \<Rightarrow> (0, unat ip, unat (sa_port x)) | IpV6 ip \<Rightarrow> (1, unat ip, unat (sa_port x)))"

record ResolvedWebhookTarget =
  wt_url :: WebhookUrl
  wt_domain :: "string option"
  wt_addresses :: "SocketAddr list"

definition webhook_host :: "WebhookUrl \<Rightarrow> WebhookValidationError + (UrlHost \<times> u16)" where
  "webhook_host url =
     (let parts = wu_parts url
      in bind_result (ensure (pu_scheme parts \<in> {''http'', ''https''}) UnsupportedScheme) (\<lambda>_.
         bind_result (ensure (pu_username parts = [] \<and> pu_password parts = None \<and> wu_fragment url = None)
           UnsafeUrlComponents) (\<lambda>_.
         bind_result (ok_or (pu_host parts) InvalidUrl) (\<lambda>host.
         bind_result (ok_or (wu_port_or_known_default url) InvalidUrl) (\<lambda>port. Inr (host, port))))))"

definition resolve_host ::
  "ApiWorld \<Rightarrow> UrlHost \<Rightarrow> u16 \<Rightarrow> (WebhookValidationError timed, string option \<times> SocketAddr list) api" where
  "resolve_host world host port =
     (case host of
        Ipv4Host ip \<Rightarrow> succeed (None, [\<lparr>sa_ip = IpV4 ip, sa_port = port\<rparr>])
      | Ipv6Host ip \<Rightarrow> succeed (None, [\<lparr>sa_ip = IpV6 ip, sa_port = port\<rparr>])
      | DomainHost domain \<Rightarrow>
          and_then (timed_await world (\<lambda>n. aw_lookup world n domain port)) (\<lambda>found.
            answered (map_err (\<lambda>e. Inner (Resolve e)) (bind_result found (\<lambda>addresses. Inr (Some domain, addresses))))))"

definition checked_addresses :: "SocketAddr list \<Rightarrow> WebhookPolicy \<Rightarrow> WebhookValidationError + SocketAddr list" where
  "checked_addresses addresses policy =
     bind_result (ensure (addresses \<noteq> []) NoAddresses) (\<lambda>_.
       let addresses = remdups_adj (sort_key address_order addresses)
       in if list_ex (\<lambda>address. is_forbidden_target (sa_ip address) policy) addresses then Inl PrivateNetwork
          else Inr addresses)"

definition resolve_webhook_target ::
  "ApiWorld \<Rightarrow> string \<Rightarrow> WebhookPolicy \<Rightarrow> (WebhookValidationError timed, ResolvedWebhookTarget) api" where
  "resolve_webhook_target world url policy =
     and_then (answered (ok_or (aw_url world url) (Inner InvalidUrl))) (\<lambda>parsed.
     and_then (answered (map_err Inner (webhook_host parsed))) (\<lambda>(host, port).
     and_then (resolve_host world host port) (\<lambda>(domain, addresses).
     and_then (answered (map_err Inner (checked_addresses addresses policy))) (\<lambda>addresses.
       succeed \<lparr>wt_url = parsed, wt_domain = domain, wt_addresses = addresses\<rparr>))))"

definition validate_webhook_url :: "ApiWorld \<Rightarrow> string \<Rightarrow> WebhookPolicy \<Rightarrow> (WebhookValidationError timed, unit) api" where
  "validate_webhook_url world url policy = and_then (resolve_webhook_target world url policy) (\<lambda>_. succeed ())"

section \<open>Delivery\<close>

record WebhookDelivery =
  wd_delivery_id :: string
  wd_url :: string
  wd_event :: JobEvent

record WebhookDispatcher =
  wx_permits :: nat
  wx_policy :: WebhookPolicy
  wx_timeout :: duration

definition webhook_dispatcher_new :: "nat \<Rightarrow> duration \<Rightarrow> WebhookPolicy \<Rightarrow> string + WebhookDispatcher" where
  "webhook_dispatcher_new concurrency timeout policy =
     (if concurrency = 0 \<or> timeout = 0 then Inl ''webhook concurrency and timeout must be positive''
      else Inr \<lparr>wx_permits = concurrency, wx_policy = policy, wx_timeout = timeout\<rparr>)"

definition validate_url :: "ApiWorld \<Rightarrow> WebhookDispatcher \<Rightarrow> string \<Rightarrow> (WebhookValidationError, unit) api" where
  "validate_url world self url = map_failure (timeout_error Timeout) (validate_webhook_url world url (wx_policy self))"

text \<open>
  The client follows no redirect, uses no proxy and connects to the given addresses only: those of the
  resolved domain it is pinned to, or the literal address of the URL.
\<close>

definition post_event ::
  "ApiWorld \<Rightarrow> ResolvedWebhookTarget \<Rightarrow> WebhookDelivery \<Rightarrow> (WebhookValidationError timed, unit) api" where
  "post_event world target delivery =
     and_then (answered (map_err (\<lambda>e. Inner (Delivery e)) (aw_client world))) (\<lambda>_.
     and_then (api_effect (WebhookSent (wt_addresses target) (wt_url target)
         [(''x-run-anywhere-event'', ''job_state_changed''), (''x-run-anywhere-delivery'', wd_delivery_id delivery)]
         (wd_event delivery))) (\<lambda>_.
     and_then (timed_await world (aw_send world)) (\<lambda>answer.
     and_then (answered (map_err (\<lambda>e. Inner (Delivery e)) answer)) (\<lambda>code.
       if 200 \<le> code \<and> code < 300 then succeed ()
       else fail_with (Inner (Delivery (''endpoint returned HTTP '' @ aw_status_text world code)))))))"

definition deliver_webhook ::
  "ApiWorld \<Rightarrow> WebhookDelivery \<Rightarrow> WebhookPolicy \<Rightarrow> (WebhookValidationError, unit) api" where
  "deliver_webhook world delivery policy =
     map_failure (timeout_error Timeout)
       (and_then (resolve_webhook_target world (wd_url delivery) policy) (\<lambda>target. post_event world target delivery))"

definition deliver :: "ApiWorld \<Rightarrow> WebhookDispatcher \<Rightarrow> WebhookDelivery \<Rightarrow> (WebhookValidationError, unit) api" where
  "deliver world self delivery =
     and_then (api_await world (\<lambda>_. ())) (\<lambda>_. deliver_webhook world delivery (wx_policy self))"

section \<open>Network blocks\<close>

text \<open>A block is its first address with the length of its prefix.\<close>

definition in_block :: "'a::len word \<Rightarrow> 'a word \<times> nat \<Rightarrow> bool" where
  "in_block a b \<longleftrightarrow> drop_bit (LENGTH('a) - snd b) a = drop_bit (LENGTH('a) - snd b) (fst b)"

definition ipv4 :: "nat \<Rightarrow> nat \<Rightarrow> nat \<Rightarrow> nat \<Rightarrow> u32" where
  "ipv4 a b c d = of_nat (((a * 256 + b) * 256 + c) * 256 + d)"

definition private_blocks :: "(u32 \<times> nat) list" where
  "private_blocks = [(ipv4 10 0 0 0, 8), (ipv4 172 16 0 0, 12), (ipv4 192 168 0 0, 16)]"

definition reserved_blocks :: "(u32 \<times> nat) list" where
  "reserved_blocks =
     [(ipv4 0 0 0 0, 8), (ipv4 127 0 0 0, 8), (ipv4 100 64 0 0, 10), (ipv4 169 254 0 0, 16), (ipv4 192 0 0 0, 24),
      (ipv4 192 0 2 0, 24), (ipv4 198 18 0 0, 15), (ipv4 198 51 100 0, 24), (ipv4 203 0 113 0, 24), (ipv4 224 0 0 0, 3)]"

lemmas word_to_nat = word_unat_eq_iff unat_drop_bit_eq unsigned_take_bit_eq take_bit_eq_mod [where 'a = nat] drop_bit_eq_div [where 'a = nat]

lemma octet_unat:
  "unat (octet 0 x) = unat x div 2 ^ 24" "unat (octet 1 x) = unat x div 2 ^ 16 mod 256"
  "unat (octet 2 x) = unat x div 2 ^ 8 mod 256" "unat (octet 3 x) = unat x mod 256"
proof -
  have "unat x div 2 ^ 24 < 256" using unsigned_less [of x, where 'a = nat] by simp
  then show "unat (octet 0 x) = unat x div 2 ^ 24"
    unfolding octet_def word_to_nat by simp
  show "unat (octet 1 x) = unat x div 2 ^ 16 mod 256" "unat (octet 2 x) = unat x div 2 ^ 8 mod 256"
    "unat (octet 3 x) = unat x mod 256"
    unfolding octet_def word_to_nat by simp_all
qed

lemma in_block_unat:
  "in_block x (ipv4 a b c d, n) \<longleftrightarrow>
     unat x div 2 ^ (32 - n) = (((a * 256 + b) * 256 + c) * 256 + d) mod 2 ^ 32 div 2 ^ (32 - n)"
  unfolding in_block_def ipv4_def fst_conv snd_conv word_to_nat unat_of_nat by simp

text \<open>The refused IPv4 addresses, block by block.\<close>

lemma octets_24:
  fixes x :: u32
  defines "a \<equiv> unat (octet 0 x)" and "b \<equiv> unat (octet 1 x)" and "c \<equiv> unat (octet 2 x)"
  shows "unat x div 256 = (a * 256 + b) * 256 + c" and "a < 256" and "b < 256" and "c < 256"
proof -
  have "unat x div 2 ^ 24 < 256" using unsigned_less [of x, where 'a = nat] by simp
  then show "a < 256" "b < 256" "c < 256" unfolding a_def b_def c_def octet_unat by simp_all
  define m where "m = unat x div 256"
  have "a = m div 256 div 256" "b = m div 256 mod 256" "c = m mod 256"
    unfolding a_def b_def c_def octet_unat m_def by (simp_all flip: div_mult2_eq)
  then show "unat x div 256 = (a * 256 + b) * 256 + c" by (simp flip: m_def)
qed

lemma block_24:
  fixes x :: u32
  defines "a \<equiv> unat (octet 0 x)" and "b \<equiv> unat (octet 1 x)" and "c \<equiv> unat (octet 2 x)"
  shows "unat x div 2 ^ 29 = a div 32" and "unat x div 2 ^ 24 = a" and "unat x div 2 ^ 22 = a * 4 + b div 64"
    and "unat x div 2 ^ 20 = a * 16 + b div 16" and "unat x div 2 ^ 17 = a * 128 + b div 2"
    and "unat x div 2 ^ 16 = a * 256 + b" and "unat x div 2 ^ 8 = (a * 256 + b) * 256 + c"
proof -
  note o = octets_24 [of x, folded a_def b_def c_def]
  have d: "unat x div (256 * k) = ((a * 256 + b) * 256 + c) div k" for k
    using o(1) by (simp add: div_mult2_eq)
  show "unat x div 2 ^ 8 = (a * 256 + b) * 256 + c" using o(1) by simp
  have m: "unat x div 2 ^ 16 = a * 256 + b" using d [of 256] o(4) by simp
  then show "unat x div 2 ^ 16 = a * 256 + b" .
  have e: "unat x div (65536 * k) = (a * 256 + b) div k" for k
    using m by (simp add: div_mult2_eq)
  show "unat x div 2 ^ 17 = a * 128 + b div 2" using e [of 2] o(3) by simp
  show "unat x div 2 ^ 20 = a * 16 + b div 16" using e [of 16] o(3) by simp
  show "unat x div 2 ^ 22 = a * 4 + b div 64" using e [of 64] o(3) by simp
  show "unat x div 2 ^ 24 = a" using e [of 256] o(3) by simp
  show "unat x div 2 ^ 29 = a div 32" using e [of "256 * 32"] o(3) by (simp add: div_mult2_eq [of _ 256 32, simplified])
qed

lemma two_digits:
  fixes a b p q k :: nat
  assumes "b < k" and "q < k"
  shows "a * k + b = p * k + q \<longleftrightarrow> a = p \<and> b = q"
proof
  assume e: "a * k + b = p * k + q"
  have "(a * k + b) div k = a" "(p * k + q) div k = p" using assms by simp_all
  then show "a = p \<and> b = q" using e by simp
qed simp

lemma div_eq_range: "0 < k \<Longrightarrow> b div k = q \<longleftrightarrow> q * k \<le> b \<and> b < Suc q * k" for b k q :: nat
  using less_eq_div_iff_mult_less_eq [of k q b] div_less_iff_less_mult [of k b "Suc q"] by auto

lemma private_v4_blocks: "is_private_v4 x \<longleftrightarrow> list_ex (in_block x) private_blocks"
proof -
  define a b where "a = unat (octet 0 x)" and "b = unat (octet 1 x)"
  have b: "b < 256" using octets_24 [of x] by (simp add: b_def)
  have blocks: "list_ex (in_block x) private_blocks \<longleftrightarrow> a = 10 \<or> a * 16 + b div 16 = 172 * 16 + 1 \<or> a * 256 + b = 192 * 256 + 168"
  proof -
    have "list_ex (in_block x) private_blocks \<longleftrightarrow> unat x div 2 ^ 24 = 10 \<or> unat x div 2 ^ 20 = 172 * 16 + 1
        \<or> unat x div 2 ^ 16 = 192 * 256 + 168"
      by (simp add: private_blocks_def in_block_unat)
    then show ?thesis unfolding block_24 a_def b_def .
  qed
  have "is_private_v4 x \<longleftrightarrow> a = 10 \<or> a = 172 \<and> 16 \<le> b \<and> b \<le> 31 \<or> a = 192 \<and> b = 168"
    unfolding is_private_v4_def Let_def word_unat_eq_iff word_le_nat_alt a_def b_def by simp
  moreover have "a * 16 + b div 16 = 172 * 16 + 1 \<longleftrightarrow> a = 172 \<and> b div 16 = 1" using b by (intro two_digits) auto
  moreover have "b div 16 = 1 \<longleftrightarrow> 16 \<le> b \<and> b \<le> 31" by (simp add: div_eq_range) linarith
  moreover have "a * 256 + b = 192 * 256 + 168 \<longleftrightarrow> a = 192 \<and> b = 168" using b by (intro two_digits) auto
  ultimately show ?thesis using blocks by simp
qed

lemma reserved_v4_blocks: "is_always_forbidden_v4 x \<longleftrightarrow> list_ex (in_block x) reserved_blocks"
proof -
  define a b c where "a = unat (octet 0 x)" and "b = unat (octet 1 x)" and "c = unat (octet 2 x)"
  have l: "a < 256" "b < 256" "c < 256" using octets_24 [of x] by (simp_all add: a_def b_def c_def)
  have blocks: "list_ex (in_block x) reserved_blocks \<longleftrightarrow> a = 0 \<or> a = 127 \<or> a * 4 + b div 64 = 100 * 4 + 1
      \<or> a * 256 + b = 169 * 256 + 254 \<or> (a * 256 + b) * 256 + c = (192 * 256 + 0) * 256 + 0
      \<or> (a * 256 + b) * 256 + c = (192 * 256 + 0) * 256 + 2 \<or> a * 128 + b div 2 = 198 * 128 + 9
      \<or> (a * 256 + b) * 256 + c = (198 * 256 + 51) * 256 + 100 \<or> (a * 256 + b) * 256 + c = (203 * 256 + 0) * 256 + 113
      \<or> a div 32 = 7"
  proof -
    have "list_ex (in_block x) reserved_blocks \<longleftrightarrow> unat x div 2 ^ 24 = 0 \<or> unat x div 2 ^ 24 = 127
        \<or> unat x div 2 ^ 22 = 100 * 4 + 1 \<or> unat x div 2 ^ 16 = 169 * 256 + 254 \<or> unat x div 2 ^ 8 = (192 * 256 + 0) * 256 + 0
        \<or> unat x div 2 ^ 8 = (192 * 256 + 0) * 256 + 2 \<or> unat x div 2 ^ 17 = 198 * 128 + 9
        \<or> unat x div 2 ^ 8 = (198 * 256 + 51) * 256 + 100 \<or> unat x div 2 ^ 8 = (203 * 256 + 0) * 256 + 113
        \<or> unat x div 2 ^ 29 = 7"
      by (simp add: reserved_blocks_def in_block_unat)
    then show ?thesis unfolding block_24 a_def b_def c_def .
  qed
  have v: "is_always_forbidden_v4 x \<longleftrightarrow> a = 0 \<or> a = 127 \<or> a = 100 \<and> 64 \<le> b \<and> b \<le> 127 \<or> a = 169 \<and> b = 254
      \<or> a = 192 \<and> b = 0 \<and> c = 0 \<or> a = 192 \<and> b = 0 \<and> c = 2 \<or> a = 198 \<and> (b = 18 \<or> b = 19)
      \<or> a = 198 \<and> b = 51 \<and> c = 100 \<or> a = 203 \<and> b = 0 \<and> c = 113 \<or> 224 \<le> a"
  proof -
    have last: "224 \<le> a \<or> a = 255 \<and> q \<longleftrightarrow> 224 \<le> a" for q by auto
    show ?thesis
      unfolding is_always_forbidden_v4_def Let_def word_unat_eq_iff word_le_nat_alt a_def [symmetric] b_def [symmetric] c_def [symmetric]
      by (simp add: last)
  qed
  have three: "(a * 256 + b) * 256 + c = (p * 256 + q) * 256 + r \<longleftrightarrow> a = p \<and> b = q \<and> c = r" if "q < 256" "r < 256" for p q r
    unfolding two_digits [OF l(3) that(2)] two_digits [OF l(2) that(1)] by simp
  have two: "a * 256 + b = 169 * 256 + 254 \<longleftrightarrow> a = 169 \<and> b = 254" using l by (intro two_digits) auto
  have t1: "(a * 256 + b) * 256 + c = (192 * 256 + 0) * 256 + 0 \<longleftrightarrow> a = 192 \<and> b = 0 \<and> c = 0"
    and t2: "(a * 256 + b) * 256 + c = (192 * 256 + 0) * 256 + 2 \<longleftrightarrow> a = 192 \<and> b = 0 \<and> c = 2"
    and t3: "(a * 256 + b) * 256 + c = (198 * 256 + 51) * 256 + 100 \<longleftrightarrow> a = 198 \<and> b = 51 \<and> c = 100"
    and t4: "(a * 256 + b) * 256 + c = (203 * 256 + 0) * 256 + 113 \<longleftrightarrow> a = 203 \<and> b = 0 \<and> c = 113"
    by (rule three, simp, simp)+
  have "b div 64 = 1 \<longleftrightarrow> 64 \<le> b \<and> b \<le> 127" by (simp add: div_eq_range) linarith
  moreover have "a * 4 + b div 64 = 100 * 4 + 1 \<longleftrightarrow> a = 100 \<and> b div 64 = 1" using l by (intro two_digits) auto
  ultimately have t5: "a * 4 + b div 64 = 100 * 4 + 1 \<longleftrightarrow> a = 100 \<and> 64 \<le> b \<and> b \<le> 127" by simp
  have "b div 2 = 9 \<longleftrightarrow> b = 18 \<or> b = 19" by (simp add: div_eq_range) linarith
  moreover have "a * 128 + b div 2 = 198 * 128 + 9 \<longleftrightarrow> a = 198 \<and> b div 2 = 9" using l by (intro two_digits) auto
  ultimately have t6: "a * 128 + b div 2 = 198 * 128 + 9 \<longleftrightarrow> a = 198 \<and> (b = 18 \<or> b = 19)" by simp
  have t7: "a div 32 = 7 \<longleftrightarrow> 224 \<le> a" using l by (simp add: div_eq_range)
  show ?thesis unfolding v blocks two t1 t2 t3 t4 t5 t6 t7 by (rule refl)
qed

end
