(* ===== verification/Sample_Api.thy ===== *)
theory Sample_Api
  imports Api_World Repo_Safety
begin

text \<open>A quiet environment of the API, for concrete runs: nothing interferes and every service answers.\<close>

definition sample_url :: "UrlHost \<Rightarrow> WebhookUrl" where
  "sample_url host = \<lparr>wu_text = ''https:x'', wu_parts = \<lparr>pu_scheme = ''https'', pu_host = Some host, pu_username = [],
     pu_password = None\<rparr>, wu_fragment = None, wu_port_or_known_default = Some 443\<rparr>"

definition sample_api_world :: ApiWorld where
  "sample_api_world = \<lparr>aw_call = (\<lambda>_. \<lparr>ac_clock = clock_at 20, ac_event = ''evt_9'', ac_others = (\<lambda>d. d)\<rparr>),
     aw_now = (\<lambda>_. 20), aw_fresh = (\<lambda>n. replicate (Suc n) CHR ''a''), aw_random = (\<lambda>n. replicate (Suc n) CHR ''b''),
     aw_elapsed = (\<lambda>_. False), aw_lookup = (\<lambda>_ _ port. Inr [\<lparr>sa_ip = IpV4 0x01010101, sa_port = port\<rparr>]),
     aw_send = (\<lambda>_. Inr 200), aw_publish = (\<lambda>_. Inr ()), aw_confirm = (\<lambda>_. Inr ()), aw_presigned = (\<lambda>_. Inr ''https:p''),
     aw_head = (\<lambda>_. HeadFound (Some 1) (Some [])), aw_shutdown = (\<lambda>_. False),
     aw_url = (\<lambda>_. Some (sample_url (DomainHost ''h''))), aw_client = Inr (), aw_json_error = ''e'', aw_status_text = (\<lambda>_. ''200 OK''),
     aw_sha256 = (\<lambda>s. s), aw_base64url = (\<lambda>s. s), aw_base64 = (\<lambda>s. s),
     aw_presign_config = (\<lambda>_. Inr ()), aw_http_header = (\<lambda>_. True), aw_duration_seconds = (\<lambda>n. Some (n * 1000000)),
     aw_event_json = (\<lambda>e. Some (ev_id e)), aw_trace = (\<lambda>_. []), aw_header_name = Some, aw_header_value = Some, aw_from_std = Some,
     aw_checked_add = (\<lambda>t d. Some (t + d))\<rparr>"

definition sample_event :: JobEvent where
  "sample_event = \<lparr>ev_id = ''evt_1'', ev_job_id = ''job_1'', ev_sequence = 1, ev_timestamp = 10,
     ev_event_type = ''job_state_changed'', ev_state = Some Queued, ev_payload = []\<rparr>"

definition sample_api :: "db \<Rightarrow> Api" where
  "sample_api d = \<lparr>ap_db = d, ap_calls = 0, ap_log = []\<rparr>"

lemma sample_fields:
  "aw_elapsed sample_api_world n = False" "aw_publish sample_api_world n = Inr ()" "aw_confirm sample_api_world n = Inr ()"
  "aw_send sample_api_world n = Inr 200" "aw_lookup sample_api_world n host port = Inr [\<lparr>sa_ip = IpV4 0x01010101, sa_port = port\<rparr>]"
  "aw_head sample_api_world n = HeadFound (Some 1) (Some [])" "aw_presigned sample_api_world n = Inr ''https:p''"
  "aw_url sample_api_world v = Some (sample_url (DomainHost ''h''))" "aw_client sample_api_world = Inr ()"
  "aw_sha256 sample_api_world v = v" "aw_from_std sample_api_world = Some" "aw_checked_add sample_api_world t e = Some (t + e)"
  "ac_others (aw_call sample_api_world n) = (\<lambda>d. d)" "aw_now sample_api_world n = 20" "aw_shutdown sample_api_world n = False"
  "aw_fresh sample_api_world n = replicate (Suc n) CHR ''a''" "aw_header_value sample_api_world = Some"
  "aw_presign_config sample_api_world ttl = Inr ()"
  "aw_http_header sample_api_world v" "aw_duration_seconds sample_api_world k = Some (k * 1000000)"
  "aw_event_json sample_api_world ev = Some (ev_id ev)" "aw_trace sample_api_world n = []" "aw_base64 sample_api_world v = v"
  by (simp_all add: sample_api_world_def)

text \<open>The primitive actions in this environment.\<close>

lemma sample_calls:
  "api_call sample_api_world op s =
     Some (fst (op (clock_at 20) ''evt_9'' (replicate (Suc (ap_calls s)) CHR ''a'') (ap_db s)),
       s\<lparr>ap_db := snd (op (clock_at 20) ''evt_9'' (replicate (Suc (ap_calls s)) CHR ''a'') (ap_db s)), ap_calls := Suc (ap_calls s)\<rparr>)"
  "api_query sample_api_world f s = Some (f (ap_db s), s\<lparr>ap_calls := Suc (ap_calls s)\<rparr>)"
  "api_await sample_api_world answer s = Some (Inr (answer (ap_calls s)), s\<lparr>ap_calls := Suc (ap_calls s)\<rparr>)"
  "api_now sample_api_world s = Some (Inr 20, s)"
  "api_fresh sample_api_world s = Some (Inr (replicate (Suc (ap_calls s)) CHR ''a''), s)"
  by (simp_all add: api_call_def api_query_def api_await_def api_now_def api_fresh_def reading_def sample_api_world_def Let_def)

lemma sample_timed: "timed_await sample_api_world answer s = Some (Inr (answer (ap_calls s)), s\<lparr>ap_calls := Suc (ap_calls s)\<rparr>)"
  by (simp add: timed_await_def and_then_def sample_calls sample_fields succeed_def)

lemmas run_action = and_then_def succeed_def fail_with_def answered_def reading_def modify_def outcome_of_def map_failure_def api_effect_def

lemma sample_quiet: "(\<And>d. D d d) \<Longrightarrow> \<forall>n d. D d (ac_others (aw_call sample_api_world n) d)"
  by (simp add: sample_fields)

end
