(* ===== verification/Api_Webhook_Safety.thy ===== *)
theory Api_Webhook_Safety
  imports Api_Webhook Sample_Api
begin

text \<open>
  The addresses a webhook can reach.  The refused IPv6 addresses are a list of network blocks, or carry
  a refused IPv4 address; a delivery sends only to addresses outside all of them.
\<close>

section \<open>IPv6 blocks\<close>

definition ipv6 :: "nat list \<Rightarrow> 128 word" where
  "ipv6 segments = of_nat (foldl (\<lambda>n s. n * 65536 + s) 0 segments)"

definition private_v6_blocks :: "(128 word \<times> nat) list" where
  "private_v6_blocks = [(ipv6 [0xfc00, 0, 0, 0, 0, 0, 0, 0], 7)]"

definition reserved_v6_blocks :: "(128 word \<times> nat) list" where
  "reserved_v6_blocks =
     [(ipv6 [0x0064, 0xff9b, 0, 0, 0, 0, 0, 0], 96), (ipv6 [0x0064, 0xff9b, 1, 0, 0, 0, 0, 0], 48),
      (ipv6 [0xfe80, 0, 0, 0, 0, 0, 0, 0], 10), (ipv6 [0xfec0, 0, 0, 0, 0, 0, 0, 0], 10),
      (ipv6 [0xff00, 0, 0, 0, 0, 0, 0, 0], 8), (ipv6 [0x2001, 0x0db8, 0, 0, 0, 0, 0, 0], 32),
      (ipv6 [0x0100, 0, 0, 0, 0, 0, 0, 0], 128)]"

lemma segment_unat: "unat (segment i x) = unat x div 2 ^ (112 - 16 * i) mod 65536"
  unfolding segment_def word_to_nat by simp

text \<open>The number in the first segments of an address.\<close>

definition leading :: "nat \<Rightarrow> 128 word \<Rightarrow> nat" where
  "leading k x = unat x div 2 ^ (128 - 16 * k)"

lemma leading_step: "k < 8 \<Longrightarrow> leading (Suc k) x = leading k x * 65536 + unat (segment k x)"
proof -
  assume k: "k < 8"
  define m where "m = unat x div 2 ^ (112 - 16 * k)"
  have "128 - 16 * k = (112 - 16 * k) + 16" using k by simp
  then have "(2::nat) ^ (128 - 16 * k) = 2 ^ (112 - 16 * k) * 65536" by (simp only: power_add) simp
  then have "leading k x = m div 65536" by (simp add: leading_def m_def div_mult2_eq)
  moreover have "leading (Suc k) x = m" by (simp add: leading_def m_def)
  moreover have "unat (segment k x) = m mod 65536" by (simp add: segment_unat m_def)
  ultimately show ?thesis by simp
qed

lemma leading_0: "leading 0 x = 0"
  using unsigned_less [of x, where 'a = nat] by (simp add: leading_def)

lemma segment_less: "unat (segment k x) < 65536"
  by (simp add: segment_unat)

text \<open>A mask of leading bits compares the bits above it.\<close>

lemma masked_segment:
  assumes "n \<le> 16"
  shows "unat (and (segment i x) (push_bit n (mask (16 - n)))) = unat (segment i x) div 2 ^ n * 2 ^ n"
proof -
  let ?w = "segment i x"
  have "and ?w (push_bit n (mask (16 - n))) = push_bit n (drop_bit n ?w)"
    using assms by (intro bit_eqI) (auto simp: segment_def bit_simps)
  also have "\<dots> = ?w - take_bit n ?w" by (metis add_diff_cancel_right' bits_ident)
  finally have m: "and ?w (push_bit n (mask (16 - n))) = ?w - take_bit n ?w" .
  have t: "unat (take_bit n ?w) = unat ?w mod 2 ^ n" unfolding word_to_nat by simp
  then have "unat (?w - take_bit n ?w) = unat ?w - unat ?w mod 2 ^ n" by (simp add: unat_sub word_le_nat_alt)
  then show ?thesis unfolding m by (simp add: minus_mod_eq_div_mult)
qed

lemma in_block_leading:
  "in_block x (ipv6 l, n) \<longleftrightarrow> unat x div 2 ^ (128 - n) = foldl (\<lambda>n s. n * 65536 + s) 0 l mod 2 ^ 128 div 2 ^ (128 - n)"
  unfolding in_block_def ipv6_def fst_conv snd_conv word_to_nat unat_of_nat by simp

lemma leading_1: "leading 1 x = unat (segment 0 x)"
  using leading_step [of 0 x] by (simp add: leading_0)

lemma short_block:
  assumes "n \<le> 16"
  shows "unat x div 2 ^ (112 + n) = unat (segment 0 x) div 2 ^ n"
  using leading_1 [of x] by (simp add: leading_def power_add div_mult2_eq)

lemma masked_eq:
  assumes "n \<le> 16" and "m = push_bit n (mask (16 - n) :: 128 word)" and "unat (c :: 128 word) = q * 2 ^ n"
  shows "and (segment 0 x) m = c \<longleftrightarrow> unat x div 2 ^ (112 + n) = q"
proof -
  have "and (segment 0 x) m = c \<longleftrightarrow> unat (segment 0 x) div 2 ^ n * 2 ^ n = q * 2 ^ n"
    unfolding assms(2) word_unat_eq_iff masked_segment [OF assms(1)] assms(3) ..
  then show ?thesis using short_block [OF assms(1), of x] by simp
qed

lemma private_v6: "and (segment 0 x) 0xfe00 = 0xfc00 \<longleftrightarrow> list_ex (in_block x) private_v6_blocks"
proof -
  have "and (segment 0 x) 0xfe00 = 0xfc00 \<longleftrightarrow> unat x div 2 ^ (112 + 9) = 126"
    by (rule masked_eq) (simp_all add: mask_eq_exp_minus_1 push_bit_eq_mult)
  then show ?thesis by (simp add: private_v6_blocks_def in_block_leading)
qed

lemma two_segments:
  assumes p: "p < 65536" and q: "q < 65536"
  shows "segment 0 x = of_nat p \<and> segment 1 x = of_nat q \<longleftrightarrow> leading 2 x = p * 65536 + q"
proof -
  have l: "leading 2 x = unat (segment 0 x) * 65536 + unat (segment 1 x)"
    using leading_step [of 1 x] unfolding leading_1 Suc_1 by simp
  have w: "segment k x = of_nat r \<longleftrightarrow> unat (segment k x) = r" if "r < 65536" for k r
  proof -
    have "unat (of_nat r :: 128 word) = r" unfolding unat_of_nat using that by (intro mod_less) simp
    then show ?thesis by (simp only: word_unat_eq_iff)
  qed
  show ?thesis unfolding l two_digits [OF segment_less q] w [OF p] w [OF q] ..
qed

lemma zero_segments:
  assumes "i \<le> j" and "j \<le> 8"
  shows "(\<forall>k \<in> {i..<j}. segment k x = 0) \<longleftrightarrow> leading j x = leading i x * 65536 ^ (j - i)"
  using assms
proof (induction j)
  case (Suc j)
  show ?case
  proof (cases "i = Suc j")
    case False
    then have ij: "i \<le> j" and j: "j < 8" using Suc.prems by simp_all
    have s: "leading (Suc j) x = leading j x * 65536 + unat (segment j x)" using j by (rule leading_step)
    have e: "leading i x * 65536 ^ (Suc j - i) = leading i x * 65536 ^ (j - i) * 65536 + 0"
      using ij by (simp add: Suc_diff_le)
    have "leading (Suc j) x = leading i x * 65536 ^ (Suc j - i) \<longleftrightarrow>
        leading j x = leading i x * 65536 ^ (j - i) \<and> unat (segment j x) = 0"
      unfolding s e by (rule two_digits) (use segment_less in simp_all)
    moreover have "(\<forall>k \<in> {i..<Suc j}. segment k x = 0) \<longleftrightarrow> (\<forall>k \<in> {i..<j}. segment k x = 0) \<and> segment j x = 0"
      using ij by (auto simp: less_Suc_eq)
    ultimately show ?thesis using Suc.IH ij j by (simp add: unat_eq_zero)
  qed simp
qed simp

lemma leading_div:
  assumes "i \<le> j" and "j \<le> 8"
  shows "leading i x = leading j x div 65536 ^ (j - i)"
proof -
  have "128 - 16 * i = (128 - 16 * j) + 16 * (j - i)" using assms by simp
  then have "(2::nat) ^ (128 - 16 * i) = 2 ^ (128 - 16 * j) * 65536 ^ (j - i)" by (simp only: power_add power_mult) simp
  then show ?thesis by (simp add: leading_def div_mult2_eq)
qed

lemma zeros_after:
  assumes "i \<le> j" and "j \<le> 8"
  shows "leading i x = p \<and> (\<forall>k \<in> {i..<j}. segment k x = 0) \<longleftrightarrow> leading j x = p * 65536 ^ (j - i)"
  using zero_segments [OF assms, of x] leading_div [OF assms, of x] by auto

lemma segment_2: "leading 2 x = p \<and> segment 2 x = 1 \<longleftrightarrow> leading 3 x = p * 65536 + 1"
  using leading_step [of 2 x] segment_less [of 2 x] two_digits [of "unat (segment 2 x)" 65536 1 "leading 2 x" p]
  by (simp add: numeral_3_eq_3 numeral_2_eq_2 word_unat_eq_iff)

lemma first_segment: "p < 65536 \<Longrightarrow> segment 0 x = of_nat p \<longleftrightarrow> leading 1 x = p"
  unfolding leading_1 word_unat_eq_iff unat_of_nat by simp

lemma reserved_v6:
  "segment 0 x = 0x0064 \<and> segment 1 x = 0xff9b \<and> ((\<forall>i \<in> {2..<6}. segment i x = 0) \<or> segment 2 x = 1)
     \<or> and (segment 0 x) 0xffc0 = 0xfe80 \<or> and (segment 0 x) 0xffc0 = 0xfec0 \<or> and (segment 0 x) 0xff00 = 0xff00
     \<or> segment 0 x = 0x2001 \<and> segment 1 x = 0x0db8 \<or> segment 0 x = 0x0100 \<and> (\<forall>i \<in> {1..<8}. segment i x = 0)
   \<longleftrightarrow> list_ex (in_block x) reserved_v6_blocks"
proof -
  have pair: "segment 0 x = 0x0064 \<and> segment 1 x = 0xff9b \<longleftrightarrow> leading 2 x = 0x64 * 65536 + 0xff9b"
    using two_segments [of "0x64" "0xff9b" x] by simp
  have a: "segment 0 x = 0x0064 \<and> segment 1 x = 0xff9b \<and> ((\<forall>i \<in> {2..<6}. segment i x = 0) \<or> segment 2 x = 1)
      \<longleftrightarrow> leading 6 x = (0x64 * 65536 + 0xff9b) * 65536 ^ 4 \<or> leading 3 x = (0x64 * 65536 + 0xff9b) * 65536 + 1"
    using pair zeros_after [of 2 6 x "0x64 * 65536 + 0xff9b"] segment_2 [of x "0x64 * 65536 + 0xff9b"] by auto
  have b: "and (segment 0 x) 0xffc0 = 0xfe80 \<longleftrightarrow> unat x div 2 ^ (112 + 6) = 1018"
    by (rule masked_eq) (simp_all add: mask_eq_exp_minus_1 push_bit_eq_mult)
  have c: "and (segment 0 x) 0xffc0 = 0xfec0 \<longleftrightarrow> unat x div 2 ^ (112 + 6) = 1019"
    by (rule masked_eq) (simp_all add: mask_eq_exp_minus_1 push_bit_eq_mult)
  have d: "and (segment 0 x) 0xff00 = 0xff00 \<longleftrightarrow> unat x div 2 ^ (112 + 8) = 255"
    by (rule masked_eq) (simp_all add: mask_eq_exp_minus_1 push_bit_eq_mult)
  have e: "segment 0 x = 0x2001 \<and> segment 1 x = 0x0db8 \<longleftrightarrow> leading 2 x = 0x2001 * 65536 + 0x0db8"
    using two_segments [of "0x2001" "0x0db8" x] by simp
  have f: "segment 0 x = 0x0100 \<and> (\<forall>i \<in> {1..<8}. segment i x = 0) \<longleftrightarrow> leading 8 x = 0x100 * 65536 ^ 7"
    using first_segment [of "0x100" x] zeros_after [of 1 8 x "0x100"] by simp
  have blocks: "list_ex (in_block x) reserved_v6_blocks \<longleftrightarrow>
      (leading 6 x = (0x64 * 65536 + 0xff9b) * 65536 ^ 4 \<or> leading 3 x = (0x64 * 65536 + 0xff9b) * 65536 + 1)
      \<or> unat x div 2 ^ (112 + 6) = 1018 \<or> unat x div 2 ^ (112 + 6) = 1019 \<or> unat x div 2 ^ (112 + 8) = 255
      \<or> leading 2 x = 0x2001 * 65536 + 0x0db8 \<or> leading 8 x = 0x100 * 65536 ^ 7"
    by (simp add: reserved_v6_blocks_def in_block_leading leading_def)
  show ?thesis unfolding blocks a b c d e f ..
qed

section \<open>Carried IPv4 addresses\<close>

text \<open>The IPv4-compatible and IPv4-mapped forms of an IPv4 address.\<close>

definition carriers :: "u32 \<Rightarrow> 128 word list" where
  "carriers a = map (\<lambda>c. of_nat (c * 2 ^ 32 + unat a)) [0, 0xffff]"

lemma carried_segments:
  assumes "y = of_nat (c * 2 ^ 32 + unat (a :: u32))" and "c < 65536"
  shows "i < 5 \<Longrightarrow> segment i y = 0" and "unat (segment 5 y) = c" and "ucast y = a"
proof -
  have a: "unat a < 2 ^ 32" using unsigned_less [of a, where 'a = nat] by simp
  then have less: "c * 2 ^ 32 + unat a < 2 ^ 48" using assms(2) by simp
  have y: "unat y = c * 2 ^ 32 + unat a"
    unfolding assms(1) unat_of_nat using less by (intro mod_less) simp
  show "unat (segment 5 y) = c" using a assms(2) by (simp add: segment_unat y)
  show "ucast y = a" using a unfolding word_unat_eq_iff unsigned_ucast_eq y by (simp add: take_bit_eq_mod)
  assume i: "i < 5"
  then have "(2::nat) ^ 48 \<le> 2 ^ (112 - 16 * i)" by (intro power_increasing) simp_all
  then have "unat y div 2 ^ (112 - 16 * i) = 0" using less y by (intro div_less) linarith
  then show "segment i y = 0" by (simp add: word_unat_eq_iff segment_unat)
qed

lemma to_ipv4_carriers: "y \<in> set (carriers a) \<Longrightarrow> to_ipv4 y = Some a"
proof -
  assume "y \<in> set (carriers a)"
  then obtain c where c: "y = of_nat (c * 2 ^ 32 + unat a)" "c = 0 \<or> c = 0xffff" unfolding carriers_def set_map list.set by blast
  then have "c < 65536" by auto
  note s = carried_segments [OF c(1) this]
  have "segment 5 y = 0 \<or> segment 5 y = 0xffff" using s(2) c(2) by (auto simp: word_unat_eq_iff)
  then show ?thesis using s(1,3) by (simp add: to_ipv4_def)
qed

section \<open>What a delivery reaches\<close>

text \<open>An address outside every refused block, a carried IPv4 address being judged as itself.\<close>

fun outside_v4 :: "WebhookPolicy \<Rightarrow> u32 \<Rightarrow> bool" where
  "outside_v4 policy x \<longleftrightarrow> \<not> list_ex (in_block x) reserved_blocks
     \<and> (wp_allow_private_networks policy \<or> \<not> list_ex (in_block x) private_blocks)"

fun outside_blocks :: "WebhookPolicy \<Rightarrow> IpAddr \<Rightarrow> bool" where
  "outside_blocks policy (IpV4 x) = outside_v4 policy x"
| "outside_blocks policy (IpV6 x) =
     (case to_ipv4 x of
        Some a \<Rightarrow> outside_v4 policy a
      | None \<Rightarrow> \<not> list_ex (in_block x) reserved_v6_blocks
          \<and> (wp_allow_private_networks policy \<or> \<not> list_ex (in_block x) private_v6_blocks))"

lemma to_ipv4_small: "to_ipv4 0 \<noteq> None" "to_ipv4 1 \<noteq> None"
  using to_ipv4_carriers [of 0 0] to_ipv4_carriers [of 1 1] by (simp_all add: carriers_def)

lemma forbidden_iff: "is_forbidden_target address policy \<longleftrightarrow> \<not> outside_blocks policy address"
proof (cases address)
  case (IpV4 x)
  then show ?thesis by (auto simp: is_forbidden_target_def private_v4_blocks reserved_v4_blocks)
next
  case (IpV6 x)
  show ?thesis
  proof (cases "to_ipv4 x")
    case None
    then have "x \<noteq> 0" "x \<noteq> 1" using to_ipv4_small by auto
    then show ?thesis using IpV6 None reserved_v6 [of x] private_v6 [of x] by (auto simp: is_forbidden_target_def)
  next
    case (Some a)
    then show ?thesis using IpV6 by (auto simp: is_forbidden_target_def private_v4_blocks reserved_v4_blocks)
  qed
qed

lemma sort_key_Nil: "sort_key k xs = [] \<longleftrightarrow> xs = []"
  by (metis set_empty set_sort)

lemma checked_addresses_safe:
  "checked_addresses found policy = Inr addresses \<Longrightarrow>
     addresses \<noteq> [] \<and> (\<forall>a \<in> set addresses. a \<in> set found \<and> outside_blocks policy (sa_ip a))"
  by (auto simp: checked_addresses_def result_inv Let_def list_ex_iff forbidden_iff sort_key_Nil split: if_splits)

lemma resolved_target:
  assumes "resolve_webhook_target world url policy s = Some (Inr target, s')"
  shows "wt_addresses target \<noteq> [] \<and> (\<forall>a \<in> set (wt_addresses target). outside_blocks policy (sa_ip a))
     \<and> aw_url world url = Some (wt_url target) \<and> (\<exists>host port. webhook_host (wt_url target) = Inr (host, port)
       \<and> (case host of DomainHost domain \<Rightarrow> wt_domain target = Some domain
            | Ipv4Host ip \<Rightarrow> wt_addresses target = [\<lparr>sa_ip = IpV4 ip, sa_port = port\<rparr>]
            | Ipv6Host ip \<Rightarrow> wt_addresses target = [\<lparr>sa_ip = IpV6 ip, sa_port = port\<rparr>]))"
proof -
  obtain parsed host port domain found addresses s1 where
    u: "aw_url world url = Some parsed" and h: "webhook_host parsed = Inr (host, port)"
    and r: "resolve_host world host port s = Some (Inr (domain, found), s1)"
    and c: "checked_addresses found policy = Inr addresses"
    and t: "target = \<lparr>wt_url = parsed, wt_domain = domain, wt_addresses = addresses\<rparr>"
    using assms by (auto simp: resolve_webhook_target_def and_then_Inr split: prod.splits)
  have "case host of DomainHost d \<Rightarrow> domain = Some d
      | Ipv4Host ip \<Rightarrow> found = [\<lparr>sa_ip = IpV4 ip, sa_port = port\<rparr>] | Ipv6Host ip \<Rightarrow> found = [\<lparr>sa_ip = IpV6 ip, sa_port = port\<rparr>]"
    using r by (cases host) (auto simp: resolve_host_def and_then_Inr result_inv)
  moreover have "found = [a] \<Longrightarrow> addresses = [a]" for a
    using c by (auto simp: checked_addresses_def result_inv Let_def split: if_splits)
  ultimately show ?thesis
    using checked_addresses_safe [OF c] u h t by (auto split: UrlHost.splits)
qed

text \<open>The log of a delivery: nothing, or one request to a resolved target.\<close>

lemma resolve_silent: "silent.keeps (resolve_webhook_target world url policy)"
  unfolding resolve_webhook_target_def resolve_host_def
  by (intro silent.keeps_rules timed_await_silent) (auto intro!: silent.keeps_rules timed_await_silent split: UrlHost.splits)

lemmas resolve_log = silent.keepsD [OF resolve_silent]

definition delivery_headers :: "WebhookDelivery \<Rightarrow> (string \<times> string) list" where
  "delivery_headers delivery =
     [(''x-run-anywhere-event'', ''job_state_changed''), (''x-run-anywhere-delivery'', wd_delivery_id delivery)]"

lemma post_log:
  "post_event world target delivery s = Some (r, s') \<Longrightarrow> ap_log s' = ap_log s
     \<or> ap_log s' = ap_log s @ [WebhookSent (wt_addresses target) (wt_url target) (delivery_headers delivery) (wd_event delivery)]"
  by (auto simp: post_event_def delivery_headers_def action_cases timed_await_def api_await_def api_effect_def split: prod.splits if_splits)

lemma deliver_log:
  assumes "deliver world self delivery s = Some (r, s')"
  shows "ap_log s' = ap_log s \<or> (\<exists>target s1 s2.
      resolve_webhook_target world (wd_url delivery) (wx_policy self) s1 = Some (Inr target, s2)
      \<and> ap_log s' = ap_log s @ [WebhookSent (wt_addresses target) (wt_url target) (delivery_headers delivery) (wd_event delivery)])"
proof -
  define s0 where "s0 = s\<lparr>ap_db := ac_others (aw_call world (ap_calls s)) (ap_db s), ap_calls := Suc (ap_calls s)\<rparr>"
  have s0: "ap_log s0 = ap_log s" by (simp add: s0_def)
  have "deliver_webhook world delivery (wx_policy self) s0 = Some (r, s')"
    using assms by (simp add: deliver_def and_then_cases api_await_def s0_def)
  then obtain q where "and_then (resolve_webhook_target world (wd_url delivery) (wx_policy self))
      (\<lambda>target. post_event world target delivery) s0 = Some (q, s')"
    unfolding deliver_webhook_def map_failure_cases by blast
  then consider e where "resolve_webhook_target world (wd_url delivery) (wx_policy self) s0 = Some (Inl e, s')"
    | target s1 where "resolve_webhook_target world (wd_url delivery) (wx_policy self) s0 = Some (Inr target, s1)"
        "post_event world target delivery s1 = Some (q, s')"
    unfolding and_then_cases by blast
  then show ?thesis
  proof cases
    case 1
    then show ?thesis using resolve_log s0 by metis
  next
    case 2
    then have "ap_log s1 = ap_log s" using resolve_log s0 by metis
    then show ?thesis using post_log [OF 2(2)] 2(1) by metis
  qed
qed

section \<open>Properties\<close>


text \<open>
  C12. A delivery never sends an event to a refused address: whatever the resolver answers and whenever
  the timeout strikes, every request it makes goes to a non-empty list of addresses outside all refused
  blocks, carries the event of the delivery, and has an HTTP or HTTPS URL without credentials, the parse
  of the delivery's URL; a URL that names an address literally is sent to that address.
\<close>

theorem webhook_reaches_public_addresses_only:
  assumes "deliver world self delivery s = Some (r, s')"
    and "WebhookSent addresses url headers event \<in> set (drop (length (ap_log s)) (ap_log s'))"
  shows "addresses \<noteq> [] \<and> list_all (\<lambda>a. outside_blocks (wx_policy self) (sa_ip a)) addresses
    \<and> event = wd_event delivery \<and> aw_url world (wd_url delivery) = Some url
    \<and> pu_scheme (wu_parts url) \<in> {''http'', ''https''} \<and> pu_username (wu_parts url) = [] \<and> pu_password (wu_parts url) = None
    \<and> (case pu_host (wu_parts url) of Some (Ipv4Host ip) \<Rightarrow> map sa_ip addresses = [IpV4 ip]
         | Some (Ipv6Host ip) \<Rightarrow> map sa_ip addresses = [IpV6 ip] | Some (DomainHost _) \<Rightarrow> True | None \<Rightarrow> False)"
proof -
  obtain target s1 s2 where r: "resolve_webhook_target world (wd_url delivery) (wx_policy self) s1 = Some (Inr target, s2)"
    and l: "ap_log s' = ap_log s @ [WebhookSent (wt_addresses target) (wt_url target) (delivery_headers delivery) (wd_event delivery)]"
    using deliver_log [OF assms(1)] assms(2) by auto
  then have e: "addresses = wt_addresses target" "url = wt_url target" "event = wd_event delivery"
    using assms(2) by simp_all
  show ?thesis
    unfolding e using resolved_target [OF r]
    by (auto simp: list_all_iff webhook_host_def Let_def result_inv split: UrlHost.splits)
qed

definition sample_dispatcher :: WebhookDispatcher where
  "sample_dispatcher = \<lparr>wx_permits = 8, wx_policy = \<lparr>wp_allow_private_networks = False\<rparr>, wx_timeout = 3\<rparr>"

definition sample_delivery :: WebhookDelivery where
  "sample_delivery = \<lparr>wd_delivery_id = ''webhook:evt_1:wh_1'', wd_url = ''https:x'', wd_event = sample_event\<rparr>"

lemma sample_checked:
  "checked_addresses [\<lparr>sa_ip = IpV4 0x01010101, sa_port = 443\<rparr>] \<lparr>wp_allow_private_networks = False\<rparr>
     = Inr [\<lparr>sa_ip = IpV4 0x01010101, sa_port = 443\<rparr>]"
proof -
  have "\<not> is_forbidden_target (IpV4 0x01010101) \<lparr>wp_allow_private_networks = False\<rparr>"
    unfolding forbidden_iff by (simp add: reserved_blocks_def private_blocks_def in_block_unat)
  then show ?thesis by (simp add: checked_addresses_def)
qed

lemma sample_resolved:
  "resolve_webhook_target sample_api_world (wd_url sample_delivery) (wx_policy sample_dispatcher) s =
     Some (Inr \<lparr>wt_url = sample_url (DomainHost ''h''), wt_domain = Some ''h'',
       wt_addresses = [\<lparr>sa_ip = IpV4 0x01010101, sa_port = 443\<rparr>]\<rparr>, s\<lparr>ap_calls := Suc (ap_calls s)\<rparr>)"
proof -
  have h: "webhook_host (sample_url (DomainHost ''h'')) = Inr (DomainHost ''h'', 443)"
    by (simp add: webhook_host_def sample_url_def)
  have "resolve_host sample_api_world (DomainHost ''h'') 443 s =
      Some (Inr (Some ''h'', [\<lparr>sa_ip = IpV4 0x01010101, sa_port = 443\<rparr>]), s\<lparr>ap_calls := Suc (ap_calls s)\<rparr>)"
    by (simp add: resolve_host_def run_action sample_timed sample_fields)
  then show ?thesis
    using h by (simp add: resolve_webhook_target_def run_action sample_checked sample_dispatcher_def sample_fields)
qed

lemma sample_delivers:
  "deliver sample_api_world sample_dispatcher sample_delivery s =
     Some (Inr (), s\<lparr>ap_calls := Suc (Suc (Suc (ap_calls s))), ap_log := ap_log s @ [WebhookSent [\<lparr>sa_ip = IpV4 0x01010101, sa_port = 443\<rparr>]
       (sample_url (DomainHost ''h'')) [(''x-run-anywhere-event'', ''job_state_changed''),
         (''x-run-anywhere-delivery'', ''webhook:evt_1:wh_1'')] sample_event]\<rparr>)"
proof -
  have p: "post_event sample_api_world target sample_delivery s =
      Some (Inr (), s\<lparr>ap_calls := Suc (ap_calls s), ap_log := ap_log s @ [WebhookSent (wt_addresses target) (wt_url target)
        [(''x-run-anywhere-event'', ''job_state_changed''), (''x-run-anywhere-delivery'', ''webhook:evt_1:wh_1'')] sample_event]\<rparr>)"
    for target s
    by (simp add: post_event_def sample_delivery_def run_action sample_timed sample_fields)
  show ?thesis
    by (simp add: deliver_def deliver_webhook_def run_action sample_calls p sample_resolved)
qed

lemma sample_delivered:
  "deliver sample_api_world sample_dispatcher sample_delivery (sample_api sample_db) =
     Some (Inr (), \<lparr>ap_db = sample_db, ap_calls = 3, ap_log = [WebhookSent [\<lparr>sa_ip = IpV4 0x01010101, sa_port = 443\<rparr>]
       (sample_url (DomainHost ''h'')) [(''x-run-anywhere-event'', ''job_state_changed''),
         (''x-run-anywhere-delivery'', ''webhook:evt_1:wh_1'')] sample_event]\<rparr>)"
  by (simp add: sample_delivers sample_api_def)

theorem webhook_reaches_public_addresses_only_witness:
  "outside_blocks \<lparr>wp_allow_private_networks = False\<rparr> (IpV4 0x01010101)"
  using webhook_reaches_public_addresses_only [OF sample_delivered,
      of "[\<lparr>sa_ip = IpV4 0x01010101, sa_port = 443\<rparr>]" "sample_url (DomainHost ''h'')"
      "[(''x-run-anywhere-event'', ''job_state_changed''), (''x-run-anywhere-delivery'', ''webhook:evt_1:wh_1'')]" sample_event]
  by (simp add: sample_api_def sample_dispatcher_def del: outside_blocks.simps)

text \<open>
  The discard-only block 100::/64 is non-routable, but only its first address is refused.
\<close>

theorem discard_prefix_admitted:
  "is_forbidden_target (IpV6 0x01000000000000000000000000000000) policy
   \<and> \<not> is_forbidden_target (IpV6 0x01000000000000000000000000000001) policy"
proof -
  have "segment 0 0x01000000000000000000000000000000 \<noteq> 0" "segment 0 0x01000000000000000000000000000001 \<noteq> 0"
    by (simp_all add: word_unat_eq_iff segment_unat)
  then have c: "to_ipv4 0x01000000000000000000000000000000 = None" "to_ipv4 0x01000000000000000000000000000001 = None"
    by (force simp: to_ipv4_def)+
  show ?thesis
    unfolding forbidden_iff outside_blocks.simps c
    by (simp add: reserved_v6_blocks_def private_v6_blocks_def in_block_leading)
qed

end
