(* ===== verification/Api_Queue.thy ===== *)
theory Api_Queue
  imports Api_World
begin

text \<open>
  The outbox publisher, \<open>crates/api/src/queue.rs\<close>: it leases the queued-job messages of the outbox,
  publishes each to JetStream under a timeout, and marks it published or releases it for a retry after
  a jittered backoff.  Durations are microseconds, so \<open>as_millis\<close> divides by 1000; \<open>u128\<close> values are
  integers that saturate at \<open>2 ^ 128 - 1\<close>.  The source publishes the leased batch concurrently; the
  model takes the messages one after the other, what the others do meanwhile being part of \<open>ac_others\<close>.
\<close>

section \<open>Publishing\<close>

datatype QueuePublishError =
    InvalidSubject | InvalidMessageId | InvalidHeaderName string | InvalidHeaderValue string
  | Serialize string | Publish string | Acknowledgement string

fun publish_error_message :: "QueuePublishError \<Rightarrow> string" where
  "publish_error_message InvalidSubject = ''queue subject must be a concrete non-empty NATS subject''"
| "publish_error_message InvalidMessageId = ''queue message ID must not be blank or contain control characters''"
| "publish_error_message (InvalidHeaderName n) = ''invalid NATS trace header name `'' @ n @ ''`''"
| "publish_error_message (InvalidHeaderValue n) = ''invalid value for NATS trace header `'' @ n @ ''`''"
| "publish_error_message (Serialize e) = ''failed to serialize JobQueued: '' @ e"
| "publish_error_message (Publish e) = ''failed to publish JobQueued: '' @ e"
| "publish_error_message (Acknowledgement e) = ''JetStream did not acknowledge JobQueued: '' @ e"

definition JOBS_QUEUED :: string where "JOBS_QUEUED = ''jobs.queued''"

definition MESSAGE_ID_HEADER :: string where "MESSAGE_ID_HEADER = ''Nats-Msg-Id''"

definition validate_publish_subject :: "string \<Rightarrow> QueuePublishError + unit" where
  "validate_publish_subject subject =
     ensure (\<not> (is_blank subject \<or> list_ex (\<lambda>b. is_ascii_whitespace b \<or> is_ascii_control b) subject
       \<or> CHR ''*'' \<in> set subject \<or> CHR ''>'' \<in> set subject)) InvalidSubject"

definition validate_message_id :: "string \<Rightarrow> QueuePublishError + unit" where
  "validate_message_id message_id =
     ensure (\<not> (is_blank message_id \<or> list_ex is_ascii_control message_id)) InvalidMessageId"

fun trace_headers_into ::
  "ApiWorld \<Rightarrow> (string \<times> string) list \<Rightarrow> (string, string) btree \<Rightarrow> QueuePublishError + (string, string) btree" where
  "trace_headers_into world [] headers = Inr headers"
| "trace_headers_into world ((name, v) # rest) headers =
     (if eq_ignore_ascii_case name MESSAGE_ID_HEADER then trace_headers_into world rest headers
      else bind_result (ok_or (aw_header_name world name) (InvalidHeaderName name)) (\<lambda>parsed_name.
           bind_result (ok_or (aw_header_value world v) (InvalidHeaderValue name)) (\<lambda>parsed_value.
             trace_headers_into world rest (bt_put parsed_name parsed_value headers))))"

definition build_headers ::
  "ApiWorld \<Rightarrow> string \<Rightarrow> (string \<times> string) list \<Rightarrow> QueuePublishError + (string, string) btree" where
  "build_headers world message_id trace_headers =
     bind_result (trace_headers_into world trace_headers []) (\<lambda>headers. Inr (bt_put MESSAGE_ID_HEADER message_id headers))"

record JetStreamPublisher =
  jp_subject :: string

definition publisher_new :: JetStreamPublisher where
  "publisher_new = \<lparr>jp_subject = JOBS_QUEUED\<rparr>"

definition publisher_with_subject :: "string \<Rightarrow> QueuePublishError + JetStreamPublisher" where
  "publisher_with_subject subject =
     bind_result (validate_publish_subject subject) (\<lambda>_. Inr \<lparr>jp_subject = subject\<rparr>)"

text \<open>The request is on its way before the send is confirmed; the acknowledgement is a second await.\<close>

definition publish_job_queued ::
  "ApiWorld \<Rightarrow> JetStreamPublisher \<Rightarrow> JobQueued \<Rightarrow> (string \<times> string) list \<Rightarrow> (QueuePublishError timed, unit) api" where
  "publish_job_queued world self message trace_headers =
     and_then (answered (map_err Inner (validate_publish_subject (jp_subject self)))) (\<lambda>_.
     and_then (answered (map_err Inner (validate_message_id (jq_job_id message)))) (\<lambda>_.
     and_then (answered (map_err Inner (build_headers world (jq_job_id message) trace_headers))) (\<lambda>headers.
     and_then (api_effect (QueuePublished (jp_subject self) headers message)) (\<lambda>_.
     and_then (timed_await world (aw_publish world)) (\<lambda>sent.
     and_then (answered (map_err (\<lambda>e. Inner (Publish e)) sent)) (\<lambda>_.
     and_then (timed_await world (aw_confirm world)) (\<lambda>confirmed.
     and_then (answered (map_err (\<lambda>e. Inner (Acknowledgement e)) confirmed)) (\<lambda>_.
       api_effect (QueueAcknowledged (jp_subject self) (jq_job_id message))))))))))"

section \<open>Configuration\<close>

record OutboxDispatcherConfig =
  od_dispatcher_id :: string
  od_lease_timeout :: duration
  od_batch_size :: u32
  od_idle_poll_interval :: duration
  od_publish_timeout :: duration
  od_base_backoff :: duration
  od_max_backoff :: duration

definition outbox_config_new :: "string \<Rightarrow> OutboxDispatcherConfig" where
  "outbox_config_new dispatcher_id =
     \<lparr>od_dispatcher_id = dispatcher_id, od_lease_timeout = 90000000, od_batch_size = 50,
      od_idle_poll_interval = 1000000, od_publish_timeout = 30000000, od_base_backoff = 250000,
      od_max_backoff = 60000000\<rparr>"

datatype OutboxDispatchError = InvalidConfig | OutboxRepository RepositoryError

definition outbox_config_validate :: "ApiWorld \<Rightarrow> OutboxDispatcherConfig \<Rightarrow> OutboxDispatchError + unit" where
  "outbox_config_validate world self =
     ensure (\<not> (is_blank (od_dispatcher_id self) \<or> od_batch_size self = 0 \<or> od_lease_timeout self \<le> 0
         \<or> od_idle_poll_interval self = 0 \<or> od_publish_timeout self = 0
         \<or> (case aw_from_std world (od_publish_timeout self) of
              None \<Rightarrow> True | Some publish_timeout \<Rightarrow> od_lease_timeout self \<le> publish_timeout)
         \<or> od_base_backoff self = 0 \<or> od_max_backoff self < od_base_backoff self)) InvalidConfig"

section \<open>Retries\<close>

definition as_millis :: "duration \<Rightarrow> int" where
  "as_millis d = d div 1000"

definition saturating_u128 :: "int \<Rightarrow> int" where
  "saturating_u128 n = min n (2 ^ 128 - 1)"

definition backoff_exponent :: "u32 \<Rightarrow> nat" where
  "backoff_exponent attempt = min (unat attempt - 1) 31"

definition jitter_percent :: "u32 \<Rightarrow> int \<Rightarrow> int" where
  "jitter_percent attempt message_id =
     (let mixed = word_rotl (unat attempt mod 64) (word_of_int message_id * 0x9E3779B97F4A7C15 :: u64)
      in 75 + uint mixed mod 51)"

definition backoff_for :: "u32 \<Rightarrow> int \<Rightarrow> duration \<Rightarrow> duration \<Rightarrow> duration" where
  "backoff_for attempt message_id base limit =
     (let uncapped_ms = saturating_u128 (as_millis base * 2 ^ backoff_exponent attempt);
          capped_ms = min uncapped_ms (as_millis limit);
          jittered_ms = max (min (saturating_u128 (capped_ms * jitter_percent attempt message_id) div 100) (as_millis limit)) 1
      in 1000 * min jittered_ms (2 ^ 64 - 1))"

definition retry_at :: "ApiWorld \<Rightarrow> instant \<Rightarrow> duration \<Rightarrow> instant" where
  "retry_at world now delay =
     (let delay = (case aw_from_std world delay of Some d \<Rightarrow> d | None \<Rightarrow> 60000000)
      in case aw_checked_add world now delay of Some t \<Rightarrow> t | None \<Rightarrow> now)"

text \<open>UTF-8: a position is a character boundary unless the byte there continues a character.\<close>

definition continuation_byte :: "char \<Rightarrow> bool" where
  "continuation_byte b \<longleftrightarrow> 128 \<le> ascii_code b \<and> ascii_code b < 192"

definition is_char_boundary :: "string \<Rightarrow> nat \<Rightarrow> bool" where
  "is_char_boundary s i \<longleftrightarrow> i = 0 \<or> i = length s \<or> i < length s \<and> \<not> continuation_byte (s ! i)"

fun floor_boundary :: "string \<Rightarrow> nat \<Rightarrow> nat" where
  "floor_boundary s 0 = 0"
| "floor_boundary s (Suc n) = (if is_char_boundary s (Suc n) then Suc n else floor_boundary s n)"

definition truncate_error :: "string \<Rightarrow> string" where
  "truncate_error error = (if length error \<le> 1024 then error else take (floor_boundary error 1024) error)"

section \<open>Dispatching\<close>

record OutboxDispatcher =
  ox_publisher :: JetStreamPublisher
  ox_config :: OutboxDispatcherConfig

definition outbox_dispatcher_new ::
  "ApiWorld \<Rightarrow> JetStreamPublisher \<Rightarrow> OutboxDispatcherConfig \<Rightarrow> OutboxDispatchError + OutboxDispatcher" where
  "outbox_dispatcher_new world publisher config =
     bind_result (outbox_config_validate world config) (\<lambda>_. Inr \<lparr>ox_publisher = publisher, ox_config = config\<rparr>)"

fun decode_job_queued :: "OutboxPayload \<Rightarrow> JobQueued option" where
  "decode_job_queued (QueuedPayload queued) = Some queued"
| "decode_job_queued (DeadLetterPayload d) = None"
| "decode_job_queued (WebhookPayload w url event) = None"

definition publish_outbox_message ::
  "ApiWorld \<Rightarrow> OutboxDispatcher \<Rightarrow> OutboxRow \<Rightarrow> (QueuePublishError timed, unit) api" where
  "publish_outbox_message world self outbox =
     (if ob_subject outbox \<noteq> JOBS_QUEUED then fail_with (Inner InvalidSubject)
      else and_then (answered (ok_or (decode_job_queued (ob_payload outbox)) (Inner (Serialize (aw_json_error world)))))
        (\<lambda>message.
          if ob_event_key outbox \<noteq> jq_job_id message then fail_with (Inner InvalidMessageId)
          else publish_job_queued world (ox_publisher self) message (ob_trace_headers outbox)))"

definition timeout_message :: "duration \<Rightarrow> string" where
  "timeout_message timeout = ''queue acknowledgement timed out after '' @ show_nat (nat (as_millis timeout)) @ '' ms''"

datatype MessageDispatch = DispatchPublished | DispatchRetried

definition release_message :: "ApiWorld \<Rightarrow> OutboxDispatcher \<Rightarrow> OutboxRow \<Rightarrow> string \<Rightarrow> (RepositoryError, MessageDispatch) api" where
  "release_message world self message publish_error =
     and_then (api_now world) (\<lambda>now.
       let available_at = retry_at world now (backoff_for (word_of_int (ob_attempts message)) (ob_id message)
             (od_base_backoff (ox_config self)) (od_max_backoff (ox_config self)))
       in and_then (api_call world (\<lambda>t _ _. retry_outbox_message t (ob_id message) (od_dispatcher_id (ox_config self))
              available_at (truncate_error publish_error))) (\<lambda>_. succeed DispatchRetried))"

definition dispatch_message :: "ApiWorld \<Rightarrow> OutboxDispatcher \<Rightarrow> OutboxRow \<Rightarrow> (RepositoryError, MessageDispatch) api" where
  "dispatch_message world self message =
     and_then (outcome_of (publish_outbox_message world self message)) (\<lambda>result.
       case result of
         Inr _ \<Rightarrow>
           and_then (api_call world (\<lambda>t _ _. mark_outbox_published t (ob_id message) (od_dispatcher_id (ox_config self))))
             (\<lambda>_. succeed DispatchPublished)
       | Inl (Inner e) \<Rightarrow> release_message world self message (publish_error_message e)
       | Inl Elapsed \<Rightarrow> release_message world self message (timeout_message (od_publish_timeout (ox_config self))))"

record DispatchBatch =
  bx_leased :: u32
  bx_published :: u32
  bx_retried :: u32

fun tally :: "(RepositoryError + MessageDispatch) list \<Rightarrow> DispatchBatch \<times> RepositoryError option \<Rightarrow> DispatchBatch \<times> RepositoryError option" where
  "tally [] acc = acc"
| "tally (Inr DispatchPublished # rest) (batch, first) = tally rest (batch\<lparr>bx_published := bx_published batch + 1\<rparr>, first)"
| "tally (Inr DispatchRetried # rest) (batch, first) = tally rest (batch\<lparr>bx_retried := bx_retried batch + 1\<rparr>, first)"
| "tally (Inl e # rest) (batch, first) = tally rest (batch, case first of None \<Rightarrow> Some e | Some f \<Rightarrow> Some f)"

definition dispatch_all ::
  "ApiWorld \<Rightarrow> OutboxDispatcher \<Rightarrow> OutboxRow list \<Rightarrow> ('e, (RepositoryError + MessageDispatch) list) api" where
  "dispatch_all world self messages =
     for_each (\<lambda>message results. and_then (outcome_of (dispatch_message world self message)) (\<lambda>r. succeed (results @ [r])))
       messages []"

definition refresh_backlog :: "ApiWorld \<Rightarrow> ('e, RepositoryError + u64) api" where
  "refresh_backlog world = outcome_of (api_query world pending_outbox_count)"

definition batch_result :: "nat \<Rightarrow> (RepositoryError + MessageDispatch) list \<Rightarrow> OutboxDispatchError + DispatchBatch" where
  "batch_result n results =
     (let leased = (if int n < 2 ^ 32 then of_nat n else - 1)
      in case tally results (\<lparr>bx_leased = leased, bx_published = 0, bx_retried = 0\<rparr>, None) of
           (batch, Some e) \<Rightarrow> Inl (OutboxRepository e)
         | (batch, None) \<Rightarrow> Inr batch)"

definition dispatch_once :: "ApiWorld \<Rightarrow> OutboxDispatcher \<Rightarrow> (OutboxDispatchError, DispatchBatch) api" where
  "dispatch_once world self =
     and_then (map_failure OutboxRepository (api_call world (\<lambda>t _ _.
         lease_outbox_messages_for_subject t (od_dispatcher_id (ox_config self)) JOBS_QUEUED
           (od_lease_timeout (ox_config self)) (od_batch_size (ox_config self))))) (\<lambda>messages.
     and_then (dispatch_all world self messages) (\<lambda>results.
     and_then (refresh_backlog world) (\<lambda>_. answered (batch_result (length messages) results))))"

text \<open>
  The loop, until the shutdown flag is seen at its head or during the pause.  It need not end, so a run
  has no value unless it does.
\<close>

definition poll_immediately :: "OutboxDispatcher \<Rightarrow> OutboxDispatchError + DispatchBatch \<Rightarrow> bool" where
  "poll_immediately self r =
     (case r of Inr batch \<Rightarrow> od_batch_size (ox_config self) \<le> bx_leased batch | Inl _ \<Rightarrow> False)"

partial_function (option) run_dispatcher :: "ApiWorld \<Rightarrow> OutboxDispatcher \<Rightarrow> Api \<Rightarrow> Api option" where
  "run_dispatcher world self s =
     (if aw_shutdown world (ap_calls s) then Some s
      else Option.bind (dispatch_once world self s) (\<lambda>(r, s1).
        if poll_immediately self r then run_dispatcher world self s1
        else Option.bind ((api_await world (aw_shutdown world) :: (unit, bool) api) s1) (\<lambda>(stop, s2).
          if stop = Inr True then Some s2 else run_dispatcher world self s2)))"

end
