(* ===== verification/Api_Queue_Safety.thy ===== *)
theory Api_Queue_Safety
  imports Api_Queue Sample_Api Outbox_Leasing
begin

text \<open>
  What the outbox publisher guarantees: its backoff is bounded, an error text it stores fits its column
  and ends at a character boundary, and it marks a message published only after JetStream acknowledged
  it under the message's own key.
\<close>

section \<open>Truncation\<close>

lemma floor_boundary: "floor_boundary s n \<le> n" "is_char_boundary s (floor_boundary s n)"
  by (induction s n rule: floor_boundary.induct) (auto simp: is_char_boundary_def)

lemma floor_boundary_greatest: "is_char_boundary s i \<Longrightarrow> i \<le> n \<Longrightarrow> i \<le> floor_boundary s n"
  by (induction s n rule: floor_boundary.induct) (auto simp: le_Suc_eq)

section \<open>The backoff\<close>

text \<open>The delay before jitter, in milliseconds.\<close>

definition exponential_ms :: "u32 \<Rightarrow> duration \<Rightarrow> duration \<Rightarrow> int" where
  "exponential_ms attempt base limit = min (as_millis base * 2 ^ (min (unat attempt - 1) 31)) (as_millis limit)"

lemma jitter_range: "75 \<le> jitter_percent attempt i \<and> jitter_percent attempt i \<le> 125"
proof -
  have "0 \<le> n mod 51" "n mod 51 < 51" for n :: int by simp_all
  then show ?thesis unfolding jitter_percent_def Let_def by (smt (verit))
qed

lemma backoff_ms:
  assumes "as_millis limit < 2 ^ 64" and "0 \<le> base" and "0 \<le> limit"
  shows "backoff_for attempt i base limit =
    1000 * max (min (exponential_ms attempt base limit * jitter_percent attempt i div 100) (as_millis limit)) 1"
proof -
  let ?m = "as_millis limit" and ?j = "jitter_percent attempt i"
  let ?u = "as_millis base * 2 ^ backoff_exponent attempt"
  have c: "min (saturating_u128 ?u) ?m = min ?u ?m" using assms(1) by (simp add: saturating_u128_def)
  have e: "min ?u ?m = exponential_ms attempt base limit" by (simp add: exponential_ms_def backoff_exponent_def)
  have "0 \<le> exponential_ms attempt base limit" using assms(2,3) by (simp add: exponential_ms_def as_millis_def pos_imp_zdiv_nonneg_iff)
  then have "exponential_ms attempt base limit * ?j \<le> ?m * 125"
    using jitter_range [of attempt i] by (intro mult_mono) (simp_all add: exponential_ms_def)
  then have s: "saturating_u128 (exponential_ms attempt base limit * ?j) = exponential_ms attempt base limit * ?j"
    using assms(1) by (simp add: saturating_u128_def)
  show ?thesis
    unfolding backoff_for_def Let_def c e s using assms(1) by (simp add: min_def)
qed

section \<open>Publication\<close>

definition new_log :: "Api \<Rightarrow> Api \<Rightarrow> ApiEffect list" where
  "new_log s s' = drop (length (ap_log s)) (ap_log s')"

definition acknowledged_keys :: "string \<Rightarrow> ApiEffect list \<Rightarrow> string set" where
  "acknowledged_keys subject l = {key. QueueAcknowledged subject key \<in> set l}"

text \<open>
  A step that, from an outbox with unique identifiers, keeps them unique, removes no row, and publishes
  only messages with the given keys.
\<close>

definition outbox_step :: "string set \<Rightarrow> db \<Rightarrow> db \<Rightarrow> bool" where
  "outbox_step keys d d' \<longleftrightarrow> distinct (map ob_id (db_outbox d)) \<longrightarrow>
     distinct (map ob_id (db_outbox d'))
     \<and> (\<forall>r \<in> set (db_outbox d). \<exists>r' \<in> set (db_outbox d'). ob_id r' = ob_id r \<and> ob_event_key r' = ob_event_key r)
     \<and> (\<forall>r' \<in> set (db_outbox d'). ob_published_at r' \<noteq> None \<longrightarrow>
          ob_event_key r' \<in> keys \<or> (\<exists>r \<in> set (db_outbox d). ob_id r = ob_id r' \<and> ob_published_at r \<noteq> None))"

lemma outbox_step_refl: "outbox_step keys d d"
  by (auto simp: outbox_step_def)

lemma outbox_step_mono: "outbox_step keys d d' \<Longrightarrow> keys \<subseteq> keys' \<Longrightarrow> outbox_step keys' d d'"
  unfolding outbox_step_def by blast

lemma outbox_step_trans:
  assumes "outbox_step keys d d'" and "outbox_step keys d' d''"
  shows "outbox_step keys d d''"
  unfolding outbox_step_def
proof (intro impI conjI ballI)
  assume 0: "distinct (map ob_id (db_outbox d))"
  then have 1: "distinct (map ob_id (db_outbox d'))" using assms(1) by (simp add: outbox_step_def)
  then show 2: "distinct (map ob_id (db_outbox d''))" using assms(2) by (simp add: outbox_step_def)
  show "\<exists>r' \<in> set (db_outbox d''). ob_id r' = ob_id r \<and> ob_event_key r' = ob_event_key r" if "r \<in> set (db_outbox d)" for r
    using assms 0 1 that unfolding outbox_step_def by metis
  fix r assume r: "r \<in> set (db_outbox d'')" "ob_published_at r \<noteq> None"
  then consider "ob_event_key r \<in> keys" | r1 where "r1 \<in> set (db_outbox d')" "ob_id r1 = ob_id r" "ob_published_at r1 \<noteq> None"
    using assms(2) 1 unfolding outbox_step_def by blast
  then show "ob_event_key r \<in> keys \<or> (\<exists>r0 \<in> set (db_outbox d). ob_id r0 = ob_id r \<and> ob_published_at r0 \<noteq> None)"
  proof cases
    case 2
    obtain r2 where "r2 \<in> set (db_outbox d'')" "ob_id r2 = ob_id r1" "ob_event_key r2 = ob_event_key r1"
      using assms(2) 1 2(1) unfolding outbox_step_def by blast
    then have "ob_event_key r1 = ob_event_key r"
      using distinct_key_eq [OF \<open>distinct (map ob_id (db_outbox d''))\<close>, of r2 r] r(1) 2(2) by simp
    then show ?thesis using assms(1) 0 2 unfolding outbox_step_def by metis
  qed simp
qed

interpretation unpublished: api_relation "outbox_step {}"
  by unfold_locales (auto intro: outbox_step_refl outbox_step_trans)

definition acknowledged_step :: "string \<Rightarrow> Api \<Rightarrow> Api \<Rightarrow> bool" where
  "acknowledged_step subject s s' \<longleftrightarrow> log_extends s s'
     \<and> outbox_step (acknowledged_keys subject (new_log s s')) (ap_db s) (ap_db s')"

lemma new_log_trans: "log_extends s s' \<Longrightarrow> log_extends s' s'' \<Longrightarrow> new_log s s'' = new_log s s' @ new_log s' s''"
  by (auto simp: new_log_def log_extends_def)

lemma acknowledged_step_trans:
  assumes "acknowledged_step subject s s'" and "acknowledged_step subject s' s''"
  shows "acknowledged_step subject s s''"
proof -
  have l: "log_extends s s'" "log_extends s' s''" using assms by (simp_all add: acknowledged_step_def)
  let ?keys = "acknowledged_keys subject (new_log s s'')"
  have k: "acknowledged_keys subject (new_log s s') \<subseteq> ?keys" "acknowledged_keys subject (new_log s' s'') \<subseteq> ?keys"
    using new_log_trans [OF l] by (auto simp: acknowledged_keys_def)
  have "outbox_step ?keys (ap_db s) (ap_db s')" "outbox_step ?keys (ap_db s') (ap_db s'')"
    using assms k by (auto simp: acknowledged_step_def intro: outbox_step_mono)
  then have "outbox_step ?keys (ap_db s) (ap_db s'')" by (rule outbox_step_trans)
  moreover have "log_extends s s''" using l api_log.R_trans by blast
  ultimately show ?thesis by (simp add: acknowledged_step_def)
qed

interpretation acknowledged: action_relation "acknowledged_step subject" for subject
proof (unfold_locales)
  show "acknowledged_step subject s s" for s by (simp add: acknowledged_step_def api_log.R_refl outbox_step_refl)
qed (erule acknowledged_step_trans, assumption)

lemma acknowledged_of_unpublished:
  assumes "unpublished.on_api.keeps m" and "api_log.keeps m"
  shows "acknowledged.keeps subject m"
proof (rule acknowledged.keepsI)
  fix s r s' assume c: "m s = Some (r, s')"
  have "outbox_step {} (ap_db s) (ap_db s')" using unpublished.on_api.keepsD [OF assms(1) c] .
  then show "acknowledged_step subject s s'"
    using api_log.keepsD [OF assms(2) c] by (auto simp: acknowledged_step_def intro: outbox_step_mono)
qed

text \<open>Updates of the outbox in place.\<close>

lemma update_outbox_step:
  assumes "\<And>r. ob_id (f r) = ob_id r" and "\<And>r. ob_event_key (f r) = ob_event_key r"
    and "\<And>r. r \<in> set (db_outbox d) \<Longrightarrow> p r \<Longrightarrow> ob_published_at (f r) = ob_published_at r \<or> ob_event_key r \<in> keys"
  shows "outbox_step keys d (d\<lparr>db_outbox := update_rows p f (db_outbox d)\<rparr>)"
  unfolding outbox_step_def
proof (intro impI conjI ballI)
  assume "distinct (map ob_id (db_outbox d))"
  then show "distinct (map ob_id (db_outbox (d\<lparr>db_outbox := update_rows p f (db_outbox d)\<rparr>)))"
    using map_update_rows [of ob_id f p "db_outbox d"] assms(1) by simp
next
  fix r assume "r \<in> set (db_outbox d)"
  then have "(if p r then f r else r) \<in> set (update_rows p f (db_outbox d))" unfolding set_update_rows by blast
  then show "\<exists>r' \<in> set (db_outbox (d\<lparr>db_outbox := update_rows p f (db_outbox d)\<rparr>)). ob_id r' = ob_id r \<and> ob_event_key r' = ob_event_key r"
    using assms(1,2) by (intro bexI [of _ "if p r then f r else r"]) simp_all
next
  fix r' assume "r' \<in> set (db_outbox (d\<lparr>db_outbox := update_rows p f (db_outbox d)\<rparr>))" and n: "ob_published_at r' \<noteq> None"
  then obtain r where r: "r \<in> set (db_outbox d)" "r' = (if p r then f r else r)" by (auto simp: set_update_rows)
  show "ob_event_key r' \<in> keys \<or> (\<exists>r \<in> set (db_outbox d). ob_id r = ob_id r' \<and> ob_published_at r \<noteq> None)"
  proof (cases "ob_published_at r' = ob_published_at r")
    case True
    then show ?thesis using r n assms(1) by (intro disjI2 bexI [of _ r]) auto
  next
    case False
    then show ?thesis using r assms(2,3) by (auto split: if_splits)
  qed
qed

lemma lease_unpublished: "outbox_step {} d (snd (lease_outbox_messages_for_subject t dispatcher subject ttl n d))"
proof -
  have "outbox_step {} d (snd (lease_with_subject t dispatcher (Some subject) ttl n d))"
    by (auto simp: lease_with_subject_def commit_then_def lease_rows_def Let_def statement_inv checked_limit_def outbox_step_refl
        intro!: update_outbox_step split: sum.splits if_splits)
  then show ?thesis by (auto simp: lease_outbox_messages_for_subject_def outbox_step_refl split: sum.splits)
qed

lemma update_outbox_row_step:
  assumes "\<And>r. ob_id (f r) = ob_id r" and "\<And>r. ob_event_key (f r) = ob_event_key r"
    and "\<And>r. r \<in> set (db_outbox d) \<Longrightarrow> p r \<Longrightarrow> ob_published_at (f r) = ob_published_at r \<or> ob_event_key r \<in> keys"
    and "update_outbox_row p f lost d = Inr (row, d')"
  shows "outbox_step keys d d'"
  using assms(4) update_outbox_step [of f d p keys] assms(1-3) by (auto simp: update_outbox_row_def statement_inv split: list.splits)

lemma retry_unpublished: "outbox_step {} d (snd (retry_outbox_message t message dispatcher available error d))"
  by (auto simp: retry_outbox_message_def commit_then_def result_inv outbox_step_refl split: sum.splits
      intro: update_outbox_row_step [rotated 3])

lemma mark_step:
  assumes "\<And>r. r \<in> set (db_outbox d) \<Longrightarrow> ob_id r = message \<Longrightarrow> ob_event_key r \<in> keys"
  shows "outbox_step keys d (snd (mark_outbox_published t message dispatcher d))"
  using assms by (auto simp: mark_outbox_published_def commit_then_def result_inv outbox_step_refl holds_outbox_lease_def
      split: sum.splits intro: update_outbox_row_step [rotated 3])

section \<open>Dispatching one message\<close>

lemma publish_keeps:
  assumes "unpublished.api_world_in world"
  shows "unpublished.on_api.keeps (publish_outbox_message world self m)"
  unfolding publish_outbox_message_def publish_job_queued_def
  by (intro unpublished.on_api.keeps_rules unpublished.timed_await_in [OF assms] unpublished.api_effect_in)

lemma queue_publish_log: "api_log.keeps (publish_outbox_message world self m)"
  unfolding publish_outbox_message_def publish_job_queued_def
  by (intro api_log.keeps_rules timed_await_log primitives_log)

text \<open>An action that returns a value only once the key is acknowledged.\<close>

definition acknowledges :: "string \<Rightarrow> string \<Rightarrow> ('e, 'a) api \<Rightarrow> bool" where
  "acknowledges subject key m \<longleftrightarrow> (\<forall>s x s'. m s = Some (Inr x, s') \<longrightarrow> key \<in> acknowledged_keys subject (new_log s s'))"

lemma acknowledges_effect: "acknowledges subject key (api_effect (QueueAcknowledged subject key))"
  by (auto simp: acknowledges_def api_effect_def acknowledged_keys_def new_log_def)

lemma acknowledges_and_then:
  assumes "api_log.keeps m" and "\<And>x. api_log.keeps (f x)" and "\<And>x. acknowledges subject key (f x)"
  shows "acknowledges subject key (and_then m f)"
  unfolding acknowledges_def
proof (intro allI impI)
  fix s x s' assume "and_then m f s = Some (Inr x, s')"
  then obtain y s1 where m: "m s = Some (Inr y, s1)" and f: "f y s1 = Some (Inr x, s')" unfolding and_then_Inr by blast
  have "key \<in> acknowledged_keys subject (new_log s1 s')" using assms(3) f unfolding acknowledges_def by blast
  then show "key \<in> acknowledged_keys subject (new_log s s')"
    using new_log_trans [OF api_log.keepsD [OF assms(1) m] api_log.keepsD [OF assms(2) f]] by (simp add: acknowledged_keys_def)
qed

lemma publish_job_acknowledges: "acknowledges (jp_subject publisher) (jq_job_id queued) (publish_job_queued world publisher queued trace)"
  unfolding publish_job_queued_def
  by (intro acknowledges_and_then acknowledges_effect api_log.keeps_rules timed_await_log primitives_log)

lemma publish_acknowledged:
  assumes "publish_outbox_message world self m s = Some (Inr u, s')"
  shows "ob_event_key m \<in> acknowledged_keys (jp_subject (ox_publisher self)) (new_log s s')"
proof -
  obtain queued where q: "ob_event_key m = jq_job_id queued"
    and p: "publish_job_queued world (ox_publisher self) queued (ob_trace_headers m) s = Some (Inr u, s')"
    using assms by (auto simp: publish_outbox_message_def and_then_Inr split: if_splits)
  show ?thesis using publish_job_acknowledges p unfolding q acknowledges_def by blast
qed

definition known :: "OutboxRow \<Rightarrow> db \<Rightarrow> bool" where
  "known m d \<longleftrightarrow> distinct (map ob_id (db_outbox d))
     \<and> (\<exists>r \<in> set (db_outbox d). ob_id r = ob_id m \<and> ob_event_key r = ob_event_key m)"

lemma known_step: "known m d \<Longrightarrow> outbox_step keys d d' \<Longrightarrow> known m d'"
  unfolding known_def outbox_step_def by metis

lemma known_key: "known m d \<Longrightarrow> r \<in> set (db_outbox d) \<Longrightarrow> ob_id r = ob_id m \<Longrightarrow> ob_event_key r = ob_event_key m"
  unfolding known_def using distinct_key_eq [of ob_id "db_outbox d"] by metis

lemma release_keeps:
  assumes "unpublished.api_world_in world"
  shows "acknowledged.keeps subject (release_message world self m e)"
proof (rule acknowledged_of_unpublished)
  show "unpublished.on_api.keeps (release_message world self m e)"
    unfolding release_message_def Let_def
    by (intro unpublished.on_api.keeps_rules unpublished.api_call_in [OF assms] retry_unpublished unpublished.api_reading_in)
  show "api_log.keeps (release_message world self m e)"
    unfolding release_message_def Let_def by (intro api_log.keeps_rules primitives_log)
qed

lemma dispatch_message_step:
  assumes w: "unpublished.api_world_in world" and k: "known m (ap_db s)"
    and c: "dispatch_message world self m s = Some (r, s')"
  shows "acknowledged_step (jp_subject (ox_publisher self)) s s'"
proof -
  let ?subject = "jp_subject (ox_publisher self)"
  have p: "acknowledged.keeps ?subject (publish_outbox_message world self m)"
    by (rule acknowledged_of_unpublished [OF publish_keeps [OF w] queue_publish_log])
  obtain q s1 where q: "publish_outbox_message world self m s = Some (q, s1)"
    and rest: "(case q of
         Inr _ \<Rightarrow> and_then (api_call world (\<lambda>t _ _. mark_outbox_published t (ob_id m) (od_dispatcher_id (ox_config self))))
             (\<lambda>_. succeed DispatchPublished)
       | Inl (Inner e) \<Rightarrow> release_message world self m (publish_error_message e)
       | Inl Elapsed \<Rightarrow> release_message world self m (timeout_message (od_publish_timeout (ox_config self)))) s1 = Some (r, s')"
    using c unfolding dispatch_message_def and_then_cases outcome_cases by blast
  have 1: "acknowledged_step ?subject s s1" by (rule acknowledged.keepsD [OF p q])
  show ?thesis
  proof (cases q)
    case (Inl e)
    then have "acknowledged_step ?subject s1 s'"
      using rest acknowledged.keepsD [OF release_keeps [OF w]] by (cases e) auto
    then show ?thesis using 1 acknowledged.R_trans by blast
  next
    case (Inr u)
    let ?keys = "acknowledged_keys ?subject (new_log s s1)"
    let ?env = "aw_call world (ap_calls s1)"
    have key: "ob_event_key m \<in> ?keys" using publish_acknowledged q Inr by blast
    have l: "ap_log s' = ap_log s1" and d: "ap_db s' = snd (mark_outbox_published (ac_clock ?env) (ob_id m)
        (od_dispatcher_id (ox_config self)) (ac_others ?env (ap_db s1)))"
      using rest Inr by (auto simp: and_then_cases api_call_def Let_def)
    have n: "new_log s s' = new_log s s1" using l by (simp add: new_log_def)
    have k1: "known m (ap_db s1)" using known_step [OF k] 1 by (auto simp: acknowledged_step_def)
    have o: "outbox_step {} (ap_db s1) (ac_others ?env (ap_db s1))" using w by (simp add: unpublished.api_world_in_def)
    have "known m (ac_others ?env (ap_db s1))" using known_step [OF k1 o] .
    then have "outbox_step ?keys (ac_others ?env (ap_db s1)) (ap_db s')"
      unfolding d using mark_step known_key key by metis
    then have "outbox_step ?keys (ap_db s) (ap_db s')"
      using 1 outbox_step_mono [OF o empty_subsetI] outbox_step_trans unfolding acknowledged_step_def by blast
    then show ?thesis using 1 n l by (simp add: acknowledged_step_def log_extends_def)
  qed
qed

section \<open>Dispatching a batch\<close>

lemma dispatch_all_step:
  assumes w: "unpublished.api_world_in world" and "\<forall>m \<in> set ms. known m (ap_db s)"
    and "for_each (\<lambda>m results. and_then (outcome_of (dispatch_message world self m)) (\<lambda>r. succeed (results @ [r]))) ms acc s
      = Some (r, s')"
  shows "acknowledged_step (jp_subject (ox_publisher self)) s s'"
  using assms(2,3)
proof (induction ms arbitrary: acc s)
  case Nil
  then show ?case by (simp add: acknowledged.R_refl)
next
  case (Cons m ms)
  obtain q s1 where q: "dispatch_message world self m s = Some (q, s1)"
    and rest: "for_each (\<lambda>m results. and_then (outcome_of (dispatch_message world self m)) (\<lambda>r. succeed (results @ [r])))
      ms (acc @ [q]) s1 = Some (r, s')"
    using Cons.prems(2) by (auto simp: and_then_cases outcome_cases)
  have 1: "acknowledged_step (jp_subject (ox_publisher self)) s s1"
    using dispatch_message_step [OF w _ q] Cons.prems(1) by simp
  then have "\<forall>m \<in> set ms. known m (ap_db s1)" using Cons.prems(1) known_step by (auto simp: acknowledged_step_def)
  then have "acknowledged_step (jp_subject (ox_publisher self)) s1 s'" using rest by (rule Cons.IH)
  then show ?case using 1 acknowledged.R_trans by blast
qed

lemma leased_known:
  assumes "distinct (map ob_id (db_outbox d))"
    and "lease_outbox_messages_for_subject t dispatcher subject ttl n d = (Inr ms, d')" and "m \<in> set ms"
  shows "known m d'"
proof -
  have "distinct (map ob_id (db_outbox d'))"
    using lease_unpublished [of d t dispatcher subject ttl n] assms(1,2) by (simp add: outbox_step_def)
  moreover have "m \<in> set (db_outbox d')"
    using assms(3) by (auto simp: leaseD [OF assms(2)] set_update_rows)
  ultimately show ?thesis by (auto simp: known_def)
qed

lemma dispatch_once_step:
  assumes w: "unpublished.api_world_in world" and d: "distinct (map ob_id (db_outbox (ap_db s)))"
    and c: "dispatch_once world self s = Some (r, s')"
  shows "acknowledged_step (jp_subject (ox_publisher self)) s s'"
proof -
  let ?subject = "jp_subject (ox_publisher self)"
  define lease where "lease = (\<lambda>t (_ :: JobEventId) (_ :: string). lease_outbox_messages_for_subject t (od_dispatcher_id (ox_config self)) JOBS_QUEUED
    (od_lease_timeout (ox_config self)) (od_batch_size (ox_config self)))"
  have l: "acknowledged.keeps ?subject (map_failure OutboxRepository (api_call world lease))"
    by (intro acknowledged.keeps_rules acknowledged_of_unpublished unpublished.api_call_in [OF w] primitives_log)
      (simp add: lease_def lease_unpublished)
  have b: "acknowledged.keeps ?subject (refresh_backlog world :: (OutboxDispatchError, _) api)"
    unfolding refresh_backlog_def
    by (intro acknowledged.keeps_rules acknowledged_of_unpublished unpublished.api_query_in [OF w] primitives_log)
  consider e where "map_failure OutboxRepository (api_call world lease) s = Some (Inl e, s')"
    | messages s1 s2 e where "map_failure OutboxRepository (api_call world lease) s = Some (Inr messages, s1)"
      "(dispatch_all world self messages :: (OutboxDispatchError, _) api) s1 = Some (e, s2)"
      "s2 = s' \<or> (\<exists>q. (refresh_backlog world :: (OutboxDispatchError, _) api) s2 = Some (q, s'))"
    using c unfolding dispatch_once_def lease_def and_then_cases action_simps by blast
  then show ?thesis
  proof cases
    case 1
    then show ?thesis using acknowledged.keepsD [OF l] by blast
  next
    case 2
    let ?env = "aw_call world (ap_calls s)"
    have s1: "acknowledged_step ?subject s s1" using acknowledged.keepsD [OF l 2(1)] .
    have "outbox_step {} (ap_db s) (ac_others ?env (ap_db s))" using w by (simp add: unpublished.api_world_in_def)
    then have "distinct (map ob_id (db_outbox (ac_others ?env (ap_db s))))" using d by (simp add: outbox_step_def)
    moreover have "lease (ac_clock ?env) (ac_event ?env) (aw_fresh world (ap_calls s)) (ac_others ?env (ap_db s)) = (Inr messages, ap_db s1)"
      using 2(1) by (auto simp: map_failure_Inr api_call_def Let_def prod_eq_iff)
    ultimately have "\<forall>m \<in> set messages. known m (ap_db s1)" using leased_known unfolding lease_def by blast
    then have "acknowledged_step ?subject s1 s2" using dispatch_all_step [OF w] 2(2) unfolding dispatch_all_def by blast
    moreover have "acknowledged_step ?subject s2 s'" using 2(3) acknowledged.keepsD [OF b] acknowledged.R_refl by blast
    ultimately show ?thesis using s1 acknowledged.R_trans by blast
  qed
qed

section \<open>Properties\<close>


definition sample_outbox_dispatcher :: OutboxDispatcher where
  "sample_outbox_dispatcher = \<lparr>ox_publisher = publisher_new, ox_config = outbox_config_new ''api''\<rparr>"

definition sample_row :: OutboxRow where
  "sample_row = \<lparr>ob_id = 1, ob_event_key = ''job_1'', ob_subject = ''jobs.queued'',
     ob_payload = QueuedPayload \<lparr>jq_job_id = ''job_1'', jq_project_id = ''proj_1'', jq_runtime_profile_id = ''rtp_r'',
       jq_min_isolation = SharedKernelPrivileged, jq_timeout_seconds = 60\<rparr>, ob_trace_headers = [], ob_available_at = 10,
     ob_attempts = 0, ob_locked_by = None, ob_locked_at = None, ob_published_at = None, ob_last_error = None, ob_created_at = 10\<rparr>"

definition outbox_of :: "OutboxRow list \<Rightarrow> db" where
  "outbox_of rows = sample_db\<lparr>db_outbox := rows\<rparr>"

definition leased_row :: OutboxRow where
  "leased_row = sample_row\<lparr>ob_attempts := 1, ob_locked_by := Some ''api'', ob_locked_at := Some 20\<rparr>"

definition published_row :: OutboxRow where
  "published_row = sample_row\<lparr>ob_attempts := 1, ob_published_at := Some 20\<rparr>"

lemma sample_leased:
  "lease_outbox_messages_for_subject (clock_at 20) ''api'' JOBS_QUEUED 90000000 50 (outbox_of [sample_row])
     = (Inr [leased_row], outbox_of [leased_row])"
  by code_simp

lemma sample_marked: "mark_outbox_published (clock_at 20) 1 ''api'' (outbox_of [leased_row]) = (Inr published_row, outbox_of [published_row])"
  by code_simp

definition sample_dispatched :: Api where
  "sample_dispatched = \<lparr>ap_db = outbox_of [published_row], ap_calls = 5,
     ap_log = [QueuePublished ''jobs.queued'' [(''Nats-Msg-Id'', ''job_1'')] (the (decode_job_queued (ob_payload sample_row))),
       QueueAcknowledged ''jobs.queued'' ''job_1'']\<rparr>"

lemma sample_dispatch:
  "dispatch_once sample_api_world sample_outbox_dispatcher (sample_api (outbox_of [sample_row]))
     = Some (Inr \<lparr>bx_leased = 1, bx_published = 1, bx_retried = 0\<rparr>, sample_dispatched)"
proof -
  have q: "validate_publish_subject ''jobs.queued'' = Inr ()" "validate_message_id ''job_1'' = Inr ()"
    "build_headers sample_api_world ''job_1'' [] = Inr [(''Nats-Msg-Id'', ''job_1'')]"
    by code_simp+
  have p: "publish_outbox_message sample_api_world sample_outbox_dispatcher leased_row s =
      Some (Inr (), s\<lparr>ap_calls := ap_calls s + 2, ap_log := ap_log s @ ap_log sample_dispatched\<rparr>)" for s
    by (simp add: publish_outbox_message_def publish_job_queued_def sample_outbox_dispatcher_def publisher_new_def leased_row_def
        sample_row_def JOBS_QUEUED_def q run_action sample_timed sample_fields sample_dispatched_def)
  have c: "ox_config sample_outbox_dispatcher = outbox_config_new ''api''" by (simp add: sample_outbox_dispatcher_def)
  have d: "dispatch_message sample_api_world sample_outbox_dispatcher leased_row s =
      Some (Inr DispatchPublished, s\<lparr>ap_db := outbox_of [published_row], ap_calls := ap_calls s + 3,
        ap_log := ap_log s @ ap_log sample_dispatched\<rparr>)" if "ap_db s = outbox_of [leased_row]" for s
  proof -
    have i: "ob_id leased_row = 1" by (simp add: leased_row_def sample_row_def)
    show ?thesis
      using that sample_marked by (simp add: dispatch_message_def p run_action sample_calls c outbox_config_new_def i)
  qed
  have b: "refresh_backlog sample_api_world s = Some (Inr (pending_outbox_count (ap_db s)), s\<lparr>ap_calls := Suc (ap_calls s)\<rparr>)" for s
    by (simp add: refresh_backlog_def run_action sample_calls)
  show ?thesis
    using sample_leased
    by (simp add: dispatch_once_def dispatch_all_def run_action sample_calls c outbox_config_new_def d b batch_result_def Let_def
        sample_api_def) (simp add: sample_dispatched_def)
qed


lemma clamped:
  fixes a x b l :: int
  assumes "a \<le> x" and "x \<le> b" and "a \<le> l" and "1 \<le> l"
  shows "1 \<le> max (min x l) 1 \<and> max (min x l) 1 \<le> l \<and> a \<le> max (min x l) 1 \<and> max (min x l) 1 \<le> max b 1"
  using assms by auto

text \<open>
  The retry delay is bounded: for any attempt and any message it is between 75 and 125 percent of
  the exponential delay, which doubles with each attempt from the base, at least one millisecond, and
  never above the configured maximum; no step of the computation overflows, for any maximum of less
  than 2^64 milliseconds.
\<close>

theorem backoff_bounds:
  assumes "1 \<le> as_millis limit" and "as_millis limit < 2 ^ 64" and "0 \<le> base"
  shows "1000 \<le> backoff_for attempt i base limit \<and> backoff_for attempt i base limit \<le> limit
    \<and> 1000 * (exponential_ms attempt base limit * 75 div 100) \<le> backoff_for attempt i base limit
    \<and> backoff_for attempt i base limit \<le> 1000 * max (exponential_ms attempt base limit * 125 div 100) 1"
proof -
  let ?e = "exponential_ms attempt base limit" and ?j = "jitter_percent attempt i" and ?l = "as_millis limit"
  define v where "v = max (min (?e * ?j div 100) ?l) 1"
  have l: "0 \<le> limit" "1000 * ?l \<le> limit" using assms(1) by (simp_all add: as_millis_def)
  have b: "backoff_for attempt i base limit = 1000 * v" unfolding v_def using backoff_ms [OF assms(2,3) l(1)] .
  have e: "0 \<le> ?e" "?e \<le> ?l"
    using assms(1,3) by (simp_all add: exponential_ms_def as_millis_def pos_imp_zdiv_nonneg_iff)
  have "?e * 75 \<le> ?e * ?j" "?e * ?j \<le> ?e * 125" using jitter_range [of attempt i] e by (intro mult_left_mono; simp)+
  then have j: "?e * 75 div 100 \<le> ?e * ?j div 100" "?e * ?j div 100 \<le> ?e * 125 div 100" by (intro zdiv_mono1; simp)+
  have "?e * 75 div 100 \<le> ?l" using e by linarith
  then have "1 \<le> v" "v \<le> ?l" "?e * 75 div 100 \<le> v" "v \<le> max (?e * 125 div 100) 1"
    using clamped [OF j _ assms(1)] unfolding v_def by blast+
  then show ?thesis unfolding b using l by linarith
qed

theorem backoff_bounds_witness:
  "1000 \<le> backoff_for 4 7 250000 60000000 \<and> backoff_for 4 7 250000 60000000 \<le> 60000000"
  using backoff_bounds [of 60000000 250000 4 7] by (simp add: as_millis_def)

text \<open>A stored error has at most 1024 bytes and ends at the last character boundary that fits.\<close>

theorem truncate_error_fits:
  "length (truncate_error e) \<le> 1024 \<and> truncate_error e = take (length (truncate_error e)) e
   \<and> is_char_boundary e (length (truncate_error e))
   \<and> (\<forall>i. is_char_boundary e i \<and> i \<le> min (length e) 1024 \<longrightarrow> i \<le> length (truncate_error e))"
proof (cases "length e \<le> 1024")
  case True
  then show ?thesis by (simp add: truncate_error_def is_char_boundary_def)
next
  case False
  then have "length (truncate_error e) = floor_boundary e 1024"
    using floor_boundary(1) [of e 1024] by (simp add: truncate_error_def)
  then show ?thesis
    using False floor_boundary [of e 1024] floor_boundary_greatest [of e _ 1024] by (simp add: truncate_error_def)
qed

end
