(* ===== verification/Api_Webhook_Outbox.thy ===== *)
theory Api_Webhook_Outbox
  imports Api_Auth Api_Webhook_Safety Api_Queue_Safety
begin

text \<open>
  The webhook dispatcher of \<open>crates/api/src/webhooks.rs\<close>: it leases the state-event messages of the
  outbox, checks each against its registration, delivers it and settles the message.  The texts of the
  errors of the database driver and of row decoding are an argument.  The source processes a batch
  concurrently; the model takes its messages one after the other.  The theorem says what a delivery
  requires of the message and of the registration.
\<close>

section \<open>Errors\<close>

datatype WebhookOutboxError = InvalidMessage | WebhookRepository RepositoryError | WebhookDeliveryFailed WebhookValidationError

fun repository_error_text :: "(RepositoryError \<Rightarrow> string) \<Rightarrow> RepositoryError \<Rightarrow> string" where
  "repository_error_text library (Validation message) = ''validation failed: '' @ message"
| "repository_error_text library (NotFound entity i) = entity @ '' `'' @ i @ ''` was not found''"
| "repository_error_text library (Conflict message) = ''conflict: '' @ message"
| "repository_error_text library (QuotaExceededError project quota current limit) =
     ''project `'' @ project @ ''` reached its '' @ field_name quota @ '' quota ('' @ show_nat (unat current) @ ''/''
       @ show_nat (unat limit) @ '')''"
| "repository_error_text library (InvalidTransition e) = transition_message e"
| "repository_error_text library (CompareAndSwapLost entity i) =
     ''compare-and-swap lost while updating '' @ entity @ '' `'' @ i @ ''`''"
| "repository_error_text library (Decode field) = library (Decode field)"
| "repository_error_text library (Sqlx code) = library (Sqlx code)"

fun webhook_outbox_text :: "(RepositoryError \<Rightarrow> string) \<Rightarrow> WebhookOutboxError \<Rightarrow> string" where
  "webhook_outbox_text library InvalidMessage = ''invalid webhook outbox message''"
| "webhook_outbox_text library (WebhookRepository e) = repository_error_text library e"
| "webhook_outbox_text library (WebhookDeliveryFailed e) = webhook_error_message e"

section \<open>One message\<close>

definition WEBHOOK_OUTBOX_SUBJECT :: string where "WEBHOOK_OUTBOX_SUBJECT = ''webhooks.job_state_changed''"
definition WEBHOOK_BATCH_SIZE :: u32 where "WEBHOOK_BATCH_SIZE = 50"
definition WEBHOOK_LEASE_TIMEOUT :: duration where "WEBHOOK_LEASE_TIMEOUT = 90000000"
definition WEBHOOK_RETRY_DELAY :: duration where "WEBHOOK_RETRY_DELAY = 5000000"

record WebhookOutboxPayload =
  wo_webhook_id :: WebhookId
  wo_url :: string
  wo_event :: JobEvent

fun decode_webhook_payload :: "OutboxPayload \<Rightarrow> WebhookOutboxPayload option" where
  "decode_webhook_payload (WebhookPayload webhook url event) = Some \<lparr>wo_webhook_id = webhook, wo_url = url, wo_event = event\<rparr>"
| "decode_webhook_payload (QueuedPayload q) = None"
| "decode_webhook_payload (DeadLetterPayload d) = None"

definition dispatch_webhook_message ::
  "ApiWorld \<Rightarrow> WebhookDispatcher \<Rightarrow> OutboxRow \<Rightarrow> (WebhookOutboxError, unit) api" where
  "dispatch_webhook_message world dispatcher message =
     (if ob_subject message \<noteq> WEBHOOK_OUTBOX_SUBJECT then fail_with InvalidMessage
      else and_then (answered (ok_or (decode_webhook_payload (ob_payload message)) InvalidMessage)) (\<lambda>payload.
        if ob_event_key message \<noteq> webhook_key (ev_id (wo_event payload)) (wo_webhook_id payload)
           \<or> ev_state (wo_event payload) = None
        then fail_with InvalidMessage
        else and_then (map_failure WebhookRepository (api_query world (get_webhook (wo_webhook_id payload)))) (\<lambda>found.
          case found of
            None \<Rightarrow> succeed ()
          | Some webhook \<Rightarrow>
              if \<not> hook_active webhook then succeed ()
              else if hook_url webhook \<noteq> wo_url payload then fail_with InvalidMessage
              else map_failure WebhookDeliveryFailed (deliver world dispatcher
                \<lparr>wd_delivery_id = ob_event_key message, wd_url = wo_url payload, wd_event = wo_event payload\<rparr>))))"

definition webhook_retry_at :: "ApiWorld \<Rightarrow> instant \<Rightarrow> instant" where
  "webhook_retry_at world now =
     (case aw_checked_add world now WEBHOOK_RETRY_DELAY of Some t \<Rightarrow> t | None \<Rightarrow> now)"

text \<open>A settlement that fails is logged and counted only.\<close>

definition process_webhook_message ::
  "ApiWorld \<Rightarrow> (RepositoryError \<Rightarrow> string) \<Rightarrow> WebhookDispatcher \<Rightarrow> string \<Rightarrow> OutboxRow \<Rightarrow> ('e, unit) api" where
  "process_webhook_message world library dispatcher dispatcher_id message =
     and_then (outcome_of (dispatch_webhook_message world dispatcher message)) (\<lambda>result.
       case result of
         Inr _ \<Rightarrow>
           and_then (outcome_of (api_call world (\<lambda>t _ _. mark_outbox_published t (ob_id message) dispatcher_id))) (\<lambda>_. succeed ())
       | Inl e \<Rightarrow>
           and_then (api_now world) (\<lambda>now.
           and_then (outcome_of (api_call world (\<lambda>t _ _. retry_outbox_message t (ob_id message) dispatcher_id
             (webhook_retry_at world now) (truncate_error (webhook_outbox_text library e))))) (\<lambda>_. succeed ())))"

section \<open>The loop\<close>

text \<open>One turn; its value says whether the batch was full, so that the next turn follows at once.\<close>

definition webhook_turn ::
  "ApiWorld \<Rightarrow> (RepositoryError \<Rightarrow> string) \<Rightarrow> WebhookDispatcher \<Rightarrow> string \<Rightarrow> ('e, bool) api" where
  "webhook_turn world library dispatcher dispatcher_id =
     and_then (outcome_of (api_call world (\<lambda>t _ _. lease_outbox_messages_for_subject t dispatcher_id WEBHOOK_OUTBOX_SUBJECT
         WEBHOOK_LEASE_TIMEOUT WEBHOOK_BATCH_SIZE))) (\<lambda>leased.
       case leased of
         Inl _ \<Rightarrow> succeed False
       | Inr messages \<Rightarrow>
           and_then (for_each (\<lambda>message _. process_webhook_message world library dispatcher dispatcher_id message) messages ())
             (\<lambda>_. succeed (length messages = unat WEBHOOK_BATCH_SIZE)))"

partial_function (option) run_webhook_dispatcher ::
  "ApiWorld \<Rightarrow> (RepositoryError \<Rightarrow> string) \<Rightarrow> WebhookDispatcher \<Rightarrow> string \<Rightarrow> Api \<Rightarrow> Api option" where
  "run_webhook_dispatcher world library dispatcher dispatcher_id s =
     (if aw_shutdown world (ap_calls s) then Some s
      else Option.bind ((webhook_turn world library dispatcher dispatcher_id :: (unit, bool) api) s) (\<lambda>(full_batch, s1).
        if full_batch = Inr True then run_webhook_dispatcher world library dispatcher dispatcher_id s1
        else Option.bind ((api_await world (aw_shutdown world) :: (unit, bool) api) s1) (\<lambda>(stop, s2).
          if stop = Inr True then Some s2 else run_webhook_dispatcher world library dispatcher dispatcher_id s2)))"

section \<open>What is sent\<close>

lemma webhook_found:
  assumes "get_webhook w d = Inr (Some hook)"
  shows "\<exists>row \<in> set (db_webhooks d). wh_id row = w \<and> wh_active row = hook_active hook \<and> wh_url row = hook_url hook"
  using assms
  by (auto simp: get_webhook_def transpose_row_def webhook_of_row_def result_inv Uri_new_def validated_string_def
      dest!: select_one_SomeD split: option.splits if_splits)

lemma process_log:
  assumes "process_webhook_message world library dispatcher dispatcher_id message s = Some (r, s')"
  shows "\<exists>q s1. dispatch_webhook_message world dispatcher message s = Some (q, s1) \<and> ap_log s' = ap_log s1"
proof -
  obtain q s1 where q: "dispatch_webhook_message world dispatcher message s = Some (q, s1)"
    using assms by (auto simp: process_webhook_message_def and_then_cases outcome_cases)
  have "ap_log s' = ap_log s1"
    using assms by (cases q) (auto simp: process_webhook_message_def and_then_cases outcome_cases q api_call_def api_now_def Let_def)
  then show ?thesis using q by blast
qed

text \<open>
  C20. Processing a webhook message sends at most one request.  If it sends one, the message is a
  well-formed state-event message of the webhook subject under its own key, the database it just read
  has an active registration with that identifier and exactly the URL of the message, the request
  carries the event of the message under the message's key as delivery identifier, and it goes to the
  addresses of that URL that the policy admits: none private, none reserved, whatever DNS answers.
\<close>

theorem webhook_sent_only_to_its_registration:
  assumes "process_webhook_message world library dispatcher dispatcher_id message s = Some (r, s')"
    and "ap_log s' \<noteq> ap_log s"
  shows "\<exists>webhook link event addresses url.
     ap_log s' = ap_log s @ [WebhookSent addresses url [(''x-run-anywhere-event'', ''job_state_changed''),
       (''x-run-anywhere-delivery'', ob_event_key message)] event]
     \<and> ob_subject message = WEBHOOK_OUTBOX_SUBJECT \<and> ob_payload message = WebhookPayload webhook link event
     \<and> ob_event_key message = webhook_key (ev_id event) webhook \<and> ev_state event \<noteq> None
     \<and> (\<exists>row \<in> set (db_webhooks (ac_others (aw_call world (ap_calls s)) (ap_db s))).
          wh_id row = webhook \<and> wh_active row \<and> wh_url row = link)
     \<and> aw_url world link = Some url
     \<and> addresses \<noteq> [] \<and> list_all (\<lambda>address. outside_blocks (wx_policy dispatcher) (sa_ip address)) addresses"
proof -
  let ?d = "ac_others (aw_call world (ap_calls s)) (ap_db s)"
  obtain q s1 where d: "dispatch_webhook_message world dispatcher message s = Some (q, s1)" "ap_log s1 \<noteq> ap_log s" "ap_log s' = ap_log s1"
    using process_log [OF assms(1)] assms(2) by metis
  obtain payload where p: "ob_subject message = WEBHOOK_OUTBOX_SUBJECT" "decode_webhook_payload (ob_payload message) = Some payload"
      "ob_event_key message = webhook_key (ev_id (wo_event payload)) (wo_webhook_id payload)" "ev_state (wo_event payload) \<noteq> None"
    using d by (auto simp: dispatch_webhook_message_def and_then_cases ok_or_def split: if_splits option.splits)
  then obtain webhook link event where m: "ob_payload message = WebhookPayload webhook link event"
      "payload = \<lparr>wo_webhook_id = webhook, wo_url = link, wo_event = event\<rparr>"
    by (cases "ob_payload message") auto
  let ?delivery = "\<lparr>wd_delivery_id = ob_event_key message, wd_url = link, wd_event = event\<rparr>"
  define s2 where "s2 = s\<lparr>ap_db := ?d, ap_calls := Suc (ap_calls s)\<rparr>"
  have body: "dispatch_webhook_message world dispatcher message s = (case get_webhook webhook ?d of
      Inl e \<Rightarrow> Some (Inl (WebhookRepository e), s2)
    | Inr None \<Rightarrow> Some (Inr (), s2)
    | Inr (Some hook) \<Rightarrow> if \<not> hook_active hook then Some (Inr (), s2)
        else if hook_url hook \<noteq> link then Some (Inl InvalidMessage, s2)
        else map_failure WebhookDeliveryFailed (deliver world dispatcher ?delivery) s2)"
  proof -
    obtain current where "ev_state event = Some current" using p(4) m(2) by auto
    then show ?thesis
      using p(1,3) m by (cases "get_webhook webhook ?d") (simp_all add: dispatch_webhook_message_def run_action api_query_def
          api_call_def Let_def s2_def ok_or_def split: option.split)
  qed
  have l2: "ap_log s2 = ap_log s" by (simp add: s2_def)
  have "\<exists>hook q2. get_webhook webhook ?d = Inr (Some hook) \<and> hook_active hook \<and> hook_url hook = link
      \<and> deliver world dispatcher ?delivery s2 = Some (q2, s1)"
    using d(1,2) l2 unfolding body by (auto simp: map_failure_iff split: sum.splits option.splits if_splits)
  then obtain hook q2 where h: "get_webhook webhook ?d = Inr (Some hook)" "hook_active hook" "hook_url hook = link"
      "deliver world dispatcher ?delivery s2 = Some (q2, s1)" "ap_log s2 = ap_log s"
    using l2 by blast
  obtain target s3 s4 where t: "resolve_webhook_target world link (wx_policy dispatcher) s3 = Some (Inr target, s4)"
      "ap_log s1 = ap_log s2 @ [WebhookSent (wt_addresses target) (wt_url target) (delivery_headers ?delivery) event]"
    using deliver_log [OF h(4)] d(2) h(5) by auto
  have "\<exists>row \<in> set (db_webhooks ?d). wh_id row = webhook \<and> wh_active row \<and> wh_url row = link"
    using webhook_found [OF h(1)] h(2,3) by auto
  moreover note resolved_target [OF t(1)]
  moreover have "ap_log s' = ap_log s @ [WebhookSent (wt_addresses target) (wt_url target) [(''x-run-anywhere-event'', ''job_state_changed''),
      (''x-run-anywhere-delivery'', ob_event_key message)] event]"
    using t(2) d(3) h(5) by (simp add: delivery_headers_def)
  ultimately show ?thesis using p(1,3,4) m by (auto simp: list_all_iff)
qed

definition webhook_row :: OutboxRow where
  "webhook_row = sample_row\<lparr>ob_event_key := ''webhook:evt_1:wh_1'', ob_subject := ''webhooks.job_state_changed'',
     ob_payload := WebhookPayload ''wh_1'' ''https:x'' sample_event\<rparr>"

theorem webhook_sent_only_to_its_registration_witness:
  "\<exists>r s'. process_webhook_message sample_api_world (\<lambda>_. []) sample_dispatcher ''api'' webhook_row (sample_api sample_db) = Some (r :: unit + unit, s')
     \<and> (\<exists>addresses url. addresses \<noteq> [] \<and> ap_log s' = [WebhookSent addresses url [(''x-run-anywhere-event'', ''job_state_changed''),
       (''x-run-anywhere-delivery'', ''webhook:evt_1:wh_1'')] sample_event])"
proof -
  let ?s = "sample_api sample_db"
  have g: "get_webhook ''wh_1'' sample_db = Inr (Some \<lparr>hook_id = ''wh_1'', hook_project_id = ''proj_1'', hook_url = ''https:x'',
      hook_events = [JobStateChanged], hook_active = True, hook_created_at = 0\<rparr>)"
    by code_simp
  have k: "webhook_key ''evt_1'' ''wh_1'' = ''webhook:evt_1:wh_1''" by (simp add: webhook_key_def)
  have e: "ev_id sample_event = ''evt_1''" "ev_state sample_event = Some Queued" by (simp_all add: sample_event_def)
  have l: "\<lparr>wd_delivery_id = ''webhook:evt_1:wh_1'', wd_url = ''https:x'', wd_event = sample_event\<rparr> = sample_delivery"
    by (simp add: sample_delivery_def)
  have "\<exists>s1. dispatch_webhook_message sample_api_world sample_dispatcher webhook_row ?s = Some (Inr (), s1) \<and> ap_log s1 \<noteq> []"
    using g k by (simp add: dispatch_webhook_message_def webhook_row_def WEBHOOK_OUTBOX_SUBJECT_def ok_or_def run_action sample_calls
        e) (simp add: sample_api_def run_action l sample_delivers)
  then obtain s' where s': "process_webhook_message sample_api_world (\<lambda>_. []) sample_dispatcher ''api'' webhook_row ?s = Some (Inr () :: unit + unit, s')"
      "ap_log s' \<noteq> ap_log ?s"
    by (auto simp: process_webhook_message_def run_action sample_calls sample_api_def)
  show ?thesis
    using webhook_sent_only_to_its_registration [OF s'] s'(1) by (auto simp: webhook_row_def sample_api_def)
qed

end
