(* ===== verification/Api_Objects.thy ===== *)
theory Api_Objects
  imports Api_Auth
begin

text \<open>
  The object store of the API and the debug-token issuer: \<open>object_store.rs\<close>, \<open>debug_token.rs\<close> and
  \<open>service_error.rs\<close> of \<open>crates/api/src\<close>.  The S3 client, base64 and the signature of a token are
  arguments; the bucket, checks, headers and claims are the code's.  A \<open>HEAD\<close> and a presigned request
  are awaited calls of the world.
\<close>

section \<open>Errors\<close>

datatype ObjectStoreError =
    InvalidBucket | InvalidObjectKey | InvalidContentType | InvalidPresignTtl | ObjectTooLarge | Presign string
  | InvalidPresignedUrl | ObjectNotFound | Head string | MissingContentLength | SizeMismatch u64 u64 | MissingChecksum
  | ChecksumMismatch

fun object_error_message :: "ObjectStoreError \<Rightarrow> string" where
  "object_error_message InvalidBucket = ''object-store bucket must not be blank''"
| "object_error_message InvalidObjectKey = ''object key must not be blank or contain control characters''"
| "object_error_message InvalidContentType = ''content type must not be blank or contain control characters''"
| "object_error_message InvalidPresignTtl = ''presigned URL TTL must be between one second and seven days''"
| "object_error_message ObjectTooLarge = ''object size exceeds S3's signed content-length representation''"
| "object_error_message (Presign e) = ''failed to create an S3 presigned request: '' @ e"
| "object_error_message InvalidPresignedUrl = ''S3 returned a malformed presigned URL''"
| "object_error_message ObjectNotFound = ''object does not exist''"
| "object_error_message (Head e) = ''failed to inspect the object: '' @ e"
| "object_error_message MissingContentLength = ''object HEAD response omitted content length''"
| "object_error_message (SizeMismatch expected actual) =
     ''object size mismatch: expected '' @ show_nat (unat expected) @ '' bytes, received '' @ show_nat (unat actual) @ '' bytes''"
| "object_error_message MissingChecksum = ''object HEAD response omitted the SHA-256 checksum''"
| "object_error_message ChecksumMismatch = ''object SHA-256 checksum does not match the registered upload''"

fun is_upload_validation_failure :: "ObjectStoreError \<Rightarrow> bool" where
  "is_upload_validation_failure ObjectNotFound = True"
| "is_upload_validation_failure MissingContentLength = True"
| "is_upload_validation_failure (SizeMismatch _ _) = True"
| "is_upload_validation_failure MissingChecksum = True"
| "is_upload_validation_failure ChecksumMismatch = True"
| "is_upload_validation_failure _ = False"

text \<open>\<open>service_error.rs\<close>: what a client sees of an adapter's failure.\<close>

definition object_store_error :: "ObjectStoreError \<Rightarrow> ApiError" where
  "object_store_error e =
     (if is_upload_validation_failure e \<or> e = InvalidContentType \<or> e = ObjectTooLarge
      then err_validation (object_error_message e)
      else case e of Presign _ \<Rightarrow> err_infra_failed | Head _ \<Rightarrow> err_infra_failed | _ \<Rightarrow> err_internal)"

section \<open>Object store\<close>

definition MAX_PRESIGN_TTL :: duration where "MAX_PRESIGN_TTL = 7 * 24 * 60 * 60 * 1000000"

record S3ObjectStore =
  os_bucket :: string
  os_put_ttl :: duration
  os_get_ttl :: duration

definition validate_ttl :: "duration \<Rightarrow> ObjectStoreError + unit" where
  "validate_ttl ttl = ensure (\<not> (ttl = 0 \<or> MAX_PRESIGN_TTL < ttl)) InvalidPresignTtl"

definition object_store_new :: "string \<Rightarrow> duration \<Rightarrow> duration \<Rightarrow> ObjectStoreError + S3ObjectStore" where
  "object_store_new bucket put_ttl get_ttl =
     bind_result (ensure (\<not> is_blank bucket) InvalidBucket) (\<lambda>_.
     bind_result (validate_ttl put_ttl) (\<lambda>_.
     bind_result (validate_ttl get_ttl) (\<lambda>_.
       Inr \<lparr>os_bucket = bucket, os_put_ttl = put_ttl, os_get_ttl = get_ttl\<rparr>)))"

definition validate_key :: "string \<Rightarrow> ObjectStoreError + unit" where
  "validate_key key = ensure (\<not> (is_blank key \<or> list_ex is_ascii_control key)) InvalidObjectKey"

definition validate_content_type :: "string \<Rightarrow> ObjectStoreError + unit" where
  "validate_content_type content_type =
     ensure (\<not> (is_blank content_type \<or> list_ex is_ascii_control content_type)) InvalidContentType"

definition hex_nibble :: "char \<Rightarrow> nat" where
  "hex_nibble b =
     (let c = ascii_code b in if 48 \<le> c \<and> c \<le> 57 then c - 48 else if 97 \<le> c \<and> c \<le> 102 then c - 97 + 10 else 0)"

text \<open>The pairs of a digest as bytes; a \<open>Sha256\<close> has 64 characters, so they fill the 32 bytes.\<close>

fun hex_pairs :: "string \<Rightarrow> string" where
  "hex_pairs (a # b # rest) = char_of (hex_nibble a * 16 + hex_nibble b) # hex_pairs rest"
| "hex_pairs _ = []"

definition checksum_base64 :: "ApiWorld \<Rightarrow> string \<Rightarrow> string" where
  "checksum_base64 world sha256 = aw_base64 world (hex_pairs sha256)"

definition presign_expiry :: "ApiWorld \<Rightarrow> instant \<Rightarrow> duration \<Rightarrow> ObjectStoreError + instant" where
  "presign_expiry world now ttl =
     bind_result (ok_or (aw_from_std world ttl) InvalidPresignTtl) (\<lambda>ttl.
       ok_or (aw_checked_add world now ttl) InvalidPresignTtl)"

record PresignedUpload =
  pu_url :: string
  pu_required_headers :: "(string, string) btree"
  pu_expires_at :: instant

record PresignedDownload =
  pd_url :: string
  pd_expires_at :: instant

definition presign_upload ::
  "ApiWorld \<Rightarrow> S3ObjectStore \<Rightarrow> string \<Rightarrow> string \<Rightarrow> u64 \<Rightarrow> string \<Rightarrow> (ObjectStoreError, PresignedUpload) api" where
  "presign_upload world self key content_type size_bytes sha256 =
     and_then (answered (validate_key key)) (\<lambda>_.
     and_then (answered (validate_content_type content_type)) (\<lambda>_.
     and_then (answered (if uint size_bytes < 2 ^ 63 then Inr (uint size_bytes) else Inl ObjectTooLarge)) (\<lambda>content_length.
       let checksum = checksum_base64 world sha256
       in and_then (answered (map_err Presign (aw_presign_config world (os_put_ttl self)))) (\<lambda>_.
          and_then (api_await world (aw_presigned world)) (\<lambda>signed.
          and_then (answered (map_err Presign signed)) (\<lambda>uri.
          and_then (api_effect (PresignedPut (os_bucket self) key content_type content_length checksum)) (\<lambda>_.
          and_then (answered (map_err (\<lambda>_. InvalidPresignedUrl) (Uri_new uri))) (\<lambda>url.
          and_then (api_now world) (\<lambda>now.
          and_then (answered (presign_expiry world now (os_put_ttl self))) (\<lambda>expires_at.
            succeed \<lparr>pu_url = url,
              pu_required_headers = bt_put ''x-amz-checksum-sha256'' checksum (bt_put ''Content-Type'' content_type []),
              pu_expires_at = expires_at\<rparr>))))))))))"

definition presign_download :: "ApiWorld \<Rightarrow> S3ObjectStore \<Rightarrow> string \<Rightarrow> (ObjectStoreError, PresignedDownload) api" where
  "presign_download world self key =
     and_then (answered (validate_key key)) (\<lambda>_.
     and_then (answered (map_err Presign (aw_presign_config world (os_get_ttl self)))) (\<lambda>_.
     and_then (api_await world (aw_presigned world)) (\<lambda>signed.
     and_then (answered (map_err Presign signed)) (\<lambda>uri.
     and_then (api_effect (PresignedGet (os_bucket self) key)) (\<lambda>_.
     and_then (answered (map_err (\<lambda>_. InvalidPresignedUrl) (Uri_new uri))) (\<lambda>url.
     and_then (api_now world) (\<lambda>now.
     and_then (answered (presign_expiry world now (os_get_ttl self))) (\<lambda>expires_at.
       succeed \<lparr>pd_url = url, pd_expires_at = expires_at\<rparr>))))))))"

definition check_head :: "ApiWorld \<Rightarrow> u64 \<Rightarrow> string \<Rightarrow> HeadAnswer \<Rightarrow> ObjectStoreError + unit" where
  "check_head world expected_size expected_sha256 answer =
     (case answer of
        HeadNotFound \<Rightarrow> Inl ObjectNotFound
      | HeadFailed e \<Rightarrow> Inl (Head e)
      | HeadFound content_length checksum \<Rightarrow>
          bind_result (ok_or content_length MissingContentLength) (\<lambda>v.
          bind_result (if 0 \<le> v \<and> v < 2 ^ 64 then Inr (word_of_int v) else Inl MissingContentLength) (\<lambda>actual_size.
          bind_result (ensure (actual_size = expected_size) (SizeMismatch expected_size actual_size)) (\<lambda>_.
          bind_result (ok_or checksum MissingChecksum) (\<lambda>actual_checksum.
            ensure (actual_checksum = checksum_base64 world expected_sha256) ChecksumMismatch)))))"

definition verify_upload :: "ApiWorld \<Rightarrow> string \<Rightarrow> u64 \<Rightarrow> string \<Rightarrow> (ObjectStoreError, unit) api" where
  "verify_upload world key expected_size expected_sha256 =
     and_then (answered (validate_key key)) (\<lambda>_.
     and_then (api_await world (aw_head world)) (\<lambda>answer.
       answered (check_head world expected_size expected_sha256 answer)))"

fun kind_segment :: "UploadKind \<Rightarrow> string" where
  "kind_segment Apk = ''apk''"
| "kind_segment Test = ''test''"
| "kind_segment Script = ''script''"

definition new_upload_object_key :: "ProjectId \<Rightarrow> UploadKind \<Rightarrow> string \<Rightarrow> string" where
  "new_upload_object_key project kind uuid =
     ''projects/'' @ project @ ''/uploads/'' @ kind_segment kind @ ''/'' @ uuid"

section \<open>Debug tokens\<close>

record DebugTokenClaims =
  dc_aud :: string
  dc_jti :: string
  dc_mode :: DebugSessionMode
  dc_exp :: int

datatype DebugTokenError = InvalidKeyId | InvalidJti | InvalidExpiry | InvalidSigningKey string | Signing string

record DebugTokenIssuer =
  di_kid :: string
  di_sign :: "string \<Rightarrow> DebugTokenClaims \<Rightarrow> string + string"

definition validate_kid :: "string \<Rightarrow> DebugTokenError + unit" where
  "validate_kid kid = ensure (\<not> (is_blank kid \<or> list_ex is_ascii_control kid)) InvalidKeyId"

definition validate_jti :: "string \<Rightarrow> DebugTokenError + unit" where
  "validate_jti jti = ensure (\<not> (is_blank jti \<or> list_ex is_ascii_control jti)) InvalidJti"

definition encode_claims :: "DebugTokenIssuer \<Rightarrow> DebugTokenClaims \<Rightarrow> string + string" where
  "encode_claims self claims = di_sign self (di_kid self) claims"

text \<open>\<open>from_pem\<close> parses the key into the function that signs a header with the key identifier.\<close>

definition from_ed25519_pkcs8_pem ::
  "(string \<Rightarrow> string + (string \<Rightarrow> DebugTokenClaims \<Rightarrow> string + string)) \<Rightarrow> string \<Rightarrow> string \<Rightarrow> DebugTokenError + DebugTokenIssuer" where
  "from_ed25519_pkcs8_pem from_pem pem kid =
     bind_result (validate_kid kid) (\<lambda>_.
     bind_result (map_err InvalidSigningKey (from_pem pem)) (\<lambda>sign.
       let issuer = \<lparr>di_kid = kid, di_sign = sign\<rparr>;
           probe = \<lparr>dc_aud = ''startup-validation'', dc_jti = ''startup-validation'', dc_mode = Viewer, dc_exp = 1\<rparr>
       in bind_result (map_err InvalidSigningKey (encode_claims issuer probe)) (\<lambda>_. Inr issuer)))"

definition timestamp :: "instant \<Rightarrow> int" where
  "timestamp t = t div 1000000"

definition mint_at ::
  "DebugTokenIssuer \<Rightarrow> JobId \<Rightarrow> DebugSessionId \<Rightarrow> string \<Rightarrow> DebugSessionMode \<Rightarrow> instant \<Rightarrow> instant \<Rightarrow> DebugTokenError + string" where
  "mint_at self job session jti mode expires_at now =
     bind_result (validate_jti jti) (\<lambda>_.
     bind_result (ensure (now < expires_at) InvalidExpiry) (\<lambda>_.
       map_err Signing (encode_claims self
         \<lparr>dc_aud = job @ '':'' @ session, dc_jti = jti, dc_mode = mode, dc_exp = timestamp expires_at\<rparr>)))"

definition mint ::
  "ApiWorld \<Rightarrow> DebugTokenIssuer \<Rightarrow> JobId \<Rightarrow> DebugSessionId \<Rightarrow> string \<Rightarrow> DebugSessionMode \<Rightarrow> instant \<Rightarrow> (DebugTokenError, string) api" where
  "mint world self job session jti mode expires_at =
     and_then (api_now world) (\<lambda>now. answered (mint_at self job session jti mode expires_at now))"

definition debug_token_error :: "DebugTokenError \<Rightarrow> ApiError" where
  "debug_token_error e = err_internal"

section \<open>Digests\<close>

text \<open>A digest is determined by its bytes.\<close>

lemma ascii_code_inj: "ascii_code a = ascii_code b \<Longrightarrow> a = b"
  by (simp add: ascii_code_def)

lemma hex_nibble_inj:
  assumes "sha256_byte a" and "sha256_byte b" and "hex_nibble a = hex_nibble b"
  shows "a = b"
proof -
  have "ascii_code a = ascii_code b"
    using assms by (auto simp: sha256_byte_def is_ascii_digit_def hex_nibble_def Let_def split: if_splits)
  then show ?thesis by (rule ascii_code_inj)
qed

lemma hex_nibble_less: "hex_nibble b < 16"
  by (auto simp: hex_nibble_def Let_def)

lemma hex_pairs_inj:
  "list_all sha256_byte s \<Longrightarrow> list_all sha256_byte t \<Longrightarrow> length s = length t \<Longrightarrow> even (length s) \<Longrightarrow>
     hex_pairs s = hex_pairs t \<Longrightarrow> s = t"
proof (induction s arbitrary: t rule: hex_pairs.induct)
  case (1 a b rest)
  obtain c e u where t: "t = c # e # u" using 1(4) by (cases t rule: hex_pairs.cases) auto
  let ?n = "\<lambda>x y. hex_nibble x * 16 + hex_nibble y"
  have "(char_of (?n a b) :: char) = char_of (?n c e)" using 1(6) t by simp
  then have "?n a b mod 256 = ?n c e mod 256" by (metis of_char_of)
  moreover have "?n x y < 256" for x y using hex_nibble_less [of x] hex_nibble_less [of y] by linarith
  ultimately have n: "?n a b = ?n c e" by simp
  have "?n x y div 16 = hex_nibble x" "?n x y mod 16 = hex_nibble y" for x y using hex_nibble_less [of y] by simp_all
  then have "hex_nibble a = hex_nibble c \<and> hex_nibble b = hex_nibble e" using n by metis
  then show ?case using 1 t hex_nibble_inj by auto
qed auto

end
