(* ===== verification/Api_Handlers.thy ===== *)
theory Api_Handlers
  imports Api_Objects Api_Webhook Repo_Pages
begin

text \<open>
  The request handlers of \<open>crates/api/src\<close>: \<open>jobs.rs\<close>, \<open>projects.rs\<close>, \<open>uploads.rs\<close>, \<open>artifacts.rs\<close>,
  \<open>workers.rs\<close>, \<open>runtime_profiles.rs\<close>, \<open>debug_sessions.rs\<close> and \<open>create_webhook\<close> of \<open>webhooks.rs\<close>.  A
  handler takes the authenticated context and the decoded request and gives a status with a body, or an
  error.  \<open>new_id\<close> of the repository puts a prefix before a fresh identifier.
\<close>

record AppState =
  st_object_store :: S3ObjectStore
  st_debug_tokens :: DebugTokenIssuer
  st_webhook_dispatcher :: WebhookDispatcher
  st_cursors :: CursorCodec
  st_debug_token_ttl :: duration
  st_debug_gateway_base_url :: string

section \<open>Jobs (\<open>jobs.rs\<close>)\<close>

definition parse_idempotency_key :: "header \<Rightarrow> ApiError + string" where
  "parse_idempotency_key h =
     bind_result (header_text h (err_validation ''Idempotency-Key header is required'')
       (err_validation ''Idempotency-Key must contain visible ASCII'')) (\<lambda>v.
       if v = [] \<or> 255 < length v \<or> \<not> list_all (\<lambda>b. 0x21 \<le> ascii_code b \<and> ascii_code b \<le> 0x7e) v
       then Inl (err_validation ''Idempotency-Key must contain 1 to 255 visible ASCII characters'') else Inr v)"

definition load_owned_upload :: "ApiWorld \<Rightarrow> AuthContext \<Rightarrow> UploadId \<Rightarrow> (ApiError, StoredUpload) api" where
  "load_owned_upload world auth upload_id =
     and_then (repo (api_query world (get_upload upload_id))) (\<lambda>found.
     and_then (answered (ok_or found (err_not_found ''upload''))) (\<lambda>upload.
     and_then (answered (require_owned_resource auth (su_project_id upload) ''upload'')) (\<lambda>_. succeed upload)))"

definition require_kind :: "StoredUpload \<Rightarrow> UploadKind \<Rightarrow> ApiError + unit" where
  "require_kind upload expected =
     ensure (su_kind upload = expected)
       (err_validation (''upload '' @ su_id upload @ '' must have kind '' @ kind_segment expected))"

definition verify_owned_upload :: "ApiWorld \<Rightarrow> AuthContext \<Rightarrow> UploadId \<Rightarrow> UploadKind \<Rightarrow> (ApiError, unit) api" where
  "verify_owned_upload world auth upload_id kind =
     and_then (load_owned_upload world auth upload_id) (\<lambda>upload.
     and_then (answered (require_kind upload kind)) (\<lambda>_.
       map_failure object_store_error (verify_upload world (su_s3_key upload) (su_size_bytes upload) (su_sha256 upload))))"

definition create_job ::
  "ApiWorld \<Rightarrow> AuthContext \<Rightarrow> header \<Rightarrow> CreateJobRequest \<Rightarrow> (ApiError, u16 \<times> Job) api" where
  "create_job world auth idempotency request =
     and_then (answered (require_scope auth ProjectWrite)) (\<lambda>_.
     and_then (answered (require_project auth (cr_project_id request))) (\<lambda>_.
     and_then (answered (parse_idempotency_key idempotency)) (\<lambda>key.
     and_then (repo (api_query world (find_job_by_idempotency_key (cr_project_id request) key))) (\<lambda>found.
       case found of
         Some job \<Rightarrow> succeed (202, job)
       | None \<Rightarrow>
           if cr_test_upload_id request = Some (cr_apk_upload_id request)
           then fail_with (err_validation ''APK and test uploads must be different'')
           else and_then (verify_owned_upload world auth (cr_apk_upload_id request) Apk) (\<lambda>_.
                and_then (case cr_test_upload_id request of
                    None \<Rightarrow> succeed ()
                  | Some test_upload_id \<Rightarrow> verify_owned_upload world auth test_upload_id Test) (\<lambda>_.
                and_then (reading (\<lambda>s. aw_trace world (ap_calls s))) (\<lambda>trace.
                and_then (repo (api_call world (\<lambda>t evt new. create_job_with_outbox t (''job_'' @ new) evt request key trace)))
                  (\<lambda>created. succeed (202, created_job created)))))))))"

record ListJobsQuery =
  lj_project_id :: ProjectId
  lj_status :: "JobState option"
  lj_cursor :: "string option"

definition list_jobs_handler ::
  "ApiWorld \<Rightarrow> AppState \<Rightarrow> AuthContext \<Rightarrow> ListJobsQuery \<Rightarrow> (ApiError, JobSummary page) api" where
  "list_jobs_handler world state auth query =
     and_then (answered (require_scope auth ProjectRead)) (\<lambda>_.
     and_then (answered (require_project auth (lj_project_id query))) (\<lambda>_.
     and_then (answered (validate_cursor (lj_cursor query))) (\<lambda>_.
       repo (api_query world (list_jobs (st_cursors state)
         ((JobListQuery_new (lj_project_id query))\<lparr>lq_state := lj_status query, lq_cursor := lj_cursor query\<rparr>))))))"

text \<open>Every handler of one job starts like this: the job, if it exists in the caller's project.\<close>

definition owned_job :: "ApiWorld \<Rightarrow> AuthContext \<Rightarrow> JobId \<Rightarrow> (ApiError, Job) api" where
  "owned_job world auth job_path =
     and_then (repo (api_query world (Repo_Jobs.get_job job_path))) (\<lambda>found.
     and_then (answered (ok_or found (err_not_found ''job''))) (\<lambda>job.
     and_then (answered (require_owned_resource auth (job_project_id job) ''job'')) (\<lambda>_. succeed job)))"

definition get_job_handler :: "ApiWorld \<Rightarrow> AuthContext \<Rightarrow> JobId \<Rightarrow> (ApiError, Job) api" where
  "get_job_handler world auth job_path =
     and_then (answered (require_scope auth ProjectRead)) (\<lambda>_. owned_job world auth job_path)"

definition cancel_job :: "ApiWorld \<Rightarrow> AuthContext \<Rightarrow> JobId \<Rightarrow> (ApiError, u16 \<times> Job) api" where
  "cancel_job world auth job_path =
     and_then (answered (require_scope auth ProjectWrite)) (\<lambda>_.
     and_then (owned_job world auth job_path) (\<lambda>_.
     and_then (repo (api_call world (\<lambda>t evt _. request_job_cancellation t evt job_path))) (\<lambda>mutation.
       succeed (202, mutated_job mutation))))"

section \<open>Projects (\<open>projects.rs\<close>)\<close>

definition INITIAL_PROJECT_SCOPES :: "AuthScope list" where
  "INITIAL_PROJECT_SCOPES = [ProjectRead, ProjectWrite, DebugCreate]"

text \<open>\<open>chars().count()\<close>: the bytes that start a character.\<close>

definition chars_count :: "string \<Rightarrow> nat" where
  "chars_count s = length (filter (\<lambda>b. \<not> (128 \<le> ascii_code b \<and> ascii_code b < 192)) s)"

definition validate_name :: "string \<Rightarrow> ApiError + unit" where
  "validate_name name =
     (if is_blank name then Inl (err_validation ''project name must not be blank'')
      else if 255 < chars_count name then Inl (err_validation ''project name must contain at most 255 characters'')
      else Inr ())"

record CreateProjectResponse =
  cp_project :: Project
  cp_api_key :: string
  cp_scopes :: "AuthScope list"

definition create_project_handler ::
  "ApiWorld \<Rightarrow> AuthContext \<Rightarrow> string \<Rightarrow> (ApiError, u16 \<times> CreateProjectResponse) api" where
  "create_project_handler world auth name =
     and_then (answered (require_scope auth Admin)) (\<lambda>_.
     and_then (answered (validate_name name)) (\<lambda>_.
     and_then (reading (\<lambda>s. aw_random world (ap_calls s))) (\<lambda>random.
     and_then (repo (api_call world (\<lambda>t _ new.
         create_project_with_api_key (aw_sha256 world) (aw_base64url world) t (''proj_'' @ new) (''key_'' @ new) random
           name (ax_actor auth) INITIAL_PROJECT_SCOPES))) (\<lambda>(project, api_key).
       succeed (201, \<lparr>cp_project = project, cp_api_key = ck_key api_key, cp_scopes = INITIAL_PROJECT_SCOPES\<rparr>)))))"

section \<open>Uploads (\<open>uploads.rs\<close>)\<close>

record CreateUploadRequest =
  ur_project_id :: ProjectId
  ur_kind :: UploadKind
  ur_file_name :: string
  ur_content_type :: string
  ur_size_bytes :: u64
  ur_sha256 :: string

record CreateUploadResponse =
  us_upload_id :: UploadId
  us_upload_url :: string
  us_required_headers :: "(string, string) btree"
  us_expires_at :: instant

definition validate_upload_request :: "ApiWorld \<Rightarrow> CreateUploadRequest \<Rightarrow> ApiError + unit" where
  "validate_upload_request world request =
     (if is_blank (ur_file_name request) then Inl (err_validation ''file_name must not be blank'')
      else if list_ex is_ascii_control (ur_file_name request)
      then Inl (err_validation ''file_name must not contain control characters'')
      else if is_blank (ur_content_type request) \<or> \<not> aw_http_header world (ur_content_type request)
      then Inl (err_validation ''content_type must be a valid HTTP header value'')
      else if 2 ^ 63 \<le> uint (ur_size_bytes request) then Inl (err_validation ''size_bytes is too large'')
      else Inr ())"

definition create_upload_handler ::
  "ApiWorld \<Rightarrow> AppState \<Rightarrow> AuthContext \<Rightarrow> CreateUploadRequest \<Rightarrow> (ApiError, u16 \<times> CreateUploadResponse) api" where
  "create_upload_handler world state auth request =
     and_then (answered (require_scope auth ProjectWrite)) (\<lambda>_.
     and_then (answered (require_project auth (ur_project_id request))) (\<lambda>_.
     and_then (answered (validate_upload_request world request)) (\<lambda>_.
     and_then (api_fresh world) (\<lambda>uuid.
       let object_key = new_upload_object_key (ur_project_id request) (ur_kind request) uuid
       in and_then (map_failure object_store_error (presign_upload world (st_object_store state) object_key
              (ur_content_type request) (ur_size_bytes request) (ur_sha256 request))) (\<lambda>signed.
          and_then (repo (api_call world (\<lambda>t _ new. create_upload t (''upl_'' @ new) (ur_project_id request) (ur_kind request)
              object_key (ur_sha256 request) (ur_size_bytes request)))) (\<lambda>stored.
            succeed (201, \<lparr>us_upload_id = su_id stored, us_upload_url = pu_url signed,
              us_required_headers = pu_required_headers signed, us_expires_at = pu_expires_at signed\<rparr>)))))))"

section \<open>Webhooks (\<open>webhooks.rs\<close>)\<close>

definition create_webhook_handler ::
  "ApiWorld \<Rightarrow> AppState \<Rightarrow> AuthContext \<Rightarrow> CreateWebhookRequest \<Rightarrow> (ApiError, u16 \<times> Webhook) api" where
  "create_webhook_handler world state auth request =
     and_then (answered (require_scope auth ProjectWrite)) (\<lambda>_.
     and_then (answered (require_project auth (cw_project_id request))) (\<lambda>_.
     and_then (answered (ensure (cw_events request \<noteq> []) (err_validation ''webhook must subscribe to at least one event''))) (\<lambda>_.
     and_then (map_failure (\<lambda>e. err_validation (webhook_error_message e))
         (validate_url world (st_webhook_dispatcher state) (cw_url request))) (\<lambda>_.
     and_then (repo (api_call world (\<lambda>t _ new. create_webhook t (''wh_'' @ new) request))) (\<lambda>webhook.
       succeed (201, webhook))))))"

section \<open>Administration (\<open>workers.rs\<close>, \<open>runtime_profiles.rs\<close>)\<close>

definition list_workers_handler ::
  "ApiWorld \<Rightarrow> AppState \<Rightarrow> AuthContext \<Rightarrow> string option \<Rightarrow> (ApiError, WorkerStatus page) api" where
  "list_workers_handler world state auth cursor =
     and_then (answered (require_scope auth Admin)) (\<lambda>_.
     and_then (answered (validate_cursor cursor)) (\<lambda>_.
       repo (api_query world (list_workers_page (st_cursors state) cursor))))"

definition list_runtime_profiles_handler ::
  "ApiWorld \<Rightarrow> AppState \<Rightarrow> AuthContext \<Rightarrow> string option \<Rightarrow> (ApiError, RuntimeProfile page) api" where
  "list_runtime_profiles_handler world state auth cursor =
     and_then (answered (require_scope auth Admin)) (\<lambda>_.
     and_then (answered (validate_cursor cursor)) (\<lambda>_.
       repo (api_query world (list_runtime_profiles_page (st_cursors state) cursor))))"

section \<open>Artifacts (\<open>artifacts.rs\<close>)\<close>

record ArtifactLink =
  al_id :: ArtifactId
  al_job_id :: JobId
  al_kind :: ArtifactKind
  al_file_name :: "string option"
  al_size_bytes :: u64
  al_sha256 :: string
  al_created_at :: instant
  al_download_url :: "string option"
  al_download_expires_at :: "instant option"

definition artifact_link :: "ArtifactRow \<Rightarrow> PresignedDownload \<Rightarrow> ArtifactLink" where
  "artifact_link stored download =
     \<lparr>al_id = ar_id stored, al_job_id = ar_job_id stored, al_kind = ar_kind stored, al_file_name = ar_file_name stored,
      al_size_bytes = word_of_int (ar_size_bytes stored), al_sha256 = ar_sha256 stored, al_created_at = ar_created_at stored,
      al_download_url = Some (pd_url download), al_download_expires_at = Some (pd_expires_at download)\<rparr>"

definition sign_artifact ::
  "ApiWorld \<Rightarrow> AppState \<Rightarrow> ArtifactRow \<Rightarrow> ArtifactLink list \<Rightarrow> (ApiError, ArtifactLink list) api" where
  "sign_artifact world state stored items =
     and_then (map_failure object_store_error (presign_download world (st_object_store state) (ar_s3_key stored))) (\<lambda>download.
       succeed (items @ [artifact_link stored download]))"

definition list_job_artifacts ::
  "ApiWorld \<Rightarrow> AppState \<Rightarrow> AuthContext \<Rightarrow> JobId \<Rightarrow> string option \<Rightarrow> (ApiError, ArtifactLink page) api" where
  "list_job_artifacts world state auth job_path cursor =
     and_then (answered (require_scope auth ProjectRead)) (\<lambda>_.
     and_then (answered (validate_cursor cursor)) (\<lambda>_.
     and_then (owned_job world auth job_path) (\<lambda>_.
     and_then (repo (api_query world (list_artifacts_page (st_cursors state) job_path cursor))) (\<lambda>(rows, next_cursor).
     and_then (for_each (sign_artifact world state) rows []) (\<lambda>items. succeed (items, next_cursor))))))"

section \<open>Debug sessions (\<open>debug_sessions.rs\<close>)\<close>

definition MINIMUM_TOKEN_LIFETIME :: duration where "MINIMUM_TOKEN_LIFETIME = 30000000"

record DebugSessionToken =
  dt_session_id :: DebugSessionId
  dt_job_id :: JobId
  dt_mode :: DebugSessionMode
  dt_token :: string
  dt_connect_url :: string
  dt_expires_at :: instant

fun mode_name :: "DebugSessionMode \<Rightarrow> string" where
  "mode_name Viewer = ''viewer''"
| "mode_name Controller = ''controller''"

text \<open>
  The expiry of a session.  \<open>Duration::seconds\<close> and the sum with the minimal lifetime panic out of range.
\<close>

definition session_expiry :: "ApiWorld \<Rightarrow> AppState \<Rightarrow> Job \<Rightarrow> (ApiError, instant) api" where
  "session_expiry world state job =
     and_then (api_now world) (\<lambda>now.
     and_then (answered (ok_or (aw_from_std world (st_debug_token_ttl state)) err_internal)) (\<lambda>configured_ttl.
     and_then (answered (ok_or (job_started_at job) err_internal)) (\<lambda>started_at.
     and_then (answered (ensure (uint (job_timeout_seconds job) < 2 ^ 63) err_internal)) (\<lambda>_.
     and_then (expect (aw_duration_seconds world (uint (job_timeout_seconds job)))) (\<lambda>timeout.
     and_then (answered (ok_or (aw_checked_add world started_at timeout) err_internal)) (\<lambda>job_deadline.
     and_then (answered (ok_or (aw_checked_add world now configured_ttl) err_internal)) (\<lambda>token_deadline.
     and_then (expect (aw_checked_add world now MINIMUM_TOKEN_LIFETIME)) (\<lambda>earliest.
       if min job_deadline token_deadline < earliest
       then fail_with (err_conflict ''the remaining job lifetime is too short for a debug session'')
       else succeed (min job_deadline token_deadline)))))))))"

definition session_audit :: "Job \<Rightarrow> DebugSessionMode \<Rightarrow> instant \<Rightarrow> EventPayload" where
  "session_audit job mode expires_at =
     [(''expires_at'', EvTime expires_at), (''job_id'', EvText (job_id job)), (''mode'', EvText (mode_name mode)),
      (''project_id'', EvText (job_project_id job))]"

definition create_debug_session_handler ::
  "ApiWorld \<Rightarrow> AppState \<Rightarrow> AuthContext \<Rightarrow> JobId \<Rightarrow> DebugSessionMode \<Rightarrow> (ApiError, u16 \<times> DebugSessionToken) api" where
  "create_debug_session_handler world state auth job_path mode =
     and_then (answered (require_scope auth DebugCreate)) (\<lambda>_.
     and_then (owned_job world auth job_path) (\<lambda>job.
     and_then (answered (ensure (job_state job = DebugAvailable)
         (err_conflict ''debug sessions require a job in debug_available state''))) (\<lambda>_.
     and_then (session_expiry world state job) (\<lambda>expires_at.
     and_then (api_fresh world) (\<lambda>uuid.
       let jti = ''jti_'' @ uuid
       in and_then (repo (api_call world (\<lambda>t _ new. create_debug_session_with_audit t (''dbg_'' @ new) (job_id job) jti
              (ax_actor auth) mode expires_at (session_audit job mode expires_at)))) (\<lambda>(session, _).
          and_then (map_failure debug_token_error (mint world (st_debug_tokens state) (job_id job) (ds_id session) jti mode expires_at))
            (\<lambda>token.
          and_then (answered (map_err (\<lambda>_. err_internal)
              (Uri_new (st_debug_gateway_base_url state @ ''/sessions/'' @ ds_id session)))) (\<lambda>connect_url.
            succeed (201, \<lparr>dt_session_id = ds_id session, dt_job_id = job_id job, dt_mode = mode, dt_token = token,
              dt_connect_url = connect_url, dt_expires_at = expires_at\<rparr>)))))))))"

end
