(* ===== verification/Api_Events.thy ===== *)
theory Api_Events
  imports Api_Handlers Sample_Api Repo_Paging
begin

text \<open>
  The event stream of a job, \<open>crates/api/src/events.rs\<close>: the handler, the loop that produces the next
  event, and the stream a client reads.  \<open>next_event\<close> polls until there is something to emit, so it has
  no value unless an event, the end of the job, the shutdown or an error comes.  The theorem is that a
  client gets the job's part of the event log, in order, without a gap or a repetition.
\<close>

section \<open>The handler\<close>

definition EVENT_BATCH_SIZE :: u32 where "EVENT_BATCH_SIZE = 100"

definition parse_last_event_id :: "header \<Rightarrow> ApiError + u64" where
  "parse_last_event_id h =
     (case h of
        None \<Rightarrow> Inr 0
      | Some v \<Rightarrow>
          bind_result (ok_or v (err_validation ''Last-Event-ID must be a non-negative integer'')) (\<lambda>v.
          bind_result (map_err (\<lambda>_. err_validation ''Last-Event-ID must be a non-negative integer'')
              (parse_int 0 (2 ^ 64 - 1) v)) (\<lambda>sequence.
            if 2 ^ 63 - 1 < sequence then Inl (err_validation ''Last-Event-ID exceeds the supported integer range'')
            else Inr (word_of_int sequence))))"

record EventStreamState =
  es_job_id :: JobId
  es_after_sequence :: u64
  es_pending :: "JobEvent list"
  es_close_next :: bool

definition stream_job_events ::
  "ApiWorld \<Rightarrow> AuthContext \<Rightarrow> header \<Rightarrow> JobId \<Rightarrow> (ApiError, EventStreamState) api" where
  "stream_job_events world auth last_event_id job_path =
     and_then (answered (require_scope auth ProjectRead)) (\<lambda>_.
     and_then (owned_job world auth job_path) (\<lambda>_.
     and_then (answered (parse_last_event_id last_event_id)) (\<lambda>after_sequence.
       succeed \<lparr>es_job_id = job_path, es_after_sequence = after_sequence, es_pending = [], es_close_next = False\<rparr>)))"

section \<open>The next event\<close>

record WireEvent =
  we_id :: string
  we_event :: string
  we_data :: string

definition wire_event :: "ApiWorld \<Rightarrow> JobEvent \<Rightarrow> WireEvent option" where
  "wire_event world event =
     map_option (\<lambda>data. \<lparr>we_id = show_nat (unat (ev_sequence event)), we_event = ev_event_type event, we_data = data\<rparr>)
       (aw_event_json world event)"

text \<open>One round of the loop: return the end of the stream, return an event, or go round again.\<close>

datatype StreamStep = StreamEnd | StreamEmit WireEvent EventStreamState | StreamAgain EventStreamState

definition emit_event :: "ApiWorld \<Rightarrow> EventStreamState \<Rightarrow> JobEvent \<Rightarrow> JobEvent list \<Rightarrow> StreamStep" where
  "emit_event world state event rest =
     (let state = state\<lparr>es_pending := rest, es_after_sequence := ev_sequence event,
            es_close_next := (case ev_state event of None \<Rightarrow> False | Some current \<Rightarrow> is_terminal current)\<rparr>
      in case wire_event world event of None \<Rightarrow> StreamEnd | Some wire \<Rightarrow> StreamEmit wire state)"

definition wait_for_events :: "ApiWorld \<Rightarrow> EventStreamState \<Rightarrow> (unit, StreamStep) api" where
  "wait_for_events world state =
     and_then (outcome_of (api_query world (get_job (es_job_id state)))) (\<lambda>found.
       case found of
         Inr (Some job) \<Rightarrow>
           if is_terminal (job_state job) then succeed StreamEnd
           else and_then (api_await world (aw_shutdown world)) (\<lambda>stop. succeed (if stop then StreamEnd else StreamAgain state))
       | Inr None \<Rightarrow> succeed StreamEnd
       | Inl _ \<Rightarrow> succeed StreamEnd)"

definition stream_round :: "ApiWorld \<Rightarrow> EventStreamState \<Rightarrow> (unit, StreamStep) api" where
  "stream_round world state =
     and_then (reading (\<lambda>s. aw_shutdown world (ap_calls s))) (\<lambda>stop.
       if es_close_next state \<or> stop then succeed StreamEnd
       else case es_pending state of
         event # rest \<Rightarrow> succeed (emit_event world state event rest)
       | [] \<Rightarrow>
           and_then (outcome_of (api_query world (list_job_events_after (es_job_id state) (es_after_sequence state) EVENT_BATCH_SIZE)))
             (\<lambda>listed. case listed of
                Inr events \<Rightarrow>
                  if events \<noteq> [] then succeed (StreamAgain (state\<lparr>es_pending := es_pending state @ events\<rparr>))
                  else wait_for_events world state
              | Inl _ \<Rightarrow> succeed StreamEnd))"

partial_function (option) next_event ::
  "ApiWorld \<Rightarrow> EventStreamState \<Rightarrow> Api \<Rightarrow> ((WireEvent \<times> EventStreamState) option \<times> Api) option" where
  "next_event world state s =
     Option.bind (stream_round world state s) (\<lambda>(r, s1).
       case r of
         Inl _ \<Rightarrow> None
       | Inr StreamEnd \<Rightarrow> Some (None, s1)
       | Inr (StreamEmit wire state1) \<Rightarrow> Some (Some (wire, state1), s1)
       | Inr (StreamAgain state1) \<Rightarrow> next_event world state1 s1)"

text \<open>What a client has read after at most a number of events.\<close>

fun stream_items :: "ApiWorld \<Rightarrow> nat \<Rightarrow> EventStreamState \<Rightarrow> Api \<Rightarrow> (WireEvent list \<times> Api) option" where
  "stream_items world 0 state s = Some ([], s)"
| "stream_items world (Suc n) state s =
     (case next_event world state s of
        None \<Rightarrow> None
      | Some (None, s1) \<Rightarrow> Some ([], s1)
      | Some (Some (wire, state1), s1) \<Rightarrow>
          map_option (\<lambda>(items, s2). (wire # items, s2)) (stream_items world n state1 s1))"

section \<open>The stream and the log\<close>

interpretation api_runs: api_relation "repo_step\<^sup>*\<^sup>*"
  by unfold_locales auto

text \<open>The rows of a job after a sequence number.\<close>

definition log_after :: "JobId \<Rightarrow> int \<Rightarrow> db \<Rightarrow> JobEventRow list" where
  "log_after job n d = filter (\<lambda>r. er_job_id r = job \<and> n < er_sequence r) (db_job_events d)"

definition position :: "int \<Rightarrow> JobEventRow list \<Rightarrow> int" where
  "position start rows = (if rows = [] then start else er_sequence (last rows))"

lemma log_after_grows: "full_inv d \<Longrightarrow> repo_step\<^sup>*\<^sup>* d d' \<Longrightarrow> \<exists>more. log_after job n d' = log_after job n d @ more"
  using repo.run_keeps [of d d'] by (auto simp: evolves_def log_grows_def log_after_def)

text \<open>Asking for what comes after the rows already read gives the rest.\<close>

lemma log_after_position:
  assumes "log_inv d" and "log_after job start d = rows @ rest"
  shows "log_after job (position start rows) d = rest" and "sorted_wrt (<) (map er_sequence (rows @ rest))"
proof -
  have s: "sorted_wrt (<) (map er_sequence (rows @ rest))"
    using assms(1) unfolding assms(2) [symmetric] log_after_def log_inv_def sorted_wrt_map by (blast intro: sorted_wrt_filter)
  then show "sorted_wrt (<) (map er_sequence (rows @ rest))" .
  let ?n = "position start rows"
  have m: "\<forall>r \<in> set (rows @ rest). start < er_sequence r" unfolding assms(2) [symmetric] by (simp add: log_after_def)
  then have le: "start \<le> ?n" by (auto simp: position_def dest: order.strict_implies_order)
  have "log_after job ?n d = filter (\<lambda>r. ?n < er_sequence r) (log_after job start d)"
    using le by (auto simp: log_after_def intro!: filter_cong)
  also have "\<dots> = rest"
  proof (cases "rows = []")
    case True
    then show ?thesis using m by (simp add: assms(2) position_def filter_id_conv)
  next
    case False
    then obtain init r where rows: "rows = init @ [r]" by (metis rev_exhaust)
    then show ?thesis using s by (fastforce simp: assms(2) position_def sorted_wrt_append filter_id_conv filter_empty_conv)
  qed
  finally show "log_after job ?n d = rest" .
qed

lemma listed_events:
  assumes "list_job_events_after job n limit d = Inr events" and "log_inv d"
  shows "\<exists>k. collect_results event_of_row (take k (log_after job (uint n) d)) = Inr events"
proof -
  have "sorted_wrt (<) (map er_sequence (db_job_events d))" using assms(2) by (simp add: log_inv_def)
  then have "sorted (map er_sequence (log_after job (uint n) d))"
    unfolding log_after_def by (intro sorted_filter strict_sorted_imp_sorted)
  then have "sort_key er_sequence (log_after job (uint n) d) = log_after job (uint n) d" by (simp add: sort_key_id_if_sorted)
  then show ?thesis
    using assms(1) by (auto simp: list_job_events_after_def result_inv checked_i64_eq_Inr log_after_def)
qed

lemma event_of_row_sequence: "event_of_row r = Inr ev \<Longrightarrow> uint (ev_sequence ev) = er_sequence r"
  by (auto simp: event_of_row_def to_u64_def result_inv uint_word_of_int take_bit_int_eq_self split: if_splits)

text \<open>
  The state of a stream that started after \<open>start\<close> and has emitted the rows \<open>rows\<close>: these and the
  pending events are a prefix of the job's log.
\<close>

definition streaming :: "JobId \<Rightarrow> int \<Rightarrow> JobEventRow list \<Rightarrow> EventStreamState \<Rightarrow> db \<Rightarrow> bool" where
  "streaming job start rows state d \<longleftrightarrow> es_job_id state = job \<and> uint (es_after_sequence state) = position start rows
     \<and> (\<exists>pending rest. log_after job start d = rows @ pending @ rest
          \<and> collect_results event_of_row pending = Inr (es_pending state))"

lemma streaming_later: "streaming job start rows state d \<Longrightarrow> full_inv d \<Longrightarrow> repo_step\<^sup>*\<^sup>* d d' \<Longrightarrow> streaming job start rows state d'"
  using log_after_grows [of d d' job start] by (fastforce simp: streaming_def)

lemma emit_step:
  assumes "streaming job start rows state d" and "es_pending state = event # rest"
    and "emit_event world state event rest = StreamEmit wire state1"
  shows "\<exists>row. event_of_row row = Inr event \<and> wire_event world event = Some wire \<and> streaming job start (rows @ [row]) state1 d
    \<and> es_close_next state1 = (case ev_state event of None \<Rightarrow> False | Some current \<Rightarrow> is_terminal current)"
proof -
  obtain pending more where p: "log_after job start d = rows @ pending @ more"
      "collect_results event_of_row pending = Inr (event # rest)" "es_job_id state = job"
    using assms(1,2) by (auto simp: streaming_def)
  then obtain row pending' where row: "pending = row # pending'" "event_of_row row = Inr event"
      "collect_results event_of_row pending' = Inr rest"
    by (cases pending) (auto simp: result_inv)
  have "streaming job start (rows @ [row]) state1 d"
    using p row event_of_row_sequence [OF row(2)] assms(3)
    by (auto simp: streaming_def position_def emit_event_def Let_def split: option.splits)
  then show ?thesis using row(2) assms(3) by (auto simp: emit_event_def Let_def split: option.splits)
qed

definition ends_stream :: "JobEvent \<Rightarrow> bool" where
  "ends_stream event = (case ev_state event of None \<Rightarrow> False | Some current \<Rightarrow> is_terminal current)"

definition emitted :: "ApiWorld \<Rightarrow> JobId \<Rightarrow> int \<Rightarrow> JobEventRow list \<Rightarrow> WireEvent \<Rightarrow> EventStreamState \<Rightarrow> db \<Rightarrow> bool" where
  "emitted world job start rows wire state1 d \<longleftrightarrow> (\<exists>row event. event_of_row row = Inr event
     \<and> wire_event world event = Some wire \<and> streaming job start (rows @ [row]) state1 d \<and> es_close_next state1 = ends_stream event)"

lemma and_then_outcome:
  "and_then (outcome_of m) f s = Some (r, s') \<longleftrightarrow> (\<exists>q s1. m s = Some (q, s1) \<and> f q s1 = Some (r, s'))"
  by (auto simp: and_then_cases outcome_cases)

lemma wait_steps:
  assumes "wait_for_events world state s = Some (r, s')"
  shows "r = Inr StreamEnd \<or> r = Inr (StreamAgain state)"
proof -
  obtain found s2 where q: "api_query world (get_job (es_job_id state)) s = Some (found, s2)"
    using assms unfolding wait_for_events_def and_then_outcome by blast
  show ?thesis
    using assms by (cases found) (auto simp: wait_for_events_def outcome_cases q and_then_cases api_await_def
        split: option.splits if_splits)
qed

lemma round_streams:
  assumes env: "api_runs.api_world_in world"
    and c: "stream_round world state s = Some (r, s')"
    and st: "streaming job start rows state (ap_db s)" and inv: "full_inv (ap_db s)"
  shows "repo_step\<^sup>*\<^sup>* (ap_db s) (ap_db s') \<and>
    (r = Inr StreamEnd
     \<or> (\<exists>state1. r = Inr (StreamAgain state1) \<and> \<not> es_close_next state \<and> \<not> es_close_next state1
          \<and> streaming job start rows state1 (ap_db s'))
     \<or> (\<exists>wire state1. r = Inr (StreamEmit wire state1) \<and> \<not> es_close_next state
          \<and> emitted world job start rows wire state1 (ap_db s')))"
proof -
  note keeps = api_runs.on_api.keeps_rules api_runs.api_query_in [OF env] api_runs.api_await_in [OF env]
  have "api_runs.on_api.keeps (wait_for_events world state)"
    unfolding wait_for_events_def by (intro keeps)
  then have runs: "api_runs.on_api.keeps (stream_round world state)"
    unfolding stream_round_def by (cases "es_pending state") (simp_all only: list.case, (intro keeps | assumption)+)
  have run: "repo_step\<^sup>*\<^sup>* (ap_db s) (ap_db s')" using api_runs.on_api.keepsD [OF runs c] .
  have st': "streaming job start rows state (ap_db s')" by (rule streaming_later [OF st inv run])
  show ?thesis
  proof (cases "es_close_next state \<or> aw_shutdown world (ap_calls s)")
    case True
    then show ?thesis using c run by (simp add: stream_round_def and_then_cases)
  next
    case open_stream: False
    show ?thesis
    proof (cases "es_pending state")
      case (Cons event rest)
      then have r: "r = Inr (emit_event world state event rest)"
        using c open_stream by (simp add: stream_round_def and_then_cases)
      show ?thesis
      proof (cases "emit_event world state event rest")
        case (StreamEmit wire state1)
        then show ?thesis
          using r run open_stream emit_step [OF st' Cons StreamEmit] by (auto simp: emitted_def ends_stream_def)
      qed (use r run in \<open>auto simp: emit_event_def Let_def split: option.splits\<close>)
    next
      case Nil
      define d where "d = ac_others (aw_call world (ap_calls s)) (ap_db s)"
      have inv_d: "full_inv d" using repo.run_invariant [OF _ inv] env by (simp add: d_def api_runs.api_world_in_def)
      consider "r = Inr StreamEnd" | "r = Inr (StreamAgain state)"
        | events where "list_job_events_after (es_job_id state) (es_after_sequence state) EVENT_BATCH_SIZE d = Inr events"
          "r = Inr (StreamAgain (state\<lparr>es_pending := events\<rparr>))" "ap_db s' = d"
        using c open_stream Nil
        by (auto simp: stream_round_def and_then_cases outcome_cases api_query_iff d_def split: sum.splits if_splits dest!: wait_steps)
      then show ?thesis
      proof cases
        case 3
        obtain rest where log: "log_after job start d = rows @ rest" using st' 3(3) by (auto simp: streaming_def)
        have "log_inv d" using inv_d by (simp add: full_inv_def)
        then have "log_after job (uint (es_after_sequence state)) d = rest"
          using log_after_position(1) log st by (simp add: streaming_def)
        then obtain k where "collect_results event_of_row (take k rest) = Inr events"
          using listed_events [OF 3(1) \<open>log_inv d\<close>] st by (auto simp: streaming_def)
        moreover have "log_after job start d = rows @ take k rest @ drop k rest" using log by simp
        ultimately have "\<exists>pending more. log_after job start d = rows @ pending @ more \<and> collect_results event_of_row pending = Inr events"
          by blast
        then have "streaming job start rows (state\<lparr>es_pending := events\<rparr>) d" using st by (simp add: streaming_def)
        then show ?thesis using run open_stream 3 by simp
      qed (use run open_stream st' in auto)
    qed
  qed
qed

lemma next_event_streams:
  assumes "next_event world state s = Some (out, s')" and env: "api_runs.api_world_in world"
    and "streaming job start rows state (ap_db s)" and "full_inv (ap_db s)"
  shows "repo_step\<^sup>*\<^sup>* (ap_db s) (ap_db s') \<and>
    (case out of None \<Rightarrow> True | Some (wire, state1) \<Rightarrow> \<not> es_close_next state \<and> emitted world job start rows wire state1 (ap_db s'))"
proof -
  let ?P = "\<lambda>w state s result. w = world \<longrightarrow> streaming job start rows state (ap_db s) \<longrightarrow> full_inv (ap_db s) \<longrightarrow>
    repo_step\<^sup>*\<^sup>* (ap_db s) (ap_db (snd result)) \<and>
    (case fst result of None \<Rightarrow> True | Some (wire, state1) \<Rightarrow> \<not> es_close_next state \<and> emitted world job start rows wire state1 (ap_db (snd result)))"
  have "?P world state s (out, s')"
  proof (rule next_event.raw_induct [where P = ?P, OF _ assms(1)], intro impI)
    fix f w and state :: EventStreamState and s :: Api and result :: "(WireEvent \<times> EventStreamState) option \<times> Api"
    assume step: "\<And>w state s result. f w state s = Some result \<Longrightarrow> ?P w state s result"
      and body: "Option.bind (stream_round w state s) (\<lambda>(r, s1). case r of Inl _ \<Rightarrow> None | Inr StreamEnd \<Rightarrow> Some (None, s1)
         | Inr (StreamEmit wire state1) \<Rightarrow> Some (Some (wire, state1), s1) | Inr (StreamAgain state1) \<Rightarrow> f w state1 s1) = Some result"
      and w: "w = world" and st: "streaming job start rows state (ap_db s)" and inv: "full_inv (ap_db s)"
    obtain r s1 where r: "stream_round world state s = Some (r, s1)" using body w by (auto simp: bind_eq_Some_conv)
    note R = round_streams [OF env r st inv]
    have inv1: "full_inv (ap_db s1)" using repo.run_invariant [OF _ inv] R by blast
    from R consider "r = Inr StreamEnd"
      | state1 where "r = Inr (StreamAgain state1)" "\<not> es_close_next state" "streaming job start rows state1 (ap_db s1)"
      | wire state1 where "r = Inr (StreamEmit wire state1)" "\<not> es_close_next state" "emitted world job start rows wire state1 (ap_db s1)"
      by blast
    then show "repo_step\<^sup>*\<^sup>* (ap_db s) (ap_db (snd result)) \<and>
      (case fst result of None \<Rightarrow> True | Some (wire, state1) \<Rightarrow> \<not> es_close_next state \<and> emitted world job start rows wire state1 (ap_db (snd result)))"
    proof cases
      case 2
      then have "f world state1 s1 = Some result" using body w r by simp
      then have q: "repo_step\<^sup>*\<^sup>* (ap_db s1) (ap_db (snd result))"
        "case fst result of None \<Rightarrow> True | Some (wire, state2) \<Rightarrow> emitted world job start rows wire state2 (ap_db (snd result))"
        using step [of world state1 s1 result] 2(3) inv1 by (auto split: option.splits)
      moreover have "repo_step\<^sup>*\<^sup>* (ap_db s) (ap_db s1)" using R by blast
      ultimately have "repo_step\<^sup>*\<^sup>* (ap_db s) (ap_db (snd result))" by (meson rtranclp_trans)
      then show ?thesis using q(2) 2(2) by (auto split: option.splits prod.splits)
    qed (use body w r R in auto)
  qed
  then show ?thesis using assms(3,4) by (auto split: option.splits)
qed

lemma nothing_streamed:
  "streaming job start rows state d \<Longrightarrow> \<exists>new events rest. log_after job start d = rows @ new @ rest
     \<and> collect_results event_of_row new = Inr events \<and> map Some [] = map (wire_event world) events
     \<and> \<not> list_ex ends_stream (butlast events)"
  by (rule exI [of _ "[]"]) (auto simp: streaming_def)

lemma items_stream:
  assumes env: "api_runs.api_world_in world"
  shows "stream_items world n state s = Some (items, s') \<Longrightarrow> streaming job start rows state (ap_db s) \<Longrightarrow> full_inv (ap_db s) \<Longrightarrow>
    full_inv (ap_db s') \<and> repo_step\<^sup>*\<^sup>* (ap_db s) (ap_db s') \<and> (es_close_next state \<longrightarrow> items = []) \<and>
    (\<exists>new events rest. log_after job start (ap_db s') = rows @ new @ rest \<and> collect_results event_of_row new = Inr events
       \<and> map Some items = map (wire_event world) events \<and> \<not> list_ex ends_stream (butlast events))"
proof (induction n arbitrary: state s rows items)
  case 0
  then show ?case using nothing_streamed [of job start rows state "ap_db s" world] by auto
next
  case (Suc n)
  from Suc.prems(1) consider s1 where "next_event world state s = Some (None, s1)" "items = []" "s' = s1"
    | wire state1 s1 more where "next_event world state s = Some (Some (wire, state1), s1)"
      "stream_items world n state1 s1 = Some (more, s')" "items = wire # more"
    by (auto split: option.splits prod.splits)
  then show ?case
  proof cases
    case 1
    have run: "repo_step\<^sup>*\<^sup>* (ap_db s) (ap_db s1)" using next_event_streams [OF 1(1) env Suc.prems(2,3)] by simp
    then have "streaming job start rows state (ap_db s1)" using streaming_later Suc.prems(2,3) by blast
    then show ?thesis
      using 1 run repo.run_invariant [OF run Suc.prems(3)] nothing_streamed [of job start rows state "ap_db s1" world] by simp
  next
    case 2
    note N = next_event_streams [OF 2(1) env Suc.prems(2,3)]
    obtain row event where e: "event_of_row row = Inr event" "wire_event world event = Some wire"
        "streaming job start (rows @ [row]) state1 (ap_db s1)" "es_close_next state1 = ends_stream event"
      using N by (auto simp: emitted_def)
    have run: "repo_step\<^sup>*\<^sup>* (ap_db s) (ap_db s1)" and inv1: "full_inv (ap_db s1)"
      using N repo.run_invariant [OF _ Suc.prems(3)] by auto
    obtain new events rest where r: "log_after job start (ap_db s') = (rows @ [row]) @ new @ rest"
        "collect_results event_of_row new = Inr events" "map Some more = map (wire_event world) events"
        "\<not> list_ex ends_stream (butlast events)" "full_inv (ap_db s')" "repo_step\<^sup>*\<^sup>* (ap_db s1) (ap_db s')"
        "es_close_next state1 \<longrightarrow> more = []"
      using Suc.IH [OF 2(2) e(3) inv1] by blast
    have "log_after job start (ap_db s') = rows @ (row # new) @ rest \<and> collect_results event_of_row (row # new) = Inr (event # events)
        \<and> map Some items = map (wire_event world) (event # events) \<and> \<not> list_ex ends_stream (butlast (event # events))"
      using r e 2(3) by (cases events) auto
    moreover have "repo_step\<^sup>*\<^sup>* (ap_db s) (ap_db s')" using run r(6) by (rule rtranclp_trans)
    moreover have "\<not> es_close_next state" using N by simp
    ultimately show ?thesis using r(5) by blast
  qed
qed

lemma collected_sequences:
  "collect_results event_of_row rows = Inr events \<Longrightarrow> map (\<lambda>ev. uint (ev_sequence ev)) events = map er_sequence rows"
  by (induction rows arbitrary: events) (auto simp: result_inv dest: event_of_row_sequence)

lemma owned_job_keeps: "api_runs.api_world_in world \<Longrightarrow> api_runs.on_api.keeps (owned_job world auth job)"
  unfolding owned_job_def repo_def by (intro api_runs.on_api.keeps_rules api_runs.api_query_in)

text \<open>
  C15. The event stream is the job's log: whatever other transactions run meanwhile, the events a client
  reads from a stream it opened after some sequence number are the next events of that job in the log,
  in the order of their sequence numbers, without a gap or a repetition, each under its own sequence
  number; and nothing follows an event with a terminal state.
\<close>

theorem stream_follows_the_log:
  assumes "\<forall>n d. repo_step\<^sup>*\<^sup>* d (ac_others (aw_call world n) d)" and "db_initial d0" and "repo_step\<^sup>*\<^sup>* d0 (ap_db s)"
    and "stream_job_events world auth last_event_id job s = Some (Inr state, s1)"
    and "stream_items world n state s1 = Some (items, s')"
  shows "\<exists>events. collect_results event_of_row (take (length items) (log_after job (uint (es_after_sequence state)) (ap_db s'))) = Inr events
    \<and> map Some items = map (wire_event world) events \<and> sorted_wrt (<) (map ev_sequence events)
    \<and> \<not> list_ex ends_stream (butlast events) \<and> parse_last_event_id last_event_id = Inr (es_after_sequence state)"
proof -
  let ?start = "uint (es_after_sequence state)"
  have env: "api_runs.api_world_in world" using assms(1) by (simp add: api_runs.api_world_in_def)
  have k: "api_runs.on_api.keeps (stream_job_events world auth last_event_id job)"
    unfolding stream_job_events_def by (intro api_runs.on_api.keeps_rules owned_job_keeps [OF env])
  have run: "repo_step\<^sup>*\<^sup>* (ap_db s) (ap_db s1)" using api_runs.on_api.keepsD [OF k assms(4)] .
  have inv: "full_inv (ap_db s1)" using repo.run_invariant [OF run] repo.reachable_invariant [OF assms(2,3)] by blast
  have state: "es_job_id state = job" "es_pending state = []" "parse_last_event_id last_event_id = Inr (es_after_sequence state)"
    using assms(4) by (auto simp: stream_job_events_def and_then_Inr)
  then have st: "streaming job ?start [] state (ap_db s1)"
    by (simp add: streaming_def position_def) (rule exI [of _ "[]"], simp)
  obtain new events rest where r: "log_after job ?start (ap_db s') = new @ rest" "collect_results event_of_row new = Inr events"
      "map Some items = map (wire_event world) events" "\<not> list_ex ends_stream (butlast events)" "full_inv (ap_db s')"
    using items_stream [OF env assms(5) st inv] by auto
  have "length items = length new" using r(3) collect_length [OF r(2)] by (metis length_map)
  then have "take (length items) (log_after job ?start (ap_db s')) = new" using r(1) by simp
  moreover have "sorted_wrt (<) (map er_sequence new)"
    using log_after_position(2) [of "ap_db s'" job ?start "[]"] r(1,5) by (auto simp: full_inv_def sorted_wrt_append)
  then have "sorted_wrt (<) (map (\<lambda>ev. uint (ev_sequence ev)) events)" using collected_sequences [OF r(2)] by simp
  then have "sorted_wrt (<) (map ev_sequence events)" by (simp add: sorted_wrt_map word_less_def)
  ultimately show ?thesis using r(2-4) state(3) by blast
qed

definition sample_auth :: AuthContext where
  "sample_auth = \<lparr>ax_actor = ''api_key:key_1'', ax_key_id = Some ''key_1'', ax_project_id = Some ''proj_1'',
     ax_scopes = [ProjectRead, ProjectWrite, DebugCreate]\<rparr>"

lemma sample_owned_job:
  "get_job ''job_1'' (ap_db s) = Inr (Some job) \<Longrightarrow> job_project_id job = ''proj_1'' \<Longrightarrow>
     owned_job sample_api_world sample_auth ''job_1'' s = Some (Inr job, s\<lparr>ap_calls := Suc (ap_calls s)\<rparr>)"
  by (simp add: owned_job_def repo_def run_action sample_calls require_owned_resource_def sample_auth_def ok_or_def)

definition sample_stream :: EventStreamState where
  "sample_stream = \<lparr>es_job_id = ''job_1'', es_after_sequence = 0, es_pending = [], es_close_next = False\<rparr>"

definition created_event :: JobEvent where
  "created_event = (case list_job_events_after ''job_1'' 0 100 db_created of Inr events \<Rightarrow> hd events | Inl _ \<Rightarrow> sample_event)"

lemma created_events:
  "list_job_events_after ''job_1'' 0 100 db_created = Inr [created_event]"
  "ev_sequence created_event = 1" "ev_event_type created_event = ''job.queued''" "ev_id created_event = ''evt_1''"
proof -
  have "case list_job_events_after ''job_1'' 0 100 db_created of
      Inr [e] \<Rightarrow> ev_sequence e = 1 \<and> ev_event_type e = ''job.queued'' \<and> ev_id e = ''evt_1'' | _ \<Rightarrow> False"
    by code_simp
  then show "list_job_events_after ''job_1'' 0 100 db_created = Inr [created_event]"
    "ev_sequence created_event = 1" "ev_event_type created_event = ''job.queued''" "ev_id created_event = ''evt_1''"
    by (auto simp: created_event_def split: sum.splits list.splits)
qed

lemma sample_streamed:
  "stream_job_events sample_api_world sample_auth None ''job_1'' (sample_api db_created)
     = Some (Inr sample_stream, (sample_api db_created)\<lparr>ap_calls := 1\<rparr>)"
  "wire_event sample_api_world created_event = Some \<lparr>we_id = ''1'', we_event = ''job.queued'', we_data = ''evt_1''\<rparr>"
  "\<exists>s'. stream_items sample_api_world 1 sample_stream ((sample_api db_created)\<lparr>ap_calls := 1\<rparr>)
     = Some ([\<lparr>we_id = ''1'', we_event = ''job.queued'', we_data = ''evt_1''\<rparr>], s') \<and> ap_db s' = db_created"
proof -
  have "case get_job ''job_1'' db_created of Inr (Some job) \<Rightarrow> job_project_id job = ''proj_1'' | _ \<Rightarrow> False" by code_simp
  then obtain job where job: "get_job ''job_1'' (ap_db (sample_api db_created)) = Inr (Some job)" "job_project_id job = ''proj_1''"
    by (auto simp: sample_api_def split: sum.splits option.splits)
  show "stream_job_events sample_api_world sample_auth None ''job_1'' (sample_api db_created)
     = Some (Inr sample_stream, (sample_api db_created)\<lparr>ap_calls := 1\<rparr>)"
    by (simp add: stream_job_events_def run_action sample_owned_job [OF job] require_scope_def has_scope_def sample_auth_def [THEN arg_cong, of ax_scopes]
        parse_last_event_id_def sample_stream_def) (simp add: sample_api_def)
  show w: "wire_event sample_api_world created_event = Some \<lparr>we_id = ''1'', we_event = ''job.queued'', we_data = ''evt_1''\<rparr>"
  proof -
    have "show_nat 1 = ''1''" by code_simp
    then show ?thesis by (simp add: wire_event_def sample_fields created_events)
  qed
  let ?st = "sample_stream\<lparr>es_pending := [created_event]\<rparr>"
  have again: "stream_round sample_api_world sample_stream s = Some (Inr (StreamAgain ?st), s\<lparr>ap_calls := Suc (ap_calls s)\<rparr>)"
    if "ap_db s = db_created" for s
    using that created_events(1) by (simp add: stream_round_def run_action sample_calls sample_fields sample_stream_def EVENT_BATCH_SIZE_def)
  have emit: "\<exists>st1. stream_round sample_api_world ?st s = Some (Inr (StreamEmit \<lparr>we_id = ''1'', we_event = ''job.queued'', we_data = ''evt_1''\<rparr> st1), s)" for s
    using w by (simp add: stream_round_def run_action sample_fields sample_stream_def emit_event_def Let_def)
  obtain st1 where "next_event sample_api_world sample_stream ((sample_api db_created)\<lparr>ap_calls := 1\<rparr>)
      = Some (Some (\<lparr>we_id = ''1'', we_event = ''job.queued'', we_data = ''evt_1''\<rparr>, st1), (sample_api db_created)\<lparr>ap_calls := Suc (Suc 0)\<rparr>)"
    using emit [of "(sample_api db_created)\<lparr>ap_calls := Suc (Suc 0)\<rparr>"]
    by (auto simp: next_event.simps [of _ sample_stream] next_event.simps [of _ ?st] again sample_api_def)
  then show "\<exists>s'. stream_items sample_api_world 1 sample_stream ((sample_api db_created)\<lparr>ap_calls := 1\<rparr>)
     = Some ([\<lparr>we_id = ''1'', we_event = ''job.queued'', we_data = ''evt_1''\<rparr>], s') \<and> ap_db s' = db_created"
    by (simp add: sample_api_def)
qed

theorem stream_follows_the_log_witness:
  "\<exists>events. collect_results event_of_row (take 1 (log_after ''job_1'' 0 db_created)) = Inr events
     \<and> map (wire_event sample_api_world) events = [Some \<lparr>we_id = ''1'', we_event = ''job.queued'', we_data = ''evt_1''\<rparr>]"
proof -
  have w: "\<forall>n d. repo_step\<^sup>*\<^sup>* d (ac_others (aw_call sample_api_world n) d)" by (rule sample_quiet) simp
  obtain s' where s: "stream_items sample_api_world 1 sample_stream ((sample_api db_created)\<lparr>ap_calls := 1\<rparr>)
      = Some ([\<lparr>we_id = ''1'', we_event = ''job.queued'', we_data = ''evt_1''\<rparr>], s')" "ap_db s' = db_created"
    using sample_streamed(3) by blast
  have r: "repo_step\<^sup>*\<^sup>* sample_db (ap_db (sample_api db_created))" using sample_reachable(1) by (simp add: sample_api_def)
  show ?thesis
    using stream_follows_the_log [OF w sample_initial r sample_streamed(1) s(1)] s(2) by (auto simp: sample_stream_def)
qed

end
