(* ===== verification/Api_Router.thy ===== *)
theory Api_Router
  imports Api_Events
begin

text \<open>
  The public router, \<open>crates/api/src/router.rs\<close>: the routes with their scopes, and a request from its
  authorization header to its response.  Authentication wraps every route, the fallback too; the scope
  guard wraps each route; the extractors have decoded the request.  The request timeout, which drops a
  request under way, and the panic handler are not modelled: a panic has no value.
\<close>

section \<open>Requests and replies\<close>

datatype ApiRequest =
    PostProject string
  | PostUpload CreateUploadRequest
  | PostJob header CreateJobRequest
  | GetJobs ListJobsQuery
  | GetJob JobId
  | GetJobEvents header JobId
  | GetJobArtifacts JobId "string option"
  | PostDebugSession JobId DebugSessionMode
  | PostCancel JobId
  | PostWebhook CreateWebhookRequest
  | GetWorkers "string option"
  | GetRuntimeProfiles "string option"
  | NoRoute

datatype ApiReply =
    ProjectReply CreateProjectResponse
  | UploadReply CreateUploadResponse
  | JobReply Job
  | JobsReply "JobSummary page"
  | EventsReply EventStreamState
  | ArtifactsReply "ArtifactLink page"
  | SessionReply DebugSessionToken
  | WebhookReply Webhook
  | WorkersReply "WorkerStatus page"
  | ProfilesReply "RuntimeProfile page"

fun route_scope :: "ApiRequest \<Rightarrow> AuthScope option" where
  "route_scope (PostProject _) = Some Admin"
| "route_scope (PostUpload _) = Some ProjectWrite"
| "route_scope (PostJob _ _) = Some ProjectWrite"
| "route_scope (GetJobs _) = Some ProjectRead"
| "route_scope (GetJob _) = Some ProjectRead"
| "route_scope (GetJobEvents _ _) = Some ProjectRead"
| "route_scope (GetJobArtifacts _ _) = Some ProjectRead"
| "route_scope (PostDebugSession _ _) = Some DebugCreate"
| "route_scope (PostCancel _) = Some ProjectWrite"
| "route_scope (PostWebhook _) = Some ProjectWrite"
| "route_scope (GetWorkers _) = Some Admin"
| "route_scope (GetRuntimeProfiles _) = Some Admin"
| "route_scope NoRoute = None"

definition reply :: "(ApiError, 'a) api \<Rightarrow> ('a \<Rightarrow> u16 \<times> ApiReply) \<Rightarrow> (ApiError, u16 \<times> ApiReply) api" where
  "reply m f = and_then m (\<lambda>x. succeed (f x))"

fun handle_request ::
  "ApiWorld \<Rightarrow> AppState \<Rightarrow> AuthContext \<Rightarrow> ApiRequest \<Rightarrow> (ApiError, u16 \<times> ApiReply) api" where
  "handle_request world state auth (PostProject name) =
     reply (create_project_handler world auth name) (\<lambda>(code, x). (code, ProjectReply x))"
| "handle_request world state auth (PostUpload request) =
     reply (create_upload_handler world state auth request) (\<lambda>(code, x). (code, UploadReply x))"
| "handle_request world state auth (PostJob key request) =
     reply (create_job world auth key request) (\<lambda>(code, x). (code, JobReply x))"
| "handle_request world state auth (GetJobs query) =
     reply (list_jobs_handler world state auth query) (\<lambda>x. (200, JobsReply x))"
| "handle_request world state auth (GetJob job) = reply (get_job_handler world auth job) (\<lambda>x. (200, JobReply x))"
| "handle_request world state auth (GetJobEvents last_event_id job) =
     reply (stream_job_events world auth last_event_id job) (\<lambda>x. (200, EventsReply x))"
| "handle_request world state auth (GetJobArtifacts job cursor) =
     reply (list_job_artifacts world state auth job cursor) (\<lambda>x. (200, ArtifactsReply x))"
| "handle_request world state auth (PostDebugSession job mode) =
     reply (create_debug_session_handler world state auth job mode) (\<lambda>(code, x). (code, SessionReply x))"
| "handle_request world state auth (PostCancel job) =
     reply (cancel_job world auth job) (\<lambda>(code, x). (code, JobReply x))"
| "handle_request world state auth (PostWebhook request) =
     reply (create_webhook_handler world state auth request) (\<lambda>(code, x). (code, WebhookReply x))"
| "handle_request world state auth (GetWorkers cursor) =
     reply (list_workers_handler world state auth cursor) (\<lambda>x. (200, WorkersReply x))"
| "handle_request world state auth (GetRuntimeProfiles cursor) =
     reply (list_runtime_profiles_handler world state auth cursor) (\<lambda>x. (200, ProfilesReply x))"
| "handle_request world state auth NoRoute = fail_with (err_not_found ''route'')"

definition route_request ::
  "ApiWorld \<Rightarrow> AppState \<Rightarrow> AuthContext \<Rightarrow> ApiRequest \<Rightarrow> (ApiError, u16 \<times> ApiReply) api" where
  "route_request world state auth request =
     (case route_scope request of
        None \<Rightarrow> handle_request world state auth request
      | Some scope \<Rightarrow> and_then (answered (scope_guard scope (Some auth))) (\<lambda>_. handle_request world state auth request))"

definition serve ::
  "ApiWorld \<Rightarrow> AppState \<Rightarrow> string option \<Rightarrow> header \<Rightarrow> ApiRequest \<Rightarrow> (ApiError, u16 \<times> ApiReply) api" where
  "serve world state bootstrap authorization request =
     and_then (authenticate world bootstrap authorization) (\<lambda>auth. route_request world state auth request)"

definition respond ::
  "ApiWorld \<Rightarrow> AppState \<Rightarrow> string option \<Rightarrow> string \<Rightarrow> header \<Rightarrow> ApiRequest \<Rightarrow> (ErrorResponse, u16 \<times> ApiReply) api" where
  "respond world state bootstrap request_id authorization request =
     map_failure (into_response request_id) (serve world state bootstrap authorization request)"

section \<open>Guards\<close>

lemma guarded_twice:
  "and_then (answered g) (\<lambda>_. reply (and_then (answered g) f) k) = reply (and_then (answered g) f) k"
  by (rule ext) (auto simp: reply_def and_then_def answered_def split: sum.splits)

lemma scope_guard_authenticated: "scope_guard scope (Some auth) = require_scope auth scope"
  by (simp add: scope_guard_def ok_or_def bind_result_def)

text \<open>
  C27. The router's table of scopes and the checks of the handlers agree on every route: with the scope
  guards of the router removed, every request has the same outcome, the same error included, on every
  state.  So a handler mounted under a wrong scope, or a handler without its own check, would show.
\<close>

theorem router_agrees_with_handlers:
  "route_request world state auth request = handle_request world state auth request
   \<and> (route_scope request = None \<longleftrightarrow> request = NoRoute)"
  by (cases request)
    (simp_all add: route_request_def scope_guard_authenticated guarded_twice create_project_handler_def create_upload_handler_def
      create_job_def list_jobs_handler_def get_job_handler_def stream_job_events_def list_job_artifacts_def
      create_debug_session_handler_def cancel_job_def create_webhook_handler_def list_workers_handler_def
      list_runtime_profiles_handler_def)

end
