(* ===== verification/Api_Isolation.thy ===== *)
theory Api_Isolation
  imports Api_Router
begin

text \<open>
  Projects do not see each other.  The locale \<open>two_runs\<close> lifts a relation on states to the actions that
  cannot tell related states apart; interpreted on the databases that agree on one project's rows, it
  shows that what the reads answer a caller of that project, errors included, does not depend on any
  other project's jobs, events or artifacts.
\<close>

section \<open>Two runs\<close>

locale two_runs =
  fixes E :: "'s \<Rightarrow> 's \<Rightarrow> bool"
begin

definition blind :: "('s, 'e, 'a) action \<Rightarrow> bool" where
  "blind m \<longleftrightarrow> (\<forall>s t r s'. E s t \<longrightarrow> m s = Some (r, s') \<longrightarrow> (\<exists>t'. m t = Some (r, t') \<and> E s' t'))"

lemma blindD: "blind m \<Longrightarrow> E s t \<Longrightarrow> m s = Some (r, s') \<Longrightarrow> \<exists>t'. m t = Some (r, t') \<and> E s' t'"
  unfolding blind_def by blast

lemma blindI: "(\<And>s t r s'. E s t \<Longrightarrow> m s = Some (r, s') \<Longrightarrow> \<exists>t'. m t = Some (r, t') \<and> E s' t') \<Longrightarrow> blind m"
  unfolding blind_def by blast

lemma blind_pure: "blind (succeed x)" "blind (fail_with e)" "blind (answered a)" "blind (expect opt)" "blind never_returns"
  by (auto simp: blind_def)

lemma blind_reading: "(\<And>s t. E s t \<Longrightarrow> g s = g t) \<Longrightarrow> blind (reading g)"
  by (rule blindI) simp

lemma blind_modify: "(\<And>s t. E s t \<Longrightarrow> E (h s) (h t)) \<Longrightarrow> blind (modify h)"
  by (rule blindI) simp

lemma blind_and_then:
  assumes "blind m" and "\<And>x. blind (f x)"
  shows "blind (and_then m f)"
proof (rule blindI)
  fix s t r s' assume e: "E s t" and "and_then m f s = Some (r, s')"
  then consider e where "m s = Some (Inl e, s')" "r = Inl e" | x s1 where "m s = Some (Inr x, s1)" "f x s1 = Some (r, s')"
    by (auto simp: and_then_cases)
  then show "\<exists>t'. and_then m f t = Some (r, t') \<and> E s' t'"
  proof cases
    case 1
    then show ?thesis using blindD [OF assms(1) e 1(1)] by (auto simp: and_then_cases)
  next
    case 2
    obtain t1 where "m t = Some (Inr x, t1)" "E s1 t1" using blindD [OF assms(1) e 2(1)] by blast
    then show ?thesis using blindD [OF assms(2) _ 2(2)] by (auto simp: and_then_cases)
  qed
qed

lemma blind_outcome: "blind m \<Longrightarrow> blind (outcome_of m)"
  by (rule blindI) (auto simp: outcome_cases dest: blindD)

lemma blind_map_failure: "blind m \<Longrightarrow> blind (map_failure g m)"
  by (rule blindI) (auto simp: map_failure_iff dest: blindD)

lemma blind_for_each: "(\<And>x b. blind (body x b)) \<Longrightarrow> blind (for_each body xs acc)"
  by (induction xs arbitrary: acc) (auto intro: blind_pure blind_and_then)

lemma blind_if: "blind m \<Longrightarrow> blind n \<Longrightarrow> blind (if b then m else n)"
  by simp

lemma blind_option: "blind m \<Longrightarrow> (\<And>x. blind (f x)) \<Longrightarrow> blind (case opt of None \<Rightarrow> m | Some x \<Rightarrow> f x)"
  by (cases opt) simp_all

lemma blind_sum: "(\<And>e. blind (f e)) \<Longrightarrow> (\<And>x. blind (g x)) \<Longrightarrow> blind (case r of Inl e \<Rightarrow> f e | Inr x \<Rightarrow> g x)"
  by (cases r) simp_all

lemma blind_prod: "(\<And>x y. blind (f x y)) \<Longrightarrow> blind (case p of (x, y) \<Rightarrow> f x y)"
  by (cases p) simp

text \<open>What follows a check needs to be blind only if the check succeeds.\<close>

lemma blind_guard:
  assumes "\<And>u. g = Inr u \<Longrightarrow> blind (f u)"
  shows "blind (and_then (answered g) f)"
proof (cases g)
  case (Inl e)
  then show ?thesis by (auto simp: blind_def and_then_cases)
next
  case (Inr u)
  then have "and_then (answered g) f = f u" by (auto simp: and_then_def answered_def)
  then show ?thesis using assms [OF Inr] by simp
qed

lemmas blind_rules = blind_pure blind_and_then blind_outcome blind_map_failure blind_for_each blind_if blind_option
  blind_sum blind_prod

end

section \<open>One project's part of the database\<close>

definition own_jobs :: "ProjectId \<Rightarrow> db \<Rightarrow> JobRow list" where
  "own_jobs p d = filter (\<lambda>r. jr_project_id r = p) (db_jobs d)"

definition own_job :: "ProjectId \<Rightarrow> db \<Rightarrow> JobId \<Rightarrow> bool" where
  "own_job p d j \<longleftrightarrow> j \<in> jr_id ` set (own_jobs p d)"

definition sound_jobs :: "db \<Rightarrow> bool" where
  "sound_jobs d \<longleftrightarrow> distinct (map jr_id (db_jobs d)) \<and> list_all (\<lambda>r. is_ok (into_job r)) (db_jobs d)"

text \<open>Both tables of jobs decode, and they agree on the project's jobs with their events and artifacts.\<close>

definition same_project :: "ProjectId \<Rightarrow> db \<Rightarrow> db \<Rightarrow> bool" where
  "same_project p d e \<longleftrightarrow> sound_jobs d \<and> sound_jobs e \<and> own_jobs p d = own_jobs p e
     \<and> (\<forall>j. own_job p d j \<longrightarrow> filter (\<lambda>r. er_job_id r = j) (db_job_events d) = filter (\<lambda>r. er_job_id r = j) (db_job_events e)
          \<and> filter (\<lambda>a. ar_job_id a = j) (db_artifacts d) = filter (\<lambda>a. ar_job_id a = j) (db_artifacts e))"

definition alike :: "ProjectId \<Rightarrow> Api \<Rightarrow> Api \<Rightarrow> bool" where
  "alike p s t \<longleftrightarrow> ap_calls s = ap_calls t \<and> ap_log s = ap_log t \<and> same_project p (ap_db s) (ap_db t)"

interpretation tenant: two_runs "alike p" for p .

text \<open>The other transactions act alike on databases that are alike.\<close>

definition others_alike :: "ProjectId \<Rightarrow> ApiWorld \<Rightarrow> bool" where
  "others_alike p world \<longleftrightarrow> (\<forall>n d e. same_project p d e \<longrightarrow>
     same_project p (ac_others (aw_call world n) d) (ac_others (aw_call world n) e))"

lemma decoded_job_fields: "into_job r = Inr job \<Longrightarrow> job_id job = jr_id r \<and> job_project_id job = jr_project_id r"
  by (auto simp: into_job_def result_inv decode_id_eq_Inr)

lemma own_job_iff: "own_job p d j \<longleftrightarrow> (\<exists>r \<in> set (db_jobs d). jr_project_id r = p \<and> jr_id r = j)"
  by (auto simp: own_job_def own_jobs_def)

definition others_keep_jobs :: "ProjectId \<Rightarrow> ApiWorld \<Rightarrow> bool" where
  "others_keep_jobs p world \<longleftrightarrow> (\<forall>n d j. own_job p d j \<longrightarrow> own_job p (ac_others (aw_call world n) d) j)"

text \<open>What \<open>owned_job\<close> answers a caller of the project: it depends on the project's own rows only.\<close>

definition owned_result :: "ProjectId \<Rightarrow> JobId \<Rightarrow> JobRow list \<Rightarrow> ApiError + Job" where
  "owned_result p j rows = (case select_one (\<lambda>r. jr_id r = j) rows of
     None \<Rightarrow> Inl (err_not_found ''job'') | Some r \<Rightarrow> map_err api_error_of_repository (into_job r))"

lemma select_row:
  assumes "distinct (map jr_id rows)" and "r \<in> set rows" and "jr_id r = j"
  shows "select_one (\<lambda>x. jr_id x = j) rows = Some r"
  using select_one_key [OF assms(1,2)] assms(3) by simp

lemma owned_job_result:
  assumes "sound_jobs (ac_others (aw_call world (ap_calls s)) (ap_db s))" and "ax_project_id auth = Some p"
  shows "owned_job world auth j s = Some (owned_result p j (own_jobs p (ac_others (aw_call world (ap_calls s)) (ap_db s))),
    s\<lparr>ap_db := ac_others (aw_call world (ap_calls s)) (ap_db s), ap_calls := Suc (ap_calls s)\<rparr>)"
proof -
  define d where "d = ac_others (aw_call world (ap_calls s)) (ap_db s)"
  have sound: "distinct (map jr_id (db_jobs d))" "\<And>r. r \<in> set (db_jobs d) \<Longrightarrow> \<exists>job. into_job r = Inr job"
    using assms(1) by (auto simp: d_def sound_jobs_def list_all_iff is_ok_iff)
  have own: "distinct (map jr_id (own_jobs p d))" using sound(1) by (simp add: own_jobs_def distinct_map_filter)
  show ?thesis
  proof (cases "select_one (\<lambda>r. jr_id r = j) (db_jobs d)")
    case None
    then have "select_one (\<lambda>r. jr_id r = j) (own_jobs p d) = None" by (auto simp: select_one_None_iff own_jobs_def)
    then show ?thesis
      using None by (simp add: owned_job_def repo_def run_action api_query_def api_call_def Let_def flip: d_def)
        (simp add: get_job_def lock_job_def ok_or_def owned_result_def run_action)
  next
    case (Some r)
    then have r: "r \<in> set (db_jobs d)" "jr_id r = j" using select_one_SomeD by fastforce+
    obtain job where job: "into_job r = Inr job" using sound(2) r(1) by blast
    have g: "get_job j d = Inr (Some job)" using Some job by (simp add: get_job_def lock_job_def)
    have "owned_result p j (own_jobs p d) = (if jr_project_id r = p then Inr job else Inl (err_not_found ''job''))"
    proof (cases "jr_project_id r = p")
      case True
      then have "r \<in> set (own_jobs p d)" using r(1) by (simp add: own_jobs_def)
      then show ?thesis using True select_row [OF own _ r(2)] job by (simp add: owned_result_def map_err_def)
    next
      case False
      have "x = r" if "x \<in> set (db_jobs d)" "jr_id x = j" for x
        using select_row [OF sound(1) that] Some by simp
      then have "select_one (\<lambda>r. jr_id r = j) (own_jobs p d) = None"
        using False by (auto simp: select_one_None_iff own_jobs_def)
      then show ?thesis using False by (simp add: owned_result_def)
    qed
    then show ?thesis
      using g job decoded_job_fields [OF job] assms(2)
      by (simp add: owned_job_def repo_def run_action api_query_def api_call_def Let_def ok_or_def require_owned_resource_def flip: d_def)
  qed
qed

text \<open>After the check the job is known to be the project's.\<close>

definition alike_with :: "ProjectId \<Rightarrow> JobId \<Rightarrow> Api \<Rightarrow> Api \<Rightarrow> bool" where
  "alike_with p j s t \<longleftrightarrow> alike p s t \<and> own_job p (ap_db s) j"

interpretation member: two_runs "alike_with p j" for p j .

definition tenant_world :: "ProjectId \<Rightarrow> ApiWorld \<Rightarrow> bool" where
  "tenant_world p world \<longleftrightarrow> others_alike p world \<and> others_keep_jobs p world"

lemma same_own_job: "same_project p d e \<Longrightarrow> own_job p e j = own_job p d j"
  by (simp add: same_project_def own_job_def)

lemma tenant_call:
  assumes "tenant_world p world" and "alike p s t"
  shows "ap_calls t = ap_calls s" and "ap_log t = ap_log s"
    and "same_project p (ac_others (aw_call world (ap_calls s)) (ap_db s)) (ac_others (aw_call world (ap_calls s)) (ap_db t))"
  using assms by (simp_all add: tenant_world_def others_alike_def alike_def)

lemma tenant_query:
  assumes "tenant_world p world" and "\<And>d e. same_project p d e \<Longrightarrow> f d = f e"
  shows "tenant.blind p (api_query world f)"
proof (rule tenant.blindI)
  fix s t r s' assume a: "alike p s t" and q: "api_query world f s = Some (r, s')"
  note c = tenant_call [OF assms(1) a]
  then show "\<exists>t'. api_query world f t = Some (r, t') \<and> alike p s' t'"
    using q assms(2) [OF c(3)] by (auto simp: api_query_iff alike_def)
qed

lemma member_query:
  assumes "tenant_world p world" and "\<And>d e. same_project p d e \<Longrightarrow> own_job p d j \<Longrightarrow> f d = f e"
  shows "member.blind p j (api_query world f)"
proof (rule member.blindI)
  fix s t r s' assume a: "alike_with p j s t" and q: "api_query world f s = Some (r, s')"
  let ?o = "ac_others (aw_call world (ap_calls s))"
  have s: "same_project p (?o (ap_db s)) (?o (ap_db t))" "own_job p (?o (ap_db s)) j" "ap_calls t = ap_calls s" "ap_log t = ap_log s"
    using a tenant_call [OF assms(1)] assms(1) by (auto simp: alike_with_def tenant_world_def others_keep_jobs_def)
  then show "\<exists>t'. api_query world f t = Some (r, t') \<and> alike_with p j s' t'"
    using q assms(2) [OF s(1,2)] by (auto simp: api_query_iff alike_with_def alike_def)
qed

lemma member_await: "tenant_world p world \<Longrightarrow> member.blind p j (api_await world answer)"
proof (rule member.blindI)
  fix s t r s' assume w: "tenant_world p world" and a: "alike_with p j s t" and q: "api_await world answer s = Some (r, s')"
  let ?o = "ac_others (aw_call world (ap_calls s))"
  have s: "same_project p (?o (ap_db s)) (?o (ap_db t))" "own_job p (?o (ap_db s)) j" "ap_calls t = ap_calls s" "ap_log t = ap_log s"
    using a tenant_call [OF w] w by (auto simp: alike_with_def tenant_world_def others_keep_jobs_def)
  then show "\<exists>t'. api_await world answer t = Some (r, t') \<and> alike_with p j s' t'"
    using q by (auto simp: api_await_def alike_with_def alike_def)
qed

lemma member_reading:
  assumes "\<And>s t. ap_calls s = ap_calls t \<Longrightarrow> g s = g t"
  shows "member.blind p j (reading g)"
proof (rule member.blind_reading)
  fix s t assume "alike_with p j s t"
  then have "ap_calls s = ap_calls t" by (simp add: alike_with_def alike_def)
  then show "g s = g t" by (rule assms)
qed

lemma member_effect: "member.blind p j (api_effect eff)"
  unfolding api_effect_def by (rule member.blind_modify) (simp add: alike_with_def alike_def)

lemma owned_then:
  assumes "tenant_world p world" and "ax_project_id auth = Some p" and "\<And>job. member.blind p j (f job)"
  shows "tenant.blind p (and_then (owned_job world auth j) f)"
proof (rule tenant.blindI)
  fix s t r s' assume a: "alike p s t" and q: "and_then (owned_job world auth j) f s = Some (r, s')"
  let ?o = "ac_others (aw_call world (ap_calls s))"
  note c = tenant_call [OF assms(1) a]
  let ?s1 = "s\<lparr>ap_db := ?o (ap_db s), ap_calls := Suc (ap_calls s)\<rparr>" and ?t1 = "t\<lparr>ap_db := ?o (ap_db t), ap_calls := Suc (ap_calls s)\<rparr>"
  have rows: "own_jobs p (?o (ap_db t)) = own_jobs p (?o (ap_db s))" and sound: "sound_jobs (?o (ap_db s))" "sound_jobs (?o (ap_db t))"
    using c(3) by (simp_all add: same_project_def)
  have s1: "owned_job world auth j s = Some (owned_result p j (own_jobs p (?o (ap_db s))), ?s1)"
    and t1: "owned_job world auth j t = Some (owned_result p j (own_jobs p (?o (ap_db s))), ?t1)"
    using owned_job_result [OF sound(1) assms(2)] owned_job_result [of world t auth p j] sound(2) assms(2) c(1) rows by simp_all
  have alike1: "alike p ?s1 ?t1" using c by (simp add: alike_def)
  show "\<exists>t'. and_then (owned_job world auth j) f t = Some (r, t') \<and> alike p s' t'"
  proof (cases "owned_result p j (own_jobs p (?o (ap_db s)))")
    case (Inl e)
    then show ?thesis using q s1 t1 alike1 by (auto simp: and_then_cases)
  next
    case (Inr job)
    then have "select_one (\<lambda>r. jr_id r = j) (own_jobs p (?o (ap_db s))) \<noteq> None"
      by (auto simp: owned_result_def split: option.splits)
    then have "own_job p (?o (ap_db s)) j" by (auto simp: own_job_def dest!: select_one_SomeD)
    then have "alike_with p j ?s1 ?t1" using alike1 by (simp add: alike_with_def)
    moreover have "f job ?s1 = Some (r, s')" using q s1 Inr by (simp add: and_then_cases)
    ultimately obtain t' where "f job ?t1 = Some (r, t')" "alike_with p j s' t'" using member.blindD [OF assms(3)] by blast
    then show ?thesis using t1 Inr by (auto simp: and_then_cases alike_with_def)
  qed
qed

section \<open>The reads\<close>

lemma and_then_succeed: "and_then m succeed = m"
  by (rule ext) (auto simp: and_then_def succeed_def split: option.splits sum.splits)

lemma succeed_and_then: "and_then (succeed x) f = f x"
  by (rule ext) (simp add: and_then_def succeed_def)

lemma and_then_assoc: "and_then (and_then m f) g = and_then m (\<lambda>x. and_then (f x) g)"
  by (rule ext) (auto simp: and_then_def split: option.splits sum.splits)

lemma get_job_blind:
  assumes "tenant_world p world" and "ax_project_id auth = Some p"
  shows "tenant.blind p (get_job_handler world auth j)"
  unfolding get_job_handler_def
  by (rule tenant.blind_guard) (use owned_then [OF assms, of j succeed] in \<open>simp add: and_then_succeed member.blind_pure\<close>)

lemma list_jobs_own:
  assumes "same_project p d e" and "lq_project_id query = p"
  shows "list_jobs codec query d = list_jobs codec query e"
proof -
  have "filter (job_listed query) (db_jobs x) = filter (\<lambda>r. case lq_state query of None \<Rightarrow> True | Some s \<Rightarrow> jr_state r = s) (own_jobs p x)" for x
    using assms(2) by (auto simp: own_jobs_def job_listed_def [abs_def] conj_commute intro!: filter_cong)
  then show ?thesis using assms(1) by (simp add: list_jobs_def same_project_def)
qed

lemma list_jobs_blind:
  assumes "tenant_world p world" and "ax_project_id auth = Some p"
  shows "tenant.blind p (list_jobs_handler world state auth query)"
  unfolding list_jobs_handler_def repo_def
proof (intro tenant.blind_guard tenant.blind_map_failure tenant_query [OF assms(1)] list_jobs_own)
  fix u d e assume "require_project auth (lj_project_id query) = Inr u" "same_project p d e"
  then show "same_project p d e"
    "lq_project_id (JobListQuery_new (lj_project_id query)\<lparr>lq_state := lj_status query, lq_cursor := lj_cursor query\<rparr>) = p"
    using assms(2) by (simp_all add: JobListQuery_new_def)
qed

lemma own_rows:
  assumes "same_project p d e" and "own_job p d j"
  shows "filter (\<lambda>r. er_job_id r = j) (db_job_events d) = filter (\<lambda>r. er_job_id r = j) (db_job_events e)"
    and "filter (\<lambda>a. ar_job_id a = j) (db_artifacts d) = filter (\<lambda>a. ar_job_id a = j) (db_artifacts e)"
  using assms by (simp_all add: same_project_def)

lemma api_now_blind: "member.blind p j (api_now world)"
  unfolding api_now_def by (rule member_reading) simp

lemma list_artifacts_blind:
  assumes "tenant_world p world" and "ax_project_id auth = Some p"
  shows "tenant.blind p (list_job_artifacts world state auth j cursor)"
proof -
  have page: "member.blind p j (api_query world (list_artifacts_page codec j cursor))" for codec
    by (rule member_query [OF assms(1)]) (simp add: list_artifacts_page_def own_rows(2))
  have sign: "member.blind p j (sign_artifact world state row items)" for row items
    unfolding sign_artifact_def presign_download_def
    by (intro member.blind_rules member_await [OF assms(1)] member_effect api_now_blind)
  show ?thesis
    unfolding list_job_artifacts_def repo_def
    by (intro tenant.blind_guard owned_then [OF assms] member.blind_rules page sign)
qed

text \<open>The stream: the handler, and what is read from the stream it returns.\<close>

definition read_stream ::
  "ApiWorld \<Rightarrow> AuthContext \<Rightarrow> header \<Rightarrow> JobId \<Rightarrow> nat \<Rightarrow> (ApiError, WireEvent list) api" where
  "read_stream world auth last_event_id job n =
     and_then (stream_job_events world auth last_event_id job) (\<lambda>state s.
       map_option (\<lambda>(items, s1). (Inr items, s1)) (stream_items world n state s))"

lemma get_job_own:
  assumes "same_project p d e" and "own_job p d j"
  shows "get_job j d = get_job j e"
proof -
  have "get_job j x = bind_result (into_job r) (\<lambda>job. Inr (Some job))" if "sound_jobs x" "r \<in> set (own_jobs p x)" "jr_id r = j" for x r
    using that select_row [of "db_jobs x" r j]
    by (cases "into_job r") (auto simp: get_job_def lock_job_def sound_jobs_def own_jobs_def)
  then show ?thesis using assms by (fastforce simp: same_project_def own_job_def)
qed

lemma list_events_own:
  assumes "same_project p d e" and "own_job p d j"
  shows "list_job_events_after j n limit d = list_job_events_after j n limit e"
proof -
  have "filter (\<lambda>r. er_job_id r = j \<and> m < er_sequence r) (db_job_events d)
      = filter (\<lambda>r. er_job_id r = j \<and> m < er_sequence r) (db_job_events e)" for m
    using arg_cong [OF own_rows(1) [OF assms], of "filter (\<lambda>r. m < er_sequence r)"] by simp
  then show ?thesis by (simp add: list_job_events_after_def)
qed

lemma stream_round_blind:
  assumes "tenant_world p world" and "es_job_id state = j"
  shows "member.blind p j (stream_round world state)"
proof -
  have g: "member.blind p j (api_query world (get_job (es_job_id state)))"
    using assms(2) by (intro member_query [OF assms(1)]) (simp add: get_job_own)
  have l: "member.blind p j (api_query world (list_job_events_after (es_job_id state) n limit))" for n limit
    using assms(2) by (intro member_query [OF assms(1)]) (simp add: list_events_own)
  have r: "member.blind p j (reading (\<lambda>s. aw_shutdown world (ap_calls s)))" by (rule member_reading) simp
  note rules = member.blind_rules g l r member_await [OF assms(1)]
  have "member.blind p j (wait_for_events world state)" unfolding wait_for_events_def by (intro rules)
  then show ?thesis
    unfolding stream_round_def by (cases "es_pending state") (simp_all only: list.case, (intro rules | assumption)+)
qed

lemma stream_round_job:
  assumes "stream_round world state s = Some (Inr step, s')"
  shows "case step of StreamAgain state1 \<Rightarrow> es_job_id state1 = es_job_id state
    | StreamEmit wire state1 \<Rightarrow> es_job_id state1 = es_job_id state | StreamEnd \<Rightarrow> True"
proof (cases "es_pending state")
  case (Cons event rest)
  then show ?thesis
    using assms by (auto simp: stream_round_def and_then_cases emit_event_def Let_def split: if_splits option.splits StreamStep.splits)
next
  case Nil
  have "step = StreamEnd \<or> (\<exists>events. step = StreamAgain (state\<lparr>es_pending := events\<rparr>)) \<or> step = StreamAgain state"
    using assms by (auto simp: stream_round_def Nil and_then_cases outcome_cases api_query_iff split: if_splits sum.splits dest!: wait_steps)
  then show ?thesis by auto
qed

lemma next_event_blind:
  assumes w: "tenant_world p world" and "next_event world state s = Some (out, s')" and "es_job_id state = j" and "alike_with p j s t"
  shows "\<exists>t'. next_event world state t = Some (out, t') \<and> alike_with p j s' t'
    \<and> (case out of None \<Rightarrow> True | Some (wire, state1) \<Rightarrow> es_job_id state1 = j)"
proof -
  let ?P = "\<lambda>w state s (result :: (WireEvent \<times> EventStreamState) option \<times> Api). w = world \<longrightarrow> es_job_id state = j \<longrightarrow> (\<forall>t. alike_with p j s t \<longrightarrow>
    (\<exists>t'. next_event world state t = Some (fst result, t') \<and> alike_with p j (snd result) t'
      \<and> (case fst result of None \<Rightarrow> True | Some (wire, state1) \<Rightarrow> es_job_id state1 = j)))"
  have "?P world state s (out, s')"
  proof (rule next_event.raw_induct [where P = ?P, OF _ assms(2)], intro impI allI)
    fix f v and state :: EventStreamState and s t :: Api and result :: "(WireEvent \<times> EventStreamState) option \<times> Api"
    assume step: "\<And>w state s result. f w state s = Some result \<Longrightarrow> ?P w state s result"
      and body: "Option.bind (stream_round v state s) (\<lambda>(r, s1). case r of Inl _ \<Rightarrow> None | Inr StreamEnd \<Rightarrow> Some (None, s1)
         | Inr (StreamEmit wire state1) \<Rightarrow> Some (Some (wire, state1), s1) | Inr (StreamAgain state1) \<Rightarrow> f v state1 s1) = Some result"
      and v: "v = world" and j: "es_job_id state = j" and a: "alike_with p j s t"
    obtain r0 s1 where r0: "stream_round world state s = Some (r0, s1)" using body v by (auto simp: bind_eq_Some_conv)
    then obtain step' where r: "stream_round world state s = Some (Inr step', s1)" using body v by (cases r0) auto
    obtain t1 where t1: "stream_round world state t = Some (Inr step', t1)" "alike_with p j s1 t1"
      using member.blindD [OF stream_round_blind [OF w j] a r] by blast
    note J = stream_round_job [OF r]
    show "\<exists>t'. next_event world state t = Some (fst result, t') \<and> alike_with p j (snd result) t'
      \<and> (case fst result of None \<Rightarrow> True | Some (wire, state1) \<Rightarrow> es_job_id state1 = j)"
    proof (cases step')
      case (StreamAgain state1)
      then have "f world state1 s1 = Some result" using body v r by simp
      then obtain t' where "next_event world state1 t1 = Some (fst result, t')" "alike_with p j (snd result) t'"
          "case fst result of None \<Rightarrow> True | Some (wire, state2) \<Rightarrow> es_job_id state2 = j"
        using step t1(2) J j StreamAgain by fastforce
      then show ?thesis using t1(1) StreamAgain by (simp add: next_event.simps [of world state])
    qed (use body v r t1 J j in \<open>auto simp: next_event.simps [of world state]\<close>)
  qed
  then show ?thesis using assms(3,4) by simp
qed

lemma items_blind:
  assumes w: "tenant_world p world"
  shows "stream_items world n state s = Some (items, s') \<Longrightarrow> es_job_id state = j \<Longrightarrow> alike_with p j s t \<Longrightarrow>
    \<exists>t'. stream_items world n state t = Some (items, t') \<and> alike_with p j s' t'"
proof (induction n arbitrary: state s t items)
  case (Suc n)
  from Suc.prems(1) consider s1 where "next_event world state s = Some (None, s1)" "items = []" "s' = s1"
    | wire state1 s1 more where "next_event world state s = Some (Some (wire, state1), s1)"
      "stream_items world n state1 s1 = Some (more, s')" "items = wire # more"
    by (auto split: option.splits prod.splits)
  then show ?case
  proof cases
    case 1
    then show ?thesis using next_event_blind [OF w 1(1) Suc.prems(2,3)] by auto
  next
    case 2
    obtain t1 where t1: "next_event world state t = Some (Some (wire, state1), t1)" "alike_with p j s1 t1" "es_job_id state1 = j"
      using next_event_blind [OF w 2(1) Suc.prems(2,3)] by auto
    then show ?thesis using Suc.IH [OF 2(2) t1(3,2)] 2(3) by auto
  qed
qed simp

lemma read_stream_blind:
  assumes "tenant_world p world" and "ax_project_id auth = Some p"
  shows "tenant.blind p (read_stream world auth last_event_id j n)"
proof -
  let ?read = "\<lambda>state s. map_option (\<lambda>(items, s1). (Inr items :: ApiError + WireEvent list, s1)) (stream_items world n state s)"
  have r: "member.blind p j (?read state)" if "es_job_id state = j" for state
    by (rule member.blindI) (use items_blind [OF assms(1) _ that] in fastforce)
  have e: "read_stream world auth last_event_id j n = and_then (answered (require_scope auth ProjectRead)) (\<lambda>_.
      and_then (owned_job world auth j) (\<lambda>_. and_then (answered (parse_last_event_id last_event_id)) (\<lambda>after_sequence.
        ?read \<lparr>es_job_id = j, es_after_sequence = after_sequence, es_pending = [], es_close_next = False\<rparr>)))"
    by (simp add: read_stream_def stream_job_events_def and_then_assoc succeed_and_then)
  show ?thesis unfolding e
    by (intro tenant.blind_guard owned_then [OF assms] member.blind_guard r) simp
qed

section \<open>Isolation\<close>

definition indistinguishable :: "ProjectId \<Rightarrow> ('e, 'a) api \<Rightarrow> bool" where
  "indistinguishable p m \<longleftrightarrow> (\<forall>s t r s'. alike p s t \<longrightarrow> m s = Some (r, s') \<longrightarrow> (\<exists>t'. m t = Some (r, t') \<and> alike p s' t'))"

lemma indistinguishable_blind: "indistinguishable p m = tenant.blind p m"
  by (simp add: indistinguishable_def tenant.blind_def)

text \<open>
  C10. Projects do not see each other.  For a caller of project \<open>p\<close>, reading a job, the list of jobs, a
  job's artifacts with the links the object store signs, and a job's event stream gives the same answer,
  the same error and the same signed requests from any two databases that agree on \<open>p\<close>'s own jobs and
  on their events and artifacts; so a job of another project and a job that does not exist look alike.
  Other transactions may run meanwhile, as long as they act alike on such databases and delete no job.
\<close>

theorem reads_are_isolated:
  assumes "tenant_world p world" and "ax_project_id auth = Some p"
  shows "indistinguishable p (get_job_handler world auth j)
    \<and> indistinguishable p (list_jobs_handler world state auth query)
    \<and> indistinguishable p (list_job_artifacts world state auth j cursor)
    \<and> indistinguishable p (read_stream world auth last_event_id j n)"
  using get_job_blind [OF assms] list_jobs_blind [OF assms] list_artifacts_blind [OF assms] read_stream_blind [OF assms]
  by (simp add: indistinguishable_blind)

definition other_auth :: AuthContext where
  "other_auth = \<lparr>ax_actor = ''api_key:key_2'', ax_key_id = Some ''key_2'', ax_project_id = Some ''proj_2'', ax_scopes = [ProjectRead]\<rparr>"

text \<open>To a caller of another project the sample job does not exist.\<close>

theorem reads_are_isolated_witness:
  "\<exists>s' t'. get_job_handler sample_api_world other_auth ''job_1'' (sample_api sample_db) = Some (Inl (err_not_found ''job''), s')
     \<and> get_job_handler sample_api_world other_auth ''job_1'' (sample_api db_created) = Some (Inl (err_not_found ''job''), t')"
proof -
  have w: "tenant_world ''proj_2'' sample_api_world"
    by (simp add: tenant_world_def others_alike_def others_keep_jobs_def sample_fields)
  have "sound_jobs db_created" "own_jobs ''proj_2'' db_created = []" unfolding sound_jobs_def own_jobs_def by code_simp+
  moreover have "sound_jobs sample_db" "own_jobs ''proj_2'' sample_db = []" by (simp_all add: sound_jobs_def own_jobs_def sample_db_def)
  ultimately have a: "alike ''proj_2'' (sample_api sample_db) (sample_api db_created)"
    by (simp add: alike_def sample_api_def same_project_def own_job_def)
  have "get_job ''job_1'' sample_db = Inr None" by (simp add: get_job_def lock_job_def sample_db_def)
  then obtain s' where s: "get_job_handler sample_api_world other_auth ''job_1'' (sample_api sample_db) = Some (Inl (err_not_found ''job''), s')"
    by (simp add: get_job_handler_def owned_job_def repo_def require_scope_def has_scope_def other_auth_def ok_or_def run_action sample_calls)
      (simp add: sample_api_def run_action)
  have "ax_project_id other_auth = Some ''proj_2''" by (simp add: other_auth_def)
  then have "indistinguishable ''proj_2'' (get_job_handler sample_api_world other_auth ''job_1'')"
    using reads_are_isolated [OF w] by blast
  then show ?thesis using a s unfolding indistinguishable_def by blast
qed

end
