(* ===== verification/Api_Stream_End.thy ===== *)
theory Api_Stream_End
  imports Api_Events
begin

text \<open>
  How a stream can end before its job's last event.  \<open>next_event\<close> asks for events first and for the state
  of the job afterwards, in two queries; a job that becomes terminal between them has its last event in
  the log, but the stream ends on the terminal state without reading the log again.
\<close>

definition cancel_step :: "JobEventId \<Rightarrow> JobState \<Rightarrow> JobState \<Rightarrow> db \<Rightarrow> db" where
  "cancel_step event current target d = snd (transition_job_state (clock_at 21) event ''job_1'' current target
     \<lparr>pending_outcome = Some JobOutcome.Cancelled, artifacts_finalized = True, cleanup_completed = True\<rparr> None [] d)"

definition cleaning_db :: db where
  "cleaning_db = cancel_step ''evt_3'' CollectingArtifacts CleaningUp
     (snd (request_job_cancellation (clock_at 20) ''evt_2'' ''job_1'' db_created))"

definition closing_world :: ApiWorld where
  "closing_world = sample_api_world\<lparr>aw_call := (\<lambda>n. \<lparr>ac_clock = clock_at 21, ac_event = ''evt_9'',
     ac_others = (if n = 2 then cancel_step ''evt_4'' CleaningUp Cancelled else (\<lambda>d. d))\<rparr>)\<rparr>"

lemma closing_calls:
  "ac_others (aw_call closing_world n) d = (if n = 2 then cancel_step ''evt_4'' CleaningUp Cancelled d else d)"
  "aw_shutdown closing_world n = False"
  "api_query closing_world f s = (let d = ac_others (aw_call closing_world (ap_calls s)) (ap_db s) in
     Some (f d, s\<lparr>ap_db := d, ap_calls := Suc (ap_calls s)\<rparr>))"
  by (simp_all add: closing_world_def sample_fields api_query_def api_call_def Let_def)

lemma closing_facts:
  "\<exists>job. get_job ''job_1'' cleaning_db = Inr (Some job) \<and> job_project_id job = ''proj_1''"
  "list_job_events_after ''job_1'' 3 EVENT_BATCH_SIZE cleaning_db = Inr []"
  "\<exists>job. get_job ''job_1'' (cancel_step ''evt_4'' CleaningUp Cancelled cleaning_db) = Inr (Some job) \<and> is_terminal (job_state job)"
  "\<exists>event. collect_results event_of_row (log_after ''job_1'' 3 (cancel_step ''evt_4'' CleaningUp Cancelled cleaning_db)) = Inr [event] \<and> ends_stream event"
proof -
  have "let d = cleaning_db; e = cancel_step ''evt_4'' CleaningUp Cancelled d in
     (case get_job ''job_1'' d of Inr (Some job) \<Rightarrow> job_project_id job = ''proj_1'' | _ \<Rightarrow> False)
     \<and> list_job_events_after ''job_1'' 3 EVENT_BATCH_SIZE d = Inr []
     \<and> (case get_job ''job_1'' e of Inr (Some job) \<Rightarrow> is_terminal (job_state job) | _ \<Rightarrow> False)
     \<and> (case collect_results event_of_row (log_after ''job_1'' 3 e) of Inr [event] \<Rightarrow> ends_stream event | _ \<Rightarrow> False)"
    by code_simp
  then show "\<exists>job. get_job ''job_1'' cleaning_db = Inr (Some job) \<and> job_project_id job = ''proj_1''"
    "list_job_events_after ''job_1'' 3 EVENT_BATCH_SIZE cleaning_db = Inr []"
    "\<exists>job. get_job ''job_1'' (cancel_step ''evt_4'' CleaningUp Cancelled cleaning_db) = Inr (Some job) \<and> is_terminal (job_state job)"
    "\<exists>event. collect_results event_of_row (log_after ''job_1'' 3 (cancel_step ''evt_4'' CleaningUp Cancelled cleaning_db)) = Inr [event] \<and> ends_stream event"
    by (auto simp: Let_def split: sum.splits option.splits list.splits)
qed

text \<open>
  A client that has read the first three events of a job reads nothing more, although the log its stream
  ends on has a fourth one, the terminal event; every change of the database is a repository call.
\<close>

theorem stream_ends_before_the_last_event:
  "(\<forall>n d. repo_step\<^sup>*\<^sup>* d (ac_others (aw_call closing_world n) d)) \<and> repo_step\<^sup>*\<^sup>* sample_db cleaning_db
   \<and> (\<exists>state s1 s' event. stream_job_events closing_world sample_auth (Some (Some ''3'')) ''job_1'' (sample_api cleaning_db) = Some (Inr state, s1)
     \<and> next_event closing_world state s1 = Some (None, s')
     \<and> collect_results event_of_row (log_after ''job_1'' 3 (ap_db s')) = Inr [event] \<and> ends_stream event)"
proof (intro conjI allI)
  have step: "repo_step d (cancel_step event current target d)" for d event current target
    unfolding cancel_step_def by (rule repo_step.transition)
  then show "repo_step\<^sup>*\<^sup>* d (ac_others (aw_call closing_world n) d)" for n d by (simp add: closing_calls r_into_rtranclp)
  have "repo_step db_created (snd (request_job_cancellation (clock_at 20) ''evt_2'' ''job_1'' db_created))" by (rule repo_step.cancel)
  then show "repo_step\<^sup>*\<^sup>* sample_db cleaning_db"
    unfolding cleaning_db_def using sample_reachable(1) step by (meson rtranclp.rtrancl_into_rtrancl)
  obtain job where job: "get_job ''job_1'' cleaning_db = Inr (Some job)" "job_project_id job = ''proj_1''"
    using closing_facts(1) by blast
  obtain ended where ended: "get_job ''job_1'' (cancel_step ''evt_4'' CleaningUp Cancelled cleaning_db) = Inr (Some ended)"
      "is_terminal (job_state ended)"
    using closing_facts(3) by blast
  have parsed: "parse_last_event_id (Some (Some ''3'')) = Inr 3" by code_simp
  let ?state = "\<lparr>es_job_id = ''job_1'', es_after_sequence = 3, es_pending = [], es_close_next = False\<rparr>"
  let ?s1 = "(sample_api cleaning_db)\<lparr>ap_calls := Suc 0\<rparr>"
  have opened: "stream_job_events closing_world sample_auth (Some (Some ''3'')) ''job_1'' (sample_api cleaning_db) = Some (Inr ?state, ?s1)"
    using job parsed by (simp add: stream_job_events_def owned_job_def repo_def run_action closing_calls require_scope_def has_scope_def
        require_owned_resource_def sample_auth_def ok_or_def sample_api_def Let_def)
  have "next_event closing_world ?state ?s1
      = Some (None, (sample_api cleaning_db)\<lparr>ap_db := cancel_step ''evt_4'' CleaningUp Cancelled cleaning_db, ap_calls := 3\<rparr>)"
    using ended closing_facts(2)
    by (simp add: next_event.simps [of _ ?state] stream_round_def wait_for_events_def run_action closing_calls sample_api_def Let_def)
  then show "\<exists>state s1 s' event. stream_job_events closing_world sample_auth (Some (Some ''3'')) ''job_1'' (sample_api cleaning_db) = Some (Inr state, s1)
     \<and> next_event closing_world state s1 = Some (None, s')
     \<and> collect_results event_of_row (log_after ''job_1'' 3 (ap_db s')) = Inr [event] \<and> ends_stream event"
    using opened closing_facts(4) by fastforce
qed

end
