(* ===== verification/Api_Safety.thy ===== *)
theory Api_Safety
  imports Api_Router
begin

text \<open>
  What a successful request shows: an authentication rests on the configured bootstrap token or on a
  stored key that is not revoked, and a debug session is granted for an owned job only, for a bounded
  time, as a stored session with a token signed for exactly that session.
\<close>

section \<open>Authentication\<close>

lemma touched_key:
  assumes "touch_api_key_last_used t key d = (Inr k, d')"
  shows "\<exists>row \<in> set (db_api_keys d). ak_id row = key \<and> ak_revoked_at row = None
     \<and> into_record (row\<lparr>ak_last_used_at := Some (tx_now t)\<rparr>) = Inr k
     \<and> row\<lparr>ak_last_used_at := Some (tx_now t)\<rparr> \<in> set (db_api_keys d')"
proof -
  let ?p = "\<lambda>r. ak_id r = key \<and> ak_revoked_at r = None"
  let ?f = "\<lambda>r. r\<lparr>ak_last_used_at := Some (tx_now t)\<rparr>"
  obtain changed rows row where u: "sql_update api_keys_violation ?p ?f (db_api_keys d) = Inr (changed, rows)"
    and c: "fetch_optional changed = Some row" "into_record row = Inr k" and d': "d' = d\<lparr>db_api_keys := rows\<rparr>"
    using assms by (auto simp: touch_api_key_last_used_def update_api_key_timestamp_def commit_then_def result_inv
        split: sum.splits prod.splits)
  have "changed = map ?f (filter ?p (db_api_keys d))" "rows = update_rows ?p ?f (db_api_keys d)"
    using u by (simp_all add: sql_update_eq_Inr)
  moreover have "row \<in> set changed" using c(1) by (auto simp: fetch_optional_def split: list.splits)
  ultimately obtain r where "r \<in> set (db_api_keys d)" "?p r" "row = ?f r" by auto
  then show ?thesis using c(2) d' \<open>rows = _\<close> by (force simp: update_rows_def)
qed

lemma key_stays:
  assumes "full_inv d" and "repo_step\<^sup>*\<^sup>* d d'" and "row \<in> set (db_api_keys d)" and "row' \<in> set (db_api_keys d')"
    and "ak_id row' = ak_id row"
  shows "key_evolves row row'"
proof -
  have "records_keep d d'" using repo.run_keeps [OF assms(2,1)] by (simp add: evolves_def)
  then obtain f new where f: "db_api_keys d' = map f (db_api_keys d) @ new" "\<forall>r \<in> set (db_api_keys d). key_evolves r (f r)"
    unfolding records_keep_def table_keeps_def by blast
  have "distinct (map ak_id (db_api_keys d'))"
    using repo.run_invariant [OF assms(2,1)] by (simp add: full_inv_def records_inv_def)
  moreover have "f row \<in> set (db_api_keys d')" "ak_id (f row) = ak_id row" using f assms(3) by (auto simp: key_evolves_def)
  ultimately have "row' = f row" using assms(4,5) by (metis (no_types, lifting) distinct_map inj_on_def)
  then show ?thesis using f(2) assms(3) by simp
qed

text \<open>
  C16. Authentication is grounded.  If a request is authenticated while other transactions run, then its
  header carries a bearer token and either the token has the digest of the configured bootstrap token,
  which grants administration and no project, or the final database holds a key that is not revoked,
  whose digest is the token's, and which grants exactly the project and the scopes of the context.
\<close>

theorem authentication_is_grounded:
  assumes "\<forall>n d. repo_step\<^sup>*\<^sup>* d (ac_others (aw_call world n) d)" and "db_initial d0" and "repo_step\<^sup>*\<^sup>* d0 (ap_db s)"
    and "authenticate world bootstrap authorization s = Some (Inr ctx, s')"
  shows "\<exists>token. bearer_token authorization = Inr token \<and>
    ((\<exists>configured. bootstrap = Some configured \<and> aw_sha256 world token = aw_sha256 world configured
        \<and> ax_scopes ctx = [Admin] \<and> ax_project_id ctx = None)
     \<or> (\<exists>row \<in> set (db_api_keys (ap_db s')). key_grants world token row ctx))"
proof -
  let ?d1 = "ac_others (aw_call world (ap_calls s)) (ap_db s)"
  let ?d2 = "ac_others (aw_call world (Suc (ap_calls s))) ?d1" and ?t = "ac_clock (aw_call world (Suc (ap_calls s)))"
  obtain token where token: "bearer_token authorization = Inr token"
    using assms(4) by (auto simp: authenticate_def and_then_Inr)
  show ?thesis
  proof (cases "\<exists>configured. bootstrap = Some configured \<and> aw_sha256 world token = aw_sha256 world configured")
    case True
    then have "ctx = bootstrap_context"
      using assms(4) token by (auto simp: authenticate_def and_then_Inr constant_time_token_eq_def)
    then show ?thesis using token True by (auto simp: bootstrap_context_def)
  next
    case False
    then have "authenticate_api_key world token s = Some (Inr ctx, s')"
      using assms(4) token by (auto simp: authenticate_def and_then_Inr constant_time_token_eq_def split: option.splits if_splits)
    then obtain found k where f: "Inr (Some found) = find_api_key_by_hash (aw_sha256 world token) ?d1"
      and touch: "touch_api_key_last_used ?t (kr_id found) ?d2 = (Inr k, ap_db s')"
      and ctx: "ctx = \<lparr>ax_actor = ''api_key:'' @ kr_id k, ax_key_id = Some (kr_id k), ax_project_id = Some (kr_project_id k),
        ax_scopes = kr_scopes k\<rparr>"
      by (auto simp: authenticate_api_key_def hash_api_key_def Let_def and_then_Inr repo_Inr map_failure_Inr api_query_iff
          api_call_def prod_eq_iff split: if_splits)
    obtain row0 where row0: "row0 \<in> set (db_api_keys ?d1)" "ak_key_hash row0 = aw_sha256 world token" "ak_id row0 = kr_id found"
      using find_api_key [OF f [symmetric]] into_record_fields by fastforce
    obtain row where row: "row \<in> set (db_api_keys ?d2)" "ak_id row = kr_id found" "ak_revoked_at row = None"
        "into_record (row\<lparr>ak_last_used_at := Some (tx_now ?t)\<rparr>) = Inr k"
        "row\<lparr>ak_last_used_at := Some (tx_now ?t)\<rparr> \<in> set (db_api_keys (ap_db s'))"
      using touched_key [OF touch] by blast
    have run: "repo_step\<^sup>*\<^sup>* d0 ?d1" "repo_step\<^sup>*\<^sup>* ?d1 ?d2"
      using assms(1) rtranclp_trans [OF assms(3)] by blast+
    have "key_evolves row0 row"
      using key_stays [OF repo.reachable_invariant [OF assms(2) run(1)] run(2) row0(1) row(1)] row0(3) row(2) by simp
    then have "key_grants world token (row\<lparr>ak_last_used_at := Some (tx_now ?t)\<rparr>) ctx"
      using row0(2) row(3) into_record_fields [OF row(4)] ctx by (simp add: key_grants_def key_evolves_def)
    then show ?thesis using token row(5) by blast
  qed
qed

definition keyed_db :: db where
  "keyed_db = snd (create_api_key (\<lambda>_. replicate 32 CHR ''a'') (\<lambda>s. s) (clock_at 5) ''key_1'' ''r'' ''proj_1'' [ProjectRead] sample_db)"

definition keyed_world :: ApiWorld where
  "keyed_world = sample_api_world\<lparr>aw_sha256 := (\<lambda>_. replicate 32 CHR ''a'')\<rparr>"

definition touched_db :: db where
  "touched_db = snd (touch_api_key_last_used (clock_at 20) ''key_1'' keyed_db)"

lemma keyed_calls:
  "api_query keyed_world f s = Some (f (ap_db s), s\<lparr>ap_calls := Suc (ap_calls s)\<rparr>)"
  "api_call keyed_world op s = Some (fst (op (clock_at 20) ''evt_9'' (replicate (Suc (ap_calls s)) CHR ''a'') (ap_db s)),
       s\<lparr>ap_db := snd (op (clock_at 20) ''evt_9'' (replicate (Suc (ap_calls s)) CHR ''a'') (ap_db s)), ap_calls := Suc (ap_calls s)\<rparr>)"
  by (simp_all add: api_query_def api_call_def keyed_world_def sample_api_world_def Let_def)

theorem authentication_is_grounded_witness:
  "\<exists>ctx s'. authenticate keyed_world None (Some (Some ''Bearer t'')) (sample_api keyed_db) = Some (Inr ctx, s')
     \<and> (\<exists>row \<in> set (db_api_keys (ap_db s')). key_grants keyed_world ''t'' row ctx)"
proof -
  have w: "\<forall>n d. repo_step\<^sup>*\<^sup>* d (ac_others (aw_call keyed_world n) d)" by (simp add: keyed_world_def sample_api_world_def)
  have "repo_step sample_db keyed_db" unfolding keyed_db_def by (rule repo_step.api_key)
  then have r: "repo_step\<^sup>*\<^sup>* sample_db (ap_db (sample_api keyed_db))" by (simp add: sample_api_def)
  have b: "bearer_token (Some (Some ''Bearer t'')) = Inr ''t''" by code_simp
  have "case find_api_key_by_hash (replicate 32 CHR ''a'') keyed_db of Inr (Some k) \<Rightarrow> kr_revoked_at k = None \<and> kr_id k = ''key_1'' | _ \<Rightarrow> False"
    by code_simp
  then obtain k where k: "find_api_key_by_hash (replicate 32 CHR ''a'') keyed_db = Inr (Some k)" "kr_revoked_at k = None" "kr_id k = ''key_1''"
    by (auto split: sum.splits option.splits)
  have "is_ok (fst (touch_api_key_last_used (clock_at 20) ''key_1'' keyed_db))" by code_simp
  then obtain q where q: "fst (touch_api_key_last_used (clock_at 20) ''key_1'' keyed_db) = Inr q" by (auto simp: is_ok_iff)
  have h: "hash_api_key (aw_sha256 keyed_world) ''t'' = replicate 32 CHR ''a''" by (simp add: hash_api_key_def keyed_world_def)
  obtain ctx s' where a: "authenticate keyed_world None (Some (Some ''Bearer t'')) (sample_api keyed_db) = Some (Inr ctx, s')"
    using k q by (auto simp: authenticate_def b authenticate_api_key_def h Let_def repo_def run_action keyed_calls ok_or_def sample_api_def)
  then show ?thesis using authentication_is_grounded [OF w sample_initial r a] b by auto
qed

section \<open>Debug sessions\<close>

text \<open>The library's time arithmetic is exact where it has a result.\<close>

definition exact_time :: "ApiWorld \<Rightarrow> bool" where
  "exact_time world \<longleftrightarrow> (\<forall>t d x. aw_checked_add world t d = Some x \<longrightarrow> x = t + d)
     \<and> (\<forall>d x. aw_from_std world d = Some x \<longrightarrow> x = d) \<and> (\<forall>n x. aw_duration_seconds world n = Some x \<longrightarrow> x = n * 1000000)"

lemma owned_job_Inr:
  "owned_job world auth j s = Some (Inr job, s1) \<Longrightarrow>
     get_job j (ac_others (aw_call world (ap_calls s)) (ap_db s)) = Inr (Some job) \<and> ax_project_id auth = Some (job_project_id job)
     \<and> ap_calls s1 = Suc (ap_calls s)"
  by (auto simp: owned_job_def repo_Inr and_then_Inr api_query_iff)

lemma session_expiry_Inr:
  assumes "session_expiry world state job s = Some (Inr expires_at, s1)" and "exact_time world"
  shows "s1 = s \<and> (\<exists>started. job_started_at job = Some started
     \<and> expires_at \<le> started + uint (job_timeout_seconds job) * 1000000
     \<and> expires_at \<le> aw_now world (ap_calls s) + st_debug_token_ttl state
     \<and> aw_now world (ap_calls s) + MINIMUM_TOKEN_LIFETIME \<le> expires_at)"
proof -
  let ?now = "aw_now world (ap_calls s)"
  obtain started ttl timeout deadline token_deadline earliest where
    "aw_from_std world (st_debug_token_ttl state) = Some ttl" "job_started_at job = Some started"
    "aw_duration_seconds world (uint (job_timeout_seconds job)) = Some timeout" "aw_checked_add world started timeout = Some deadline"
    "aw_checked_add world ?now ttl = Some token_deadline" "aw_checked_add world ?now MINIMUM_TOKEN_LIFETIME = Some earliest"
    "\<not> min deadline token_deadline < earliest" "expires_at = min deadline token_deadline" "s1 = s"
    using assms(1) unfolding session_expiry_def api_now_def and_then_Inr action_simps ok_or_eq_Inr
    by (elim exE conjE) (auto split: if_splits)
  then show ?thesis using assms(2) unfolding exact_time_def by (metis linorder_not_less min.cobounded1 min.cobounded2)
qed

lemma audited_session:
  assumes "create_debug_session_with_audit t new_session job jti creator mode expires_at payload d = (Inr (session, audit), d')"
  shows "session \<in> set (db_debug_sessions d') \<and> ds_id session = new_session \<and> ds_job_id session = job \<and> ds_jti session = jti
     \<and> ds_created_by session = creator \<and> ds_mode session = mode \<and> ds_expires_at session = expires_at \<and> ds_ended_at session = None"
  using assms
  by (auto simp: create_debug_session_with_audit_def commit_then_eq_Inr audited_session_body_def insert_debug_session_def
      insert_audit_def session_of_row_def Let_def statement_inv)

text \<open>
  C17. A debug session is granted only to a caller with the \<open>debug_create\<close> scope, for a job of its own
  project that is being debugged; it expires no later than the job's deadline and no later than the
  configured lifetime from now, and at least thirty seconds from now.  The database then holds the
  session, open, with that expiry; and the token is the issuer's signature on exactly that session: its
  job and identifier as audience, its token identifier, its mode and its expiry in seconds.
\<close>

theorem debug_session_is_bounded:
  assumes "exact_time world"
    and "create_debug_session_handler world state auth path mode s = Some (Inr (code, granted), s')"
  shows "\<exists>job started session.
     get_job path (ac_others (aw_call world (ap_calls s)) (ap_db s)) = Inr (Some job)
     \<and> ax_project_id auth = Some (job_project_id job) \<and> DebugCreate \<in> set (ax_scopes auth)
     \<and> job_state job = DebugAvailable \<and> job_started_at job = Some started
     \<and> dt_expires_at granted \<le> started + uint (job_timeout_seconds job) * 1000000
     \<and> dt_expires_at granted \<le> aw_now world (Suc (ap_calls s)) + st_debug_token_ttl state
     \<and> aw_now world (Suc (ap_calls s)) + 30000000 \<le> dt_expires_at granted
     \<and> session \<in> set (db_debug_sessions (ap_db s')) \<and> ds_ended_at session = None
     \<and> ds_id session = dt_session_id granted \<and> ds_job_id session = job_id job \<and> ds_created_by session = ax_actor auth
     \<and> ds_mode session = mode \<and> ds_expires_at session = dt_expires_at granted
     \<and> encode_claims (st_debug_tokens state) \<lparr>dc_aud = job_id job @ '':'' @ ds_id session, dc_jti = ds_jti session, dc_mode = mode,
           dc_exp = timestamp (dt_expires_at granted)\<rparr> = Inr (dt_token granted)"
proof -
  obtain job s1 expires_at jti session audit s4 where
    scope: "DebugCreate \<in> set (ax_scopes auth)" and job: "owned_job world auth path s = Some (Inr job, s1)"
    and available: "job_state job = DebugAvailable" and expiry: "session_expiry world state job s1 = Some (Inr expires_at, s1)"
    and stored: "api_call world (\<lambda>t _ new. create_debug_session_with_audit t (''dbg_'' @ new) (job_id job) jti (ax_actor auth) mode
        expires_at (session_audit job mode expires_at)) s1 = Some (Inr (session, audit), s4)"
    and token: "mint world (st_debug_tokens state) (job_id job) (ds_id session) jti mode expires_at s4 = Some (Inr (dt_token granted), s4)"
    and granted: "dt_session_id granted = ds_id session" "dt_expires_at granted = expires_at" "s' = s4"
    using assms(2) session_expiry_Inr [OF _ assms(1)]
    by (fastforce simp: create_debug_session_handler_def and_then_Inr api_fresh_def Let_def repo_Inr map_failure_Inr mint_def api_now_def
        split: prod.splits)
  have "session \<in> set (db_debug_sessions (ap_db s4)) \<and> ds_job_id session = job_id job \<and> ds_jti session = jti
     \<and> ds_created_by session = ax_actor auth \<and> ds_mode session = mode \<and> ds_expires_at session = expires_at \<and> ds_ended_at session = None"
    using stored audited_session by (fastforce simp: api_call_def Let_def prod_eq_iff)
  moreover have "encode_claims (st_debug_tokens state) \<lparr>dc_aud = job_id job @ '':'' @ ds_id session, dc_jti = jti, dc_mode = mode,
      dc_exp = timestamp expires_at\<rparr> = Inr (dt_token granted)"
    using token by (auto simp: mint_def and_then_Inr mint_at_def result_inv map_err_eq_Inr)
  ultimately show ?thesis
    using owned_job_Inr [OF job] session_expiry_Inr [OF expiry assms(1)] scope available granted
    by (auto simp: MINIMUM_TOKEN_LIFETIME_def)
qed

definition debugged_db :: db where
  "debugged_db = db_claimed\<lparr>db_jobs := map (\<lambda>r. r\<lparr>jr_state := DebugAvailable, jr_started_at := Some 15,
     jr_pending_outcome := Some JobOutcome.Passed\<rparr>) (db_jobs db_claimed)\<rparr>"

definition debug_state_of_api :: AppState where
  "debug_state_of_api = \<lparr>st_object_store = \<lparr>os_bucket = ''b'', os_put_ttl = 1, os_get_ttl = 1\<rparr>,
     st_debug_tokens = \<lparr>di_kid = ''k'', di_sign = (\<lambda>_ claims. Inr (dc_jti claims))\<rparr>, st_webhook_dispatcher =
       \<lparr>wx_permits = 8, wx_policy = \<lparr>wp_allow_private_networks = False\<rparr>, wx_timeout = 3\<rparr>,
     st_cursors = sample_cursors, st_debug_token_ttl = 45000000, st_debug_gateway_base_url = ''http:g''\<rparr>"

definition debug_caller :: AuthContext where
  "debug_caller = \<lparr>ax_actor = ''api_key:key_1'', ax_key_id = Some ''key_1'', ax_project_id = Some ''proj_1'',
     ax_scopes = [ProjectRead, ProjectWrite, DebugCreate]\<rparr>"

lemma sample_exact: "exact_time sample_api_world"
  by (simp add: exact_time_def sample_fields)

lemma debugged_job: "\<exists>job. get_job ''job_1'' debugged_db = Inr (Some job) \<and> job_project_id job = ''proj_1'' \<and> job_state job = DebugAvailable
    \<and> job_started_at job = Some 15 \<and> job_timeout_seconds job = 60 \<and> job_id job = ''job_1''"
proof -
  have "case get_job ''job_1'' debugged_db of Inr (Some job) \<Rightarrow> job_project_id job = ''proj_1'' \<and> job_state job = DebugAvailable
      \<and> job_started_at job = Some 15 \<and> job_timeout_seconds job = 60 \<and> job_id job = ''job_1'' | _ \<Rightarrow> False" by code_simp
  then show ?thesis by (auto split: sum.splits option.splits)
qed

lemma debugged_session: "\<exists>session audit. fst (create_debug_session_with_audit (clock_at 20) ''dbg_aa'' ''job_1'' ''jti_aa'' ''api_key:key_1''
    Viewer 45000020 payload debugged_db) = Inr (session, audit) \<and> ds_id session = ''dbg_aa''"
proof -
  obtain job where "get_job ''job_1'' debugged_db = Inr (Some job)" "job_state job = DebugAvailable" using debugged_job by blast
  then obtain row where "lock_job ''job_1'' debugged_db = Some row" "jr_state row = DebugAvailable"
    by (auto simp: get_job_def into_job_def bind_result_def split: option.splits sum.splits)
  then have l1: "lock_debug_session_job ''job_1'' debugged_db = Inr DebugAvailable"
    by (simp add: lock_debug_session_job_def ok_or_def)
  have "let d = db_claimed in db_debug_sessions d = [] \<and> db_audit_log d = [] \<and> db_audit_sequence d = 0" by code_simp
  then have l: "lock_debug_session_job ''job_1'' debugged_db = Inr DebugAvailable" "db_debug_sessions debugged_db = []"
    "db_audit_log debugged_db = []" "db_audit_sequence debugged_db = 0"
    using l1 by (simp_all add: debugged_db_def Let_def)
  have v: "validate_debug_session ''jti_aa'' ''api_key:key_1'' = Inr ()" by code_simp
  let ?row = "\<lparr>ds_id = ''dbg_aa'', ds_job_id = ''job_1'', ds_jti = ''jti_aa'', ds_created_by = ''api_key:key_1'', ds_mode = Viewer,
      ds_created_at = 20, ds_expires_at = 45000020, ds_ended_at = None\<rparr>"
  have r: "debug_sessions_violation ?row = None" "session_of_row ?row = Inr ?row" by code_simp+
  have a: "audit_log_violation (audit_row (clock_at 20) ''api_key:key_1'' ''debug_session.created'' ''dbg_aa'' payload d) = None"
    if "db_audit_sequence d = 0" for d
  proof -
    have "btrim_nonempty ''api_key:key_1''" "btrim_nonempty ''debug_session.created''" "btrim_nonempty ''dbg_aa''" by code_simp+
    then show ?thesis using that by (simp add: audit_log_violation_def audit_row_def in_bigint_def)
  qed
  have "end_expired_debug_session (clock_at 20) ''job_1'' debugged_db = Inr debugged_db"
    using l(2) by (simp add: end_expired_debug_session_def update_sessions_def sql_update_def update_rows_def List.map_filter_def)
  then show ?thesis
    using l v r a by (simp add: create_debug_session_with_audit_def audited_session_body_def insert_debug_session_def insert_audit_def ensure_def
        sql_insert_def map_err_def commit_then_def clock_at_def Let_def)
qed

theorem debug_session_is_bounded_witness:
  "\<exists>granted s'. create_debug_session_handler sample_api_world debug_state_of_api debug_caller ''job_1'' Viewer (sample_api debugged_db)
       = Some (Inr (201, granted), s')
     \<and> dt_expires_at granted \<le> 20 + 45000000 \<and> 20 + 30000000 \<le> dt_expires_at granted"
proof -
  obtain job where job: "get_job ''job_1'' debugged_db = Inr (Some job)" "job_project_id job = ''proj_1''" "job_state job = DebugAvailable"
      "job_started_at job = Some 15" "job_timeout_seconds job = 60" "job_id job = ''job_1''"
    using debugged_job by blast
  let ?s1 = "(sample_api debugged_db)\<lparr>ap_calls := Suc 0\<rparr>"
  have o1: "owned_job sample_api_world debug_caller ''job_1'' (sample_api debugged_db) = Some (Inr job, ?s1)"
    using job(1,2) by (simp add: owned_job_def repo_def run_action sample_calls require_owned_resource_def debug_caller_def ok_or_def sample_api_def)
  have e: "session_expiry sample_api_world debug_state_of_api job ?s1 = Some (Inr 45000020, ?s1)"
    using job(3-5) by (simp add: session_expiry_def run_action sample_calls sample_fields ok_or_def ensure_def expect_def debug_state_of_api_def
        MINIMUM_TOKEN_LIFETIME_def)
  have u: "Uri_new (''http:g'' @ ''/sessions/'' @ ''dbg_aa'') = Inr (''http:g'' @ ''/sessions/'' @ ''dbg_aa'')" by code_simp
  have v: "validate_jti ''jti_aa'' = Inr ()" by code_simp
  obtain session audit where c: "fst (create_debug_session_with_audit (clock_at 20) ''dbg_aa'' ''job_1'' ''jti_aa'' ''api_key:key_1''
      Viewer 45000020 (session_audit job Viewer 45000020) debugged_db) = Inr (session, audit)" "ds_id session = ''dbg_aa''"
    using debugged_session by blast
  have m: "mint_at (st_debug_tokens debug_state_of_api) ''job_1'' ''dbg_aa'' ''jti_aa'' Viewer 45000020 20 = Inr ''jti_aa''"
    by (simp add: mint_at_def v ensure_def encode_claims_def debug_state_of_api_def map_err_def)
  have "\<exists>granted s'. create_debug_session_handler sample_api_world debug_state_of_api debug_caller ''job_1'' Viewer (sample_api debugged_db)
       = Some (Inr (201, granted), s')"
  proof -
    have f: "require_scope debug_caller DebugCreate = Inr ()" "ax_actor debug_caller = ''api_key:key_1''"
      "st_debug_gateway_base_url debug_state_of_api = ''http:g''"
      by (simp_all add: require_scope_def has_scope_def debug_caller_def debug_state_of_api_def)
    have p: "ap_db (sample_api debugged_db) = debugged_db" by (simp add: sample_api_def)
    show ?thesis
      using c u job(3,6) m
      by (simp add: create_debug_session_handler_def run_action o1 e f sample_calls ensure_def repo_def Let_def mint_def p map_err_def)
  qed
  then show ?thesis
    using debug_session_is_bounded [OF sample_exact] by (fastforce simp: sample_fields debug_state_of_api_def)
qed

end
