(* ===== verification/Spec2Isabelle.thy ===== *)
theory Spec2Isabelle
  imports Fairness Job_Claiming Job_Recovery Outbox_Leasing Subjects Acknowledgements Delivery Control_Safety
    Dispatcher_Safety Reconciler_Safety Reconciler_Locks Config_Safety
    Repo_Paging Api_Webhook_Outbox Api_Config Api_Isolation Api_Stream_End Api_Safety
begin

text \<open>
  \<^bold>\<open>A verified model of the Run Android Anywhere control plane.\<close>

  \<^bold>\<open>The program.\<close> A service that runs Android test jobs on a fleet of workers.  The HTTP API creates
  jobs in PostgreSQL; an outbox publishes a queue message per job to NATS JetStream; the scheduler
  buffers deliveries fairly, claims each job for a matching worker under an expiring lease, and
  serves the workers' registrations, heartbeats, transitions and results; expired leases are found
  and their jobs requeued, cancelled or dead-lettered.  PostgreSQL is the only source of truth, every
  change is a compare-and-swap inside one transaction, and the bus only carries hints.

  \<^bold>\<open>Theories and sources\<close> (paths under \<open>src/\<close>).
  \<^item> \<open>Prelude\<close>: results as sums, \<open>bind_result\<close>, list updates by predicate, and the fact collections the
    proofs share.  \<open>Transition_System\<close>: locales of systems with an invariant and with a preserved
    order.  \<open>Ordered_Map\<close>: the laws of \<open>BTreeMap\<close> as a locale, interpreted on sorted lists.
  \<^item> \<open>State_Machine\<close>: \<open>crates/contracts/src/state_machine.rs\<close>, with an inductive lifecycle relation as
    specification.  \<open>Primitives\<close>: \<open>primitives.rs\<close>.  \<open>Contracts\<close>: \<open>api.rs\<close>, \<open>runtime.rs\<close>, \<open>worker.rs\<close>,
    \<open>error.rs\<close> of the same crate.
  \<^item> \<open>Fairness\<close>: \<open>crates/scheduler/src/fairness.rs\<close>, the two-lane buffer.
  \<^item> \<open>Database\<close>: tables as lists of row records, CHECK and foreign key constraints from
    \<open>migrations/\<close>, \<open>rows.rs\<close>, \<open>codec.rs\<close>, \<open>error.rs\<close> of \<open>crates/repository/src\<close>.  A statement is a
    function from the database to an error or an answer with the new database; a transaction that
    fails leaves the database as it was (\<open>commit_then\<close>).
  \<^item> \<open>Repo_Outbox\<close>, \<open>Repo_Jobs\<close>, \<open>Repo_Lifecycle\<close>, \<open>Repo_Workers\<close>: \<open>outbox.rs\<close>, \<open>jobs.rs\<close>,
    \<open>workers.rs\<close>, one definition per repository call; the WHERE clause, the SET list and the
    transaction body of a call are definitions of their own.
  \<^item> \<open>Repo_Accounts\<close>, \<open>Repo_Sessions\<close>: projects, API keys, uploads and webhooks of \<open>auth.rs\<close>,
    \<open>uploads.rs\<close> and \<open>misc.rs\<close>; debug sessions and the audit log of \<open>misc.rs\<close>.  \<open>Repo_Records\<close>: how
    these tables evolve (a revoked key stays revoked, a job has at most one open session, the audit
    log grows).
  \<^item> \<open>Repo_Frame\<close>, \<open>Repo_Invariants\<close>, \<open>Repo_System\<close>, \<open>Repo_Safety\<close>: the step relation \<open>repo_step\<close> of
    every repository call with any arguments, its invariant \<open>full_inv\<close>, and what holds of every
    reachable database.  \<open>Job_Claiming\<close>, \<open>Job_Recovery\<close>, \<open>Outbox_Leasing\<close>: the behaviour of the calls.
  \<^item> \<open>Subjects\<close>: \<open>subjects.rs\<close>, \<open>security.rs\<close> and the subject parser of \<open>control.rs\<close> in
    \<open>crates/scheduler/src\<close>.  \<open>Acknowledgements\<close>: \<open>acknowledgements.rs\<close>.  \<open>Delivery\<close>: \<open>delivery.rs\<close>.
    \<open>Control\<close> and \<open>Control_Safety\<close>: the request handlers of \<open>control.rs\<close> over the database and the
    acknowledgement registry, with other transactions between any two repository calls.
  \<^item> \<open>Actions\<close>, \<open>Scheduler_World\<close>: the tasks of the scheduler as actions with errors, panics and calls
    that never return, over the database, the registry and a log of the requests sent; a locale lifts
    a relation from the primitives to whole tasks.  \<open>Task_Runs\<close>: every task is a run of the
    repository and only appends to the log.  \<open>Sample_World\<close>: an environment for concrete runs.
  \<^item> \<open>Dlq\<close>: \<open>dlq.rs\<close>.  \<open>Advisory\<close>, \<open>Advisory_Safety\<close>: \<open>advisory.rs\<close>.  \<open>Reaper\<close>: \<open>reaper.rs\<close>, with a
    locale of runtime reapers.  \<open>Reconciler\<close>, \<open>Reconciler_Safety\<close>, \<open>Reconciler_Locks\<close>: \<open>reconciler.rs\<close>,
    one definition per branch of its pass; its maps behind mutexes are part of the state.
  \<^item> \<open>Dispatcher\<close>: \<open>dispatcher.rs\<close>, one definition per branch of \<open>accept_delivery\<close> and \<open>dispatch_one\<close>,
    and the tick and the receiving arm of its loop; the fair buffer extends the task's state.
    \<open>Dispatcher_Buffer\<close>: the buffer under the dispatcher.  \<open>Dispatcher_Safety\<close>: the requests to workers.
    \<open>Sample_Dispatch\<close>: a tick evaluated on a concrete state.
  \<^item> \<open>Environment\<close>, \<open>Scheduler_Config\<close>, \<open>Topology\<close>: the scheduler's \<open>config.rs\<close> and \<open>topology.rs\<close>.
    \<open>Config_Safety\<close>: what an accepted configuration gives the other parts.

  \<^item> \<open>Repo_Pages\<close>, \<open>Repo_Paging\<close>: the paginated listings of \<open>jobs.rs\<close>, \<open>workers.rs\<close> and \<open>misc.rs\<close>
    with the cursors of \<open>codec.rs\<close>.
  \<^item> \<open>Api_World\<close>: the handlers of \<open>crates/api/src\<close> as actions over the database, the service calls and a
    log of what left the process.  \<open>Api_Auth\<close>: \<open>error.rs\<close>, \<open>auth.rs\<close>, \<open>params.rs\<close>.  \<open>Api_Objects\<close>:
    \<open>object_store.rs\<close>, \<open>service_error.rs\<close>, \<open>debug_token.rs\<close>.  \<open>Api_Handlers\<close>: \<open>jobs.rs\<close>, \<open>projects.rs\<close>,
    \<open>uploads.rs\<close>, \<open>artifacts.rs\<close>, \<open>workers.rs\<close>, \<open>runtime_profiles.rs\<close>, \<open>debug_sessions.rs\<close> and the
    registration of \<open>webhooks.rs\<close>.  \<open>Api_Events\<close>, \<open>Api_Stream_End\<close>: \<open>events.rs\<close>.  \<open>Api_Router\<close>: \<open>router.rs\<close>, the scopes of the
    routes and the path of a request from its header to its status.
  \<^item> \<open>Api_Queue\<close>, \<open>Api_Queue_Safety\<close>: \<open>queue.rs\<close>, the outbox dispatcher.  \<open>Api_Webhook\<close>,
    \<open>Api_Webhook_Safety\<close>: \<open>webhook.rs\<close>, the address checks and the delivery.  \<open>Api_Webhook_Outbox\<close>: the
    dispatcher of \<open>webhooks.rs\<close>.  \<open>Api_Config\<close>: \<open>config.rs\<close> and \<open>nats_connection.rs\<close>.
    \<open>Api_Safety\<close>: authentication and debug sessions.  \<open>Api_Isolation\<close>: two runs whose databases agree on a
    project.  \<open>Sample_Api\<close>: an environment for concrete runs.

  \<^bold>\<open>Conventions.\<close> Time is microseconds (\<open>instant\<close>, \<open>duration\<close>, integers); a transaction gets its
  \<open>now()\<close>, \<open>statement_timestamp()\<close> and \<open>clock_timestamp()\<close> and fresh identifiers as arguments.  Rust
  integers on the wire are words of their width, database integers are integers with the range
  checks of the column.  JSON codecs, the JetStream server's answers and the conversions of time
  types are arguments.  Rows are read under \<open>FOR UPDATE\<close>, so that a call is one atomic step.

  \<^bold>\<open>What the theorems show.\<close> Lifecycle: the validator accepts exactly the lifecycle relation, and a job
  ends only through finalisation.  Database: capacity counters and quotas are exact in every
  reachable database, stored jobs obey the lifecycle, terminal rows are frozen, creation is
  idempotent, claims are exclusive, stale leases are fenced, recovery does what attempts and pending
  outcome require, the event log is append-only and the outbox leases and publishes each message
  under one holder.  Buffer: nothing is lost or duplicated, lanes are served by weight, projects in
  turn, and old batch work is never starved.  Messages: subjects identify workers, workers are
  isolated on the bus and in the database, deliveries are decided by the stored job, confirmation of
  an acknowledgement returns and confirms only its own lease, and an accepted final result is in the
  database.  Dispatch: a worker is asked to run a job only under a lease granted to it, and no delivery
  falls out of the buffer unnoticed.  Recovery: an advisory deletes a queue message only when nothing is lost by it, a runtime
  is reaped only after a grace period without an owner, and a pending cancellation is never settled,
  because the code that would settle it waits for a lock it holds.  Configuration: an accepted one orders
  the timings and sizes the way the buffer, the topology and the leases need them, and provisioning
  changes only streams it understands.  API: a webhook request leaves only for
  addresses outside the refused blocks, resolved and checked in the same attempt, and only for the
  registration its message names; a queue message is marked published only after an acknowledged
  publication; following the cursors of a listing yields every job once and in order; the stream of a
  job's events follows its log without gaps or repetitions, but may end before the job's last event; every route is its handler under the scope
  it declares; a caller's reads do not depend on other projects' rows; a caller is the bearer of a key in
  the database; a debug token outlives neither its configured time nor its session's job.

  \<^bold>\<open>Loops.\<close> The finaliser of a result is bounded by six rounds in the source, which the model's
  counter starts with.  The confirmation loop has no bound in the source and is a partial function;
  it is proved to return once rebinding stops.  The two dispatchers of the API and the event stream run
  until they are stopped, so that they are partial functions too, and what is proved of them is
  proved of every turn.  Every other loop is structural.

  \<^bold>\<open>Not modelled.\<close> The HTTP transport around the router: extraction of JSON bodies, the request
  timeout, the panic handler, request identifiers, metrics and tracing; process start-up and the
  supervision of the API's background tasks (\<open>app.rs\<close>), connections and logging, which are input and
  output; the worker binary, which is a placeholder.
\<close>

end
